(* ===== verification/TC_Prelude.thy ===== *)
theory TC_Prelude
  imports Main "HOL-Library.Word" "HOL-Library.Sublist" "HOL-Library.Char_ord"
begin

section \<open>Shared vocabulary: errors, byte strings, decimal and hexadecimal numbers\<close>

text \<open>
  What every component of testcontainers-cpp shares.  \<open>std::string\<close> is a byte
  sequence, so it is modelled by \<^typ>\<open>string\<close>, whose characters are bytes.  The
  exceptions of \<open>include/testcontainers/Error.hpp\<close> are the values of \<open>exn\<close>, and a
  function that may throw returns \<open>exn + 'a\<close>.  The rest of the theory gives the parts of the
  C++ standard library that the sources use on strings and numbers (\<open>find\<close>, \<open>rfind\<close>,
  \<open>substr\<close>, \<open>std::to_string\<close>, \<open>std::from_chars\<close>, \<open>std::getline\<close>) and the generic
  lemmas the component theories share.
\<close>

named_theorems str_simps \<open>facts on the string library\<close>
named_theorems op_defs \<open>definitions a property unfolds to reach the operation it is about\<close>

subsection \<open>Exceptions\<close>

text \<open>
  The class hierarchy of \<open>Error.hpp\<close>: \<open>NotFoundError\<close> and \<open>TransportTimeoutError\<close>
  derive from \<open>DockerError\<close>, \<open>StartupTimeoutError\<close> derives from \<open>Error\<close> directly.
  \<open>Foreign\<close> is any other exception (a hook's, the standard library's, nlohmann's).
\<close>

datatype exn =
    Error string
  | DockerError string "int option" string
  | NotFoundError string string
  | TransportTimeoutError string string
  | StartupTimeoutError string string
  | Foreign string

type_synonym 'a res = "exn + 'a"

fun is_docker_error :: "exn \<Rightarrow> bool" where
  "is_docker_error (DockerError _ _ _) = True"
| "is_docker_error (NotFoundError _ _) = True"
| "is_docker_error (TransportTimeoutError _ _) = True"
| "is_docker_error _ = False"

fun exn_status :: "exn \<Rightarrow> int option" where
  "exn_status (DockerError _ c _) = c"
| "exn_status (NotFoundError _ _) = Some 404"
| "exn_status _ = None"

fun exn_what :: "exn \<Rightarrow> string" where
  "exn_what (Error w) = w"
| "exn_what (DockerError w _ _) = w"
| "exn_what (NotFoundError w _) = w"
| "exn_what (TransportTimeoutError w _) = w"
| "exn_what (StartupTimeoutError w _) = w"
| "exn_what (Foreign w) = w"

subsection \<open>Searching and cutting strings\<close>

text \<open>\<open>s.find(c)\<close>; \<open>None\<close> is \<open>npos\<close>.\<close>

fun find_char :: "char \<Rightarrow> string \<Rightarrow> nat option" where
  "find_char c [] = None"
| "find_char c (x # xs) = (if x = c then Some 0 else map_option Suc (find_char c xs))"

text \<open>\<open>s.rfind(c)\<close>.\<close>

fun rfind_char :: "char \<Rightarrow> string \<Rightarrow> nat option" where
  "rfind_char c [] = None"
| "rfind_char c (x # xs) =
     (case rfind_char c xs of
        Some i \<Rightarrow> Some (Suc i)
      | None \<Rightarrow> (if x = c then Some 0 else None))"

text \<open>\<open>s.rfind(p, 0) == 0\<close>, i.e.\ \<open>s\<close> starts with \<open>p\<close>.\<close>

definition starts_with :: "string \<Rightarrow> string \<Rightarrow> bool" where
  "starts_with p s \<longleftrightarrow> take (length p) s = p"

definition ends_with :: "string \<Rightarrow> string \<Rightarrow> bool" where
  "ends_with p s \<longleftrightarrow> length p \<le> length s \<and> drop (length s - length p) s = p"

text \<open>\<open>s.find(needle)\<close> for a string needle: the least match position.\<close>

fun find_str :: "string \<Rightarrow> string \<Rightarrow> nat option" where
  "find_str n [] = (if n = [] then Some 0 else None)"
| "find_str n (x # xs) =
     (if starts_with n (x # xs) then Some 0 else map_option Suc (find_str n xs))"

lemma find_char_None: "find_char c s = None \<longleftrightarrow> c \<notin> set s"
  by (induction s) auto

lemma find_char_notin [simp, str_simps]: "c \<notin> set s \<Longrightarrow> find_char c s = None"
  by (simp add: find_char_None)

lemma find_char_Some:
  "find_char c s = Some i \<Longrightarrow> i < length s \<and> s ! i = c \<and> c \<notin> set (take i s)"
proof (induction s arbitrary: i)
  case (Cons x xs)
  then show ?case by (cases i) (auto split: if_splits)
qed simp

lemma find_char_append:
  "find_char c (xs @ ys) =
     (case find_char c xs of
        Some i \<Rightarrow> Some i
      | None \<Rightarrow> map_option (\<lambda>j. length xs + j) (find_char c ys))"
  by (induction xs; cases "find_char c ys") (auto split: option.splits)

lemma find_char_first [simp, str_simps]:
  "c \<notin> set xs \<Longrightarrow> find_char c (xs @ c # ys) = Some (length xs)"
  by (induction xs) auto

lemma rfind_char_None: "rfind_char c s = None \<longleftrightarrow> c \<notin> set s"
  by (induction s) (auto split: option.splits)

lemma rfind_char_notin [simp, str_simps]: "c \<notin> set s \<Longrightarrow> rfind_char c s = None"
  by (simp add: rfind_char_None)

lemma rfind_char_last [simp, str_simps]:
  "c \<notin> set ys \<Longrightarrow> rfind_char c (xs @ c # ys) = Some (length xs)"
proof (induction xs)
  case Nil
  then have "rfind_char c ys = None" by simp
  then show ?case by simp
qed simp

lemma rfind_char_Some:
  "rfind_char c s = Some i \<Longrightarrow> i < length s \<and> s ! i = c \<and> c \<notin> set (drop (Suc i) s)"
proof (induction s arbitrary: i)
  case (Cons x xs)
  show ?case
  proof (cases "rfind_char c xs")
    case None
    then have "c \<notin> set xs" by (simp add: rfind_char_None)
    with None show ?thesis using Cons.prems by (auto split: if_splits)
  next
    case (Some j)
    then show ?thesis using Cons by auto
  qed
qed simp

lemma starts_with_append [simp]: "starts_with p (p @ s)"
  by (simp add: starts_with_def)

lemma starts_with_iff: "starts_with p s \<longleftrightarrow> (\<exists>t. s = p @ t)"
  by (metis append_eq_conv_conj starts_with_def)

lemma find_str_Some:
  "find_str n s = Some i \<Longrightarrow> i + length n \<le> length s \<and> starts_with n (drop i s)"
proof (induction s arbitrary: i)
  case Nil
  then show ?case by (auto split: if_splits simp: starts_with_def)
next
  case (Cons x xs)
  show ?case
  proof (cases "starts_with n (x # xs)")
    case True
    then obtain t where "x # xs = n @ t" by (auto simp: starts_with_iff)
    then have "length n \<le> length (x # xs)" by simp
    with True Cons.prems show ?thesis by simp
  next
    case False
    with Cons show ?thesis by auto
  qed
qed

lemma find_str_least: "find_str n s = Some i \<Longrightarrow> j < i \<Longrightarrow> \<not> starts_with n (drop j s)"
proof (induction s arbitrary: i j)
  case Nil
  then show ?case by (auto split: if_splits)
next
  case (Cons x xs)
  then show ?case by (cases j) (auto split: if_splits)
qed

lemma find_str_None: "find_str n s = None \<longleftrightarrow> (\<forall>j \<le> length s. \<not> starts_with n (drop j s))"
proof (induction s)
  case Nil
  then show ?case by (auto simp: starts_with_def)
next
  case (Cons x xs)
  have "(\<forall>j \<le> length (x # xs). \<not> starts_with n (drop j (x # xs))) \<longleftrightarrow>
      \<not> starts_with n (x # xs) \<and> (\<forall>j \<le> length xs. \<not> starts_with n (drop j xs))"
    by (metis Suc_le_mono drop0 drop_Suc_Cons length_Cons not0_implies_Suc zero_le)
  with Cons show ?case by simp
qed

text \<open>The pieces around the first / last occurrence: \<open>substr(0, i)\<close> and \<open>substr(i + 1)\<close>.\<close>

definition split_first :: "char \<Rightarrow> string \<Rightarrow> (string \<times> string) option" where
  "split_first c s = map_option (\<lambda>i. (take i s, drop (Suc i) s)) (find_char c s)"

lemma split_first_None: "split_first c s = None \<longleftrightarrow> c \<notin> set s"
  by (simp add: split_first_def find_char_None)

lemma split_first_notin [simp, str_simps]: "c \<notin> set s \<Longrightarrow> split_first c s = None"
  by (simp add: split_first_None)

lemma split_first_Some:
  "split_first c s = Some (a, b) \<Longrightarrow> s = a @ c # b \<and> c \<notin> set a"
  by (auto simp: split_first_def dest!: find_char_Some simp: id_take_nth_drop [symmetric])

lemma split_first_eq [simp, str_simps]:
  "c \<notin> set a \<Longrightarrow> split_first c (a @ c # b) = Some (a, b)"
  by (simp add: split_first_def)

text \<open>\<open>std::getline\<close> over a whole stream: a final line without a newline is delivered,
  an empty rest after the last newline is not.\<close>

function getlines :: "string \<Rightarrow> string list" where
  "getlines s =
     (if s = [] then []
      else case split_first (CHR 0x0A) s of
             None \<Rightarrow> [s]
           | Some (line, rest) \<Rightarrow> line # getlines rest)"
  by pat_completeness auto
termination
  by (relation "measure length") (auto dest: split_first_Some)

declare getlines.simps [simp del]

lemma getlines_Nil [simp]: "getlines [] = []"
  by (simp add: getlines.simps)

lemma getlines_line [simp]:
  "CHR 0x0A \<notin> set l \<Longrightarrow> getlines (l @ CHR 0x0A # rest) = l # getlines rest"
  by (subst getlines.simps) simp

lemma getlines_last [simp]: "CHR 0x0A \<notin> set l \<Longrightarrow> l \<noteq> [] \<Longrightarrow> getlines l = [l]"
  by (subst getlines.simps) (auto simp: split_first_def split: option.splits)

lemma getlines_no_newline: "l \<in> set (getlines s) \<Longrightarrow> CHR 0x0A \<notin> set l"
proof (induction s rule: getlines.induct)
  case (1 s)
  show ?case
  proof (cases "split_first (CHR 0x0A) s")
    case None
    with "1.prems" show ?thesis
      by (subst (asm) getlines.simps) (auto split: if_splits simp: split_first_None)
  next
    case (Some p)
    then obtain a b where p: "split_first (CHR 0x0A) s = Some (a, b)" by (cases p) auto
    then have "s \<noteq> []" and "CHR 0x0A \<notin> set a" by (auto dest: split_first_Some)
    moreover from this have "getlines s = a # getlines b" using p by (subst getlines.simps) simp
    ultimately show ?thesis using "1.prems" "1.IH" p by auto
  qed
qed

subsection \<open>Numbers in text\<close>

definition digit_char :: "nat \<Rightarrow> char" where
  "digit_char d = char_of (48 + d)"

text \<open>\<open>std::to_string\<close> on unsigned values.\<close>

fun to_dec :: "nat \<Rightarrow> string" where
  "to_dec n = (if n < 10 then [digit_char n] else to_dec (n div 10) @ [digit_char (n mod 10)])"

declare to_dec.simps [simp del]

definition int_dec :: "int \<Rightarrow> string" where
  "int_dec i = (if i < 0 then ''-'' @ to_dec (nat (- i)) else to_dec (nat i))"

definition is_digit :: "char \<Rightarrow> bool" where
  "is_digit c \<longleftrightarrow> CHR ''0'' \<le> c \<and> c \<le> CHR ''9''"

definition dec_value :: "string \<Rightarrow> nat" where
  "dec_value ds = foldl (\<lambda>v c. 10 * v + (of_char c - 48)) 0 ds"

text \<open>
  \<open>std::from_chars\<close> in base 10 on an unsigned type whose largest value is \<open>mx\<close>:
  the longest digit prefix is read; no digit is \<open>invalid_argument\<close> and a value above
  \<open>mx\<close> is \<open>result_out_of_range\<close> (both \<open>None\<close>); otherwise the value and the unread rest.
\<close>

definition from_chars_dec :: "nat \<Rightarrow> string \<Rightarrow> (nat \<times> string) option" where
  "from_chars_dec mx s =
     (let ds = takeWhile is_digit s in
      if ds = [] \<or> mx < dec_value ds then None else Some (dec_value ds, dropWhile is_digit s))"

text \<open>The full-match use of it: \<open>ec == errc{} \<and> ptr == end\<close>.\<close>

definition parse_dec :: "nat \<Rightarrow> string \<Rightarrow> nat option" where
  "parse_dec mx s = (case from_chars_dec mx s of Some (v, []) \<Rightarrow> Some v | _ \<Rightarrow> None)"

lemma of_char_digit [simp]: "d < 10 \<Longrightarrow> of_char (digit_char d) = (48 + d :: nat)"
  by (simp add: digit_char_def)

lemma is_digit_iff: "is_digit c \<longleftrightarrow> 48 \<le> (of_char c :: nat) \<and> (of_char c :: nat) \<le> 57"
  by (simp add: is_digit_def less_eq_char_def)

lemma is_digit_digit [simp]: "d < 10 \<Longrightarrow> is_digit (digit_char d)"
  by (simp add: is_digit_iff)

lemma to_dec_nonempty [simp]: "to_dec n \<noteq> []"
  by (subst to_dec.simps) simp

lemma to_dec_digits: "c \<in> set (to_dec n) \<Longrightarrow> is_digit c"
proof (induction n rule: to_dec.induct)
  case (1 n)
  then show ?case by (subst (asm) (2) to_dec.simps) (auto split: if_splits)
qed

lemma takeWhile_to_dec [simp]: "takeWhile is_digit (to_dec n) = to_dec n"
  by (simp add: takeWhile_eq_all_conv to_dec_digits)

lemma dropWhile_to_dec [simp]: "dropWhile is_digit (to_dec n) = []"
  by (simp add: dropWhile_eq_Nil_conv to_dec_digits)

lemma dec_value_snoc [simp]: "dec_value (ds @ [c]) = 10 * dec_value ds + (of_char c - 48)"
  by (simp add: dec_value_def)

lemma dec_value_to_dec [simp]: "dec_value (to_dec n) = n"
proof (induction n rule: to_dec.induct)
  case (1 n)
  show ?case
  proof (cases "n < 10")
    case True
    then show ?thesis by (subst to_dec.simps) (simp add: dec_value_def)
  next
    case False
    with 1 show ?thesis by (subst to_dec.simps) simp
  qed
qed

lemma parse_dec_to_dec [simp]: "n \<le> mx \<Longrightarrow> parse_dec mx (to_dec n) = Some n"
  by (simp add: parse_dec_def from_chars_dec_def)

lemma parse_dec_bound: "parse_dec mx s = Some v \<Longrightarrow> v \<le> mx"
  by (auto simp: parse_dec_def from_chars_dec_def Let_def split: if_splits option.splits list.splits)

lemma parse_dec_all_digits: "parse_dec mx s = Some v \<Longrightarrow> s \<noteq> [] \<and> (\<forall>c \<in> set s. is_digit c)"
  by (auto simp: parse_dec_def from_chars_dec_def Let_def dropWhile_eq_Nil_conv
        split: if_splits option.splits list.splits)

lemma to_dec_inject: "to_dec m = to_dec n \<Longrightarrow> m = n"
  by (metis dec_value_to_dec)

text \<open>Membership of separators in numbers: a decimal holds none of them.\<close>

lemma not_in_to_dec: "\<not> is_digit c \<Longrightarrow> c \<notin> set (to_dec n)"
  using to_dec_digits by blast

definition hex_lower :: "nat \<Rightarrow> char" where
  "hex_lower d = ''0123456789abcdef'' ! d"

definition hex_upper :: "nat \<Rightarrow> char" where
  "hex_upper d = ''0123456789ABCDEF'' ! d"

text \<open>The value of a hexadecimal digit of either case, as \<open>std::from_chars\<close> base 16 reads it.\<close>

definition hex_val :: "char \<Rightarrow> nat option" where
  "hex_val c =
     (let u = (of_char c :: nat) in
      if 48 \<le> u \<and> u \<le> 57 then Some (u - 48)
      else if 65 \<le> u \<and> u \<le> 70 then Some (u - 55)
      else if 97 \<le> u \<and> u \<le> 102 then Some (u - 87)
      else None)"

lemma less_16_cases:
  "(d::nat) < 16 \<Longrightarrow>
    d = 0 \<or> d = 1 \<or> d = 2 \<or> d = 3 \<or> d = 4 \<or> d = 5 \<or> d = 6 \<or> d = 7 \<or>
    d = 8 \<or> d = 9 \<or> d = 10 \<or> d = 11 \<or> d = 12 \<or> d = 13 \<or> d = 14 \<or> d = 15"
  by arith

lemma hex_val_lower [simp]: "d < 16 \<Longrightarrow> hex_val (hex_lower d) = Some d"
  by (drule less_16_cases) (auto simp: hex_lower_def hex_val_def)

lemma hex_val_upper [simp]: "d < 16 \<Longrightarrow> hex_val (hex_upper d) = Some d"
  by (drule less_16_cases) (auto simp: hex_upper_def hex_val_def)

subsection \<open>Bytes\<close>

text \<open>The unsigned value of a byte, and its value as the width \<open>'a\<close> the source casts it to.\<close>

abbreviation byte_nat :: "char \<Rightarrow> nat" where
  "byte_nat c \<equiv> of_char c"

lemma byte_nat_less [simp]: "byte_nat c < 256"
  by simp

lemma byte_nat_inject: "byte_nat a = byte_nat b \<longleftrightarrow> a = b"
  by (metis char_of_char)

subsection \<open>Results\<close>

text \<open>Sequencing of computations that may throw: the first exception propagates.\<close>

definition try_bind :: "'a res \<Rightarrow> ('a \<Rightarrow> 'b res) \<Rightarrow> 'b res" where
  "try_bind m f = (case m of Inl e \<Rightarrow> Inl e | Inr x \<Rightarrow> f x)"

lemma try_bind_simps [simp]: "try_bind (Inl e) f = Inl e" "try_bind (Inr x) f = f x"
  by (simp_all add: try_bind_def)

lemma try_bind_Inr: "try_bind m f = Inr y \<longleftrightarrow> (\<exists>x. m = Inr x \<and> f x = Inr y)"
  by (cases m) auto

fun try_map :: "('a \<Rightarrow> 'b res) \<Rightarrow> 'a list \<Rightarrow> 'b list res" where
  "try_map f [] = Inr []"
| "try_map f (x # xs) =
     try_bind (f x) (\<lambda>y. try_bind (try_map f xs) (\<lambda>ys. Inr (y # ys)))"

lemma try_map_Inr: "(\<And>x. x \<in> set xs \<Longrightarrow> f x = Inr (g x)) \<Longrightarrow> try_map f xs = Inr (map g xs)"
  by (induction xs) auto

lemma try_map_length: "try_map f xs = Inr ys \<Longrightarrow> length ys = length xs"
  by (induction xs arbitrary: ys) (auto simp: try_bind_Inr)

subsection \<open>Traces\<close>

text \<open>No event of the kind after the first \<open>mark\<close>.\<close>

definition nothing_after :: "('e \<Rightarrow> bool) \<Rightarrow> 'e \<Rightarrow> 'e list \<Rightarrow> bool" where
  "nothing_after kind mark tr \<longleftrightarrow> \<not> list_ex kind (tl (dropWhile (\<lambda>ev. ev \<noteq> mark) tr))"

lemma before_mark: "mark \<notin> set a \<Longrightarrow> dropWhile (\<lambda>ev. ev \<noteq> mark) (a @ b) = dropWhile (\<lambda>ev. ev \<noteq> mark) b"
  by (induction a) auto

lemma nothing_after_none [simp]: "mark \<notin> set tr \<Longrightarrow> nothing_after kind mark tr"
proof -
  assume "mark \<notin> set tr"
  from before_mark [OF this, of "[]"] have "dropWhile (\<lambda>ev. ev \<noteq> mark) tr = []"
    by (simp only: append_Nil2 dropWhile.simps)
  then show ?thesis by (simp only: nothing_after_def list.sel list.pred_inject list_ex_iff set_simps ball_empty bex_simps simp_thms empty_iff list.set(1) bex_empty not_False_eq_True)
qed

lemma nothing_after_append:
  "mark \<in> set tr \<Longrightarrow> nothing_after kind mark (tr @ evs) \<longleftrightarrow> nothing_after kind mark tr \<and> \<not> list_ex kind evs"
proof -
  assume m: "mark \<in> set tr"
  then have d: "dropWhile (\<lambda>ev. ev \<noteq> mark) (tr @ evs) = dropWhile (\<lambda>ev. ev \<noteq> mark) tr @ evs"
    by (simp add: dropWhile_append1 [OF m])
  from m have "dropWhile (\<lambda>ev. ev \<noteq> mark) tr \<noteq> []" by auto
  then show ?thesis by (simp add: nothing_after_def d)
qed

lemma nothing_after_mark: "mark \<notin> set tr \<Longrightarrow> nothing_after kind mark (tr @ [mark])"
  by (simp add: nothing_after_def before_mark)

lemma nothing_after_split:
  "nothing_after kind mark tr \<Longrightarrow> mark \<in> set tr \<Longrightarrow> \<exists>a b. tr = a @ mark # b \<and> mark \<notin> set a \<and> \<not> list_ex kind b"
proof -
  assume n: "nothing_after kind mark tr" and m: "mark \<in> set tr"
  obtain a b where s: "tr = a @ mark # b" "mark \<notin> set a" using split_list_first [OF m] by blast
  then have "dropWhile (\<lambda>ev. ev \<noteq> mark) tr = mark # b" by (simp add: before_mark)
  with n s show ?thesis by (auto simp: nothing_after_def)
qed

lemma nothing_after_more:
  "nothing_after kind mark tr \<Longrightarrow> mark \<notin> set evs \<Longrightarrow> \<not> list_ex kind evs \<or> mark \<notin> set tr \<Longrightarrow>
     nothing_after kind mark (tr @ evs)"
  by (cases "mark \<in> set tr") (simp_all add: nothing_after_append)

end
