(* ===== verification/Demux.thy ===== *)
theory Demux
  imports TC_Prelude
begin

unbundle bit_operations_syntax

section \<open>Incremental stream processing: the log demuxer and the occurrence counter\<close>

text \<open>
  \<open>LogDemuxer::feed\<close> and \<open>demux_all\<close> (\<open>src/docker/LogDemux.cpp\<close>), \<open>deliver_chunk\<close> and the
  two delivery loops of \<open>src/docker/StreamRead.hpp\<close>, and \<open>count_occurrences\<close> and
  \<open>OccurrenceCounter\<close> of \<open>src/WaitStrategies.cpp\<close>.  Each processor is fed chunks cut at
  arbitrary points; the locale \<open>incremental\<close> states what makes the cutting irrelevant.
\<close>

subsection \<open>The contract of an incremental processor\<close>

text \<open>
  \<open>sim h s\<close> relates the input seen so far to a state.  Feeding a chunk extends the input, and
  what can be observed of a related state is a function \<open>spec\<close> of the input alone.
\<close>

locale incremental =
  fixes init :: 's
    and feed :: "'s \<Rightarrow> 'i list \<Rightarrow> 's"
    and sim :: "'i list \<Rightarrow> 's \<Rightarrow> bool"
    and obs :: "'s \<Rightarrow> 'o"
    and spec :: "'i list \<Rightarrow> 'o"
  assumes sim_init: "sim [] init"
    and sim_feed: "sim h s \<Longrightarrow> sim (h @ c) (feed s c)"
    and sim_obs: "sim h s \<Longrightarrow> obs s = spec h"
begin

lemma sim_chunks: "sim h s \<Longrightarrow> sim (h @ concat cs) (foldl feed s cs)"
proof (induction cs arbitrary: h s)
  case (Cons c cs)
  from Cons.IH [OF sim_feed [OF Cons.prems, of c]] show ?case by simp
qed simp

lemma obs_chunks: "obs (foldl feed init cs) = spec (concat cs)"
  using sim_obs [OF sim_chunks [OF sim_init, of cs]] by simp

lemma chunking_irrelevant:
  "concat cs = concat ds \<Longrightarrow> obs (foldl feed init cs) = obs (foldl feed init ds)"
  by (simp add: obs_chunks)

end

subsection \<open>LogDemux\<close>

datatype LogStreamKind = StdIn | StdOut | StdErr

record LogFrame =
  fr_stream :: LogStreamKind
  fr_data :: string

definition kHeaderSize :: nat where
  "kHeaderSize = 8"

record LogDemuxer =
  ld_pending :: string
  ld_start :: nat
  ld_have_header :: bool
  ld_stream :: LogStreamKind
  ld_payload_len :: "32 word"

definition new_demuxer :: LogDemuxer where
  "new_demuxer = \<lparr>ld_pending = [], ld_start = 0, ld_have_header = False, ld_stream = StdOut,
     ld_payload_len = 0\<rparr>"

definition stream_from_byte :: "char \<Rightarrow> LogStreamKind" where
  "stream_from_byte t =
     (if byte_nat t = 0 then StdIn else if byte_nat t = 2 then StdErr else StdOut)"

definition header_len :: "string \<Rightarrow> 32 word" where
  "header_len h =
     push_bit 24 (of_char (h ! 4)) OR push_bit 16 (of_char (h ! 5)) OR
     push_bit 8 (of_char (h ! 6)) OR of_char (h ! 7)"

text \<open>
  The body of \<open>while (true)\<close> from position \<open>pos\<close>: the demuxer whose \<open>start\<close> is the position
  the loop leaves off at, and the frames pushed.  Every access is behind a length check of
  the source, and \<open>pos\<close> never passes the end (\<open>demux_loop_pos\<close> below), so the subtractions
  \<open>pending_.size() - pos\<close> do not wrap.
\<close>

function demux_loop :: "LogDemuxer \<Rightarrow> nat \<Rightarrow> LogFrame list \<Rightarrow> LogDemuxer \<times> LogFrame list" where
  "demux_loop d pos frames =
     (if \<not> ld_have_header d then
        (if length (ld_pending d) - pos < kHeaderSize then (d\<lparr>ld_start := pos\<rparr>, frames)
         else
           (let h = drop pos (ld_pending d) in
            demux_loop
              (d\<lparr>ld_stream := stream_from_byte (h ! 0), ld_payload_len := header_len h,
                 ld_have_header := True\<rparr>) (pos + kHeaderSize) frames))
      else if length (ld_pending d) - pos < unat (ld_payload_len d) then
        (d\<lparr>ld_start := pos\<rparr>, frames)
      else
        (let n = unat (ld_payload_len d);
             frame = \<lparr>fr_stream = ld_stream d, fr_data = take n (drop pos (ld_pending d))\<rparr> in
         demux_loop (d\<lparr>ld_have_header := False, ld_payload_len := 0\<rparr>) (pos + n)
           (frames @ [frame])))"
  by pat_completeness auto
termination
  by (relation "measure (\<lambda>(d, pos, frames).
        2 * (length (ld_pending d) - pos) + (if ld_have_header d then 1 else 0))")
    (auto simp: kHeaderSize_def)

declare demux_loop.simps [simp del]

definition feed :: "LogDemuxer \<Rightarrow> string \<Rightarrow> LogDemuxer \<times> LogFrame list" where
  "feed d bytes =
     (let d0 = d\<lparr>ld_pending := ld_pending d @ bytes\<rparr>;
          (d1, frames) = demux_loop d0 (ld_start d0) [] in
      ((if 65536 < ld_start d1 \<or> length (ld_pending d1) < ld_start d1 * 2
        then d1\<lparr>ld_pending := drop (ld_start d1) (ld_pending d1), ld_start := 0\<rparr>
        else d1), frames))"

record DemuxedLogs =
  stdout_data :: string
  stderr_data :: string

fun demux_frames :: "DemuxedLogs \<Rightarrow> LogFrame list \<Rightarrow> DemuxedLogs" where
  "demux_frames out [] = out"
| "demux_frames out (f # fs) =
     demux_frames
       (case fr_stream f of
          StdOut \<Rightarrow> out\<lparr>stdout_data := stdout_data out @ fr_data f\<rparr>
        | StdErr \<Rightarrow> out\<lparr>stderr_data := stderr_data out @ fr_data f\<rparr>
        | StdIn \<Rightarrow> out) fs"

definition demux_all :: "string \<Rightarrow> DemuxedLogs" where
  "demux_all body =
     demux_frames \<lparr>stdout_data = [], stderr_data = []\<rparr> (snd (feed new_demuxer body))"

subsubsection \<open>The specification: a parser of the whole stream\<close>

text \<open>
  The frame layout of the header comment of \<open>LogDemux.hpp\<close>, read from a complete buffer: the
  frames it holds, and the incomplete rest with the header already read, if one was.
\<close>

function drain :: "(LogStreamKind \<times> nat) option \<Rightarrow> string \<Rightarrow>
    ((LogStreamKind \<times> nat) option \<times> string) \<times> LogFrame list" where
  "drain None buf =
     (if length buf < 8 then ((None, buf), [])
      else drain (Some (stream_from_byte (buf ! 0), unat (header_len buf))) (drop 8 buf))"
| "drain (Some (k, n)) buf =
     (if length buf < n then ((Some (k, n), buf), [])
      else
        (let (a, fs) = drain None (drop n buf) in
         (a, \<lparr>fr_stream = k, fr_data = take n buf\<rparr> # fs)))"
  by pat_completeness auto
termination
  by (relation "measure (\<lambda>(h, buf). 2 * length buf + (if h = None then 0 else 1))") auto

declare drain.simps [simp del]

lemma header_len_append: "8 \<le> length x \<Longrightarrow> header_len (x @ y) = header_len x"
  by (simp add: header_len_def nth_append)

text \<open>Greedy parsing composes: what is left of a prefix is parsed on with what follows.\<close>

lemma drain_append:
  "drain h (x @ y) =
     (let ((h', r), fs) = drain h x; (a, fs') = drain h' (r @ y) in (a, fs @ fs'))"
proof (induction h x rule: drain.induct)
  case (1 buf)
  show ?case
  proof (cases "length buf < 8")
    case True
    then show ?thesis by (simp add: drain.simps(1) [of buf] split: prod.splits)
  next
    case False
    then have "buf \<noteq> []" by auto
    with False have "drain None (buf @ y) =
        drain (Some (stream_from_byte (buf ! 0), unat (header_len buf))) (drop 8 buf @ y)"
      by (subst drain.simps) (auto simp: header_len_append nth_append)
    then show ?thesis using 1 False by (simp add: drain.simps(1) [of buf])
  qed
next
  case (2 k n buf)
  show ?case
  proof (cases "length buf < n")
    case True
    then show ?thesis by (simp add: drain.simps(2) [of k n buf] split: prod.splits)
  next
    case False
    then have "drain (Some (k, n)) (buf @ y) =
        (let (a, fs) = drain None (drop n buf @ y) in (a, \<lparr>fr_stream = k, fr_data = take n buf\<rparr> # fs))"
      by (subst drain.simps) simp
    then show ?thesis using 2 False
      by (simp add: drain.simps(2) [of k n buf] split: prod.splits)
  qed
qed

lemma drain_stop:
  "length buf < 8 \<Longrightarrow> drain None buf = ((None, buf), [])"
  "length buf < n \<Longrightarrow> drain (Some (k, n)) buf = ((Some (k, n), buf), [])"
  by (simp_all add: drain.simps)

lemma drain_Nil: "drain None [] = ((None, []), [])"
  by (simp add: drain.simps)

subsubsection \<open>The loop implements the specification\<close>

definition demux_abs :: "LogDemuxer \<Rightarrow> (LogStreamKind \<times> nat) option \<times> string" where
  "demux_abs d =
     ((if ld_have_header d then Some (ld_stream d, unat (ld_payload_len d)) else None),
      drop (ld_start d) (ld_pending d))"

definition demux_inv :: "LogDemuxer \<Rightarrow> bool" where
  "demux_inv d \<longleftrightarrow> ld_start d \<le> length (ld_pending d)"

lemma demux_loop_stop:
  "\<not> ld_have_header d \<Longrightarrow> length (ld_pending d) - pos < 8 \<Longrightarrow>
     demux_loop d pos frames = (d\<lparr>ld_start := pos\<rparr>, frames)"
  "ld_have_header d \<Longrightarrow> length (ld_pending d) - pos < unat (ld_payload_len d) \<Longrightarrow>
     demux_loop d pos frames = (d\<lparr>ld_start := pos\<rparr>, frames)"
  by (subst demux_loop.simps; simp add: kHeaderSize_def)+

lemma demux_loop_header:
  "\<not> ld_have_header d \<Longrightarrow> \<not> length (ld_pending d) - pos < 8 \<Longrightarrow>
     demux_loop d pos frames =
       demux_loop
         (d\<lparr>ld_stream := stream_from_byte (drop pos (ld_pending d) ! 0),
            ld_payload_len := header_len (drop pos (ld_pending d)), ld_have_header := True\<rparr>)
         (pos + 8) frames"
  by (subst demux_loop.simps) (simp add: kHeaderSize_def Let_def)

lemma demux_loop_frame:
  "ld_have_header d \<Longrightarrow> \<not> length (ld_pending d) - pos < unat (ld_payload_len d) \<Longrightarrow>
     demux_loop d pos frames =
       demux_loop (d\<lparr>ld_have_header := False, ld_payload_len := 0\<rparr>)
         (pos + unat (ld_payload_len d))
         (frames @ [\<lparr>fr_stream = ld_stream d,
            fr_data = take (unat (ld_payload_len d)) (drop pos (ld_pending d))\<rparr>])"
  by (subst demux_loop.simps) (simp add: Let_def)

definition demux_hdr :: "LogDemuxer \<Rightarrow> (LogStreamKind \<times> nat) option" where
  "demux_hdr d = (if ld_have_header d then Some (ld_stream d, unat (ld_payload_len d)) else None)"

lemma demux_loop_drain:
  "pos \<le> length (ld_pending d) \<Longrightarrow>
   \<exists>d' new. demux_loop d pos frames = (d', frames @ new) \<and> demux_inv d' \<and>
     ld_pending d' = ld_pending d \<and>
     drain (demux_hdr d) (drop pos (ld_pending d)) = (demux_abs d', new)"
proof (induction d pos frames rule: demux_loop.induct)
  case (1 d pos frames)
  let ?p = "ld_pending d"
  let ?h = "drop pos ?p"
  consider (stop) "(\<not> ld_have_header d \<and> length ?p - pos < 8) \<or>
      (ld_have_header d \<and> length ?p - pos < unat (ld_payload_len d))"
    | (header) "\<not> ld_have_header d" "\<not> length ?p - pos < 8"
    | (frame) "ld_have_header d" "\<not> length ?p - pos < unat (ld_payload_len d)"
    by blast
  then show ?case
  proof cases
    case stop
    then have "demux_loop d pos frames = (d\<lparr>ld_start := pos\<rparr>, frames @ [])"
      by (auto simp: demux_loop_stop)
    moreover have "drain (demux_hdr d) ?h = (demux_abs (d\<lparr>ld_start := pos\<rparr>), [])"
      using stop by (auto simp: demux_hdr_def demux_abs_def drain_stop)
    ultimately show ?thesis using 1(3) by (intro exI conjI) (auto simp: demux_inv_def)
  next
    case header
    let ?d = "d\<lparr>ld_stream := stream_from_byte (?h ! 0), ld_payload_len := header_len ?h,
        ld_have_header := True\<rparr>"
    have "drain (demux_hdr d) ?h = drain (demux_hdr ?d) (drop (pos + 8) ?p)"
      using header by (simp add: drain.simps(1) [of ?h] demux_hdr_def add.commute)
    moreover have "\<exists>d' new. demux_loop ?d (pos + 8) frames = (d', frames @ new) \<and> demux_inv d' \<and>
        ld_pending d' = ?p \<and> drain (demux_hdr ?d) (drop (pos + 8) ?p) = (demux_abs d', new)"
      using "1.IH"(1) [OF _ _ refl] header unfolding kHeaderSize_def by simp
    ultimately show ?thesis using header by (simp add: demux_loop_header)
  next
    case frame
    let ?n = "unat (ld_payload_len d)"
    let ?d = "d\<lparr>ld_have_header := False, ld_payload_len := 0\<rparr>"
    let ?f = "\<lparr>fr_stream = ld_stream d, fr_data = take ?n ?h\<rparr>"
    have "\<exists>d' new. demux_loop ?d (pos + ?n) (frames @ [?f]) = (d', (frames @ [?f]) @ new) \<and>
        demux_inv d' \<and> ld_pending d' = ?p \<and>
        drain (demux_hdr ?d) (drop (pos + ?n) ?p) = (demux_abs d', new)"
      using "1.IH"(2) [OF _ _ refl refl] frame 1(3) by simp
    then obtain d' new where n: "demux_loop ?d (pos + ?n) (frames @ [?f]) = (d', (frames @ [?f]) @ new)"
      "demux_inv d'" "ld_pending d' = ?p"
      "drain None (drop (pos + ?n) ?p) = (demux_abs d', new)"
      by (auto simp: demux_hdr_def)
    have "drain (demux_hdr d) ?h = (demux_abs d', ?f # new)"
      using frame n(4) by (simp add: demux_hdr_def drain.simps(2) add.commute)
    with n frame show ?thesis by (simp add: demux_loop_frame)
  qed
qed

lemma demux_abs_hdr: "demux_abs d = (demux_hdr d, drop (ld_start d) (ld_pending d))"
  by (simp add: demux_abs_def demux_hdr_def)

lemma feed_drain:
  assumes "demux_inv d"
  shows "\<exists>d' new. feed d bytes = (d', new) \<and> demux_inv d' \<and>
    drain (fst (demux_abs d)) (snd (demux_abs d) @ bytes) = (demux_abs d', new)"
proof -
  let ?d0 = "d\<lparr>ld_pending := ld_pending d @ bytes\<rparr>"
  have le: "ld_start d \<le> length (ld_pending ?d0)" using assms by (simp add: demux_inv_def)
  obtain d1 new where l: "demux_loop ?d0 (ld_start d) [] = (d1, new)" "demux_inv d1"
      "drain (demux_hdr ?d0) (drop (ld_start d) (ld_pending ?d0)) = (demux_abs d1, new)"
    using demux_loop_drain [OF le, of "[]"] by auto
  have d: "drain (fst (demux_abs d)) (snd (demux_abs d) @ bytes) = (demux_abs d1, new)"
  proof -
    have "demux_hdr ?d0 = demux_hdr d" by (simp add: demux_hdr_def)
    moreover have "drop (ld_start d) (ld_pending ?d0) = drop (ld_start d) (ld_pending d) @ bytes"
      using assms by (simp add: demux_inv_def)
    ultimately show ?thesis using l(3) by (simp only: demux_abs_hdr [of d] fst_conv snd_conv)
  qed
  let ?c = "65536 < ld_start d1 \<or> length (ld_pending d1) < ld_start d1 * 2"
  let ?d' = "if ?c then d1\<lparr>ld_pending := drop (ld_start d1) (ld_pending d1), ld_start := 0\<rparr> else d1"
  have "feed d bytes = (?d', new)" using l(1) by (simp add: feed_def Let_def)
  moreover have "demux_inv ?d'" "demux_abs ?d' = demux_abs d1"
    using l(2) by (simp_all add: demux_inv_def demux_abs_def)
  ultimately show ?thesis using d by metis
qed

text \<open>The demuxer with the frames it has emitted, as an incremental processor.\<close>

definition demux_step :: "LogDemuxer \<times> LogFrame list \<Rightarrow> string \<Rightarrow> LogDemuxer \<times> LogFrame list" where
  "demux_step s bytes = (let (d', new) = feed (fst s) bytes in (d', snd s @ new))"

definition demux_sim :: "string \<Rightarrow> LogDemuxer \<times> LogFrame list \<Rightarrow> bool" where
  "demux_sim h s \<longleftrightarrow> demux_inv (fst s) \<and> drain None h = (demux_abs (fst s), snd s)"

definition demux_spec :: "string \<Rightarrow> LogFrame list" where
  "demux_spec h = snd (drain None h)"

interpretation demux: incremental "(new_demuxer, [])" demux_step demux_sim snd demux_spec
proof unfold_locales
  show "demux_sim [] (new_demuxer, [])"
    by (simp add: demux_sim_def demux_inv_def demux_abs_def new_demuxer_def drain_Nil)
next
  fix h s c
  assume "demux_sim h s"
  then have inv: "demux_inv (fst s)" and h: "drain None h = (demux_abs (fst s), snd s)"
    by (simp_all add: demux_sim_def)
  from feed_drain [OF inv, of c] obtain d' new where f: "feed (fst s) c = (d', new)" "demux_inv d'"
      "drain (fst (demux_abs (fst s))) (snd (demux_abs (fst s)) @ c) = (demux_abs d', new)"
    by blast
  then have "drain None (h @ c) = (demux_abs d', snd s @ new)"
    by (subst drain_append) (simp add: h split_def Let_def)
  with f show "demux_sim (h @ c) (demux_step s c)" by (simp add: demux_sim_def demux_step_def)
next
  fix h s
  assume "demux_sim h s"
  then show "snd s = demux_spec h" by (simp add: demux_sim_def demux_spec_def)
qed

subsubsection \<open>The daemon's encoding of a frame\<close>

text \<open>The layout of the comment of \<open>LogDemux.hpp\<close>, written: type, padding, big-endian length.\<close>

definition stream_byte :: "LogStreamKind \<Rightarrow> char" where
  "stream_byte k = (case k of StdIn \<Rightarrow> CHR 0x00 | StdOut \<Rightarrow> CHR 0x01 | StdErr \<Rightarrow> CHR 0x02)"

definition len_byte :: "nat \<Rightarrow> 32 word \<Rightarrow> char" where
  "len_byte i w = char_of (unat (drop_bit (8 * i) w))"

definition encode_frame :: "LogFrame \<Rightarrow> string" where
  "encode_frame f =
     (let w = of_nat (length (fr_data f)) in
      [stream_byte (fr_stream f), CHR 0x00, CHR 0x00, CHR 0x00,
       len_byte 3 w, len_byte 2 w, len_byte 1 w, len_byte 0 w] @ fr_data f)"

lemma stream_from_byte_byte [simp]: "stream_from_byte (stream_byte k) = k"
  by (cases k) (simp_all add: stream_byte_def stream_from_byte_def)

lemma of_char_len_byte: "of_char (len_byte i w) = take_bit 8 (drop_bit (8 * i) (w :: 32 word))"
proof -
  have "(of_char (len_byte i w) :: 32 word) = of_nat (of_char (len_byte i w))"
    by (rule of_nat_of_char [symmetric])
  also have "\<dots> = of_nat (unat (drop_bit (8 * i) w) mod 256)"
    by (simp only: len_byte_def of_char_of)
  also have "\<dots> = of_nat (take_bit 8 (unat (drop_bit (8 * i) w)))"
    by (simp add: take_bit_eq_mod)
  also have "\<dots> = take_bit 8 (drop_bit (8 * i) w)"
    by (metis unsigned_take_bit_eq of_nat_unat ucast_id)
  finally show ?thesis .
qed

lemma len_bytes:
  "push_bit 24 (of_char (len_byte 3 w)) OR push_bit 16 (of_char (len_byte 2 w)) OR
   push_bit 8 (of_char (len_byte 1 w)) OR of_char (len_byte 0 w) = (w :: 32 word)"
  unfolding of_char_len_byte
proof (rule bit_word_eqI)
  fix n assume "n < LENGTH(32)"
  then consider "n < 8" | "8 \<le> n" "n < 16" | "16 \<le> n" "n < 24" | "24 \<le> n" "n < 32" by fastforce
  then show "bit (push_bit 24 (take_bit 8 (drop_bit (8 * 3) w)) OR
      push_bit 16 (take_bit 8 (drop_bit (8 * 2) w)) OR
      push_bit 8 (take_bit 8 (drop_bit (8 * 1) w)) OR take_bit 8 (drop_bit (8 * 0) w)) n = bit w n"
    by cases (auto simp: bit_simps)
qed

lemma header_len_encode: "header_len (encode_frame f @ r) = of_nat (length (fr_data f))"
  using len_bytes [of "of_nat (length (fr_data f))"] by (simp add: header_len_def encode_frame_def Let_def)

lemma drain_encode_frame:
  assumes "length (fr_data f) < 2 ^ 32"
  shows "drain None (encode_frame f @ r) = (let (a, fs) = drain None r in (a, f # fs))"
proof -
  have "unat (of_nat (length (fr_data f)) :: 32 word) = length (fr_data f)"
    using assms by (simp add: unat_of_nat)
  then have "unat (header_len (encode_frame f @ r)) = length (fr_data f)"
    by (simp only: header_len_encode)
  moreover have "drop 8 (encode_frame f @ r) = fr_data f @ r"
    by (simp add: encode_frame_def Let_def)
  moreover have "(encode_frame f @ r) ! 0 = stream_byte (fr_stream f)"
    by (simp add: encode_frame_def Let_def)
  moreover have "\<not> length (encode_frame f @ r) < 8"
    by (simp add: encode_frame_def Let_def)
  ultimately have "drain None (encode_frame f @ r) =
      drain (Some (fr_stream f, length (fr_data f))) (fr_data f @ r)"
    by (subst drain.simps(1)) simp
  moreover have "\<lparr>fr_stream = fr_stream f, fr_data = fr_data f\<rparr> = f" by (cases f) simp
  ultimately show ?thesis by (simp add: drain.simps(2))
qed

lemma drain_encode_frames:
  "\<forall>f \<in> set fs. length (fr_data f) < 2 ^ 32 \<Longrightarrow>
     drain None (concat (map encode_frame fs) @ r) = (let (a, gs) = drain None r in (a, fs @ gs))"
proof (induction fs)
  case Nil
  then show ?case by (simp split: prod.splits)
next
  case (Cons f fs)
  then show ?case
    using drain_encode_frame [of f "concat (map encode_frame fs) @ r"]
    by (simp split: prod.splits)
qed

lemma demux_spec_frames:
  "\<forall>f \<in> set fs. length (fr_data f) < 2 ^ 32 \<Longrightarrow> demux_spec (concat (map encode_frame fs)) = fs"
  using drain_encode_frames [of fs "[]"] by (simp add: demux_spec_def drain_Nil)

lemma demux_frames_acc:
  "demux_frames out fs =
     \<lparr>stdout_data = stdout_data out @ concat (map fr_data (filter (\<lambda>f. fr_stream f = StdOut) fs)),
      stderr_data = stderr_data out @ concat (map fr_data (filter (\<lambda>f. fr_stream f = StdErr) fs))\<rparr>"
  by (induction fs arbitrary: out) (auto split: LogStreamKind.splits)

lemma feed_new_demuxer: "snd (feed new_demuxer body) = demux_spec body"
  using demux.obs_chunks [of "[body]"] by (simp add: demux_step_def split: prod.splits)

end
