(* ===== verification/Text_Config.thy ===== *)
theory Text_Config
  imports TC_Prelude
begin

section \<open>Text helpers, environment switches and the properties file\<close>

text \<open>
  \<open>src/Strings.hpp\<close>, \<open>src/Env.hpp\<close>, \<open>src/Deadline.hpp\<close> and \<open>src/Config.cpp\<close>.
  The process environment is a function \<open>string \<Rightarrow> string option\<close> (\<open>std::getenv\<close>), the
  file system is a function from paths to contents (\<open>read_file\<close> answers \<open>''''\<close> for a file
  that is absent or unreadable), and the process-wide properties cache
  \<open>g_properties_cache\<close> is a state that \<open>user_property\<close> reads and fills.
\<close>

subsection \<open>Strings.hpp\<close>

definition trim_set :: "char set" where
  "trim_set = {CHR '' '', CHR 0x09, CHR 0x0D, CHR 0x0A}"

fun find_first_not_of :: "char set \<Rightarrow> string \<Rightarrow> nat option" where
  "find_first_not_of S [] = None"
| "find_first_not_of S (x # xs) =
     (if x \<in> S then map_option Suc (find_first_not_of S xs) else Some 0)"

fun find_last_not_of :: "char set \<Rightarrow> string \<Rightarrow> nat option" where
  "find_last_not_of S [] = None"
| "find_last_not_of S (x # xs) =
     (case find_last_not_of S xs of
        Some i \<Rightarrow> Some (Suc i)
      | None \<Rightarrow> (if x \<in> S then None else Some 0))"

definition trim :: "string \<Rightarrow> string" where
  "trim s =
     (case find_first_not_of trim_set s of
        None \<Rightarrow> []
      | Some b \<Rightarrow>
          (case find_last_not_of trim_set s of
             None \<Rightarrow> []
           | Some e \<Rightarrow> take (e - b + 1) (drop b s)))"

definition tolower_char :: "char \<Rightarrow> char" where
  "tolower_char c =
     (if 65 \<le> byte_nat c \<and> byte_nat c \<le> 90 then char_of (byte_nat c + 32) else c)"

definition to_lower :: "string \<Rightarrow> string" where
  "to_lower s = map tolower_char s"

fun join_from :: "bool \<Rightarrow> string \<Rightarrow> string list \<Rightarrow> string \<Rightarrow> string" where
  "join_from first out [] sep = out"
| "join_from first out (part # parts) sep =
     join_from False ((if first then out else out @ sep) @ part) parts sep"

definition join :: "string list \<Rightarrow> string \<Rightarrow> string" where
  "join parts sep = join_from True [] parts sep"

subsubsection \<open>What they compute\<close>

lemma find_first_not_of_dropWhile:
  "find_first_not_of S s = (if dropWhile (\<lambda>c. c \<in> S) s = [] then None
     else Some (length (takeWhile (\<lambda>c. c \<in> S) s)))"
  by (induction s) auto

lemma find_last_not_of_snoc:
  "find_last_not_of S (xs @ [x]) = (if x \<in> S then find_last_not_of S xs else Some (length xs))"
  by (induction xs) (auto split: option.splits)

lemma find_last_not_of_None: "find_last_not_of S s = None \<longleftrightarrow> set s \<subseteq> S"
  by (induction s) (auto split: option.splits)

lemma find_last_not_of_append:
  "set ws \<subseteq> S \<Longrightarrow> x \<notin> S \<Longrightarrow> find_last_not_of S (xs @ [x] @ ws) = Some (length xs)"
proof (induction ws rule: rev_induct)
  case Nil
  then show ?case by (simp add: find_last_not_of_snoc)
next
  case (snoc w ws)
  then have "find_last_not_of S ((xs @ [x] @ ws) @ [w]) = find_last_not_of S (xs @ [x] @ ws)"
    by (subst find_last_not_of_snoc) simp
  with snoc show ?case by simp
qed

text \<open>The three parts of a string that has a non-blank character.\<close>

lemma strip_decomp:
  assumes "\<not> set s \<subseteq> S"
  shows "\<exists>pre mid post. s = pre @ mid @ post \<and> set pre \<subseteq> S \<and> set post \<subseteq> S \<and>
    mid \<noteq> [] \<and> hd mid \<notin> S \<and> last mid \<notin> S"
proof -
  define pre where "pre = takeWhile (\<lambda>c. c \<in> S) s"
  define r where "r = dropWhile (\<lambda>c. c \<in> S) s"
  define post where "post = rev (takeWhile (\<lambda>c. c \<in> S) (rev r))"
  define mid where "mid = rev (dropWhile (\<lambda>c. c \<in> S) (rev r))"
  have s: "s = pre @ r" by (simp add: pre_def r_def)
  have r: "r = mid @ post"
    by (metis mid_def post_def rev_append rev_rev_ident takeWhile_dropWhile_id)
  have rne: "r \<noteq> []" using assms by (auto simp: r_def dropWhile_eq_Nil_conv)
  then have hr: "hd r \<notin> S" unfolding r_def by (rule hd_dropWhile)
  then have "\<not> set r \<subseteq> S" using rne by (metis hd_in_set subsetD)
  then have ne: "dropWhile (\<lambda>c. c \<in> S) (rev r) \<noteq> []" by (auto simp: dropWhile_eq_Nil_conv)
  then have mid: "mid \<noteq> []" and lm: "last mid \<notin> S"
    using hd_dropWhile [OF ne] by (simp_all add: mid_def last_rev)
  from mid r hr have "hd mid \<notin> S" by simp
  moreover have "set pre \<subseteq> S" "set post \<subseteq> S"
    by (auto simp: pre_def post_def dest: set_takeWhileD)
  ultimately show ?thesis using s r mid lm by blast
qed

lemma trim_decomp:
  assumes "set pre \<subseteq> trim_set" "set post \<subseteq> trim_set"
    and "mid \<noteq> []" "hd mid \<notin> trim_set" "last mid \<notin> trim_set"
  shows "trim (pre @ mid @ post) = mid"
proof -
  obtain m where m: "mid = butlast mid @ [m]" "m = last mid"
    using assms(3) by (metis append_butlast_last_id)
  have dm: "dropWhile (\<lambda>c. c \<in> trim_set) (mid @ post) = mid @ post"
    "takeWhile (\<lambda>c. c \<in> trim_set) (mid @ post) = []"
    using assms(3,4) by (cases mid; simp)+
  have b: "find_first_not_of trim_set (pre @ mid @ post) = Some (length pre)"
    using assms(1,3) dm unfolding find_first_not_of_dropWhile
    by (simp add: dropWhile_append2 takeWhile_append2 subset_iff)
  have "find_last_not_of trim_set ((pre @ butlast mid) @ [m] @ post) =
      Some (length (pre @ butlast mid))"
    using assms m by (intro find_last_not_of_append) auto
  moreover have "(pre @ butlast mid) @ [m] @ post = pre @ mid @ post"
    using m(1) by (metis append.assoc)
  ultimately have e: "find_last_not_of trim_set (pre @ mid @ post) =
      Some (length pre + (length mid - 1))"
    by (metis length_append length_butlast)
  have "length mid - 1 + 1 = length mid" using assms(3) by (cases mid) auto
  then show ?thesis by (simp add: trim_def b e)
qed

lemma trim_blank: "set s \<subseteq> trim_set \<Longrightarrow> trim s = []"
  by (auto simp: trim_def find_first_not_of_dropWhile dropWhile_eq_Nil_conv)

lemma trim_Nil [simp]: "trim [] = []"
  by (simp add: trim_blank)

lemma trim_id: "s \<noteq> [] \<Longrightarrow> hd s \<notin> trim_set \<Longrightarrow> last s \<notin> trim_set \<Longrightarrow> trim s = s"
  using trim_decomp [of "[]" "[]" s] by simp

lemma trim_spec:
  "\<exists>pre post. s = pre @ trim s @ post \<and> set pre \<subseteq> trim_set \<and> set post \<subseteq> trim_set \<and>
     (trim s \<noteq> [] \<longrightarrow> hd (trim s) \<notin> trim_set \<and> last (trim s) \<notin> trim_set)"
proof (cases "set s \<subseteq> trim_set")
  case True
  then have "trim s = []" by (rule trim_blank)
  with True show ?thesis by (intro exI [of _ s] exI [of _ "[]"]) simp
next
  case False
  from strip_decomp [OF this] obtain pre mid post where d:
    "s = pre @ mid @ post" "set pre \<subseteq> trim_set" "set post \<subseteq> trim_set"
    "mid \<noteq> []" "hd mid \<notin> trim_set" "last mid \<notin> trim_set" by blast
  then have "trim s = mid" using trim_decomp by simp
  with d show ?thesis by (intro exI [of _ pre] exI [of _ post]) simp
qed

lemma trim_idem [simp]: "trim (trim s) = trim s"
  using trim_spec [of s] by (cases "trim s = []") (auto intro: trim_id)

lemma trim_subset: "set (trim s) \<subseteq> set s"
proof -
  obtain pre post where "s = pre @ trim s @ post" using trim_spec [of s] by blast
  then have "set s = set pre \<union> set (trim s) \<union> set post" by (metis set_append sup.assoc)
  then show ?thesis by blast
qed

lemma join_from_False: "join_from False out parts sep = out @ concat (map (\<lambda>p. sep @ p) parts)"
  by (induction parts arbitrary: out) auto

lemma join_Nil [simp]: "join [] sep = []"
  by (simp add: join_def)

lemma join_Cons: "join (p # ps) sep = p @ concat (map (\<lambda>q. sep @ q) ps)"
  by (simp add: join_def join_from_False)

text \<open>
  The comment on \<open>join\<close> says the element count survives the round trip: splitting a
  joined string at a one-character separator gives the parts back.
\<close>

function split_all :: "char \<Rightarrow> string \<Rightarrow> string list" where
  "split_all c s =
     (case split_first c s of None \<Rightarrow> [s] | Some (a, b) \<Rightarrow> a # split_all c b)"
  by pat_completeness auto
termination
  by (relation "measure (\<lambda>(c, s). length s)") (auto dest: split_first_Some)

declare split_all.simps [simp del]

lemma split_all_notin [simp]: "c \<notin> set s \<Longrightarrow> split_all c s = [s]"
  by (subst split_all.simps) simp

lemma split_all_sep [simp]: "c \<notin> set a \<Longrightarrow> split_all c (a @ c # b) = a # split_all c b"
  by (subst split_all.simps) simp

lemma split_all_join:
  "ps \<noteq> [] \<Longrightarrow> (\<forall>p \<in> set ps. c \<notin> set p) \<Longrightarrow> split_all c (join ps [c]) = ps"
proof (induction ps)
  case (Cons p ps)
  show ?case
  proof (cases ps)
    case Nil
    with Cons.prems show ?thesis by (simp add: join_Cons)
  next
    case (Cons q qs)
    then have "join (p # ps) [c] = p @ c # join ps [c]" by (simp add: join_Cons)
    with Cons.IH Cons.prems Cons show ?thesis by simp
  qed
qed simp

lemma tolower_char_idem [simp]: "tolower_char (tolower_char c) = tolower_char c"
  by (simp add: tolower_char_def)

lemma to_lower_idem [simp]: "to_lower (to_lower s) = to_lower s"
  by (simp add: to_lower_def)

lemma length_to_lower [simp]: "length (to_lower s) = length s"
  by (simp add: to_lower_def)

subsection \<open>Env.hpp\<close>

type_synonym environ = "string \<Rightarrow> string option"

definition env_truthy_value :: "string \<Rightarrow> bool" where
  "env_truthy_value s \<longleftrightarrow> s = ''1'' \<or> s = ''true'' \<or> s = ''TRUE'' \<or> s = ''True''"

definition env_truthy :: "environ \<Rightarrow> string \<Rightarrow> bool" where
  "env_truthy env name = (case env name of None \<Rightarrow> False | Some s \<Rightarrow> env_truthy_value s)"

text \<open>The guard \<open>v && *v\<close> on a \<open>getenv\<close> result: set and not empty.\<close>

definition env_nonempty :: "environ \<Rightarrow> string \<Rightarrow> string option" where
  "env_nonempty env name =
     (case env name of None \<Rightarrow> None | Some v \<Rightarrow> (if v = [] then None else Some v))"

definition home_dir :: "environ \<Rightarrow> string" where
  "home_dir env =
     (case env_nonempty env ''HOME'' of
        Some h \<Rightarrow> h
      | None \<Rightarrow> (case env_nonempty env ''USERPROFILE'' of Some up \<Rightarrow> up | None \<Rightarrow> []))"

subsection \<open>Config.cpp\<close>

text \<open>One line of the loop body: the entry it stores, if any.\<close>

definition property_line :: "string \<Rightarrow> (string \<times> string) option" where
  "property_line line =
     (let trimmed = trim line in
      if trimmed = [] \<or> hd trimmed = CHR ''#'' \<or> hd trimmed = CHR ''!'' then None
      else case split_first (CHR ''='') trimmed of
             None \<Rightarrow> None
           | Some (l, r) \<Rightarrow>
               (let key = trim l in if key = [] then None else Some (key, trim r)))"

fun parse_properties_lines :: "(string \<rightharpoonup> string) \<Rightarrow> string list \<Rightarrow> (string \<rightharpoonup> string)" where
  "parse_properties_lines out [] = out"
| "parse_properties_lines out (line # ls) =
     parse_properties_lines
       (case property_line line of None \<Rightarrow> out | Some (k, v) \<Rightarrow> out(k \<mapsto> v)) ls"

definition parse_properties :: "string \<Rightarrow> (string \<rightharpoonup> string)" where
  "parse_properties body = parse_properties_lines Map.empty (getlines body)"

type_synonym files = "string \<Rightarrow> string"
type_synonym prop_cache = "(string \<rightharpoonup> string) option"

definition load_user_properties :: "environ \<Rightarrow> files \<Rightarrow> (string \<rightharpoonup> string)" where
  "load_user_properties env fs =
     (let home = home_dir env in
      if home = [] then Map.empty
      else parse_properties (fs (home @ ''/.testcontainers.properties'')))"

definition user_property ::
  "environ \<Rightarrow> files \<Rightarrow> string \<Rightarrow> prop_cache \<Rightarrow> string option \<times> prop_cache" where
  "user_property env fs key cache =
     (let props = (case cache of Some m \<Rightarrow> m | None \<Rightarrow> load_user_properties env fs) in
      ((case props key of None \<Rightarrow> None | Some v \<Rightarrow> (if v = [] then None else Some v)),
       Some props))"

definition clear_user_properties_cache :: "prop_cache \<Rightarrow> prop_cache" where
  "clear_user_properties_cache cache = None"

definition config_value ::
  "environ \<Rightarrow> files \<Rightarrow> string \<Rightarrow> string \<Rightarrow> prop_cache \<Rightarrow> string option \<times> prop_cache" where
  "config_value env fs env_name key cache =
     (case env_nonempty env env_name of
        Some v \<Rightarrow> (Some v, cache)
      | None \<Rightarrow> user_property env fs key cache)"

definition config_truthy ::
  "environ \<Rightarrow> files \<Rightarrow> string \<Rightarrow> string \<Rightarrow> prop_cache \<Rightarrow> bool \<times> prop_cache" where
  "config_truthy env fs env_name key cache =
     (case env_nonempty env env_name of
        Some v \<Rightarrow> (env_truthy env env_name, cache)
      | None \<Rightarrow>
          (let (prop, cache') = user_property env fs key cache in
           ((case prop of None \<Rightarrow> False | Some p \<Rightarrow> to_lower p = ''true''), cache')))"

subsubsection \<open>Lemmas\<close>

lemma parse_properties_lines_map_of:
  "parse_properties_lines out ls =
     out ++ map_of (rev (List.map_filter property_line ls))"
proof (induction ls arbitrary: out)
  case Nil
  then show ?case by (simp add: List.map_filter_simps)
next
  case (Cons l ls)
  show ?case
  proof (cases "property_line l")
    case None
    then show ?thesis by (simp add: Cons.IH List.map_filter_simps)
  next
    case (Some p)
    then show ?thesis
      by (cases p) (simp add: Cons.IH List.map_filter_simps map_add_def fun_eq_iff split: option.splits)
  qed
qed

lemma property_line_trimmed:
  "property_line l = Some (k, v) \<Longrightarrow> k \<noteq> [] \<and> trim k = k \<and> trim v = v \<and> CHR ''='' \<notin> set k"
proof -
  assume "property_line l = Some (k, v)"
  then obtain a b where ab: "split_first (CHR ''='') (trim l) = Some (a, b)"
    and kv: "k = trim a" "v = trim b" "k \<noteq> []"
    by (auto simp: property_line_def Let_def split: if_splits option.splits)
  from ab have "CHR ''='' \<notin> set a" by (auto dest: split_first_Some)
  with kv show ?thesis using trim_subset [of a] by auto
qed

lemma user_property_cached:
  "user_property env fs key (Some m) =
     ((case m key of None \<Rightarrow> None | Some v \<Rightarrow> (if v = [] then None else Some v)), Some m)"
  by (simp add: user_property_def)

lemma user_property_fills: "snd (user_property env fs key c) \<noteq> None"
  by (simp add: user_property_def Let_def)

lemma user_property_nonempty: "fst (user_property env fs key c) = Some v \<Longrightarrow> v \<noteq> []"
  by (auto simp: user_property_def Let_def split: option.splits if_splits)

subsection \<open>Deadline.hpp\<close>

text \<open>
  \<open>steady_clock\<close> differs between standard libraries, so its largest time point and its
  ticks per millisecond are parameters.
\<close>

record clock =
  ticks_per_ms :: int
  time_max :: int

definition clock_ok :: "clock \<Rightarrow> bool" where
  "clock_ok c \<longleftrightarrow> 0 < ticks_per_ms c \<and> 0 \<le> time_max c"

definition saturated_add :: "clock \<Rightarrow> int \<Rightarrow> int \<Rightarrow> int" where
  "saturated_add c at delta =
     (if delta \<le> 0 then at
      else let headroom = (time_max c - at) div ticks_per_ms c in
        (if headroom \<le> delta then time_max c else at + delta * ticks_per_ms c))"

lemma saturated_add_fits:
  assumes "clock_ok c" "at \<le> time_max c"
  shows "saturated_add c at delta \<le> time_max c"
proof -
  have t: "0 < ticks_per_ms c" using assms(1) by (simp add: clock_ok_def)
  let ?h = "(time_max c - at) div ticks_per_ms c"
  have "at + delta * ticks_per_ms c \<le> time_max c" if "delta < ?h"
  proof -
    have "delta * ticks_per_ms c \<le> ?h * ticks_per_ms c" using that t by simp
    also have "\<dots> \<le> time_max c - at" using t by (simp add: minus_mod_eq_div_mult [symmetric])
    finally show ?thesis by simp
  qed
  with assms(2) show ?thesis by (auto simp: saturated_add_def Let_def not_le)
qed

lemma saturated_add_ge:
  assumes "clock_ok c" "at \<le> time_max c"
  shows "at \<le> saturated_add c at delta"
  using assms by (auto simp: saturated_add_def clock_ok_def Let_def)

lemma saturated_add_exact:
  assumes "clock_ok c" "at \<le> time_max c" "0 \<le> delta"
    and "at + (delta + 1) * ticks_per_ms c \<le> time_max c"
  shows "saturated_add c at delta = at + delta * ticks_per_ms c"
proof (cases "delta = 0")
  case False
  have t: "0 < ticks_per_ms c" using assms(1) by (simp add: clock_ok_def)
  have "((delta + 1) * ticks_per_ms c) div ticks_per_ms c \<le> (time_max c - at) div ticks_per_ms c"
    using assms(4) t by (intro zdiv_mono1) auto
  then have "delta + 1 \<le> (time_max c - at) div ticks_per_ms c" using t by simp
  with assms(3) False show ?thesis by (simp add: saturated_add_def)
qed (simp add: saturated_add_def)

end
