(* ===== verification/Delivery.thy ===== *)
theory Delivery
  imports Demux Text_Config
begin

section \<open>Delivering a stream to a consumer\<close>

text \<open>
  \<open>src/docker/StreamRead.hpp\<close>: \<open>deliver_chunk\<close>, \<open>stream_body_to_consumer\<close>,
  \<open>pump_exec_stream\<close> and \<open>stream_raw_to_consumer\<close>.  The transport is not modelled: what it hands
  back is a list of read events, one per turn of a loop, each with the clock reading at the top
  of the turn.  A consumer is a function on a state of its own that answers whether to go on.
\<close>

subsection \<open>deliver\_chunk\<close>

datatype LogSource = Stdout | Stderr
datatype FollowEnd = StreamEnded | ConsumerStopped | DeadlineExpired

type_synonym 'c consumer = "LogSource \<Rightarrow> string \<Rightarrow> 'c \<Rightarrow> bool \<times> 'c"

fun deliver_frames :: "'c consumer \<Rightarrow> LogFrame list \<Rightarrow> 'c \<Rightarrow> bool \<times> 'c" where
  "deliver_frames consumer [] c = (True, c)"
| "deliver_frames consumer (f # fs) c =
     (case fr_stream f of
        StdIn \<Rightarrow> deliver_frames consumer fs c
      | StdOut \<Rightarrow>
          (let (go, c') = consumer Stdout (fr_data f) c in
           if go then deliver_frames consumer fs c' else (False, c'))
      | StdErr \<Rightarrow>
          (let (go, c') = consumer Stderr (fr_data f) c in
           if go then deliver_frames consumer fs c' else (False, c')))"

definition deliver_chunk ::
  "'c consumer \<Rightarrow> bool \<Rightarrow> LogDemuxer \<Rightarrow> string \<Rightarrow> 'c \<Rightarrow> bool \<times> LogDemuxer \<times> 'c" where
  "deliver_chunk consumer tty d chunk c =
     (if tty then (let (go, c') = consumer Stdout chunk c in (go, d, c'))
      else
        (let (d', frames) = feed d chunk; (go, c') = deliver_frames consumer frames c
         in (go, d', c')))"

subsection \<open>The delivery loops\<close>

datatype rd_ec = NoError | NeedBuffer | TimedOut | OtherError

record read_event =
  ev_done :: bool
  ev_now :: int
  ev_data :: string
  ev_ec :: rd_ec

text \<open>\<open>duration_cast<milliseconds>\<close> of a difference of time points: truncation towards zero.\<close>

definition to_ms :: "clock \<Rightarrow> int \<Rightarrow> int" where
  "to_ms clk d = (if 0 \<le> d then d div ticks_per_ms clk else - ((- d) div ticks_per_ms clk))"

text \<open>
  One result of a loop: why it ended (\<open>None\<close> when the given events ran out with the loop still
  reading), the state of the consumer, and the io timeouts that were armed.
\<close>

type_synonym 'c delivery = "FollowEnd option \<times> 'c \<times> int list"

fun body_loop ::
  "clock \<Rightarrow> bool \<Rightarrow> 'c consumer \<Rightarrow> int option \<Rightarrow> LogDemuxer \<Rightarrow> 'c \<Rightarrow> int list \<Rightarrow> read_event list
    \<Rightarrow> 'c delivery" where
  "body_loop clk tty consumer deadline d c armed [] = (None, c, armed)"
| "body_loop clk tty consumer deadline d c armed (ev # evs) =
     (if ev_done ev then (Some StreamEnded, c, armed)
      else
        let remaining = (case deadline of Some dl \<Rightarrow> Some (to_ms clk (dl - ev_now ev)) | None \<Rightarrow> None) in
        if (case remaining of Some r \<Rightarrow> r \<le> 0 | None \<Rightarrow> False) then (Some DeadlineExpired, c, armed)
        else
          let armed' = (case remaining of Some r \<Rightarrow> armed @ [r] | None \<Rightarrow> armed);
              ec = (if ev_ec ev = NeedBuffer then NoError else ev_ec ev) in
          if ec = TimedOut then (Some DeadlineExpired, c, armed')
          else if ec \<noteq> NoError then (Some StreamEnded, c, armed')
          else if ev_data ev = [] then body_loop clk tty consumer deadline d c armed' evs
          else
            let (go, d', c') = deliver_chunk consumer tty d (ev_data ev) c in
            if \<not> go then (Some ConsumerStopped, c', armed')
            else body_loop clk tty consumer deadline d' c' armed' evs)"

definition stream_body_to_consumer ::
  "clock \<Rightarrow> bool \<Rightarrow> 'c consumer \<Rightarrow> int option \<Rightarrow> 'c \<Rightarrow> read_event list \<Rightarrow> 'c delivery" where
  "stream_body_to_consumer clk tty consumer deadline c evs =
     body_loop clk tty consumer deadline new_demuxer c [] evs"

fun raw_loop ::
  "clock \<Rightarrow> bool \<Rightarrow> 'c consumer \<Rightarrow> int option \<Rightarrow> LogDemuxer \<Rightarrow> 'c \<Rightarrow> int list \<Rightarrow> read_event list
    \<Rightarrow> 'c delivery" where
  "raw_loop clk tty consumer deadline d c armed [] = (None, c, armed)"
| "raw_loop clk tty consumer deadline d c armed (ev # evs) =
     (let remaining = (case deadline of Some dl \<Rightarrow> Some (to_ms clk (dl - ev_now ev)) | None \<Rightarrow> None) in
      if (case remaining of Some r \<Rightarrow> r \<le> 0 | None \<Rightarrow> False) then (Some DeadlineExpired, c, armed)
      else
        let armed' = (case remaining of Some r \<Rightarrow> armed @ [r] | None \<Rightarrow> armed);
            (go, d', c') =
              (if ev_data ev = [] then (True, d, c)
               else deliver_chunk consumer tty d (ev_data ev) c) in
        if \<not> go then (Some ConsumerStopped, c', armed')
        else if ev_ec ev = TimedOut \<and> deadline \<noteq> None then (Some DeadlineExpired, c', armed')
        else if ev_ec ev \<noteq> NoError then (Some StreamEnded, c', armed')
        else raw_loop clk tty consumer deadline d' c' armed' evs)"

definition stream_raw_to_consumer ::
  "clock \<Rightarrow> int \<Rightarrow> string \<Rightarrow> bool \<Rightarrow> 'c consumer \<Rightarrow> int option \<Rightarrow> 'c \<Rightarrow> read_event list
    \<Rightarrow> 'c delivery" where
  "stream_raw_to_consumer clk now leftover tty consumer deadline c evs =
     (if (case deadline of Some dl \<Rightarrow> dl \<le> now | None \<Rightarrow> False) then (Some DeadlineExpired, c, [])
      else
        let (go, d, c') =
              (if leftover = [] then (True, new_demuxer, c)
               else deliver_chunk consumer tty new_demuxer leftover c) in
        if \<not> go then (Some ConsumerStopped, c', [])
        else raw_loop clk tty consumer deadline d c' [] evs)"

text \<open>
  The callback given to \<open>ITransport::exchange\<close>, run over the chunks the exchange reads: the
  exchange stops when it answers false.  \<open>exchange\<close> itself (the interleaved write of the stdin
  bytes) is the transport's and a parameter; it yields the chunks and the final error code.
  The boolean of the pump's result says whether \<open>wedge_ec\<close> is left for the caller to throw.
\<close>

fun exchange_deliver ::
  "bool \<Rightarrow> 'c consumer \<Rightarrow> LogDemuxer \<Rightarrow> 'c \<Rightarrow> string list \<Rightarrow> bool \<times> 'c" where
  "exchange_deliver tty consumer d c [] = (False, c)"
| "exchange_deliver tty consumer d c (chunk # chunks) =
     (let (go, d', c') = deliver_chunk consumer tty d chunk c in
      if \<not> go then (True, c') else exchange_deliver tty consumer d' c' chunks)"

definition pump_exec_stream ::
  "(string \<Rightarrow> bool \<Rightarrow> int option \<Rightarrow> 'w \<Rightarrow> (string list \<times> rd_ec) \<times> 'w) \<Rightarrow> int \<Rightarrow> string \<Rightarrow> string \<Rightarrow>
    bool \<Rightarrow> 'c consumer \<Rightarrow> int option \<Rightarrow> 'c \<Rightarrow> 'w \<Rightarrow> (FollowEnd \<times> bool \<times> 'c) \<times> 'w" where
  "pump_exec_stream exchange now leftover stdin_data tty consumer deadline c w =
     (if (case deadline of Some dl \<Rightarrow> dl \<le> now | None \<Rightarrow> False) then ((DeadlineExpired, False, c), w)
      else
        let (go, d, c') =
              (if leftover = [] then (True, new_demuxer, c)
               else deliver_chunk consumer tty new_demuxer leftover c) in
        if \<not> go then ((ConsumerStopped, False, c'), w)
        else
          let ((chunks, ec), w') = exchange stdin_data True deadline w;
              (stopped, c'') = exchange_deliver tty consumer d c' chunks in
          if stopped then ((ConsumerStopped, False, c''), w')
          else if ec = TimedOut then
            ((if deadline \<noteq> None then (DeadlineExpired, False, c'') else (StreamEnded, True, c'')), w')
          else ((StreamEnded, False, c''), w'))"

subsection \<open>The specification of delivery\<close>

text \<open>A consumer run over the whole sequence of items, up to the first one it stops at.\<close>

fun run_consumer :: "'c consumer \<Rightarrow> (LogSource \<times> string) list \<Rightarrow> 'c \<Rightarrow> bool \<times> 'c" where
  "run_consumer consumer [] c = (True, c)"
| "run_consumer consumer ((src, dat) # items) c =
     (let (go, c') = consumer src dat c in
      if go then run_consumer consumer items c' else (False, c'))"

definition log_item :: "LogFrame \<Rightarrow> (LogSource \<times> string) list" where
  "log_item f =
     (case fr_stream f of StdIn \<Rightarrow> [] | StdOut \<Rightarrow> [(Stdout, fr_data f)] | StdErr \<Rightarrow> [(Stderr, fr_data f)])"

definition log_items :: "LogFrame list \<Rightarrow> (LogSource \<times> string) list" where
  "log_items fs = concat (map log_item fs)"

text \<open>The items of a sequence of chunks: raw with a tty, otherwise the frames of the whole text.\<close>

definition stream_items :: "bool \<Rightarrow> string list \<Rightarrow> (LogSource \<times> string) list" where
  "stream_items tty chunks =
     (if tty then map (\<lambda>d. (Stdout, d)) (filter (\<lambda>d. d \<noteq> []) chunks)
      else log_items (demux_spec (concat chunks)))"

lemma log_items_simps [simp]:
  "log_items [] = []" "log_items (f # fs) = log_item f @ log_items fs"
  "log_items (fs @ gs) = log_items fs @ log_items gs"
  by (simp_all add: log_items_def)

lemma run_consumer_append:
  "run_consumer consumer (xs @ ys) c =
     (let (go, c') = run_consumer consumer xs c in
      if go then run_consumer consumer ys c' else (False, c'))"
  by (induction consumer xs c rule: run_consumer.induct) (auto split: prod.splits)

lemma deliver_frames_run:
  "deliver_frames consumer fs c = run_consumer consumer (log_items fs) c"
  by (induction fs arbitrary: c) (auto simp: log_item_def split: LogStreamKind.splits prod.splits)

lemma demux_spec_append: "\<exists>new. demux_spec (h @ x) = demux_spec h @ new"
  by (subst demux_spec_def, subst drain_append) (simp add: demux_spec_def split_def Let_def)

text \<open>
  The items a chunk adds to those of the text before it, and the relation of a demuxer to
  that text (a tty stream does not use its demuxer).
\<close>

definition chunk_items :: "bool \<Rightarrow> string \<Rightarrow> string \<Rightarrow> (LogSource \<times> string) list" where
  "chunk_items tty h x =
     (if tty then (if x = [] then [] else [(Stdout, x)])
      else log_items (drop (length (demux_spec h)) (demux_spec (h @ x))))"

definition demux_at :: "bool \<Rightarrow> string \<Rightarrow> LogDemuxer \<Rightarrow> bool" where
  "demux_at tty h d \<longleftrightarrow> tty \<or> (\<exists>fs. demux_sim h (d, fs))"

fun items_from :: "bool \<Rightarrow> string \<Rightarrow> string list \<Rightarrow> (LogSource \<times> string) list" where
  "items_from tty h [] = []"
| "items_from tty h (x # xs) = chunk_items tty h x @ items_from tty (h @ x) xs"

lemma chunk_items_Nil [simp]: "chunk_items tty h [] = []"
  by (simp add: chunk_items_def)

lemma demux_at_new [simp]: "demux_at tty [] new_demuxer"
  using demux.sim_init by (auto simp: demux_at_def)

lemma items_from_demux:
  "items_from False h xs = log_items (drop (length (demux_spec h)) (demux_spec (h @ concat xs)))"
proof (induction xs arbitrary: h)
  case (Cons x xs)
  obtain n where n: "demux_spec (h @ x) = demux_spec h @ n" using demux_spec_append by blast
  obtain m where m: "demux_spec ((h @ x) @ concat xs) = demux_spec (h @ x) @ m"
    using demux_spec_append by blast
  show ?case using n m by (simp add: Cons.IH [of "h @ x"] chunk_items_def)
qed simp

lemma items_from_stream: "items_from tty [] xs = stream_items tty xs"
proof (cases tty)
  case True
  have "items_from True h xs = stream_items True xs" for h
    by (induction xs arbitrary: h) (auto simp: chunk_items_def stream_items_def)
  with True show ?thesis by simp
next
  case False
  have "demux_spec [] = []" by (simp add: demux_spec_def drain_Nil)
  with False show ?thesis by (simp add: items_from_demux stream_items_def)
qed

lemma deliver_chunk_items:
  assumes "demux_at tty h d" "x \<noteq> []"
  shows "\<exists>d'. deliver_chunk consumer tty d x c =
      (let (go, c') = run_consumer consumer (chunk_items tty h x) c in (go, d', c')) \<and>
    demux_at tty (h @ x) d'"
proof (cases tty)
  case True
  with assms show ?thesis
    by (intro exI [of _ d]) (simp add: deliver_chunk_def chunk_items_def demux_at_def split: prod.splits)
next
  case False
  then obtain fs where s: "demux_sim h (d, fs)" using assms by (auto simp: demux_at_def)
  obtain d' new where f: "feed d x = (d', new)" by (cases "feed d x")
  have "demux_sim (h @ x) (demux_step (d, fs) x)" by (rule demux.sim_feed [OF s])
  then have s': "demux_sim (h @ x) (d', fs @ new)" by (simp add: demux_step_def f)
  have "demux_spec h = fs" "demux_spec (h @ x) = fs @ new"
    using demux.sim_obs [OF s] demux.sim_obs [OF s'] by simp_all
  with f s' False show ?thesis
    by (intro exI [of _ d'])
      (auto simp: deliver_chunk_def deliver_frames_run chunk_items_def demux_at_def)
qed

text \<open>Every loop hands the consumer the items of the whole text, up to where it stops.\<close>

lemma exchange_deliver_items:
  "demux_at tty h d \<Longrightarrow> [] \<notin> set chunks \<Longrightarrow>
   exchange_deliver tty consumer d c chunks =
     (let (go, c') = run_consumer consumer (items_from tty h chunks) c in (\<not> go, c'))"
proof (induction chunks arbitrary: h d c)
  case (Cons x xs)
  then obtain d' where d: "deliver_chunk consumer tty d x c =
      (let (go, c') = run_consumer consumer (chunk_items tty h x) c in (go, d', c'))"
    "demux_at tty (h @ x) d'"
    using deliver_chunk_items [of tty h d x consumer c] by auto
  from Cons.IH [OF d(2)] Cons.prems d(1) show ?case
    by (auto simp: run_consumer_append split: prod.splits)
qed simp

lemma raw_loop_items:
  "demux_at tty h d \<Longrightarrow> \<forall>ev \<in> set evs. ev_ec ev = NoError \<Longrightarrow> ev_ec l \<noteq> NoError \<Longrightarrow>
   raw_loop clk tty consumer None d c armed (evs @ [l]) =
     (let (go, c') = run_consumer consumer (items_from tty h (map ev_data (evs @ [l]))) c
      in (Some (if go then StreamEnded else ConsumerStopped), c', armed))"
proof (induction evs arbitrary: h d c)
  case Nil
  show ?case
  proof (cases "ev_data l = []")
    case True
    with Nil show ?thesis by (simp add: Let_def)
  next
    case False
    then obtain d' where d: "deliver_chunk consumer tty d (ev_data l) c =
        (let (go, c') = run_consumer consumer (chunk_items tty h (ev_data l)) c in (go, d', c'))"
      using deliver_chunk_items [OF Nil.prems(1) False, of consumer c] by blast
    obtain go c1 where r: "run_consumer consumer (chunk_items tty h (ev_data l)) c = (go, c1)"
      by (cases "run_consumer consumer (chunk_items tty h (ev_data l)) c")
    show ?thesis using False Nil.prems by (simp add: d r)
  qed
next
  case (Cons ev evs)
  show ?case
  proof (cases "ev_data ev = []")
    case True
    with Cons show ?thesis by simp
  next
    case False
    then obtain d' where d: "deliver_chunk consumer tty d (ev_data ev) c =
        (let (go, c') = run_consumer consumer (chunk_items tty h (ev_data ev)) c in (go, d', c'))"
      "demux_at tty (h @ ev_data ev) d'"
      using deliver_chunk_items [OF Cons.prems(1) False, of consumer c] by blast
    obtain go c1 where r: "run_consumer consumer (chunk_items tty h (ev_data ev)) c = (go, c1)"
      by (cases "run_consumer consumer (chunk_items tty h (ev_data ev)) c")
    have i: "raw_loop clk tty consumer None d' c1 armed (evs @ [l]) =
        (let (go, c') = run_consumer consumer
           (items_from tty (h @ ev_data ev) (map ev_data (evs @ [l]))) c1
         in (Some (if go then StreamEnded else ConsumerStopped), c', armed))"
      using Cons.prems by (intro Cons.IH [OF d(2)]) simp_all
    have "raw_loop clk tty consumer None d c armed ((ev # evs) @ [l]) =
        (if go then raw_loop clk tty consumer None d' c1 armed (evs @ [l])
         else (Some ConsumerStopped, c1, armed))"
      using False Cons.prems(2) by (simp add: d(1) r)
    with i show ?thesis by (simp add: run_consumer_append r)
  qed
qed

lemma body_loop_items:
  "demux_at tty h d \<Longrightarrow>
   \<forall>ev \<in> set evs. \<not> ev_done ev \<and> (ev_ec ev = NoError \<or> ev_ec ev = NeedBuffer) \<Longrightarrow> ev_done l \<Longrightarrow>
   body_loop clk tty consumer None d c armed (evs @ [l]) =
     (let (go, c') = run_consumer consumer (items_from tty h (map ev_data evs)) c
      in (Some (if go then StreamEnded else ConsumerStopped), c', armed))"
proof (induction evs arbitrary: h d c)
  case Nil
  then show ?case by simp
next
  case (Cons ev evs)
  then have ec: "\<not> ev_done ev" "(if ev_ec ev = NeedBuffer then NoError else ev_ec ev) = NoError" by auto
  show ?case
  proof (cases "ev_data ev = []")
    case True
    with Cons ec show ?thesis by simp
  next
    case False
    then obtain d' where d: "deliver_chunk consumer tty d (ev_data ev) c =
        (let (go, c') = run_consumer consumer (chunk_items tty h (ev_data ev)) c in (go, d', c'))"
      "demux_at tty (h @ ev_data ev) d'"
      using deliver_chunk_items [OF Cons.prems(1) False, of consumer c] by blast
    obtain go c1 where r: "run_consumer consumer (chunk_items tty h (ev_data ev)) c = (go, c1)"
      by (cases "run_consumer consumer (chunk_items tty h (ev_data ev)) c")
    have i: "body_loop clk tty consumer None d' c1 armed (evs @ [l]) =
        (let (go, c') = run_consumer consumer
           (items_from tty (h @ ev_data ev) (map ev_data evs)) c1
         in (Some (if go then StreamEnded else ConsumerStopped), c', armed))"
      using Cons.prems by (intro Cons.IH [OF d(2)]) simp_all
    have "body_loop clk tty consumer None d c armed ((ev # evs) @ [l]) =
        (if go then body_loop clk tty consumer None d' c1 armed (evs @ [l])
         else (Some ConsumerStopped, c1, armed))"
      using False ec by (simp add: d(1) r)
    with i show ?thesis by (simp add: run_consumer_append r)
  qed
qed

lemma raw_loop_armed:
  "\<forall>a \<in> set armed. 0 < a \<Longrightarrow> raw_loop clk tty consumer deadline d c armed evs = (e, c', armed') \<Longrightarrow>
     \<forall>a \<in> set armed'. 0 < a"
proof (induction evs arbitrary: d c armed)
  case (Cons ev evs)
  let ?new = "case deadline of Some dl \<Rightarrow> armed @ [to_ms clk (dl - ev_now ev)] | None \<Rightarrow> armed"
  show ?case
  proof (cases "\<forall>a \<in> set ?new. 0 < a")
    case True
    with Cons.prems(2) Cons.IH [OF True] show ?thesis
      by (auto simp: Let_def split: if_splits option.splits prod.splits) (blast+)?
  next
    case False
    with Cons.prems show ?thesis
      by (auto simp: Let_def not_less split: if_splits option.splits prod.splits)
  qed
qed simp

end
