(* ===== verification/Occurrences.thy ===== *)
theory Occurrences
  imports Demux
begin

section \<open>Counting a message in a log\<close>

text \<open>
  \<open>count_occurrences\<close> and \<open>OccurrenceCounter\<close> of \<open>src/WaitStrategies.cpp\<close> and
  \<open>src/WaitStrategies.hpp\<close>: the counter is fed the log chunk by chunk and trims what no
  later match can need.  It is an \<open>incremental\<close> processor whose specification is the
  number of non-overlapping occurrences in the whole text.
\<close>

subsection \<open>The code\<close>

text \<open>\<open>haystack.find(needle, pos)\<close>.\<close>

definition find_from :: "string \<Rightarrow> string \<Rightarrow> nat \<Rightarrow> nat option" where
  "find_from needle s pos =
     (if length s < pos then None else map_option (\<lambda>i. pos + i) (find_str needle (drop pos s)))"

text \<open>
  The \<open>while\<close> loop both functions share: position, end of the last match, count.  Both
  return early on an empty needle, on which it would not advance.
\<close>

function find_loop :: "string \<Rightarrow> string \<Rightarrow> nat \<Rightarrow> nat \<Rightarrow> nat \<Rightarrow> nat \<times> nat" where
  "find_loop needle s pos nxt n =
     (if needle = [] then (nxt, n)
      else case find_from needle s pos of
             None \<Rightarrow> (nxt, n)
           | Some p \<Rightarrow> find_loop needle s (p + length needle) (p + length needle) (n + 1))"
  by pat_completeness auto

lemma find_from_Some:
  "find_from needle s pos = Some p \<Longrightarrow>
     pos \<le> p \<and> p + length needle \<le> length s \<and> find_str needle (drop pos s) = Some (p - pos)"
proof -
  assume "find_from needle s pos = Some p"
  then obtain i where i: "pos \<le> length s" "find_str needle (drop pos s) = Some i" "p = pos + i"
    by (auto simp: find_from_def split: if_splits)
  with find_str_Some [OF i(2)] show ?thesis by auto
qed

termination find_loop
proof (relation "measure (\<lambda>(needle, s, pos, nxt, n). length s - pos)")
  fix needle s :: string and pos nxt n p :: nat
  assume "needle \<noteq> []" "find_from needle s pos = Some p"
  then have "needle \<noteq> []" "pos \<le> p" "p + length needle \<le> length s"
    by (auto dest: find_from_Some)
  then have "length s - (p + length needle) < length s - pos" by (cases needle) auto
  then show "((needle, s, p + length needle, p + length needle, n + 1), needle, s, pos, nxt, n)
      \<in> measure (\<lambda>(needle, s, pos, nxt, n). length s - pos)" by simp
qed simp

declare find_loop.simps [simp del]

definition count_occurrences :: "string \<Rightarrow> string \<Rightarrow> nat" where
  "count_occurrences haystack needle =
     (if needle = [] then 0 else snd (find_loop needle haystack 0 0 0))"

record OccurrenceCounter =
  oc_needle :: string
  oc_buffered :: string
  oc_scan_from :: nat
  oc_count :: nat

definition new_counter :: "string \<Rightarrow> OccurrenceCounter" where
  "new_counter needle = \<lparr>oc_needle = needle, oc_buffered = [], oc_scan_from = 0, oc_count = 0\<rparr>"

definition oc_feed :: "OccurrenceCounter \<Rightarrow> string \<Rightarrow> OccurrenceCounter" where
  "oc_feed s chunk =
     (let needle = oc_needle s in
      if needle = [] then s
      else
        let buffered = oc_buffered s @ chunk;
            (next, count) = find_loop needle buffered (oc_scan_from s) (oc_scan_from s) (oc_count s);
            tail_start = (if length buffered < length needle then 0
                          else length buffered - (length needle - 1));
            scan_from = max next tail_start
        in if 65536 < scan_from
           then s\<lparr>oc_buffered := drop scan_from buffered, oc_scan_from := 0, oc_count := count\<rparr>
           else s\<lparr>oc_buffered := buffered, oc_scan_from := scan_from, oc_count := count\<rparr>)"

subsection \<open>The specification\<close>

text \<open>Non-overlapping occurrences: leftmost match, then on after its end.\<close>

function occ :: "string \<Rightarrow> string \<Rightarrow> nat" where
  "occ needle s =
     (if needle = [] then 0
      else case find_str needle s of
             None \<Rightarrow> 0
           | Some i \<Rightarrow> Suc (occ needle (drop (i + length needle) s)))"
  by pat_completeness auto
termination
proof (relation "measure (\<lambda>(needle, s). length s)")
  fix needle s :: string and i :: nat
  assume "needle \<noteq> []" "find_str needle s = Some i"
  then have "i + length needle \<le> length s" "needle \<noteq> []" by (auto dest: find_str_Some)
  then have "length s - (i + length needle) < length s" by (cases needle) auto
  then show "((needle, drop (i + length needle) s), needle, s) \<in> measure (\<lambda>(needle, s). length s)"
    by simp
qed simp

declare occ.simps [simp del]

lemma occ_Nil_needle [simp]: "occ [] s = 0"
  by (simp add: occ.simps)

lemma occ_None: "find_str n s = None \<Longrightarrow> occ n s = 0"
  by (simp add: occ.simps)

lemma occ_Some:
  "n \<noteq> [] \<Longrightarrow> find_str n s = Some i \<Longrightarrow> occ n s = Suc (occ n (drop (i + length n) s))"
  by (subst occ.simps) simp

lemma starts_with_extend: "starts_with n x \<Longrightarrow> starts_with n (x @ d)"
  by (auto simp: starts_with_iff)

lemma starts_with_within: "length n \<le> length x \<Longrightarrow> starts_with n (x @ d) \<longleftrightarrow> starts_with n x"
  by (simp add: starts_with_def)

lemma find_str_unique:
  assumes "starts_with n (drop i s)" "i \<le> length s" "\<forall>j < i. \<not> starts_with n (drop j s)"
  shows "find_str n s = Some i"
proof (cases "find_str n s")
  case None
  with assms show ?thesis by (auto simp: find_str_None)
next
  case (Some k)
  have "\<not> k < i" using find_str_Some [OF Some] assms(3) by blast
  moreover have "\<not> i < k" using find_str_least [OF Some] assms(1) by blast
  ultimately show ?thesis using Some by simp
qed

text \<open>A match found in a text is still the first one when the text goes on.\<close>

lemma find_str_extend:
  assumes "find_str n s = Some i"
  shows "find_str n (s @ d) = Some i"
proof (rule find_str_unique)
  have le: "i + length n \<le> length s" and at: "starts_with n (drop i s)"
    using find_str_Some [OF assms] by simp_all
  show "starts_with n (drop i (s @ d))" using le at by (simp add: starts_with_extend)
  show "i \<le> length (s @ d)" using le by simp
  show "\<forall>j < i. \<not> starts_with n (drop j (s @ d))"
  proof (intro allI impI)
    fix j assume j: "j < i"
    then have "length n \<le> length (drop j s)" using le by simp
    then have "starts_with n (drop j s @ d) \<longleftrightarrow> starts_with n (drop j s)"
      by (rule starts_with_within)
    then show "\<not> starts_with n (drop j (s @ d))"
      using find_str_least [OF assms j] j le by simp
  qed
qed

text \<open>A prefix in which no match can start may be dropped.\<close>

lemma find_str_skip:
  "(\<forall>j < length u. \<not> starts_with n (drop j (u @ w))) \<Longrightarrow>
     find_str n (u @ w) = map_option (\<lambda>i. length u + i) (find_str n w)"
proof (induction u)
  case Nil
  then show ?case by (cases "find_str n w") simp_all
next
  case (Cons x u)
  from Cons.prems have "\<not> starts_with n ((x # u) @ w)" by (metis drop0 length_greater_0_conv list.distinct(1))
  moreover have "\<forall>j < length u. \<not> starts_with n (drop j (u @ w))"
    using Cons.prems by (metis Suc_less_eq append_Cons drop_Suc_Cons length_Cons)
  ultimately show ?case using Cons.IH by (cases "find_str n w") simp_all
qed

lemma occ_skip:
  assumes "\<forall>j < length u. \<not> starts_with n (drop j (u @ w))"
  shows "occ n (u @ w) = occ n w"
proof (cases "n = [] \<or> find_str n w = None")
  case True
  then show ?thesis using find_str_skip [OF assms] by (auto simp: occ_None)
next
  case False
  then obtain i where "n \<noteq> []" "find_str n w = Some i" by auto
  then show ?thesis using find_str_skip [OF assms] by (simp add: occ_Some add.assoc)
qed

lemma find_loop_occ:
  assumes "n \<noteq> []" "pos \<le> length s"
  shows "\<exists>e. find_loop n s pos pos k = (e, k + occ n (drop pos s)) \<and> pos \<le> e \<and> e \<le> length s \<and>
    find_str n (drop e s) = None \<and>
    (\<forall>d. occ n (drop pos s @ d) = occ n (drop pos s) + occ n (drop e s @ d))"
  using assms
proof (induction "length s - pos" arbitrary: pos k rule: less_induct)
  case less
  show ?case
  proof (cases "find_from n s pos")
    case None
    then have "find_str n (drop pos s) = None" using less.prems(2) by (auto simp: find_from_def)
    with None less.prems show ?thesis
      by (intro exI [of _ pos]) (simp add: find_loop.simps [of n] occ_None)
  next
    case (Some p)
    let ?q = "p + length n"
    from find_from_Some [OF Some] have p: "pos \<le> p" "?q \<le> length s"
      "find_str n (drop pos s) = Some (p - pos)" by simp_all
    have dr: "drop (p - pos + length n) (drop pos s) = drop ?q s" using p by simp
    have o: "occ n (drop pos s) = Suc (occ n (drop ?q s))"
      using occ_Some [OF less.prems(1) p(3)] by (simp only: dr)
    have "length s - ?q < length s - pos" using p less.prems(1) by (cases n) auto
    from less.hyps [OF this less.prems(1) p(2), of "k + 1"] obtain e where e:
      "find_loop n s ?q ?q (k + 1) = (e, k + 1 + occ n (drop ?q s))" "?q \<le> e" "e \<le> length s"
      "find_str n (drop e s) = None"
      "\<forall>d. occ n (drop ?q s @ d) = occ n (drop ?q s) + occ n (drop e s @ d)" by blast
    have "find_loop n s pos pos k = (e, k + occ n (drop pos s))"
      using Some e(1) less.prems(1) by (simp add: find_loop.simps [of n s pos] o)
    moreover have "occ n (drop pos s @ d) = occ n (drop pos s) + occ n (drop e s @ d)" for d
    proof -
      have "occ n (drop pos s @ d) = Suc (occ n (drop (p - pos + length n) (drop pos s @ d)))"
        by (rule occ_Some [OF less.prems(1) find_str_extend [OF p(3)]])
      also have "drop (p - pos + length n) (drop pos s @ d) = drop ?q s @ d"
        using dr p by simp
      finally show ?thesis using e(5) by (simp add: o)
    qed
    ultimately show ?thesis using e p by (intro exI [of _ e]) simp
  qed
qed

lemma count_occurrences_occ: "count_occurrences h n = occ n h"
  using find_loop_occ [of n 0 h 0] by (auto simp: count_occurrences_def)

text \<open>What the counter keeps: its tail holds no match, and counting on from it is enough.\<close>

definition oc_sim :: "string \<Rightarrow> string \<Rightarrow> OccurrenceCounter \<Rightarrow> bool" where
  "oc_sim n h s \<longleftrightarrow> oc_needle s = n \<and> oc_scan_from s \<le> length (oc_buffered s) \<and>
     occ n (drop (oc_scan_from s) (oc_buffered s)) = 0 \<and>
     (\<forall>d. occ n (h @ d) = oc_count s + occ n (drop (oc_scan_from s) (oc_buffered s) @ d))"

lemma oc_trim:
  assumes n: "n \<noteq> []" and e: "e \<le> length b" and none: "find_str n (drop e b) = None"
    and t: "t = max e (if length b < length n then 0 else length b - (length n - 1))"
  shows "t \<le> length b" "occ n (drop t b @ d) = occ n (drop e b @ d)"
proof -
  show tl: "t \<le> length b" using t e n by (cases n) auto
  have et: "e \<le> t" using t by simp
  let ?u = "take (t - e) (drop e b)"
  have split: "drop e b = ?u @ drop t b"
    using et by (metis append_take_drop_id drop_drop le_add_diff_inverse2)
  have lu: "length ?u = t - e" using tl et by simp
  have "\<not> starts_with n (drop j (?u @ drop t b @ d))" if j: "j < length ?u" for j
  proof -
    have "t = length b - (length n - 1)" "length n \<le> length b"
      using j lu t et by (auto simp: max_def split: if_splits)
    then have "length n \<le> length (drop j (drop e b))" using j lu n by (cases n) auto
    then have "starts_with n (drop j (drop e b) @ d) \<longleftrightarrow> starts_with n (drop j (drop e b))"
      by (rule starts_with_within)
    moreover have "\<not> starts_with n (drop j (drop e b))"
      using none j lu tl by (simp only: find_str_None) auto
    moreover have "drop j (?u @ drop t b @ d) = drop j (drop e b) @ d"
      using j by (metis append.assoc drop_append less_imp_le_nat split diff_is_0_eq drop0 length_append trans_le_add1)
    ultimately show ?thesis by simp
  qed
  then have "occ n (?u @ drop t b @ d) = occ n (drop t b @ d)" by (intro occ_skip) blast
  then show "occ n (drop t b @ d) = occ n (drop e b @ d)" by (metis append.assoc split)
qed

lemma oc_sim_feed:
  assumes s: "oc_sim n h s"
  shows "oc_sim n (h @ c) (oc_feed s c)"
proof (cases "n = []")
  case True
  with s show ?thesis by (simp add: oc_sim_def oc_feed_def)
next
  case False
  let ?f = "oc_scan_from s"
  let ?b = "oc_buffered s @ c"
  have nd: "oc_needle s = n" and fb: "?f \<le> length (oc_buffered s)"
    and cnt: "\<And>d. occ n (h @ d) = oc_count s + occ n (drop ?f (oc_buffered s) @ d)"
    using s by (simp_all add: oc_sim_def)
  from find_loop_occ [of n ?f ?b "oc_count s"] False fb obtain e where e:
    "find_loop n ?b ?f ?f (oc_count s) = (e, oc_count s + occ n (drop ?f ?b))" "e \<le> length ?b"
    "find_str n (drop e ?b) = None"
    "\<And>d. occ n (drop ?f ?b @ d) = occ n (drop ?f ?b) + occ n (drop e ?b @ d)" by auto
  define t where "t = max e (if length ?b < length n then 0 else length ?b - (length n - 1))"
  note tr = oc_trim [OF False e(2,3) t_def]
  let ?k = "oc_count s + occ n (drop ?f ?b)"
  have feed: "oc_feed s c = (if 65536 < t
      then s\<lparr>oc_buffered := drop t ?b, oc_scan_from := 0, oc_count := ?k\<rparr>
      else s\<lparr>oc_buffered := ?b, oc_scan_from := t, oc_count := ?k\<rparr>)"
    using False e(1) by (simp add: oc_feed_def nd Let_def t_def)
  have zero: "occ n (drop t ?b) = 0" using tr(2) [of "[]"] occ_None [OF e(3)] by simp
  have total: "occ n ((h @ c) @ d) = ?k + occ n (drop t ?b @ d)" for d
    using cnt [of "c @ d"] e(4) [of d] fb tr(2) [of d] by simp
  show ?thesis using feed zero total tr(1) nd by (simp add: oc_sim_def)
qed

interpretation oc: incremental "new_counter n" oc_feed "oc_sim n" oc_count "occ n" for n
proof unfold_locales
  show "oc_sim n [] (new_counter n)" by (simp add: oc_sim_def new_counter_def occ_None occ.simps)
next
  fix h s c assume "oc_sim n h s"
  then show "oc_sim n (h @ c) (oc_feed s c)" by (rule oc_sim_feed)
next
  fix h s assume s: "oc_sim n h s"
  then have "\<And>d. occ n (h @ d) = oc_count s + occ n (drop (oc_scan_from s) (oc_buffered s) @ d)"
    by (simp add: oc_sim_def)
  from this [of "[]"] s show "oc_count s = occ n h" by (simp add: oc_sim_def)
qed

text \<open>The memory the counter keeps unscanned is bounded by the needle.\<close>

lemma oc_feed_tail:
  assumes "oc_needle s \<noteq> []"
  shows "length (oc_buffered (oc_feed s c)) - oc_scan_from (oc_feed s c) < length (oc_needle s)"
  using assms by (cases "oc_needle s") (auto simp: oc_feed_def Let_def max_def split: prod.splits)

end
