(* ===== verification/DockerIgnoreM.thy ===== *)
theory DockerIgnoreM
  imports Text_Config
begin

section \<open>The .dockerignore matcher\<close>

text \<open>
  \<open>src/docker/DockerIgnore.cpp\<close>: parsing of the patterns, the one-component glob matcher
  with its single backtracking point, the path matcher with \<open>**\<close>, and the verdict, in which
  the last matching pattern decides.  The reference semantics is a tokenizer and a matcher
  that tries every length for a star; the loop of \<open>match_component\<close> is shown equal to it.
\<close>

subsection \<open>The code\<close>

record IgnorePattern =
  ip_components :: "string list"
  ip_negated :: bool

definition di_blank :: "char \<Rightarrow> bool" where
  "di_blank c \<longleftrightarrow> c = CHR '' '' \<or> c = CHR 0x09 \<or> c = CHR 0x0D"

definition di_trim :: "string \<Rightarrow> string" where
  "di_trim s = rev (dropWhile di_blank (rev (dropWhile di_blank s)))"

function split_components :: "string \<Rightarrow> string list" where
  "split_components s =
     (if s = [] then []
      else case split_first (CHR ''/'') s of
             None \<Rightarrow> (if s \<noteq> ''.'' then [s] else [])
           | Some (part, rest) \<Rightarrow>
               (if part \<noteq> [] \<and> part \<noteq> ''.'' then [part] else []) @ split_components rest)"
  by pat_completeness auto
termination
  by (relation "measure length") (auto dest: split_first_Some)

declare split_components.simps [simp del]

text \<open>\<open>char\<close> is signed on the platforms the library builds for: ranges compare signed bytes.\<close>

definition schar :: "char \<Rightarrow> int" where
  "schar c = (if byte_nat c < 128 then int (byte_nat c) else int (byte_nat c) - 256)"

text \<open>
  The bounds one turn of the class loop reads at \<open>c\<close> (\<open>lo\<close> and \<open>hi\<close>, with their escapes),
  and the position after them.
\<close>

definition class_item :: "string \<Rightarrow> nat \<Rightarrow> char \<times> char \<times> nat" where
  "class_item pattern c =
     (let (lo, c1) =
            (if pattern ! c = CHR 0x5C \<and> c + 1 < length pattern then (pattern ! (c + 1), c + 1)
             else (pattern ! c, c)) in
      if c1 + 2 < length pattern \<and> pattern ! (c1 + 1) = CHR ''-'' \<and> pattern ! (c1 + 2) \<noteq> CHR '']'' then
        (let hi = pattern ! (c1 + 2) in
         if hi = CHR 0x5C \<and> c1 + 3 < length pattern
         then (lo, pattern ! (c1 + 3), c1 + 1 + 2 + 1)
         else (lo, hi, c1 + 2 + 1))
      else (lo, lo, c1 + 1))"

lemma class_item_gt: "class_item pattern c = (lo, hi, c') \<Longrightarrow> c < c'"
  by (auto simp: class_item_def Let_def split: if_splits)

text \<open>The class loop: whether it is closed, whether \<open>ch\<close> matched, and where it stopped.\<close>

function class_loop :: "string \<Rightarrow> char \<Rightarrow> nat \<Rightarrow> bool \<Rightarrow> bool \<Rightarrow> bool \<times> bool \<times> nat" where
  "class_loop pattern ch c matched first =
     (if length pattern \<le> c then (False, matched, c)
      else if pattern ! c = CHR '']'' \<and> \<not> first then (True, matched, c)
      else
        let (lo, hi, c') = class_item pattern c in
        class_loop pattern ch c'
          (matched \<or> (schar lo \<le> schar ch \<and> schar ch \<le> schar hi)) False)"
  by pat_completeness auto
termination
  by (relation "measure (\<lambda>(pattern, ch, c, matched, first). length pattern - c)")
    (auto dest!: class_item_gt [OF sym])

declare class_loop.simps [simp del]

lemma class_loop_ge: "class_loop pattern ch c matched first = (cl, m, c') \<Longrightarrow> c \<le> c'"
proof (induction pattern ch c matched first rule: class_loop.induct)
  case (1 pattern ch c matched first)
  obtain lo hi d where i: "class_item pattern c = (lo, hi, d)" by (cases "class_item pattern c")
  show ?case
  proof (cases "length pattern \<le> c \<or> (pattern ! c = CHR '']'' \<and> \<not> first)")
    case True
    with "1.prems" show ?thesis by (subst (asm) class_loop.simps) (auto split: if_splits)
  next
    case False
    with "1.prems" have "class_loop pattern ch d
        (matched \<or> (schar lo \<le> schar ch \<and> schar ch \<le> schar hi)) False = (cl, m, c')"
      by (subst (asm) class_loop.simps) (auto simp: i)
    with "1.IH" False i have "d \<le> c'" by auto
    with class_item_gt [OF i] show ?thesis by simp
  qed
qed

text \<open>What one turn of the main loop does at \<open>p\<close> on the character \<open>ch\<close>.\<close>

datatype comp_step = SetStar | Advance nat | Mismatch

definition comp_step :: "string \<Rightarrow> nat \<Rightarrow> char \<Rightarrow> comp_step" where
  "comp_step pattern p ch =
     (if p < length pattern then
        (let pc = pattern ! p in
         if pc = CHR ''*'' then SetStar
         else if pc = CHR ''?'' then Advance (p + 1)
         else if pc = CHR ''['' then
           (let (closed, matched, c) = class_loop pattern ch (p + 1) False True in
            if closed \<and> matched then Advance (c + 1) else Mismatch)
         else if pc = CHR 0x5C \<and> p + 1 < length pattern then
           (if pattern ! (p + 1) = ch then Advance (p + 2) else Mismatch)
         else if pc = ch then Advance (p + 1)
         else Mismatch)
      else Mismatch)"

lemma comp_step_gt: "comp_step pattern p ch = Advance p' \<Longrightarrow> p < p' \<and> p < length pattern"
  by (auto simp: comp_step_def Let_def split: if_splits prod.splits dest!: class_loop_ge)

lemma comp_step_star: "comp_step pattern p ch = SetStar \<Longrightarrow> p < length pattern"
  by (auto simp: comp_step_def Let_def split: if_splits prod.splits)

text \<open>
  The main loop; \<open>star\<close> is \<open>(star_p, star_n)\<close>, \<open>None\<close> for \<open>npos\<close>.  The result is the state
  after the loop: \<open>None\<close> when it returned false, else the position in the pattern.
\<close>

function match_loop :: "string \<Rightarrow> string \<Rightarrow> nat \<Rightarrow> nat \<Rightarrow> (nat \<times> nat) option \<Rightarrow> nat option" where
  "match_loop pattern name p n star =
     (if length name \<le> n then Some p
      else case comp_step pattern p (name ! n) of
             SetStar \<Rightarrow> match_loop pattern name (p + 1) n (Some (p + 1, n))
           | Advance p' \<Rightarrow> match_loop pattern name p' (n + 1) star
           | Mismatch \<Rightarrow>
               (case star of
                  None \<Rightarrow> None
                | Some (sp, sn) \<Rightarrow> match_loop pattern name sp (sn + 1) (Some (sp, sn + 1))))"
  by pat_completeness auto

definition star_above :: "nat \<Rightarrow> (nat \<times> nat) option \<Rightarrow> nat" where
  "star_above p star = (case star of None \<Rightarrow> 0 | Some (sp, sn) \<Rightarrow> (if p < sp then 1 else 0))"

definition star_left :: "string \<Rightarrow> (nat \<times> nat) option \<Rightarrow> nat" where
  "star_left pattern star =
     (case star of None \<Rightarrow> length pattern + 2 | Some (sp, sn) \<Rightarrow> length pattern + 1 - sp)"

definition star_name_left :: "string \<Rightarrow> (nat \<times> nat) option \<Rightarrow> nat" where
  "star_name_left name star = (case star of None \<Rightarrow> 0 | Some (sp, sn) \<Rightarrow> length name - sn)"

termination match_loop
proof (relation "measures
    [\<lambda>(pattern, name, p, n, star). star_above p star,
     \<lambda>(pattern, name, p, n, star). star_left pattern star,
     \<lambda>(pattern, name, p, n, star). star_name_left name star,
     \<lambda>(pattern, name, p, n, star). length name - n]", goal_cases)
  case (2 pattern name p n star)
  then have "p < length pattern" by (auto dest: comp_step_star)
  then show ?case
    by (cases star) (auto simp: star_above_def star_left_def star_name_left_def split: if_splits)
next
  case (3 pattern name p n star p')
  then have "p < p'" by (auto dest: comp_step_gt)
  with 3 show ?case
    by (cases star) (auto simp: star_above_def star_left_def star_name_left_def)
next
  case (4 pattern name p n star pr sp sn)
  then show ?case by (auto simp: star_above_def star_left_def star_name_left_def)
qed simp

declare match_loop.simps [simp del]

text \<open>The final \<open>while\<close>: skip stars.\<close>

definition match_component :: "string \<Rightarrow> string \<Rightarrow> bool" where
  "match_component pattern name =
     (case match_loop pattern name 0 0 None of
        None \<Rightarrow> False
      | Some p \<Rightarrow> p + length (takeWhile (\<lambda>c. c = CHR ''*'') (drop p pattern)) = length pattern)"

function match_from :: "string list \<Rightarrow> nat \<Rightarrow> string list \<Rightarrow> nat \<Rightarrow> nat \<Rightarrow> bool" where
  "match_from pattern pi path vi path_end =
     (if length pattern \<le> pi then vi = path_end
      else if pattern ! pi = ''**'' then
        (if match_from pattern (pi + 1) path vi path_end then True
         else if vi < path_end then match_from pattern pi path (vi + 1) path_end else False)
      else if path_end \<le> vi then False
      else match_component (pattern ! pi) (path ! vi) \<and>
           match_from pattern (pi + 1) path (vi + 1) path_end)"
  by pat_completeness auto
termination
  by (relation "measure (\<lambda>(pattern, pi, path, vi, path_end). (length pattern - pi) + (path_end - vi))")
    auto

declare match_from.simps [simp del]

definition matches_or_parent :: "IgnorePattern \<Rightarrow> string list \<Rightarrow> bool" where
  "matches_or_parent pattern path \<longleftrightarrow>
     list_ex (\<lambda>k. match_from (ip_components pattern) 0 path 0 k) [1..<length path + 1]"

function strip_dot_slash :: "string \<Rightarrow> string" where
  "strip_dot_slash line =
     (if 2 \<le> length line \<and> take 2 line = ''./'' then strip_dot_slash (drop 2 line) else line)"
  by pat_completeness auto
termination
  by (relation "measure length") auto

declare strip_dot_slash.simps [simp del]

definition strip_slashes :: "string \<Rightarrow> string" where
  "strip_slashes line =
     rev (dropWhile (\<lambda>c. c = CHR ''/'') (rev (dropWhile (\<lambda>c. c = CHR ''/'') line)))"

text \<open>One turn of the loop of \<open>parse_dockerignore\<close>: the pattern it pushes, if any.\<close>

definition ignore_line :: "string \<Rightarrow> IgnorePattern option" where
  "ignore_line raw =
     (let line = di_trim raw in
      if line = [] \<or> hd line = CHR ''#'' then None
      else
        let negated = (hd line = CHR ''!'');
            line1 = (if negated then di_trim (tl line) else line)
        in if negated \<and> line1 = [] then None
           else
             let components = split_components (strip_slashes (strip_dot_slash line1)) in
             if components = [] then None
             else Some \<lparr>ip_components = components, ip_negated = negated\<rparr>)"

definition parse_dockerignore :: "string \<Rightarrow> IgnorePattern list" where
  "parse_dockerignore text = List.map_filter ignore_line (getlines text)"

fun excludes_loop :: "bool \<Rightarrow> IgnorePattern list \<Rightarrow> string list \<Rightarrow> bool" where
  "excludes_loop excluded [] path = excluded"
| "excludes_loop excluded (pattern # ps) path =
     excludes_loop (if matches_or_parent pattern path then \<not> ip_negated pattern else excluded) ps path"

definition dockerignore_excludes :: "IgnorePattern list \<Rightarrow> string \<Rightarrow> bool" where
  "dockerignore_excludes patterns rel_path =
     (let path = split_components rel_path in
      if path = [] then False else excludes_loop False patterns path)"

subsection \<open>The reference semantics of one component\<close>

datatype token = Star | AnyChar | Class "(int \<times> int) list" | Lit char | Malformed

text \<open>The ranges of a class from \<open>c\<close> on: whether it is closed, its ranges and its end.\<close>

function class_ranges :: "string \<Rightarrow> nat \<Rightarrow> bool \<Rightarrow> bool \<times> (int \<times> int) list \<times> nat" where
  "class_ranges pattern c first =
     (if length pattern \<le> c then (False, [], c)
      else if pattern ! c = CHR '']'' \<and> \<not> first then (True, [], c)
      else
        let (lo, hi, c') = class_item pattern c;
            (closed, rs, e) = class_ranges pattern c' False
        in (closed, (schar lo, schar hi) # rs, e))"
  by pat_completeness auto
termination
  by (relation "measure (\<lambda>(pattern, c, first). length pattern - c)")
    (auto dest!: class_item_gt [OF sym])

declare class_ranges.simps [simp del]

definition in_ranges :: "(int \<times> int) list \<Rightarrow> char \<Rightarrow> bool" where
  "in_ranges rs ch \<longleftrightarrow> list_ex (\<lambda>(lo, hi). lo \<le> schar ch \<and> schar ch \<le> hi) rs"

text \<open>The token at a position of the pattern, and the position after it.\<close>

definition token_at :: "string \<Rightarrow> nat \<Rightarrow> token \<times> nat" where
  "token_at pattern p =
     (let pc = pattern ! p in
      if pc = CHR ''*'' then (Star, p + 1)
      else if pc = CHR ''?'' then (AnyChar, p + 1)
      else if pc = CHR ''['' then
        (let (closed, rs, e) = class_ranges pattern (p + 1) True in
         if closed then (Class rs, e + 1) else (Malformed, p + 1))
      else if pc = CHR 0x5C \<and> p + 1 < length pattern then (Lit (pattern ! (p + 1)), p + 2)
      else (Lit pc, p + 1))"

lemma class_ranges_ge: "class_ranges pattern c first = (cl, rs, e) \<Longrightarrow> c \<le> e"
proof (induction pattern c first arbitrary: cl rs e rule: class_ranges.induct)
  case (1 pattern c first)
  obtain lo hi d where i: "class_item pattern c = (lo, hi, d)" by (cases "class_item pattern c")
  obtain cl' rs' e' where r: "class_ranges pattern d False = (cl', rs', e')"
    by (cases "class_ranges pattern d False")
  show ?case
  proof (cases "length pattern \<le> c \<or> (pattern ! c = CHR '']'' \<and> \<not> first)")
    case True
    with "1.prems" show ?thesis by (subst (asm) class_ranges.simps) (auto split: if_splits)
  next
    case False
    with "1.prems" r have "e = e'" by (subst (asm) class_ranges.simps) (auto simp: i)
    moreover have "d \<le> e'" using "1.IH" False i r by auto
    ultimately show ?thesis using class_item_gt [OF i] by simp
  qed
qed

lemma token_at_gt: "token_at pattern p = (t, q) \<Longrightarrow> p < q"
  by (auto simp: token_at_def Let_def split: if_splits prod.splits dest!: class_ranges_ge)

function tokens :: "string \<Rightarrow> nat \<Rightarrow> token list" where
  "tokens pattern p =
     (if length pattern \<le> p then []
      else (let (t, q) = token_at pattern p in t # tokens pattern q))"
  by pat_completeness auto
termination
  by (relation "measure (\<lambda>(pattern, p). length pattern - p)") (auto dest!: token_at_gt [OF sym])

declare tokens.simps [simp del]

fun token_matches :: "token \<Rightarrow> char \<Rightarrow> bool" where
  "token_matches AnyChar ch = True"
| "token_matches (Class rs) ch = in_ranges rs ch"
| "token_matches (Lit c) ch = (c = ch)"
| "token_matches _ ch = False"

text \<open>A star stands for a run of any length; every length is tried.\<close>

fun glob :: "token list \<Rightarrow> string \<Rightarrow> bool" where
  "glob [] x = (x = [])"
| "glob (t # ts) x =
     (if t = Star then (\<exists>k \<in> {0..length x}. glob ts (drop k x))
      else (case x of [] \<Rightarrow> False | c # cs \<Rightarrow> token_matches t c \<and> glob ts cs))"

subsection \<open>The loop computes the reference semantics\<close>

lemma class_loop_ranges:
  "class_ranges pattern c first = (cl, rs, e) \<Longrightarrow>
     class_loop pattern ch c matched first = (cl, matched \<or> in_ranges rs ch, e)"
proof (induction pattern c first arbitrary: cl rs e matched rule: class_ranges.induct)
  case (1 pattern c first)
  obtain lo hi d where i: "class_item pattern c = (lo, hi, d)" by (cases "class_item pattern c")
  obtain cl' rs' e' where r: "class_ranges pattern d False = (cl', rs', e')"
    by (cases "class_ranges pattern d False")
  show ?case
  proof (cases "length pattern \<le> c \<or> (pattern ! c = CHR '']'' \<and> \<not> first)")
    case True
    with "1.prems" show ?thesis
      by (subst (asm) class_ranges.simps, subst class_loop.simps)
        (auto simp: in_ranges_def split: if_splits)
  next
    case False
    let ?m = "matched \<or> (schar lo \<le> schar ch \<and> schar ch \<le> schar hi)"
    from False r have "class_ranges pattern c first = (cl', (schar lo, schar hi) # rs', e')"
      by (subst class_ranges.simps) (auto simp: i)
    with "1.prems" have eqs: "cl = cl'" "rs = (schar lo, schar hi) # rs'" "e = e'" by simp_all
    have "class_loop pattern ch d ?m False = (cl', ?m \<or> in_ranges rs' ch, e')"
      using "1.IH" [OF _ _ i [symmetric] refl refl r] False by auto
    then show ?thesis using False
      by (subst class_loop.simps) (auto simp: i eqs in_ranges_def)
  qed
qed

text \<open>One turn of the loop in terms of the token at the position.\<close>

lemma comp_step_token:
  assumes "p < length pattern" "token_at pattern p = (t, q)"
  shows "comp_step pattern p ch =
    (if t = Star then SetStar else if token_matches t ch then Advance q else Mismatch)"
proof -
  obtain cl rs e where r: "class_ranges pattern (p + 1) True = (cl, rs, e)"
    by (cases "class_ranges pattern (p + 1) True")
  have c: "class_loop pattern ch (Suc p) False True = (cl, in_ranges rs ch, e)"
    using class_loop_ranges [OF r, of ch False] by simp
  show ?thesis
    using assms r by (auto simp: comp_step_def token_at_def Let_def c split: if_splits)
qed

lemma tokens_step: "p < length pattern \<Longrightarrow> token_at pattern p = (t, q) \<Longrightarrow>
    tokens pattern p = t # tokens pattern q"
  by (subst tokens.simps) simp

lemma tokens_end: "length pattern \<le> p \<Longrightarrow> tokens pattern p = []"
  by (subst tokens.simps) simp

text \<open>
  The invariant of the loop.  Every match of
  the pattern after the last star covers the characters read since, and continues here.  So a
  later match of that star is not lost when a new star takes its place.
\<close>

definition loop_inv :: "string \<Rightarrow> nat \<Rightarrow> nat \<Rightarrow> (nat \<times> nat) option \<Rightarrow> bool" where
  "loop_inv pattern p n star \<longleftrightarrow>
     (case star of None \<Rightarrow> True
      | Some (sp, sn) \<Rightarrow> sn \<le> n \<and>
          (\<forall>x. glob (tokens pattern sp) x \<longrightarrow>
             n - sn \<le> length x \<and> glob (tokens pattern p) (drop (n - sn) x)))"

text \<open>What the loop still has to decide: a match from here, or from a later start of the star.\<close>

definition loop_goal :: "string \<Rightarrow> string \<Rightarrow> nat \<Rightarrow> nat \<Rightarrow> (nat \<times> nat) option \<Rightarrow> bool" where
  "loop_goal pattern name p n star \<longleftrightarrow>
     glob (tokens pattern p) (drop n name) \<or>
     (case star of None \<Rightarrow> False
      | Some (sp, sn) \<Rightarrow> \<exists>k. sn < k \<and> k \<le> length name \<and> glob (tokens pattern sp) (drop k name))"

definition loop_result :: "string \<Rightarrow> nat option \<Rightarrow> bool" where
  "loop_result pattern r \<longleftrightarrow> (case r of None \<Rightarrow> False | Some p \<Rightarrow> glob (tokens pattern p) [])"

lemma loop_inv_new_star: "loop_inv pattern p n (Some (p, n))"
  by (simp add: loop_inv_def)

lemma loop_goal_star:
  assumes "p < length pattern" "token_at pattern p = (Star, q)" "n \<le> length name"
    and inv: "loop_inv pattern p n star"
  shows "loop_goal pattern name q n (Some (q, n)) = loop_goal pattern name p n star"
proof -
  have t: "tokens pattern p = Star # tokens pattern q" using tokens_step assms(1,2) by blast
  have here: "glob (tokens pattern p) (drop n name) \<longleftrightarrow>
      (\<exists>k. n \<le> k \<and> k \<le> length name \<and> glob (tokens pattern q) (drop k name))"
  proof
    assume "glob (tokens pattern p) (drop n name)"
    then obtain j where "j \<le> length name - n" "glob (tokens pattern q) (drop (j + n) name)"
      by (auto simp: t)
    then show "\<exists>k. n \<le> k \<and> k \<le> length name \<and> glob (tokens pattern q) (drop k name)"
      using assms(3) by (intro exI [of _ "j + n"]) auto
  next
    assume "\<exists>k. n \<le> k \<and> k \<le> length name \<and> glob (tokens pattern q) (drop k name)"
    then obtain k where "n \<le> k" "k \<le> length name" "glob (tokens pattern q) (drop k name)" by blast
    then show "glob (tokens pattern p) (drop n name)" by (auto simp: t intro!: bexI [of _ "k - n"])
  qed
  have old: "glob (tokens pattern p) (drop n name)"
    if st: "star = Some (sp, sn)" "sn < k" "k \<le> length name" "glob (tokens pattern sp) (drop k name)"
    for sp sn k
  proof -
    let ?m = "n - sn"
    from inv st have sn: "sn \<le> n" and m: "?m \<le> length (drop k name)"
        "glob (tokens pattern p) (drop ?m (drop k name))"
      by (auto simp: loop_inv_def)
    from m(2) obtain j where "j \<le> length name - (?m + k)"
        "glob (tokens pattern q) (drop (j + (?m + k)) name)"
      by (auto simp: t)
    moreover have "n \<le> j + (?m + k)" using sn st(2) by simp
    moreover have "j + (?m + k) \<le> length name" using calculation(1) m(1) st(3) by simp
    ultimately show ?thesis unfolding here by blast
  qed
  have "loop_goal pattern name q n (Some (q, n)) \<longleftrightarrow> glob (tokens pattern p) (drop n name)"
    unfolding here using assms(3) by (auto simp: loop_goal_def le_less)
  also have "\<dots> \<longleftrightarrow> loop_goal pattern name p n star"
    using old by (auto simp: loop_goal_def split: option.splits)
  finally show ?thesis .
qed

lemma loop_advance:
  assumes "p < length pattern" "token_at pattern p = (t, q)" "t \<noteq> Star" "n < length name"
    and "token_matches t (name ! n)" and inv: "loop_inv pattern p n star"
  shows "loop_goal pattern name q (n + 1) star = loop_goal pattern name p n star"
    and "loop_inv pattern q (n + 1) star"
proof -
  have t: "tokens pattern p = t # tokens pattern q" using tokens_step assms(1,2) by blast
  have "drop n name = name ! n # drop (n + 1) name" using assms(4) by (simp add: Cons_nth_drop_Suc)
  then show "loop_goal pattern name q (n + 1) star = loop_goal pattern name p n star"
    using assms(3,5) by (simp add: loop_goal_def t)
  show "loop_inv pattern q (n + 1) star"
  proof (cases star)
    case (Some s)
    obtain sp sn where s: "s = (sp, sn)" by (cases s)
    have "n + 1 - sn \<le> length x \<and> glob (tokens pattern q) (drop (n + 1 - sn) x)"
      if g: "glob (tokens pattern sp) x" for x
    proof -
      from inv g Some s have m: "sn \<le> n" "n - sn \<le> length x"
          "glob (tokens pattern p) (drop (n - sn) x)" by (auto simp: loop_inv_def)
      then obtain c cs where d: "drop (n - sn) x = c # cs" "glob (tokens pattern q) cs"
        using assms(3) by (auto simp: t split: list.splits)
      then have "cs = drop (n + 1 - sn) x" using m(1)
        by (metis Suc_diff_le Suc_eq_plus1 drop_Suc list.sel(3) tl_drop)
      moreover have "n - sn < length x" using d(1) by (metis drop_eq_Nil list.distinct(1) not_le)
      ultimately show ?thesis using d(2) m(1) by auto
    qed
    with inv Some s show ?thesis by (auto simp: loop_inv_def)
  qed (simp add: loop_inv_def)
qed

lemma loop_mismatch:
  assumes "n < length name" "comp_step pattern p (name ! n) = Mismatch"
  shows "\<not> glob (tokens pattern p) (drop n name)"
proof (cases "p < length pattern")
  case True
  obtain t q where t: "token_at pattern p = (t, q)" by (cases "token_at pattern p")
  have "drop n name = name ! n # drop (n + 1) name" using assms(1) by (simp add: Cons_nth_drop_Suc)
  then show ?thesis
    using comp_step_token [OF True t, of "name ! n"] assms(2)
    by (auto simp: tokens_step [OF True t] split: if_splits)
next
  case False
  with assms(1) show ?thesis by (simp add: tokens_end)
qed

lemma class_ranges_closed: "class_ranges pattern c first = (True, rs, e) \<Longrightarrow> e < length pattern"
proof (induction pattern c first arbitrary: rs rule: class_ranges.induct)
  case (1 pattern c first)
  obtain lo hi d where i: "class_item pattern c = (lo, hi, d)" by (cases "class_item pattern c")
  obtain cl' rs' e' where r: "class_ranges pattern d False = (cl', rs', e')"
    by (cases "class_ranges pattern d False")
  show ?case
  proof (cases "length pattern \<le> c \<or> (pattern ! c = CHR '']'' \<and> \<not> first)")
    case True
    with "1.prems" show ?thesis by (subst (asm) class_ranges.simps) (auto split: if_splits)
  next
    case False
    with "1.prems" r have "e = e'" "cl'" by (subst (asm) class_ranges.simps; auto simp: i)+
    then show ?thesis using "1.IH" [OF _ _ i [symmetric] refl refl] False r by auto
  qed
qed

lemma token_at_le: "p < length pattern \<Longrightarrow> token_at pattern p = (t, q) \<Longrightarrow> q \<le> length pattern"
  by (auto simp: token_at_def Let_def Suc_le_eq split: if_splits prod.splits dest!: class_ranges_closed)

text \<open>At the end of the name nothing a star could still take is left.\<close>

lemma loop_goal_end:
  assumes "loop_inv pattern p (length name) star"
  shows "loop_goal pattern name p (length name) star = glob (tokens pattern p) []"
proof -
  have "\<not> glob (tokens pattern sp) (drop k name)"
    if "star = Some (sp, sn)" "sn < k" "k \<le> length name" for sp sn k
    using assms that by (auto simp: loop_inv_def)
  then show ?thesis by (auto simp: loop_goal_def split: option.splits)
qed

text \<open>After a mismatch the star takes one byte more.\<close>

lemma loop_goal_retry:
  assumes "\<not> glob (tokens pattern p) (drop n name)" "sn \<le> n" "n < length name"
  shows "loop_goal pattern name sp (sn + 1) (Some (sp, sn + 1)) = loop_goal pattern name p n (Some (sp, sn))"
proof -
  have "(\<exists>k. sn < k \<and> k \<le> length name \<and> glob (tokens pattern sp) (drop k name)) \<longleftrightarrow>
      glob (tokens pattern sp) (drop (sn + 1) name) \<or>
      (\<exists>k. sn + 1 < k \<and> k \<le> length name \<and> glob (tokens pattern sp) (drop k name))" (is "?l \<longleftrightarrow> ?r")
  proof
    assume ?l
    then obtain k where k: "sn < k" "k \<le> length name" "glob (tokens pattern sp) (drop k name)" by blast
    then consider "k = sn + 1" | "sn + 1 < k" by fastforce
    then show ?r using k by cases blast+
  next
    assume ?r
    then show ?l using assms(2,3) by (auto intro: exI [of _ "sn + 1"] dest: Suc_lessD)
  qed
  with assms(1) show ?thesis by (simp add: loop_goal_def)
qed

lemma match_loop_goal:
  "n \<le> length name \<Longrightarrow> p \<le> length pattern \<Longrightarrow> (\<forall>sp sn. star = Some (sp, sn) \<longrightarrow> sp \<le> length pattern) \<Longrightarrow>
   loop_inv pattern p n star \<Longrightarrow>
   loop_result pattern (match_loop pattern name p n star) = loop_goal pattern name p n star \<and>
   (\<forall>e. match_loop pattern name p n star = Some e \<longrightarrow> e \<le> length pattern)"
proof (induction pattern name p n star rule: match_loop.induct)
  case (1 pattern name p n star)
  show ?case
  proof (cases "length name \<le> n")
    case True
    with "1.prems" loop_goal_end [of pattern p name star] show ?thesis
      by (subst (1 2) match_loop.simps) (simp add: loop_result_def)
  next
    case False
    then have n: "n < length name" by simp
    obtain t q where t: "token_at pattern p = (t, q)" by (cases "token_at pattern p")
    show ?thesis
    proof (cases "comp_step pattern p (name ! n)")
      case SetStar
      then have p: "p < length pattern" by (rule comp_step_star)
      with SetStar have ts: "t = Star" using comp_step_token [OF p t] by (auto split: if_splits)
      then have q: "q = p + 1" using t by (auto simp: token_at_def Let_def split: if_splits prod.splits)
      have "match_loop pattern name p n star = match_loop pattern name (p + 1) n (Some (p + 1, n))"
        using n SetStar by (subst match_loop.simps) simp
      with "1.IH"(1) [OF False SetStar _ _ _ loop_inv_new_star] n p
        loop_goal_star [OF p, of q n name star] t ts q "1.prems"(4) show ?thesis by simp
    next
      case (Advance p')
      then have p: "p < length pattern" by (auto dest: comp_step_gt)
      with Advance have ts: "t \<noteq> Star" "token_matches t (name ! n)" "q = p'"
        using comp_step_token [OF p t] by (auto split: if_splits)
      have "match_loop pattern name p n star = match_loop pattern name p' (n + 1) star"
        using n Advance by (subst match_loop.simps) simp
      with loop_advance [OF p t ts(1) n ts(2) "1.prems"(4)] token_at_le [OF p t]
        "1.IH"(2) [OF False Advance] n "1.prems"(3) ts(3) show ?thesis by simp
    next
      case Mismatch
      note no = loop_mismatch [OF n Mismatch]
      show ?thesis
      proof (cases star)
        case None
        then show ?thesis using n Mismatch no
          by (subst (1 2) match_loop.simps) (simp add: loop_result_def loop_goal_def)
      next
        case (Some s)
        obtain sp sn where s: "s = (sp, sn)" by (cases s)
        have sn: "sn \<le> n" using "1.prems"(4) Some s by (simp add: loop_inv_def)
        have "match_loop pattern name p n star = match_loop pattern name sp (sn + 1) (Some (sp, sn + 1))"
          using n Mismatch Some s by (subst match_loop.simps) simp
        with loop_goal_retry [OF no sn n, of sp] Some s n sn "1.prems"(3)
          "1.IH"(3) [OF False Mismatch Some s [symmetric] _ _ _ loop_inv_new_star] show ?thesis by simp
      qed
    qed
  qed
qed

lemma trailing_stars:
  "p \<le> length pattern \<Longrightarrow> glob (tokens pattern p) [] \<longleftrightarrow>
     p + length (takeWhile (\<lambda>c. c = CHR ''*'') (drop p pattern)) = length pattern"
proof (induction "length pattern - p" arbitrary: p)
  case 0
  then show ?case by (simp add: tokens_end)
next
  case (Suc m)
  then have p: "p < length pattern" by simp
  obtain t q where t: "token_at pattern p = (t, q)" by (cases "token_at pattern p")
  have d: "drop p pattern = pattern ! p # drop (Suc p) pattern" using p by (simp add: Cons_nth_drop_Suc)
  show ?case
  proof (cases "pattern ! p = CHR ''*''")
    case True
    with t have tq: "t = Star" "q = Suc p" by (simp_all add: token_at_def)
    with Suc.hyps(1) [of "Suc p"] Suc.hyps(2) p True d show ?thesis
      by (simp add: tokens_step [OF p t])
  next
    case False
    with t have "t \<noteq> Star" by (auto simp: token_at_def Let_def split: if_splits prod.splits)
    with False d p show ?thesis by (simp add: tokens_step [OF p t])
  qed
qed

lemma match_component_glob: "match_component pattern name = glob (tokens pattern 0) name"
proof -
  note g = match_loop_goal [of 0 name 0 pattern None]
  show ?thesis
  proof (cases "match_loop pattern name 0 0 None")
    case None
    with g show ?thesis by (simp add: loop_inv_def loop_result_def loop_goal_def match_component_def)
  next
    case (Some e)
    with g have "e \<le> length pattern" "glob (tokens pattern e) [] = glob (tokens pattern 0) name"
      by (simp_all add: loop_inv_def loop_result_def loop_goal_def)
    with Some trailing_stars [of e pattern] show ?thesis by (simp add: match_component_def)
  qed
qed

subsection \<open>Paths and verdicts\<close>

text \<open>The reference semantics of a path: \<open>**\<close> stands for any number of components.\<close>

fun path_glob :: "string list \<Rightarrow> string list \<Rightarrow> bool" where
  "path_glob [] vs = (vs = [])"
| "path_glob (p # ps) vs =
     (if p = ''**'' then (\<exists>k \<in> {0..length vs}. path_glob ps (drop k vs))
      else (case vs of [] \<Rightarrow> False | v # vs' \<Rightarrow> glob (tokens p 0) v \<and> path_glob ps vs'))"

lemma path_glob_star:
  "path_glob (''**'' # ps) vs \<longleftrightarrow>
     path_glob ps vs \<or> (vs \<noteq> [] \<and> path_glob (''**'' # ps) (tl vs))"
proof (cases vs)
  case (Cons v vs')
  have "(\<exists>k \<in> {0..Suc (length vs')}. path_glob ps (drop k (v # vs'))) \<longleftrightarrow>
      path_glob ps (v # vs') \<or> (\<exists>k \<in> {0..length vs'}. path_glob ps (drop k vs'))"
    by (metis (no_types, opaque_lifting) Suc_le_mono atLeastAtMost_iff drop0 drop_Suc_Cons not0_implies_Suc zero_le)
  with Cons show ?thesis by simp
qed simp

lemma match_from_path_glob:
  "vi \<le> path_end \<Longrightarrow> path_end \<le> length path \<Longrightarrow>
     match_from pattern pi path vi path_end = path_glob (drop pi pattern) (drop vi (take path_end path))"
proof (induction pattern pi path vi path_end rule: match_from.induct)
  case (1 pattern pi path vi path_end)
  let ?v = "drop vi (take path_end path)"
  show ?case
  proof (cases "length pattern \<le> pi")
    case True
    with "1.prems" show ?thesis by (subst match_from.simps) auto
  next
    case False
    then have d: "drop pi pattern = pattern ! pi # drop (Suc pi) pattern"
      by (simp add: Cons_nth_drop_Suc)
    have v: "vi < path_end \<Longrightarrow> ?v = path ! vi # drop (Suc vi) (take path_end path)"
      using "1.prems" by (subst Cons_nth_drop_Suc [symmetric]) simp_all
    have e: "\<not> vi < path_end \<Longrightarrow> ?v = []" using "1.prems" by simp
    show ?thesis
    proof (cases "pattern ! pi = ''**''")
      case True
      have "path_glob (''**'' # drop (Suc pi) pattern) ?v \<longleftrightarrow>
          path_glob (drop (Suc pi) pattern) ?v \<or>
          (vi < path_end \<and> path_glob (''**'' # drop (Suc pi) pattern) (drop (Suc vi) (take path_end path)))"
        using v e by (subst path_glob_star) auto
      with False True "1.IH"(1,2) "1.prems" d show ?thesis
        by (subst match_from.simps) (simp del: path_glob.simps)
    next
      case False
      with \<open>\<not> length pattern \<le> pi\<close> "1.IH"(3) "1.prems" d v e show ?thesis
        by (subst match_from.simps) (auto simp: match_component_glob)
    qed
  qed
qed

lemma matches_or_parent_prefix:
  "matches_or_parent pattern path \<longleftrightarrow>
     (\<exists>k. 1 \<le> k \<and> k \<le> length path \<and> path_glob (ip_components pattern) (take k path))"
  by (auto simp: matches_or_parent_def list_ex_iff match_from_path_glob Suc_le_eq)

lemma matches_or_parent_mono:
  "matches_or_parent pattern path \<Longrightarrow> matches_or_parent pattern (path @ rest)"
  by (auto simp: matches_or_parent_prefix)

lemma excludes_loop_last:
  "excludes_loop excluded ps path =
     (case rev (filter (\<lambda>p. matches_or_parent p path) ps) of
        [] \<Rightarrow> excluded | p # _ \<Rightarrow> \<not> ip_negated p)"
proof (induction ps arbitrary: excluded)
  case (Cons p ps)
  then show ?case by (cases "rev (filter (\<lambda>p. matches_or_parent p path) ps)") auto
qed simp

end
