(* ===== verification/Codecs.thy ===== *)
theory Codecs
  imports Text_Config
begin

unbundle bit_operations_syntax

section \<open>Encoders: base64, percent encoding, the reuse hash\<close>

text \<open>
  The byte encoders of the library: \<open>base64_encode\<close> and \<open>base64_decode\<close> of
  \<open>src/docker/Auth.cpp\<close>, \<open>encode_component\<close> of \<open>src/ConnectionString.cpp\<close>,
  \<open>url_encode\<close> of \<open>src/docker/DockerClient.cpp\<close> and \<open>reuse_hash\<close> of
  \<open>src/Reuse.cpp\<close>.  The contract of an encoder is the locale \<open>coder\<close>: a decoder gives
  the input back, so the encoder is injective.  The percent decoder is not in the
  repository; it is written here as the specification of RFC 3986 the comments name.
\<close>

subsection \<open>The contract\<close>

text \<open>A coder and its decoder; a decoder that inverts the coder makes it injective.\<close>

locale coder =
  fixes enc :: "'a \<Rightarrow> 'b" and dec :: "'b \<Rightarrow> 'a option"
  assumes dec_enc: "dec (enc x) = Some x"
begin

lemma enc_eq_iff: "enc x = enc y \<longleftrightarrow> x = y"
  by (metis dec_enc option.inject)

lemma enc_inj: "inj enc"
  by (rule injI) (simp add: enc_eq_iff)

end

subsection \<open>Base64 (Auth.cpp)\<close>

definition kBase64Alphabet :: string where
  "kBase64Alphabet = ''ABCDEFGHIJKLMNOPQRSTUVWXYZabcdefghijklmnopqrstuvwxyz0123456789+/''"

definition make_decode_table :: "char \<Rightarrow> nat" where
  "make_decode_table = fold (\<lambda>i t. t(kBase64Alphabet ! i := i)) [0..<64] (\<lambda>_. 0xFF)"

abbreviation u32_of :: "char \<Rightarrow> 32 word" where
  "u32_of c \<equiv> of_char c"

definition b64_char :: "32 word \<Rightarrow> char" where
  "b64_char w = kBase64Alphabet ! unat w"

fun base64_encode :: "string \<Rightarrow> string" where
  "base64_encode (x0 # x1 # x2 # rest) =
     (let b0 = u32_of x0; b1 = u32_of x1; b2 = u32_of x2 in
      [b64_char (drop_bit 2 b0),
       b64_char (push_bit 4 (b0 AND 0x03) OR drop_bit 4 b1),
       b64_char (push_bit 2 (b1 AND 0x0F) OR drop_bit 6 b2),
       b64_char (b2 AND 0x3F)] @ base64_encode rest)"
| "base64_encode [x0] =
     (let b0 = u32_of x0 in
      [b64_char (drop_bit 2 b0), b64_char (push_bit 4 (b0 AND 0x03)), CHR ''='', CHR ''=''])"
| "base64_encode [x0, x1] =
     (let b0 = u32_of x0; b1 = u32_of x1 in
      [b64_char (drop_bit 2 b0),
       b64_char (push_bit 4 (b0 AND 0x03) OR drop_bit 4 b1),
       b64_char (push_bit 2 (b1 AND 0x0F)), CHR ''=''])"
| "base64_encode [] = []"

definition b64_skip :: "char \<Rightarrow> bool" where
  "b64_skip c \<longleftrightarrow> c = CHR ''='' \<or> c = CHR 0x0A \<or> c = CHR 0x0D \<or> c = CHR '' '' \<or> c = CHR 0x09"

fun base64_decode_loop :: "32 word \<Rightarrow> nat \<Rightarrow> string \<Rightarrow> string \<Rightarrow> string" where
  "base64_decode_loop buffer bits out [] = out"
| "base64_decode_loop buffer bits out (ch # chs) =
     (if b64_skip ch then base64_decode_loop buffer bits out chs
      else
        let value = make_decode_table ch in
        if value = 0xFF then []
        else
          let buffer = push_bit 6 buffer OR of_nat value; bits = bits + 6 in
          if 8 \<le> bits then
            base64_decode_loop buffer (bits - 8)
              (out @ [char_of (unat (drop_bit (bits - 8) buffer AND 0xFF))]) chs
          else base64_decode_loop buffer bits out chs)"

definition base64_decode :: "string \<Rightarrow> string" where
  "base64_decode b64 = base64_decode_loop 0 0 [] b64"

subsubsection \<open>Bits of a byte\<close>

lemma byte_no_bit: "(a::32 word) < 256 \<Longrightarrow> 8 \<le> n \<Longrightarrow> \<not> bit a n"
proof
  assume "a < 256" "bit a n" "8 \<le> n"
  then have "unat a < 2 ^ 8" by (simp add: word_less_nat_alt)
  then have "take_bit 8 (unat a) = unat a" by (simp add: take_bit_nat_eq_self)
  moreover have "bit (unat a) n" using \<open>bit a n\<close> by (simp add: bit_unsigned_iff)
  ultimately show False using \<open>8 \<le> n\<close> by (metis bit_take_bit_iff not_le)
qed

lemma masks32:
  "(255::32 word) = mask 8" "(63::32 word) = mask 6" "(15::32 word) = mask 4"
  "(3::32 word) = mask 2"
  by (simp_all add: mask_eq_exp_minus_1)

lemma byte_eqI:
  fixes a :: "32 word"
  assumes "a < 256" and "\<And>n. n < 8 \<Longrightarrow> bit x n = bit a n"
  shows "x AND 255 = a"
proof (rule bit_word_eqI)
  fix n assume "n < LENGTH(32)"
  show "bit (x AND 255) n = bit a n"
    unfolding masks32 using assms byte_no_bit [OF assms(1)]
    by (cases "n < 8") (auto simp: bit_simps)
qed

lemma sextet_less:
  fixes w :: "32 word"
  assumes "\<And>n. 6 \<le> n \<Longrightarrow> \<not> bit w n"
  shows "unat w < 64"
proof -
  have "take_bit 6 w = w"
    using assms by (intro bit_word_eqI) (metis bit_take_bit_iff not_le)
  then have "unat w = take_bit 6 (unat w)" by (metis unsigned_take_bit_eq)
  then show ?thesis using take_bit_nat_less_exp [of 6 "unat w"] by simp
qed

lemma unat_u32_of [simp]: "unat (u32_of c) = byte_nat c"
proof -
  have "byte_nat c < 2 ^ LENGTH(32)" by (rule order_less_trans [OF byte_nat_less]) simp
  then have "unat (of_nat (byte_nat c) :: 32 word) = byte_nat c"
    by (simp only: unat_of_nat mod_less)
  then show ?thesis by (simp only: of_nat_of_char)
qed

lemma u32_of_less [simp]: "u32_of c < 256"
proof -
  have "byte_nat c < 256" by (rule byte_nat_less)
  then show ?thesis by (simp add: word_less_nat_alt unat_u32_of)
qed

text \<open>What three bytes look like after the decoder shifted their sextets through its buffer.\<close>

lemma minus2_SS: "2 \<le> n \<Longrightarrow> Suc (Suc (n - 2)) = n"
  by simp

lemma minus4_S4: "4 \<le> n \<Longrightarrow> Suc (Suc (Suc (Suc (n - 4)))) = n"
  by simp

lemmas b64_bits = masks32 bit_simps minus2_SS minus4_S4

lemma b64_byte0:
  fixes a b :: "32 word"
  assumes "a < 256" "b < 256"
  shows "drop_bit 4 (push_bit 6 (push_bit 6 B OR drop_bit 2 a) OR
    (push_bit 4 (a AND 3) OR drop_bit 4 b)) AND 255 = a"
  by (rule byte_eqI [OF assms(1)])
    (auto simp: b64_bits byte_no_bit [OF assms(1)] byte_no_bit [OF assms(2)])

lemma b64_byte1:
  fixes b c :: "32 word"
  assumes "b < 256" "c < 256"
  shows "drop_bit 2 (push_bit 6 (push_bit 6 B OR (push_bit 4 (a AND 3) OR drop_bit 4 b)) OR
    (push_bit 2 (b AND 15) OR drop_bit 6 c)) AND 255 = b"
  by (rule byte_eqI [OF assms(1)])
    (auto simp: b64_bits byte_no_bit [OF assms(1)] byte_no_bit [OF assms(2)])

lemma b64_byte2:
  fixes c :: "32 word"
  assumes "c < 256"
  shows "(push_bit 6 (push_bit 6 B OR (push_bit 2 (b AND 15) OR drop_bit 6 c)) OR (c AND 63)) AND 255 = c"
  by (rule byte_eqI [OF assms(1)]) (auto simp: b64_bits byte_no_bit [OF assms(1)])

lemma sextets [simp]:
  "unat (drop_bit 2 (u32_of x)) < 64"
  "unat (push_bit 4 (u32_of x AND 3) OR drop_bit 4 (u32_of y)) < 64"
  "unat (push_bit 2 (u32_of y AND 15) OR drop_bit 6 (u32_of z)) < 64"
  "unat (u32_of z AND 63) < 64"
  "unat (push_bit 4 (u32_of x AND 3)) < 64"
  "unat (push_bit 2 (u32_of y AND 15)) < 64"
  by (rule sextet_less; auto simp: masks32 bit_simps byte_no_bit [OF u32_of_less])+

lemma b64_table: "\<forall>i \<in> set [0..<64].
    make_decode_table (kBase64Alphabet ! i) = i \<and> \<not> b64_skip (kBase64Alphabet ! i)"
  by code_simp

lemma decode_b64_char [simp]:
  assumes "unat w < 64"
  shows "make_decode_table (b64_char w) = unat w" "\<not> b64_skip (b64_char w)"
  using b64_table assms by (auto simp: b64_char_def)

lemma base64_decode_step [simp]:
  assumes "unat w < 64"
  shows "base64_decode_loop B bits out (b64_char w # cs) =
    (if 8 \<le> bits + 6 then
       base64_decode_loop (push_bit 6 B OR w) (bits + 6 - 8)
         (out @ [char_of (unat (drop_bit (bits + 6 - 8) (push_bit 6 B OR w) AND 0xFF))]) cs
     else base64_decode_loop (push_bit 6 B OR w) (bits + 6) out cs)"
  using assms by (simp add: Let_def)

lemma base64_decode_pad [simp]:
  "base64_decode_loop B bits out (CHR ''='' # cs) = base64_decode_loop B bits out cs"
  by (simp add: b64_skip_def)

declare base64_decode_loop.simps(2) [simp del]

lemma b64_byte0_short:
  "drop_bit 4 (push_bit 6 (push_bit 6 B OR drop_bit 2 (u32_of x)) OR
    (push_bit 4 (u32_of x AND 3))) AND 255 = u32_of x"
  using b64_byte0 [of "u32_of x" 0 B] by simp

lemma b64_byte1_short:
  "drop_bit 2 (push_bit 6 (push_bit 6 B OR (push_bit 4 (a AND 3) OR drop_bit 4 (u32_of y))) OR
    (push_bit 2 (u32_of y AND 15))) AND 255 = u32_of y"
  using b64_byte1 [of "u32_of y" 0 B a] by simp

lemma char_of_u32_of [simp]: "char_of (unat (u32_of x)) = x"
  by (simp only: unat_u32_of char_of_char)

lemma base64_decode_loop_encode:
  "base64_decode_loop B 0 out (base64_encode s) = out @ s"
proof (induction s arbitrary: B out rule: base64_encode.induct)
  case (1 x0 x1 x2 rest)
  show ?case
    by (simp add: Let_def 1 b64_byte0 b64_byte1 b64_byte2 del: push_bit_and push_bit_or drop_bit_or drop_bit_and push_bit_push_bit drop_bit_drop_bit unat_u32_of)
next
  case (2 x0)
  show ?case by (simp add: Let_def b64_byte0_short del: push_bit_and push_bit_or drop_bit_or drop_bit_and push_bit_push_bit drop_bit_drop_bit unat_u32_of)
next
  case (3 x0 x1)
  show ?case by (simp add: Let_def b64_byte0 b64_byte1_short del: push_bit_and push_bit_or drop_bit_or drop_bit_and push_bit_push_bit drop_bit_drop_bit unat_u32_of)
qed simp

lemma base64_decode_encode: "base64_decode (base64_encode s) = s"
  by (simp add: base64_decode_def base64_decode_loop_encode)

interpretation b64: coder base64_encode "\<lambda>t. Some (base64_decode t)"
  by unfold_locales (simp add: base64_decode_encode)

subsection \<open>Percent encoding (ConnectionString.cpp, DockerClient.cpp)\<close>

definition ascii_alnum :: "nat \<Rightarrow> bool" where
  "ascii_alnum u \<longleftrightarrow> (65 \<le> u \<and> u \<le> 90) \<or> (97 \<le> u \<and> u \<le> 122) \<or> (48 \<le> u \<and> u \<le> 57)"

fun encode_component :: "string \<Rightarrow> string" where
  "encode_component [] = []"
| "encode_component (c # cs) =
     (let u = byte_nat c;
          unreserved = ascii_alnum u \<or> c = CHR ''-'' \<or> c = CHR ''.'' \<or> c = CHR ''_'' \<or> c = CHR ''~''
      in (if unreserved then [c]
          else [CHR ''%'', hex_upper (drop_bit 4 u), hex_upper (u AND 0x0F)]) @ encode_component cs)"

fun url_encode :: "string \<Rightarrow> string" where
  "url_encode [] = []"
| "url_encode (c # cs) =
     (let u = byte_nat c in
      (if ascii_alnum u \<or> c = CHR ''-'' \<or> c = CHR ''_'' \<or> c = CHR ''.'' \<or> c = CHR ''~'' \<or> c = CHR ''/''
       then [c]
       else [CHR ''%'', hex_upper (drop_bit 4 u), hex_upper (u AND 0x0F)]) @ url_encode cs)"

text \<open>The decoder of RFC 3986: \<open>%\<close> and two hexadecimal digits are one byte.\<close>

fun percent_decode :: "string \<Rightarrow> string option" where
  "percent_decode [] = Some []"
| "percent_decode (c # cs) =
     (if c = CHR ''%'' then
        (case cs of
           a # b # rest \<Rightarrow>
             (case (hex_val a, hex_val b) of
                (Some x, Some y) \<Rightarrow> map_option (\<lambda>r. char_of (16 * x + y) # r) (percent_decode rest)
              | _ \<Rightarrow> None)
         | _ \<Rightarrow> None)
      else map_option (\<lambda>r. c # r) (percent_decode cs))"

lemma high_nibble [simp]: "drop_bit 4 (byte_nat c) < 16"
  by (simp add: drop_bit_eq_div less_mult_imp_div_less)

lemma low_nibble: "(n::nat) AND 15 = n mod 16"
  using take_bit_eq_mask [of 4 n] by (simp add: mask_eq_exp_minus_1 take_bit_eq_mod)

lemma low_nibble_less [simp]: "(n::nat) AND 15 < 16"
  by (simp add: low_nibble)

lemma nibbles [simp]: "char_of (16 * drop_bit 4 (byte_nat c) + (byte_nat c AND 15)) = c"
  by (simp add: drop_bit_eq_div low_nibble)

lemma percent_decode_escape [simp]:
  "percent_decode (CHR ''%'' # hex_upper (drop_bit 4 (byte_nat c)) # hex_upper (byte_nat c AND 15) # r) =
     map_option (\<lambda>s. c # s) (percent_decode r)"
  by (cases "percent_decode r") (simp_all del: byte_nat_less)

lemma percent_decode_plain [simp]:
  "c \<noteq> CHR ''%'' \<Longrightarrow> percent_decode (c # r) = map_option (\<lambda>s. c # s) (percent_decode r)"
  by simp

lemma ascii_alnum_not_percent [simp]: "\<not> ascii_alnum (byte_nat (CHR ''%''))"
  by (simp add: ascii_alnum_def)

declare percent_decode.simps(2) [simp del]

lemma percent_decode_encode_component: "percent_decode (encode_component s) = Some s"
proof (induction s)
  case (Cons c s)
  show ?case
  proof (cases "c = CHR ''%''")
    case True
    have "\<not> ascii_alnum (byte_nat c)" unfolding True by (rule ascii_alnum_not_percent)
    then have "encode_component (c # s) = CHR ''%'' # hex_upper (drop_bit 4 (byte_nat c)) #
        hex_upper (byte_nat c AND 15) # encode_component s"
      using True by (simp add: Let_def)
    with Cons show ?thesis by simp
  next
    case False
    with Cons show ?thesis by (simp add: Let_def)
  qed
qed simp

lemma percent_decode_url_encode: "percent_decode (url_encode s) = Some s"
proof (induction s)
  case (Cons c s)
  show ?case
  proof (cases "c = CHR ''%''")
    case True
    have "\<not> ascii_alnum (byte_nat c)" unfolding True by (rule ascii_alnum_not_percent)
    then have "url_encode (c # s) = CHR ''%'' # hex_upper (drop_bit 4 (byte_nat c)) #
        hex_upper (byte_nat c AND 15) # url_encode s"
      using True by (simp add: Let_def)
    with Cons show ?thesis by simp
  next
    case False
    with Cons show ?thesis by (simp add: Let_def)
  qed
qed simp

interpretation component: coder encode_component percent_decode
  by unfold_locales (rule percent_decode_encode_component)

interpretation query: coder url_encode percent_decode
  by unfold_locales (rule percent_decode_url_encode)

text \<open>What no encoded component holds: the separators of a URL.\<close>

definition url_safe :: "char set" where
  "url_safe = {c. ascii_alnum (byte_nat c)} \<union> {CHR ''-'', CHR ''.'', CHR ''_'', CHR ''~'', CHR ''%''}"

lemma hex_upper_alnum: "d < 16 \<Longrightarrow> ascii_alnum (byte_nat (hex_upper d))"
  by (drule less_16_cases) (auto simp: hex_upper_def ascii_alnum_def)

lemma encode_component_safe: "set (encode_component s) \<subseteq> url_safe"
  by (induction s) (auto simp: Let_def url_safe_def hex_upper_alnum)

lemma encode_component_no_sep:
  assumes "c \<in> set '':/@?&=[]#''"
  shows "c \<notin> set (encode_component s)"
proof -
  have "c \<notin> url_safe" using assms by (auto simp: url_safe_def ascii_alnum_def)
  then show ?thesis using encode_component_safe by blast
qed

subsection \<open>The reuse hash (Reuse.cpp)\<close>

definition kOffsetBasis :: "64 word" where
  "kOffsetBasis = 14695981039346656037"

definition kPrime :: "64 word" where
  "kPrime = 1099511628211"

definition fnv_step :: "64 word \<Rightarrow> char \<Rightarrow> 64 word" where
  "fnv_step hash ch = (hash XOR of_char ch) * kPrime"

text \<open>The rendering loop \<open>for (int i = 15; i >= 0; --i)\<close>, from index \<open>n - 1\<close> down.\<close>

fun render_hash :: "nat \<Rightarrow> string \<Rightarrow> 64 word \<Rightarrow> string" where
  "render_hash 0 out hash = out"
| "render_hash (Suc i) out hash =
     render_hash i (out[i := hex_lower (unat (hash AND 0xF))]) (drop_bit 4 hash)"

definition reuse_hash :: "string \<Rightarrow> string" where
  "reuse_hash canonical =
     render_hash 16 (replicate 16 (CHR ''0'')) (foldl fnv_step kOffsetBasis canonical)"

definition hex_value :: "string \<Rightarrow> nat" where
  "hex_value s = foldl (\<lambda>v c. 16 * v + (case hex_val c of Some d \<Rightarrow> d | None \<Rightarrow> 0)) 0 s"

fun hash_digits :: "nat \<Rightarrow> 64 word \<Rightarrow> string" where
  "hash_digits 0 h = []"
| "hash_digits (Suc n) h = hash_digits n (drop_bit 4 h) @ [hex_lower (unat (h AND 0xF))]"

lemma length_hash_digits [simp]: "length (hash_digits n h) = n"
  by (induction n arbitrary: h) auto

lemma render_hash_digits:
  "n \<le> length out \<Longrightarrow> render_hash n out h = hash_digits n h @ drop n out"
proof (induction n arbitrary: out h)
  case (Suc n)
  then have "render_hash (Suc n) out h =
      hash_digits n (drop_bit 4 h) @ drop n (out[n := hex_lower (unat (h AND 0xF))])"
    by simp
  also have "drop n (out[n := hex_lower (unat (h AND 0xF))]) =
      hex_lower (unat (h AND 0xF)) # drop (Suc n) out"
    using Suc.prems by (simp add: Cons_nth_drop_Suc [symmetric])
  finally show ?case by simp
qed simp

lemma unat_nibble64: "unat ((h::64 word) AND 0xF) = unat h mod 16"
proof -
  have "h AND 0xF = take_bit 4 h" by (simp add: take_bit_eq_mask mask_eq_exp_minus_1)
  then have "unat (h AND 0xF) = take_bit 4 (unat h)" by (metis unsigned_take_bit_eq)
  then show ?thesis by (simp add: take_bit_eq_mod)
qed

lemma unat_shift64: "unat (drop_bit 4 (h::64 word)) = unat h div 16"
  by (simp only: unat_drop_bit_eq) (simp add: drop_bit_eq_div)

lemma hex_value_digits: "hex_value (hash_digits n h) = unat h mod 16 ^ n"
proof (induction n arbitrary: h)
  case (Suc n)
  have d: "hex_val (hex_lower (unat (h AND 0xF))) = Some (unat h mod 16)"
    unfolding unat_nibble64 by (rule hex_val_lower) simp
  have "hex_value (hash_digits (Suc n) h) = 16 * hex_value (hash_digits n (drop_bit 4 h)) + unat h mod 16"
    using d by (simp add: hex_value_def)
  also have "\<dots> = 16 * (unat h div 16 mod 16 ^ n) + unat h mod 16"
    by (simp only: Suc unat_shift64)
  also have "\<dots> = unat h mod 16 ^ Suc n"
    by (simp add: mod_mult2_eq)
  finally show ?case .
qed (simp add: hex_value_def)

lemma hex_value_reuse_hash:
  "hex_value (reuse_hash s) = unat (foldl fnv_step kOffsetBasis s)"
proof -
  let ?h = "foldl fnv_step kOffsetBasis s"
  have "unat ?h < 16 ^ 16" using unsigned_less [of ?h, where ?'a = nat] by simp
  then show ?thesis
    by (simp add: reuse_hash_def render_hash_digits hex_value_digits del: power_numeral)
qed

lemma kPrime_unit: "kPrime * 0xce965057aff6957b = 1"
  by (simp add: kPrime_def)

lemma times_kPrime_inject: "x * kPrime = y * kPrime \<longleftrightarrow> x = y"
proof
  assume "x * kPrime = y * kPrime"
  then have "x * kPrime * 0xce965057aff6957b = y * kPrime * 0xce965057aff6957b" by (rule arg_cong)
  then show "x = y" by (simp only: mult.assoc kPrime_unit mult_1_right)
qed (rule arg_cong)

lemma of_char64_inject: "(of_char a :: 64 word) = of_char b \<longleftrightarrow> a = b"
proof
  have u: "unat (of_char c :: 64 word) = byte_nat c" for c
  proof -
    have "byte_nat c < 2 ^ LENGTH(64)" by (rule order_less_trans [OF byte_nat_less]) simp
    then have "unat (of_nat (byte_nat c) :: 64 word) = byte_nat c"
      by (simp only: unat_of_nat mod_less)
    then show ?thesis by (simp only: of_nat_of_char)
  qed
  assume "(of_char a :: 64 word) = of_char b"
  then show "a = b" by (metis u byte_nat_inject)
qed simp

lemma xor_left_cancel: "(h::64 word) XOR a = h XOR b \<longleftrightarrow> a = b"
  by (metis bit.xor_left_self)

lemma xor_right_cancel: "(h::64 word) XOR a = k XOR a \<longleftrightarrow> h = k"
  by (metis xor_left_cancel xor.commute)

lemma fnv_step_inject: "fnv_step h c = fnv_step k c \<longleftrightarrow> h = k"
  by (simp add: fnv_step_def times_kPrime_inject xor_right_cancel)

lemma fnv_step_byte_inject: "fnv_step h c = fnv_step h d \<longleftrightarrow> c = d"
  by (simp add: fnv_step_def times_kPrime_inject xor_left_cancel of_char64_inject)

lemma fnv_suffix_inject: "foldl fnv_step h s = foldl fnv_step k s \<longleftrightarrow> h = k"
  by (induction s arbitrary: h k) (auto simp: fnv_step_inject)

end
