(* ===== verification/Quoting.thy ===== *)
theory Quoting
  imports Text_Config
begin

section \<open>Quoting of command-line words\<close>

text \<open>
  Three quoters and the readers of what they write: \<open>shell_quote\<close>,
  \<open>shell_quote_assignment\<close> and \<open>build_env_wrapped_script\<close> of
  \<open>src/compose/ComposeCommand.cpp\<close>, \<open>quote_arg\<close> and \<open>build_command_line\<close> of
  \<open>src/Process.cpp\<close>, \<open>quote_conninfo_value\<close> of \<open>src/modules/PostgreSQL.cpp\<close>.  The readers
  (the POSIX shell, the Windows C runtime, libpq) are not in the repository; they are
  written here as specifications of the grammars the comments of the sources name.
\<close>

subsection \<open>The contract of a quoter\<close>

text \<open>Reading a command line word by word; \<open>word\<close> reads one word and drops the blank after it.\<close>

fun read_words :: "(string \<Rightarrow> (string \<times> string) option) \<Rightarrow> nat \<Rightarrow> string \<Rightarrow> string list option" where
  "read_words word fuel s =
     (if s = [] then Some []
      else case fuel of
             0 \<Rightarrow> None
           | Suc n \<Rightarrow>
               (case word s of
                  None \<Rightarrow> None
                | Some (w, r) \<Rightarrow> map_option (\<lambda>ws. w # ws) (read_words word n r)))"

declare read_words.simps [simp del]

lemma read_words_Nil [simp]: "read_words word fuel [] = Some []"
  by (simp add: read_words.simps)

lemma read_words_step:
  "s \<noteq> [] \<Longrightarrow> word s = Some (w, r) \<Longrightarrow>
     read_words word (Suc n) s = map_option (\<lambda>ws. w # ws) (read_words word n r)"
  by (subst read_words.simps) simp

text \<open>
  A quoter writes an item so that the reader takes the item's text off the command line, up to
  the blank after it.  Command lines of such items are read back word for word.
\<close>

locale word_quoting =
  fixes ok :: "'a \<Rightarrow> bool"
    and quote :: "'a \<Rightarrow> string"
    and text_of :: "'a \<Rightarrow> string"
    and word :: "string \<Rightarrow> (string \<times> string) option"
  assumes quote_ne: "quote x \<noteq> []"
    and word_last: "ok x \<Longrightarrow> word (quote x) = Some (text_of x, [])"
    and word_more: "ok x \<Longrightarrow> word (quote x @ CHR '' '' # r) = Some (text_of x, r)"
begin

lemma read_words_prefix:
  "\<forall>x \<in> set xs. ok x \<Longrightarrow>
   read_words word (length xs + n) (concat (map (\<lambda>x. quote x @ '' '') xs) @ s) =
     map_option (\<lambda>ws. map text_of xs @ ws) (read_words word n s)"
proof (induction xs)
  case Nil
  then show ?case by (cases "read_words word n s") simp_all
next
  case (Cons x xs)
  let ?rest = "concat (map (\<lambda>x. quote x @ '' '') xs) @ s"
  have "word (quote x @ CHR '' '' # ?rest) = Some (text_of x, ?rest)"
    using Cons.prems by (simp only: list.set_intros word_more)
  then have "read_words word (Suc (length xs + n)) (quote x @ CHR '' '' # ?rest) =
      map_option (\<lambda>ws. text_of x # ws) (read_words word (length xs + n) ?rest)"
    by (intro read_words_step) simp_all
  with Cons show ?case by (cases "read_words word n s") simp_all
qed

lemma read_words_join:
  "\<forall>x \<in> set xs. ok x \<Longrightarrow> length xs \<le> fuel \<Longrightarrow>
   read_words word fuel (join (map quote xs) '' '') = Some (map text_of xs)"
proof (induction xs arbitrary: fuel)
  case (Cons x xs)
  then obtain n where f: "fuel = Suc n" "length xs \<le> n" by (cases fuel) auto
  show ?case
  proof (cases xs)
    case Nil
    with f Cons.prems show ?thesis
      by (simp add: join_Cons quote_ne read_words_step word_last)
  next
    case (Cons v vs)
    then have j: "join (map quote (x # xs)) '' '' = quote x @ CHR '' '' # join (map quote xs) '' ''"
      by (simp add: join_Cons)
    have "word (quote x @ CHR '' '' # join (map quote xs) '' '') =
        Some (text_of x, join (map quote xs) '' '')"
      using Cons.prems by (intro word_more) simp
    then show ?thesis unfolding j f(1) using Cons.IH [of n] Cons.prems f(2)
      by (subst read_words_step) simp_all
  qed
qed simp

lemma join_quoted_inject:
  assumes "\<forall>x \<in> set xs. ok x" "\<forall>y \<in> set ys. ok y"
    and "join (map quote xs) '' '' = join (map quote ys) '' ''"
  shows "map text_of xs = map text_of ys"
proof -
  let ?n = "max (length xs) (length ys)"
  have "Some (map text_of xs) = read_words word ?n (join (map quote xs) '' '')"
    using assms(1) by (intro read_words_join [symmetric]) simp_all
  also have "\<dots> = Some (map text_of ys)"
    unfolding assms(3) using assms(2) by (intro read_words_join) simp_all
  finally show ?thesis by simp
qed

end

subsection \<open>The POSIX shell (ComposeCommand.cpp)\<close>

fun shell_quote_body :: "string \<Rightarrow> string" where
  "shell_quote_body [] = []"
| "shell_quote_body (c # cs) =
     (if c = CHR 0x27 then [CHR 0x27, CHR 0x5C, CHR 0x27, CHR 0x27] else [c]) @ shell_quote_body cs"

definition shell_quote :: "string \<Rightarrow> string" where
  "shell_quote s = [CHR 0x27] @ shell_quote_body s @ [CHR 0x27]"

definition shell_quote_assignment :: "string \<Rightarrow> string \<Rightarrow> string" where
  "shell_quote_assignment key value = key @ ''='' @ shell_quote value"

definition build_env_wrapped_script :: "string list \<Rightarrow> (string \<times> string) list \<Rightarrow> string" where
  "build_env_wrapped_script argv env =
     concat (map (\<lambda>(key, value). shell_quote_assignment key value @ '' '') env) @
     join (map shell_quote argv) '' ''"

text \<open>
  The specification: one word by the quoting rules of the shell.  A backslash quotes the next
  character, single quotes quote everything up to the next one, a blank ends the word; any
  other character with a meaning to the shell is refused (\<open>None\<close>) when it is not quoted.
\<close>

definition sh_special :: "char set" where
  "sh_special = set ''|&;<>()$`\"*?[]#~!{}'' \<union> {CHR 0x09, CHR 0x0A}"

fun sh_word :: "bool \<Rightarrow> string \<Rightarrow> string \<Rightarrow> (string \<times> string) option" where
  "sh_word inq acc [] = (if inq then None else Some (acc, []))"
| "sh_word inq acc (c # cs) =
     (if inq then
        (if c = CHR 0x27 then sh_word False acc cs else sh_word True (acc @ [c]) cs)
      else if c = CHR '' '' then Some (acc, cs)
      else if c = CHR 0x27 then sh_word True acc cs
      else if c = CHR 0x5C then
        (case cs of [] \<Rightarrow> None | d # r \<Rightarrow> sh_word False (acc @ [d]) r)
      else if c \<in> sh_special then None
      else sh_word False (acc @ [c]) cs)"

definition env_name_ok :: "string \<Rightarrow> bool" where
  "env_name_ok k \<longleftrightarrow> k \<noteq> [] \<and>
     (\<forall>c \<in> set k. c \<notin> sh_special \<union> {CHR 0x27, CHR 0x5C, CHR '' '', CHR ''=''})"

lemma sh_word_quoted:
  "sh_word True acc (shell_quote_body w @ CHR 0x27 # r) = sh_word False (acc @ w) r"
  by (induction w arbitrary: acc) auto

lemma sh_word_plain:
  "\<forall>c \<in> set k. c \<notin> sh_special \<union> {CHR 0x27, CHR 0x5C, CHR '' ''} \<Longrightarrow>
     sh_word False acc (k @ r) = sh_word False (acc @ k) r"
  by (induction k arbitrary: acc) auto

lemma sh_word_shell_quote: "sh_word False acc (shell_quote w @ r) = sh_word False (acc @ w) r"
  by (simp add: shell_quote_def sh_word_quoted)

lemma sh_word_assignment:
  assumes "env_name_ok k"
  shows "sh_word False acc (shell_quote_assignment k v @ r) =
    sh_word False (acc @ k @ CHR ''='' # v) r"
proof -
  have "\<forall>c \<in> set k. c \<notin> sh_special \<union> {CHR 0x27, CHR 0x5C, CHR '' ''}"
    using assms by (auto simp: env_name_ok_def)
  then have "sh_word False acc (k @ CHR ''='' # shell_quote v @ r) =
      sh_word False (acc @ k) (CHR ''='' # shell_quote v @ r)"
    by (rule sh_word_plain)
  moreover have "CHR ''='' \<notin> sh_special" by (auto simp: sh_special_def)
  ultimately show ?thesis by (simp add: shell_quote_assignment_def sh_word_shell_quote)
qed

interpretation sh: word_quoting "\<lambda>_. True" shell_quote "\<lambda>w. w" "sh_word False []"
proof unfold_locales
  fix x r
  show "shell_quote x \<noteq> []" by (simp add: shell_quote_def)
  show "sh_word False [] (shell_quote x) = Some (x, [])"
    using sh_word_shell_quote [of "[]" x "[]"] by simp
  show "sh_word False [] (shell_quote x @ CHR '' '' # r) = Some (x, r)"
    by (simp add: sh_word_shell_quote)
qed

interpretation sh_env: word_quoting "\<lambda>(k, _). env_name_ok k"
  "\<lambda>(k, v). shell_quote_assignment k v" "\<lambda>(k, v). k @ ''='' @ v" "sh_word False []"
proof unfold_locales
  fix x :: "string \<times> string" and r
  obtain k v where x: "x = (k, v)" by (cases x)
  show "(\<lambda>(k, v). shell_quote_assignment k v) x \<noteq> []" by (simp add: x shell_quote_assignment_def)
  assume "case x of (k, _) \<Rightarrow> env_name_ok k"
  then have k: "env_name_ok k" by (simp add: x)
  show "sh_word False [] ((\<lambda>(k, v). shell_quote_assignment k v) x) =
      Some ((\<lambda>(k, v). k @ ''='' @ v) x, [])"
    using sh_word_assignment [OF k, of "[]" v "[]"] by (simp add: x)
  show "sh_word False [] ((\<lambda>(k, v). shell_quote_assignment k v) x @ CHR '' '' # r) =
      Some ((\<lambda>(k, v). k @ ''='' @ v) x, r)"
    using sh_word_assignment [OF k, of "[]" v "CHR '' '' # r"] by (simp add: x)
qed

lemma read_env_wrapped_script:
  assumes "\<forall>(k, v) \<in> set env. env_name_ok k"
  shows "read_words (sh_word False []) (length env + length argv) (build_env_wrapped_script argv env) =
    Some (map (\<lambda>(k, v). k @ ''='' @ v) env @ argv)"
proof -
  have "concat (map (\<lambda>(key, value). shell_quote_assignment key value @ '' '') env) =
      concat (map (\<lambda>x. (\<lambda>(k, v). shell_quote_assignment k v) x @ '' '') env)"
    by (intro arg_cong [where f = concat] map_cong) auto
  then show ?thesis
    using sh_env.read_words_prefix [of env "length argv" "join (map shell_quote argv) '' ''"] assms
      sh.read_words_join [of argv "length argv"]
    by (auto simp: build_env_wrapped_script_def)
qed

subsection \<open>The Windows C runtime (Process.cpp)\<close>

fun quote_arg_loop :: "string \<Rightarrow> nat \<Rightarrow> string \<Rightarrow> string" where
  "quote_arg_loop out backslashes [] = out @ replicate (backslashes * 2) (CHR 0x5C)"
| "quote_arg_loop out backslashes (c # cs) =
     (if c = CHR 0x5C then quote_arg_loop out (backslashes + 1) cs
      else if c = CHR 0x22 then
        quote_arg_loop (out @ replicate (backslashes * 2 + 1) (CHR 0x5C) @ [c]) 0 cs
      else quote_arg_loop (out @ replicate backslashes (CHR 0x5C) @ [c]) 0 cs)"

definition quote_arg :: "string \<Rightarrow> string" where
  "quote_arg arg = quote_arg_loop [CHR 0x22] 0 arg @ [CHR 0x22]"

definition build_command_line :: "string list \<Rightarrow> string" where
  "build_command_line argv = join (map quote_arg argv) '' ''"

text \<open>
  The specification: one argument by the rules of the Microsoft C runtime.  \<open>2n\<close> backslashes
  before a quote are \<open>n\<close> backslashes and the quote opens or closes a quoted part (\<open>""\<close> inside
  one is a quote), \<open>2n+1\<close> are \<open>n\<close> backslashes and a literal quote, other backslashes are
  themselves, and a blank outside a quoted part ends the argument.
\<close>

fun win_word :: "bool \<Rightarrow> nat \<Rightarrow> string \<Rightarrow> string \<Rightarrow> (string \<times> string) option" where
  "win_word inq nb acc [] = Some (acc @ replicate nb (CHR 0x5C), [])"
| "win_word inq nb acc (c # cs) =
     (if c = CHR 0x5C then win_word inq (nb + 1) acc cs
      else if c = CHR 0x22 then
        (let acc' = acc @ replicate (nb div 2) (CHR 0x5C) in
         if odd nb then win_word inq 0 (acc' @ [c]) cs
         else
           (case cs of
              d # r \<Rightarrow> (if inq \<and> d = CHR 0x22 then win_word inq 0 (acc' @ [d]) r
                        else win_word (\<not> inq) 0 acc' cs)
            | [] \<Rightarrow> win_word (\<not> inq) 0 acc' []))
      else if \<not> inq \<and> (c = CHR '' '' \<or> c = CHR 0x09) then Some (acc @ replicate nb (CHR 0x5C), cs)
      else win_word inq 0 (acc @ replicate nb (CHR 0x5C) @ [c]) cs)"

lemma quote_arg_loop_out: "quote_arg_loop out nb cs = out @ quote_arg_loop [] nb cs"
proof (induction cs arbitrary: out nb)
  case (Cons c cs)
  show ?case
    by (subst (1 2) quote_arg_loop.simps(2)) (simp add: Cons.IH [of "_ @ _"] Cons.IH [of "_ # _"] Cons.IH [of out])
qed simp

lemma win_backslashes:
  "win_word inq nb acc (replicate k (CHR 0x5C) @ r) = win_word inq (nb + k) acc r"
  by (induction k arbitrary: nb) auto

lemma win_word_close:
  "r = [] \<or> hd r \<noteq> CHR 0x22 \<Longrightarrow> even nb \<Longrightarrow>
     win_word True nb acc (CHR 0x22 # r) = win_word False 0 (acc @ replicate (nb div 2) (CHR 0x5C)) r"
  by (cases r) (auto simp: Let_def)

lemma win_word_quoted:
  assumes "r = [] \<or> hd r \<noteq> CHR 0x22"
  shows "win_word True 0 acc (quote_arg_loop [] nb cs @ CHR 0x22 # r) =
    win_word False 0 (acc @ replicate nb (CHR 0x5C) @ cs) r"
proof (induction cs arbitrary: acc nb)
  case Nil
  show ?case using win_word_close [OF assms, of "nb * 2"] by (simp add: win_backslashes)
next
  case (Cons c cs)
  consider "c = CHR 0x5C" | "c = CHR 0x22" | "c \<noteq> CHR 0x5C" "c \<noteq> CHR 0x22" by blast
  then show ?case
  proof cases
    case 1
    then show ?thesis using Cons [of acc "nb + 1"] by (simp add: replicate_app_Cons_same)
  next
    case 2
    then show ?thesis using Cons
      by (simp add: quote_arg_loop_out [of "_ @ _"] win_backslashes Let_def del: replicate.simps(2))
  next
    case 3
    then show ?thesis using Cons by (simp add: quote_arg_loop_out [of "_ @ _"] win_backslashes)
  qed
qed

lemma win_word_quote_arg:
  assumes "r = [] \<or> hd r \<noteq> CHR 0x22"
  shows "win_word False 0 [] (quote_arg w @ r) = win_word False 0 w r"
proof -
  have q: "quote_arg w @ r = CHR 0x22 # quote_arg_loop [] 0 w @ CHR 0x22 # r"
    by (simp add: quote_arg_def quote_arg_loop_out [of "[_]"])
  have "win_word False 0 [] (CHR 0x22 # s) = win_word True 0 [] s" for s
    by (cases s) (simp_all add: Let_def)
  then show ?thesis unfolding q using win_word_quoted [OF assms, of "[]" 0 w] by simp
qed

interpretation win: word_quoting "\<lambda>_. True" quote_arg "\<lambda>w. w" "win_word False 0 []"
proof unfold_locales
  fix x r
  show "quote_arg x \<noteq> []" by (simp add: quote_arg_def)
  show "win_word False 0 [] (quote_arg x) = Some (x, [])"
    using win_word_quote_arg [of "[]" x] by simp
  show "win_word False 0 [] (quote_arg x @ CHR '' '' # r) = Some (x, r)"
    using win_word_quote_arg [of "CHR '' '' # r" x] by simp
qed

subsection \<open>libpq connection strings (PostgreSQL.cpp)\<close>

definition conninfo_special :: "char \<Rightarrow> bool" where
  "conninfo_special c \<longleftrightarrow>
     c = CHR '' '' \<or> c = CHR 0x09 \<or> c = CHR 0x0A \<or> c = CHR 0x0D \<or> c = CHR 0x0C \<or> c = CHR 0x0B \<or>
     c = CHR 0x27 \<or> c = CHR 0x5C"

fun conninfo_escape :: "string \<Rightarrow> string" where
  "conninfo_escape [] = []"
| "conninfo_escape (c # cs) =
     (if c = CHR 0x27 \<or> c = CHR 0x5C then [CHR 0x5C, c] else [c]) @ conninfo_escape cs"

definition quote_conninfo_value :: "string \<Rightarrow> string" where
  "quote_conninfo_value value =
     (let needs_quotes = (value = [] \<or> list_ex conninfo_special value) in
      if \<not> needs_quotes then value
      else [CHR 0x27] @ conninfo_escape value @ [CHR 0x27])"

text \<open>
  The specification: libpq's reader of one value (\<open>conninfo_parse\<close>): a single-quoted value with
  backslash escapes, or a run up to the next white space, where a backslash escapes as well.
\<close>

fun pq_quoted :: "string \<Rightarrow> string \<Rightarrow> (string \<times> string) option" where
  "pq_quoted acc [] = None"
| "pq_quoted acc (c # cs) =
     (if c = CHR 0x27 then Some (acc, (case cs of d # r \<Rightarrow> (if d = CHR '' '' then r else cs) | [] \<Rightarrow> []))
      else if c = CHR 0x5C then (case cs of [] \<Rightarrow> None | d # r \<Rightarrow> pq_quoted (acc @ [d]) r)
      else pq_quoted (acc @ [c]) cs)"

fun pq_plain :: "string \<Rightarrow> string \<Rightarrow> (string \<times> string) option" where
  "pq_plain acc [] = Some (acc, [])"
| "pq_plain acc (c # cs) =
     (if c = CHR 0x5C then (case cs of [] \<Rightarrow> None | d # r \<Rightarrow> pq_plain (acc @ [d]) r)
      else if conninfo_special c \<and> c \<noteq> CHR 0x27 then Some (acc, cs)
      else pq_plain (acc @ [c]) cs)"

definition pq_value :: "string \<Rightarrow> (string \<times> string) option" where
  "pq_value s = (case s of c # cs \<Rightarrow> (if c = CHR 0x27 then pq_quoted [] cs else pq_plain [] s)
                         | [] \<Rightarrow> Some ([], []))"

lemma pq_quoted_escape:
  "pq_quoted acc (conninfo_escape w @ CHR 0x27 # r) =
     Some (acc @ w, (case r of d # r' \<Rightarrow> (if d = CHR '' '' then r' else r) | [] \<Rightarrow> []))"
  by (induction w arbitrary: acc) auto

lemma pq_plain_run:
  "\<not> list_ex conninfo_special w \<Longrightarrow> pq_plain acc (w @ r) = pq_plain (acc @ w) r"
  by (induction w arbitrary: acc) (auto simp: conninfo_special_def)

interpretation pq: word_quoting "\<lambda>_. True" quote_conninfo_value "\<lambda>w. w" pq_value
proof unfold_locales
  fix x r :: string
  show "quote_conninfo_value x \<noteq> []" by (auto simp: quote_conninfo_value_def Let_def)
  have v: "pq_value (quote_conninfo_value x @ r) = Some (x, (case r of d # r' \<Rightarrow> r' | [] \<Rightarrow> []))"
    if "r = [] \<or> hd r = CHR '' ''" for r
  proof (cases "x = [] \<or> list_ex conninfo_special x")
    case True
    then have "quote_conninfo_value x = CHR 0x27 # conninfo_escape x @ [CHR 0x27]"
      by (auto simp: quote_conninfo_value_def)
    with that show ?thesis by (cases r) (simp_all add: pq_value_def pq_quoted_escape)
  next
    case False
    then obtain y ys where x: "x = y # ys" and y: "y \<noteq> CHR 0x27"
      by (cases x) (auto simp: conninfo_special_def)
    have "pq_value (x @ r) = pq_plain x r"
      using pq_plain_run [of x "[]" r] False x y by (simp add: pq_value_def)
    with False that show ?thesis
      by (cases r) (simp_all add: quote_conninfo_value_def conninfo_special_def)
  qed
  show "pq_value (quote_conninfo_value x) = Some (x, [])" using v [of "[]"] by simp
  show "pq_value (quote_conninfo_value x @ CHR '' '' # r) = Some (x, r)"
    using v [of "CHR '' '' # r"] by simp
qed

end
