(* ===== verification/Json.thy ===== *)
theory Json
  imports TC_Prelude "HOL-Library.List_Lexorder"
begin

section \<open>JSON values\<close>

text \<open>
  What the sources use of nlohmann's \<open>json\<close>.  Values are a datatype; an object is a list of
  members in key order (\<open>std::map\<close>), written only through \<open>json_set\<close>; of a floating-point
  number its truncation is kept, the only view the sources take of one.  The parser, the
  serializer and the texts of the library's exceptions are not in the repository: they are the
  fields of \<open>jsonlib\<close>, a parameter of what uses them.  A library exception is a \<open>Foreign\<close>
  one.  \<open>jl_dump\<close> stands for \<open>dump()\<close> on values whose strings are valid UTF-8, the inputs on
  which it does not throw.
\<close>

datatype json =
    JNull
  | JBool bool
  | JInt int
  | JFloat int
  | JStr string
  | JArr "json list"
  | JObj "(string \<times> json) list"

record jsonlib =
  jl_parse :: "string \<Rightarrow> string + json"
  jl_dump :: "json \<Rightarrow> string"
  jl_error :: "nat \<Rightarrow> string"

text \<open>The documented round trip of the library.\<close>

definition json_roundtrip :: "jsonlib \<Rightarrow> bool" where
  "json_roundtrip L \<longleftrightarrow> (\<forall>j. jl_parse L (jl_dump L j) = Inr j)"

definition json_parse :: "jsonlib \<Rightarrow> string \<Rightarrow> json res" where
  "json_parse L s = (case jl_parse L s of Inl w \<Rightarrow> Inl (Foreign w) | Inr j \<Rightarrow> Inr j)"

fun is_object :: "json \<Rightarrow> bool" where
  "is_object (JObj _) = True"
| "is_object _ = False"

fun is_array :: "json \<Rightarrow> bool" where
  "is_array (JArr _) = True"
| "is_array _ = False"

fun is_string :: "json \<Rightarrow> bool" where
  "is_string (JStr _) = True"
| "is_string _ = False"

fun members :: "json \<Rightarrow> (string \<times> json) list" where
  "members (JObj ms) = ms"
| "members _ = []"

fun elements :: "json \<Rightarrow> json list" where
  "elements (JArr js) = js"
| "elements _ = []"

fun str_of :: "json \<Rightarrow> string option" where
  "str_of (JStr s) = Some s"
| "str_of _ = None"

fun int_of_json :: "json \<Rightarrow> int option" where
  "int_of_json (JInt i) = Some (signed_take_bit 63 i)"
| "int_of_json _ = None"

text \<open>\<open>json.find(key)\<close>: \<open>end()\<close> (\<open>None\<close>) for an absent key and for a value that is no object.\<close>

definition jfind :: "string \<Rightarrow> json \<Rightarrow> json option" where
  "jfind k j = map_of (members j) k"

text \<open>The member at a key, if it has the wanted shape.\<close>

definition jfind_obj :: "string \<Rightarrow> json \<Rightarrow> json option" where
  "jfind_obj k j =
     (case jfind k j of None \<Rightarrow> None | Some v \<Rightarrow> (if is_object v then Some v else None))"

definition jfind_str :: "string \<Rightarrow> json \<Rightarrow> string option" where
  "jfind_str k j = (case jfind k j of None \<Rightarrow> None | Some v \<Rightarrow> str_of v)"

definition jfind_int :: "string \<Rightarrow> json \<Rightarrow> int option" where
  "jfind_int k j = (case jfind k j of None \<Rightarrow> None | Some v \<Rightarrow> int_of_json v)"

definition jfind_arr :: "string \<Rightarrow> json \<Rightarrow> json list option" where
  "jfind_arr k j =
     (case jfind k j of None \<Rightarrow> None | Some v \<Rightarrow> (if is_array v then Some (elements v) else None))"

text \<open>\<open>json[key] = v\<close> on an object, and on a null value, which becomes an object.\<close>

fun insert_member :: "string \<Rightarrow> json \<Rightarrow> (string \<times> json) list \<Rightarrow> (string \<times> json) list" where
  "insert_member k v [] = [(k, v)]"
| "insert_member k v ((k', v') # ms) =
     (if k = k' then (k, v) # ms
      else if k < k' then (k, v) # (k', v') # ms
      else (k', v') # insert_member k v ms)"

definition json_set :: "string \<Rightarrow> json \<Rightarrow> json \<Rightarrow> json" where
  "json_set k v j = JObj (insert_member k v (members j))"

definition set_if :: "bool \<Rightarrow> string \<Rightarrow> json \<Rightarrow> json \<Rightarrow> json" where
  "set_if c k v j = (if c then json_set k v j else j)"

definition set_opt :: "string \<Rightarrow> ('a \<Rightarrow> json) \<Rightarrow> 'a option \<Rightarrow> json \<Rightarrow> json" where
  "set_opt k f x j = (case x of None \<Rightarrow> j | Some v \<Rightarrow> json_set k (f v) j)"

definition set_list :: "string \<Rightarrow> ('a list \<Rightarrow> json) \<Rightarrow> 'a list \<Rightarrow> json \<Rightarrow> json" where
  "set_list k f xs j = (if xs = [] then j else json_set k (f xs) j)"

definition json_strings :: "string list \<Rightarrow> json" where
  "json_strings xs = JArr (map JStr xs)"

text \<open>\<open>get<std::string>()\<close>, \<open>get<std::int64_t>()\<close>, \<open>get<bool>()\<close>: type error 302 on another type.\<close>

definition get_string :: "jsonlib \<Rightarrow> json \<Rightarrow> string res" where
  "get_string L j = (case j of JStr s \<Rightarrow> Inr s | _ \<Rightarrow> Inl (Foreign (jl_error L 302)))"

definition get_bool :: "jsonlib \<Rightarrow> json \<Rightarrow> bool res" where
  "get_bool L j = (case j of JBool b \<Rightarrow> Inr b | _ \<Rightarrow> Inl (Foreign (jl_error L 302)))"

text \<open>
  \<open>get<std::int64_t>()\<close> and \<open>get<int>()\<close> (\<open>w\<close> bits) convert an integer of another width by
  wrapping, a boolean to 0 or 1, and truncate a floating-point number.
\<close>

definition get_int :: "nat \<Rightarrow> jsonlib \<Rightarrow> json \<Rightarrow> int res" where
  "get_int w L j =
     (case j of JInt i \<Rightarrow> Inr (signed_take_bit (w - 1) i)
      | JFloat i \<Rightarrow> Inr (signed_take_bit (w - 1) i)
      | JBool b \<Rightarrow> Inr (if b then 1 else 0)
      | _ \<Rightarrow> Inl (Foreign (jl_error L 302)))"

text \<open>\<open>json.value(key, default)\<close>: type error 306 on a value that is no object.\<close>

definition json_value :: "jsonlib \<Rightarrow> (jsonlib \<Rightarrow> json \<Rightarrow> 'a res) \<Rightarrow> json \<Rightarrow> string \<Rightarrow> 'a \<Rightarrow> 'a res" where
  "json_value L get j k d =
     (if is_object j then (case jfind k j of None \<Rightarrow> Inr d | Some v \<Rightarrow> get L v)
      else Inl (Foreign (jl_error L 306)))"

text \<open>\<open>json.at(key)\<close>: type error 304 on a value that is no object, 403 for an absent key.\<close>

definition json_at :: "jsonlib \<Rightarrow> json \<Rightarrow> string \<Rightarrow> json res" where
  "json_at L j k =
     (if is_object j then (case jfind k j of None \<Rightarrow> Inl (Foreign (jl_error L 403)) | Some v \<Rightarrow> Inr v)
      else Inl (Foreign (jl_error L 304)))"

text \<open>\<open>merge_patch\<close> (RFC 7386).\<close>

definition delete_member :: "string \<Rightarrow> (string \<times> json) list \<Rightarrow> (string \<times> json) list" where
  "delete_member k ms = filter (\<lambda>m. fst m \<noteq> k) ms"

fun merge_patch :: "json \<Rightarrow> json \<Rightarrow> json"
  and merge_members :: "(string \<times> json) list \<Rightarrow> (string \<times> json) list \<Rightarrow> (string \<times> json) list" where
  "merge_patch j (JObj ps) = JObj (merge_members (members j) ps)"
| "merge_patch j JNull = JNull"
| "merge_patch j (JBool b) = JBool b"
| "merge_patch j (JInt i) = JInt i"
| "merge_patch j (JFloat i) = JFloat i"
| "merge_patch j (JStr s) = JStr s"
| "merge_patch j (JArr js) = JArr js"
| "merge_members ms [] = ms"
| "merge_members ms ((k, v) # ps) =
     merge_members
       (if v = JNull then delete_member k ms
        else insert_member k
          (merge_patch (case map_of ms k of None \<Rightarrow> JNull | Some x \<Rightarrow> x) v) ms) ps"

lemma map_of_insert_member [simp]: "map_of (insert_member k v ms) = (map_of ms)(k \<mapsto> v)"
  by (induction ms) (auto simp: fun_eq_iff)

lemma members_json_set [simp]: "members (json_set k v j) = insert_member k v (members j)"
  by (simp add: json_set_def)

lemma is_object_json_set [simp]: "is_object (json_set k v j)"
  by (simp add: json_set_def)

lemma jfind_json_set: "jfind k (json_set k' v j) = (if k = k' then Some v else jfind k j)"
  by (simp add: jfind_def)

lemma jfind_json_set_same [simp]: "jfind k (json_set k v j) = Some v"
  by (simp add: jfind_json_set)

lemma jfind_json_set_other [simp]: "k \<noteq> k' \<Longrightarrow> jfind k (json_set k' v j) = jfind k j"
  by (simp add: jfind_json_set)

lemma jfind_empty [simp]: "jfind k (JObj []) = None" "jfind k JNull = None"
  by (simp_all add: jfind_def)

lemma jfind_set_if:
  "jfind k (set_if c k' v j) = (if c \<and> k = k' then Some v else jfind k j)"
  by (simp add: set_if_def jfind_json_set)

lemma jfind_set_opt:
  "jfind k (set_opt k' f x j) =
     (if k = k' then (case x of None \<Rightarrow> jfind k j | Some v \<Rightarrow> Some (f v)) else jfind k j)"
  by (simp add: set_opt_def jfind_json_set split: option.splits)

lemma jfind_set_list:
  "jfind k (set_list k' f xs j) = (if k = k' \<and> xs \<noteq> [] then Some (f xs) else jfind k j)"
  by (simp add: set_list_def jfind_json_set)

lemmas jfind_sets = jfind_json_set jfind_set_if jfind_set_opt jfind_set_list

text \<open>Members stay in strictly ascending key order, whatever the order of insertion.\<close>

definition members_sorted :: "(string \<times> json) list \<Rightarrow> bool" where
  "members_sorted ms \<longleftrightarrow> sorted_wrt (<) (map fst ms)"

lemma insert_member_keys: "set (map fst (insert_member k v ms)) = insert k (set (map fst ms))"
  by (induction k v ms rule: insert_member.induct) (simp_all add: insert_commute)

lemma insert_member_sorted: "members_sorted ms \<Longrightarrow> members_sorted (insert_member k v ms)"
proof (induction ms)
  case Nil
  then show ?case by (simp add: members_sorted_def)
next
  case (Cons m ms)
  obtain k' v' where m: "m = (k', v')" by (cases m)
  have s: "members_sorted ms" and lt: "\<forall>x \<in> set (map fst ms). k' < x"
    using Cons.prems by (simp_all add: members_sorted_def m)
  consider "k = k'" | "k < k'" | "k' < k" by fastforce
  then show ?case
  proof cases
    case 1
    then show ?thesis using s lt by (simp add: m members_sorted_def)
  next
    case 2
    then show ?thesis using s lt by (auto simp: m members_sorted_def)
  next
    case 3
    then have "insert_member k v (m # ms) = (k', v') # insert_member k v ms" by (auto simp: m)
    moreover have "\<forall>x \<in> set (map fst (insert_member k v ms)). k' < x"
      using lt 3 by (simp only: insert_member_keys) blast
    ultimately show ?thesis using Cons.IH [OF s] by (simp add: members_sorted_def)
  qed
qed

lemma members_from_keys:
  "distinct (map fst xs) \<Longrightarrow> map (\<lambda>k. (k, the (map_of xs k))) (map fst xs) = xs"
  by (auto simp: o_def intro!: map_idI)

lemma sorted_members_unique:
  "members_sorted xs \<Longrightarrow> members_sorted ys \<Longrightarrow> map_of xs = map_of ys \<Longrightarrow> xs = ys"
proof -
  assume s: "members_sorted xs" "members_sorted ys" and eq: "map_of xs = map_of ys"
  have d: "distinct (map fst xs)" "distinct (map fst ys)" "sorted (map fst xs)" "sorted (map fst ys)"
    using s by (auto simp: members_sorted_def strict_sorted_iff)
  have "set xs = set ys" using eq d(1,2) by (metis map_of_inject_set)
  then have "map fst xs = map fst ys"
    using d by (metis list.set_map sorted_distinct_set_unique)
  then show "xs = ys" using members_from_keys [OF d(1)] members_from_keys [OF d(2)] eq by metis
qed

end
