(* ===== verification/Registry.thy ===== *)
theory Registry
  imports Json Codecs
begin

section \<open>Image references and registry credentials\<close>

text \<open>
  \<open>src/docker/Auth.cpp\<close> (the registry of an image, the lookup in Docker's \<open>config.json\<close>,
  credential helpers and their cache, the \<open>X-Registry-Auth\<close> header, the Docker Hub prefix) and
  \<open>split_image\<close>, \<open>join_image\<close> of \<open>src/docker/ApiMapping.cpp\<close>.  The environment and the
  file system are functions, the subprocess of a credential helper acts on a world \<open>'w\<close> and is
  a parameter, and the process-wide cache is a state that is read and written.
\<close>

subsection \<open>Image references\<close>

definition kDockerHub :: string where
  "kDockerHub = ''index.docker.io''"

definition kDockerHubAuthKey :: string where
  "kDockerHubAuthKey = ''https://index.docker.io/v1/''"

definition resolve_registry :: "string \<Rightarrow> string" where
  "resolve_registry img =
     (case find_char (CHR ''/'') img of
        None \<Rightarrow> kDockerHub
      | Some slash \<Rightarrow>
          (let first = take slash img in
           if find_char (CHR ''.'') first \<noteq> None \<or> find_char (CHR '':'') first \<noteq> None \<or>
              first = ''localhost''
           then first else kDockerHub))"

definition split_image :: "string \<Rightarrow> string \<times> string" where
  "split_image img =
     (let slash = rfind_char (CHR ''/'') img;
          after_slash = (\<lambda>i. case slash of None \<Rightarrow> True | Some s \<Rightarrow> s < i)
      in case (case rfind_char (CHR ''@'') img of
                 Some at \<Rightarrow> (if after_slash at then Some at else None) | None \<Rightarrow> None) of
           Some at \<Rightarrow>
             (if at + 1 = length img then (take at img, ''latest'')
              else (take at img, drop (at + 1) img))
         | None \<Rightarrow>
             (case (case rfind_char (CHR '':'') img of
                      Some colon \<Rightarrow> (if after_slash colon then Some colon else None)
                    | None \<Rightarrow> None) of
                Some colon \<Rightarrow>
                  (if colon + 1 = length img then (take colon img, ''latest'')
                   else (take colon img, drop (colon + 1) img))
              | None \<Rightarrow> (img, ''latest'')))"

definition join_image :: "string \<Rightarrow> string \<Rightarrow> string" where
  "join_image name tag =
     (if find_char (CHR '':'') tag \<noteq> None then name @ ''@'' @ tag else name @ '':'' @ tag)"

definition apply_hub_image_prefix :: "string \<Rightarrow> string \<Rightarrow> string" where
  "apply_hub_image_prefix img pre =
     (if pre = [] then img
      else if resolve_registry img \<noteq> kDockerHub then img
      else if starts_with pre img then img
      else if last pre = CHR ''/'' then pre @ img
      else pre @ ''/'' @ img)"

definition substitute_image_name ::
  "environ \<Rightarrow> files \<Rightarrow> string \<Rightarrow> prop_cache \<Rightarrow> string \<times> prop_cache" where
  "substitute_image_name env fs img cache =
     (let (pre, cache') =
            config_value env fs ''TESTCONTAINERS_HUB_IMAGE_NAME_PREFIX'' ''hub.image.name.prefix'' cache
      in (apply_hub_image_prefix img (case pre of None \<Rightarrow> [] | Some p \<Rightarrow> p), cache'))"

subsection \<open>Credentials in config.json\<close>

record RegistryAuth =
  ra_username :: string
  ra_password :: string
  ra_server :: string
  ra_identity_token :: string

definition no_auth :: RegistryAuth where
  "no_auth = \<lparr>ra_username = [], ra_password = [], ra_server = [], ra_identity_token = []\<rparr>"

definition parse_json_object :: "jsonlib \<Rightarrow> string \<Rightarrow> json option" where
  "parse_json_object L text =
     (case jl_parse L text of Inl _ \<Rightarrow> None | Inr root \<Rightarrow> (if is_object root then Some root else None))"

text \<open>The entry of a registry, with the legacy alias key of Docker Hub.\<close>

definition registry_entry :: "json \<Rightarrow> string \<Rightarrow> json option" where
  "registry_entry m registry =
     (case jfind registry m of
        Some e \<Rightarrow> Some e
      | None \<Rightarrow> (if registry = kDockerHub then jfind kDockerHubAuthKey m else None))"

definition auth_from_entry :: "json \<Rightarrow> string \<Rightarrow> RegistryAuth option" where
  "auth_from_entry entry registry =
     (let a0 = no_auth\<lparr>ra_server := registry\<rparr>;
          a1 = (case jfind_str ''identitytoken'' entry of
                  Some t \<Rightarrow> a0\<lparr>ra_identity_token := t\<rparr> | None \<Rightarrow> a0);
          a2 = (case jfind_str ''auth'' entry of
                  Some encoded \<Rightarrow>
                    (case split_first (CHR '':'') (base64_decode encoded) of
                       Some (u, p) \<Rightarrow> a1\<lparr>ra_username := u, ra_password := p\<rparr>
                     | None \<Rightarrow> a1)
                | None \<Rightarrow> a1);
          a3 = (case jfind_str ''username'' entry of Some u \<Rightarrow> a2\<lparr>ra_username := u\<rparr> | None \<Rightarrow> a2);
          a4 = (case jfind_str ''password'' entry of Some p \<Rightarrow> a3\<lparr>ra_password := p\<rparr> | None \<Rightarrow> a3)
      in if ra_identity_token a4 = [] \<and> ra_username a4 = [] \<and> ra_password a4 = [] then None
         else Some a4)"

definition auth_from_docker_config :: "jsonlib \<Rightarrow> string \<Rightarrow> string \<Rightarrow> RegistryAuth option" where
  "auth_from_docker_config L config_json registry =
     (case parse_json_object L config_json of
        None \<Rightarrow> None
      | Some root \<Rightarrow>
          (case jfind_obj ''auths'' root of
             None \<Rightarrow> None
           | Some auths \<Rightarrow>
               (case registry_entry auths registry of
                  None \<Rightarrow> None
                | Some entry \<Rightarrow> (if is_object entry then auth_from_entry entry registry else None))))"

definition nonempty_str :: "json option \<Rightarrow> string option" where
  "nonempty_str v =
     (case v of None \<Rightarrow> None
      | Some j \<Rightarrow> (case str_of j of Some s \<Rightarrow> (if s \<noteq> [] then Some s else None) | None \<Rightarrow> None))"

definition select_credential_helper :: "jsonlib \<Rightarrow> string \<Rightarrow> string \<Rightarrow> string option" where
  "select_credential_helper L config_json registry =
     (case parse_json_object L config_json of
        None \<Rightarrow> None
      | Some root \<Rightarrow>
          (case (case jfind_obj ''credHelpers'' root of
                   None \<Rightarrow> None | Some helpers \<Rightarrow> nonempty_str (registry_entry helpers registry)) of
             Some h \<Rightarrow> Some h
           | None \<Rightarrow> nonempty_str (jfind ''credsStore'' root)))"

definition parse_credential_helper_output :: "jsonlib \<Rightarrow> string \<Rightarrow> string \<Rightarrow> RegistryAuth option" where
  "parse_credential_helper_output L helper_json registry =
     (case parse_json_object L helper_json of
        None \<Rightarrow> None
      | Some root \<Rightarrow>
          (let or_empty = (\<lambda>x. case x of None \<Rightarrow> [] | Some s \<Rightarrow> s);
               username = or_empty (jfind_str ''Username'' root);
               secret = or_empty (jfind_str ''Secret'' root);
               server_url = or_empty (jfind_str ''ServerURL'' root)
           in if username = [] \<and> secret = [] then None
              else
                let auth = no_auth\<lparr>ra_server := (if server_url = [] then registry else server_url)\<rparr>
                in if username = ''<token>'' then Some (auth\<lparr>ra_identity_token := secret\<rparr>)
                   else Some (auth\<lparr>ra_username := username, ra_password := secret\<rparr>)))"

subsection \<open>Credential helpers and their cache\<close>

text \<open>\<open>run_process\<close>: the argument vector and the stdin text, to an exit code and the output.\<close>

type_synonym 'w helper_process = "string list \<Rightarrow> string \<Rightarrow> 'w \<Rightarrow> (int \<times> string) res \<times> 'w"

definition auth_from_credential_helper ::
  "jsonlib \<Rightarrow> 'w helper_process \<Rightarrow> string \<Rightarrow> string \<Rightarrow> 'w \<Rightarrow> RegistryAuth option \<times> 'w" where
  "auth_from_credential_helper L run helper registry w =
     (let server_url = (if registry = kDockerHub then kDockerHubAuthKey else registry);
          (result, w') = run [''docker-credential-'' @ helper, ''get''] server_url w
      in case result of
           Inl e \<Rightarrow> (None, w')
         | Inr (exit_code, output) \<Rightarrow>
             (if exit_code \<noteq> 0 then (None, w')
              else (parse_credential_helper_output L output registry, w')))"

record CredentialCacheEntry =
  ce_auth :: "RegistryAuth option"
  ce_fetched_at :: int

type_synonym CredentialCache = "string \<times> string \<rightharpoonup> CredentialCacheEntry"

text \<open>\<open>now\<close> reads the steady clock off the world; it is read again after \<open>fetch\<close> has run.\<close>

definition auth_from_credential_helper_cached ::
  "clock \<Rightarrow> ('w \<Rightarrow> int) \<Rightarrow> string \<Rightarrow> string \<Rightarrow> ('w \<Rightarrow> RegistryAuth option \<times> 'w) \<Rightarrow> int \<Rightarrow>
    CredentialCache \<Rightarrow> 'w \<Rightarrow> RegistryAuth option \<times> CredentialCache \<times> 'w" where
  "auth_from_credential_helper_cached clk now helper registry fetch ttl cache w =
     (let key = (helper, registry);
          miss = (let (auth, w') = fetch w in
                  (auth, cache(key \<mapsto> \<lparr>ce_auth = auth, ce_fetched_at = now w'\<rparr>), w'))
      in case cache key of
           Some it \<Rightarrow>
             (if now w - ce_fetched_at it < ttl * ticks_per_ms clk then (ce_auth it, cache, w) else miss)
         | None \<Rightarrow> miss)"

definition clear_credential_helper_cache :: "CredentialCache \<Rightarrow> CredentialCache" where
  "clear_credential_helper_cache cache = Map.empty"

definition kCredentialHelperCacheTtl :: int where
  "kCredentialHelperCacheTtl = 5 * 60 * 1000"

definition read_docker_auth_config :: "environ \<Rightarrow> files \<Rightarrow> string" where
  "read_docker_auth_config env fs =
     (case env_nonempty env ''DOCKER_AUTH_CONFIG'' of
        Some inline_cfg \<Rightarrow> inline_cfg
      | None \<Rightarrow>
          (case env_nonempty env ''DOCKER_CONFIG'' of
             Some cfg_dir \<Rightarrow>
               (let contents = fs (cfg_dir @ ''/config.json'')
                in if contents = [] then ''{}'' else contents)
           | None \<Rightarrow>
               (let home = home_dir env in
                if home \<noteq> [] \<and> fs (home @ ''/.docker/config.json'') \<noteq> []
                then fs (home @ ''/.docker/config.json'') else ''{}'')))"

definition x_registry_auth_json :: "RegistryAuth \<Rightarrow> json" where
  "x_registry_auth_json auth =
     (let j = (if ra_identity_token auth \<noteq> [] then
                 json_set ''identitytoken'' (JStr (ra_identity_token auth)) (JObj [])
               else
                 json_set ''password'' (JStr (ra_password auth))
                   (json_set ''username'' (JStr (ra_username auth)) (JObj [])))
      in json_set ''serveraddress'' (JStr (ra_server auth)) j)"

definition encode_x_registry_auth :: "jsonlib \<Rightarrow> RegistryAuth \<Rightarrow> string" where
  "encode_x_registry_auth L auth = base64_encode (jl_dump L (x_registry_auth_json auth))"

definition resolve_auth_for_image ::
  "jsonlib \<Rightarrow> environ \<Rightarrow> files \<Rightarrow> clock \<Rightarrow> ('w \<Rightarrow> int) \<Rightarrow> 'w helper_process \<Rightarrow> string \<Rightarrow>
    CredentialCache \<Rightarrow> 'w \<Rightarrow> RegistryAuth option \<times> CredentialCache \<times> 'w" where
  "resolve_auth_for_image L env fs clk now run img cache w =
     (let registry = resolve_registry img;
          config = read_docker_auth_config env fs
      in case auth_from_docker_config L config registry of
           Some plain \<Rightarrow> (Some plain, cache, w)
         | None \<Rightarrow>
             (case select_credential_helper L config registry of
                Some helper \<Rightarrow>
                  auth_from_credential_helper_cached clk now helper registry
                    (auth_from_credential_helper L run helper registry)
                    kCredentialHelperCacheTtl cache w
              | None \<Rightarrow> (None, cache, w)))"

subsection \<open>Lemmas\<close>

lemma resolve_registry_hub: "CHR ''/'' \<notin> set img \<Longrightarrow> resolve_registry img = kDockerHub"
  by (simp add: resolve_registry_def)

lemma resolve_registry_host:
  "CHR ''/'' \<notin> set h \<Longrightarrow> CHR ''.'' \<in> set h \<or> CHR '':'' \<in> set h \<or> h = ''localhost'' \<Longrightarrow>
     resolve_registry (h @ CHR ''/'' # rest) = h"
  by (auto simp: resolve_registry_def find_char_None)

lemma resolve_registry_namespace:
  "CHR ''/'' \<notin> set h \<Longrightarrow> CHR ''.'' \<notin> set h \<Longrightarrow> CHR '':'' \<notin> set h \<Longrightarrow> h \<noteq> ''localhost'' \<Longrightarrow>
     resolve_registry (h @ CHR ''/'' # rest) = kDockerHub"
  by (simp add: resolve_registry_def)

text \<open>The three shapes of a reference, by what follows the last slash.\<close>

lemma rfind_slash_before:
  "CHR ''/'' \<notin> set t \<Longrightarrow> c \<noteq> CHR ''/'' \<Longrightarrow>
     case rfind_char (CHR ''/'') (n @ c # t) of None \<Rightarrow> True | Some s \<Rightarrow> s < length n"
proof (cases "CHR ''/'' \<in> set n")
  case True
  assume t: "CHR ''/'' \<notin> set t" "c \<noteq> CHR ''/''"
  obtain a b where n: "n = a @ CHR ''/'' # b" "CHR ''/'' \<notin> set b"
    using split_list_last [OF True] by blast
  have "rfind_char (CHR ''/'') (a @ CHR ''/'' # (b @ c # t)) = Some (length a)"
    using t n(2) by (intro rfind_char_last) auto
  with n show ?thesis by simp
next
  case False
  assume "CHR ''/'' \<notin> set t" "c \<noteq> CHR ''/''"
  with False show ?thesis by simp
qed

lemma split_image_tag:
  assumes "CHR ''/'' \<notin> set tag" "CHR '':'' \<notin> set tag" "CHR ''@'' \<notin> set tag" "tag \<noteq> []"
    and "CHR ''@'' \<notin> set name"
  shows "split_image (name @ CHR '':'' # tag) = (name, tag)"
  using assms rfind_slash_before [of tag "CHR '':''" name]
  by (auto simp: split_image_def Let_def split: option.splits)

lemma split_image_digest:
  assumes "CHR ''/'' \<notin> set digest" "CHR ''@'' \<notin> set digest" "digest \<noteq> []"
  shows "split_image (name @ CHR ''@'' # digest) = (name, digest)"
  using assms rfind_slash_before [of digest "CHR ''@''" name]
  by (auto simp: split_image_def Let_def split: option.splits)

lemma split_image_bare:
  assumes "CHR '':'' \<notin> set img" "CHR ''@'' \<notin> set img"
  shows "split_image img = (img, ''latest'')"
  using assms by (simp add: split_image_def)

lemma apply_hub_image_prefix_idem:
  "apply_hub_image_prefix (apply_hub_image_prefix img pre) pre =
     apply_hub_image_prefix img pre"
  by (auto simp: apply_hub_image_prefix_def)

lemma jfind_str_set: "jfind_str k (json_set k' v j) = (if k = k' then str_of v else jfind_str k j)"
  by (simp add: jfind_str_def jfind_json_set)

text \<open>A cached outcome is served, without a fetch, for exactly the time to live.\<close>

lemma cached_hit:
  assumes "cache (helper, registry) = Some it" "now w - ce_fetched_at it < ttl * ticks_per_ms clk"
  shows "auth_from_credential_helper_cached clk now helper registry fetch ttl cache w =
    (ce_auth it, cache, w)"
  using assms by (simp add: auth_from_credential_helper_cached_def)

lemma cached_miss:
  assumes "\<And>it. cache (helper, registry) = Some it \<Longrightarrow>
      ttl * ticks_per_ms clk \<le> now w - ce_fetched_at it"
    and "fetch w = (auth, w')"
  shows "auth_from_credential_helper_cached clk now helper registry fetch ttl cache w =
    (auth, cache((helper, registry) \<mapsto> \<lparr>ce_auth = auth, ce_fetched_at = now w'\<rparr>), w')"
  using assms
  by (auto simp: auth_from_credential_helper_cached_def Let_def not_less split: option.splits)

end
