(* ===== verification/Sha256.thy ===== *)
theory Sha256
  imports TC_Prelude
begin

unbundle bit_operations_syntax

section \<open>SHA-256\<close>

text \<open>
  \<open>sha256_hex\<close> of \<open>src/docker/DockerHost.cpp\<close>, which names the directory of a docker context.
  Words are 32 bits wide and additions wrap.
\<close>

definition kSha256K :: "32 word list" where
  "kSha256K = [
    0x428A2F98, 0x71374491, 0xB5C0FBCF, 0xE9B5DBA5, 0x3956C25B, 0x59F111F1, 0x923F82A4, 0xAB1C5ED5,
    0xD807AA98, 0x12835B01, 0x243185BE, 0x550C7DC3, 0x72BE5D74, 0x80DEB1FE, 0x9BDC06A7, 0xC19BF174,
    0xE49B69C1, 0xEFBE4786, 0x0FC19DC6, 0x240CA1CC, 0x2DE92C6F, 0x4A7484AA, 0x5CB0A9DC, 0x76F988DA,
    0x983E5152, 0xA831C66D, 0xB00327C8, 0xBF597FC7, 0xC6E00BF3, 0xD5A79147, 0x06CA6351, 0x14292967,
    0x27B70A85, 0x2E1B2138, 0x4D2C6DFC, 0x53380D13, 0x650A7354, 0x766A0ABB, 0x81C2C92E, 0x92722C85,
    0xA2BFE8A1, 0xA81A664B, 0xC24B8B70, 0xC76C51A3, 0xD192E819, 0xD6990624, 0xF40E3585, 0x106AA070,
    0x19A4C116, 0x1E376C08, 0x2748774C, 0x34B0BCB5, 0x391C0CB3, 0x4ED8AA4A, 0x5B9CCA4F, 0x682E6FF3,
    0x748F82EE, 0x78A5636F, 0x84C87814, 0x8CC70208, 0x90BEFFFA, 0xA4506CEB, 0xBEF9A3F7, 0xC67178F2]"

definition sha_init :: "32 word list" where
  "sha_init = [0x6A09E667, 0xBB67AE85, 0x3C6EF372, 0xA54FF53A,
               0x510E527F, 0x9B05688C, 0x1F83D9AB, 0x5BE0CD19]"

text \<open>
  The padding: \<open>0x80\<close>, zeros up to 56 modulo 64, the bit length in eight big-endian bytes.
\<close>

definition sha_pad :: "string \<Rightarrow> string" where
  "sha_pad data =
     (let bit_len = (of_nat (length data) * 8 :: 64 word);
          m1 = data @ [CHR 0x80];
          zeros = (56 + 64 - length m1 mod 64) mod 64
      in m1 @ replicate zeros (CHR 0x00) @
         map (\<lambda>i. char_of (unat (drop_bit (i * 8) bit_len AND 0xFF))) [7, 6, 5, 4, 3, 2, 1, 0])"

definition be_word :: "string \<Rightarrow> nat \<Rightarrow> 32 word" where
  "be_word msg base =
     push_bit 24 (of_char (msg ! base)) OR push_bit 16 (of_char (msg ! (base + 1))) OR
     push_bit 8 (of_char (msg ! (base + 2))) OR of_char (msg ! (base + 3))"

text \<open>The message schedule: sixteen words of the block, then one word per turn.\<close>

definition sha_extend :: "32 word list \<Rightarrow> nat \<Rightarrow> 32 word list" where
  "sha_extend w i =
     (let a = w ! (i - 15); b = w ! (i - 2);
          s0 = word_rotr 7 a XOR word_rotr 18 a XOR drop_bit 3 a;
          s1 = word_rotr 17 b XOR word_rotr 19 b XOR drop_bit 10 b
      in w @ [w ! (i - 16) + s0 + w ! (i - 7) + s1])"

definition sha_schedule :: "string \<Rightarrow> nat \<Rightarrow> 32 word list" where
  "sha_schedule msg off =
     foldl sha_extend (map (\<lambda>i. be_word msg (off + i * 4)) [0..<16]) [16..<64]"

text \<open>One round on \<open>[a, b, c, d, e, f, g, hh]\<close>.\<close>

definition sha_round :: "32 word list \<Rightarrow> 32 word list \<Rightarrow> nat \<Rightarrow> 32 word list" where
  "sha_round w v i =
     (let a = v ! 0; b = v ! 1; c = v ! 2; d = v ! 3;
          e = v ! 4; f = v ! 5; g = v ! 6; hh = v ! 7;
          s1 = word_rotr 6 e XOR word_rotr 11 e XOR word_rotr 25 e;
          ch = (e AND f) XOR (NOT e AND g);
          t1 = hh + s1 + ch + kSha256K ! i + w ! i;
          s0 = word_rotr 2 a XOR word_rotr 13 a XOR word_rotr 22 a;
          maj = (a AND b) XOR (a AND c) XOR (b AND c);
          t2 = s0 + maj
      in [t1 + t2, a, b, c, d + t1, e, f, g])"

definition sha_block :: "string \<Rightarrow> 32 word list \<Rightarrow> nat \<Rightarrow> 32 word list" where
  "sha_block msg h off =
     (let w = sha_schedule msg off in map2 (+) h (foldl (sha_round w) h [0..<64]))"

definition sha_hex :: "32 word list \<Rightarrow> string" where
  "sha_hex h =
     concat (map (\<lambda>x. map (\<lambda>j. hex_lower (unat (drop_bit ((7 - j) * 4) x AND 0xF))) [0..<8]) h)"

definition sha256_hex :: "string \<Rightarrow> string" where
  "sha256_hex data =
     (let msg = sha_pad data in
      sha_hex (foldl (sha_block msg) sha_init (map (\<lambda>k. k * 64) [0..<length msg div 64])))"

lemma length_sha_pad: "64 dvd length (sha_pad data)"
proof -
  let ?m = "length data + 1"
  define r q where "r = ?m mod 64" and "q = ?m div 64"
  have m: "?m = 64 * q + r" and r: "r < 64" by (simp_all add: r_def q_def)
  have "(?m + (120 - r) mod 64 + 8) mod 64 = (?m + (120 - r) + 8) mod 64"
    by (metis (no_types, lifting) mod_add_left_eq mod_add_right_eq)
  also have "?m + (120 - r) + 8 = 64 * q + 128" using m r by linarith
  also have "(64 * q + 128) mod 64 = 0" by presburger
  finally have "64 dvd ?m + (120 - r) mod 64 + 8" by (simp only: dvd_eq_mod_eq_0)
  moreover have "length (sha_pad data) = ?m + (120 - r) mod 64 + 8"
    by (simp add: sha_pad_def Let_def r_def)
  ultimately show ?thesis by (simp only:)
qed

lemma length_sha_round [simp]: "length (sha_round w v i) = 8"
  by (simp add: sha_round_def Let_def)

lemma length_sha_rounds: "length v = 8 \<Longrightarrow> length (foldl (sha_round w) v is) = 8"
  by (induction "is" arbitrary: v) simp_all

lemma length_sha_block: "length h = 8 \<Longrightarrow> length (sha_block msg h off) = 8"
  by (simp add: sha_block_def length_sha_rounds)

lemma length_sha_blocks: "length h = 8 \<Longrightarrow> length (foldl (sha_block msg) h offs) = 8"
  by (induction offs arbitrary: h) (simp_all add: length_sha_block)

lemma length_sha_hex: "length (sha_hex h) = 8 * length h"
  by (induction h) (simp_all add: sha_hex_def)

lemma length_sha256_hex: "length (sha256_hex data) = 64"
proof -
  have "length sha_init = 8" by (simp add: sha_init_def)
  then show ?thesis by (simp add: sha256_hex_def Let_def length_sha_hex length_sha_blocks)
qed

lemma sha_extend_length [simp]: "length (sha_extend w i) = Suc (length w)"
  by (simp add: sha_extend_def Let_def)

lemma sha_schedule_length: "length (sha_schedule msg off) = 64"
proof -
  have "length (foldl sha_extend w is) = length w + length is" for w "is"
    by (induction "is" arbitrary: w) simp_all
  then show ?thesis by (simp add: sha_schedule_def)
qed

end
