(* ===== verification/Endpoint.thy ===== *)
theory Endpoint
  imports Json Text_Config Sha256
begin

section \<open>The daemon endpoint\<close>

text \<open>
  \<open>src/docker/DockerHost.cpp\<close> (parsing of a host URL, the TLS upgrade, docker contexts, the
  resolution order), the TLS file helpers of \<open>src/docker/Transport.cpp\<close> and
  \<open>src/HostAddress.cpp\<close>.  The environment, the contents and the existence of files are
  functions; the properties cache is threaded through.
\<close>

subsection \<open>Parsing a host URL\<close>

datatype DockerScheme = Unix | NamedPipe | Tcp | Https

record TlsMaterials =
  tm_ca_cert :: string
  tm_client_cert :: string
  tm_client_key :: string
  tm_verify :: bool

record DockerHost =
  dh_scheme :: DockerScheme
  dh_url :: string
  dh_path :: string
  dh_hostname :: string
  dh_port :: nat
  dh_tls_materials :: "TlsMaterials option"

definition split_host_port :: "string \<Rightarrow> string \<times> string" where
  "split_host_port rest =
     (if rest \<noteq> [] \<and> hd rest = CHR ''['' then
        (case find_char (CHR '']'') rest of
           None \<Rightarrow> (drop 1 rest, [])
         | Some close \<Rightarrow>
             (take (close - 1) (drop 1 rest),
              (if close + 1 < length rest \<and> rest ! (close + 1) = CHR '':'' then drop (close + 2) rest
               else [])))
      else case rfind_char (CHR '':'') rest of
             Some colon \<Rightarrow> (take colon rest, drop (colon + 1) rest)
           | None \<Rightarrow> (rest, []))"

definition parse_host_port :: "string \<Rightarrow> nat \<Rightarrow> (string \<times> nat) res" where
  "parse_host_port rest0 default_port =
     (let rest = (case find_char (CHR ''/'') rest0 of Some slash \<Rightarrow> take slash rest0 | None \<Rightarrow> rest0);
          (host, port_str) = split_host_port rest
      in if port_str = [] then Inr (host, default_port)
         else case parse_dec (2 ^ 32 - 1) port_str of
                Some parsed \<Rightarrow>
                  (if parsed < 1 \<or> 65535 < parsed
                   then Inl (DockerError (''Invalid port in Docker host: '' @ port_str) None [])
                   else Inr (host, parsed))
              | None \<Rightarrow> Inl (DockerError (''Invalid port in Docker host: '' @ port_str) None []))"

definition split_scheme :: "string \<Rightarrow> string \<times> string" where
  "split_scheme url =
     (case find_str ''://'' url of
        Some sep \<Rightarrow> (to_lower (take sep url), drop (sep + 3) url)
      | None \<Rightarrow>
          (if url \<noteq> [] \<and> (hd url = CHR ''/'' \<or> hd url = CHR 0x5C) then (''unix'', url)
           else (''tcp'', url)))"

definition docker_host :: "DockerScheme \<Rightarrow> string \<Rightarrow> string \<Rightarrow> string \<Rightarrow> nat \<Rightarrow> DockerHost" where
  "docker_host scheme url path hostname port =
     \<lparr>dh_scheme = scheme, dh_url = url, dh_path = path, dh_hostname = hostname, dh_port = port,
      dh_tls_materials = None\<rparr>"

definition parse_docker_host :: "string \<Rightarrow> DockerHost res" where
  "parse_docker_host url =
     (let (scheme, rest) = split_scheme url in
      if scheme = ''unix'' then Inr (docker_host Unix url rest [] 0)
      else if scheme = ''npipe'' then Inr (docker_host NamedPipe url rest [] 0)
      else if scheme = ''https'' then
        try_bind (parse_host_port rest 2376) (\<lambda>(h, p). Inr (docker_host Https url [] h p))
      else if scheme = ''tcp'' \<or> scheme = ''http'' then
        try_bind (parse_host_port rest 2375) (\<lambda>(h, p). Inr (docker_host Tcp url [] h p))
      else Inl (DockerError (''Unsupported Docker host scheme: '' @ [CHR 0x27] @ scheme @ [CHR 0x27] @
                             '' in '' @ url) None []))"

definition http_host :: "DockerHost \<Rightarrow> string" where
  "http_host h =
     (case dh_scheme h of
        Unix \<Rightarrow> ''localhost''
      | NamedPipe \<Rightarrow> ''localhost''
      | _ \<Rightarrow> (if dh_hostname h = [] then ''localhost'' else dh_hostname h))"

subsection \<open>TLS\<close>

definition docker_tls_verify :: "environ \<Rightarrow> files \<Rightarrow> prop_cache \<Rightarrow> bool \<times> prop_cache" where
  "docker_tls_verify env fs cache =
     (case env_nonempty env ''DOCKER_TLS_VERIFY'' of
        Some v \<Rightarrow> (env_truthy env ''DOCKER_TLS_VERIFY'', cache)
      | None \<Rightarrow>
          (let (prop, cache') = user_property env fs ''docker.tls.verify'' cache in
           ((case prop of None \<Rightarrow> False | Some p \<Rightarrow> p = ''1'' \<or> to_lower p = ''true''), cache')))"

text \<open>\<open>std::filesystem::path::operator/\<close> with a relative right-hand side.\<close>

definition path_join :: "string \<Rightarrow> string \<Rightarrow> string" where
  "path_join a b = (if a = [] \<or> last a = CHR ''/'' then a @ b else a @ ''/'' @ b)"

record TlsFiles =
  tf_ca_cert :: string
  tf_client_cert :: string
  tf_client_key :: string

definition resolve_tls_files :: "string \<Rightarrow> TlsFiles" where
  "resolve_tls_files cert_dir =
     (if cert_dir = [] then \<lparr>tf_ca_cert = [], tf_client_cert = [], tf_client_key = []\<rparr>
      else \<lparr>tf_ca_cert = path_join cert_dir ''ca.pem'',
            tf_client_cert = path_join cert_dir ''cert.pem'',
            tf_client_key = path_join cert_dir ''key.pem''\<rparr>)"

definition docker_cert_path :: "environ \<Rightarrow> files \<Rightarrow> prop_cache \<Rightarrow> string \<times> prop_cache" where
  "docker_cert_path env fs cache =
     (case env_nonempty env ''DOCKER_CERT_PATH'' of
        Some path \<Rightarrow> (path, cache)
      | None \<Rightarrow>
          (let (prop, cache1) = user_property env fs ''docker.cert.path'' cache in
           case prop of
             Some p \<Rightarrow> (p, cache1)
           | None \<Rightarrow>
               (let (verify, cache2) = docker_tls_verify env fs cache1;
                    home = home_dir env
                in if verify \<and> home \<noteq> [] then (path_join home ''.docker'', cache2) else ([], cache2))))"

record TlsPlan =
  tp_ca_cert :: string
  tp_client_cert :: string
  tp_client_key :: string
  tp_verify :: bool

definition tls_plan ::
  "environ \<Rightarrow> files \<Rightarrow> TlsMaterials option \<Rightarrow> prop_cache \<Rightarrow> TlsPlan \<times> prop_cache" where
  "tls_plan env fs materials cache =
     (case materials of
        Some m \<Rightarrow>
          (\<lparr>tp_ca_cert = tm_ca_cert m, tp_client_cert = tm_client_cert m,
            tp_client_key = tm_client_key m, tp_verify = tm_verify m\<rparr>, cache)
      | None \<Rightarrow>
          (let (dir, cache1) = docker_cert_path env fs cache;
               f = resolve_tls_files dir;
               (verify, cache2) = docker_tls_verify env fs cache1
           in (\<lparr>tp_ca_cert = tf_ca_cert f, tp_client_cert = tf_client_cert f,
                tp_client_key = tf_client_key f, tp_verify = verify\<rparr>, cache2)))"

definition https_spelling :: "string \<Rightarrow> string" where
  "https_spelling url =
     (case find_str ''://'' url of
        Some sep \<Rightarrow>
          (let scheme = to_lower (take sep url) in
           if scheme = ''tcp'' \<or> scheme = ''http'' then ''https://'' @ drop (sep + 3) url else url)
      | None \<Rightarrow>
          (if url \<noteq> [] \<and> hd url \<noteq> CHR ''/'' \<and> hd url \<noteq> CHR 0x5C then ''https://'' @ url else url))"

definition upgrade_tcp_when_tls_verify ::
  "environ \<Rightarrow> files \<Rightarrow> DockerHost \<Rightarrow> prop_cache \<Rightarrow> DockerHost res \<times> prop_cache" where
  "upgrade_tcp_when_tls_verify env fs host cache =
     (if dh_scheme host \<noteq> Tcp then (Inr host, cache)
      else
        let (verify, cache') = docker_tls_verify env fs cache in
        if \<not> verify then (Inr host, cache')
        else (parse_docker_host (https_spelling (dh_url host)), cache'))"

subsection \<open>Docker contexts and the resolution order\<close>

definition current_context_from_config :: "jsonlib \<Rightarrow> string \<Rightarrow> string option" where
  "current_context_from_config L config_json =
     (case jl_parse L config_json of
        Inl _ \<Rightarrow> None
      | Inr root \<Rightarrow> (if is_object root then jfind_str ''currentContext'' root else None))"

record ContextEndpoint =
  ep_host :: string
  ep_skip_tls_verify :: bool

definition endpoint_from_context_meta :: "jsonlib \<Rightarrow> string \<Rightarrow> ContextEndpoint option" where
  "endpoint_from_context_meta L meta_json =
     (case jl_parse L meta_json of
        Inl _ \<Rightarrow> None
      | Inr root \<Rightarrow>
          (case jfind_obj ''Endpoints'' root of
             None \<Rightarrow> None
           | Some endpoints \<Rightarrow>
               (case jfind_obj ''docker'' endpoints of
                  None \<Rightarrow> None
                | Some ep \<Rightarrow>
                    (let host = (case jfind_str ''Host'' ep of Some h \<Rightarrow> h | None \<Rightarrow> []) in
                     if host = [] then None
                     else Some \<lparr>ep_host = host,
                       ep_skip_tls_verify =
                         (case jfind ''SkipTLSVerify'' ep of Some (JBool b) \<Rightarrow> b | _ \<Rightarrow> False)\<rparr>))))"

definition resolve_from_properties ::
  "environ \<Rightarrow> files \<Rightarrow> prop_cache \<Rightarrow> DockerHost option \<times> prop_cache" where
  "resolve_from_properties env fs cache =
     (let (host, cache') = user_property env fs ''docker.host'' cache in
      case host of
        None \<Rightarrow> (None, cache')
      | Some h \<Rightarrow> ((case parse_docker_host h of Inr d \<Rightarrow> Some d | Inl _ \<Rightarrow> None), cache'))"

definition context_name :: "jsonlib \<Rightarrow> environ \<Rightarrow> files \<Rightarrow> string" where
  "context_name L env fs =
     (case env_nonempty env ''DOCKER_CONTEXT'' of
        Some c \<Rightarrow> c
      | None \<Rightarrow>
          (let home = home_dir env;
               config = fs (home @ ''/.docker/config.json'')
           in if home = [] \<or> config = [] then []
              else case current_context_from_config L config of Some c \<Rightarrow> c | None \<Rightarrow> []))"

definition context_materials :: "(string \<Rightarrow> bool) \<Rightarrow> string \<Rightarrow> TlsMaterials" where
  "context_materials exists_file tls_dir =
     (let probe = (\<lambda>name. if exists_file (path_join tls_dir name) then path_join tls_dir name else [])
      in \<lparr>tm_ca_cert = probe ''ca.pem'', tm_client_cert = probe ''cert.pem'',
          tm_client_key = probe ''key.pem'', tm_verify = False\<rparr>)"

text \<open>The host, with the materials \<open>resolve()\<close> attaches to it.\<close>

definition resolve_from_context ::
  "jsonlib \<Rightarrow> environ \<Rightarrow> files \<Rightarrow> (string \<Rightarrow> bool) \<Rightarrow> DockerHost option" where
  "resolve_from_context L env fs exists_file =
     (let home = home_dir env; context = context_name L env fs in
      if context = [] \<or> context = ''default'' then None
      else if home = [] then None
      else
        let sha = sha256_hex context;
            meta = fs (home @ ''/.docker/contexts/meta/'' @ sha @ ''/meta.json'')
        in if meta = [] then None
           else case endpoint_from_context_meta L meta of
                  None \<Rightarrow> None
                | Some endpoint \<Rightarrow>
                    (let tls_dir = path_join (path_join (path_join (path_join (path_join home ''.docker'')
                                     ''contexts'') ''tls'') sha) ''docker'';
                         m0 = context_materials exists_file tls_dir;
                         any_materials = (tm_ca_cert m0 \<noteq> [] \<or> tm_client_cert m0 \<noteq> [] \<or>
                                          tm_client_key m0 \<noteq> []);
                         url = (if any_materials then https_spelling (ep_host endpoint)
                                else ep_host endpoint);
                         m = m0\<lparr>tm_verify := (any_materials \<and> tm_ca_cert m0 \<noteq> [] \<and>
                                               \<not> ep_skip_tls_verify endpoint)\<rparr>
                     in case parse_docker_host url of
                          Inl _ \<Rightarrow> None
                        | Inr h \<Rightarrow>
                            Some (h\<lparr>dh_tls_materials :=
                              (if any_materials \<and> dh_scheme h = Https then Some m else None)\<rparr>)))"

definition default_socket :: "bool \<Rightarrow> environ \<Rightarrow> (string \<Rightarrow> bool) \<Rightarrow> string" where
  "default_socket windows env exists_file =
     (if windows then ''npipe:////./pipe/docker_engine''
      else
        case (case env_nonempty env ''XDG_RUNTIME_DIR'' of
                Some xdg \<Rightarrow>
                  (if exists_file (xdg @ ''/docker.sock'') then Some (xdg @ ''/docker.sock'') else None)
              | None \<Rightarrow> None) of
          Some sock \<Rightarrow> ''unix://'' @ sock
        | None \<Rightarrow>
            (let home = home_dir env; sock = home @ ''/.docker/run/docker.sock'' in
             if home \<noteq> [] \<and> exists_file sock then ''unix://'' @ sock
             else ''unix:///var/run/docker.sock''))"

definition resolve_docker_host ::
  "jsonlib \<Rightarrow> bool \<Rightarrow> environ \<Rightarrow> files \<Rightarrow> (string \<Rightarrow> bool) \<Rightarrow> prop_cache \<Rightarrow>
    DockerHost res \<times> prop_cache" where
  "resolve_docker_host L windows env fs exists_file cache =
     (case env_nonempty env ''DOCKER_HOST'' of
        Some url \<Rightarrow>
          (case parse_docker_host url of
             Inl e \<Rightarrow> (Inl e, cache)
           | Inr h \<Rightarrow> upgrade_tcp_when_tls_verify env fs h cache)
      | None \<Rightarrow>
          (let (from_props, cache1) = resolve_from_properties env fs cache in
           case from_props of
             Some h \<Rightarrow> upgrade_tcp_when_tls_verify env fs h cache1
           | None \<Rightarrow>
               (case resolve_from_context L env fs exists_file of
                  Some h \<Rightarrow> (Inr h, cache1)
                | None \<Rightarrow> (parse_docker_host (default_socket windows env exists_file), cache1))))"

subsection \<open>HostAddress.cpp\<close>

definition is_blank :: "char \<Rightarrow> bool" where
  "is_blank c \<longleftrightarrow> c = CHR '' '' \<or> c = CHR 0x09"

function split_columns :: "string \<Rightarrow> string list" where
  "split_columns line =
     (let l = dropWhile is_blank line in
      if l = [] then []
      else takeWhile (\<lambda>c. \<not> is_blank c) l # split_columns (dropWhile (\<lambda>c. \<not> is_blank c) l))"
  by pat_completeness auto
termination
proof (relation "measure length")
  fix line l
  assume l: "l = dropWhile is_blank line" "l \<noteq> []"
  then have "\<not> is_blank (hd l)" by (metis hd_dropWhile)
  with l(2) have "length (dropWhile (\<lambda>c. \<not> is_blank c) l) < length l"
    by (cases l) (auto simp: le_imp_less_Suc length_dropWhile_le)
  also have "length l \<le> length line" by (simp add: l(1) length_dropWhile_le)
  finally show "(dropWhile (\<lambda>c. \<not> is_blank c) l, line) \<in> measure length" by simp
qed simp

declare split_columns.simps [simp del]

text \<open>\<open>std::from_chars\<close> in base 16 with the full-match check, on an unsigned type.\<close>

fun hex_number :: "nat \<Rightarrow> string \<Rightarrow> nat option" where
  "hex_number v [] = Some v"
| "hex_number v (c # cs) = (case hex_val c of None \<Rightarrow> None | Some d \<Rightarrow> hex_number (16 * v + d) cs)"

definition parse_hex :: "nat \<Rightarrow> string \<Rightarrow> nat option" where
  "parse_hex mx s =
     (if s = [] then None
      else case hex_number 0 s of None \<Rightarrow> None | Some v \<Rightarrow> (if v \<le> mx then Some v else None))"

definition dotted_quad :: "nat \<Rightarrow> string" where
  "dotted_quad g =
     to_dec (g mod 256) @ ''.'' @ to_dec (g div 256 mod 256) @ ''.'' @
     to_dec (g div 65536 mod 256) @ ''.'' @ to_dec (g div 16777216 mod 256)"

definition route_gateway :: "string \<Rightarrow> string option" where
  "route_gateway line =
     (let columns = split_columns line in
      if length columns < 8 \<or> columns ! 1 \<noteq> ''00000000'' \<or> columns ! 7 \<noteq> ''00000000'' then None
      else case parse_hex (2 ^ 32 - 1) (columns ! 2) of
             None \<Rightarrow> None
           | Some g \<Rightarrow> (if g = 0 then None else Some (dotted_quad g)))"

fun first_some :: "('a \<Rightarrow> 'b option) \<Rightarrow> 'a list \<Rightarrow> 'b option" where
  "first_some f [] = None"
| "first_some f (x # xs) = (case f x of Some y \<Rightarrow> Some y | None \<Rightarrow> first_some f xs)"

text \<open>The header row is skipped; every other line is tried in turn.\<close>

definition parse_default_gateway :: "string \<Rightarrow> string option" where
  "parse_default_gateway route_table =
     first_some route_gateway (tl (split_all (CHR 0x0A) route_table))"

definition resolved_host_address ::
  "environ \<Rightarrow> files \<Rightarrow> (string \<Rightarrow> bool) \<Rightarrow> DockerHost \<Rightarrow> prop_cache \<Rightarrow> string \<times> prop_cache" where
  "resolved_host_address env fs exists_file host cache =
     (let (override, cache') =
            config_value env fs ''TESTCONTAINERS_HOST_OVERRIDE'' ''host.override'' cache
      in case override of
           Some a \<Rightarrow> (a, cache')
         | None \<Rightarrow>
             (if dh_scheme host = Tcp \<or> dh_scheme host = Https then (http_host host, cache')
              else if exists_file ''/.dockerenv'' then
                (case parse_default_gateway (fs ''/proc/net/route'') of
                   Some g \<Rightarrow> (g, cache') | None \<Rightarrow> (''localhost'', cache'))
              else (''localhost'', cache')))"

subsection \<open>Lemmas\<close>

lemma parse_host_port_range:
  "parse_host_port rest dp = Inr (h, p) \<Longrightarrow> 1 \<le> dp \<Longrightarrow> dp \<le> 65535 \<Longrightarrow> 1 \<le> p \<and> p \<le> 65535"
  by (auto simp: parse_host_port_def Let_def split: prod.splits if_splits option.splits)

lemma parse_host_port_error:
  "parse_host_port rest dp = Inl e \<Longrightarrow> is_docker_error e"
  by (auto simp: parse_host_port_def Let_def split: prod.splits if_splits option.splits)

lemma colon_not_digit [simp]: "CHR '':'' \<notin> set (to_dec n)" "CHR ''/'' \<notin> set (to_dec n)"
  by (simp_all add: not_in_to_dec is_digit_iff)

lemma split_host_port_named:
  assumes "h = [] \<or> hd h \<noteq> CHR ''[''"
  shows "split_host_port (h @ CHR '':'' # to_dec p) = (h, to_dec p)"
  using assms by (cases h) (auto simp: split_host_port_def)

lemma split_host_port_ipv6:
  assumes "CHR '']'' \<notin> set h"
  shows "split_host_port (CHR ''['' # h @ CHR '']'' # CHR '':'' # to_dec p) = (h, to_dec p)"
proof -
  have "find_char (CHR '']'') ((CHR ''['' # h) @ CHR '']'' # CHR '':'' # to_dec p) = Some (length (CHR ''['' # h))"
    using assms by (intro find_char_first) simp
  then have "find_char (CHR '']'') (CHR ''['' # h @ CHR '']'' # CHR '':'' # to_dec p) = Some (Suc (length h))"
    by simp
  then show ?thesis by (simp add: split_host_port_def nth_append del: find_char.simps)
qed

lemma parse_host_port_of:
  assumes "CHR ''/'' \<notin> set rest" "split_host_port rest = (h, to_dec p)" "1 \<le> p" "p \<le> 65535"
  shows "parse_host_port rest dp = Inr (h, p)"
  using assms by (simp add: parse_host_port_def)

lemma parse_docker_host_port:
  assumes "parse_docker_host url = Inr d" "dh_scheme d \<in> {Tcp, Https}"
  shows "1 \<le> dh_port d \<and> dh_port d \<le> 65535"
proof -
  obtain scheme rest where sp: "split_scheme url = (scheme, rest)" by fastforce
  have found: "1 \<le> dh_port d \<and> dh_port d \<le> 65535"
    if b: "try_bind (parse_host_port rest dp) (\<lambda>(h, p). Inr (docker_host sch url [] h p)) = Inr d"
      and dp: "1 \<le> dp" "dp \<le> 65535" for dp sch
  proof -
    obtain h p where "parse_host_port rest dp = Inr (h, p)" "d = docker_host sch url [] h p"
      using b by (auto simp: try_bind_Inr)
    then show ?thesis using parse_host_port_range [of rest dp h p] dp by (simp add: docker_host_def)
  qed
  show ?thesis
  proof (cases "scheme = ''unix'' \<or> scheme = ''npipe''")
    case True
    with assms sp show ?thesis by (auto simp: parse_docker_host_def docker_host_def)
  next
    case False
    with assms(1) sp show ?thesis
      using found [of 2376 Https] found [of 2375 Tcp] by (simp add: parse_docker_host_def split: if_split_asm)
  qed
qed

end
