(* ===== verification/Ports.thy ===== *)
theory Ports
  imports Text_Config "HOL-Library.List_Lexorder"
begin

section \<open>Ports and their bindings\<close>

text \<open>
  \<open>include/testcontainers/ContainerPort.hpp\<close> and \<open>src/docker/Ports.hpp\<close>.  A ports map is the
  list of its entries in key order, as \<open>std::map\<close> iterates it.
\<close>

datatype Proto = TcpProto | UdpProto | SctpProto

record ContainerPort =
  cp_port :: nat
  cp_proto :: Proto

definition proto_name :: "Proto \<Rightarrow> string" where
  "proto_name p = (case p of TcpProto \<Rightarrow> ''tcp'' | UdpProto \<Rightarrow> ''udp'' | SctpProto \<Rightarrow> ''sctp'')"

definition port_to_string :: "ContainerPort \<Rightarrow> string" where
  "port_to_string p = to_dec (cp_port p) @ ''/'' @ proto_name (cp_proto p)"

record PortBinding =
  pb_host_ip :: string
  pb_host_port :: nat

type_synonym port_map = "(string \<times> PortBinding list) list"

datatype HostPortFamily = Any | Ipv4 | Ipv6

definition is_ipv6_host_ip :: "string \<Rightarrow> bool" where
  "is_ipv6_host_ip host_ip \<longleftrightarrow> find_char (CHR '':'') host_ip \<noteq> None"

text \<open>The first binding of the list for which a test holds, its host port.\<close>

fun first_port :: "(PortBinding \<Rightarrow> bool) \<Rightarrow> PortBinding list \<Rightarrow> nat option" where
  "first_port P [] = None"
| "first_port P (b # bs) = (if P b then Some (pb_host_port b) else first_port P bs)"

definition select_host_port :: "port_map \<Rightarrow> string \<Rightarrow> HostPortFamily \<Rightarrow> nat option" where
  "select_host_port ports key family =
     (case map_of ports key of
        None \<Rightarrow> None
      | Some bindings \<Rightarrow>
          (if bindings = [] then None
           else case family of
             Any \<Rightarrow>
               (case first_port (\<lambda>b. \<not> is_ipv6_host_ip (pb_host_ip b)) bindings of
                  Some p \<Rightarrow> Some p
                | None \<Rightarrow> Some (pb_host_port (hd bindings)))
           | Ipv4 \<Rightarrow> first_port (\<lambda>b. \<not> is_ipv6_host_ip (pb_host_ip b)) bindings
           | Ipv6 \<Rightarrow> first_port (\<lambda>b. is_ipv6_host_ip (pb_host_ip b)) bindings))"

text \<open>
  \<open>std::stol\<close> with the check that everything was consumed: leading white space and a sign are
  accepted, a value outside \<open>long\<close> (64 bits) is an exception, which the caller skips.
\<close>

definition is_space :: "char \<Rightarrow> bool" where
  "is_space c \<longleftrightarrow> c = CHR '' '' \<or> (9 \<le> byte_nat c \<and> byte_nat c \<le> 13)"

definition stol_full :: "string \<Rightarrow> int option" where
  "stol_full s =
     (let t = dropWhile is_space s;
          neg = (t \<noteq> [] \<and> hd t = CHR ''-'');
          ds = (if t \<noteq> [] \<and> (hd t = CHR ''-'' \<or> hd t = CHR ''+'') then tl t else t)
      in if ds = [] \<or> \<not> list_all is_digit ds then None
         else
           let v = (if neg then - int (dec_value ds) else int (dec_value ds)) in
           if - (2 ^ 63) \<le> v \<and> v \<le> 2 ^ 63 - 1 then Some v else None)"

text \<open>The container port of a key and the host port it is published at, when it counts.\<close>

definition key_candidate :: "port_map \<Rightarrow> HostPortFamily \<Rightarrow> string \<times> PortBinding list \<Rightarrow> (int \<times> nat) option" where
  "key_candidate ports family entry =
     (let (key, bindings) = entry in
      if bindings = [] then None
      else
        let num = (case find_char (CHR ''/'') key of Some i \<Rightarrow> take i key | None \<Rightarrow> key) in
        if num = [] then None
        else case stol_full num of
               None \<Rightarrow> None
             | Some container_port \<Rightarrow>
                 (case select_host_port ports key family of
                    None \<Rightarrow> None
                  | Some host_port \<Rightarrow> Some (container_port, host_port)))"

definition keep_lower :: "(int \<times> nat) option \<Rightarrow> (int \<times> nat) option \<Rightarrow> (int \<times> nat) option" where
  "keep_lower best candidate =
     (case candidate of
        None \<Rightarrow> best
      | Some (cp, hp) \<Rightarrow>
          (case best of
             None \<Rightarrow> Some (cp, hp)
           | Some (bcp, bhp) \<Rightarrow> (if cp < bcp then Some (cp, hp) else best)))"

fun lowest_loop :: "port_map \<Rightarrow> HostPortFamily \<Rightarrow> (int \<times> nat) option \<Rightarrow> port_map \<Rightarrow> (int \<times> nat) option" where
  "lowest_loop ports family best [] = best"
| "lowest_loop ports family best (e # es) =
     lowest_loop ports family (keep_lower best (key_candidate ports family e)) es"

definition lowest_published_host_port :: "port_map \<Rightarrow> HostPortFamily \<Rightarrow> nat option" where
  "lowest_published_host_port ports family =
     map_option snd (lowest_loop ports family None ports)"

subsection \<open>Lemmas\<close>

lemma first_port_find: "first_port P bs = map_option pb_host_port (List.find P bs)"
  by (induction bs) auto

lemma first_port_None: "first_port P bs = None \<longleftrightarrow> (\<forall>b \<in> set bs. \<not> P b)"
  by (induction bs) auto

lemma slash_not_in_dec [simp]: "CHR ''/'' \<notin> set (to_dec n)"
  by (simp add: not_in_to_dec is_digit_iff)

lemma split_port_to_string:
  "split_first (CHR ''/'') (port_to_string p) = Some (to_dec (cp_port p), proto_name (cp_proto p))"
  by (simp add: port_to_string_def)

lemma port_to_string_inject: "port_to_string p = port_to_string q \<longleftrightarrow> p = (q :: ContainerPort)"
proof
  assume "port_to_string p = port_to_string q"
  then have "Some (to_dec (cp_port p), proto_name (cp_proto p)) =
      Some (to_dec (cp_port q), proto_name (cp_proto q))"
    by (metis split_port_to_string)
  then have "cp_port p = cp_port q" "cp_proto p = cp_proto q"
    by (auto dest: to_dec_inject simp: proto_name_def split: Proto.splits)
  then show "p = q" by simp
qed simp

text \<open>The loop keeps the candidate with the least container port.\<close>

lemma lowest_loop_min:
  "lowest_loop ports family best es = Some (cp, hp) \<Longrightarrow>
     (best = Some (cp, hp) \<or> (\<exists>e \<in> set es. key_candidate ports family e = Some (cp, hp))) \<and>
     (\<forall>bcp bhp. best = Some (bcp, bhp) \<longrightarrow> cp \<le> bcp) \<and>
     (\<forall>e \<in> set es. \<forall>c h. key_candidate ports family e = Some (c, h) \<longrightarrow> cp \<le> c)"
proof (induction es arbitrary: best)
  case (Cons e es)
  let ?k = "key_candidate ports family e"
  from Cons.IH [of "keep_lower best ?k"] Cons.prems have ih:
    "keep_lower best ?k = Some (cp, hp) \<or> (\<exists>e \<in> set es. key_candidate ports family e = Some (cp, hp))"
    "\<forall>bcp bhp. keep_lower best ?k = Some (bcp, bhp) \<longrightarrow> cp \<le> bcp"
    "\<forall>e \<in> set es. \<forall>c h. key_candidate ports family e = Some (c, h) \<longrightarrow> cp \<le> c" by auto
  have "keep_lower best ?k = best \<or> keep_lower best ?k = ?k"
    by (auto simp: keep_lower_def split: option.splits)
  then have 1: "best = Some (cp, hp) \<or> (\<exists>e \<in> set (e # es). key_candidate ports family e = Some (cp, hp))"
    using ih(1) by auto
  have 2: "cp \<le> bcp" if "best = Some (bcp, bhp)" for bcp bhp
    using ih(2) that by (fastforce simp: keep_lower_def split: option.splits if_splits)
  have 3: "cp \<le> c" if "?k = Some (c, h)" for c h
    using ih(2) that by (fastforce simp: keep_lower_def split: option.splits if_splits)
  from 1 2 3 ih(3) show ?case by auto
qed simp

lemma lowest_loop_None:
  "lowest_loop ports family best es = None \<longleftrightarrow>
     best = None \<and> (\<forall>e \<in> set es. key_candidate ports family e = None)"
proof (induction es arbitrary: best)
  case (Cons e es)
  then show ?case by (auto simp: keep_lower_def split: option.splits prod.splits if_splits)
qed simp

end
