(* ===== verification/ApiBuild.thy ===== *)
theory ApiBuild
  imports Json Ports Codecs
begin

section \<open>Request bodies and queries\<close>

text \<open>
  The specs of \<open>include/testcontainers/docker/ContainerSpec.hpp\<close> (with \<open>Mount.hpp\<close>,
  \<open>Healthcheck.hpp\<close>, \<open>Ulimit.hpp\<close>, \<open>Device.hpp\<close>, \<open>RestartPolicy.hpp\<close>, \<open>BuildOptions.hpp\<close>,
  \<open>ExecOptions.hpp\<close>) and the builders of \<open>src/docker/ApiMapping.cpp\<close> that turn them into the
  JSON bodies and the query strings of the Docker API.
\<close>

subsection \<open>The specs\<close>

record RestartPolicy =
  rp_name :: string
  rp_maximum_retry_count :: int

record Device =
  dv_path_on_host :: string
  dv_path_in_container :: string
  dv_cgroup_permissions :: string

record Ulimit =
  ul_name :: string
  ul_soft :: int
  ul_hard :: int

datatype MountType = Bind | Volume | Tmpfs

record Mount =
  mt_type :: MountType
  mt_source :: string
  mt_target :: string
  mt_read_only :: bool
  mt_tmpfs_size :: "int option"
  mt_tmpfs_mode :: "int option"

definition mount_bind :: "string \<Rightarrow> string \<Rightarrow> Mount" where
  "mount_bind host_source container_target =
     \<lparr>mt_type = Bind, mt_source = host_source, mt_target = container_target, mt_read_only = False,
      mt_tmpfs_size = None, mt_tmpfs_mode = None\<rparr>"

definition mount_volume :: "string \<Rightarrow> string \<Rightarrow> Mount" where
  "mount_volume volume_name container_target =
     \<lparr>mt_type = Volume, mt_source = volume_name, mt_target = container_target, mt_read_only = False,
      mt_tmpfs_size = None, mt_tmpfs_mode = None\<rparr>"

definition mount_tmpfs :: "string \<Rightarrow> Mount" where
  "mount_tmpfs container_target =
     \<lparr>mt_type = Tmpfs, mt_source = [], mt_target = container_target, mt_read_only = False,
      mt_tmpfs_size = None, mt_tmpfs_mode = None\<rparr>"

record Healthcheck =
  hc_test :: "string list"
  hc_interval :: "int option"
  hc_timeout :: "int option"
  hc_start_period :: "int option"
  hc_retries :: "int option"

record CreateContainerSpec =
  cs_image :: string
  cs_cmd :: "string list"
  cs_entrypoint :: "string list"
  cs_env :: "string list"
  cs_exposed_ports :: "string list"
  cs_published_ports :: "string list"
  cs_labels :: "(string \<times> string) list"
  cs_name :: "string option"
  cs_platform :: "string option"
  cs_network :: "string option"
  cs_network_aliases :: "string list"
  cs_static_ipv4 :: "string option"
  cs_working_dir :: "string option"
  cs_user :: "string option"
  cs_tty :: bool
  cs_publish_all_ports :: bool
  cs_privileged :: bool
  cs_auto_remove :: bool
  cs_mounts :: "Mount list"
  cs_healthcheck :: "Healthcheck option"
  cs_memory_bytes :: "int option"
  cs_shm_size_bytes :: "int option"
  cs_nano_cpus :: "int option"
  cs_cpuset_cpus :: "string option"
  cs_pids_limit :: "int option"
  cs_ulimits :: "Ulimit list"
  cs_cap_add :: "string list"
  cs_cap_drop :: "string list"
  cs_extra_hosts :: "string list"
  cs_restart_policy :: "RestartPolicy option"
  cs_dns_servers :: "string list"
  cs_dns_search :: "string list"
  cs_dns_options :: "string list"
  cs_sysctls :: "(string \<times> string) list"
  cs_devices :: "Device list"
  cs_isolation :: "string option"
  cs_create_body_patch :: string

text \<open>The spec a caller starts from: the member initializers.\<close>

definition empty_create_spec :: CreateContainerSpec where
  "empty_create_spec =
     \<lparr>cs_image = [], cs_cmd = [], cs_entrypoint = [], cs_env = [], cs_exposed_ports = [],
      cs_published_ports = [], cs_labels = [], cs_name = None, cs_platform = None,
      cs_network = None, cs_network_aliases = [], cs_static_ipv4 = None, cs_working_dir = None,
      cs_user = None, cs_tty = False, cs_publish_all_ports = False, cs_privileged = False,
      cs_auto_remove = False, cs_mounts = [], cs_healthcheck = None, cs_memory_bytes = None,
      cs_shm_size_bytes = None, cs_nano_cpus = None, cs_cpuset_cpus = None, cs_pids_limit = None,
      cs_ulimits = [], cs_cap_add = [], cs_cap_drop = [], cs_extra_hosts = [],
      cs_restart_policy = None, cs_dns_servers = [], cs_dns_search = [], cs_dns_options = [],
      cs_sysctls = [], cs_devices = [], cs_isolation = None, cs_create_body_patch = []\<rparr>"

record NetworkIpamPool =
  np_subnet :: string
  np_gateway :: string
  np_ip_range :: string
  np_aux_addresses :: "(string \<times> string) list"

record NetworkCreateSpec =
  ns_name :: string
  ns_driver :: "string option"
  ns_internal :: bool
  ns_attachable :: bool
  ns_enable_ipv6 :: bool
  ns_subnet :: "string option"
  ns_gateway :: "string option"
  ns_ipam_pools :: "NetworkIpamPool list"
  ns_options :: "(string \<times> string) list"
  ns_labels :: "(string \<times> string) list"

record VolumeCreateSpec =
  vs_name :: string
  vs_driver :: "string option"
  vs_driver_opts :: "(string \<times> string) list"
  vs_labels :: "(string \<times> string) list"

record BuildOptions =
  bo_tag :: string
  bo_dockerfile :: string
  bo_build_args :: "(string \<times> string) list"
  bo_labels :: "(string \<times> string) list"
  bo_target :: string
  bo_no_cache :: bool
  bo_pull :: bool

record TtySize =
  ts_height :: nat
  ts_width :: nat

record ExecOptions =
  eo_env :: "string list"
  eo_working_dir :: "string option"
  eo_user :: "string option"
  eo_privileged :: bool
  eo_tty :: bool
  eo_detach :: bool
  eo_stdin_data :: "string option"
  eo_console_size :: "TtySize option"

subsection \<open>Bodies\<close>

text \<open>A JSON object from pairs; a later duplicate key overwrites.\<close>

definition json_object_from :: "(string \<times> string) list \<Rightarrow> json" where
  "json_object_from pairs = foldl (\<lambda>out (key, value). json_set key (JStr value) out) (JObj []) pairs"

definition exposed_json :: "string list \<Rightarrow> json" where
  "exposed_json ports = foldl (\<lambda>out port. json_set port (JObj []) out) (JObj []) ports"

definition bindings_json :: "string list \<Rightarrow> json" where
  "bindings_json ports =
     foldl (\<lambda>out port. json_set port (JArr [json_set ''HostPort'' (JStr []) (JObj [])]) out)
       (JObj []) ports"

definition healthcheck_json :: "Healthcheck \<Rightarrow> json" where
  "healthcheck_json hc =
     (let h = json_set ''Test'' (json_strings (hc_test hc)) (JObj []);
          h = set_opt ''Interval'' JInt (hc_interval hc) h;
          h = set_opt ''Timeout'' JInt (hc_timeout hc) h;
          h = set_opt ''StartPeriod'' JInt (hc_start_period hc) h
      in set_opt ''Retries'' JInt (hc_retries hc) h)"

definition restart_policy_json :: "RestartPolicy \<Rightarrow> json" where
  "restart_policy_json p =
     json_set ''MaximumRetryCount'' (JInt (rp_maximum_retry_count p))
       (json_set ''Name'' (JStr (rp_name p)) (JObj []))"

definition device_json :: "Device \<Rightarrow> json" where
  "device_json d =
     (let e = json_set ''PathOnHost'' (JStr (dv_path_on_host d)) (JObj []);
          e = json_set ''PathInContainer'' (JStr (dv_path_in_container d)) e
      in json_set ''CgroupPermissions'' (JStr (dv_cgroup_permissions d)) e)"

definition ulimit_json :: "Ulimit \<Rightarrow> json" where
  "ulimit_json u =
     (let e = json_set ''Name'' (JStr (ul_name u)) (JObj []);
          e = json_set ''Soft'' (JInt (ul_soft u)) e
      in json_set ''Hard'' (JInt (ul_hard u)) e)"

definition mount_json :: "Mount \<Rightarrow> json" where
  "mount_json m =
     (let e = (case mt_type m of
                 Bind \<Rightarrow> json_set ''Source'' (JStr (mt_source m)) (json_set ''Type'' (JStr ''bind'') (JObj []))
               | Volume \<Rightarrow> json_set ''Source'' (JStr (mt_source m)) (json_set ''Type'' (JStr ''volume'') (JObj []))
               | Tmpfs \<Rightarrow> json_set ''Type'' (JStr ''tmpfs'') (JObj []));
          e = json_set ''Target'' (JStr (mt_target m)) e;
          e = json_set ''ReadOnly'' (JBool (mt_read_only m)) e
      in if mt_type m = Tmpfs \<and> (mt_tmpfs_size m \<noteq> None \<or> mt_tmpfs_mode m \<noteq> None) then
           (let t = set_opt ''SizeBytes'' JInt (mt_tmpfs_size m) (JObj []);
                t = set_opt ''Mode'' JInt (mt_tmpfs_mode m) t
            in json_set ''TmpfsOptions'' t e)
         else e)"

definition host_config_json :: "CreateContainerSpec \<Rightarrow> json" where
  "host_config_json spec =
     (let h = set_if (cs_publish_all_ports spec) ''PublishAllPorts'' (JBool True) (JObj []);
          h = set_list ''PortBindings'' bindings_json (cs_published_ports spec) h;
          h = set_if (cs_privileged spec) ''Privileged'' (JBool True) h;
          h = set_if (cs_auto_remove spec) ''AutoRemove'' (JBool True) h;
          h = set_opt ''NetworkMode'' JStr (cs_network spec) h;
          h = set_opt ''Isolation'' JStr (cs_isolation spec) h;
          h = set_opt ''Memory'' JInt (cs_memory_bytes spec) h;
          h = set_opt ''ShmSize'' JInt (cs_shm_size_bytes spec) h;
          h = set_opt ''NanoCpus'' JInt (cs_nano_cpus spec) h;
          h = set_opt ''CpusetCpus'' JStr (cs_cpuset_cpus spec) h;
          h = set_opt ''PidsLimit'' JInt (cs_pids_limit spec) h;
          h = set_opt ''RestartPolicy'' restart_policy_json (cs_restart_policy spec) h;
          h = set_list ''Dns'' json_strings (cs_dns_servers spec) h;
          h = set_list ''DnsSearch'' json_strings (cs_dns_search spec) h;
          h = set_list ''DnsOptions'' json_strings (cs_dns_options spec) h;
          h = set_list ''Sysctls'' json_object_from (cs_sysctls spec) h;
          h = set_list ''Devices'' (\<lambda>ds. JArr (map device_json ds)) (cs_devices spec) h;
          h = set_list ''Ulimits'' (\<lambda>us. JArr (map ulimit_json us)) (cs_ulimits spec) h;
          h = set_list ''CapAdd'' json_strings (cs_cap_add spec) h;
          h = set_list ''CapDrop'' json_strings (cs_cap_drop spec) h;
          h = set_list ''ExtraHosts'' json_strings (cs_extra_hosts spec) h
      in set_list ''Mounts'' (\<lambda>ms. JArr (map mount_json ms)) (cs_mounts spec) h)"

definition networking_json :: "CreateContainerSpec \<Rightarrow> string \<Rightarrow> json" where
  "networking_json spec network =
     (let e = set_list ''Aliases'' json_strings (cs_network_aliases spec) (JObj []);
          e = set_opt ''IPAMConfig'' (\<lambda>ip. json_set ''IPv4Address'' (JStr ip) JNull)
                (cs_static_ipv4 spec) e
      in json_set ''EndpointsConfig'' (json_set network e (JObj [])) (JObj []))"

text \<open>The body before the raw patch is merged in.\<close>

definition create_body_base :: "CreateContainerSpec \<Rightarrow> json" where
  "create_body_base spec =
     (let b = json_set ''Image'' (JStr (cs_image spec)) JNull;
          b = set_list ''Cmd'' json_strings (cs_cmd spec) b;
          b = set_list ''Entrypoint'' json_strings (cs_entrypoint spec) b;
          b = set_list ''Env'' json_strings (cs_env spec) b;
          b = set_opt ''WorkingDir'' JStr (cs_working_dir spec) b;
          b = set_opt ''User'' JStr (cs_user spec) b;
          b = set_if (cs_tty spec) ''Tty'' (JBool True) b;
          b = set_list ''Labels'' json_object_from (cs_labels spec) b;
          b = set_list ''ExposedPorts'' exposed_json (cs_exposed_ports spec) b;
          b = set_opt ''Healthcheck'' healthcheck_json (cs_healthcheck spec) b;
          hc = host_config_json spec;
          b = set_if (members hc \<noteq> []) ''HostConfig'' hc b
      in case cs_network spec of
           None \<Rightarrow> b
         | Some network \<Rightarrow>
             set_if (cs_network_aliases spec \<noteq> [] \<or> cs_static_ipv4 spec \<noteq> None)
               ''NetworkingConfig'' (networking_json spec network) b)"

definition build_create_body :: "jsonlib \<Rightarrow> CreateContainerSpec \<Rightarrow> json res" where
  "build_create_body L spec =
     (let body = create_body_base spec in
      if cs_create_body_patch spec = [] then Inr body
      else case jl_parse L (cs_create_body_patch spec) of
             Inr patch \<Rightarrow> Inr (merge_patch body patch)
           | Inl w \<Rightarrow> Inl (DockerError (''create_body_patch is not valid JSON: '' @ w) None []))"

definition build_connect_network_body :: "string \<Rightarrow> string list \<Rightarrow> json" where
  "build_connect_network_body container_id aliases =
     (let b = json_set ''Container'' (JStr container_id) JNull in
      if aliases = [] then b
      else json_set ''EndpointConfig'' (json_set ''Aliases'' (json_strings aliases) (JObj [])) b)"

definition pool_json :: "NetworkIpamPool \<Rightarrow> json" where
  "pool_json pool =
     (let e = set_if (np_subnet pool \<noteq> []) ''Subnet'' (JStr (np_subnet pool)) (JObj []);
          e = set_if (np_ip_range pool \<noteq> []) ''IPRange'' (JStr (np_ip_range pool)) e;
          e = set_if (np_gateway pool \<noteq> []) ''Gateway'' (JStr (np_gateway pool)) e
      in set_list ''AuxiliaryAddresses'' json_object_from (np_aux_addresses pool) e)"

definition shorthand_pool_json :: "NetworkCreateSpec \<Rightarrow> json list" where
  "shorthand_pool_json spec =
     (if ns_subnet spec \<noteq> None \<or> ns_gateway spec \<noteq> None
      then [set_opt ''Gateway'' JStr (ns_gateway spec)
              (set_opt ''Subnet'' JStr (ns_subnet spec) (JObj []))]
      else [])"

definition build_network_create_body :: "NetworkCreateSpec \<Rightarrow> json" where
  "build_network_create_body spec =
     (let b = json_set ''Name'' (JStr (ns_name spec)) JNull;
          b = set_opt ''Driver'' JStr (ns_driver spec) b;
          b = set_if (ns_internal spec) ''Internal'' (JBool True) b;
          b = set_if (ns_attachable spec) ''Attachable'' (JBool True) b;
          b = set_if (ns_enable_ipv6 spec) ''EnableIPv6'' (JBool True) b;
          b = set_list ''Options'' json_object_from (ns_options spec) b;
          b = set_list ''Labels'' json_object_from (ns_labels spec) b;
          config = shorthand_pool_json spec @ map pool_json (ns_ipam_pools spec)
      in if config = [] then b
         else json_set ''IPAM'' (json_set ''Config'' (JArr config) (JObj [])) b)"

definition build_volume_create_body :: "VolumeCreateSpec \<Rightarrow> json" where
  "build_volume_create_body spec =
     (let b = json_set ''Name'' (JStr (vs_name spec)) JNull;
          b = set_opt ''Driver'' JStr (vs_driver spec) b;
          b = set_list ''DriverOpts'' json_object_from (vs_driver_opts spec) b
      in set_list ''Labels'' json_object_from (vs_labels spec) b)"

definition build_exec_create_body :: "string list \<Rightarrow> ExecOptions \<Rightarrow> json" where
  "build_exec_create_body cmd opts =
     (let b = json_set ''Cmd'' (json_strings cmd) JNull;
          b = set_if (\<not> eo_detach opts) ''AttachStdout'' (JBool True) b;
          b = set_if (\<not> eo_detach opts) ''AttachStderr'' (JBool True) b;
          b = set_if (\<not> eo_detach opts \<and> eo_stdin_data opts \<noteq> None) ''AttachStdin'' (JBool True) b;
          b = json_set ''Tty'' (JBool (eo_tty opts)) b;
          b = set_list ''Env'' json_strings (eo_env opts) b;
          b = set_opt ''WorkingDir'' JStr (eo_working_dir opts) b;
          b = set_opt ''User'' JStr (eo_user opts) b;
          b = set_if (eo_privileged opts) ''Privileged'' (JBool True) b
      in set_opt ''ConsoleSize''
           (\<lambda>s. JArr [JInt (int (ts_height s)), JInt (int (ts_width s))]) (eo_console_size opts) b)"

subsection \<open>Queries\<close>

text \<open>\<open>append(key, value)\<close>: the separator depends on what the query already holds.\<close>

definition append_query :: "(string \<Rightarrow> string) \<Rightarrow> string \<Rightarrow> string \<Rightarrow> string \<Rightarrow> string" where
  "append_query encode key value query =
     query @ (if query = [] then ''?'' else ''&'') @ key @ ''='' @ encode value"

definition build_create_query :: "(string \<Rightarrow> string) \<Rightarrow> CreateContainerSpec \<Rightarrow> string" where
  "build_create_query encode spec =
     (let q = (case cs_name spec of Some n \<Rightarrow> append_query encode ''name'' n [] | None \<Rightarrow> [])
      in case cs_platform spec of Some p \<Rightarrow> append_query encode ''platform'' p q | None \<Rightarrow> q)"

definition build_build_query :: "jsonlib \<Rightarrow> (string \<Rightarrow> string) \<Rightarrow> BuildOptions \<Rightarrow> string" where
  "build_build_query L encode options =
     (let q = append_query encode ''t'' (bo_tag options) [];
          q = append_query encode ''dockerfile'' (bo_dockerfile options) q;
          q = append_query encode ''forcerm'' ''1'' q;
          q = (if bo_no_cache options then append_query encode ''nocache'' ''1'' q else q);
          q = (if bo_pull options then append_query encode ''pull'' ''1'' q else q);
          q = (if bo_target options \<noteq> [] then append_query encode ''target'' (bo_target options) q else q);
          q = (if bo_build_args options \<noteq> []
               then append_query encode ''buildargs'' (jl_dump L (json_object_from (bo_build_args options))) q
               else q)
      in if bo_labels options \<noteq> []
         then append_query encode ''labels'' (jl_dump L (json_object_from (bo_labels options))) q
         else q)"

subsection \<open>API version negotiation\<close>

definition kClientApiVersion :: string where
  "kClientApiVersion = ''1.44''"

definition parse_api_version :: "string \<Rightarrow> (nat \<times> nat) option" where
  "parse_api_version v =
     (case find_char (CHR ''.'') v of
        None \<Rightarrow> None
      | Some dot \<Rightarrow>
          (if dot = 0 \<or> dot + 1 = length v then None
           else case (parse_dec (2 ^ 32 - 1) (take dot v), parse_dec (2 ^ 32 - 1) (drop (dot + 1) v)) of
                  (Some major, Some minor) \<Rightarrow> Some (major, minor)
                | _ \<Rightarrow> None))"

definition pair_less :: "nat \<times> nat \<Rightarrow> nat \<times> nat \<Rightarrow> bool" where
  "pair_less a b \<longleftrightarrow> fst a < fst b \<or> (fst a = fst b \<and> snd a < snd b)"

definition negotiate_api_version :: "string \<Rightarrow> string" where
  "negotiate_api_version daemon_reported =
     (case (parse_api_version daemon_reported, parse_api_version kClientApiVersion) of
        (Some d, Some c) \<Rightarrow> (if pair_less d c then daemon_reported else kClientApiVersion)
      | _ \<Rightarrow> [])"

subsection \<open>Lemmas\<close>

lemma jfind_object_fold:
  "jfind k (foldl (\<lambda>out (key, value). json_set key (f value) out) j ps) =
     (case map_of (rev ps) k of Some v \<Rightarrow> Some (f v) | None \<Rightarrow> jfind k j)"
proof (induction ps arbitrary: j)
  case (Cons p ps)
  then show ?case
    by (cases p) (simp add: map_add_def jfind_json_set split: option.splits)
qed simp

lemma jfind_json_object_from:
  "jfind k (json_object_from pairs) = map_option JStr (map_of (rev pairs) k)"
  by (simp add: json_object_from_def jfind_object_fold split: option.splits)

lemma jfind_bindings_json:
  "jfind port (bindings_json ports) =
     (if port \<in> set ports then Some (JArr [json_set ''HostPort'' (JStr []) (JObj [])]) else None)"
proof -
  have "jfind port (foldl (\<lambda>out q. json_set q v out) j ps) =
      (if port \<in> set ps then Some v else jfind port j)" for v j ps
    by (induction ps arbitrary: j) (auto simp: jfind_json_set)
  then show ?thesis by (simp add: bindings_json_def)
qed

lemma jfind_exposed_json:
  "jfind port (exposed_json ports) = (if port \<in> set ports then Some (JObj []) else None)"
proof -
  have "jfind port (foldl (\<lambda>out q. json_set q v out) j ps) =
      (if port \<in> set ps then Some v else jfind port j)" for v j ps
    by (induction ps arbitrary: j) (auto simp: jfind_json_set)
  then show ?thesis by (simp add: exposed_json_def)
qed

lemma json_object_from_sorted: "members_sorted (members (json_object_from pairs))"
proof -
  have "members_sorted (members j) \<Longrightarrow>
      members_sorted (members (foldl (\<lambda>out (key, value). json_set key (JStr value) out) j ps))" for j ps
    by (induction ps arbitrary: j) (auto simp: insert_member_sorted)
  then show ?thesis by (simp add: json_object_from_def members_sorted_def)
qed

lemma is_object_json_object_from [simp]: "is_object (json_object_from pairs)"
proof -
  have "is_object j \<Longrightarrow> is_object (foldl (\<lambda>out (key, value). json_set key (JStr value) out) j ps)" for j ps
    by (induction ps arbitrary: j) auto
  then show ?thesis by (simp add: json_object_from_def)
qed

text \<open>The object does not depend on the order of pairs with distinct keys.\<close>

lemma json_object_from_cong:
  assumes "map_of (rev ps) = map_of (rev qs)"
  shows "json_object_from ps = json_object_from qs"
proof -
  have "map_of (members (json_object_from xs)) = (\<lambda>k. map_option JStr (map_of (rev xs) k))" for xs
    using jfind_json_object_from [of _ xs] by (simp add: jfind_def fun_eq_iff)
  with assms have "members (json_object_from ps) = members (json_object_from qs)"
    by (intro sorted_members_unique json_object_from_sorted) simp
  then show ?thesis
    using is_object_json_object_from [of ps] is_object_json_object_from [of qs]
    by (cases "json_object_from ps"; cases "json_object_from qs") auto
qed

text \<open>A query is its pairs, joined; the specification reads them back.\<close>

definition query_of :: "(string \<Rightarrow> string) \<Rightarrow> (string \<times> string) list \<Rightarrow> string" where
  "query_of encode pairs =
     (if pairs = [] then [] else ''?'' @ join (map (\<lambda>(k, v). k @ ''='' @ encode v) pairs) ''&'')"

lemma join_snoc: "ps \<noteq> [] \<Longrightarrow> join (ps @ [p]) sep = join ps sep @ sep @ p"
  by (cases ps) (simp_all add: join_Cons)

lemma append_query_of:
  "append_query encode k v (query_of encode ps) = query_of encode (ps @ [(k, v)])"
  by (simp add: append_query_def query_of_def join_snoc join_Cons)

lemma append_query_first: "append_query encode k v [] = query_of encode [(k, v)]"
  by (simp add: append_query_def query_of_def join_Cons)

fun decode_pair :: "string \<Rightarrow> (string \<times> string) option" where
  "decode_pair s =
     (case split_first (CHR ''='') s of
        None \<Rightarrow> None
      | Some (k, v) \<Rightarrow> map_option (\<lambda>d. (k, d)) (percent_decode v))"

fun collect :: "('a \<Rightarrow> 'b option) \<Rightarrow> 'a list \<Rightarrow> 'b list option" where
  "collect f [] = Some []"
| "collect f (x # xs) =
     (case f x of None \<Rightarrow> None | Some y \<Rightarrow> map_option (\<lambda>ys. y # ys) (collect f xs))"

definition parse_query :: "string \<Rightarrow> (string \<times> string) list option" where
  "parse_query q = (if q = [] then Some [] else collect decode_pair (split_all (CHR ''&'') (tl q)))"

lemma url_encode_no_sep:
  assumes "c \<in> set ''&=?#''"
  shows "c \<notin> set (url_encode s)"
proof -
  have "set (url_encode s) \<subseteq> url_safe \<union> {CHR ''/''}"
    by (induction s) (auto simp: Let_def url_safe_def hex_upper_alnum)
  moreover have "c \<notin> url_safe \<union> {CHR ''/''}" using assms by (auto simp: url_safe_def ascii_alnum_def)
  ultimately show ?thesis by blast
qed

definition query_key :: "string \<Rightarrow> bool" where
  "query_key k \<longleftrightarrow> CHR ''='' \<notin> set k \<and> CHR ''&'' \<notin> set k"

lemma parse_query_of:
  assumes "\<forall>(k, v) \<in> set ps. query_key k"
  shows "parse_query (query_of url_encode ps) = Some ps"
proof (cases "ps = []")
  case False
  let ?f = "\<lambda>(k, v). k @ ''='' @ url_encode v"
  have "split_all (CHR ''&'') (join (map ?f ps) [CHR ''&'']) = map ?f ps"
    using False assms url_encode_no_sep by (intro split_all_join) (fastforce simp: query_key_def)+
  moreover have "collect decode_pair (map ?f ps) = Some ps"
    using assms
  proof (induction ps)
    case (Cons p ps)
    then show ?case
      by (cases p) (auto simp: query_key_def percent_decode_url_encode)
  qed simp
  ultimately show ?thesis using False by (simp add: parse_query_def query_of_def)
qed (simp add: parse_query_def query_of_def)

end
