(* ===== verification/ApiParse.thy ===== *)
theory ApiParse
  imports ApiBuild
begin

section \<open>Responses of the Docker API\<close>

text \<open>
  The parsers of \<open>src/docker/ApiMapping.cpp\<close> and the value types they fill
  (\<open>include/testcontainers/docker/ContainerSpec.hpp\<close>).  Inside a parser an exception of the
  JSON library is a \<open>Foreign\<close> one; \<open>guard_parse\<close> turns it into a \<open>DockerError\<close>.  A
  \<open>std::map\<close> is the list of its entries in key order.
\<close>

subsection \<open>Guards and readers\<close>

definition body_excerpt :: "string \<Rightarrow> string" where
  "body_excerpt body =
     (if length body \<le> 2048 then body
      else take 2048 body @ ''... [truncated, '' @ to_dec (length body) @ '' bytes total]'')"

definition guard_parse :: "string \<Rightarrow> string \<Rightarrow> 'a res \<Rightarrow> 'a res" where
  "guard_parse context body r =
     (case r of
        Inl (Foreign w) \<Rightarrow>
          Inl (DockerError (context @ '': unexpected response from Docker: '' @ w @
                            ''; body: '' @ body_excerpt body) None [])
      | other \<Rightarrow> other)"

definition read_string_map :: "jsonlib \<Rightarrow> json \<Rightarrow> string \<Rightarrow> (string \<times> string) list res" where
  "read_string_map L j key =
     (case jfind_obj key j of
        None \<Rightarrow> Inr []
      | Some ob \<Rightarrow>
          try_map (\<lambda>(name, value). try_bind (get_string L value) (\<lambda>s. Inr (name, s))) (members ob))"

definition read_string_array :: "jsonlib \<Rightarrow> json \<Rightarrow> string \<Rightarrow> string list res" where
  "read_string_array L j key =
     (case jfind_arr key j of None \<Rightarrow> Inr [] | Some vs \<Rightarrow> try_map (get_string L) vs)"

abbreviation str_value :: "jsonlib \<Rightarrow> json \<Rightarrow> string \<Rightarrow> string res" where
  "str_value L j k \<equiv> json_value L get_string j k []"

abbreviation bool_value :: "jsonlib \<Rightarrow> json \<Rightarrow> string \<Rightarrow> bool res" where
  "bool_value L j k \<equiv> json_value L get_bool j k False"

abbreviation int64_value :: "jsonlib \<Rightarrow> json \<Rightarrow> string \<Rightarrow> int res" where
  "int64_value L j k \<equiv> json_value L (get_int 64) j k 0"

subsection \<open>Volumes\<close>

record VolumeInspect =
  vi_name :: string
  vi_driver :: string
  vi_mountpoint :: string
  vi_scope :: string
  vi_labels :: "(string \<times> string) list"
  vi_options :: "(string \<times> string) list"

definition volume_inspect_from_json :: "jsonlib \<Rightarrow> json \<Rightarrow> VolumeInspect res" where
  "volume_inspect_from_json L j =
     try_bind (str_value L j ''Name'') (\<lambda>name.
     try_bind (str_value L j ''Driver'') (\<lambda>driver.
     try_bind (str_value L j ''Mountpoint'') (\<lambda>mountpoint.
     try_bind (str_value L j ''Scope'') (\<lambda>scope.
     try_bind (read_string_map L j ''Labels'') (\<lambda>labels.
     try_bind (read_string_map L j ''Options'') (\<lambda>options.
       Inr \<lparr>vi_name = name, vi_driver = driver, vi_mountpoint = mountpoint, vi_scope = scope,
            vi_labels = labels, vi_options = options\<rparr>))))))"

definition parse_volume_inspect :: "jsonlib \<Rightarrow> string \<Rightarrow> VolumeInspect res" where
  "parse_volume_inspect L body =
     guard_parse ''inspect_volume'' body
       (try_bind (json_parse L body) (volume_inspect_from_json L))"

definition parse_volume_list :: "jsonlib \<Rightarrow> string \<Rightarrow> VolumeInspect list res" where
  "parse_volume_list L body =
     guard_parse ''list_volumes'' body
       (try_bind (json_parse L body) (\<lambda>j.
          case jfind_arr ''Volumes'' j of
            None \<Rightarrow> Inr []
          | Some vs \<Rightarrow> try_map (volume_inspect_from_json L) (filter is_object vs)))"

record VolumePruneResult =
  vp_deleted :: "string list"
  vp_space_reclaimed :: int

definition parse_volume_prune :: "jsonlib \<Rightarrow> string \<Rightarrow> VolumePruneResult res" where
  "parse_volume_prune L body =
     guard_parse ''prune_volumes'' body
       (try_bind (json_parse L body) (\<lambda>j.
        try_bind (read_string_array L j ''VolumesDeleted'') (\<lambda>deleted.
          let space = (case jfind ''SpaceReclaimed'' j of
                         Some (JInt i) \<Rightarrow> get_int 64 L (JInt i)
                       | Some (JFloat i) \<Rightarrow> get_int 64 L (JFloat i)
                       | _ \<Rightarrow> Inr 0)
          in try_bind space (\<lambda>s. Inr \<lparr>vp_deleted = deleted, vp_space_reclaimed = s\<rparr>))))"

subsection \<open>Networks\<close>

record NetworkEndpoint =
  ne_name :: string
  ne_endpoint_id :: string
  ne_mac_address :: string
  ne_ipv4_address :: string
  ne_ipv6_address :: string

record NetworkInspect =
  ni_id :: string
  ni_name :: string
  ni_driver :: string
  ni_scope :: string
  ni_internal :: bool
  ni_attachable :: bool
  ni_enable_ipv6 :: bool
  ni_ipam_pools :: "NetworkIpamPool list"
  ni_options :: "(string \<times> string) list"
  ni_labels :: "(string \<times> string) list"
  ni_containers :: "(string \<times> NetworkEndpoint) list"

definition parse_ipam_pool :: "jsonlib \<Rightarrow> json \<Rightarrow> NetworkIpamPool res" where
  "parse_ipam_pool L pool =
     try_bind (str_value L pool ''Subnet'') (\<lambda>subnet.
     try_bind (str_value L pool ''Gateway'') (\<lambda>gateway.
     try_bind (str_value L pool ''IPRange'') (\<lambda>ip_range.
     try_bind (read_string_map L pool ''AuxiliaryAddresses'') (\<lambda>aux.
       Inr \<lparr>np_subnet = subnet, np_gateway = gateway, np_ip_range = ip_range,
            np_aux_addresses = aux\<rparr>))))"

definition parse_endpoint :: "jsonlib \<Rightarrow> json \<Rightarrow> NetworkEndpoint res" where
  "parse_endpoint L endpoint =
     (if \<not> is_object endpoint then
        Inr \<lparr>ne_name = [], ne_endpoint_id = [], ne_mac_address = [], ne_ipv4_address = [],
             ne_ipv6_address = []\<rparr>
      else
        try_bind (str_value L endpoint ''Name'') (\<lambda>name.
        try_bind (str_value L endpoint ''EndpointID'') (\<lambda>eid.
        try_bind (str_value L endpoint ''MacAddress'') (\<lambda>mac.
        try_bind (str_value L endpoint ''IPv4Address'') (\<lambda>ip4.
        try_bind (str_value L endpoint ''IPv6Address'') (\<lambda>ip6.
          Inr \<lparr>ne_name = name, ne_endpoint_id = eid, ne_mac_address = mac,
               ne_ipv4_address = ip4, ne_ipv6_address = ip6\<rparr>))))))"

definition network_inspect_from_json :: "jsonlib \<Rightarrow> json \<Rightarrow> NetworkInspect res" where
  "network_inspect_from_json L j =
     try_bind (str_value L j ''Id'') (\<lambda>nid.
     try_bind (str_value L j ''Name'') (\<lambda>name.
     try_bind (str_value L j ''Driver'') (\<lambda>driver.
     try_bind (str_value L j ''Scope'') (\<lambda>scope.
     try_bind (bool_value L j ''Internal'') (\<lambda>internal.
     try_bind (bool_value L j ''Attachable'') (\<lambda>attachable.
     try_bind (bool_value L j ''EnableIPv6'') (\<lambda>ipv6.
     try_bind (read_string_map L j ''Options'') (\<lambda>options.
     try_bind (read_string_map L j ''Labels'') (\<lambda>labels.
     try_bind
       (case jfind_obj ''IPAM'' j of
          None \<Rightarrow> Inr []
        | Some ipam \<Rightarrow>
            (case jfind_arr ''Config'' ipam of
               None \<Rightarrow> Inr [] | Some ps \<Rightarrow> try_map (parse_ipam_pool L) (filter is_object ps)))
       (\<lambda>pools.
     try_bind
       (case jfind_obj ''Containers'' j of
          None \<Rightarrow> Inr []
        | Some cs \<Rightarrow>
            try_map (\<lambda>(cid, ep). try_bind (parse_endpoint L ep) (\<lambda>e. Inr (cid, e))) (members cs))
       (\<lambda>containers.
       Inr \<lparr>ni_id = nid, ni_name = name, ni_driver = driver, ni_scope = scope,
            ni_internal = internal, ni_attachable = attachable, ni_enable_ipv6 = ipv6,
            ni_ipam_pools = pools, ni_options = options, ni_labels = labels,
            ni_containers = containers\<rparr>)))))))))))"

definition parse_network_inspect :: "jsonlib \<Rightarrow> string \<Rightarrow> NetworkInspect res" where
  "parse_network_inspect L body =
     guard_parse ''inspect_network'' body
       (try_bind (json_parse L body) (network_inspect_from_json L))"

definition parse_network_list :: "jsonlib \<Rightarrow> string \<Rightarrow> NetworkInspect list res" where
  "parse_network_list L body =
     guard_parse ''list_networks'' body
       (try_bind (json_parse L body) (\<lambda>j.
          if \<not> is_array j then Inr []
          else try_map (network_inspect_from_json L) (filter is_object (elements j))))"

subsection \<open>Images and the version\<close>

record ImageInspect =
  ii_id :: string
  ii_repo_tags :: "string list"
  ii_repo_digests :: "string list"
  ii_created :: string
  ii_architecture :: string
  ii_os :: string
  ii_size :: int
  ii_labels :: "(string \<times> string) list"
  ii_env :: "string list"
  ii_cmd :: "string list"
  ii_entrypoint :: "string list"
  ii_exposed_ports :: "string list"
  ii_working_dir :: string
  ii_user :: string

definition image_config :: "jsonlib \<Rightarrow> ImageInspect \<Rightarrow> json \<Rightarrow> ImageInspect res" where
  "image_config L info config =
     try_bind (read_string_map L config ''Labels'') (\<lambda>labels.
     try_bind (read_string_array L config ''Env'') (\<lambda>env.
     try_bind (read_string_array L config ''Cmd'') (\<lambda>cmd.
     try_bind (read_string_array L config ''Entrypoint'') (\<lambda>entrypoint.
     try_bind (str_value L config ''WorkingDir'') (\<lambda>working_dir.
     try_bind (str_value L config ''User'') (\<lambda>user.
       Inr (info\<lparr>ii_labels := labels, ii_env := env, ii_cmd := cmd, ii_entrypoint := entrypoint,
                 ii_working_dir := working_dir, ii_user := user,
                 ii_exposed_ports :=
                   (case jfind_obj ''ExposedPorts'' config of
                      None \<Rightarrow> [] | Some ports \<Rightarrow> map fst (members ports))\<rparr>)))))))"

definition parse_image_inspect :: "jsonlib \<Rightarrow> string \<Rightarrow> ImageInspect res" where
  "parse_image_inspect L body =
     guard_parse ''inspect_image'' body
       (try_bind (json_parse L body) (\<lambda>j.
        try_bind (str_value L j ''Id'') (\<lambda>iid.
        try_bind (read_string_array L j ''RepoTags'') (\<lambda>tags.
        try_bind (read_string_array L j ''RepoDigests'') (\<lambda>digests.
        try_bind (str_value L j ''Created'') (\<lambda>created.
        try_bind (str_value L j ''Architecture'') (\<lambda>arch.
        try_bind (str_value L j ''Os'') (\<lambda>os.
        try_bind (int64_value L j ''Size'') (\<lambda>size.
          let info = \<lparr>ii_id = iid, ii_repo_tags = tags, ii_repo_digests = digests,
                      ii_created = created, ii_architecture = arch, ii_os = os, ii_size = size,
                      ii_labels = [], ii_env = [], ii_cmd = [], ii_entrypoint = [],
                      ii_exposed_ports = [], ii_working_dir = [], ii_user = []\<rparr>
          in case jfind_obj ''Config'' j of
               None \<Rightarrow> Inr info
             | Some config \<Rightarrow> image_config L info config)))))))))"

definition parse_server_os :: "jsonlib \<Rightarrow> string \<Rightarrow> string res" where
  "parse_server_os L version_json =
     guard_parse ''server_os (GET /version)'' version_json
       (try_bind (json_parse L version_json) (\<lambda>j. str_value L j ''Os''))"

subsection \<open>Containers\<close>

record HostConfigInspect =
  hi_memory_bytes :: int
  hi_shm_size_bytes :: int
  hi_nano_cpus :: int
  hi_cpuset_cpus :: string
  hi_pids_limit :: "int option"
  hi_restart_policy :: RestartPolicy
  hi_dns_servers :: "string list"
  hi_dns_search :: "string list"
  hi_dns_options :: "string list"
  hi_sysctls :: "(string \<times> string) list"
  hi_devices :: "Device list"

record ContainerInspect =
  ci_id :: string
  ci_name :: string
  ci_status :: string
  ci_running :: bool
  ci_tty :: bool
  ci_exit_code :: "int option"
  ci_health_status :: "string option"
  ci_ports :: port_map
  ci_host_config :: HostConfigInspect

definition empty_host_config :: HostConfigInspect where
  "empty_host_config =
     \<lparr>hi_memory_bytes = 0, hi_shm_size_bytes = 0, hi_nano_cpus = 0, hi_cpuset_cpus = [],
      hi_pids_limit = None, hi_restart_policy = \<lparr>rp_name = [], rp_maximum_retry_count = 0\<rparr>,
      hi_dns_servers = [], hi_dns_search = [], hi_dns_options = [], hi_sysctls = [],
      hi_devices = []\<rparr>"

text \<open>One binding: \<open>None\<close> when it is dropped for a malformed host port.\<close>

definition parse_binding :: "jsonlib \<Rightarrow> json \<Rightarrow> PortBinding option res" where
  "parse_binding L binding =
     try_bind (str_value L binding ''HostIp'') (\<lambda>host_ip.
     try_bind (str_value L binding ''HostPort'') (\<lambda>host_port.
       if host_port = [] then Inr (Some \<lparr>pb_host_ip = host_ip, pb_host_port = 0\<rparr>)
       else case parse_dec 65535 host_port of
              None \<Rightarrow> Inr None
            | Some hp \<Rightarrow>
                (if hp = 0 then Inr None
                 else Inr (Some \<lparr>pb_host_ip = host_ip, pb_host_port = hp\<rparr>))))"

definition parse_bindings :: "jsonlib \<Rightarrow> json \<Rightarrow> PortBinding list res" where
  "parse_bindings L bindings =
     (if is_array bindings then
        try_bind (try_map (parse_binding L) (elements bindings))
          (\<lambda>bs. Inr (List.map_filter (\<lambda>b. b) bs))
      else Inr [])"

definition parse_ports :: "jsonlib \<Rightarrow> json \<Rightarrow> port_map res" where
  "parse_ports L j =
     (case jfind_obj ''NetworkSettings'' j of
        None \<Rightarrow> Inr []
      | Some net \<Rightarrow>
          (case jfind_obj ''Ports'' net of
             None \<Rightarrow> Inr []
           | Some ports \<Rightarrow>
               try_map (\<lambda>(k, b). try_bind (parse_bindings L b) (\<lambda>bs. Inr (k, bs))) (members ports)))"

definition parse_device :: "jsonlib \<Rightarrow> json \<Rightarrow> Device res" where
  "parse_device L entry =
     try_bind (str_value L entry ''PathOnHost'') (\<lambda>h.
     try_bind (str_value L entry ''PathInContainer'') (\<lambda>c.
     try_bind (str_value L entry ''CgroupPermissions'') (\<lambda>p.
       Inr \<lparr>dv_path_on_host = h, dv_path_in_container = c, dv_cgroup_permissions = p\<rparr>)))"

definition parse_host_config :: "jsonlib \<Rightarrow> json \<Rightarrow> HostConfigInspect res" where
  "parse_host_config L j =
     (case jfind_obj ''HostConfig'' j of
        None \<Rightarrow> Inr empty_host_config
      | Some host \<Rightarrow>
          try_bind (int64_value L host ''Memory'') (\<lambda>memory.
          try_bind (int64_value L host ''ShmSize'') (\<lambda>shm.
          try_bind (int64_value L host ''NanoCpus'') (\<lambda>cpus.
          try_bind (str_value L host ''CpusetCpus'') (\<lambda>cpuset.
          try_bind
            (case jfind_obj ''RestartPolicy'' host of
               None \<Rightarrow> Inr \<lparr>rp_name = [], rp_maximum_retry_count = 0\<rparr>
             | Some policy \<Rightarrow>
                 try_bind (str_value L policy ''Name'') (\<lambda>n.
                 try_bind (json_value L (get_int 32) policy ''MaximumRetryCount'' 0) (\<lambda>c.
                   Inr \<lparr>rp_name = n, rp_maximum_retry_count = c\<rparr>)))
            (\<lambda>policy.
          try_bind (read_string_array L host ''Dns'') (\<lambda>dns.
          try_bind (read_string_array L host ''DnsSearch'') (\<lambda>search.
          try_bind (read_string_array L host ''DnsOptions'') (\<lambda>opts.
          try_bind (read_string_map L host ''Sysctls'') (\<lambda>sysctls.
          try_bind
            (case jfind_arr ''Devices'' host of
               None \<Rightarrow> Inr [] | Some ds \<Rightarrow> try_map (parse_device L) ds)
            (\<lambda>devices.
              Inr \<lparr>hi_memory_bytes = memory, hi_shm_size_bytes = shm, hi_nano_cpus = cpus,
                   hi_cpuset_cpus = cpuset, hi_pids_limit = jfind_int ''PidsLimit'' host,
                   hi_restart_policy = policy, hi_dns_servers = dns, hi_dns_search = search,
                   hi_dns_options = opts, hi_sysctls = sysctls, hi_devices = devices\<rparr>)))))))))))"

text \<open>The fields of \<open>State\<close>: status, running, exit code, health.\<close>

definition parse_state ::
  "jsonlib \<Rightarrow> json \<Rightarrow> (string \<times> bool \<times> int option \<times> string option) res" where
  "parse_state L j =
     (case jfind_obj ''State'' j of
        None \<Rightarrow> Inr ([], False, None, None)
      | Some state \<Rightarrow>
          try_bind (str_value L state ''Status'') (\<lambda>status.
          try_bind (bool_value L state ''Running'') (\<lambda>running.
            Inr (status, running, jfind_int ''ExitCode'' state,
                 (case jfind_obj ''Health'' state of
                    None \<Rightarrow> None | Some health \<Rightarrow> jfind_str ''Status'' health)))))"

definition parse_inspect_unguarded :: "jsonlib \<Rightarrow> string \<Rightarrow> ContainerInspect res" where
  "parse_inspect_unguarded L body =
     try_bind (json_parse L body) (\<lambda>j.
     try_bind (str_value L j ''Id'') (\<lambda>cid.
     try_bind (str_value L j ''Name'') (\<lambda>name.
     try_bind
       (case jfind_obj ''Config'' j of None \<Rightarrow> Inr False | Some config \<Rightarrow> bool_value L config ''Tty'')
       (\<lambda>tty.
     try_bind (parse_state L j) (\<lambda>(status, running, exit_code, health).
     try_bind (parse_ports L j) (\<lambda>ports.
     try_bind (parse_host_config L j) (\<lambda>hc.
       Inr \<lparr>ci_id = cid, ci_name = name, ci_status = status, ci_running = running, ci_tty = tty,
            ci_exit_code = exit_code, ci_health_status = health, ci_ports = ports,
            ci_host_config = hc\<rparr>)))))))"

definition parse_inspect :: "jsonlib \<Rightarrow> string \<Rightarrow> ContainerInspect res" where
  "parse_inspect L body =
     guard_parse ''inspect_container'' body (parse_inspect_unguarded L body)"

record ContainerSummary =
  su_id :: string
  su_names :: "string list"
  su_image :: string
  su_state :: string
  su_labels :: "(string \<times> string) list"

definition parse_summary :: "jsonlib \<Rightarrow> json \<Rightarrow> ContainerSummary res" where
  "parse_summary L entry =
     try_bind (str_value L entry ''Id'') (\<lambda>cid.
     try_bind (str_value L entry ''Image'') (\<lambda>img.
     try_bind (str_value L entry ''State'') (\<lambda>state.
       Inr \<lparr>su_id = cid,
            su_names = (case jfind_arr ''Names'' entry of
                          None \<Rightarrow> [] | Some ns \<Rightarrow> List.map_filter str_of ns),
            su_image = img, su_state = state,
            su_labels = (case jfind_obj ''Labels'' entry of
                           None \<Rightarrow> []
                         | Some ls \<Rightarrow>
                             List.map_filter (\<lambda>(k, v). map_option (\<lambda>s. (k, s)) (str_of v)) (members ls))\<rparr>)))"

definition parse_container_list :: "jsonlib \<Rightarrow> string \<Rightarrow> ContainerSummary list res" where
  "parse_container_list L body =
     guard_parse ''list_containers'' body
       (try_bind (json_parse L body) (\<lambda>j.
          if \<not> is_array j then Inr [] else try_map (parse_summary L) (elements j)))"

definition expect_string_field :: "jsonlib \<Rightarrow> string \<Rightarrow> string \<Rightarrow> string \<Rightarrow> string res" where
  "expect_string_field L body field context =
     (case try_bind (json_parse L body) (\<lambda>j. try_bind (json_at L j field) (get_string L)) of
        Inl (Foreign w) \<Rightarrow>
          Inl (DockerError (context @ '': unexpected response from Docker (no string '' @ [CHR 0x27] @
                            field @ [CHR 0x27] @ ''): '' @ w @ ''; body: '' @ body_excerpt body) None [])
      | other \<Rightarrow> other)"

record ExecStatus =
  es_running :: bool
  es_exit_code :: "int option"

definition parse_exec_status :: "jsonlib \<Rightarrow> string \<Rightarrow> ExecStatus res" where
  "parse_exec_status L body =
     guard_parse ''exec inspect'' body
       (try_bind (json_parse L body) (\<lambda>j.
        try_bind (bool_value L j ''Running'') (\<lambda>running.
          Inr \<lparr>es_running = running, es_exit_code = jfind_int ''ExitCode'' j\<rparr>)))"

end
