(* ===== verification/Rfc3339.thy ===== *)
theory Rfc3339
  imports TC_Prelude
begin

section \<open>RFC 3339 timestamps\<close>

text \<open>
  \<open>parse_rfc3339\<close> of \<open>src/docker/ApiMapping.cpp\<close>.  The parse pointer is the rest of the text,
  and the result is the number of seconds since the Unix epoch.
\<close>

subsection \<open>The code\<close>

text \<open>
  \<open>std::from_chars\<close> on an \<open>int\<close> over exactly the given characters: one minus sign is allowed,
  then at least one digit, and the whole of it must be consumed.  At most four characters are
  read, so the value fits.
\<close>

definition int_chars :: "string \<Rightarrow> int option" where
  "int_chars s =
     (let neg = (s \<noteq> [] \<and> hd s = CHR ''-''); ds = (if neg then tl s else s) in
      if ds = [] \<or> \<not> list_all is_digit ds then None
      else Some (if neg then - int (dec_value ds) else int (dec_value ds)))"

definition read_int :: "nat \<Rightarrow> int \<Rightarrow> int \<Rightarrow> string \<Rightarrow> (int \<times> string) option" where
  "read_int digits mn mx p =
     (if length p < digits then None
      else case int_chars (take digits p) of
             None \<Rightarrow> None
           | Some v \<Rightarrow> (if v < mn \<or> mx < v then None else Some (v, drop digits p)))"

definition expect :: "char \<Rightarrow> string \<Rightarrow> string option" where
  "expect c p = (if p \<noteq> [] \<and> hd p = c then Some (tl p) else None)"

definition expect_or :: "char \<Rightarrow> char \<Rightarrow> string \<Rightarrow> string option" where
  "expect_or c d p = (case expect c p of Some r \<Rightarrow> Some r | None \<Rightarrow> expect d p)"

text \<open>C++ integer division truncates towards zero.\<close>

definition cdiv :: "int \<Rightarrow> int \<Rightarrow> int" where
  "cdiv a b = (if 0 \<le> a then a div b else - ((- a) div b))"

definition days_from_civil :: "int \<Rightarrow> int \<Rightarrow> int \<Rightarrow> int" where
  "days_from_civil year m day =
     (let y = year - (if m \<le> 2 then 1 else 0);
          era = cdiv (if 0 \<le> y then y else y - 399) 400;
          yoe = y - era * 400;
          doy = cdiv (153 * (m + (if 2 < m then - 3 else 9)) + 2) 5 + day - 1;
          doe = yoe * 365 + cdiv yoe 4 - cdiv yoe 100 + doy
      in era * 146097 + doe - 719468)"

text \<open>The optional fraction: at least one digit after the point, all skipped.\<close>

definition skip_fraction :: "string \<Rightarrow> string option" where
  "skip_fraction p =
     (case expect (CHR ''.'') p of
        None \<Rightarrow> Some p
      | Some q \<Rightarrow> (if takeWhile is_digit q = [] then None else Some (dropWhile is_digit q)))"

definition read_offset :: "string \<Rightarrow> (int \<times> string) option" where
  "read_offset p =
     (case expect_or (CHR ''Z'') (CHR ''z'') p of
        Some r \<Rightarrow> Some (0, r)
      | None \<Rightarrow>
          (if p \<noteq> [] \<and> (hd p = CHR ''+'' \<or> hd p = CHR ''-'') then
             (case read_int 2 0 23 (tl p) of
                None \<Rightarrow> None
              | Some (off_hour, p1) \<Rightarrow>
                  (case expect (CHR '':'') p1 of
                     None \<Rightarrow> None
                   | Some p2 \<Rightarrow>
                       (case read_int 2 0 59 p2 of
                          None \<Rightarrow> None
                        | Some (off_minute, p3) \<Rightarrow>
                            (let off = (off_hour * 60 + off_minute) * 60
                             in Some (if hd p = CHR ''-'' then - off else off, p3)))))
           else None))"

definition parse_date :: "string \<Rightarrow> (int \<times> int \<times> int \<times> string) option" where
  "parse_date p =
     (case read_int 4 0 9999 p of None \<Rightarrow> None | Some (year, p1) \<Rightarrow>
     (case expect (CHR ''-'') p1 of None \<Rightarrow> None | Some p2 \<Rightarrow>
     (case read_int 2 1 12 p2 of None \<Rightarrow> None | Some (month, p3) \<Rightarrow>
     (case expect (CHR ''-'') p3 of None \<Rightarrow> None | Some p4 \<Rightarrow>
     (case read_int 2 1 31 p4 of None \<Rightarrow> None | Some (day, p5) \<Rightarrow>
     (case expect_or (CHR ''T'') (CHR ''t'') p5 of None \<Rightarrow> None | Some p6 \<Rightarrow>
       Some (year, month, day, p6)))))))"

definition parse_time :: "string \<Rightarrow> (int \<times> int \<times> int \<times> string) option" where
  "parse_time p =
     (case read_int 2 0 23 p of None \<Rightarrow> None | Some (hour, p1) \<Rightarrow>
     (case expect (CHR '':'') p1 of None \<Rightarrow> None | Some p2 \<Rightarrow>
     (case read_int 2 0 59 p2 of None \<Rightarrow> None | Some (minute, p3) \<Rightarrow>
     (case expect (CHR '':'') p3 of None \<Rightarrow> None | Some p4 \<Rightarrow>
     (case read_int 2 0 60 p4 of None \<Rightarrow> None | Some (second, p5) \<Rightarrow>
       Some (hour, minute, second, p5))))))"

definition parse_rfc3339 :: "string \<Rightarrow> int option" where
  "parse_rfc3339 text =
     (case parse_date text of None \<Rightarrow> None | Some (year, month, day, p1) \<Rightarrow>
     (case parse_time p1 of None \<Rightarrow> None | Some (hour, minute, second, p2) \<Rightarrow>
     (case skip_fraction p2 of None \<Rightarrow> None | Some p3 \<Rightarrow>
     (case read_offset p3 of None \<Rightarrow> None | Some (offset_seconds, p4) \<Rightarrow>
       (if p4 \<noteq> [] then None
        else Some (days_from_civil year month day * 86400 + hour * 3600 + minute * 60 +
                   min second 59 - offset_seconds))))))"

subsection \<open>The specification of the calendar\<close>

text \<open>
  The proleptic Gregorian calendar by counting: leap days before a year, days before a month.
\<close>

definition leap :: "int \<Rightarrow> bool" where
  "leap y \<longleftrightarrow> 4 dvd y \<and> (100 dvd y \<longrightarrow> 400 dvd y)"

definition month_length :: "int \<Rightarrow> int \<Rightarrow> int" where
  "month_length y m =
     (if m = 2 then (if leap y then 29 else 28)
      else if m = 4 \<or> m = 6 \<or> m = 9 \<or> m = 11 then 30 else 31)"

text \<open>The day after a date.\<close>

definition next_day :: "int \<times> int \<times> int \<Rightarrow> int \<times> int \<times> int" where
  "next_day date =
     (let (y, m, d) = date in
      if d < month_length y m then (y, m, d + 1)
      else if m < 12 then (y, m + 1, 1)
      else (y + 1, 1, 1))"

definition valid_date :: "int \<times> int \<times> int \<Rightarrow> bool" where
  "valid_date date \<longleftrightarrow>
     (let (y, m, d) = date in 1 \<le> m \<and> m \<le> 12 \<and> 1 \<le> d \<and> d \<le> month_length y m)"

lemma epoch_day: "days_from_civil 1970 1 1 = 0"
  by (simp add: days_from_civil_def cdiv_def Let_def)

lemma month_cases:
  assumes "1 \<le> (m::int)" "m \<le> 12"
  obtains "m = 1" | "m = 2" | "m = 3" | "m = 4" | "m = 5" | "m = 6"
    | "m = 7" | "m = 8" | "m = 9" | "m = 10" | "m = 11" | "m = 12"
  using assms by atomize_elim arith

text \<open>Within a month the number grows by one a day.\<close>

lemma days_same_month: "days_from_civil y m (d + 1) = days_from_civil y m d + 1"
  by (simp add: days_from_civil_def Let_def)

text \<open>The days before March 1st of a year, without the era arithmetic.\<close>

definition march_days :: "int \<Rightarrow> int" where
  "march_days y = y * 365 + y div 4 - y div 100 + y div 400 - 719468"

lemma era_days:
  assumes "0 \<le> (y::int)"
  shows "y div 400 * 146097 + ((y mod 400) * 365 + (y mod 400) div 4 - (y mod 400) div 100) =
    y * 365 + y div 4 - y div 100 + y div 400"
proof -
  define q r where "q = y div 400" and "r = y mod 400"
  have y: "y = 400 * q + r" by (simp add: q_def r_def)
  have e: "y div 400 = q" "y mod 400 = r" by (simp_all add: q_def r_def)
  have "(r + 4 * (100 * q)) div 4 = 100 * q + r div 4" by (rule div_mult_self2) simp
  moreover have "r + 4 * (100 * q) = y" using y by simp
  ultimately have d4: "y div 4 = 100 * q + r div 4" by (simp only:)
  have "(r + 100 * (4 * q)) div 100 = 4 * q + r div 100" by (rule div_mult_self2) simp
  moreover have "r + 100 * (4 * q) = y" using y by simp
  ultimately have d100: "y div 100 = 4 * q + r div 100" by (simp only:)
  show ?thesis unfolding e d4 d100 using y by linarith
qed

lemma days_march:
  assumes "0 \<le> year - (if m \<le> 2 then 1 else 0)" "1 \<le> m" "m \<le> 12"
  shows "days_from_civil year m day =
    march_days (year - (if m \<le> 2 then 1 else 0)) +
      (153 * (m + (if 2 < m then - 3 else 9)) + 2) div 5 + day - 1"
proof -
  define y where "y = year - (if m \<le> 2 then 1 else 0)"
  define t where "t = 153 * (m + (if 2 < m then - 3 else 9)) + 2"
  have y: "0 \<le> y" using assms(1) by (simp only: y_def)
  have t: "0 \<le> t" using assms(2,3) by (simp add: t_def)
  have e: "cdiv (if 0 \<le> y then y else y - 399) 400 = y div 400" using y by (simp add: cdiv_def)
  have r: "y - y div 400 * 400 = y mod 400" by (simp add: minus_div_mult_eq_mod)
  have c: "cdiv (y mod 400) 4 = (y mod 400) div 4" "cdiv (y mod 400) 100 = (y mod 400) div 100"
    by (simp_all add: cdiv_def)
  have d: "cdiv t 5 = t div 5" using t by (simp add: cdiv_def)
  have "days_from_civil year m day =
      y div 400 * 146097 + ((y mod 400) * 365 + (y mod 400) div 4 - (y mod 400) div 100 +
        (t div 5 + day - 1)) - 719468"
    unfolding days_from_civil_def Let_def y_def [symmetric] t_def [symmetric] e r c d ..
  then show ?thesis
    unfolding march_days_def y_def [symmetric] t_def [symmetric] using era_days [OF y] by linarith
qed

lemma div_step:
  fixes n y :: int
  assumes "0 < n"
  shows "(y + 1) div n = y div n + (if n dvd y + 1 then 1 else 0)"
proof (cases "n dvd y + 1")
  case True
  then obtain k where k: "y + 1 = n * k" by blast
  then have y: "y = n * (k - 1) + (n - 1)" by (simp add: right_diff_distrib)
  have "y div n = k - 1" by (rule int_div_pos_eq [OF y]) (use assms in simp_all)
  moreover have "(y + 1) div n = k" unfolding k using assms by simp
  ultimately show ?thesis using True by simp
next
  case False
  define r where "r = y mod n"
  have y: "y = n * (y div n) + r" by (simp add: r_def)
  have r: "0 \<le> r" "r < n" using assms by (simp_all add: r_def)
  have "r + 1 \<noteq> n"
  proof
    assume "r + 1 = n"
    then have "y + 1 = n * (y div n + 1)" using y by (simp add: distrib_left)
    with False show False by (metis dvd_triv_left)
  qed
  with r have r': "0 \<le> r + 1" "r + 1 < n" by simp_all
  have y': "y + 1 = n * (y div n) + (r + 1)" using y by simp
  have "(y + 1) div n = y div n" by (rule int_div_pos_eq [OF y' r'])
  with False show ?thesis by simp
qed

lemma march_days_step:
  "march_days (y + 1) = march_days y + 365 + (if leap (y + 1) then 1 else 0)"
proof -
  have imp: "400 dvd y + 1 \<longrightarrow> 100 dvd y + 1" "100 dvd y + 1 \<longrightarrow> 4 dvd y + 1"
  proof -
    have "(100 :: int) dvd 400" "(4 :: int) dvd 100" by simp_all
    then show "400 dvd y + 1 \<longrightarrow> 100 dvd y + 1" "100 dvd y + 1 \<longrightarrow> 4 dvd y + 1"
      by (blast intro: dvd_trans)+
  qed
  have aux: "(C \<longrightarrow> B) \<Longrightarrow> (B \<longrightarrow> A) \<Longrightarrow>
      (if A then 1 else 0) - (if B then 1 else 0) + (if C then 1 else 0) =
      (if A \<and> (B \<longrightarrow> C) then 1 else (0 :: int))" for A B C
    by (cases A; cases B; cases C) simp_all
  have d: "(y + 1) div 4 = y div 4 + (if 4 dvd y + 1 then 1 else 0)"
    "(y + 1) div 100 = y div 100 + (if 100 dvd y + 1 then 1 else 0)"
    "(y + 1) div 400 = y div 400 + (if 400 dvd y + 1 then 1 else 0)"
    by (rule div_step, simp)+
  have "march_days (y + 1) = march_days y + 365 + ((if 4 dvd y + 1 then 1 else 0) -
      (if 100 dvd y + 1 then 1 else 0) + (if 400 dvd y + 1 then 1 else 0))"
  proof -
    define A B C :: int where "A = (if 4 dvd y + 1 then 1 else 0)"
      and "B = (if 100 dvd y + 1 then 1 else 0)" and "C = (if 400 dvd y + 1 then 1 else 0)"
    show ?thesis unfolding march_days_def d A_def [symmetric] B_def [symmetric] C_def [symmetric]
      by (simp add: algebra_simps)
  qed
  then show ?thesis unfolding leap_def aux [OF imp] .
qed

text \<open>The number of the day after a date is the next number.\<close>

lemma days_next_day:
  assumes "valid_date (y, m, d)" "1 \<le> y" "next_day (y, m, d) = (y', m', d')"
  shows "days_from_civil y' m' d' = days_from_civil y m d + 1"
proof (cases "d < month_length y m")
  case True
  with assms(3) show ?thesis by (auto simp: next_day_def days_same_month)
next
  case False
  with assms(1) have d: "d = month_length y m" and m: "1 \<le> m" "m \<le> 12"
    by (auto simp: valid_date_def)
  have step: "march_days y = march_days (y - 1) + 365 + (if leap y then 1 else 0)"
    using march_days_step [of "y - 1"] by simp
  show ?thesis using m
  proof (cases rule: month_cases)
    case 12
    with assms(2,3) d False show ?thesis
      by (auto simp: next_day_def days_march month_length_def)
  qed (use assms(2,3) d False step in \<open>auto simp: next_day_def days_march month_length_def split: if_splits\<close>)
qed

subsection \<open>Reading what is printed\<close>

definition two_digits :: "nat \<Rightarrow> string" where
  "two_digits n = [digit_char (n div 10), digit_char (n mod 10)]"

definition four_digits :: "nat \<Rightarrow> string" where
  "four_digits n = two_digits (n div 100) @ two_digits (n mod 100)"

lemma digit_not_minus [simp]: "d < 10 \<Longrightarrow> digit_char d \<noteq> CHR ''-''"
proof -
  have "\<not> is_digit (CHR ''-'')" by (simp add: is_digit_iff)
  then show "d < 10 \<Longrightarrow> digit_char d \<noteq> CHR ''-''" using is_digit_digit [of d] by metis
qed

lemma int_chars_two: "n < 100 \<Longrightarrow> int_chars (two_digits n) = Some (int n)"
  by (simp add: int_chars_def two_digits_def dec_value_def)

lemma int_chars_four: "n < 10000 \<Longrightarrow> int_chars (four_digits n) = Some (int n)"
  by (simp add: int_chars_def four_digits_def two_digits_def dec_value_def)

lemma length_digits [simp]: "length (two_digits n) = 2" "length (four_digits n) = 4"
  by (simp_all add: two_digits_def four_digits_def)

lemma read_int_two [simp]:
  "n < 100 \<Longrightarrow> mn \<le> int n \<Longrightarrow> int n \<le> mx \<Longrightarrow> read_int 2 mn mx (two_digits n @ r) = Some (int n, r)"
  using int_chars_two [of n] by (simp add: read_int_def)

lemma read_int_four [simp]:
  "n < 10000 \<Longrightarrow> read_int 4 0 9999 (four_digits n @ r) = Some (int n, r)"
  using int_chars_four [of n] by (simp add: read_int_def)

lemma expect_same [simp]: "expect c (c # r) = Some r" and expect_other [simp]: "c \<noteq> d \<Longrightarrow> expect d (c # r) = None"
  by (simp_all add: expect_def)

definition print_rfc3339 :: "nat \<Rightarrow> nat \<Rightarrow> nat \<Rightarrow> nat \<Rightarrow> nat \<Rightarrow> nat \<Rightarrow> string" where
  "print_rfc3339 y mo d h mi s =
     four_digits y @ ''-'' @ two_digits mo @ ''-'' @ two_digits d @ ''T'' @
     two_digits h @ '':'' @ two_digits mi @ '':'' @ two_digits s @ ''Z''"

lemma parse_print_rfc3339:
  assumes "y < 10000" "1 \<le> mo" "mo \<le> 12" "1 \<le> d" "d \<le> 31" "h < 24" "mi < 60" "s < 60"
  shows "parse_rfc3339 (print_rfc3339 y mo d h mi s) =
    Some (days_from_civil (int y) (int mo) (int d) * 86400 + int h * 3600 + int mi * 60 + int s)"
  using assms
  by (simp add: parse_rfc3339_def print_rfc3339_def parse_date_def parse_time_def expect_or_def
      skip_fraction_def read_offset_def)

end
