(* ===== verification/ProgressStream.thy ===== *)
theory ProgressStream
  imports Json Demux
begin

section \<open>Pull and build progress streams\<close>

text \<open>
  \<open>throw_if_pull_error\<close> and \<open>BuildStreamScanner\<close> of \<open>src/docker/ApiMapping.cpp\<close>:
  newline-delimited JSON in which the daemon reports a failure although it answers 200.  The
  scanner is an \<open>incremental\<close> processor whose specification scans the lines of the whole
  text.  The consumer of the build output is a function on a state of its own (it does not
  throw); \<open>None\<close> is the empty \<open>std::function\<close>.
\<close>

subsection \<open>Pulls\<close>

definition pull_line :: "jsonlib \<Rightarrow> string \<Rightarrow> string \<Rightarrow> unit res" where
  "pull_line L img line =
     (if line = [] then Inr ()
      else case jl_parse L line of
             Inl _ \<Rightarrow> Inr ()
           | Inr j \<Rightarrow>
               (case jfind ''error'' j of
                  None \<Rightarrow> Inr ()
                | Some err \<Rightarrow>
                    Inl (DockerError
                      (''Failed to pull image '' @ [CHR 0x27] @ img @ [CHR 0x27] @ '': '' @
                       (case str_of err of Some s \<Rightarrow> s | None \<Rightarrow> jl_dump L err)) None img)))"

fun pull_lines :: "jsonlib \<Rightarrow> string \<Rightarrow> string list \<Rightarrow> unit res" where
  "pull_lines L img [] = Inr ()"
| "pull_lines L img (line # rest) = try_bind (pull_line L img line) (\<lambda>_. pull_lines L img rest)"

definition throw_if_pull_error :: "jsonlib \<Rightarrow> string \<Rightarrow> string \<Rightarrow> unit res" where
  "throw_if_pull_error L pull_stream img = pull_lines L img (getlines pull_stream)"

lemma pull_lines_ok:
  "pull_lines L img ls = Inr () \<longleftrightarrow>
     (\<forall>l \<in> set ls. l \<noteq> [] \<longrightarrow> (\<forall>j. jl_parse L l = Inr j \<longrightarrow> jfind ''error'' j = None))"
  by (induction ls) (auto simp: pull_line_def try_bind_Inr split: sum.splits option.splits)

lemma pull_lines_error: "pull_lines L img ls = Inl e \<Longrightarrow> is_docker_error e \<and> exn_status e = None"
  by (induction ls) (auto simp: pull_line_def split: sum.splits option.splits if_splits)

subsection \<open>Builds\<close>

definition kTailCap :: nat where
  "kTailCap = 4096"

record 'c BuildStreamScanner =
  bs_pending :: string
  bs_tail :: string
  bs_error :: "string option"
  bs_out :: 'c

definition new_scanner :: "'c \<Rightarrow> 'c BuildStreamScanner" where
  "new_scanner c = \<lparr>bs_pending = [], bs_tail = [], bs_error = None, bs_out = c\<rparr>"

definition cap_tail :: "string \<Rightarrow> string" where
  "cap_tail t = (if kTailCap < length t then drop (length t - kTailCap) t else t)"

definition scan_line ::
  "jsonlib \<Rightarrow> (string \<Rightarrow> 'c \<Rightarrow> 'c) option \<Rightarrow> 'c BuildStreamScanner \<Rightarrow> string \<Rightarrow> 'c BuildStreamScanner" where
  "scan_line L consumer s line =
     (if line = [] then s
      else case jl_parse L line of
             Inl _ \<Rightarrow> s
           | Inr j \<Rightarrow>
               (case jfind_str ''stream'' j of
                  Some buf \<Rightarrow>
                    s\<lparr>bs_out := (case consumer of Some f \<Rightarrow> f buf (bs_out s) | None \<Rightarrow> bs_out s),
                      bs_tail := cap_tail (bs_tail s @ buf)\<rparr>
                | None \<Rightarrow>
                    (if bs_error s \<noteq> None then s
                     else case jfind ''error'' j of
                            Some err \<Rightarrow>
                              s\<lparr>bs_error := Some (case str_of err of Some e \<Rightarrow> e | None \<Rightarrow> jl_dump L err)\<rparr>
                          | None \<Rightarrow>
                              (case jfind ''errorDetail'' j of
                                 None \<Rightarrow> s
                               | Some detail \<Rightarrow>
                                   s\<lparr>bs_error := Some (case jfind_str ''message'' detail of
                                                         Some m \<Rightarrow> m | None \<Rightarrow> jl_dump L detail)\<rparr>))))"

text \<open>The loop of \<open>feed\<close> over the complete lines, and what it leaves for the next chunk.\<close>

function scan_loop ::
  "jsonlib \<Rightarrow> (string \<Rightarrow> 'c \<Rightarrow> 'c) option \<Rightarrow> 'c BuildStreamScanner \<Rightarrow> string \<Rightarrow> 'c BuildStreamScanner" where
  "scan_loop L consumer s buf =
     (case split_first (CHR 0x0A) buf of
        None \<Rightarrow> s\<lparr>bs_pending := buf\<rparr>
      | Some (line, rest) \<Rightarrow> scan_loop L consumer (scan_line L consumer s line) rest)"
  by pat_completeness auto
termination
  by (relation "measure (\<lambda>(L, consumer, s, buf). length buf)") (auto dest: split_first_Some)

declare scan_loop.simps [simp del]

definition scanner_feed ::
  "jsonlib \<Rightarrow> (string \<Rightarrow> 'c \<Rightarrow> 'c) option \<Rightarrow> 'c BuildStreamScanner \<Rightarrow> string \<Rightarrow> 'c BuildStreamScanner" where
  "scanner_feed L consumer s chunk = scan_loop L consumer s (bs_pending s @ chunk)"

definition scanner_flush ::
  "jsonlib \<Rightarrow> (string \<Rightarrow> 'c \<Rightarrow> 'c) option \<Rightarrow> 'c BuildStreamScanner \<Rightarrow> 'c BuildStreamScanner" where
  "scanner_flush L consumer s =
     (if bs_pending s \<noteq> [] then (scan_line L consumer s (bs_pending s))\<lparr>bs_pending := []\<rparr> else s)"

definition build_verdict :: "string \<Rightarrow> 'c BuildStreamScanner \<Rightarrow> unit res" where
  "build_verdict tag s =
     (case bs_error s of
        None \<Rightarrow> Inr ()
      | Some e \<Rightarrow>
          Inl (DockerError
            (''image build failed: '' @ e @
             (if bs_tail s \<noteq> []
              then [CHR 0x0A] @ ''--- build output (tail) ---'' @ [CHR 0x0A] @ bs_tail s else []))
            None tag))"

definition scanner_finish ::
  "jsonlib \<Rightarrow> (string \<Rightarrow> 'c \<Rightarrow> 'c) option \<Rightarrow> string \<Rightarrow> 'c BuildStreamScanner
    \<Rightarrow> unit res \<times> 'c BuildStreamScanner" where
  "scanner_finish L consumer tag s =
     (let s' = scanner_flush L consumer s in (build_verdict tag s', s'))"

subsection \<open>Chunks do not matter\<close>

definition unlines :: "string list \<Rightarrow> string" where
  "unlines ls = concat (map (\<lambda>l. l @ [CHR 0x0A]) ls)"

lemma getlines_unlines:
  "\<forall>l \<in> set ls. CHR 0x0A \<notin> set l \<Longrightarrow> CHR 0x0A \<notin> set r \<Longrightarrow>
     getlines (unlines ls @ r) = ls @ (if r = [] then [] else [r])"
  by (induction ls) (auto simp: unlines_def)

lemma scan_line_pending [simp]: "bs_pending (scan_line L consumer s line) = bs_pending s"
  by (simp add: scan_line_def split: sum.splits option.splits)

lemma scan_line_frame:
  "scan_line L consumer (s\<lparr>bs_pending := p\<rparr>) line = (scan_line L consumer s line)\<lparr>bs_pending := p\<rparr>"
  by (simp add: scan_line_def split: sum.splits option.splits)

lemma foldl_scan_line_frame:
  "foldl (scan_line L consumer) (s\<lparr>bs_pending := p\<rparr>) ls =
     (foldl (scan_line L consumer) s ls)\<lparr>bs_pending := p\<rparr>"
  by (induction ls arbitrary: s) (simp_all add: scan_line_frame)

lemma scan_loop_lines:
  "\<exists>ls r. buf = unlines ls @ r \<and> (\<forall>l \<in> set ls. CHR 0x0A \<notin> set l) \<and> CHR 0x0A \<notin> set r \<and>
     scan_loop L consumer s buf = (foldl (scan_line L consumer) s ls)\<lparr>bs_pending := r\<rparr>"
proof (induction L consumer s buf rule: scan_loop.induct)
  case (1 L consumer s buf)
  show ?case
  proof (cases "split_first (CHR 0x0A) buf")
    case None
    then have "scan_loop L consumer s buf = s\<lparr>bs_pending := buf\<rparr>" by (subst scan_loop.simps) simp
    with None show ?thesis
      by (intro exI [of _ "[]"] exI [of _ buf]) (simp add: unlines_def split_first_None)
  next
    case (Some p)
    then obtain a b where p: "split_first (CHR 0x0A) buf = Some (a, b)" by (cases p) auto
    from "1.IH" [OF p refl] obtain ls r where ih:
      "b = unlines ls @ r" "\<forall>l \<in> set ls. CHR 0x0A \<notin> set l" "CHR 0x0A \<notin> set r"
      "scan_loop L consumer (scan_line L consumer s a) b =
         (foldl (scan_line L consumer) (scan_line L consumer s a) ls)\<lparr>bs_pending := r\<rparr>" by blast
    have "scan_loop L consumer s buf = scan_loop L consumer (scan_line L consumer s a) b"
      using p by (subst scan_loop.simps) simp
    with ih split_first_Some [OF p] show ?thesis
      by (intro exI [of _ "a # ls"] exI [of _ r]) (simp add: unlines_def)
  qed
qed

definition scanner_sim ::
  "jsonlib \<Rightarrow> (string \<Rightarrow> 'c \<Rightarrow> 'c) option \<Rightarrow> 'c \<Rightarrow> string \<Rightarrow> 'c BuildStreamScanner \<Rightarrow> bool" where
  "scanner_sim L consumer c h s \<longleftrightarrow>
     (\<exists>ls. (\<forall>l \<in> set ls. CHR 0x0A \<notin> set l) \<and> CHR 0x0A \<notin> set (bs_pending s) \<and>
        h = unlines ls @ bs_pending s \<and>
        s = (foldl (scan_line L consumer) (new_scanner c) ls)\<lparr>bs_pending := bs_pending s\<rparr>)"

definition scanner_spec ::
  "jsonlib \<Rightarrow> (string \<Rightarrow> 'c \<Rightarrow> 'c) option \<Rightarrow> 'c \<Rightarrow> string \<Rightarrow> 'c BuildStreamScanner" where
  "scanner_spec L consumer c h = foldl (scan_line L consumer) (new_scanner c) (getlines h)"

lemma foldl_scan_pending [simp]:
  "bs_pending (foldl (scan_line L consumer) s ls) = bs_pending s"
  by (induction ls arbitrary: s) simp_all

lemma new_scanner_pending [simp]: "bs_pending (new_scanner c) = []"
  by (simp add: new_scanner_def)

lemma unlines_append: "unlines (xs @ ys) = unlines xs @ unlines ys"
  by (simp add: unlines_def)

interpretation scanner: incremental "new_scanner c" "scanner_feed L consumer"
  "scanner_sim L consumer c" "scanner_flush L consumer" "scanner_spec L consumer c"
  for L consumer c
proof unfold_locales
  show "scanner_sim L consumer c [] (new_scanner c)"
    unfolding scanner_sim_def by (intro exI [of _ "[]"]) (simp add: unlines_def new_scanner_def)
next
  fix h s x
  assume "scanner_sim L consumer c h s"
  then obtain ls where ls: "\<forall>l \<in> set ls. CHR 0x0A \<notin> set l" "CHR 0x0A \<notin> set (bs_pending s)"
    "h = unlines ls @ bs_pending s"
    "s = (foldl (scan_line L consumer) (new_scanner c) ls)\<lparr>bs_pending := bs_pending s\<rparr>"
    unfolding scanner_sim_def by blast
  obtain ms r where m: "bs_pending s @ x = unlines ms @ r" "\<forall>l \<in> set ms. CHR 0x0A \<notin> set l"
    "CHR 0x0A \<notin> set r"
    "scan_loop L consumer s (bs_pending s @ x) = (foldl (scan_line L consumer) s ms)\<lparr>bs_pending := r\<rparr>"
    using scan_loop_lines by blast
  have "foldl (scan_line L consumer) s ms =
      (foldl (scan_line L consumer) (new_scanner c) (ls @ ms))\<lparr>bs_pending := bs_pending s\<rparr>"
    by (subst ls(4)) (simp add: foldl_scan_line_frame)
  with m(4) have f: "scanner_feed L consumer s x =
      (foldl (scan_line L consumer) (new_scanner c) (ls @ ms))\<lparr>bs_pending := r\<rparr>"
    by (simp add: scanner_feed_def)
  then show "scanner_sim L consumer c (h @ x) (scanner_feed L consumer s x)"
    unfolding scanner_sim_def using ls m
    by (intro exI [of _ "ls @ ms"]) (auto simp: unlines_append)
next
  fix h s
  assume "scanner_sim L consumer c h s"
  then obtain ls where ls: "\<forall>l \<in> set ls. CHR 0x0A \<notin> set l" "CHR 0x0A \<notin> set (bs_pending s)"
    "h = unlines ls @ bs_pending s"
    "s = (foldl (scan_line L consumer) (new_scanner c) ls)\<lparr>bs_pending := bs_pending s\<rparr>"
    unfolding scanner_sim_def by blast
  let ?t = "foldl (scan_line L consumer) (new_scanner c) ls"
  have g: "getlines h = ls @ (if bs_pending s = [] then [] else [bs_pending s])"
    using ls by (simp add: getlines_unlines)
  have p0: "?t\<lparr>bs_pending := []\<rparr> = ?t" by (metis foldl_scan_line_frame foldl_scan_pending new_scanner_pending
        BuildStreamScanner.surjective BuildStreamScanner.update_convs(1))
  show "scanner_flush L consumer s = scanner_spec L consumer c h"
  proof (cases "bs_pending s = []")
    case True
    then have "s = ?t" using ls(4) p0 by metis
    with True g show ?thesis by (simp add: scanner_flush_def scanner_spec_def)
  next
    case False
    have "(scan_line L consumer s (bs_pending s))\<lparr>bs_pending := []\<rparr> =
        (scan_line L consumer ?t (bs_pending s))\<lparr>bs_pending := []\<rparr>"
      by (subst (1) ls(4)) (simp add: scan_line_frame)
    also have "\<dots> = scan_line L consumer ?t (bs_pending s)" by (metis p0 scan_line_frame)
    finally show ?thesis using False g by (simp add: scanner_flush_def scanner_spec_def)
  qed
qed

text \<open>The output kept for the message of a failed build stays below the cap.\<close>

lemma cap_tail_length: "length (cap_tail t) \<le> kTailCap"
  by (simp add: cap_tail_def)

lemma scan_line_tail:
  "length (bs_tail s) \<le> kTailCap \<Longrightarrow> length (bs_tail (scan_line L consumer s line)) \<le> kTailCap"
  by (simp add: scan_line_def cap_tail_length split: sum.splits option.splits)

lemma foldl_scan_tail:
  "length (bs_tail s) \<le> kTailCap \<Longrightarrow> length (bs_tail (foldl (scan_line L consumer) s ls)) \<le> kTailCap"
  by (induction ls arbitrary: s) (simp_all add: scan_line_tail)

text \<open>The first error stays.\<close>

lemma scan_line_error_kept:
  "bs_error s = Some e \<Longrightarrow> bs_error (scan_line L consumer s line) = Some e"
  by (simp add: scan_line_def split: sum.splits option.splits)

lemma foldl_scan_error_kept:
  "bs_error s = Some e \<Longrightarrow> bs_error (foldl (scan_line L consumer) s ls) = Some e"
  by (induction ls arbitrary: s) (simp_all add: scan_line_error_kept)

end
