(* ===== verification/Actions.thy ===== *)
theory Actions
  imports TC_Prelude
begin

section \<open>Stateful computations that may throw\<close>

text \<open>
  The state-passing style of the stateful components: an action takes the state and gives a
  value or an exception together with the state reached.  An exception keeps the state, as a
  C++ throw keeps the side effects made before it.
\<close>

type_synonym ('s, 'a) act = "'s \<Rightarrow> 'a res \<times> 's"

definition ret :: "'a \<Rightarrow> ('s, 'a) act" where
  "ret x s = (Inr x, s)"

definition throw :: "exn \<Rightarrow> ('s, 'a) act" where
  "throw e s = (Inl e, s)"

definition lift_res :: "'a res \<Rightarrow> ('s, 'a) act" where
  "lift_res r s = (r, s)"

definition andThen :: "('s, 'a) act \<Rightarrow> ('a \<Rightarrow> ('s, 'b) act) \<Rightarrow> ('s, 'b) act" where
  "andThen m f s = (case m s of (Inl e, s') \<Rightarrow> (Inl e, s') | (Inr x, s') \<Rightarrow> f x s')"

text \<open>\<open>try { m } catch (e) { h e }\<close>.\<close>

definition catching :: "('s, 'a) act \<Rightarrow> (exn \<Rightarrow> ('s, 'a) act) \<Rightarrow> ('s, 'a) act" where
  "catching m h s = (case m s of (Inl e, s') \<Rightarrow> h e s' | (Inr x, s') \<Rightarrow> (Inr x, s'))"

definition modify :: "('s \<Rightarrow> 's) \<Rightarrow> ('s, unit) act" where
  "modify f s = (Inr (), f s)"

definition gets :: "('s \<Rightarrow> 'a) \<Rightarrow> ('s, 'a) act" where
  "gets f s = (Inr (f s), s)"

definition only_if :: "bool \<Rightarrow> ('s, unit) act \<Rightarrow> ('s, unit) act" where
  "only_if c m = (if c then m else ret ())"

fun each :: "('a \<Rightarrow> ('s, unit) act) \<Rightarrow> 'a list \<Rightarrow> ('s, unit) act" where
  "each f [] = ret ()"
| "each f (x # xs) = andThen (f x) (\<lambda>_. each f xs)"

fun each_map :: "('a \<Rightarrow> ('s, 'b) act) \<Rightarrow> 'a list \<Rightarrow> ('s, 'b list) act" where
  "each_map f [] = ret []"
| "each_map f (x # xs) = andThen (f x) (\<lambda>y. andThen (each_map f xs) (\<lambda>ys. ret (y # ys)))"

lemma ret_apply [simp]: "ret x s = (Inr x, s)"
  by (simp add: ret_def)

lemma throw_apply [simp]: "throw e s = (Inl e, s)"
  by (simp add: throw_def)

lemma lift_res_apply [simp]: "lift_res r s = (r, s)"
  by (simp add: lift_res_def)

lemma modify_apply [simp]: "modify f s = (Inr (), f s)"
  by (simp add: modify_def)

lemma gets_apply [simp]: "gets f s = (Inr (f s), s)"
  by (simp add: gets_def)

lemma andThen_apply:
  "andThen m f s = (case m s of (Inl e, s') \<Rightarrow> (Inl e, s') | (Inr x, s') \<Rightarrow> f x s')"
  by (simp add: andThen_def)

lemma andThen_ok [simp]: "m s = (Inr x, s') \<Longrightarrow> andThen m f s = f x s'"
  by (simp add: andThen_def)

lemma andThen_err [simp]: "m s = (Inl e, s') \<Longrightarrow> andThen m f s = (Inl e, s')"
  by (simp add: andThen_def)

lemma catching_ok [simp]: "m s = (Inr x, s') \<Longrightarrow> catching m h s = (Inr x, s')"
  by (simp add: catching_def)

lemma catching_err [simp]: "m s = (Inl e, s') \<Longrightarrow> catching m h s = h e s'"
  by (simp add: catching_def)

lemma only_if_True [simp]: "only_if True m = m" and only_if_False [simp]: "only_if False m = ret ()"
  by (simp_all add: only_if_def)

lemma andThen_Inr:
  "andThen m f s = (Inr y, s'') \<longleftrightarrow> (\<exists>x s'. m s = (Inr x, s') \<and> f x s' = (Inr y, s''))"
  by (cases "m s"; cases "fst (m s)") (auto simp: andThen_def split: sum.splits)

lemma andThen_Inl:
  "andThen m f s = (Inl e, s'') \<longleftrightarrow>
     m s = (Inl e, s'') \<or> (\<exists>x s'. m s = (Inr x, s') \<and> f x s' = (Inl e, s''))"
  by (cases "m s"; cases "fst (m s)") (auto simp: andThen_def split: sum.splits)

lemma andThen_assoc: "andThen (andThen m f) g = andThen m (\<lambda>x. andThen (f x) g)"
  by (rule ext) (auto simp: andThen_def split: prod.splits sum.splits)

text \<open>
  Resource safety: an invariant of the state that every step of an action keeps.
\<close>

definition keeps :: "('s \<Rightarrow> bool) \<Rightarrow> ('s, 'a) act \<Rightarrow> bool" where
  "keeps P m \<longleftrightarrow> (\<forall>s. P s \<longrightarrow> P (snd (m s)))"

lemma keeps_ret [intro, simp]: "keeps P (ret x)"
  by (simp add: keeps_def)

lemma keeps_throw [intro, simp]: "keeps P (throw e)"
  by (simp add: keeps_def)

lemma keeps_lift [intro, simp]: "keeps P (lift_res r)"
  by (simp add: keeps_def)

lemma keeps_gets [intro, simp]: "keeps P (gets f)"
  by (simp add: keeps_def)

lemma keeps_modify: "(\<And>s. P s \<Longrightarrow> P (f s)) \<Longrightarrow> keeps P (modify f)"
  by (simp add: keeps_def)

lemma keeps_andThen [intro]: "keeps P m \<Longrightarrow> (\<And>x. keeps P (f x)) \<Longrightarrow> keeps P (andThen m f)"
proof -
  assume m: "keeps P m" and f: "\<And>x. keeps P (f x)"
  show "keeps P (andThen m f)" unfolding keeps_def
  proof (intro allI impI)
    fix s assume "P s"
    obtain r s' where r: "m s = (r, s')" by (cases "m s")
    with m \<open>P s\<close> have "P s'" by (auto simp: keeps_def)
    with r f show "P (snd (andThen m f s))" by (cases r) (auto simp: keeps_def)
  qed
qed

lemma keeps_catching [intro]: "keeps P m \<Longrightarrow> (\<And>e. keeps P (h e)) \<Longrightarrow> keeps P (catching m h)"
proof -
  assume m: "keeps P m" and h: "\<And>e. keeps P (h e)"
  show "keeps P (catching m h)" unfolding keeps_def
  proof (intro allI impI)
    fix s assume "P s"
    obtain r s' where r: "m s = (r, s')" by (cases "m s")
    with m \<open>P s\<close> have "P s'" by (auto simp: keeps_def)
    with r h show "P (snd (catching m h s))" by (cases r) (auto simp: keeps_def)
  qed
qed

lemma keeps_only_if [intro]: "keeps P m \<Longrightarrow> keeps P (only_if c m)"
  by (cases c) simp_all

lemma keeps_if [intro]: "keeps P m \<Longrightarrow> keeps P n \<Longrightarrow> keeps P (if c then m else n)"
  by simp

lemma keeps_each: "(\<And>x. keeps P (f x)) \<Longrightarrow> keeps P (each f xs)"
  by (induction xs) auto

subsection \<open>Computations that may go on\<close>

text \<open>
  A loop that waits for something may not return.  A run gives \<open>None\<close> when it has not returned
  within its fuel, or while the events it was given leave a read loop reading.
\<close>

type_synonym ('s, 'a) run = "'s \<Rightarrow> ('a res \<times> 's) option"

definition runs :: "('s, 'a) act \<Rightarrow> ('s, 'a) run" where
  "runs m s = Some (m s)"

definition runThen :: "('s, 'a) run \<Rightarrow> ('a \<Rightarrow> ('s, 'b) run) \<Rightarrow> ('s, 'b) run" where
  "runThen m f s =
     (case m s of None \<Rightarrow> None | Some (Inl e, s') \<Rightarrow> Some (Inl e, s') | Some (Inr x, s') \<Rightarrow> f x s')"

definition runCatching :: "('s, 'a) run \<Rightarrow> (exn \<Rightarrow> ('s, 'a) run) \<Rightarrow> ('s, 'a) run" where
  "runCatching m h s =
     (case m s of None \<Rightarrow> None | Some (Inl e, s') \<Rightarrow> h e s' | Some (Inr x, s') \<Rightarrow> Some (Inr x, s'))"

text \<open>An action whose value is \<open>None\<close> while it goes on.\<close>

definition finished :: "('s, 'a option \<times> 'c) act \<Rightarrow> ('s, 'a \<times> 'c) run" where
  "finished m s =
     (case m s of (Inl e, s') \<Rightarrow> Some (Inl e, s') | (Inr (None, c), s') \<Rightarrow> None
      | (Inr (Some x, c), s') \<Rightarrow> Some (Inr (x, c), s'))"

text \<open>
  The polling loop: probe, stop when ready, give up once the deadline has passed, pause, again.
  The probe carries the loop's local variables; \<open>None\<close> says ready.
\<close>

fun poll_loop ::
  "nat \<Rightarrow> ('l \<Rightarrow> ('s, 'l option) run) \<Rightarrow> ('s \<Rightarrow> bool) \<Rightarrow> ('l \<Rightarrow> exn) \<Rightarrow> ('s \<Rightarrow> 's) \<Rightarrow> 'l \<Rightarrow> ('s, unit) run" where
  "poll_loop 0 probe expired timeout pause l s = None"
| "poll_loop (Suc n) probe expired timeout pause l s =
     (case probe l s of
        None \<Rightarrow> None
      | Some (Inl e, s1) \<Rightarrow> Some (Inl e, s1)
      | Some (Inr None, s1) \<Rightarrow> Some (Inr (), s1)
      | Some (Inr (Some l'), s1) \<Rightarrow>
          (if expired s1 then Some (Inl (timeout l'), s1)
           else poll_loop n probe expired timeout pause l' (pause s1)))"

lemma runs_apply [simp]: "runs m s = Some (m s)"
  by (simp add: runs_def)

lemma runThen_Some:
  "runThen m f s = Some (r, t) \<longleftrightarrow>
     (\<exists>e. m s = Some (Inl e, t) \<and> r = Inl e) \<or> (\<exists>x s'. m s = Some (Inr x, s') \<and> f x s' = Some (r, t))"
  by (auto simp: runThen_def split: option.splits prod.splits sum.splits)

text \<open>
  The loop returns: when every pause moves a clock forward by at least \<open>step\<close>, no probe moves it
  back, every probe returns, and the loop is expired once the clock has reached the deadline,
  \<open>n + 1\<close> turns are enough for a deadline at most \<open>n * step\<close> away.
\<close>

lemma poll_loop_returns:
  fixes clk :: "'s \<Rightarrow> int"
  assumes pause: "\<And>s. clk s + step \<le> clk (pause s)"
    and probe: "\<And>l s. \<exists>r s'. probe l s = Some (r, s') \<and> clk s \<le> clk s'"
    and expired: "\<And>s. deadline \<le> clk s \<Longrightarrow> expired s"
    and fuel: "deadline - clk s \<le> int n * step"
  shows "poll_loop (Suc n) probe expired timeout pause l s \<noteq> None"
  using fuel
proof (induction n arbitrary: l s)
  case 0
  obtain r s1 where p: "probe l s = Some (r, s1)" "clk s \<le> clk s1" using probe by blast
  with 0 expired [of s1] have "expired s1" by simp
  with p show ?case by (cases r) (auto split: option.splits)
next
  case (Suc n)
  obtain r s1 where p: "probe l s = Some (r, s1)" "clk s \<le> clk s1" using probe by blast
  have "deadline - clk (pause s1) \<le> int n * step"
    using Suc.prems p(2) pause [of s1] by (simp add: algebra_simps)
  then have "poll_loop (Suc n) probe expired timeout pause l' (pause s1) \<noteq> None" for l'
    by (rule Suc.IH)
  with p show ?case by (cases r) (auto split: option.splits simp del: poll_loop.simps(2)
      simp: poll_loop.simps(2) [of "Suc n"])
qed

text \<open>A loop that returns normally ends with a probe that found the thing ready.\<close>

lemma poll_loop_ready:
  "poll_loop n probe expired timeout pause l s = Some (Inr (), t) \<Longrightarrow>
     \<exists>l' s'. probe l' s' = Some (Inr None, t)"
  by (induction n probe expired timeout pause l s rule: poll_loop.induct)
    (auto split: option.splits sum.splits prod.splits if_splits)

lemma poll_loop_first:
  "probe l s = Some (Inr None, t) \<Longrightarrow> poll_loop (Suc n) probe expired timeout pause l s = Some (Inr (), t)"
  by simp

lemma poll_loop_failure:
  "poll_loop n probe expired timeout pause l s = Some (Inl e, t) \<Longrightarrow>
     (\<exists>l' s'. probe l' s' = Some (Inl e, t)) \<or> (\<exists>l'. e = timeout l' \<and> expired t)"
  by (induction n probe expired timeout pause l s rule: poll_loop.induct)
    (auto split: option.splits sum.splits prod.splits if_splits)

subsection \<open>Random names\<close>

text \<open>\<open>src/RandomHex.hpp\<close>: the generator draws a digit from 0 to 15.\<close>

fun random_hex :: "('w \<Rightarrow> nat \<times> 'w) \<Rightarrow> nat \<Rightarrow> 'w \<Rightarrow> string \<times> 'w" where
  "random_hex draw 0 w = ([], w)"
| "random_hex draw (Suc n) w =
     (let (d, w1) = draw w; (out, w2) = random_hex draw n w1 in (''0123456789abcdef'' ! d # out, w2))"

definition random_resource_name :: "('w \<Rightarrow> nat \<times> 'w) \<Rightarrow> 'w \<Rightarrow> string \<times> 'w" where
  "random_resource_name draw w = (let (hex, w1) = random_hex draw 16 w in (''tc-'' @ hex, w1))"

lemma random_hex_length: "length (fst (random_hex draw n w)) = n"
  by (induction n arbitrary: w) (simp_all add: Let_def split_def)

end
