(* ===== verification/Client.thy ===== *)
theory Client
  imports Actions ApiParse ProgressStream Endpoint Registry
begin

section \<open>The Docker client: requests, sessions and the typed operations\<close>

text \<open>
  \<open>src/docker/DockerClient.cpp\<close> and \<open>include/testcontainers/docker/DockerClient.hpp\<close>: one
  request/response exchange, the session's kept-alive connection with its single retry, API
  version pinning, and the operations on images, containers, networks and volumes.  The
  transport (Boost.Beast over a socket, a pipe or TLS) is not in the repository's hands: the
  record \<open>net\<close> gives what it does to a world \<open>'w\<close>, and a connection is a handle.
\<close>

subsection \<open>The wire\<close>

datatype net_ec = EndOfStream | BodyLimit | EcTimedOut string | EcOther string

fun ec_message :: "net_ec \<Rightarrow> string" where
  "ec_message EndOfStream = ''end of stream''"
| "ec_message BodyLimit = ''body limit exceeded''"
| "ec_message (EcTimedOut m) = m"
| "ec_message (EcOther m) = m"

record http_request =
  rq_method :: string
  rq_target :: string
  rq_body :: string
  rq_headers :: "(string \<times> string) list"
  rq_keep_alive :: bool

record Response =
  rs_status_code :: int
  rs_reason :: string
  rs_body :: string
  rs_headers :: "(string \<times> string) list"

text \<open>What a write and a read of one exchange reported, and the parser's state after them.\<close>

record wire_result =
  wr_write_ec :: "net_ec option"
  wr_read_ec :: "net_ec option"
  wr_done :: bool
  wr_response :: Response
  wr_keep_alive :: bool
  wr_need_eof :: bool

record TransportTimeouts =
  tt_connect :: int
  tt_io :: "int option"

record 'w net =
  net_connect :: "DockerHost \<Rightarrow> TransportTimeouts \<Rightarrow> 'w \<Rightarrow> nat res \<times> 'w"
  net_exchange :: "nat \<Rightarrow> http_request \<Rightarrow> nat option \<Rightarrow> bool \<Rightarrow> 'w \<Rightarrow> wire_result \<times> 'w"
  net_set_io_timeout :: "nat \<Rightarrow> int option \<Rightarrow> 'w \<Rightarrow> 'w"
  net_close :: "nat \<Rightarrow> 'w \<Rightarrow> 'w"
  net_sleep :: "int \<Rightarrow> 'w \<Rightarrow> 'w"
  net_auth :: "string \<Rightarrow> 'w \<Rightarrow> RegistryAuth option \<times> 'w"
  net_json :: jsonlib
  net_version :: string

text \<open>\<open>throw_transport_error\<close>.\<close>

definition transport_error :: "string \<Rightarrow> net_ec \<Rightarrow> exn" where
  "transport_error message ec =
     (case ec of EcTimedOut _ \<Rightarrow> TransportTimeoutError message [] | _ \<Rightarrow> DockerError message None [])"

text \<open>\<open>throw_status_error\<close>: the typed error of a failing status.\<close>

definition status_error :: "string \<Rightarrow> int \<Rightarrow> string \<Rightarrow> string \<Rightarrow> exn" where
  "status_error context status body resource_id =
     (let msg = context @ '' failed: HTTP '' @ int_dec status @ (if body = [] then [] else '' '' @ body)
      in if status = 404 then NotFoundError msg resource_id
         else DockerError msg (Some status) resource_id)"

definition response_error :: "string \<Rightarrow> Response \<Rightarrow> string \<Rightarrow> exn" where
  "response_error context res resource_id =
     status_error context (rs_status_code res) (rs_body res) resource_id"

definition response_ok :: "Response \<Rightarrow> bool" where
  "response_ok res \<longleftrightarrow> 200 \<le> rs_status_code res \<and> rs_status_code res < 300"

fun header_value :: "string \<Rightarrow> (string \<times> string) list \<Rightarrow> string" where
  "header_value name [] = []"
| "header_value name ((key, value) # hs) =
     (if to_lower key = to_lower name then value else header_value name hs)"

definition response_header :: "Response \<Rightarrow> string \<Rightarrow> string" where
  "response_header res name = header_value name (rs_headers res)"

subsection \<open>The client's state\<close>

record 'w client =
  cl_host :: DockerHost
  cl_timeouts :: TransportTimeouts
  cl_pull_attempts :: int
  cl_pull_first_delay :: int
  cl_max_response_body :: "nat option"
  cl_api_prefix :: "string option"
  cl_session_enabled :: bool
  cl_session_transport :: "nat option"
  cl_os_cache :: "string \<rightharpoonup> string"
  cl_world :: 'w

text \<open>The constructor with the default member initializers, in a process with the given cache.\<close>

definition new_client :: "DockerHost \<Rightarrow> (string \<rightharpoonup> string) \<Rightarrow> 'w \<Rightarrow> 'w client" where
  "new_client host os_cache w =
     \<lparr>cl_host = host, cl_timeouts = \<lparr>tt_connect = 10000, tt_io = Some 60000\<rparr>, cl_pull_attempts = 3,
      cl_pull_first_delay = 1000, cl_max_response_body = None, cl_api_prefix = None,
      cl_session_enabled = False, cl_session_transport = None, cl_os_cache = os_cache, cl_world = w\<rparr>"

definition client_from_environment ::
  "jsonlib \<Rightarrow> bool \<Rightarrow> environ \<Rightarrow> files \<Rightarrow> (string \<Rightarrow> bool) \<Rightarrow> prop_cache \<Rightarrow> (string \<rightharpoonup> string) \<Rightarrow> 'w \<Rightarrow>
    'w client res \<times> prop_cache" where
  "client_from_environment L windows env fs exists_file cache os_cache w =
     (case resolve_docker_host L windows env fs exists_file cache of
        (host, cache1) \<Rightarrow> (try_bind host (\<lambda>h. Inr (new_client h os_cache w)), cache1))"

text \<open>A call on a client made for it, as the static functions make them.\<close>

definition with_fresh :: "('w \<Rightarrow> 'w client res \<times> 'w) \<Rightarrow> ('w client, 'a) act \<Rightarrow> ('w, 'a) act" where
  "with_fresh fresh m w =
     (case fresh w of
        (Inl e, w1) \<Rightarrow> (Inl e, w1)
      | (Inr c, w1) \<Rightarrow> (case m (c\<lparr>cl_world := w1\<rparr>) of (r, c1) \<Rightarrow> (r, cl_world c1)))"

text \<open>A copy carries the settings and the negotiated version, never the session.\<close>

definition copy_client :: "'w client \<Rightarrow> 'w client" where
  "copy_client other = other\<lparr>cl_session_enabled := False, cl_session_transport := None\<rparr>"

definition set_pull_retry :: "int \<Rightarrow> int \<Rightarrow> 'w client \<Rightarrow> 'w client" where
  "set_pull_retry attempts first_delay c =
     c\<lparr>cl_pull_attempts := (if attempts < 1 then 1 else attempts), cl_pull_first_delay := first_delay\<rparr>"

definition world_op :: "('w \<Rightarrow> 'a \<times> 'w) \<Rightarrow> ('w client, 'a) act" where
  "world_op f c = (let (x, w) = f (cl_world c) in (Inr x, c\<lparr>cl_world := w\<rparr>))"

definition world_res :: "('w \<Rightarrow> 'a res \<times> 'w) \<Rightarrow> ('w client, 'a) act" where
  "world_res f c = (let (r, w) = f (cl_world c) in (r, c\<lparr>cl_world := w\<rparr>))"

definition world_do :: "('w \<Rightarrow> 'w) \<Rightarrow> ('w client, unit) act" where
  "world_do f c = (Inr (), c\<lparr>cl_world := f (cl_world c)\<rparr>)"

subsection \<open>request\<close>

definition make_request :: "'w net \<Rightarrow> DockerHost \<Rightarrow> string \<Rightarrow> string \<Rightarrow> http_request" where
  "make_request net host method target =
     \<lparr>rq_method = method, rq_target = target, rq_body = [],
      rq_headers = [(''Host'', http_host host), (''User-Agent'', ''testcontainers-cpp/'' @ net_version net)],
      rq_keep_alive = False\<rparr>"

text \<open>\<open>req.set(key, value)\<close> replaces a header of that name, whatever its case.\<close>

definition set_header :: "(string \<times> string) list \<Rightarrow> string \<times> string \<Rightarrow> (string \<times> string) list" where
  "set_header hs kv = filter (\<lambda>h. to_lower (fst h) \<noteq> to_lower (fst kv)) hs @ [kv]"

definition exchange_error :: "string \<Rightarrow> string \<Rightarrow> string \<Rightarrow> string \<Rightarrow> string" where
  "exchange_error what method target why =
     ''Failed to '' @ what @ '' Docker ('' @ method @ '' '' @ target @ ''): '' @ why"

text \<open>The outcome of an exchange: the response and whether the connection may be used again.\<close>

definition perform_result ::
  "string \<Rightarrow> string \<Rightarrow> nat option \<Rightarrow> bool \<Rightarrow> wire_result \<Rightarrow> (Response \<times> bool) res" where
  "perform_result method target cap keep_alive wr =
     (case wr_write_ec wr of
        Some ec \<Rightarrow>
          Inl (transport_error (exchange_error ''send request to'' method target (ec_message ec)) ec)
      | None \<Rightarrow>
          (if wr_read_ec wr = Some EndOfStream \<and> \<not> wr_done wr then
             Inl (DockerError (exchange_error ''read response from'' method target
                    ''connection closed before the response completed'') None [])
           else if wr_read_ec wr = Some BodyLimit then
             Inl (DockerError (exchange_error ''read response from'' method target
                    (''the response body exceeds the configured max_response_body cap of '' @
                     to_dec (case cap of Some n \<Rightarrow> n | None \<Rightarrow> 0) @ '' bytes'')) None [])
           else case (if wr_read_ec wr = Some EndOfStream then None else wr_read_ec wr) of
                  Some ec \<Rightarrow>
                    Inl (transport_error
                      (exchange_error ''read response from'' method target (ec_message ec)) ec)
                | None \<Rightarrow>
                    Inr (wr_response wr, keep_alive \<and> wr_keep_alive wr \<and> \<not> wr_need_eof wr)))"

definition perform ::
  "'w net \<Rightarrow> string \<Rightarrow> string \<Rightarrow> string \<Rightarrow> (string \<times> string) list \<Rightarrow> nat \<Rightarrow> bool \<Rightarrow>
    ('w client, Response \<times> bool) act" where
  "perform net method target body headers conn keep_alive c =
     (let req0 = make_request net (cl_host c) method target;
          req = req0\<lparr>rq_keep_alive := keep_alive,
                     rq_headers := foldl set_header (rq_headers req0) headers,
                     rq_body := body\<rparr>;
          (wr, w) = net_exchange net conn req (cl_max_response_body c) (method = ''HEAD'') (cl_world c)
      in (perform_result method target (cl_max_response_body c) keep_alive wr, c\<lparr>cl_world := w\<rparr>))"

text \<open>The fall-through of the function: a fresh connection, kept only for a reusable session.\<close>

definition fresh_request ::
  "'w net \<Rightarrow> string \<Rightarrow> string \<Rightarrow> string \<Rightarrow> (string \<times> string) list \<Rightarrow> TransportTimeouts \<Rightarrow> bool \<Rightarrow>
    ('w client, Response) act" where
  "fresh_request net method target body headers timeouts reuse =
     andThen (\<lambda>c. world_res (net_connect net (cl_host c) timeouts) c) (\<lambda>conn.
     andThen (perform net method target body headers conn reuse) (\<lambda>(out, conn_reusable).
     andThen
       (if reuse \<and> conn_reusable then modify (\<lambda>c. c\<lparr>cl_session_transport := Some conn\<rparr>)
        else world_do (net_close net conn))
       (\<lambda>_. ret out)))"

definition drop_session_transport :: "('w client, unit) act" where
  "drop_session_transport = modify (\<lambda>c. c\<lparr>cl_session_transport := None\<rparr>)"

definition is_timeout :: "exn \<Rightarrow> bool" where
  "is_timeout e = (case e of TransportTimeoutError _ _ \<Rightarrow> True | _ \<Rightarrow> False)"

definition request_with_io_timeout ::
  "'w net \<Rightarrow> string \<Rightarrow> string \<Rightarrow> string \<Rightarrow> (string \<times> string) list \<Rightarrow> int option \<Rightarrow>
    ('w client, Response) act" where
  "request_with_io_timeout net method target body headers io_timeout c =
     (let timeouts = (cl_timeouts c)\<lparr>tt_io := io_timeout\<rparr>;
          reuse = (cl_session_enabled c \<and> method = ''GET'');
          fresh = fresh_request net method target body headers timeouts reuse
      in case cl_session_transport c of
           None \<Rightarrow> fresh c
         | Some conn \<Rightarrow>
             (if \<not> reuse then fresh c
              else
                andThen (world_do (net_set_io_timeout net conn io_timeout)) (\<lambda>_ c1.
                case perform net method target body headers conn True c1 of
                  (Inr (out, conn_reusable), c2) \<Rightarrow>
                    andThen (if conn_reusable then ret () else drop_session_transport) (\<lambda>_. ret out) c2
                | (Inl e, c2) \<Rightarrow>
                    (if is_timeout e then andThen drop_session_transport (\<lambda>_. throw e) c2
                     else if is_docker_error e then andThen drop_session_transport (\<lambda>_. fresh) c2
                     else (Inl e, c2))) c))"

definition request ::
  "'w net \<Rightarrow> string \<Rightarrow> string \<Rightarrow> string \<Rightarrow> (string \<times> string) list \<Rightarrow> ('w client, Response) act" where
  "request net method target body headers c =
     request_with_io_timeout net method target body headers (tt_io (cl_timeouts c)) c"

subsection \<open>Sessions\<close>

definition session_begin :: "'w client \<Rightarrow> bool \<times> 'w client" where
  "session_begin c = (\<not> cl_session_enabled c, c\<lparr>cl_session_enabled := True\<rparr>)"

definition end_session :: "'w net \<Rightarrow> 'w client \<Rightarrow> 'w client" where
  "end_session net c =
     (let c1 = c\<lparr>cl_session_enabled := False\<rparr> in
      case cl_session_transport c1 of
        None \<Rightarrow> c1
      | Some conn \<Rightarrow> c1\<lparr>cl_world := net_close net conn (cl_world c1), cl_session_transport := None\<rparr>)"

definition session_finish :: "'w net \<Rightarrow> bool \<Rightarrow> 'w client \<Rightarrow> 'w client" where
  "session_finish net owns c = (if owns then end_session net c else c)"

text \<open>A scope under a session guard: its destructor runs on both exits.\<close>

definition with_session :: "'w net \<Rightarrow> ('w client, 'a) act \<Rightarrow> ('w client, 'a) act" where
  "with_session net m c =
     (let (owns, c1) = session_begin c; (r, c2) = m c1 in (r, session_finish net owns c2))"

subsection \<open>Version pinning and the engine\<close>

definition api_prefix :: "'w net \<Rightarrow> ('w client, string) act" where
  "api_prefix net c =
     (case cl_api_prefix c of
        Some p \<Rightarrow> (Inr p, c)
      | None \<Rightarrow>
          andThen (request net ''GET'' ''/_ping'' [] []) (\<lambda>res.
            let negotiated = negotiate_api_version (response_header res ''Api-Version'');
                p = (if negotiated = [] then [] else ''/v'' @ negotiated)
            in andThen (modify (\<lambda>c. c\<lparr>cl_api_prefix := Some p\<rparr>)) (\<lambda>_. ret p)) c)"

definition versioned :: "'w net \<Rightarrow> string \<Rightarrow> ('w client, string) act" where
  "versioned net target = andThen (api_prefix net) (\<lambda>p. ret (p @ target))"

definition ping :: "'w net \<Rightarrow> ('w client, bool) act" where
  "ping net = andThen (request net ''GET'' ''/_ping'' [] []) (\<lambda>res. ret (response_ok res))"

definition server_os :: "'w net \<Rightarrow> ('w client, string) act" where
  "server_os net c =
     (let endpoint = dh_url (cl_host c) in
      case cl_os_cache c endpoint of
        Some os \<Rightarrow> (Inr os, c)
      | None \<Rightarrow>
          andThen (versioned net ''/version'') (\<lambda>target.
          andThen (request net ''GET'' target [] []) (\<lambda>res.
            if \<not> response_ok res then throw (response_error ''server_os: GET /version'' res [])
            else
              andThen (lift_res (parse_server_os (net_json net) (rs_body res))) (\<lambda>os.
              andThen (modify (\<lambda>c. c\<lparr>cl_os_cache := (cl_os_cache c)(endpoint \<mapsto> os)\<rparr>))
                (\<lambda>_. ret os)))) c)"

definition is_windows_engine :: "'w net \<Rightarrow> ('w client, bool) act" where
  "is_windows_engine net =
     andThen (server_os net) (\<lambda>os. ret (find_str ''windows'' (to_lower os) \<noteq> None))"

subsection \<open>Images\<close>

definition json_headers :: "(string \<times> string) list" where
  "json_headers = [(''Content-Type'', ''application/json'')]"

definition quoted :: "string \<Rightarrow> string" where
  "quoted s = [CHR 0x27] @ s @ [CHR 0x27]"

text \<open>A call whose only success is one of the given statuses.\<close>

definition expect_status ::
  "'w net \<Rightarrow> string \<Rightarrow> string \<Rightarrow> string \<Rightarrow> (string \<times> string) list \<Rightarrow> int list \<Rightarrow> string \<Rightarrow> string \<Rightarrow>
    ('w client, Response) act" where
  "expect_status net method target body headers oks context resource_id =
     andThen (request net method target body headers) (\<lambda>res.
       if rs_status_code res \<in> set oks then ret res
       else throw (response_error context res resource_id))"

text \<open>
  \<open>for (int attempt = 1;; ++attempt)\<close> with \<open>left = attempts - attempt\<close> tries to go.
\<close>

fun pull_loop ::
  "'w net \<Rightarrow> string \<Rightarrow> string \<Rightarrow> (string \<times> string) list \<Rightarrow> int \<Rightarrow> nat \<Rightarrow> ('w client, unit) act" where
  "pull_loop net img target headers delay left =
     andThen (request net ''POST'' target [] headers) (\<lambda>res.
       if rs_status_code res = 200 then
         lift_res (throw_if_pull_error (net_json net) (rs_body res) img)
       else if left = 0 \<or> rs_status_code res < 500 \<or> 599 < rs_status_code res then
         throw (response_error (''pull_image('' @ quoted img @ '')'') res img)
       else
         andThen (world_do (net_sleep net delay)) (\<lambda>_.
           case left of 0 \<Rightarrow> ret ()
           | Suc n \<Rightarrow> pull_loop net img target headers (delay * 2) n))"

declare pull_loop.simps [simp del]

definition pull_image :: "'w net \<Rightarrow> string \<Rightarrow> RegistryAuth option \<Rightarrow> ('w client, unit) act" where
  "pull_image net img auth =
     (let (name, tag) = split_image img in
      andThen (versioned net (''/images/create?fromImage='' @ url_encode name @ ''&tag='' @ url_encode tag))
        (\<lambda>target.
      andThen (case auth of Some a \<Rightarrow> ret (Some a) | None \<Rightarrow> world_op (net_auth net img)) (\<lambda>cred.
        let headers = (case cred of
                         Some a \<Rightarrow> [(''X-Registry-Auth'', encode_x_registry_auth (net_json net) a)]
                       | None \<Rightarrow> [])
        in (\<lambda>c. pull_loop net img target headers (cl_pull_first_delay c)
                  (nat (cl_pull_attempts c - 1)) c))))"

definition image_exists :: "'w net \<Rightarrow> string \<Rightarrow> ('w client, bool) act" where
  "image_exists net reference =
     andThen (versioned net (''/images/'' @ reference @ ''/json'')) (\<lambda>target.
     andThen (request net ''GET'' target [] []) (\<lambda>res.
       if rs_status_code res = 200 then ret True
       else if rs_status_code res = 404 then ret False
       else throw (response_error (''image_exists('' @ quoted reference @ '')'') res reference)))"

definition inspect_image :: "'w net \<Rightarrow> string \<Rightarrow> ('w client, ImageInspect) act" where
  "inspect_image net reference =
     andThen (versioned net (''/images/'' @ reference @ ''/json'')) (\<lambda>target.
     andThen (expect_status net ''GET'' target [] [] [200]
                (''inspect_image('' @ quoted reference @ '')'') reference) (\<lambda>res.
       lift_res (parse_image_inspect (net_json net) (rs_body res))))"

subsection \<open>Containers\<close>

definition create_container ::
  "'w net \<Rightarrow> CreateContainerSpec \<Rightarrow> RegistryAuth option \<Rightarrow> ('w client, string) act" where
  "create_container net spec auth =
     andThen (lift_res (build_create_body (net_json net) spec)) (\<lambda>body_json.
       let body = jl_dump (net_json net) body_json;
           context = ''create_container('' @ quoted (cs_image spec) @ '')''
       in
     andThen (versioned net (''/containers/create'' @ build_create_query url_encode spec)) (\<lambda>target.
     andThen (request net ''POST'' target body json_headers) (\<lambda>res0.
     andThen
       (if rs_status_code res0 = 404 \<and> find_str ''no such image'' (to_lower (rs_body res0)) \<noteq> None
        then andThen (pull_image net (cs_image spec) auth) (\<lambda>_.
               request net ''POST'' target body json_headers)
        else ret res0)
       (\<lambda>res.
         if rs_status_code res \<noteq> 201 then throw (response_error context res (cs_image spec))
         else lift_res (expect_string_field (net_json net) (rs_body res) ''Id'' context)))))"

definition start_container :: "'w net \<Rightarrow> string \<Rightarrow> ('w client, unit) act" where
  "start_container net cid =
     andThen (versioned net (''/containers/'' @ cid @ ''/start'')) (\<lambda>target.
     andThen (expect_status net ''POST'' target [] [] [204, 304]
                (''start_container('' @ cid @ '')'') cid) (\<lambda>_. ret ()))"

definition inspect_container_raw :: "'w net \<Rightarrow> string \<Rightarrow> ('w client, string) act" where
  "inspect_container_raw net cid =
     andThen (versioned net (''/containers/'' @ cid @ ''/json'')) (\<lambda>target.
     andThen (expect_status net ''GET'' target [] [] [200]
                (''inspect_container('' @ cid @ '')'') cid) (\<lambda>res. ret (rs_body res)))"

definition inspect_container :: "'w net \<Rightarrow> string \<Rightarrow> ('w client, ContainerInspect) act" where
  "inspect_container net cid =
     andThen (inspect_container_raw net cid) (\<lambda>body. lift_res (parse_inspect (net_json net) body))"

text \<open>Each expression is pushed onto the array of its category.\<close>

definition filters_json :: "(string \<times> string) list \<Rightarrow> json" where
  "filters_json filters =
     foldl (\<lambda>enc (category, expression).
              json_set category
                (JArr ((case jfind category enc of Some a \<Rightarrow> elements a | None \<Rightarrow> []) @ [JStr expression]))
                enc) (JObj []) filters"

definition filters_query :: "jsonlib \<Rightarrow> string \<Rightarrow> (string \<times> string) list \<Rightarrow> string" where
  "filters_query L sep filters =
     (if filters = [] then []
      else sep @ ''filters='' @ url_encode (jl_dump L (filters_json filters)))"

definition list_containers ::
  "'w net \<Rightarrow> (string \<times> string) list \<Rightarrow> bool \<Rightarrow> ('w client, ContainerSummary list) act" where
  "list_containers net label_filters all =
     andThen (versioned net ''/containers/json?all='') (\<lambda>target.
     andThen (expect_status net ''GET''
                (target @ (if all then ''1'' else ''0'') @ filters_query (net_json net) ''&'' label_filters)
                [] [] [200] ''list_containers'' []) (\<lambda>res.
       lift_res (parse_container_list (net_json net) (rs_body res))))"

text \<open>The io deadline of a stop: it outlives the grace period.\<close>

definition stop_io_timeout :: "int option \<Rightarrow> int option \<Rightarrow> int option" where
  "stop_io_timeout io timeout_secs =
     (case io of
        None \<Rightarrow> None
      | Some t \<Rightarrow>
          (case timeout_secs of
             Some s \<Rightarrow> (if s < 0 then None else Some (max t ((s + 30) * 1000)))
           | None \<Rightarrow> Some (max t ((10 + 30) * 1000))))"

definition stop_container :: "'w net \<Rightarrow> string \<Rightarrow> int option \<Rightarrow> ('w client, unit) act" where
  "stop_container net cid timeout_secs =
     andThen (versioned net (''/containers/'' @ cid @ ''/stop'')) (\<lambda>target0.
       let target = target0 @ (case timeout_secs of Some s \<Rightarrow> ''?t='' @ int_dec s | None \<Rightarrow> []) in
       andThen (\<lambda>c. request_with_io_timeout net ''POST'' target [] []
                      (stop_io_timeout (tt_io (cl_timeouts c)) timeout_secs) c) (\<lambda>res.
         if rs_status_code res \<noteq> 204 \<and> rs_status_code res \<noteq> 304
         then throw (response_error (''stop_container('' @ cid @ '')'') res cid)
         else ret ()))"

definition bool_text :: "bool \<Rightarrow> string" where
  "bool_text b = (if b then ''true'' else ''false'')"

definition remove_container :: "'w net \<Rightarrow> string \<Rightarrow> bool \<Rightarrow> bool \<Rightarrow> ('w client, unit) act" where
  "remove_container net cid force remove_volumes =
     andThen (versioned net (''/containers/'' @ cid @ ''?force='' @ bool_text force @
                             ''&v='' @ bool_text remove_volumes)) (\<lambda>target.
     andThen (expect_status net ''DELETE'' target [] [] [204]
                (''remove_container('' @ cid @ '')'') cid) (\<lambda>_. ret ()))"

definition resize_exec :: "'w net \<Rightarrow> string \<Rightarrow> TtySize \<Rightarrow> ('w client, unit) act" where
  "resize_exec net exec_id sz =
     andThen (versioned net (''/exec/'' @ exec_id @ ''/resize?h='' @ to_dec (ts_height sz) @
                             ''&w='' @ to_dec (ts_width sz))) (\<lambda>target.
     andThen (request net ''POST'' target [] []) (\<lambda>res.
       if \<not> response_ok res then throw (response_error (''exec resize '' @ exec_id) res exec_id)
       else ret ()))"

definition resize_container_tty :: "'w net \<Rightarrow> string \<Rightarrow> TtySize \<Rightarrow> ('w client, unit) act" where
  "resize_container_tty net cid sz =
     andThen (versioned net (''/containers/'' @ cid @ ''/resize?h='' @ to_dec (ts_height sz) @
                             ''&w='' @ to_dec (ts_width sz))) (\<lambda>target.
     andThen (request net ''POST'' target [] []) (\<lambda>res.
       if \<not> response_ok res then throw (response_error (''container tty resize '' @ cid) res cid)
       else ret ()))"

definition copy_from_container :: "'w net \<Rightarrow> string \<Rightarrow> string \<Rightarrow> ('w client, string) act" where
  "copy_from_container net cid container_path =
     andThen (versioned net (''/containers/'' @ cid @ ''/archive?path='' @ url_encode container_path))
       (\<lambda>target.
     andThen (request net ''GET'' target [] []) (\<lambda>res.
       if rs_status_code res = 200 then ret (rs_body res)
       else if rs_status_code res = 404 then
         throw (NotFoundError (''copy_from_container('' @ cid @ '', '' @ quoted container_path @
                  '') failed: no such container or path: HTTP 404 '' @ rs_body res) cid)
       else throw (response_error (''copy_from_container('' @ cid @ '', '' @ quoted container_path @ '')'')
                     res cid)))"

subsection \<open>Networks and volumes\<close>

definition create_network :: "'w net \<Rightarrow> NetworkCreateSpec \<Rightarrow> ('w client, string) act" where
  "create_network net spec =
     (let body = jl_dump (net_json net) (build_network_create_body spec);
          context = ''create_network('' @ quoted (ns_name spec) @ '')'' in
      andThen (versioned net ''/networks/create'') (\<lambda>target.
      andThen (expect_status net ''POST'' target body json_headers [201] context (ns_name spec)) (\<lambda>res.
        lift_res (expect_string_field (net_json net) (rs_body res) ''Id'' context))))"

text \<open>The overload with a name and labels only.\<close>

definition create_named_network :: "'w net \<Rightarrow> string \<Rightarrow> (string \<times> string) list \<Rightarrow> ('w client, string) act" where
  "create_named_network net name labels =
     create_network net
       \<lparr>ns_name = name, ns_driver = None, ns_internal = False, ns_attachable = False, ns_enable_ipv6 = False,
        ns_subnet = None, ns_gateway = None, ns_ipam_pools = [], ns_options = [], ns_labels = labels\<rparr>"

definition list_networks ::
  "'w net \<Rightarrow> (string \<times> string) list \<Rightarrow> ('w client, NetworkInspect list) act" where
  "list_networks net filters =
     andThen (versioned net ''/networks'') (\<lambda>target.
     andThen (expect_status net ''GET'' (target @ filters_query (net_json net) ''?'' filters) [] [] [200]
                ''list_networks'' []) (\<lambda>res.
       lift_res (parse_network_list (net_json net) (rs_body res))))"

definition inspect_network_raw :: "'w net \<Rightarrow> string \<Rightarrow> ('w client, string) act" where
  "inspect_network_raw net nid =
     andThen (versioned net (''/networks/'' @ nid)) (\<lambda>target.
     andThen (expect_status net ''GET'' target [] [] [200] (''inspect_network('' @ nid @ '')'') nid)
       (\<lambda>res. ret (rs_body res)))"

definition inspect_network :: "'w net \<Rightarrow> string \<Rightarrow> ('w client, NetworkInspect) act" where
  "inspect_network net nid =
     andThen (inspect_network_raw net nid) (\<lambda>body. lift_res (parse_network_inspect (net_json net) body))"

definition connect_network ::
  "'w net \<Rightarrow> string \<Rightarrow> string \<Rightarrow> string list \<Rightarrow> ('w client, unit) act" where
  "connect_network net network_id container_id aliases =
     andThen (versioned net (''/networks/'' @ network_id @ ''/connect'')) (\<lambda>target.
     andThen (expect_status net ''POST'' target
                (jl_dump (net_json net) (build_connect_network_body container_id aliases)) json_headers
                [200, 204] (''connect_network('' @ network_id @ '', '' @ container_id @ '')'') network_id)
       (\<lambda>_. ret ()))"

definition disconnect_network ::
  "'w net \<Rightarrow> string \<Rightarrow> string \<Rightarrow> bool \<Rightarrow> ('w client, unit) act" where
  "disconnect_network net network_id container_id force =
     andThen (versioned net (''/networks/'' @ network_id @ ''/disconnect'')) (\<lambda>target.
     andThen (expect_status net ''POST'' target
                (jl_dump (net_json net)
                  (json_set ''Force'' (JBool force) (json_set ''Container'' (JStr container_id) JNull)))
                json_headers [200, 204]
                (''disconnect_network('' @ network_id @ '', '' @ container_id @ '')'') network_id)
       (\<lambda>_. ret ()))"

definition remove_network :: "'w net \<Rightarrow> string \<Rightarrow> ('w client, unit) act" where
  "remove_network net nid =
     andThen (versioned net (''/networks/'' @ nid)) (\<lambda>target.
     andThen (expect_status net ''DELETE'' target [] [] [204] (''remove_network('' @ nid @ '')'') nid)
       (\<lambda>_. ret ()))"

definition create_volume :: "'w net \<Rightarrow> VolumeCreateSpec \<Rightarrow> ('w client, string) act" where
  "create_volume net spec =
     (let body = jl_dump (net_json net) (build_volume_create_body spec);
          context = ''create_volume('' @ quoted (vs_name spec) @ '')'' in
      andThen (versioned net ''/volumes/create'') (\<lambda>target.
      andThen (expect_status net ''POST'' target body json_headers [201] context (vs_name spec)) (\<lambda>res.
        lift_res (expect_string_field (net_json net) (rs_body res) ''Name'' context))))"

definition inspect_volume :: "'w net \<Rightarrow> string \<Rightarrow> ('w client, VolumeInspect) act" where
  "inspect_volume net name =
     andThen (versioned net (''/volumes/'' @ url_encode name)) (\<lambda>target.
     andThen (expect_status net ''GET'' target [] [] [200]
                (''inspect_volume('' @ quoted name @ '')'') name)
       (\<lambda>res. lift_res (parse_volume_inspect (net_json net) (rs_body res))))"

definition list_volumes ::
  "'w net \<Rightarrow> (string \<times> string) list \<Rightarrow> ('w client, VolumeInspect list) act" where
  "list_volumes net filters =
     andThen (versioned net ''/volumes'') (\<lambda>target.
     andThen (expect_status net ''GET'' (target @ filters_query (net_json net) ''?'' filters) [] [] [200]
                ''list_volumes'' []) (\<lambda>res.
       lift_res (parse_volume_list (net_json net) (rs_body res))))"

definition prune_volumes ::
  "'w net \<Rightarrow> (string \<times> string) list \<Rightarrow> ('w client, VolumePruneResult) act" where
  "prune_volumes net filters =
     andThen (versioned net ''/volumes/prune'') (\<lambda>target.
     andThen (expect_status net ''POST'' (target @ filters_query (net_json net) ''?'' filters) [] [] [200]
                ''prune_volumes'' []) (\<lambda>res.
       lift_res (parse_volume_prune (net_json net) (rs_body res))))"

definition remove_volume :: "'w net \<Rightarrow> string \<Rightarrow> bool \<Rightarrow> ('w client, unit) act" where
  "remove_volume net name force =
     andThen (versioned net (''/volumes/'' @ url_encode name @ ''?force='' @ bool_text force)) (\<lambda>target.
     andThen (expect_status net ''DELETE'' target [] [] [204]
                (''remove_volume('' @ quoted name @ '')'') name) (\<lambda>_. ret ()))"

subsection \<open>Lemmas on requests\<close>

lemma response_error_404:
  "rs_status_code res = 404 \<Longrightarrow> \<exists>m. response_error ctx res rid = NotFoundError m rid"
  by (simp add: response_error_def status_error_def Let_def)

lemma response_error_other:
  "rs_status_code res \<noteq> 404 \<Longrightarrow>
     \<exists>m. response_error ctx res rid = DockerError m (Some (rs_status_code res)) rid"
  by (simp add: response_error_def status_error_def Let_def)

lemma response_error_status: "exn_status (response_error ctx res rid) = Some (rs_status_code res)"
  by (simp add: response_error_def status_error_def Let_def)

lemma response_error_docker: "is_docker_error (response_error ctx res rid)"
  by (simp add: response_error_def status_error_def Let_def)

text \<open>An exchange changes the world only.\<close>

lemma perform_state:
  "perform net m t b h conn ka c = (r, c') \<Longrightarrow> \<exists>w. c' = c\<lparr>cl_world := w\<rparr>"
  by (auto simp: perform_def Let_def split: prod.splits)

lemma perform_docker_error: "perform net m t b h conn ka c = (Inl e, c') \<Longrightarrow> is_docker_error e"
  by (auto simp: perform_def perform_result_def transport_error_def Let_def
      split: prod.splits option.splits if_splits net_ec.splits)

lemma perform_not_reusable:
  "perform net m t b h conn False c = (Inr (out, reusable), c') \<Longrightarrow> \<not> reusable"
  by (auto simp: perform_def perform_result_def Let_def
      split: prod.splits option.splits if_splits)

text \<open>
  The invariant of the session: a kept connection exists only while a session is open, and
  every operation keeps this.
\<close>

definition session_inv :: "'w client \<Rightarrow> bool" where
  "session_inv c \<longleftrightarrow> (cl_session_transport c \<noteq> None \<longrightarrow> cl_session_enabled c)"

lemma keeps_world_do [intro, simp]: "keeps session_inv (world_do f)"
  by (simp add: keeps_def world_do_def session_inv_def)

lemma keeps_world_op [intro, simp]: "keeps session_inv (world_op f)"
  by (simp add: keeps_def world_op_def session_inv_def Let_def split: prod.splits)

lemma keeps_perform [intro, simp]: "keeps session_inv (perform net m t b h conn ka)"
  unfolding keeps_def
proof (intro allI impI)
  fix c :: "'a client"
  assume "session_inv c"
  moreover obtain r c' where "perform net m t b h conn ka c = (r, c')"
    by (cases "perform net m t b h conn ka c")
  ultimately show "session_inv (snd (perform net m t b h conn ka c))"
    by (auto simp: session_inv_def dest!: perform_state)
qed

lemma keeps_drop [intro, simp]: "keeps session_inv drop_session_transport"
  by (simp add: keeps_def drop_session_transport_def session_inv_def)

text \<open>What a request may change: the world and the session's connection.\<close>

lemma fresh_request_state:
  "fresh_request net m t b h tmo reuse c = (r, c') \<Longrightarrow>
     \<exists>w tr. c' = c\<lparr>cl_world := w, cl_session_transport := tr\<rparr> \<and>
       (tr \<noteq> cl_session_transport c \<longrightarrow> reuse)"
proof -
  assume a: "fresh_request net m t b h tmo reuse c = (r, c')"
  obtain rc w0 where co: "net_connect net (cl_host c) tmo (cl_world c) = (rc, w0)"
    by (cases "net_connect net (cl_host c) tmo (cl_world c)")
  let ?c0 = "c\<lparr>cl_world := w0\<rparr>"
  have wr: "world_res (net_connect net (cl_host c) tmo) c = (rc, ?c0)"
    by (simp add: world_res_def co)
  show ?thesis
  proof (cases rc)
    case (Inl e)
    with a wr have "c' = ?c0" by (simp add: fresh_request_def andThen_apply)
    then show ?thesis by (intro exI [of _ w0] exI [of _ "cl_session_transport c"]) simp
  next
    case (Inr conn)
    obtain rp c1 where p: "perform net m t b h conn reuse ?c0 = (rp, c1)"
      by (cases "perform net m t b h conn reuse ?c0")
    then obtain w1 where c1: "c1 = ?c0\<lparr>cl_world := w1\<rparr>" using perform_state by blast
    show ?thesis
    proof (cases rp)
      case (Inl e)
      with a wr Inr p c1 have "c' = c\<lparr>cl_world := w1\<rparr>" by (simp add: fresh_request_def andThen_apply)
      then show ?thesis by (intro exI [of _ w1] exI [of _ "cl_session_transport c"]) simp
    next
      case (Inr o1)
      obtain out re where o: "o1 = (out, re)" by (cases o1)
      have "c' = (if reuse \<and> re then c1\<lparr>cl_session_transport := Some conn\<rparr>
          else c1\<lparr>cl_world := net_close net conn (cl_world c1)\<rparr>)"
        using a wr \<open>rc = Inr conn\<close> p Inr o
        by (auto simp: fresh_request_def andThen_apply world_do_def)
      then show ?thesis using c1
        by (intro exI [of _ "if reuse \<and> re then w1 else net_close net conn w1"]
              exI [of _ "if reuse \<and> re then Some conn else cl_session_transport c"]) auto
    qed
  qed
qed

lemma request_not_reused:
  assumes "\<not> (cl_session_enabled c \<and> m = ''GET'')"
  shows "request_with_io_timeout net m t b h io c =
    fresh_request net m t b h ((cl_timeouts c)\<lparr>tt_io := io\<rparr>) False c"
  using assms by (auto simp: request_with_io_timeout_def Let_def split: option.splits)

lemma keeps_fresh: "reuse = cl_session_enabled c \<or> \<not> reuse \<Longrightarrow> session_inv c \<Longrightarrow>
    session_inv (snd (fresh_request net m t b h tmo reuse c))"
proof -
  assume a: "reuse = cl_session_enabled c \<or> \<not> reuse" "session_inv c"
  obtain r c' where f: "fresh_request net m t b h tmo reuse c = (r, c')"
    by (cases "fresh_request net m t b h tmo reuse c")
  from fresh_request_state [OF f] a f show ?thesis by (auto simp: session_inv_def)
qed

lemma keeps_request_io [intro, simp]: "keeps session_inv (request_with_io_timeout net m t b h io)"
  unfolding keeps_def
proof (intro allI impI)
  fix c :: "'a client"
  assume inv: "session_inv c"
  let ?reuse = "cl_session_enabled c \<and> m = ''GET''"
  let ?tmo = "(cl_timeouts c)\<lparr>tt_io := io\<rparr>"
  show "session_inv (snd (request_with_io_timeout net m t b h io c))"
  proof (cases "?reuse \<and> cl_session_transport c \<noteq> None")
    case False
    then have "request_with_io_timeout net m t b h io c = fresh_request net m t b h ?tmo ?reuse c"
      by (auto simp: request_with_io_timeout_def Let_def split: option.splits)
    then show ?thesis using keeps_fresh [of ?reuse c] inv by fastforce
  next
    case True
    then obtain conn where conn: "cl_session_transport c = Some conn" and r: ?reuse by auto
    let ?c1 = "c\<lparr>cl_world := net_set_io_timeout net conn io (cl_world c)\<rparr>"
    obtain rp c2 where p: "perform net m t b h conn True ?c1 = (rp, c2)"
      by (cases "perform net m t b h conn True ?c1")
    then obtain w where c2: "c2 = ?c1\<lparr>cl_world := w\<rparr>" using perform_state by blast
    have "cl_session_enabled (c2\<lparr>cl_session_transport := None\<rparr>) = cl_session_enabled c"
      by (simp add: c2)
    then have fr: "session_inv (snd (fresh_request net m t b h ?tmo True (c2\<lparr>cl_session_transport := None\<rparr>)))"
      using r by (intro keeps_fresh) (auto simp: session_inv_def)
    have reuse: "(cl_session_enabled c \<and> m = ''GET'') = True" using r by simp
    show ?thesis
      using inv conn r p fr c2
      unfolding request_with_io_timeout_def Let_def reuse conn
      by (auto simp: world_do_def andThen_apply drop_session_transport_def session_inv_def
          split: sum.splits)
  qed
qed

lemma keeps_request [intro, simp]: "keeps session_inv (request net m t b h)"
  using keeps_request_io unfolding keeps_def request_def by blast

lemma keeps_api_prefix [intro, simp]: "keeps session_inv (api_prefix net)"
  unfolding keeps_def
proof (intro allI impI)
  fix c :: "'a client"
  assume inv: "session_inv c"
  obtain r c1 where q: "request net ''GET'' ''/_ping'' [] [] c = (r, c1)"
    by (cases "request net ''GET'' ''/_ping'' [] [] c")
  have "session_inv c1" using keeps_request [of net "''GET''" "''/_ping''" "[]" "[]"] inv q
    by (metis keeps_def snd_conv)
  with inv q show "session_inv (snd (api_prefix net c))"
    by (auto simp: api_prefix_def andThen_apply Let_def session_inv_def split: option.splits sum.splits)
qed

lemma keeps_versioned [intro, simp]: "keeps session_inv (versioned net t)"
  unfolding versioned_def by (intro keeps_andThen) auto

lemma keeps_expect_status [intro, simp]: "keeps session_inv (expect_status net m t b h oks ctx rid)"
  unfolding expect_status_def by (intro keeps_andThen keeps_if) auto

text \<open>Leaving the outermost session leaves no connection behind.\<close>

lemma end_session_none: "cl_session_transport (end_session net c) = None"
  by (simp add: end_session_def Let_def split: option.splits)

lemma with_session_none:
  "\<not> cl_session_enabled c \<Longrightarrow> with_session net m c = (r, c') \<Longrightarrow>
     cl_session_transport c' = None \<and> \<not> cl_session_enabled c'"
  by (auto simp: with_session_def session_begin_def session_finish_def end_session_def Let_def
      split: prod.splits option.splits)

subsection \<open>Lemmas on the operations\<close>

text \<open>The version is negotiated once.\<close>

lemma api_prefix_cached: "api_prefix net c = (Inr p, c') \<Longrightarrow> api_prefix net c' = (Inr p, c')"
  by (auto simp: api_prefix_def andThen_apply Let_def split: option.splits sum.splits prod.splits)

lemma versioned_pinned: "cl_api_prefix c = Some p \<Longrightarrow> versioned net t c = (Inr (p @ t), c)"
  by (simp add: versioned_def andThen_apply api_prefix_def)

lemma expect_status_cases:
  "expect_status net m t b h oks ctx rid c =
     (case request net m t b h c of
        (Inl e, c') \<Rightarrow> (Inl e, c')
      | (Inr res, c') \<Rightarrow>
          (if rs_status_code res \<in> set oks then Inr res else Inl (response_error ctx res rid), c'))"
  by (auto simp: expect_status_def andThen_apply split: prod.splits sum.splits)

lemma pull_loop_ok:
  "request net ''POST'' t [] h c = (Inr res, c') \<Longrightarrow> rs_status_code res = 200 \<Longrightarrow>
     pull_loop net img t h d left c = (throw_if_pull_error (net_json net) (rs_body res) img, c')"
  by (subst pull_loop.simps) (simp add: andThen_apply)

lemma pull_loop_fail:
  "request net ''POST'' t [] h c = (Inr res, c') \<Longrightarrow> rs_status_code res \<noteq> 200 \<Longrightarrow>
     left = 0 \<or> rs_status_code res < 500 \<or> 599 < rs_status_code res \<Longrightarrow>
     pull_loop net img t h d left c =
       (Inl (response_error (''pull_image('' @ quoted img @ '')'') res img), c')"
  by (subst pull_loop.simps) (auto simp: andThen_apply)

lemma pull_loop_retry:
  "request net ''POST'' t [] h c = (Inr res, c') \<Longrightarrow> 500 \<le> rs_status_code res \<Longrightarrow>
     rs_status_code res \<le> 599 \<Longrightarrow>
     pull_loop net img t h d (Suc left) c =
       pull_loop net img t h (d * 2) left (c'\<lparr>cl_world := net_sleep net d (cl_world c')\<rparr>)"
  by (subst pull_loop.simps) (simp add: andThen_apply world_do_def)

lemma pull_loop_error:
  "request net ''POST'' t [] h c = (Inl e, c') \<Longrightarrow> pull_loop net img t h d left c = (Inl e, c')"
  by (subst pull_loop.simps) (simp add: andThen_apply)

text \<open>A run of server errors: each costs one try and one sleep, twice as long as the last.\<close>

lemma pull_loop_steps:
  assumes "\<And>i. i < k \<Longrightarrow> request net ''POST'' t [] h (s i) = (Inr (r i), u i) \<and>
      500 \<le> rs_status_code (r i) \<and> rs_status_code (r i) \<le> 599 \<and>
      s (Suc i) = (u i)\<lparr>cl_world := net_sleep net (d * 2 ^ i) (cl_world (u i))\<rparr>"
    and "k \<le> left"
  shows "pull_loop net img t h d left (s 0) = pull_loop net img t h (d * 2 ^ k) (left - k) (s k)"
  using assms
proof (induction k)
  case (Suc k)
  then have ih: "pull_loop net img t h d left (s 0) = pull_loop net img t h (d * 2 ^ k) (left - k) (s k)"
    by simp
  obtain l where l: "left - k = Suc l" "left - Suc k = l" using Suc.prems(2)
    by (metis Suc_diff_Suc Suc_le_lessD)
  have st: "request net ''POST'' t [] h (s k) = (Inr (r k), u k)" "500 \<le> rs_status_code (r k)"
    "rs_status_code (r k) \<le> 599"
    "s (Suc k) = (u k)\<lparr>cl_world := net_sleep net (d * 2 ^ k) (cl_world (u k))\<rparr>"
    using Suc.prems(1) [of k] by simp_all
  have "pull_loop net img t h (d * 2 ^ k) (Suc l) (s k) = pull_loop net img t h (d * 2 ^ k * 2) l (s (Suc k))"
    using pull_loop_retry [OF st(1-3), of img "d * 2 ^ k" l] st(4) by simp
  with ih l show ?case by (simp add: mult.commute mult.left_commute)
qed simp

end
