(* ===== verification/ClientStream.thy ===== *)
theory ClientStream
  imports Client Delivery
begin

section \<open>The streaming operations of the client\<close>

text \<open>
  The rest of \<open>src/docker/DockerClient.cpp\<close>: logs and their following, exec in its detached,
  captured and streaming forms, image builds, archive uploads and downloads, and the path stat.
  A connection of these operations is opened, used and closed by the operation itself; what it
  does is given by the record \<open>stream_io\<close>, a read loop by the events it meets.
\<close>

subsection \<open>What the transport gives\<close>

record header_read =
  hr_ec :: "net_ec option"
  hr_done :: bool
  hr_status :: int
  hr_leftover :: string

record full_read =
  fu_ec :: "net_ec option"
  fu_done :: bool
  fu_header_done :: bool
  fu_status :: int
  fu_body :: string

record 'w stream_io =
  si_net :: "'w net"
  si_clock :: clock
  si_now :: "'w \<Rightarrow> int"
  si_write :: "nat \<Rightarrow> http_request \<Rightarrow> 'w \<Rightarrow> net_ec option \<times> 'w"
  si_write_block :: "nat \<Rightarrow> string \<Rightarrow> 'w \<Rightarrow> net_ec option \<times> 'w"
  si_write_all :: "nat \<Rightarrow> string \<Rightarrow> 'w \<Rightarrow> net_ec option \<times> 'w"
  si_shutdown_send :: "nat \<Rightarrow> 'w \<Rightarrow> 'w"
  si_supports_half_close :: "nat \<Rightarrow> 'w \<Rightarrow> bool"
  si_read_header :: "nat \<Rightarrow> 'w \<Rightarrow> header_read \<times> 'w"
  si_read_full :: "nat \<Rightarrow> nat option \<Rightarrow> 'w \<Rightarrow> full_read \<times> 'w"
  si_body :: "nat \<Rightarrow> int option \<Rightarrow> 'w \<Rightarrow> read_event list \<times> 'w"
  si_raw :: "nat \<Rightarrow> int option \<Rightarrow> 'w \<Rightarrow> read_event list \<times> 'w"
  si_exchange :: "nat \<Rightarrow> string \<Rightarrow> bool \<Rightarrow> int option \<Rightarrow> 'w \<Rightarrow> (string list \<times> rd_ec) \<times> 'w"
  si_ec_message :: "rd_ec \<Rightarrow> string"

definition of_rd_ec :: "'w stream_io \<Rightarrow> rd_ec \<Rightarrow> net_ec option" where
  "of_rd_ec io ec =
     (case ec of NoError \<Rightarrow> None | NeedBuffer \<Rightarrow> None
      | TimedOut \<Rightarrow> Some (EcTimedOut (si_ec_message io TimedOut))
      | OtherError \<Rightarrow> Some (EcOther (si_ec_message io OtherError)))"

definition open_transport :: "'w stream_io \<Rightarrow> ('w client, nat) act" where
  "open_transport io c = world_res (net_connect (si_net io) (cl_host c) (cl_timeouts c)) c"

definition close_transport :: "'w stream_io \<Rightarrow> nat \<Rightarrow> ('w client, unit) act" where
  "close_transport io conn = world_do (net_close (si_net io) conn)"

definition close_and_throw :: "'w stream_io \<Rightarrow> nat \<Rightarrow> exn \<Rightarrow> ('w client, 'a) act" where
  "close_and_throw io conn e = andThen (close_transport io conn) (\<lambda>_. throw e)"

definition set_timeout :: "'w stream_io \<Rightarrow> nat \<Rightarrow> int option \<Rightarrow> ('w client, unit) act" where
  "set_timeout io conn t = world_do (net_set_io_timeout (si_net io) conn t)"

definition read_clock :: "'w stream_io \<Rightarrow> ('w client, int) act" where
  "read_clock io = gets (\<lambda>c. si_now io (cl_world c))"

definition send_on :: "'w stream_io \<Rightarrow> nat \<Rightarrow> http_request \<Rightarrow> string \<Rightarrow> ('w client, unit) act" where
  "send_on io conn req what =
     andThen (world_op (si_write io conn req)) (\<lambda>ec.
       case ec of
         None \<Rightarrow> ret ()
       | Some e \<Rightarrow> close_and_throw io conn (transport_error (what @ ec_message e) e))"

subsection \<open>The response header\<close>

fun error_body :: "string \<Rightarrow> read_event list \<Rightarrow> string" where
  "error_body out [] = out"
| "error_body out (ev # evs) =
     (if ev_done ev \<or> 8192 \<le> length out then out
      else if ev_ec ev \<noteq> NoError \<and> ev_ec ev \<noteq> NeedBuffer then out
      else error_body (out @ ev_data ev) evs)"

definition read_ok_header ::
  "'w stream_io \<Rightarrow> nat \<Rightarrow> string \<Rightarrow> string \<Rightarrow> bool \<Rightarrow> ('w client, header_read) act" where
  "read_ok_header io conn context resource_id accept_upgraded =
     andThen (world_op (si_read_header io conn)) (\<lambda>h.
       if hr_ec h = Some EndOfStream \<and> \<not> hr_done h then
         close_and_throw io conn
           (DockerError (context @ '' failed: connection closed before a response header'') None resource_id)
       else case (if hr_ec h = Some EndOfStream then None else hr_ec h) of
              Some e \<Rightarrow>
                close_and_throw io conn
                  (transport_error (context @ '' failed to read response: '' @ ec_message e) e)
            | None \<Rightarrow>
                (if hr_status h \<noteq> 200 \<and> \<not> (accept_upgraded \<and> hr_status h = 101) then
                   andThen (world_op (si_body io conn None)) (\<lambda>evs.
                     close_and_throw io conn
                       (status_error context (hr_status h) (error_body [] evs) resource_id))
                 else ret h))"

subsection \<open>Logs\<close>

record LogOptions =
  lo_include_stdout :: bool
  lo_include_stderr :: bool
  lo_tail :: string
  lo_timestamps :: bool
  lo_tty :: bool

record ContainerLogs =
  lg_stdout_data :: string
  lg_stderr_data :: string

definition flag :: "bool \<Rightarrow> string" where
  "flag b = (if b then ''1'' else ''0'')"

definition build_logs_target :: "string \<Rightarrow> LogOptions \<Rightarrow> bool \<Rightarrow> string" where
  "build_logs_target cid opts follow =
     ''/containers/'' @ cid @ ''/logs?stdout='' @ flag (lo_include_stdout opts) @
     ''&stderr='' @ flag (lo_include_stderr opts) @ ''&follow='' @ flag follow @
     ''&tail='' @ url_encode (lo_tail opts) @ ''&timestamps='' @ flag (lo_timestamps opts)"

definition logs :: "'w net \<Rightarrow> string \<Rightarrow> LogOptions \<Rightarrow> ('w client, ContainerLogs) act" where
  "logs net cid opts =
     andThen (versioned net (build_logs_target cid opts False)) (\<lambda>target.
     andThen (request net ''GET'' target [] []) (\<lambda>res.
       if rs_status_code res \<noteq> 200 then throw (response_error (''logs('' @ cid @ '')'') res cid)
       else if lo_tty opts then ret \<lparr>lg_stdout_data = rs_body res, lg_stderr_data = []\<rparr>
       else
         let demuxed = demux_all (rs_body res)
         in ret \<lparr>lg_stdout_data = stdout_data demuxed, lg_stderr_data = stderr_data demuxed\<rparr>))"

text \<open>
  Following: the result is \<open>None\<close> while the events given leave the loop reading.
\<close>

definition follow_logs ::
  "'w stream_io \<Rightarrow> string \<Rightarrow> LogOptions \<Rightarrow> 'c consumer \<Rightarrow> int option \<Rightarrow> 'c \<Rightarrow>
    ('w client, FollowEnd option \<times> 'c) act" where
  "follow_logs io cid opts consumer deadline s =
     andThen (versioned (si_net io) (build_logs_target cid opts True)) (\<lambda>target.
     andThen (open_transport io) (\<lambda>conn.
     andThen (\<lambda>c. send_on io conn (make_request (si_net io) (cl_host c) ''GET'' target)
                (''Failed to send request to Docker (GET '' @ target @ ''): '') c) (\<lambda>_.
     andThen (read_ok_header io conn (''follow_logs('' @ cid @ '') (GET '' @ target @ '')'') cid False) (\<lambda>_.
     andThen (only_if (deadline = None) (set_timeout io conn None)) (\<lambda>_.
     andThen (world_op (si_body io conn deadline)) (\<lambda>evs.
       let (stop, s', armed) = stream_body_to_consumer (si_clock io) (lo_tty opts) consumer deadline s evs
       in case stop of
            None \<Rightarrow> ret (None, s')
          | Some e \<Rightarrow> andThen (close_transport io conn) (\<lambda>_. ret (Some e, s'))))))))"

subsection \<open>Exec\<close>

record ExecResult =
  er_stdout_data :: string
  er_stderr_data :: string
  er_exit_code :: int

record ExecStreamResult =
  xr_end :: FollowEnd
  xr_exit_code :: "int option"

type_synonym 'w started = "(string \<Rightarrow> ('w client, unit) act) option"

definition call_started :: "'w started \<Rightarrow> string \<Rightarrow> ('w client, unit) act" where
  "call_started on_started exec_id = (case on_started of None \<Rightarrow> ret () | Some f \<Rightarrow> f exec_id)"

definition exec_create ::
  "'w net \<Rightarrow> string \<Rightarrow> string \<Rightarrow> string \<Rightarrow> ('w client, string) act" where
  "exec_create net cid target create_body =
     andThen (request net ''POST'' target create_body json_headers) (\<lambda>res.
       if rs_status_code res \<noteq> 201 then
         throw (response_error (''exec create on container '' @ cid) res cid)
       else lift_res (expect_string_field (net_json net) (rs_body res) ''Id''
                        (''exec create on container '' @ cid)))"

definition no_half_close :: string where
  "no_half_close =
     ''exec: stdin_data requires a transport that can signal EOF (TCP, unix '' @
     ''socket, or a message-mode Windows named pipe); the TLS transport (and a '' @
     ''byte-mode pipe) cannot half-close, so the in-container reader would hang''"

definition require_stdin_capable :: "'w stream_io \<Rightarrow> nat \<Rightarrow> ExecOptions \<Rightarrow> ('w client, unit) act" where
  "require_stdin_capable io conn opts =
     andThen (gets (\<lambda>c. si_supports_half_close io conn (cl_world c))) (\<lambda>capable.
       if eo_stdin_data opts \<noteq> None \<and> \<not> capable
       then close_and_throw io conn (DockerError no_half_close None [])
       else ret ())"

definition dq :: string where
  "dq = [CHR 0x22]"

definition build_exec_start_body :: "ExecOptions \<Rightarrow> string" where
  "build_exec_start_body opts =
     ''{'' @ dq @ ''Detach'' @ dq @ '':'' @ bool_text (eo_detach opts) @
     '','' @ dq @ ''Tty'' @ dq @ '':'' @ bool_text (eo_tty opts) @ ''}''"

definition exec_start_detached ::
  "'w net \<Rightarrow> string \<Rightarrow> string \<Rightarrow> ExecOptions \<Rightarrow> ('w client, unit) act" where
  "exec_start_detached net exec_id start_target opts =
     andThen (expect_status net ''POST'' start_target (build_exec_start_body opts) json_headers [200]
                (''exec start '' @ exec_id) exec_id) (\<lambda>_. ret ())"

definition exec_start ::
  "'w stream_io \<Rightarrow> nat \<Rightarrow> string \<Rightarrow> string \<Rightarrow> ExecOptions \<Rightarrow> ('w client, unit) act" where
  "exec_start io conn exec_id start_target opts c =
     (let req0 = make_request (si_net io) (cl_host c) ''POST'' start_target;
          req = req0\<lparr>rq_headers :=
                       foldl set_header (rq_headers req0)
                         [(''Content-Type'', ''application/json''), (''Connection'', ''Upgrade''),
                          (''Upgrade'', ''tcp'')],
                     rq_body := build_exec_start_body opts\<rparr>
      in send_on io conn req (''exec start '' @ exec_id @ '' failed to send request: '') c)"

definition feed_stdin :: "'w stream_io \<Rightarrow> nat \<Rightarrow> string \<Rightarrow> ExecOptions \<Rightarrow> ('w client, unit) act" where
  "feed_stdin io conn exec_id opts =
     (case eo_stdin_data opts of
        None \<Rightarrow> ret ()
      | Some bytes \<Rightarrow>
          andThen (world_op (si_write_all io conn bytes)) (\<lambda>ec.
            case ec of
              Some e \<Rightarrow>
                close_and_throw io conn
                  (transport_error (''exec start '' @ exec_id @ '' failed to send stdin: '' @ ec_message e) e)
            | None \<Rightarrow> world_do (si_shutdown_send io conn)))"

definition arm_streaming_deadline ::
  "'w stream_io \<Rightarrow> nat \<Rightarrow> int option \<Rightarrow> ('w client, bool) act" where
  "arm_streaming_deadline io conn deadline =
     (case deadline of
        None \<Rightarrow> andThen (set_timeout io conn None) (\<lambda>_. ret True)
      | Some dl \<Rightarrow>
          andThen (read_clock io) (\<lambda>now.
            let remaining = to_ms (si_clock io) (dl - now) in
            if remaining \<le> 0 then ret False
            else andThen (set_timeout io conn (Some remaining)) (\<lambda>_. ret True)))"

text \<open>
  The delivery phase, after the header: which loop runs depends on whether the daemon switched
  the connection (101) and whether there are bytes for the command's input.
\<close>

definition exec_deliver ::
  "'w stream_io \<Rightarrow> nat \<Rightarrow> string \<Rightarrow> ExecOptions \<Rightarrow> header_read \<Rightarrow> 'c consumer \<Rightarrow> int option \<Rightarrow> 'c \<Rightarrow>
    ('w client, FollowEnd option \<times> 'c) act" where
  "exec_deliver io conn exec_id opts h consumer deadline s =
     (case (if hr_status h = 101 then eo_stdin_data opts else None) of
        Some bytes \<Rightarrow>
          andThen (only_if (deadline \<noteq> None) (set_timeout io conn None)) (\<lambda>_.
          andThen (read_clock io) (\<lambda>now.
          andThen (world_op (pump_exec_stream (si_exchange io conn) now (hr_leftover h) bytes
                               (eo_tty opts) consumer deadline s)) (\<lambda>(stop, wedged, s').
            if wedged then
              close_and_throw io conn
                (transport_error (''exec start '' @ exec_id @ '' failed to pump stdin/output: '' @
                                  si_ec_message io TimedOut)
                  (EcTimedOut (si_ec_message io TimedOut)))
            else ret (Some stop, s'))))
      | None \<Rightarrow>
          andThen (arm_streaming_deadline io conn deadline) (\<lambda>armed.
            if \<not> armed then ret (Some DeadlineExpired, s)
            else
              andThen (feed_stdin io conn exec_id opts) (\<lambda>_.
                if hr_status h = 101 then
                  andThen (read_clock io) (\<lambda>now.
                  andThen (world_op (si_raw io conn deadline)) (\<lambda>evs.
                    let (stop, s', a) = stream_raw_to_consumer (si_clock io) now (hr_leftover h)
                                          (eo_tty opts) consumer deadline s evs
                    in ret (stop, s')))
                else
                  andThen (world_op (si_body io conn deadline)) (\<lambda>evs.
                    let (stop, s', a) = stream_body_to_consumer (si_clock io) (eo_tty opts) consumer
                                          deadline s evs
                    in ret (stop, s')))))"

definition exec_outcome :: "'w net \<Rightarrow> string \<Rightarrow> FollowEnd \<Rightarrow> ('w client, ExecStreamResult) act" where
  "exec_outcome net exec_id stop =
     andThen (versioned net (''/exec/'' @ exec_id @ ''/json'')) (\<lambda>target.
     andThen (expect_status net ''GET'' target [] [] [200] (''exec inspect '' @ exec_id) exec_id) (\<lambda>res.
     andThen (lift_res (parse_exec_status (net_json net) (rs_body res))) (\<lambda>status.
       ret \<lparr>xr_end = stop,
            xr_exit_code = (if es_running status then None else es_exit_code status)\<rparr>)))"

definition detach_with_consumer :: string where
  "detach_with_consumer =
     ''exec: detach cannot be combined with an output consumer (a '' @
     ''detached exec attaches no streams, so no output would ever arrive)''"

definition exec_stream_impl ::
  "'w stream_io \<Rightarrow> 'w started \<Rightarrow> string \<Rightarrow> string list \<Rightarrow> ExecOptions \<Rightarrow> 'c consumer \<Rightarrow> int option \<Rightarrow> 'c \<Rightarrow>
    ('w client, ExecStreamResult option \<times> 'c) act" where
  "exec_stream_impl io on_started cid cmd opts consumer deadline s =
     (let net = si_net io in
      if eo_detach opts then throw (DockerError detach_with_consumer None [])
      else
        andThen (open_transport io) (\<lambda>conn.
        andThen (require_stdin_capable io conn opts) (\<lambda>_.
        andThen (versioned net (''/containers/'' @ cid @ ''/exec'')) (\<lambda>create_target.
        andThen (exec_create net cid create_target
                   (jl_dump (net_json net) (build_exec_create_body cmd opts))) (\<lambda>exec_id.
        andThen (versioned net (''/exec/'' @ exec_id @ ''/start'')) (\<lambda>start_target.
        andThen (exec_start io conn exec_id start_target opts) (\<lambda>_.
        andThen (read_ok_header io conn (''exec start '' @ exec_id) exec_id True) (\<lambda>h.
        andThen (call_started on_started exec_id) (\<lambda>_.
        andThen (exec_deliver io conn exec_id opts h consumer deadline s) (\<lambda>(stop, s').
          case stop of
            None \<Rightarrow> ret (None, s')
          | Some e \<Rightarrow>
              andThen (close_transport io conn) (\<lambda>_.
              andThen (exec_outcome net exec_id e) (\<lambda>out. ret (Some out, s')))))))))))))"

definition detach_with_stdin :: string where
  "detach_with_stdin =
     ''exec: detach cannot be combined with stdin_data (a detached exec '' @
     ''attaches no streams, so there is no stdin to feed)''"

text \<open>The accumulating consumer of the captured form.\<close>

definition capture :: "ExecResult consumer" where
  "capture source chunk out =
     (True, (if source = Stderr then out\<lparr>er_stderr_data := er_stderr_data out @ chunk\<rparr>
             else out\<lparr>er_stdout_data := er_stdout_data out @ chunk\<rparr>))"

definition no_output :: ExecResult where
  "no_output = \<lparr>er_stdout_data = [], er_stderr_data = [], er_exit_code = 0\<rparr>"

definition code_or_zero :: "ExecStreamResult \<Rightarrow> int" where
  "code_or_zero res = (case xr_exit_code res of None \<Rightarrow> 0 | Some e \<Rightarrow> e)"

definition exec_captured ::
  "'w stream_io \<Rightarrow> 'w started \<Rightarrow> string \<Rightarrow> string list \<Rightarrow> ExecOptions \<Rightarrow>
    ('w client, ExecResult option) act" where
  "exec_captured io on_started cid cmd opts =
     (let net = si_net io in
      if eo_detach opts then
        (if eo_stdin_data opts \<noteq> None then throw (DockerError detach_with_stdin None [])
         else
           andThen (versioned net (''/containers/'' @ cid @ ''/exec'')) (\<lambda>create_target.
           andThen (exec_create net cid create_target
                      (jl_dump (net_json net) (build_exec_create_body cmd opts))) (\<lambda>exec_id.
           andThen (versioned net (''/exec/'' @ exec_id @ ''/start'')) (\<lambda>start_target.
           andThen (exec_start_detached net exec_id start_target opts) (\<lambda>_.
           andThen (call_started on_started exec_id) (\<lambda>_. ret (Some no_output)))))))
      else
        andThen (exec_stream_impl io on_started cid cmd opts capture None no_output) (\<lambda>(res, out).
          ret (case res of None \<Rightarrow> None | Some r \<Rightarrow> Some (out\<lparr>er_exit_code := code_or_zero r\<rparr>))))"

definition exec_streamed ::
  "'w stream_io \<Rightarrow> 'w started \<Rightarrow> string \<Rightarrow> string list \<Rightarrow> ExecOptions \<Rightarrow> 'c consumer \<Rightarrow> 'c \<Rightarrow>
    ('w client, ExecResult option \<times> 'c) act" where
  "exec_streamed io on_started cid cmd opts consumer s =
     andThen (exec_stream_impl io on_started cid cmd opts consumer None s) (\<lambda>(res, s').
       ret (case res of None \<Rightarrow> None | Some r \<Rightarrow> Some (no_output\<lparr>er_exit_code := code_or_zero r\<rparr>), s'))"

text \<open>The overload with a deadline.\<close>

definition exec_until ::
  "'w stream_io \<Rightarrow> 'w started \<Rightarrow> string \<Rightarrow> string list \<Rightarrow> ExecOptions \<Rightarrow> 'c consumer \<Rightarrow> int \<Rightarrow> 'c \<Rightarrow>
    ('w client, ExecStreamResult option \<times> 'c) act" where
  "exec_until io on_started cid cmd opts consumer deadline =
     exec_stream_impl io on_started cid cmd opts consumer (Some deadline)"

subsection \<open>Chunked uploads\<close>

text \<open>
  A body producer pushes blocks into the sink and may then fail (a host file that vanished).
\<close>

record producer =
  pr_blocks :: "string list"
  pr_failure :: "exn option"

definition upload_error ::
  "'w stream_io \<Rightarrow> nat \<Rightarrow> string \<Rightarrow> string \<Rightarrow> net_ec \<Rightarrow> ('w client, 'a) act" where
  "upload_error io conn context resource_id write_ec =
     (let failed = transport_error (context @ '' failed to send request body: '' @ ec_message write_ec) write_ec
      in case write_ec of
           EcTimedOut _ \<Rightarrow> close_and_throw io conn failed
         | _ \<Rightarrow>
             andThen (world_op (si_read_full io conn (Some 8192))) (\<lambda>r.
               if fu_header_done r \<and> (fu_status r < 200 \<or> 299 < fu_status r)
               then close_and_throw io conn (status_error context (fu_status r) (fu_body r) resource_id)
               else close_and_throw io conn failed))"

definition write_block ::
  "'w stream_io \<Rightarrow> nat \<Rightarrow> string \<Rightarrow> string \<Rightarrow> string \<Rightarrow> ('w client, unit) act" where
  "write_block io conn context resource_id block =
     andThen (world_op (si_write_block io conn block)) (\<lambda>ec.
       case ec of None \<Rightarrow> ret () | Some e \<Rightarrow> upload_error io conn context resource_id e)"

definition write_chunked_request ::
  "'w stream_io \<Rightarrow> nat \<Rightarrow> http_request \<Rightarrow> producer \<Rightarrow> string \<Rightarrow> string \<Rightarrow> ('w client, unit) act" where
  "write_chunked_request io conn req body context resource_id =
     andThen (send_on io conn req (context @ '' failed to send request: '')) (\<lambda>_.
     andThen
       (catching
         (andThen (each (\<lambda>b. if b = [] then ret () else write_block io conn context resource_id b)
                     (pr_blocks body))
            (\<lambda>_. case pr_failure body of None \<Rightarrow> ret () | Some e \<Rightarrow> throw e))
         (close_and_throw io conn))
       (\<lambda>_. write_block io conn context resource_id []))"

definition tar_request :: "'w net \<Rightarrow> DockerHost \<Rightarrow> string \<Rightarrow> string \<Rightarrow> http_request" where
  "tar_request net host method target =
     (let req = make_request net host method target
      in req\<lparr>rq_headers := set_header (rq_headers req) (''Content-Type'', ''application/x-tar'')\<rparr>)"

text \<open>The read loop of a build; \<open>None\<close> when the events leave it reading.\<close>

fun build_read ::
  "jsonlib \<Rightarrow> (string \<Rightarrow> 'c \<Rightarrow> 'c) option \<Rightarrow> 'c BuildStreamScanner \<Rightarrow> read_event list \<Rightarrow>
    rd_ec option \<times> 'c BuildStreamScanner" where
  "build_read L consumer s [] = (None, s)"
| "build_read L consumer s (ev # evs) =
     (if ev_done ev then (Some NoError, s)
      else if ev_ec ev \<noteq> NoError \<and> ev_ec ev \<noteq> NeedBuffer then (Some (ev_ec ev), s)
      else build_read L consumer (if ev_data ev = [] then s else scanner_feed L consumer s (ev_data ev)) evs)"

definition build_io_timeout :: "int \<Rightarrow> int" where
  "build_io_timeout t = max t 600000"

definition build_image ::
  "'w stream_io \<Rightarrow> producer \<Rightarrow> BuildOptions \<Rightarrow> (string \<Rightarrow> 'c \<Rightarrow> 'c) option \<Rightarrow> 'c \<Rightarrow>
    ('w client, 'c option) act" where
  "build_image io context options consumer s =
     (let net = si_net io;
          ctx = ''build_image('' @ quoted (bo_tag options) @ '')'' in
      andThen (versioned net (''/build'' @ build_build_query (net_json net) url_encode options)) (\<lambda>target.
      andThen (open_transport io) (\<lambda>conn.
      andThen (\<lambda>c. write_chunked_request io conn (tar_request net (cl_host c) ''POST'' target) context ctx
                 (bo_tag options) c) (\<lambda>_.
      andThen (read_ok_header io conn ctx (bo_tag options) False) (\<lambda>_.
      andThen (\<lambda>c. (case tt_io (cl_timeouts c) of
                       None \<Rightarrow> ret ()
                     | Some t \<Rightarrow> set_timeout io conn (Some (build_io_timeout t))) c) (\<lambda>_.
      andThen (world_op (si_body io conn None)) (\<lambda>evs.
        let (ec, scanner) = build_read (net_json net) consumer (new_scanner s) evs in
        case ec of
          None \<Rightarrow> ret None
        | Some e \<Rightarrow>
            andThen (close_transport io conn) (\<lambda>_.
            let (verdict, scanner') = scanner_finish (net_json net) consumer (bo_tag options) scanner in
            andThen (lift_res verdict) (\<lambda>_.
              case of_rd_ec io e of
                Some ne \<Rightarrow>
                  throw (transport_error (ctx @ '' failed reading the build stream: '' @ ec_message ne) ne)
              | None \<Rightarrow> ret (Some (bs_out scanner')))))))))))"

text \<open>A context in memory is one block.\<close>

definition build_image_of_tar ::
  "'w stream_io \<Rightarrow> string \<Rightarrow> BuildOptions \<Rightarrow> (string \<Rightarrow> 'c \<Rightarrow> 'c) option \<Rightarrow> 'c \<Rightarrow>
    ('w client, 'c option) act" where
  "build_image_of_tar io context_tar options =
     build_image io \<lparr>pr_blocks = [context_tar], pr_failure = None\<rparr> options"

definition copy_to_archive ::
  "'w stream_io \<Rightarrow> string \<Rightarrow> string \<Rightarrow> producer \<Rightarrow> ('w client, unit) act" where
  "copy_to_archive io cid context body =
     (let net = si_net io in
      andThen (versioned net (''/containers/'' @ cid @ ''/archive?path=/&noOverwriteDirNonDir=false''))
        (\<lambda>target.
      andThen (open_transport io) (\<lambda>conn.
      andThen (\<lambda>c. write_chunked_request io conn (tar_request net (cl_host c) ''PUT'' target) body context
                 cid c) (\<lambda>_.
      andThen (world_op (si_read_full io conn None)) (\<lambda>r.
        if fu_ec r = Some EndOfStream \<and> \<not> fu_done r then
          close_and_throw io conn
            (DockerError (context @ '' failed: connection closed before the response completed'') None [])
        else case (if fu_ec r = Some EndOfStream then None else fu_ec r) of
               Some e \<Rightarrow>
                 close_and_throw io conn
                   (transport_error (context @ '' failed to read response: '' @ ec_message e) e)
             | None \<Rightarrow>
                 andThen (close_transport io conn) (\<lambda>_.
                   if fu_status r \<noteq> 200 then throw (status_error context (fu_status r) (fu_body r) cid)
                   else ret ()))))))"

subsection \<open>Archive downloads\<close>

definition open_download ::
  "'w stream_io \<Rightarrow> string \<Rightarrow> string \<Rightarrow> string \<Rightarrow> ('w client, nat) act" where
  "open_download io target context cid =
     andThen (open_transport io) (\<lambda>conn.
     andThen (\<lambda>c. send_on io conn (make_request (si_net io) (cl_host c) ''GET'' target)
                (context @ '' failed to send request: '') c) (\<lambda>_.
     andThen (read_ok_header io conn context cid False) (\<lambda>_. ret conn)))"

text \<open>
  \<open>read_block\<close> called until it answers 0, each block handed to the sink; the first component
  is \<open>None\<close> while the download goes on.
\<close>

fun download_loop :: "(string \<Rightarrow> 'c \<Rightarrow> 'c) \<Rightarrow> 'c \<Rightarrow> read_event list \<Rightarrow> rd_ec option \<times> 'c" where
  "download_loop sink s [] = (None, s)"
| "download_loop sink s (ev # evs) =
     (if ev_done ev then (Some NoError, s)
      else if ev_ec ev \<noteq> NoError \<and> ev_ec ev \<noteq> NeedBuffer then (Some (ev_ec ev), s)
      else download_loop sink (if ev_data ev = [] then s else sink (ev_data ev) s) evs)"

definition archive_target :: "string \<Rightarrow> string \<Rightarrow> string" where
  "archive_target cid container_path =
     ''/containers/'' @ cid @ ''/archive?path='' @ url_encode container_path"

definition copy_from_container_to_sink ::
  "'w stream_io \<Rightarrow> string \<Rightarrow> string \<Rightarrow> (string \<Rightarrow> 'c \<Rightarrow> 'c) \<Rightarrow> 'c \<Rightarrow> ('w client, 'c option) act" where
  "copy_from_container_to_sink io cid container_path sink s =
     (let context = ''copy_from_container('' @ cid @ '', '' @ quoted container_path @ '')'' in
      andThen (versioned (si_net io) (archive_target cid container_path)) (\<lambda>target.
      andThen (open_download io target context cid) (\<lambda>conn.
      andThen (world_op (si_body io conn None)) (\<lambda>evs.
        let (ec, s') = download_loop sink s evs in
        case ec of
          None \<Rightarrow> ret None
        | Some e \<Rightarrow>
            (case of_rd_ec io e of
               Some ne \<Rightarrow>
                 close_and_throw io conn
                   (transport_error (context @ '' failed reading the archive stream: '' @ ec_message ne) ne)
             | None \<Rightarrow> andThen (close_transport io conn) (\<lambda>_. ret (Some s')))))))"

record ContainerPathStat =
  st_name :: string
  st_size :: int
  st_mode :: int
  st_mtime :: string
  st_link_target :: string
  st_is_dir :: bool

text \<open>\<open>get<std::uint64_t>()\<close> and \<open>get<std::uint32_t>()\<close>.\<close>

definition get_unsigned :: "nat \<Rightarrow> jsonlib \<Rightarrow> json \<Rightarrow> int res" where
  "get_unsigned w L j = try_bind (get_int 64 L j) (\<lambda>i. Inr (i mod 2 ^ w))"

definition path_stat_of :: "jsonlib \<Rightarrow> string \<Rightarrow> ContainerPathStat res" where
  "path_stat_of L encoded =
     try_bind (json_parse L (base64_decode encoded)) (\<lambda>stat.
     try_bind (json_value L get_string stat ''name'' []) (\<lambda>name.
     try_bind (json_value L (get_unsigned 64) stat ''size'' 0) (\<lambda>sz.
     try_bind (json_value L (get_unsigned 32) stat ''mode'' 0) (\<lambda>mode.
     try_bind (json_value L get_string stat ''mtime'' []) (\<lambda>mtime.
     try_bind (json_value L get_string stat ''linkTarget'' []) (\<lambda>link.
       Inr \<lparr>st_name = name, st_size = sz, st_mode = mode, st_mtime = mtime, st_link_target = link,
            st_is_dir = (mode AND 0x80000000 \<noteq> 0)\<rparr>))))))"

definition container_path_stat ::
  "'w net \<Rightarrow> string \<Rightarrow> string \<Rightarrow> ('w client, ContainerPathStat) act" where
  "container_path_stat net cid container_path =
     (let context = ''container_path_stat('' @ cid @ '', '' @ quoted container_path @ '')'' in
      andThen (versioned net (archive_target cid container_path)) (\<lambda>target.
      andThen (expect_status net ''HEAD'' target [] [] [200] context cid) (\<lambda>res.
        let encoded = response_header res ''X-Docker-Container-Path-Stat'' in
        if encoded = [] then
          throw (DockerError (context @ '' failed: the daemon sent no X-Docker-Container-Path-Stat header'')
                   None [])
        else case path_stat_of (net_json net) encoded of
               Inr stat \<Rightarrow> ret stat
             | Inl e \<Rightarrow>
                 throw (DockerError (context @ '' failed: undecodable X-Docker-Container-Path-Stat header: '' @
                          exn_what e) None []))))"

end
