(* ===== verification/Wait.thy ===== *)
theory Wait
  imports ClientStream Occurrences Ports
begin

section \<open>Waiting until a container is ready\<close>

text \<open>
  \<open>src/WaitStrategies.cpp\<close>, \<open>src/WaitStrategies.hpp\<close> and \<open>include/testcontainers/WaitFor.hpp\<close>:
  the conditions, their polling loops under one shared deadline, and \<open>wait_until_ready\<close>.  Time,
  sleeping and the sockets of the probes are the world's, given by the record \<open>wait_io\<close>.
\<close>

subsection \<open>The conditions\<close>

datatype LogStream = FromStdout | FromStderr | FromEither

datatype WaitFor =
    NoWait
  | LogMessage string int LogStream
  | Duration int
  | Exit "int option"
  | Healthy
  | Http string ContainerPort int int
  | Port ContainerPort int
  | Command "string list" int

subsection \<open>The world\<close>

record probe_exchange =
  px_threw :: bool
  px_resolve_ec :: "net_ec option"
  px_connect_ec :: "net_ec option"
  px_write_ec :: "net_ec option"
  px_read_ec :: "net_ec option"
  px_received :: nat
  px_status :: int

record 'w wait_io =
  wi_stream :: "'w stream_io"
  wi_ticks :: "'w \<Rightarrow> nat \<Rightarrow> int"
  wi_sleep_until :: "int \<Rightarrow> 'w \<Rightarrow> 'w"
  wi_tcp :: "string \<Rightarrow> nat \<Rightarrow> int \<Rightarrow> 'w \<Rightarrow> probe_exchange \<times> 'w"
  wi_http :: "string \<Rightarrow> nat \<Rightarrow> http_request \<Rightarrow> int \<Rightarrow> 'w \<Rightarrow> probe_exchange \<times> 'w"
  wi_env :: environ
  wi_files :: files
  wi_exists :: "string \<Rightarrow> bool"
  wi_cache :: prop_cache

abbreviation wi_net :: "'w wait_io \<Rightarrow> 'w net" where
  "wi_net wio \<equiv> si_net (wi_stream wio)"

abbreviation wi_clock :: "'w wait_io \<Rightarrow> clock" where
  "wi_clock wio \<equiv> si_clock (wi_stream wio)"

definition now_of :: "'w wait_io \<Rightarrow> 'w client \<Rightarrow> int" where
  "now_of wio c = si_now (wi_stream wio) (cl_world c)"

definition past :: "'w wait_io \<Rightarrow> int \<Rightarrow> 'w client \<Rightarrow> bool" where
  "past wio deadline c \<longleftrightarrow> deadline \<le> now_of wio c"

definition sleep_for :: "'w wait_io \<Rightarrow> int \<Rightarrow> 'w client \<Rightarrow> 'w client" where
  "sleep_for wio ms c = c\<lparr>cl_world := net_sleep (wi_net wio) ms (cl_world c)\<rparr>"

definition sleep_until :: "'w wait_io \<Rightarrow> int \<Rightarrow> 'w client \<Rightarrow> 'w client" where
  "sleep_until wio t c = c\<lparr>cl_world := wi_sleep_until wio t (cl_world c)\<rparr>"

subsection \<open>Pure parts\<close>

record ClampedWaitPlan =
  cw_wake :: int
  cw_times_out :: bool

definition clamped_wait_plan :: "clock \<Rightarrow> int \<Rightarrow> int \<Rightarrow> int \<Rightarrow> ClampedWaitPlan" where
  "clamped_wait_plan clk now val deadline =
     (let wake = saturated_add clk now val
      in \<lparr>cw_wake = (if wake < deadline then wake else deadline), cw_times_out = deadline < wake\<rparr>)"

definition probe_budget :: "clock \<Rightarrow> int \<Rightarrow> int \<Rightarrow> int" where
  "probe_budget clk now deadline =
     (let left = to_ms clk (deadline - now)
      in if left < 1 then 1 else if 5000 < left then 5000 else left)"

definition tcp_answer :: "probe_exchange \<Rightarrow> bool" where
  "tcp_answer x \<longleftrightarrow> \<not> px_threw x \<and> px_resolve_ec x = None \<and> px_connect_ec x = None"

definition http_answer :: "probe_exchange \<Rightarrow> int option" where
  "http_answer x =
     (if px_threw x then None
      else if px_resolve_ec x \<noteq> None then None
      else if px_connect_ec x \<noteq> None then None
      else if px_write_ec x \<noteq> None then None
      else if px_read_ec x \<noteq> None \<and> px_read_ec x \<noteq> Some EndOfStream then None
      else if px_read_ec x = Some EndOfStream \<and> px_received x = 0 then None
      else Some (px_status x))"

definition tcp_probe :: "'w wait_io \<Rightarrow> string \<Rightarrow> nat \<Rightarrow> int \<Rightarrow> ('w client, bool) act" where
  "tcp_probe wio host port budget = andThen (world_op (wi_tcp wio host port budget)) (\<lambda>x. ret (tcp_answer x))"

definition probe_request :: "string \<Rightarrow> string \<Rightarrow> http_request" where
  "probe_request host path =
     \<lparr>rq_method = ''GET'', rq_target = path, rq_body = [],
      rq_headers = [(''Host'', host), (''User-Agent'', ''testcontainers-cpp'')], rq_keep_alive = False\<rparr>"

definition http_probe ::
  "'w wait_io \<Rightarrow> string \<Rightarrow> nat \<Rightarrow> string \<Rightarrow> int \<Rightarrow> ('w client, int option) act" where
  "http_probe wio host port path budget =
     andThen (world_op (wi_http wio host port (probe_request host path) budget)) (\<lambda>x. ret (http_answer x))"

definition interval_of :: "int \<Rightarrow> int" where
  "interval_of poll_interval = (if 0 < poll_interval then poll_interval else 200)"

subsection \<open>Log messages\<close>

record log_seen =
  ls_stdout :: OccurrenceCounter
  ls_stderr :: OccurrenceCounter
  ls_calls :: nat

definition nothing_seen :: "string \<Rightarrow> log_seen" where
  "nothing_seen needle = \<lparr>ls_stdout = new_counter needle, ls_stderr = new_counter needle, ls_calls = 0\<rparr>"

definition seen :: "log_seen \<Rightarrow> nat" where
  "seen s = oc_count (ls_stdout s) + oc_count (ls_stderr s)"

definition wanted :: "LogStream \<Rightarrow> LogSource \<Rightarrow> bool" where
  "wanted want source \<longleftrightarrow> (if source = Stdout then want \<noteq> FromStderr else want \<noteq> FromStdout)"

text \<open>The consumer of the follow stream; its \<open>n\<close>th call reads the clock at \<open>ticks n\<close>.\<close>

definition log_consumer ::
  "LogStream \<Rightarrow> nat \<Rightarrow> int \<Rightarrow> (nat \<Rightarrow> int) \<Rightarrow> log_seen consumer" where
  "log_consumer want needed deadline ticks source chunk s =
     (let s1 = (if wanted want source
                then (if source = Stdout then s\<lparr>ls_stdout := oc_feed (ls_stdout s) chunk\<rparr>
                      else s\<lparr>ls_stderr := oc_feed (ls_stderr s) chunk\<rparr>)
                else s)
      in (seen s1 < needed \<and> ticks (ls_calls s) < deadline, s1\<lparr>ls_calls := ls_calls s + 1\<rparr>))"

definition snapshot_seen :: "LogStream \<Rightarrow> string \<Rightarrow> ContainerLogs \<Rightarrow> nat" where
  "snapshot_seen want needle lg =
     (if want \<noteq> FromStderr then count_occurrences (lg_stdout_data lg) needle else 0) +
     (if want \<noteq> FromStdout then count_occurrences (lg_stderr_data lg) needle else 0)"

definition log_options :: "LogStream \<Rightarrow> bool \<Rightarrow> LogOptions" where
  "log_options want tty =
     \<lparr>lo_include_stdout = (want \<noteq> FromStderr), lo_include_stderr = (want \<noteq> FromStdout),
      lo_tail = ''all'', lo_timestamps = False, lo_tty = tty\<rparr>"

definition log_timeout :: "string \<Rightarrow> string \<Rightarrow> nat \<Rightarrow> nat \<Rightarrow> exn" where
  "log_timeout cid needle needed n =
     StartupTimeoutError (''Timed out waiting for log message '' @ dq @ needle @ dq @ '' ('' @ to_dec n @
       ''/'' @ to_dec needed @ '' occurrences) in container '' @ cid) cid"

definition snapshot_check ::
  "'w wait_io \<Rightarrow> string \<Rightarrow> string \<Rightarrow> nat \<Rightarrow> LogStream \<Rightarrow> bool \<Rightarrow> ('w client, unit) act" where
  "snapshot_check wio cid needle needed want tty =
     andThen (logs (wi_net wio) cid (log_options want tty)) (\<lambda>lg.
       let n = snapshot_seen want needle lg
       in if needed \<le> n then ret () else throw (log_timeout cid needle needed n))"

text \<open>One follow stream: the state of its consumer, and why it ended.\<close>

definition follow_once ::
  "'w wait_io \<Rightarrow> string \<Rightarrow> string \<Rightarrow> nat \<Rightarrow> LogStream \<Rightarrow> bool \<Rightarrow> int \<Rightarrow>
    ('w client, FollowEnd \<times> log_seen) run" where
  "follow_once wio cid needle needed want tty deadline c =
     runCatching
       (finished (follow_logs (wi_stream wio) cid (log_options want tty)
          (log_consumer want needed deadline (wi_ticks wio (cl_world c))) (Some deadline)
          (nothing_seen needle)))
       (\<lambda>e. runs (\<lambda>c1. throw (if is_timeout e \<and> past wio deadline c1
                               then log_timeout cid needle needed 0 else e) c1)) c"

fun wait_for_log ::
  "nat \<Rightarrow> 'w wait_io \<Rightarrow> string \<Rightarrow> string \<Rightarrow> nat \<Rightarrow> LogStream \<Rightarrow> bool \<Rightarrow> int \<Rightarrow> ('w client, unit) run" where
  "wait_for_log 0 wio cid needle needed want tty deadline c = None"
| "wait_for_log (Suc n) wio cid needle needed want tty deadline c =
     (if past wio deadline c then Some (snapshot_check wio cid needle needed want tty c)
      else
        runThen (follow_once wio cid needle needed want tty deadline) (\<lambda>(stop, s) c1.
          if needed \<le> seen s then Some (Inr (), c1)
          else if stop = DeadlineExpired \<or> past wio deadline c1 then
            Some (Inl (log_timeout cid needle needed (seen s)), c1)
          else
            wait_for_log n wio cid needle needed want tty deadline
              (sleep_until wio (min (now_of wio c1 + 200 * ticks_per_ms (wi_clock wio))
                                    (saturated_add (wi_clock wio) deadline 1)) c1)) c)"

declare wait_for_log.simps [simp del]

definition needed_of :: "int \<Rightarrow> nat" where
  "needed_of k = nat (if k < 1 then 1 else k)"

subsection \<open>Exit and health\<close>

definition exit_mismatch :: "string \<Rightarrow> int option \<Rightarrow> int \<Rightarrow> exn" where
  "exit_mismatch cid actual code =
     DockerError (''Container '' @ cid @ '' exited with code '' @
       (case actual of None \<Rightarrow> ''unknown'' | Some a \<Rightarrow> int_dec a) @ '', expected '' @ int_dec code) None cid"

definition exit_probe :: "'w wait_io \<Rightarrow> string \<Rightarrow> int option \<Rightarrow> unit \<Rightarrow> ('w client, unit option) run" where
  "exit_probe wio cid code l =
     runs (andThen (inspect_container (wi_net wio) cid) (\<lambda>info.
       if ci_running info then ret (Some ())
       else case code of
              None \<Rightarrow> ret None
            | Some k \<Rightarrow>
                (if ci_exit_code info \<noteq> Some k then throw (exit_mismatch cid (ci_exit_code info) k)
                 else ret None)))"

definition wait_for_exit ::
  "nat \<Rightarrow> 'w wait_io \<Rightarrow> string \<Rightarrow> int option \<Rightarrow> int \<Rightarrow> ('w client, unit) run" where
  "wait_for_exit fuel wio cid code deadline =
     poll_loop fuel (exit_probe wio cid code) (past wio deadline)
       (\<lambda>_. StartupTimeoutError (''Timed out waiting for container '' @ cid @ '' to exit'') cid)
       (sleep_for wio 200) ()"

definition health_probe :: "'w wait_io \<Rightarrow> string \<Rightarrow> string \<Rightarrow> ('w client, string option) run" where
  "health_probe wio cid l =
     runs (andThen (inspect_container (wi_net wio) cid) (\<lambda>info.
       let status = (case ci_health_status info of None \<Rightarrow> [] | Some s \<Rightarrow> s) in
       if status = ''healthy'' then ret None
       else if status = ''unhealthy'' then
         throw (DockerError (''Container '' @ cid @ '' reported health status '' @ dq @ ''unhealthy'' @ dq)
                  None cid)
       else if status = [] then
         throw (DockerError (''Container '' @ cid @
                  '' has no healthcheck configured (cannot wait for healthy)'') None cid)
       else ret (Some status)))"

definition wait_for_healthcheck ::
  "nat \<Rightarrow> 'w wait_io \<Rightarrow> string \<Rightarrow> int \<Rightarrow> ('w client, unit) run" where
  "wait_for_healthcheck fuel wio cid deadline =
     poll_loop fuel (health_probe wio cid) (past wio deadline)
       (\<lambda>status. StartupTimeoutError (''Timed out waiting for container '' @ cid @
          '' to become healthy (last status '' @ dq @ status @ dq @ '')'') cid)
       (sleep_for wio 200) []"

subsection \<open>HTTP and TCP\<close>

definition mapped_host_port :: "'w net \<Rightarrow> string \<Rightarrow> ContainerPort \<Rightarrow> ('w client, nat) act" where
  "mapped_host_port net cid port =
     andThen (inspect_container net cid) (\<lambda>info.
       let key = port_to_string port in
       case select_host_port (ci_ports info) key Any of
         Some p \<Rightarrow> ret p
       | None \<Rightarrow>
           throw (DockerError (''Container '' @ cid @ '' has no published host port for '' @ key) None cid))"

definition probe_host :: "'w wait_io \<Rightarrow> 'w client \<Rightarrow> string" where
  "probe_host wio c =
     fst (resolved_host_address (wi_env wio) (wi_files wio) (wi_exists wio) (cl_host c) (wi_cache wio))"

definition budget_at :: "'w wait_io \<Rightarrow> int \<Rightarrow> 'w client \<Rightarrow> int" where
  "budget_at wio deadline c = probe_budget (wi_clock wio) (now_of wio c) deadline"

definition http_attempt ::
  "'w wait_io \<Rightarrow> string \<Rightarrow> nat \<Rightarrow> string \<Rightarrow> int \<Rightarrow> int \<Rightarrow> int \<Rightarrow> ('w client, int option) run" where
  "http_attempt wio host port path expected deadline last_status =
     runs (\<lambda>c. andThen (http_probe wio host port path (budget_at wio deadline c)) (\<lambda>status.
       ret (case status of
              None \<Rightarrow> Some last_status
            | Some s \<Rightarrow> (if s = expected then None else Some s))) c)"

definition wait_for_http ::
  "nat \<Rightarrow> 'w wait_io \<Rightarrow> string \<Rightarrow> string \<Rightarrow> ContainerPort \<Rightarrow> int \<Rightarrow> int \<Rightarrow> int \<Rightarrow> ('w client, unit) run" where
  "wait_for_http fuel wio cid path port expected poll_interval deadline c =
     (let host = probe_host wio c in
      runThen (runs (mapped_host_port (wi_net wio) cid port)) (\<lambda>hp.
        poll_loop fuel (http_attempt wio host hp path expected deadline) (past wio deadline)
          (\<lambda>last_status. StartupTimeoutError (''Timed out waiting for HTTP '' @ int_dec expected @
             '' from '' @ host @ '':'' @ to_dec hp @ path @ '' (container '' @ cid @ '', last status '' @
             int_dec last_status @ '')'') cid)
          (sleep_for wio (interval_of poll_interval)) 0) c)"

definition port_attempt ::
  "'w wait_io \<Rightarrow> string \<Rightarrow> nat \<Rightarrow> int \<Rightarrow> unit \<Rightarrow> ('w client, unit option) run" where
  "port_attempt wio host port deadline l =
     runs (\<lambda>c. andThen (tcp_probe wio host port (budget_at wio deadline c)) (\<lambda>ok.
       ret (if ok then None else Some ())) c)"

definition wait_for_port ::
  "nat \<Rightarrow> 'w wait_io \<Rightarrow> string \<Rightarrow> ContainerPort \<Rightarrow> int \<Rightarrow> int \<Rightarrow> ('w client, unit) run" where
  "wait_for_port fuel wio cid port poll_interval deadline c =
     (let host = probe_host wio c in
      runThen (runs (mapped_host_port (wi_net wio) cid port)) (\<lambda>hp.
        poll_loop fuel (port_attempt wio host hp deadline) (past wio deadline)
          (\<lambda>_. StartupTimeoutError (''Timed out waiting for TCP connection to '' @ host @ '':'' @
             to_dec hp @ '' (container '' @ cid @ '')'') cid)
          (sleep_for wio (interval_of poll_interval)) ()) c)"

subsection \<open>Commands\<close>

definition plain_exec :: ExecOptions where
  "plain_exec = \<lparr>eo_env = [], eo_working_dir = None, eo_user = None, eo_privileged = False, eo_tty = False,
     eo_detach = False, eo_stdin_data = None, eo_console_size = None\<rparr>"

definition snippet :: "string consumer" where
  "snippet source chunk output =
     (True, (if length output < 512 then output @ take (512 - length output) chunk else output))"

definition last_exit :: "int \<Rightarrow> string \<Rightarrow> string" where
  "last_exit code output =
     ''last exit code '' @ int_dec code @
     (if output = [] then [] else '', output: '' @ dq @ output @ dq)"

definition command_timeout :: "string \<Rightarrow> string list \<Rightarrow> string \<Rightarrow> exn" where
  "command_timeout cid cmd last_failure =
     StartupTimeoutError (''Timed out waiting for command '' @ dq @ join cmd '' '' @ dq @
       '' to succeed in container '' @ cid @ '' ('' @ last_failure @ '')'') cid"

text \<open>
  One attempt; the local variable is the last failure.  The handlers in their order: the
  transport's own timeout, a container that is gone, any other error of the daemon.
\<close>

definition command_attempt ::
  "'w wait_io \<Rightarrow> string \<Rightarrow> string list \<Rightarrow> int \<Rightarrow> string \<Rightarrow> ('w client, string option) run" where
  "command_attempt wio cid cmd deadline last_failure =
     runCatching
       (runThen
         (finished (exec_stream_impl (wi_stream wio) None cid cmd plain_exec snippet (Some deadline) []))
         (\<lambda>(res, output). runs (ret
           (case xr_exit_code res of
              None \<Rightarrow> Some last_failure
            | Some code \<Rightarrow> (if code = 0 then None else Some (last_exit code output))))))
       (\<lambda>e. runs (\<lambda>c.
          (case e of
             TransportTimeoutError _ _ \<Rightarrow>
               throw (if past wio deadline c then command_timeout cid cmd last_failure else e)
           | NotFoundError _ _ \<Rightarrow> throw e
           | DockerError m _ _ \<Rightarrow> ret (Some (''last error: '' @ m))
           | _ \<Rightarrow> throw e) c))"

definition wait_for_command ::
  "nat \<Rightarrow> 'w wait_io \<Rightarrow> string \<Rightarrow> string list \<Rightarrow> int \<Rightarrow> int \<Rightarrow> ('w client, unit) run" where
  "wait_for_command fuel wio cid cmd poll_interval deadline =
     (if cmd = [] then
        runs (throw (DockerError ''wait_for::Command requires a non-empty command'' None cid))
      else
        poll_loop fuel (command_attempt wio cid cmd deadline) (past wio deadline)
          (command_timeout cid cmd)
          (\<lambda>c. sleep_until wio (min (saturated_add (wi_clock wio) (now_of wio c) (interval_of poll_interval))
                                    (saturated_add (wi_clock wio) deadline 1)) c)
          ''no attempt completed'')"

subsection \<open>wait\_until\_ready\<close>

definition wait_for_duration :: "'w wait_io \<Rightarrow> string \<Rightarrow> int \<Rightarrow> int \<Rightarrow> ('w client, unit) act" where
  "wait_for_duration wio cid val deadline c =
     (let plan = clamped_wait_plan (wi_clock wio) (now_of wio c) val deadline;
          c1 = sleep_until wio (cw_wake plan) c
      in if cw_times_out plan then
           (Inl (StartupTimeoutError (''Timed out during wait_for::Duration for container '' @ cid) cid), c1)
         else (Inr (), c1))"

definition wait_one ::
  "nat \<Rightarrow> 'w wait_io \<Rightarrow> string \<Rightarrow> int \<Rightarrow> bool \<Rightarrow> WaitFor \<Rightarrow> ('w client, unit) run" where
  "wait_one fuel wio cid deadline tty w =
     (case w of
        NoWait \<Rightarrow> runs (ret ())
      | LogMessage needle k want \<Rightarrow> wait_for_log fuel wio cid needle (needed_of k) want tty deadline
      | Duration val \<Rightarrow> runs (wait_for_duration wio cid val deadline)
      | Exit code \<Rightarrow> wait_for_exit fuel wio cid code deadline
      | Healthy \<Rightarrow> wait_for_healthcheck fuel wio cid deadline
      | Http path port expected poll_interval \<Rightarrow>
          wait_for_http fuel wio cid path port expected poll_interval deadline
      | Port port poll_interval \<Rightarrow> wait_for_port fuel wio cid port poll_interval deadline
      | Command cmd poll_interval \<Rightarrow> wait_for_command fuel wio cid cmd poll_interval deadline)"

fun wait_each ::
  "nat \<Rightarrow> 'w wait_io \<Rightarrow> string \<Rightarrow> int \<Rightarrow> bool \<Rightarrow> WaitFor list \<Rightarrow> ('w client, unit) run" where
  "wait_each fuel wio cid deadline tty [] = runs (ret ())"
| "wait_each fuel wio cid deadline tty (w # ws) =
     runThen (wait_one fuel wio cid deadline tty w) (\<lambda>_ c.
       if past wio deadline c \<and> ws \<noteq> [] then
         Some (Inl (StartupTimeoutError
                 (''Startup timeout exceeded while waiting for container '' @ cid) cid), c)
       else wait_each fuel wio cid deadline tty ws c)"

definition with_session_run :: "'w net \<Rightarrow> ('w client, 'a) run \<Rightarrow> ('w client, 'a) run" where
  "with_session_run net m c =
     (let (owns, c1) = session_begin c in
      case m c1 of None \<Rightarrow> None | Some (r, c2) \<Rightarrow> Some (r, session_finish net owns c2))"

definition wait_until_ready ::
  "nat \<Rightarrow> 'w wait_io \<Rightarrow> string \<Rightarrow> WaitFor list \<Rightarrow> int \<Rightarrow> bool \<Rightarrow> ('w client, unit) run" where
  "wait_until_ready fuel wio cid waits timeout tty =
     with_session_run (wi_net wio) (\<lambda>c.
       wait_each fuel wio cid (saturated_add (wi_clock wio) (now_of wio c) timeout) tty waits c)"

subsection \<open>Lemmas on the pure parts\<close>

lemma clamped_wake_le: "cw_wake (clamped_wait_plan clk now val deadline) \<le> deadline"
  by (simp add: clamped_wait_plan_def Let_def)

lemma clamped_fits:
  "\<not> cw_times_out (clamped_wait_plan clk now val deadline) \<Longrightarrow>
     cw_wake (clamped_wait_plan clk now val deadline) = saturated_add clk now val"
  by (auto simp: clamped_wait_plan_def Let_def)

lemma probe_budget_bounds: "1 \<le> probe_budget clk now deadline \<and> probe_budget clk now deadline \<le> 5000"
  by (simp add: probe_budget_def Let_def)

lemma probe_budget_within:
  assumes "clock_ok clk" "now + ticks_per_ms clk \<le> deadline"
  shows "now + probe_budget clk now deadline * ticks_per_ms clk \<le> deadline"
proof -
  define t where "t = ticks_per_ms clk"
  have t: "0 < t" using assms(1) by (simp add: clock_ok_def t_def)
  define left where "left = (deadline - now) div t"
  have "0 \<le> deadline - now" using assms t by (simp add: t_def)
  then have l: "to_ms clk (deadline - now) = left" by (simp add: to_ms_def left_def t_def)
  have "1 \<le> left" using assms(2) t by (simp add: left_def t_def pos_imp_zdiv_pos_iff int_one_le_iff_zero_less)
  then have "probe_budget clk now deadline \<le> left" using l by (simp add: probe_budget_def Let_def)
  then have "probe_budget clk now deadline * t \<le> left * t" using t by simp
  also have "left * t \<le> deadline - now" using t by (simp add: left_def minus_mod_eq_div_mult [symmetric])
  finally show ?thesis by (simp add: t_def)
qed

text \<open>The log wait counts what a snapshot of the delivered text would count.\<close>

definition text_of_source :: "LogSource \<Rightarrow> (LogSource \<times> string) list \<Rightarrow> string" where
  "text_of_source source items = concat (map snd (filter (\<lambda>i. fst i = source) items))"

definition occurrences_in :: "LogStream \<Rightarrow> string \<Rightarrow> (LogSource \<times> string) list \<Rightarrow> nat" where
  "occurrences_in want needle items =
     (if want \<noteq> FromStderr then count_occurrences (text_of_source Stdout items) needle else 0) +
     (if want \<noteq> FromStdout then count_occurrences (text_of_source Stderr items) needle else 0)"

definition counters_at :: "LogStream \<Rightarrow> string \<Rightarrow> (LogSource \<times> string) list \<Rightarrow> log_seen \<Rightarrow> bool" where
  "counters_at want needle items s \<longleftrightarrow>
     oc_sim needle (if want \<noteq> FromStderr then text_of_source Stdout items else []) (ls_stdout s) \<and>
     oc_sim needle (if want \<noteq> FromStdout then text_of_source Stderr items else []) (ls_stderr s)"

lemma text_of_source_snoc:
  "text_of_source source (items @ [(src, dat)]) =
     text_of_source source items @ (if src = source then dat else [])"
  by (simp add: text_of_source_def)

lemma occ_empty [simp]: "occ n [] = 0"
  by (cases n) (simp_all add: occ_None)

lemma seen_counters: "counters_at want needle items s \<Longrightarrow> seen s = occurrences_in want needle items"
  by (auto simp: counters_at_def seen_def occurrences_in_def count_occurrences_occ dest!: oc.sim_obs)

lemma counters_step:
  assumes "counters_at want needle items s"
  shows "counters_at want needle (items @ [(src, dat)])
    (snd (log_consumer want needed deadline ticks src dat s))"
  using assms oc.sim_feed
  by (cases src) (auto simp: counters_at_def log_consumer_def wanted_def text_of_source_snoc Let_def)

lemma run_log_consumer:
  "counters_at want needle before s \<Longrightarrow>
   run_consumer (log_consumer want needed deadline ticks) items s = (go, s') \<Longrightarrow>
     \<exists>k \<le> length items. counters_at want needle (before @ take k items) s' \<and> (go \<longrightarrow> k = length items) \<and>
       (go \<longrightarrow> items \<noteq> [] \<longrightarrow> seen s' < needed)"
proof (induction items arbitrary: before s)
  case Nil
  then show ?case by simp
next
  case (Cons it items)
  obtain src dat where it: "it = (src, dat)" by (cases it)
  obtain g s1 where st: "log_consumer want needed deadline ticks src dat s = (g, s1)"
    by (cases "log_consumer want needed deadline ticks src dat s")
  have c1: "counters_at want needle (before @ [(src, dat)]) s1"
    using counters_step [OF Cons.prems(1), of src dat needed deadline ticks] st by simp
  show ?case
  proof (cases g)
    case False
    with Cons.prems(2) it st have "s' = s1" "\<not> go" by auto
    with c1 it show ?thesis by (intro exI [of _ "1::nat"]) simp
  next
    case True
    with st have small: "seen s1 < needed"
      by (auto simp: log_consumer_def Let_def seen_def split: if_splits)
    from True Cons.prems(2) it st have r: "run_consumer (log_consumer want needed deadline ticks) items s1 = (go, s')"
      by simp
    from Cons.IH [OF c1 r] obtain k where k: "k \<le> length items"
      "counters_at want needle ((before @ [(src, dat)]) @ take k items) s'" "go \<longrightarrow> k = length items"
      "go \<longrightarrow> items \<noteq> [] \<longrightarrow> seen s' < needed" by blast
    have "items = [] \<Longrightarrow> s' = s1" using r by simp
    with k it small show ?thesis by (intro exI [of _ "Suc k"]) auto
  qed
qed

lemma nothing_seen_counters [simp]: "counters_at want needle [] (nothing_seen needle)"
  using oc.sim_init [of needle] by (simp add: counters_at_def nothing_seen_def text_of_source_def)

end
