(* ===== verification/Timing.thy ===== *)
theory Timing
  imports Wait
begin

section \<open>The waits return\<close>

text \<open>
  Time only moves forward: what the transport and the probes do never sets the clock back, and a
  sleep lasts at least as long as asked.  Under these hypotheses each polling wait comes back
  within a number of turns that its timeout and its interval bound.
\<close>

definition moves :: "('s \<Rightarrow> int) \<Rightarrow> ('s, 'a) act \<Rightarrow> bool" where
  "moves clk m \<longleftrightarrow> (\<forall>s. clk s \<le> clk (snd (m s)))"

lemma moves_pure [intro, simp]:
  "moves clk (ret x)" "moves clk (throw e)" "moves clk (lift_res r)" "moves clk (gets f)"
  by (simp_all add: moves_def)

lemma moves_andThen [intro]: "moves clk m \<Longrightarrow> (\<And>x. moves clk (f x)) \<Longrightarrow> moves clk (andThen m f)"
proof -
  assume m: "moves clk m" and f: "\<And>x. moves clk (f x)"
  show ?thesis unfolding moves_def
  proof
    fix s
    obtain r t where r: "m s = (r, t)" by (cases "m s")
    have "clk s \<le> clk t" using m r by (metis moves_def snd_conv)
    moreover have "clk t \<le> clk (snd (f x t))" for x using f by (simp add: moves_def)
    ultimately show "clk s \<le> clk (snd (andThen m f s))"
      using r by (cases r) (auto intro: order_trans)
  qed
qed

lemma moves_if [intro]: "moves clk m \<Longrightarrow> moves clk n \<Longrightarrow> moves clk (if b then m else n)"
  by simp

definition time_runs :: "'w wait_io \<Rightarrow> bool" where
  "time_runs wio \<longleftrightarrow>
     (let net = wi_net wio; now = si_now (wi_stream wio) in
      0 < ticks_per_ms (wi_clock wio) \<and>
      (\<forall>h t w. now w \<le> now (snd (net_connect net h t w))) \<and>
      (\<forall>n rq cap hd w. now w \<le> now (snd (net_exchange net n rq cap hd w))) \<and>
      (\<forall>n t w. now w \<le> now (net_set_io_timeout net n t w)) \<and>
      (\<forall>n w. now w \<le> now (net_close net n w)) \<and>
      (\<forall>h p b w. now w \<le> now (snd (wi_tcp wio h p b w))) \<and>
      (\<forall>h p rq b w. now w \<le> now (snd (wi_http wio h p rq b w))) \<and>
      (\<forall>ms w. now w + ms * ticks_per_ms (wi_clock wio) \<le> now (net_sleep net ms w)))"

lemma moves_world_do:
  "(\<And>w. si_now (wi_stream wio) w \<le> si_now (wi_stream wio) (f w)) \<Longrightarrow> moves (now_of wio) (world_do f)"
  by (simp add: moves_def now_of_def world_do_def)

lemma moves_world_op:
  "(\<And>w. si_now (wi_stream wio) w \<le> si_now (wi_stream wio) (snd (f w))) \<Longrightarrow>
     moves (now_of wio) (world_op f)"
  by (simp add: moves_def now_of_def world_op_def split_def Let_def)

lemma moves_world_res:
  "(\<And>w. si_now (wi_stream wio) w \<le> si_now (wi_stream wio) (snd (f w))) \<Longrightarrow>
     moves (now_of wio) (world_res f)"
  by (simp add: moves_def now_of_def world_res_def split_def Let_def)

lemma moves_modify: "(\<And>c. cl_world (f c) = cl_world c) \<Longrightarrow> moves (now_of wio) (modify f)"
  by (simp add: moves_def now_of_def)

lemma moves_drop [simp]: "moves (now_of wio) drop_session_transport"
  unfolding drop_session_transport_def by (rule moves_modify) simp

lemma moves_perform:
  "time_runs wio \<Longrightarrow> moves (now_of wio) (perform (wi_net wio) m t b h conn ka)"
  by (simp add: moves_def perform_def now_of_def time_runs_def Let_def split_def)

lemma moves_fresh:
  assumes "time_runs wio"
  shows "moves (now_of wio) (fresh_request (wi_net wio) m t b h tmo reuse)"
  unfolding fresh_request_def
proof (intro moves_andThen)
  have "moves (now_of wio) (world_res (net_connect (wi_net wio) h tmo))" for h
    using assms by (intro moves_world_res) (simp add: time_runs_def Let_def)
  then show "moves (now_of wio) (\<lambda>c. world_res (net_connect (wi_net wio) (cl_host c) tmo) c)"
    by (simp add: moves_def)
  show "moves (now_of wio) (perform (wi_net wio) m t b h conn reuse)" for conn
    using assms by (rule moves_perform)
  show "moves (now_of wio) ((\<lambda>(out, conn_reusable). andThen
      (if reuse \<and> conn_reusable then modify (\<lambda>c. c\<lparr>cl_session_transport := Some conn\<rparr>)
       else world_do (net_close (wi_net wio) conn)) (\<lambda>_. ret out)) x)" for conn x
  proof (cases x)
    case (Pair out re)
    have "moves (now_of wio) (world_do (net_close (wi_net wio) conn))"
      using assms by (intro moves_world_do) (simp add: time_runs_def Let_def)
    moreover have "moves (now_of wio) (modify (\<lambda>c. c\<lparr>cl_session_transport := Some conn\<rparr>))"
      by (rule moves_modify) simp
    ultimately show ?thesis using Pair by (simp add: moves_andThen moves_if)
  qed
qed

lemma moves_request_io:
  assumes "time_runs wio"
  shows "moves (now_of wio) (request_with_io_timeout (wi_net wio) m t b h io)"
  unfolding moves_def
proof
  fix c :: "'a client"
  let ?fresh = "\<lambda>tmo reuse. fresh_request (wi_net wio) m t b h tmo reuse"
  let ?tmo = "(cl_timeouts c)\<lparr>tt_io := io\<rparr>"
  let ?reuse = "cl_session_enabled c \<and> m = ''GET''"
  have fresh: "now_of wio s \<le> now_of wio (snd (?fresh tmo reuse s))" for s tmo reuse
    using moves_fresh [OF assms] by (simp add: moves_def)
  show "now_of wio c \<le> now_of wio (snd (request_with_io_timeout (wi_net wio) m t b h io c))"
  proof (cases "?reuse \<and> cl_session_transport c \<noteq> None")
    case False
    then have "request_with_io_timeout (wi_net wio) m t b h io c = ?fresh ?tmo ?reuse c"
      by (auto simp: request_with_io_timeout_def Let_def split: option.splits)
    then show ?thesis using fresh by simp
  next
    case True
    then obtain conn where conn: "cl_session_transport c = Some conn" and r: ?reuse by auto
    let ?c1 = "c\<lparr>cl_world := net_set_io_timeout (wi_net wio) conn io (cl_world c)\<rparr>"
    obtain rp c2 where p: "perform (wi_net wio) m t b h conn True ?c1 = (rp, c2)"
      by (cases "perform (wi_net wio) m t b h conn True ?c1")
    have "now_of wio c \<le> now_of wio ?c1"
      using assms by (simp add: now_of_def time_runs_def Let_def)
    also have "\<dots> \<le> now_of wio c2"
      using moves_perform [OF assms, of m t b h conn True] p by (metis moves_def snd_conv)
    finally have c2: "now_of wio c \<le> now_of wio c2" .
    have d: "now_of wio (c2\<lparr>cl_session_transport := None\<rparr>) = now_of wio c2" by (simp add: now_of_def)
    have reuse: "(cl_session_enabled c \<and> m = ''GET'') = True" using r by simp
    show ?thesis
      using c2 d p order_trans [OF c2, of "now_of wio (snd (?fresh ?tmo True (c2\<lparr>cl_session_transport := None\<rparr>)))"]
        fresh [of "c2\<lparr>cl_session_transport := None\<rparr>" ?tmo True]
      unfolding request_with_io_timeout_def Let_def reuse conn
      by (auto simp: world_do_def andThen_apply drop_session_transport_def split: sum.splits)
  qed
qed

lemma moves_request:
  "time_runs wio \<Longrightarrow> moves (now_of wio) (request (wi_net wio) m t b h)"
  using moves_request_io [of wio] by (simp add: moves_def request_def)

lemma moves_versioned:
  assumes "time_runs wio"
  shows "moves (now_of wio) (versioned (wi_net wio) t)"
proof -
  have "moves (now_of wio) (api_prefix (wi_net wio))" unfolding moves_def
  proof
    fix c
    obtain r c1 where q: "request (wi_net wio) ''GET'' ''/_ping'' [] [] c = (r, c1)"
      by (cases "request (wi_net wio) ''GET'' ''/_ping'' [] [] c")
    have "now_of wio c \<le> now_of wio c1"
      using moves_request [OF assms, of "''GET''" "''/_ping''" "[]" "[]"] q by (metis moves_def snd_conv)
    then show "now_of wio c \<le> now_of wio (snd (api_prefix (wi_net wio) c))"
      using q by (auto simp: api_prefix_def andThen_apply Let_def now_of_def split: option.splits sum.splits)
  qed
  then show ?thesis unfolding versioned_def by (intro moves_andThen) auto
qed

lemma moves_inspect:
  assumes "time_runs wio"
  shows "moves (now_of wio) (inspect_container (wi_net wio) cid)"
  unfolding inspect_container_def inspect_container_raw_def expect_status_def
  by (intro moves_andThen moves_versioned [OF assms] moves_request [OF assms] moves_if moves_pure)

lemma sleep_for_moves:
  "time_runs wio \<Longrightarrow> now_of wio c + ms * ticks_per_ms (wi_clock wio) \<le> now_of wio (sleep_for wio ms c)"
  by (simp add: time_runs_def Let_def now_of_def sleep_for_def)

lemma past_now: "deadline \<le> now_of wio c \<Longrightarrow> past wio deadline c"
  by (simp add: past_def)

text \<open>The loop with pauses of \<open>ms\<close> milliseconds, for any probe that runs an action.\<close>

lemma polling_returns:
  assumes t: "time_runs wio"
    and probe: "\<And>l. \<exists>m. probe l = runs m \<and> moves (now_of wio) m"
    and fuel: "deadline - now_of wio c \<le> int n * (ms * ticks_per_ms (wi_clock wio))"
  shows "poll_loop (Suc n) probe (past wio deadline) timeout (sleep_for wio ms) l c \<noteq> None"
proof (rule poll_loop_returns [where clk = "now_of wio" and step = "ms * ticks_per_ms (wi_clock wio)"
      and deadline = deadline])
  show "now_of wio s + ms * ticks_per_ms (wi_clock wio) \<le> now_of wio (sleep_for wio ms s)" for s
    using t by (rule sleep_for_moves)
  show "\<exists>r s'. probe l s = Some (r, s') \<and> now_of wio s \<le> now_of wio s'" for l s
  proof -
    obtain m where m: "probe l = runs m" "moves (now_of wio) m" using probe by blast
    obtain r s' where r: "m s = (r, s')" by (cases "m s")
    then have "now_of wio s \<le> now_of wio s'" using m(2) by (metis moves_def snd_conv)
    with m(1) r show ?thesis by simp
  qed
  show "past wio deadline s" if "deadline \<le> now_of wio s" for s using that by (rule past_now)
qed (rule fuel)

lemma exit_probe_moves:
  assumes "time_runs wio"
  shows "\<exists>m. exit_probe wio cid code l = runs m \<and> moves (now_of wio) m"
  unfolding exit_probe_def
  by (rule exI, rule conjI, rule refl)
    (auto intro!: moves_andThen moves_inspect [OF assms] split: option.splits)

lemma health_probe_moves:
  assumes "time_runs wio"
  shows "\<exists>m. health_probe wio cid l = runs m \<and> moves (now_of wio) m"
  unfolding health_probe_def Let_def
  by (rule exI, rule conjI, rule refl) (auto intro!: moves_andThen moves_inspect [OF assms])

lemma port_attempt_moves:
  assumes "time_runs wio"
  shows "\<exists>m. port_attempt wio host port deadline l = runs m \<and> moves (now_of wio) m"
proof -
  have "moves (now_of wio) (tcp_probe wio host port b)" for b
    unfolding tcp_probe_def using assms
    by (intro moves_andThen moves_world_op moves_pure) (simp add: time_runs_def Let_def)
  then have "moves (now_of wio) (andThen (tcp_probe wio host port b) (\<lambda>ok. ret (if ok then None else Some ())))" for b
    by (intro moves_andThen moves_pure)
  then have "moves (now_of wio) (\<lambda>c. andThen (tcp_probe wio host port (budget_at wio deadline c))
      (\<lambda>ok. ret (if ok then None else Some ())) c)"
    unfolding moves_def by blast
  then show ?thesis unfolding port_attempt_def by blast
qed

lemma http_attempt_moves:
  assumes "time_runs wio"
  shows "\<exists>m. http_attempt wio host port path expected deadline l = runs m \<and> moves (now_of wio) m"
proof -
  have "moves (now_of wio) (http_probe wio host port path b)" for b
    unfolding http_probe_def using assms
    by (intro moves_andThen moves_world_op moves_pure) (simp add: time_runs_def Let_def)
  then have "moves (now_of wio) (andThen (http_probe wio host port path b) (\<lambda>status. ret (g status)))" for b g
    by (intro moves_andThen moves_pure)
  then have "moves (now_of wio) (\<lambda>c. andThen (http_probe wio host port path (budget_at wio deadline c))
      (\<lambda>status. ret (g status)) c)" for g
    unfolding moves_def by blast
  then show ?thesis unfolding http_attempt_def by blast
qed

lemma mapped_port_moves:
  assumes "time_runs wio"
  shows "moves (now_of wio) (mapped_host_port (wi_net wio) cid port)"
  unfolding mapped_host_port_def Let_def
  by (auto intro!: moves_andThen moves_inspect [OF assms] split: option.splits)

lemma after_mapped_port:
  assumes t: "time_runs wio"
    and fuel: "deadline - now_of wio c \<le> int n * step"
    and loop: "\<And>hp c'. deadline - now_of wio c' \<le> int n * step \<Longrightarrow> k hp c' \<noteq> None"
  shows "runThen (runs (mapped_host_port (wi_net wio) cid port)) k c \<noteq> None"
proof -
  obtain r c' where r: "mapped_host_port (wi_net wio) cid port c = (r, c')"
    by (cases "mapped_host_port (wi_net wio) cid port c")
  then have "now_of wio c \<le> now_of wio c'"
    using mapped_port_moves [OF t, of cid port] by (metis moves_def snd_conv)
  with fuel have "deadline - now_of wio c' \<le> int n * step" by simp
  with r loop show ?thesis by (cases r) (auto simp: runThen_def)
qed

lemma wait_for_exit_returns:
  assumes "time_runs wio" "deadline - now_of wio c \<le> int n * (200 * ticks_per_ms (wi_clock wio))"
  shows "wait_for_exit (Suc n) wio cid code deadline c \<noteq> None"
  unfolding wait_for_exit_def using assms by (intro polling_returns exit_probe_moves)

lemma wait_for_healthcheck_returns:
  assumes "time_runs wio" "deadline - now_of wio c \<le> int n * (200 * ticks_per_ms (wi_clock wio))"
  shows "wait_for_healthcheck (Suc n) wio cid deadline c \<noteq> None"
  unfolding wait_for_healthcheck_def using assms by (intro polling_returns health_probe_moves)

lemma wait_for_port_returns:
  assumes "time_runs wio"
    and "deadline - now_of wio c \<le> int n * (interval_of poll_interval * ticks_per_ms (wi_clock wio))"
  shows "wait_for_port (Suc n) wio cid port poll_interval deadline c \<noteq> None"
  unfolding wait_for_port_def Let_def
  by (rule after_mapped_port [OF assms]) (intro polling_returns assms port_attempt_moves)

lemma wait_for_http_returns:
  assumes "time_runs wio"
    and "deadline - now_of wio c \<le> int n * (interval_of poll_interval * ticks_per_ms (wi_clock wio))"
  shows "wait_for_http (Suc n) wio cid path port expected poll_interval deadline c \<noteq> None"
  unfolding wait_for_http_def Let_def
  by (rule after_mapped_port [OF assms]) (intro polling_returns assms http_attempt_moves)

text \<open>What a wait that came back with success has seen.\<close>

lemma wait_for_exit_saw:
  assumes "wait_for_exit fuel wio cid code deadline c = Some (Inr (), c')"
  shows "\<exists>c0 info. inspect_container (wi_net wio) cid c0 = (Inr info, c') \<and> \<not> ci_running info \<and>
    (\<forall>k. code = Some k \<longrightarrow> ci_exit_code info = Some k)"
proof -
  obtain c0 where "exit_probe wio cid code () c0 = Some (Inr None, c')"
    using poll_loop_ready [OF assms [unfolded wait_for_exit_def]] by auto
  then show ?thesis
    by (auto simp: exit_probe_def andThen_Inr split: if_splits option.splits)
qed

lemma wait_for_healthcheck_saw:
  assumes "wait_for_healthcheck fuel wio cid deadline c = Some (Inr (), c')"
  shows "\<exists>c0 info. inspect_container (wi_net wio) cid c0 = (Inr info, c') \<and>
    ci_health_status info = Some ''healthy''"
proof -
  obtain l c0 where "health_probe wio cid l c0 = Some (Inr None, c')"
    using poll_loop_ready [OF assms [unfolded wait_for_healthcheck_def]] by auto
  then show ?thesis
    by (auto simp: health_probe_def andThen_Inr Let_def split: if_splits option.splits)
qed

subsection \<open>The whole wait\<close>

text \<open>The waits in a row: each starts no earlier than the one before it, under the same deadline.\<close>

definition clock_wakes :: "'w wait_io \<Rightarrow> bool" where
  "clock_wakes wio \<longleftrightarrow>
     (\<forall>t w. si_now (wi_stream wio) w \<le> si_now (wi_stream wio) (wi_sleep_until wio t w))"

definition polled :: "WaitFor \<Rightarrow> bool" where
  "polled w = (case w of LogMessage _ _ _ \<Rightarrow> False | Command _ _ \<Rightarrow> False | _ \<Rightarrow> True)"

text \<open>The milliseconds between two probes of a condition.\<close>

definition pace :: "WaitFor \<Rightarrow> int" where
  "pace w = (case w of Http _ _ _ p \<Rightarrow> interval_of p | Port _ p \<Rightarrow> interval_of p | _ \<Rightarrow> 200)"

lemma pace_pos: "0 < pace w"
  by (simp add: pace_def interval_of_def split: WaitFor.splits)

definition forward :: "('s \<Rightarrow> int) \<Rightarrow> ('s, 'a) run \<Rightarrow> bool" where
  "forward clk m \<longleftrightarrow> (\<forall>s r t. m s = Some (r, t) \<longrightarrow> clk s \<le> clk t)"

lemma forward_runs: "moves clk m \<Longrightarrow> forward clk (runs m)"
  by (auto simp: forward_def moves_def) (metis snd_conv)

lemma forward_runThen: "forward clk m \<Longrightarrow> (\<And>x. forward clk (f x)) \<Longrightarrow> forward clk (runThen m f)"
  by (auto simp: forward_def runThen_Some) (meson order_trans)

lemma forward_poll_loop:
  assumes probe: "\<And>l. forward clk (probe l)" and pause: "\<And>s. clk s \<le> clk (pause s)"
  shows "forward clk (poll_loop n probe expired timeout pause l)"
  unfolding forward_def
proof (intro allI impI)
  fix s r t
  show "poll_loop n probe expired timeout pause l s = Some (r, t) \<Longrightarrow> clk s \<le> clk t"
  proof (induction n arbitrary: l s)
    case (Suc n)
    obtain q s1 where p: "probe l s = Some (q, s1)"
      using Suc.prems by (cases "probe l s") auto
    then have s1: "clk s \<le> clk s1" using probe by (simp add: forward_def)
    show ?case
    proof (cases "\<exists>l'. q = Inr (Some l') \<and> \<not> expired s1")
      case True
      then obtain l' where q: "q = Inr (Some l')" "\<not> expired s1" by blast
      with Suc.prems p have "poll_loop n probe expired timeout pause l' (pause s1) = Some (r, t)" by simp
      from Suc.IH [OF this] s1 pause [of s1] show ?thesis by simp
    next
      case False
      with Suc.prems p s1 show ?thesis by (auto split: sum.splits option.splits if_splits)
    qed
  qed simp
qed

lemma sleep_for_later:
  "time_runs wio \<Longrightarrow> 0 \<le> ms \<Longrightarrow> now_of wio c \<le> now_of wio (sleep_for wio ms c)"
  using sleep_for_moves [of wio c ms]
  by (auto simp: time_runs_def Let_def intro: order_trans [rotated])

lemma forward_polling:
  assumes "time_runs wio" "\<And>l. \<exists>m. probe l = runs m \<and> moves (now_of wio) m" "0 \<le> ms"
  shows "forward (now_of wio) (poll_loop n probe expired timeout (sleep_for wio ms) l)"
  using assms by (intro forward_poll_loop sleep_for_later) (metis forward_runs)

lemma interval_pos [simp]: "0 < interval_of p" "0 \<le> interval_of p"
  by (simp_all add: interval_of_def)

lemma wait_for_duration_moves:
  "clock_wakes wio \<Longrightarrow> moves (now_of wio) (wait_for_duration wio cid val deadline)"
  by (simp add: moves_def wait_for_duration_def Let_def clock_wakes_def now_of_def sleep_until_def)

lemma wait_one_polled:
  assumes t: "time_runs wio" and k: "clock_wakes wio" and p: "polled w"
  shows "forward (now_of wio) (wait_one fuel wio cid deadline tty w)"
    and "deadline - now_of wio c \<le> int n * (pace w * ticks_per_ms (wi_clock wio)) \<Longrightarrow>
      wait_one (Suc n) wio cid deadline tty w c \<noteq> None"
proof -
  have http: "forward (now_of wio) (wait_for_http fuel wio cid path port expected i deadline)"
    for path port expected i
    unfolding forward_def wait_for_http_def Let_def
    using forward_runThen [OF forward_runs [OF mapped_port_moves [OF t]]
        forward_polling [OF t http_attempt_moves [OF t]], OF interval_pos(2)]
    by (auto simp: forward_def)
  have port: "forward (now_of wio) (wait_for_port fuel wio cid port i deadline)" for port i
    unfolding forward_def wait_for_port_def Let_def
    using forward_runThen [OF forward_runs [OF mapped_port_moves [OF t]]
        forward_polling [OF t port_attempt_moves [OF t]], OF interval_pos(2)]
    by (auto simp: forward_def)
  show "forward (now_of wio) (wait_one fuel wio cid deadline tty w)"
    using p http port
    by (auto simp: wait_one_def polled_def wait_for_exit_def wait_for_healthcheck_def
        intro!: forward_runs wait_for_duration_moves [OF k] forward_polling [OF t]
          exit_probe_moves [OF t] health_probe_moves [OF t] split: WaitFor.splits)
  show "wait_one (Suc n) wio cid deadline tty w c \<noteq> None"
    if "deadline - now_of wio c \<le> int n * (pace w * ticks_per_ms (wi_clock wio))"
    using p that
    by (cases w)
      (simp_all add: wait_one_def polled_def pace_def wait_for_exit_returns [OF t] wait_for_port_returns [OF t]
        wait_for_healthcheck_returns [OF t] wait_for_http_returns [OF t] del: not_None_eq)
qed

lemma wait_each_returns:
  assumes t: "time_runs wio" and k: "clock_wakes wio"
  shows "\<forall>w \<in> set ws. polled w \<and>
      deadline - now_of wio c \<le> int n * (pace w * ticks_per_ms (wi_clock wio)) \<Longrightarrow>
    wait_each (Suc n) wio cid deadline tty ws c \<noteq> None"
proof (induction ws arbitrary: c)
  case (Cons w ws)
  then have p: "polled w" by simp
  obtain r c1 where r: "wait_one (Suc n) wio cid deadline tty w c = Some (r, c1)"
    using wait_one_polled(2) [OF t k p, of deadline c n cid tty] Cons.prems by auto
  then have "now_of wio c \<le> now_of wio c1"
    using wait_one_polled(1) [OF t k p] by (simp add: forward_def)
  with Cons.prems have "wait_each (Suc n) wio cid deadline tty ws c1 \<noteq> None"
    by (intro Cons.IH) (auto intro: order_trans [rotated])
  with r show ?case by (cases r) (auto simp: runThen_def)
qed simp

lemma saturated_add_less:
  assumes "0 < ticks_per_ms clk" "0 \<le> delta"
  shows "saturated_add clk at delta < at + (delta + 1) * ticks_per_ms clk"
proof -
  let ?t = "ticks_per_ms clk" and ?h = "(time_max clk - at) div ticks_per_ms clk"
  have m: "(delta + 1) * ?t = delta * ?t + ?t" by (simp add: algebra_simps)
  have "time_max clk < at + (delta + 1) * ?t" if "?h \<le> delta"
  proof -
    have "time_max clk - at < (?h + 1) * ?t"
      using assms(1) pos_mod_bound [of ?t "time_max clk - at"]
      by (simp add: algebra_simps minus_mod_eq_mult_div [symmetric] mult.commute)
    also have "\<dots> \<le> (delta + 1) * ?t" using assms(1) that by simp
    finally show ?thesis by simp
  qed
  with assms m show ?thesis by (auto simp: saturated_add_def Let_def not_le)
qed

lemma wait_until_ready_returns:
  assumes "time_runs wio" "clock_wakes wio" "0 \<le> timeout"
    and "\<forall>w \<in> set waits. polled w \<and> timeout < int n * pace w"
  shows "wait_until_ready (Suc n) wio cid waits timeout tty c \<noteq> None"
proof -
  let ?t = "ticks_per_ms (wi_clock wio)"
  let ?c = "c\<lparr>cl_session_enabled := True\<rparr>"
  let ?dl = "saturated_add (wi_clock wio) (now_of wio ?c) timeout"
  have t: "0 < ?t" using assms(1) by (simp add: time_runs_def Let_def)
  have "?dl - now_of wio ?c \<le> int n * (pace w * ?t)" if "w \<in> set waits" for w
  proof -
    have "?dl - now_of wio ?c < (timeout + 1) * ?t"
      using saturated_add_less [OF t assms(3), of "now_of wio ?c"] by linarith
    also have "\<dots> \<le> (int n * pace w) * ?t"
      using assms(4) that t by (intro mult_right_mono) auto
    finally show ?thesis by (simp add: mult.assoc)
  qed
  with assms(4) have "wait_each (Suc n) wio cid ?dl tty waits ?c \<noteq> None"
    by (intro wait_each_returns [OF assms(1,2)]) auto
  then show ?thesis
    by (auto simp: wait_until_ready_def with_session_run_def session_begin_def split: prod.splits)
qed

subsection \<open>How the probing waits end\<close>

text \<open>A poll loop whose probes never throw fails only with its timeout, past the deadline.\<close>

lemma port_wait_failure:
  assumes "wait_for_port fuel wio cid port poll_interval deadline c = Some (Inl e, c')"
  shows "mapped_host_port (wi_net wio) cid port c = (Inl e, c') \<or>
    ((\<exists>m. e = StartupTimeoutError m cid) \<and> past wio deadline c')"
proof -
  have quiet_probe: "port_attempt wio host hp deadline l s \<noteq> Some (Inl e, c')" for host hp l s
    by (auto simp: port_attempt_def tcp_probe_def andThen_apply world_op_def split: prod.splits)
  from assms show ?thesis
    by (auto simp: wait_for_port_def Let_def runThen_Some quiet_probe dest!: poll_loop_failure)
qed

lemma http_wait_failure:
  assumes "wait_for_http fuel wio cid path port expected poll_interval deadline c = Some (Inl e, c')"
  shows "mapped_host_port (wi_net wio) cid port c = (Inl e, c') \<or>
    ((\<exists>m. e = StartupTimeoutError m cid) \<and> past wio deadline c')"
proof -
  have quiet_probe: "http_attempt wio host hp path expected deadline l s \<noteq> Some (Inl e, c')" for host hp l s
    by (auto simp: http_attempt_def http_probe_def andThen_apply world_op_def split: prod.splits)
  from assms show ?thesis
    by (auto simp: wait_for_http_def Let_def runThen_Some quiet_probe dest!: poll_loop_failure)
qed

text \<open>Success of a probing wait: the last probe was answered as wanted.\<close>

lemma port_wait_success:
  assumes "wait_for_port fuel wio cid port poll_interval deadline c = Some (Inr (), c')"
  shows "\<exists>hp c0 b w x. mapped_host_port (wi_net wio) cid port c = (Inr hp, c0) \<and>
    wi_tcp wio (probe_host wio c) hp b w = (x, cl_world c') \<and> tcp_answer x"
proof -
  from assms obtain hp c0 where m: "mapped_host_port (wi_net wio) cid port c = (Inr hp, c0)"
    and p: "poll_loop fuel (port_attempt wio (probe_host wio c) hp deadline) (past wio deadline)
       (\<lambda>_. StartupTimeoutError (''Timed out waiting for TCP connection to '' @ probe_host wio c @ '':'' @
             to_dec hp @ '' (container '' @ cid @ '')'') cid)
       (sleep_for wio (interval_of poll_interval)) () c0 = Some (Inr (), c')"
    by (auto simp: wait_for_port_def Let_def runThen_Some)
  from poll_loop_ready [OF p] obtain l s where
    "port_attempt wio (probe_host wio c) hp deadline l s = Some (Inr None, c')" by blast
  then have "\<exists>b w x. wi_tcp wio (probe_host wio c) hp b w = (x, cl_world c') \<and> tcp_answer x"
    by (fastforce simp: port_attempt_def tcp_probe_def andThen_apply world_op_def Let_def
        split: prod.splits if_splits)
  with m show ?thesis by blast
qed

end
