(* ===== verification/Tar.thy ===== *)
theory Tar
  imports TC_Prelude Text_Config "HOL-Library.List_Lexorder" "HOL-Library.Char_ord"
begin

section \<open>Archives\<close>

text \<open>
  \<open>src/docker/Tar.cpp\<close>, \<open>src/docker/Tar.hpp\<close> and \<open>include/testcontainers/CopyToContainer.hpp\<close>:
  which entries a copy to a container or a build context holds, and the safe extraction of an
  archive under a directory.  The tar format itself is libarchive's: an archive is the list of its
  entries.  Paths on the host are strings, paths below a destination lists of components; the
  separator rules are the POSIX ones, with the drive checks the code makes on every platform.
\<close>

subsection \<open>Sources and the host's files\<close>

datatype SourceKind = HostFile | Bytes | HostDir

record CopyToContainer =
  cp_source :: SourceKind
  cp_host_path :: string
  cp_bytes :: string
  cp_target :: string
  cp_mode :: int

definition host_file :: "string \<Rightarrow> string \<Rightarrow> CopyToContainer" where
  "host_file host_path target =
     \<lparr>cp_source = HostFile, cp_host_path = host_path, cp_bytes = [], cp_target = target, cp_mode = 420\<rparr>"

definition host_content :: "string \<Rightarrow> string \<Rightarrow> CopyToContainer" where
  "host_content bytes target =
     \<lparr>cp_source = Bytes, cp_host_path = [], cp_bytes = bytes, cp_target = target, cp_mode = 420\<rparr>"

definition host_dir :: "string \<Rightarrow> string \<Rightarrow> CopyToContainer" where
  "host_dir host_path target =
     \<lparr>cp_source = HostDir, cp_host_path = host_path, cp_bytes = [], cp_target = target, cp_mode = 420\<rparr>"

datatype walk_kind = WalkDir | WalkFile | WalkOther

record walk_item =
  wk_rel :: string
  wk_kind :: walk_kind
  wk_path :: string

text \<open>
  The file system as the code asks it: sizes, time stamps, contents, and the recursive iteration
  of a directory (with the error that ended it, if one did).
\<close>

record host_fs =
  hf_size :: "string \<Rightarrow> nat res"
  hf_mtime :: "string \<Rightarrow> int option"
  hf_is_dir :: "string \<Rightarrow> bool"
  hf_walk :: "string \<Rightarrow> walk_item list \<times> string option"
  hf_read :: "string \<Rightarrow> string option"

subsection \<open>Entry names\<close>

definition strip_leading_slash :: "string \<Rightarrow> string" where
  "strip_leading_slash path = (if path \<noteq> [] \<and> hd path = CHR ''/'' then tl path else path)"

definition is_alpha :: "char \<Rightarrow> bool" where
  "is_alpha c \<longleftrightarrow>
     (let n = byte_nat c in (65 \<le> n \<and> n \<le> 90) \<or> (97 \<le> n \<and> n \<le> 122))"

definition is_sep :: "char \<Rightarrow> bool" where
  "is_sep c \<longleftrightarrow> c = CHR ''/'' \<or> c = CHR 0x5C"

definition drive_rooted :: "string \<Rightarrow> bool" where
  "drive_rooted t \<longleftrightarrow> 2 \<le> length t \<and> is_alpha (t ! 0) \<and> t ! 1 = CHR '':''"

definition normalize_entry_name :: "string \<Rightarrow> string" where
  "normalize_entry_name target =
     strip_leading_slash
       (if 3 \<le> length target \<and> drive_rooted target \<and> is_sep (target ! 2)
        then map (\<lambda>c. if c = CHR 0x5C then CHR ''/'' else c) (drop 2 target)
        else target)"

subsection \<open>Collecting the entries\<close>

record PendingEntry =
  pe_name :: string
  pe_body :: string
  pe_file :: string
  pe_file_size :: nat
  pe_mode :: int
  pe_is_dir :: bool

definition dir_entry :: "string \<Rightarrow> PendingEntry" where
  "dir_entry name =
     \<lparr>pe_name = name @ ''/'', pe_body = [], pe_file = [], pe_file_size = 0, pe_mode = 493, pe_is_dir = True\<rparr>"

definition stat_size_or_throw :: "host_fs \<Rightarrow> string \<Rightarrow> string \<Rightarrow> nat res" where
  "stat_size_or_throw fs path ctx =
     (case hf_size fs path of
        Inr n \<Rightarrow> Inr n
      | Inl e \<Rightarrow>
          Inl (DockerError (ctx @ '': cannot open host file '' @ [CHR 0x27] @ path @ [CHR 0x27] @ '': '' @
                 exn_what e) None []))"

text \<open>The target and every component above it: \<open>root.find('/', pos + 1)\<close> over and over.\<close>

fun chain_from :: "string \<Rightarrow> string \<Rightarrow> string list" where
  "chain_from done [] = [done]"
| "chain_from done (c # cs) =
     (if c = CHR ''/'' then done # chain_from (done @ [c]) cs else chain_from (done @ [c]) cs)"

definition dir_chain :: "string \<Rightarrow> PendingEntry list" where
  "dir_chain root = map dir_entry (filter (\<lambda>p. p \<noteq> []) (chain_from [] root))"

definition walk_entry :: "host_fs \<Rightarrow> string \<Rightarrow> int \<Rightarrow> walk_item \<Rightarrow> PendingEntry list res" where
  "walk_entry fs root file_mode item =
     (let name = (if root = [] then wk_rel item else root @ ''/'' @ wk_rel item) in
      case wk_kind item of
        WalkDir \<Rightarrow> Inr [dir_entry name]
      | WalkFile \<Rightarrow>
          try_bind (hf_size fs (wk_path item)) (\<lambda>n.
            Inr [\<lparr>pe_name = name, pe_body = [], pe_file = wk_path item, pe_file_size = n,
                  pe_mode = file_mode, pe_is_dir = False\<rparr>])
      | WalkOther \<Rightarrow> Inr [])"

definition walk_host_dir :: "host_fs \<Rightarrow> string \<Rightarrow> string \<Rightarrow> int \<Rightarrow> PendingEntry list res" where
  "walk_host_dir fs dir base file_mode =
     (let q = [CHR 0x27] in
      if \<not> hf_is_dir fs dir then
        Inl (DockerError (''copy_to_container: host directory '' @ q @ dir @ q @
               '' does not exist or is not a directory'') None [])
      else
        let root = (if base \<noteq> [] \<and> last base = CHR ''/'' then butlast base else base);
            (items, failure) = hf_walk fs dir;
            walked = try_map (walk_entry fs root file_mode) items;
            cannot = (\<lambda>w. Inl (DockerError (''copy_to_container: cannot walk host directory '' @ q @ dir @ q @
                                '': '' @ w) None []))
        in case walked of
             Inl e \<Rightarrow> cannot (exn_what e)
           | Inr ess \<Rightarrow>
               (case failure of
                  Some w \<Rightarrow> cannot w
                | None \<Rightarrow> Inr (sort_key pe_name (dir_chain root @ concat ess))))"

definition collect_entries :: "host_fs \<Rightarrow> CopyToContainer \<Rightarrow> PendingEntry list res" where
  "collect_entries fs source =
     (let name = normalize_entry_name (cp_target source) in
      case cp_source source of
        HostDir \<Rightarrow> walk_host_dir fs (cp_host_path source) name (cp_mode source)
      | HostFile \<Rightarrow>
          try_bind (stat_size_or_throw fs (cp_host_path source) ''copy_to_container'') (\<lambda>n.
            Inr [\<lparr>pe_name = name, pe_body = [], pe_file = cp_host_path source, pe_file_size = n,
                  pe_mode = cp_mode source, pe_is_dir = False\<rparr>])
      | Bytes \<Rightarrow>
          Inr [\<lparr>pe_name = name, pe_body = cp_bytes source, pe_file = [], pe_file_size = 0,
                pe_mode = cp_mode source, pe_is_dir = False\<rparr>])"

text \<open>A directory entry whose name was seen before is dropped; files are kept.\<close>

fun dedup_dirs :: "string list \<Rightarrow> PendingEntry list \<Rightarrow> PendingEntry list" where
  "dedup_dirs seen_dirs [] = []"
| "dedup_dirs seen_dirs (e # es) =
     (if pe_is_dir e then
        (if pe_name e \<in> set seen_dirs then dedup_dirs seen_dirs es
         else e # dedup_dirs (pe_name e # seen_dirs) es)
      else e # dedup_dirs seen_dirs es)"

definition collect_all :: "host_fs \<Rightarrow> CopyToContainer list \<Rightarrow> PendingEntry list res" where
  "collect_all fs sources =
     try_bind (try_map (collect_entries fs) sources) (\<lambda>ess. Inr (dedup_dirs [] (concat ess)))"

record TarFile =
  tx_name :: string
  tx_body :: string
  tx_mode :: int
  tx_path :: string

definition context_entry :: "host_fs \<Rightarrow> TarFile \<Rightarrow> PendingEntry res" where
  "context_entry fs file =
     (let e = \<lparr>pe_name = strip_leading_slash (tx_name file), pe_body = [], pe_file = [], pe_file_size = 0,
               pe_mode = tx_mode file, pe_is_dir = False\<rparr> in
      if tx_path file \<noteq> [] then
        try_bind (stat_size_or_throw fs (tx_path file) ''build_context_tar'') (\<lambda>n.
          Inr (e\<lparr>pe_file := tx_path file, pe_file_size := n\<rparr>))
      else Inr (e\<lparr>pe_body := tx_body file\<rparr>))"

subsection \<open>Writing\<close>

record tar_item =
  ti_name :: string
  ti_is_dir :: bool
  ti_mode :: int
  ti_body :: string

text \<open>
  The bytes of an entry; a host file must still be readable and have the size its header
  committed to.
\<close>

definition tar_item_of :: "host_fs \<Rightarrow> string \<Rightarrow> PendingEntry \<Rightarrow> tar_item res" where
  "tar_item_of fs ctx e =
     (let q = [CHR 0x27];
          item = (\<lambda>body. \<lparr>ti_name = pe_name e, ti_is_dir = pe_is_dir e,
                           ti_mode = pe_mode e mod 65536, ti_body = body\<rparr>) in
      if pe_is_dir e then Inr (item [])
      else if pe_file e \<noteq> [] then
        (case hf_read fs (pe_file e) of
           None \<Rightarrow> Inl (DockerError (ctx @ '': cannot open host file '' @ q @ pe_file e @ q) None [])
         | Some content \<Rightarrow>
             (if length content \<noteq> pe_file_size e then
                Inl (DockerError (ctx @ '': host file '' @ q @ pe_file e @ q @
                       '' changed or became unreadable while being archived'') None [])
              else Inr (item content)))
      else Inr (item (pe_body e)))"

text \<open>The items written before the first entry that fails, and its error.\<close>

fun write_tar_items :: "host_fs \<Rightarrow> string \<Rightarrow> PendingEntry list \<Rightarrow> tar_item list \<times> exn option" where
  "write_tar_items fs ctx [] = ([], None)"
| "write_tar_items fs ctx (e # es) =
     (case tar_item_of fs ctx e of
        Inl x \<Rightarrow> ([], Some x)
      | Inr it \<Rightarrow> (let (items, failure) = write_tar_items fs ctx es in (it # items, failure)))"

text \<open>One source is archived as collected; of several, repeated directories are dropped.\<close>

definition stream_tar_one :: "host_fs \<Rightarrow> CopyToContainer \<Rightarrow> tar_item list \<times> exn option" where
  "stream_tar_one fs source =
     (case collect_entries fs source of
        Inl e \<Rightarrow> ([], Some e)
      | Inr es \<Rightarrow> write_tar_items fs ''copy_to_container'' es)"

definition stream_tar :: "host_fs \<Rightarrow> CopyToContainer list \<Rightarrow> tar_item list \<times> exn option" where
  "stream_tar fs sources =
     (case collect_all fs sources of
        Inl e \<Rightarrow> ([], Some e)
      | Inr es \<Rightarrow> write_tar_items fs ''copy_to_container'' es)"

definition stream_context_tar :: "host_fs \<Rightarrow> TarFile list \<Rightarrow> tar_item list \<times> exn option" where
  "stream_context_tar fs files =
     (case try_map (context_entry fs) files of
        Inl e \<Rightarrow> ([], Some e)
      | Inr es \<Rightarrow> write_tar_items fs ''build_context_tar'' es)"

text \<open>
  The archive in memory: the blocks that the format makes of the items, appended; a failure of the
  source leaves the function.
\<close>

definition in_memory ::
  "(tar_item list \<times> exn option \<Rightarrow> string list) \<Rightarrow> tar_item list \<times> exn option \<Rightarrow> string res" where
  "in_memory format t = (case snd t of Some e \<Rightarrow> Inl e | None \<Rightarrow> Inr (concat (format t)))"

definition build_tar ::
  "(tar_item list \<times> exn option \<Rightarrow> string list) \<Rightarrow> host_fs \<Rightarrow> CopyToContainer \<Rightarrow> string res" where
  "build_tar format fs source = in_memory format (stream_tar_one fs source)"

definition build_context_tar ::
  "(tar_item list \<times> exn option \<Rightarrow> string list) \<Rightarrow> host_fs \<Rightarrow> TarFile list \<Rightarrow> string res" where
  "build_context_tar format fs files = in_memory format (stream_context_tar fs files)"

subsection \<open>Reading\<close>

datatype entry_type = RegularFile | Directory | OtherType

record raw_entry =
  re_name :: "string option"
  re_type :: entry_type
  re_perm :: nat
  re_data :: "string \<times> exn option"

text \<open>
  What libarchive reads: a failed open, or entries and the error that ended them, if one did.
  The data of an entry may break off with an error.
\<close>

type_synonym archive_read = "exn + raw_entry list \<times> exn option"

record TarEntry =
  te_name :: string
  te_body :: string
  te_is_regular_file :: bool
  te_mode :: nat

definition tar_entry_of :: "raw_entry \<Rightarrow> TarEntry res" where
  "tar_entry_of r =
     (let e = \<lparr>te_name = (case re_name r of None \<Rightarrow> [] | Some n \<Rightarrow> n), te_body = [],
               te_is_regular_file = (re_type r = RegularFile), te_mode = re_perm r\<rparr> in
      if re_type r = RegularFile then
        (case snd (re_data r) of Some x \<Rightarrow> Inl x | None \<Rightarrow> Inr (e\<lparr>te_body := fst (re_data r)\<rparr>))
      else Inr e)"

definition extract_tar :: "archive_read \<Rightarrow> TarEntry list res" where
  "extract_tar a =
     (case a of
        Inl e \<Rightarrow> Inl e
      | Inr (entries, failure) \<Rightarrow>
          try_bind (try_map tar_entry_of entries) (\<lambda>es.
            case failure of None \<Rightarrow> Inr es | Some e \<Rightarrow> Inl e))"

subsection \<open>Extraction under a directory\<close>

fun split_seps :: "string \<Rightarrow> string \<Rightarrow> string list" where
  "split_seps part [] = [part]"
| "split_seps part (c # cs) =
     (if is_sep c then part # split_seps [] cs else split_seps (part @ [c]) cs)"

fun path_parts :: "string \<Rightarrow> string list \<Rightarrow> string list \<Rightarrow> string list res" where
  "path_parts name out [] = Inr out"
| "path_parts name out (part # parts) =
     (if part = ''..'' then
        Inl (DockerError (''extract_tar_to_dir: refusing traversal entry path '' @ [CHR 0x27] @ name @
               [CHR 0x27]) None [])
      else path_parts name (if part \<noteq> [] \<and> part \<noteq> ''.'' then out @ [part] else out) parts)"

text \<open>
  The components below the destination, \<open>None\<close> for an effectively empty name.  The last check of
  the function (the resolved path still lies under the destination) cannot fail here: on POSIX
  a component is never a root.
\<close>

definition safe_dest_path :: "string \<Rightarrow> string list option res" where
  "safe_dest_path name =
     (if name = [] then Inr None
      else if is_sep (hd name) \<or> drive_rooted name then
        Inl (DockerError (''extract_tar_to_dir: refusing absolute entry path '' @ [CHR 0x27] @ name @
               [CHR 0x27]) None [])
      else try_bind (path_parts name [] (split_seps [] name)) (\<lambda>out.
             Inr (if out = [] then None else Some out)))"

text \<open>
  The disk: what lies at a path, a list of components from the root; the operations on it may
  fail, as the file system decides (\<open>may_dir\<close>, \<open>may_file\<close>).
\<close>

datatype node = Dir | File string

type_synonym disk = "string list \<Rightarrow> node option"

record disk_rules =
  dr_may_dir :: "disk \<Rightarrow> string list \<Rightarrow> bool"
  dr_may_file :: "disk \<Rightarrow> string list \<Rightarrow> bool"
  dr_why :: string

definition extract_error :: "string \<Rightarrow> string list \<Rightarrow> string \<Rightarrow> exn" where
  "extract_error what p why =
     DockerError (''extract_tar_to_dir: cannot create '' @ what @ '' '' @ [CHR 0x27] @ ''/'' @ join p ''/'' @
       [CHR 0x27] @ why) None []"

text \<open>\<open>create_directories\<close>: the missing directories from the top down.\<close>

definition make_dir :: "disk \<Rightarrow> string list \<Rightarrow> disk" where
  "make_dir d p = (if d p = None then d(p \<mapsto> Dir) else d)"

definition create_directories :: "disk_rules \<Rightarrow> disk \<Rightarrow> string list \<Rightarrow> bool \<times> disk" where
  "create_directories rules d p =
     (if dr_may_dir rules d p then (True, foldl make_dir d (map (\<lambda>k. take k p) [1..<length p + 1]))
      else (False, d))"

definition extract_one ::
  "disk_rules \<Rightarrow> string list \<Rightarrow> raw_entry \<Rightarrow> disk \<Rightarrow> unit res \<times> disk" where
  "extract_one rules dest r d =
     (case safe_dest_path (case re_name r of None \<Rightarrow> [] | Some n \<Rightarrow> n) of
        Inl e \<Rightarrow> (Inl e, d)
      | Inr None \<Rightarrow> (Inr (), d)
      | Inr (Some rel) \<Rightarrow>
          (let p = dest @ rel in
           case re_type r of
             OtherType \<Rightarrow> (Inr (), d)
           | Directory \<Rightarrow>
               (let (ok, d1) = create_directories rules d p in
                if ok then (Inr (), d1)
                else (Inl (extract_error ''directory'' p ('': '' @ dr_why rules)), d1))
           | RegularFile \<Rightarrow>
               (let (ok, d1) = create_directories rules d (butlast p) in
                if \<not> dr_may_file rules d1 p then
                  (Inl (extract_error ''file'' p []), d1)
                else
                  let d2 = d1(p \<mapsto> File (fst (re_data r))) in
                  case snd (re_data r) of None \<Rightarrow> (Inr (), d2) | Some e \<Rightarrow> (Inl e, d2))))"

fun extract_entries ::
  "disk_rules \<Rightarrow> string list \<Rightarrow> raw_entry list \<Rightarrow> exn option \<Rightarrow> disk \<Rightarrow> unit res \<times> disk" where
  "extract_entries rules dest [] failure d =
     ((case failure of None \<Rightarrow> Inr () | Some e \<Rightarrow> Inl e), d)"
| "extract_entries rules dest (r # rs) failure d =
     (case extract_one rules dest r d of
        (Inl e, d1) \<Rightarrow> (Inl e, d1)
      | (Inr _, d1) \<Rightarrow> extract_entries rules dest rs failure d1)"

definition extract_tar_to_dir ::
  "disk_rules \<Rightarrow> archive_read \<Rightarrow> string list \<Rightarrow> disk \<Rightarrow> unit res \<times> disk" where
  "extract_tar_to_dir rules a dest d =
     (case a of
        Inl e \<Rightarrow> (Inl e, d)
      | Inr (entries, failure) \<Rightarrow>
          (let (ok, d1) = create_directories rules d dest in
           if \<not> ok then
             (Inl (extract_error ''destination directory'' dest ('': '' @ dr_why rules)), d1)
           else extract_entries rules dest entries failure d1))"

subsection \<open>Lemmas\<close>

text \<open>A path that extraction may touch: the destination, what lies under it, or a missing parent of it.\<close>

definition under :: "string list \<Rightarrow> string list \<Rightarrow> bool" where
  "under dest p \<longleftrightarrow> take (length dest) p = dest"

lemma split_seps_no_sep:
  "\<forall>c \<in> set part. \<not> is_sep c \<Longrightarrow> q \<in> set (split_seps part s) \<Longrightarrow> \<forall>c \<in> set q. \<not> is_sep c"
proof (induction s arbitrary: part)
  case (Cons c cs)
  show ?case
  proof (cases "is_sep c")
    case True
    with Cons.prems have "q = part \<or> q \<in> set (split_seps [] cs)" by simp
    with Cons.prems(1) Cons.IH [of "[]"] show ?thesis by auto
  next
    case False
    with Cons.prems(2) have "q \<in> set (split_seps (part @ [c]) cs)" by simp
    then show ?thesis using Cons.prems(1) False by (intro Cons.IH [of "part @ [c]"]) auto
  qed
qed simp

lemma path_parts_ok:
  "path_parts name out parts = Inr res \<Longrightarrow>
     \<exists>rest. res = out @ rest \<and> set rest \<subseteq> set parts \<and> ''..'' \<notin> set parts \<and> '''' \<notin> set rest \<and> ''.'' \<notin> set rest"
proof (induction name out parts rule: path_parts.induct)
  case (2 name out part parts)
  then have ne: "part \<noteq> ''..''" by auto
  with "2.prems" have r: "path_parts name (if part \<noteq> [] \<and> part \<noteq> ''.'' then out @ [part] else out) parts = Inr res"
    by simp
  from "2.IH" [OF ne r] obtain rest where
    rest: "res = (if part \<noteq> [] \<and> part \<noteq> ''.'' then out @ [part] else out) @ rest"
      "set rest \<subseteq> set parts" "''..'' \<notin> set parts" "'''' \<notin> set rest" "''.'' \<notin> set rest" by blast
  show ?case
    using rest ne by (intro exI [of _ "(if part \<noteq> [] \<and> part \<noteq> ''.'' then [part] else []) @ rest"]) auto
qed simp

lemma safe_dest_path_parts:
  assumes "safe_dest_path name = Inr (Some rel)"
  shows "rel \<noteq> []" "''..'' \<notin> set rel" "''.'' \<notin> set rel" "'''' \<notin> set rel"
    "\<forall>part \<in> set rel. \<forall>c \<in> set part. \<not> is_sep c"
proof -
  from assms have p: "path_parts name [] (split_seps [] name) = Inr rel" "rel \<noteq> []"
    by (auto simp: safe_dest_path_def try_bind_Inr split: if_splits)
  from path_parts_ok [OF p(1)] have
    s: "set rel \<subseteq> set (split_seps [] name)" "''..'' \<notin> set (split_seps [] name)"
      "'''' \<notin> set rel" "''.'' \<notin> set rel" by auto
  show "rel \<noteq> []" by (rule p(2))
  show "''..'' \<notin> set rel" "''.'' \<notin> set rel" "'''' \<notin> set rel" using s by auto
  show "\<forall>part \<in> set rel. \<forall>c \<in> set part. \<not> is_sep c"
    using s(1) split_seps_no_sep [of "[]" _ name] by (metis (no_types, lifting) empty_iff list.set(1) subsetD)
qed

lemma make_dir_fold_outside:
  "q \<notin> set ps \<Longrightarrow> foldl make_dir d ps q = d q"
  by (induction ps arbitrary: d) (auto simp: make_dir_def)

lemma make_dir_fold_keeps: "d q \<noteq> None \<Longrightarrow> foldl make_dir d ps q = d q"
  by (induction ps arbitrary: d) (auto simp: make_dir_def)

lemma create_directories_other:
  "create_directories rules d p = (ok, d') \<Longrightarrow> d' q \<noteq> d q \<Longrightarrow> d q = None \<and> (\<exists>k \<le> length p. q = take k p)"
proof -
  assume a: "create_directories rules d p = (ok, d')" "d' q \<noteq> d q"
  then have d': "d' = foldl make_dir d (map (\<lambda>k. take k p) [1..<length p + 1])"
    by (auto simp: create_directories_def split: if_splits)
  have "d q = None"
  proof (rule ccontr)
    assume "d q \<noteq> None"
    then have "d' q = d q" unfolding d' by (rule make_dir_fold_keeps)
    with a(2) show False by simp
  qed
  moreover have "q \<in> set (map (\<lambda>k. take k p) [1..<length p + 1])"
  proof (rule ccontr)
    assume "q \<notin> set (map (\<lambda>k. take k p) [1..<length p + 1])"
    then have "d' q = d q" unfolding d' by (rule make_dir_fold_outside)
    with a(2) show False by simp
  qed
  then have "\<exists>k \<le> length p. q = take k p"
    by (metis (no_types, lifting) atLeastLessThan_iff imageE less_Suc_eq_le list.set_map set_upt Suc_eq_plus1)
  ultimately show ?thesis by blast
qed

lemma take_append_cases:
  "q = take k (dest @ rel) \<Longrightarrow> under dest q \<or> (\<exists>j < length dest. q = take j dest)"
  by (cases "k < length dest") (auto simp: under_def)

lemma extract_one_other:
  assumes "extract_one rules dest r d = (x, d')" "d' q \<noteq> d q"
  shows "under dest q \<or> (d q = None \<and> (\<exists>j < length dest. q = take j dest))"
proof -
  from assms obtain rel where rel: "safe_dest_path (case re_name r of None \<Rightarrow> [] | Some n \<Rightarrow> n) = Inr (Some rel)"
    by (auto simp: extract_one_def split: sum.splits option.splits)
  have p: "rel \<noteq> []" by (rule safe_dest_path_parts(1) [OF rel])
  have dirs: ?thesis if "create_directories rules d (take k (dest @ rel)) = (ok, d1)" "d1 q \<noteq> d q" for k ok d1
  proof -
    from create_directories_other [OF that] obtain j where
      j: "d q = None" "q = take j (take k (dest @ rel))" by blast
    have "q = take (min j k) (dest @ rel)" using j(2) unfolding take_take .
    from take_append_cases [OF this] j(1) show ?thesis by blast
  qed
  obtain ok1 d1 where c1: "create_directories rules d (dest @ rel) = (ok1, d1)"
    by (cases "create_directories rules d (dest @ rel)")
  obtain ok2 d2 where c2: "create_directories rules d (butlast (dest @ rel)) = (ok2, d2)"
    by (cases "create_directories rules d (butlast (dest @ rel))")
  have b: "butlast (dest @ rel) = take (length (dest @ rel) - 1) (dest @ rel)" by (rule butlast_conv_take)
  have u: "under dest (dest @ rel)" by (simp add: under_def)
  have t: "take (length (dest @ rel)) (dest @ rel) = dest @ rel" by simp
  show ?thesis
  proof (cases "q = dest @ rel")
    case True
    with u show ?thesis by simp
  next
    case False
    show ?thesis
    proof (cases "re_type r")
      case RegularFile
      have "d2 q \<noteq> d q"
        using assms rel RegularFile c2 False
        by (auto simp: extract_one_def Let_def split: if_splits option.splits)
      then show ?thesis using dirs [of "length (dest @ rel) - 1" ok2 d2] c2 b by simp
    next
      case Directory
      have "d1 q \<noteq> d q"
        using assms rel Directory c1 by (auto simp: extract_one_def Let_def split: if_splits)
      then show ?thesis using dirs [of "length (dest @ rel)" ok1 d1] c1 t by simp
    next
      case OtherType
      with assms rel show ?thesis by (simp add: extract_one_def)
    qed
  qed
qed

lemma extract_entries_other:
  "extract_entries rules dest rs failure d = (x, d') \<Longrightarrow> d' q \<noteq> d q \<Longrightarrow>
     under dest q \<or> (d q = None \<and> (\<exists>j < length dest. q = take j dest))"
proof (induction rs arbitrary: d)
  case (Cons r rs)
  obtain y d1 where one: "extract_one rules dest r d = (y, d1)" by (cases "extract_one rules dest r d")
  show ?case
  proof (cases "d1 q = d q")
    case False
    with extract_one_other [OF one] show ?thesis .
  next
    case True
    show ?thesis
    proof (cases y)
      case (Inl e)
      with Cons.prems one True show ?thesis by simp
    next
      case (Inr u)
      with Cons.prems one have "extract_entries rules dest rs failure d1 = (x, d')" by simp
      with Cons.IH [of d1] Cons.prems(2) True show ?thesis by simp
    qed
  qed
qed simp

text \<open>A directory sorts before what it holds; the archive names a directory once and drops no file.\<close>

lemma prefix_le: "(xs :: string) \<le> xs @ ys"
  by (induction xs) simp_all

lemma walk_host_dir_sorted:
  "walk_host_dir fs dir base file_mode = Inr es \<Longrightarrow> sorted (map pe_name es)"
  by (auto simp: walk_host_dir_def Let_def split: if_splits prod.splits sum.splits option.splits)

lemma walk_parent_first:
  assumes w: "walk_host_dir fs dir base file_mode = Inr es"
    and ij: "i < j" "j < length es"
    and n: "pe_name (es ! i) = pe_name (es ! j) @ x"
  shows "x = []"
proof -
  have "pe_name (es ! i) \<le> pe_name (es ! j)"
    using walk_host_dir_sorted [OF w] ij by (simp add: sorted_wrt_iff_nth_less)
  moreover have "pe_name (es ! j) \<le> pe_name (es ! i)" by (simp add: n prefix_le)
  ultimately show ?thesis using n by simp
qed

lemma dedup_files: "filter (\<lambda>e. \<not> pe_is_dir e) (dedup_dirs seen es) = filter (\<lambda>e. \<not> pe_is_dir e) es"
  by (induction seen es rule: dedup_dirs.induct) auto

definition dir_names :: "PendingEntry list \<Rightarrow> string list" where
  "dir_names es = map pe_name (filter pe_is_dir es)"

lemma dir_names_simps [simp]:
  "dir_names [] = []" "dir_names (e # es) = (if pe_is_dir e then pe_name e # dir_names es else dir_names es)"
  by (simp_all add: dir_names_def)

lemma dedup_dirs_fresh: "set (dir_names (dedup_dirs seen es)) \<inter> set seen = {}"
  by (induction seen es rule: dedup_dirs.induct) auto

lemma dedup_dirs_distinct: "distinct (dir_names (dedup_dirs seen es))"
proof (induction seen es rule: dedup_dirs.induct)
  case (2 seen e es)
  then show ?case using dedup_dirs_fresh [of "pe_name e # seen" es] by auto
qed simp

lemma dedup_dirs_all: "set (dir_names es) \<subseteq> set seen \<union> set (dir_names (dedup_dirs seen es))"
  by (induction seen es rule: dedup_dirs.induct) auto

lemma dedup_dirs_only: "set (dir_names (dedup_dirs seen_dirs es)) \<subseteq> set (dir_names es)"
  by (induction seen_dirs es rule: dedup_dirs.induct) auto

text \<open>
  Extraction stays below its destination: every place it changes lies under the destination, or is a
  missing parent directory of it.
\<close>

lemma extraction_stays_below:
  assumes "extract_tar_to_dir rules a dest d = (r, d')" "d' q \<noteq> d q"
  shows "under dest q \<or> (d q = None \<and> (\<exists>j < length dest. q = take j dest))"
proof (cases a)
  case (Inr p)
  obtain ok d1 where c: "create_directories rules d dest = (ok, d1)" by fastforce
  have up: ?thesis if "d1 q \<noteq> d q"
    using create_directories_other [OF c that] take_append_cases [of q _ dest "[]"]
    by (auto simp: under_def le_less)
  show ?thesis
  proof (cases "d1 q = d q")
    case True
    with assms Inr c obtain es f where "extract_entries rules dest es f d1 = (r, d')"
      by (auto simp: extract_tar_to_dir_def split: prod.splits if_splits)
    moreover have "d' q \<noteq> d1 q" using True assms(2) by simp
    ultimately show ?thesis using True extract_entries_other [of rules dest es f d1 r d' q] by auto
  qed (rule up)
qed (use assms in \<open>simp add: extract_tar_to_dir_def\<close>)

end
