(* ===== verification/Runner.thy ===== *)
theory Runner
  imports Wait Tar Codecs Rfc3339
begin

section \<open>Running a container\<close>

text \<open>
  \<open>src/Runner.cpp\<close> (\<open>Runner::run\<close>), \<open>include/testcontainers/ContainerRequest.hpp\<close>, the copy
  operations of \<open>src/docker/DockerClient.cpp\<close>, and the labels of \<open>src/Reaper.cpp\<close> and
  \<open>src/Reuse.cpp\<close>.  A hook may be empty, as a \<open>std::function\<close> may.
\<close>

subsection \<open>Copying into a container\<close>

record 'w run_io =
  ro_wait :: "'w wait_io"
  ro_fuel :: nat
  ro_fs :: host_fs
  ro_format :: "tar_item list \<times> exn option \<Rightarrow> string list"
  ro_wire :: "CreateContainerSpec \<Rightarrow> nat list \<Rightarrow> ('w client, CreateContainerSpec) act"
  ro_system_seconds :: "'w \<Rightarrow> int"
  ro_session_id :: string

abbreviation ro_stream :: "'w run_io \<Rightarrow> 'w stream_io" where
  "ro_stream rio \<equiv> wi_stream (ro_wait rio)"

abbreviation ro_net :: "'w run_io \<Rightarrow> 'w net" where
  "ro_net rio \<equiv> si_net (ro_stream rio)"

text \<open>The blocks libarchive makes of the items, and the failure that cut them short, if one did.\<close>

definition tar_producer :: "'w run_io \<Rightarrow> CopyToContainer list \<Rightarrow> producer" where
  "tar_producer rio sources =
     (let t = stream_tar (ro_fs rio) sources in \<lparr>pr_blocks = ro_format rio t, pr_failure = snd t\<rparr>)"

definition tar_producer_one :: "'w run_io \<Rightarrow> CopyToContainer \<Rightarrow> producer" where
  "tar_producer_one rio source =
     (let t = stream_tar_one (ro_fs rio) source in \<lparr>pr_blocks = ro_format rio t, pr_failure = snd t\<rparr>)"

definition copy_one_to_container :: "'w run_io \<Rightarrow> string \<Rightarrow> CopyToContainer \<Rightarrow> ('w client, unit) act" where
  "copy_one_to_container rio cid source =
     copy_to_archive (ro_stream rio) cid
       (''copy_to_container('' @ cid @ '', '' @ quoted (cp_target source) @ '')'') (tar_producer_one rio source)"

definition copy_to_container ::
  "'w run_io \<Rightarrow> string \<Rightarrow> CopyToContainer list \<Rightarrow> ('w client, unit) act" where
  "copy_to_container rio cid sources =
     (if sources = [] then ret ()
      else copy_to_archive (ro_stream rio) cid
             (''copy_to_container('' @ cid @ '', '' @ to_dec (length sources) @ '' sources)'')
             (tar_producer rio sources))"

subsection \<open>Labels and the reuse key\<close>

definition reuse_hash_label :: string where
  "reuse_hash_label = ''org.testcontainers.reuse.hash''"

definition managed_by :: "string \<times> string" where
  "managed_by = (''org.testcontainers.managed-by'', ''testcontainers'')"

definition kSessionIdLabel :: string where
  "kSessionIdLabel = ''org.testcontainers.session-id''"

definition truthy :: "'w wait_io \<Rightarrow> string \<Rightarrow> string \<Rightarrow> bool" where
  "truthy wio env_name key =
     fst (config_truthy (wi_env wio) (wi_files wio) env_name key (wi_cache wio))"

definition reuse_enabled :: "'w run_io \<Rightarrow> bool" where
  "reuse_enabled rio = truthy (ro_wait rio) ''TESTCONTAINERS_REUSE_ENABLE'' ''testcontainers.reuse.enable''"

definition ryuk_disabled :: "'w run_io \<Rightarrow> bool" where
  "ryuk_disabled rio = truthy (ro_wait rio) ''TESTCONTAINERS_RYUK_DISABLED'' ''ryuk.disabled''"

definition testcontainers_labels :: "'w run_io \<Rightarrow> (string \<times> string) list" where
  "testcontainers_labels rio =
     managed_by # (if ryuk_disabled rio then [] else [(kSessionIdLabel, ro_session_id rio)])"

definition file_meta :: "host_fs \<Rightarrow> string \<Rightarrow> string" where
  "file_meta fs path =
     (case (hf_size fs path, hf_mtime fs path) of
        (Inr sz, Some ticks) \<Rightarrow> ''|'' @ to_dec sz @ ''|'' @ int_dec ticks
      | _ \<Rightarrow> ''|stat-failed'')"

definition newline :: string where
  "newline = [CHR 0x0A]"

definition canonical_walk_entry :: "host_fs \<Rightarrow> walk_item \<Rightarrow> string list" where
  "canonical_walk_entry fs item =
     (case wk_kind item of
        WalkDir \<Rightarrow> [wk_rel item @ ''/'']
      | WalkFile \<Rightarrow> [wk_rel item @ file_meta fs (wk_path item)]
      | WalkOther \<Rightarrow> [])"

definition append_source_canonical :: "host_fs \<Rightarrow> string \<Rightarrow> CopyToContainer \<Rightarrow> string" where
  "append_source_canonical fs canonical s =
     (let c0 = canonical @ newline @ cp_target s @ newline @ int_dec (cp_mode s) @ newline;
          path = cp_host_path s in
      if cp_source s = Bytes then c0 @ cp_bytes s
      else if \<not> hf_is_dir fs path then c0 @ path @ file_meta fs path
      else
        let (items, failure) = hf_walk fs path;
            entries = sort (concat (map (canonical_walk_entry fs) items))
        in c0 @ path @ (if failure \<noteq> None then ''|walk-failed'' else []) @
           concat (map (\<lambda>e. newline @ e) entries))"

definition canonical_of ::
  "jsonlib \<Rightarrow> host_fs \<Rightarrow> CreateContainerSpec \<Rightarrow> CopyToContainer list \<Rightarrow> string res" where
  "canonical_of L fs spec sources =
     try_bind (build_create_body L spec) (\<lambda>body.
       Inr (foldl (append_source_canonical fs) (jl_dump L body) sources))"

subsection \<open>The request and the handle\<close>

type_synonym 'w hook = "(string \<Rightarrow> ('w client, unit) act) option"

datatype ImagePullPolicy = DefaultPull | AlwaysPull

record 'w ContainerRequest =
  cr_spec :: CreateContainerSpec
  cr_exposed_ports :: "ContainerPort list"
  cr_copy_to_sources :: "CopyToContainer list"
  cr_host_access_ports :: "nat list"
  cr_waits :: "WaitFor list"
  cr_startup_timeout :: int
  cr_registry_auth :: "RegistryAuth option"
  cr_pull_policy :: ImagePullPolicy
  cr_pull_max_age :: "int option"
  cr_reuse :: bool
  cr_created_hooks :: "'w hook list"
  cr_starting_hooks :: "'w hook list"
  cr_started_hooks :: "'w hook list"
  cr_stopping_hooks :: "'w hook list"
  cr_startup_attempts :: int

record 'w handle =
  hd_id :: string
  hd_dropped :: bool
  hd_remove_on_drop :: bool
  hd_tty :: bool
  hd_exposed_ports :: "ContainerPort list"
  hd_stopping_hooks :: "'w hook list"
  hd_stopping_fired :: bool

definition new_handle ::
  "string \<Rightarrow> bool \<Rightarrow> bool \<Rightarrow> 'w hook list \<Rightarrow> ContainerPort list \<Rightarrow> 'w handle" where
  "new_handle cid remove_on_drop tty stopping_hooks exposed_ports =
     \<lparr>hd_id = cid, hd_dropped = False, hd_remove_on_drop = remove_on_drop, hd_tty = tty,
      hd_exposed_ports = exposed_ports, hd_stopping_hooks = stopping_hooks, hd_stopping_fired = False\<rparr>"

subsection \<open>run\<close>

definition call_hook :: "string \<Rightarrow> 'w hook \<Rightarrow> ('w client, unit) act" where
  "call_hook cid hook = (case hook of None \<Rightarrow> ret () | Some f \<Rightarrow> f cid)"

definition refresh_by_age :: "'w run_io \<Rightarrow> 'w ContainerRequest \<Rightarrow> int \<Rightarrow> ('w client, unit) act" where
  "refresh_by_age rio req max_age =
     catching
       (andThen (inspect_image (ro_net rio) (cs_image (cr_spec req))) (\<lambda>info c.
          let now = ro_system_seconds rio (cl_world c) in
          (case parse_rfc3339 (ii_created info) of
             Some created \<Rightarrow>
               (if now - created > max_age
                then pull_image (ro_net rio) (cs_image (cr_spec req)) (cr_registry_auth req)
                else ret ())
           | None \<Rightarrow> pull_image (ro_net rio) (cs_image (cr_spec req)) (cr_registry_auth req)) c))
       (\<lambda>e. case e of NotFoundError _ _ \<Rightarrow> ret () | _ \<Rightarrow> throw e)"

definition pull_first :: "'w run_io \<Rightarrow> 'w ContainerRequest \<Rightarrow> ('w client, unit) act" where
  "pull_first rio req =
     (if cr_pull_policy req = AlwaysPull
      then pull_image (ro_net rio) (cs_image (cr_spec req)) (cr_registry_auth req)
      else case cr_pull_max_age req of None \<Rightarrow> ret () | Some age \<Rightarrow> refresh_by_age rio req age)"

text \<open>Everything between the creation of the container and the handle.\<close>

definition bring_up ::
  "'w run_io \<Rightarrow> 'w ContainerRequest \<Rightarrow> CreateContainerSpec \<Rightarrow> string \<Rightarrow> ('w client, unit) run" where
  "bring_up rio req s cid =
     runThen (runs (andThen (each (call_hook cid) (cr_created_hooks req)) (\<lambda>_.
                    andThen (copy_to_container rio cid (cr_copy_to_sources req)) (\<lambda>_.
                    andThen (each (call_hook cid) (cr_starting_hooks req)) (\<lambda>_.
                      start_container (ro_net rio) cid))))) (\<lambda>_.
     runThen (wait_until_ready (ro_fuel rio) (ro_wait rio) cid (cr_waits req)
                (cr_startup_timeout req) (cs_tty s)) (\<lambda>_.
     runs (each (call_hook cid) (cr_started_hooks req))))"

definition best_effort :: "('s, 'a) act \<Rightarrow> ('s, unit) act" where
  "best_effort m = catching (andThen m (\<lambda>_. ret ())) (\<lambda>_. ret ())"

definition remove_and_rethrow :: "'w run_io \<Rightarrow> string \<Rightarrow> exn \<Rightarrow> ('w client, 'a) act" where
  "remove_and_rethrow rio cid e =
     andThen (best_effort (remove_container (ro_net rio) cid True True)) (\<lambda>_. throw e)"

definition create_start_wait ::
  "'w run_io \<Rightarrow> 'w ContainerRequest \<Rightarrow> CreateContainerSpec \<Rightarrow> bool \<Rightarrow> ('w client, 'w handle) run" where
  "create_start_wait rio req s remove_on_drop =
     runThen (runs (create_container (ro_net rio) s (cr_registry_auth req))) (\<lambda>cid.
     runThen (runCatching (bring_up rio req s cid) (\<lambda>e. runs (remove_and_rethrow rio cid e))) (\<lambda>_.
     runs (ret (new_handle cid remove_on_drop (cs_tty s) (cr_stopping_hooks req)
                  (cr_exposed_ports req)))))"

text \<open>\<open>left\<close> more attempts after a failed one.\<close>

fun with_retry :: "nat \<Rightarrow> ('s, 'a) run \<Rightarrow> ('s, 'a) run" where
  "with_retry 0 attempt = attempt"
| "with_retry (Suc left) attempt = runCatching attempt (\<lambda>_. with_retry left attempt)"

definition attempts_left :: "'w ContainerRequest \<Rightarrow> nat" where
  "attempts_left req = nat (max 1 (cr_startup_attempts req) - 1)"

definition add_labels :: "(string \<times> string) list \<Rightarrow> CreateContainerSpec \<Rightarrow> CreateContainerSpec" where
  "add_labels ls spec = spec\<lparr>cs_labels := cs_labels spec @ ls\<rparr>"

definition reuse_labels :: "string \<Rightarrow> (string \<times> string) list" where
  "reuse_labels hash = [managed_by, (reuse_hash_label, hash)]"

definition adopt :: "'w run_io \<Rightarrow> 'w ContainerRequest \<Rightarrow> bool \<Rightarrow> string \<Rightarrow> ('w client, 'w handle) run" where
  "adopt rio req tty cid =
     runThen (wait_until_ready (ro_fuel rio) (ro_wait rio) cid (cr_waits req)
                (cr_startup_timeout req) tty) (\<lambda>_.
     runs (ret (new_handle cid False tty (cr_stopping_hooks req) (cr_exposed_ports req))))"

text \<open>The first running match is adopted; without one a container is created, to persist.\<close>

definition adopt_or_create ::
  "'w run_io \<Rightarrow> 'w ContainerRequest \<Rightarrow> CreateContainerSpec \<Rightarrow> ContainerSummary list \<Rightarrow>
    ('w client, 'w handle) run" where
  "adopt_or_create rio req s matches =
     (case List.find (\<lambda>m. su_state m = ''running'') matches of
        Some m \<Rightarrow> adopt rio req (cs_tty s) (su_id m)
      | None \<Rightarrow> with_retry (attempts_left req) (create_start_wait rio req s False))"

definition run_reuse ::
  "'w run_io \<Rightarrow> 'w ContainerRequest \<Rightarrow> CreateContainerSpec \<Rightarrow> ('w client, 'w handle) run" where
  "run_reuse rio req spec =
     runThen (runs (lift_res (canonical_of (net_json (ro_net rio)) (ro_fs rio) spec
                                (cr_copy_to_sources req)))) (\<lambda>canonical.
       let hash = reuse_hash canonical; s = add_labels (reuse_labels hash) spec in
       runThen (runs (list_containers (ro_net rio) [(''label'', reuse_hash_label @ ''='' @ hash)] False))
         (adopt_or_create rio req s))"

definition runner_run :: "'w run_io \<Rightarrow> 'w ContainerRequest \<Rightarrow> ('w client, 'w handle) run" where
  "runner_run rio req =
     runThen (runs (pull_first rio req)) (\<lambda>_.
     runThen (runs (if cr_host_access_ports req = [] then ret (cr_spec req)
                    else ro_wire rio (cr_spec req) (cr_host_access_ports req))) (\<lambda>spec.
       if cr_reuse req \<and> reuse_enabled rio then run_reuse rio req spec
       else with_retry (attempts_left req)
              (create_start_wait rio req (add_labels (testcontainers_labels rio) spec) True)))"

subsection \<open>What a run promises\<close>

text \<open>The best-effort removal never throws: it reaches the state the removal reaches.\<close>

lemma best_effort_apply [simp]: "best_effort m s = (Inr (), snd (m s))"
  by (cases "m s"; cases "fst (m s)") (auto simp: best_effort_def)

lemma remove_and_rethrow_apply [simp]:
  "remove_and_rethrow rio cid e c = (Inl e, snd (remove_container (ro_net rio) cid True True c))"
  by (simp add: remove_and_rethrow_def)

lemma runCatching_Some:
  "runCatching m h s = Some (r, t) \<longleftrightarrow>
     (\<exists>x. m s = Some (Inr x, t) \<and> r = Inr x) \<or> (\<exists>e s'. m s = Some (Inl e, s') \<and> h e s' = Some (r, t))"
  by (auto simp: runCatching_def split: option.splits prod.splits sum.splits)

text \<open>
  A failed start either created nothing, or its container has been asked to be removed, by force
  and with its volumes, after the failure the caller sees.
\<close>

lemma create_start_wait_failure:
  assumes "create_start_wait rio req s rod c = Some (Inl e, c')"
  shows "create_container (ro_net rio) s (cr_registry_auth req) c = (Inl e, c') \<or>
         (\<exists>cid c1 c2. create_container (ro_net rio) s (cr_registry_auth req) c = (Inr cid, c1) \<and>
            bring_up rio req s cid c1 = Some (Inl e, c2) \<and>
            c' = snd (remove_container (ro_net rio) cid True True c2))"
  using assms by (auto simp: create_start_wait_def runThen_Some runCatching_Some)

lemma create_start_wait_success:
  assumes "create_start_wait rio req s rod c = Some (Inr h, c')"
  shows "\<exists>cid c1. create_container (ro_net rio) s (cr_registry_auth req) c = (Inr cid, c1) \<and>
            bring_up rio req s cid c1 = Some (Inr (), c') \<and>
            h = new_handle cid rod (cs_tty s) (cr_stopping_hooks req) (cr_exposed_ports req)"
  using assms by (auto simp: create_start_wait_def runThen_Some runCatching_Some)

text \<open>The state after \<open>k\<close> attempts that all failed.\<close>

fun after_failures :: "nat \<Rightarrow> ('s, 'a) run \<Rightarrow> 's \<Rightarrow> 's option" where
  "after_failures 0 attempt s = Some s"
| "after_failures (Suc k) attempt s =
     (case attempt s of Some (Inl e, s') \<Rightarrow> after_failures k attempt s' | _ \<Rightarrow> None)"

lemma with_retry_Some:
  "with_retry n attempt s = Some (r, t) \<longleftrightarrow>
     (\<exists>k\<le>n. \<exists>s'. after_failures k attempt s = Some s' \<and> attempt s' = Some (r, t) \<and>
              (k = n \<or> (\<exists>x. r = Inr x)))"
proof (induction n arbitrary: s)
  case (Suc n)
  show ?case
  proof (cases "attempt s")
    case None
    have "\<not> (\<exists>k\<le>Suc n. \<exists>s'. after_failures k attempt s = Some s' \<and> attempt s' = Some (r, t) \<and>
              (k = Suc n \<or> (\<exists>x. r = Inr x)))"
    proof clarify
      fix k s' assume "after_failures k attempt s = Some s'" "attempt s' = Some (r, t)"
      with None show False by (cases k) auto
    qed
    with None show ?thesis by (simp add: runCatching_def)
  next
    case (Some p)
    obtain q s1 where p: "p = (q, s1)" by (cases p)
    show ?thesis
    proof (cases q)
      case (Inl e)
      have "(\<exists>k\<le>Suc n. \<exists>s'. after_failures k attempt s = Some s' \<and> attempt s' = Some (r, t) \<and>
              (k = Suc n \<or> (\<exists>x. r = Inr x))) \<longleftrightarrow>
            (\<exists>k\<le>n. \<exists>s'. after_failures k attempt s1 = Some s' \<and> attempt s' = Some (r, t) \<and>
              (k = n \<or> (\<exists>x. r = Inr x)))" (is "?l \<longleftrightarrow> ?r")
      proof
        assume ?l
        then obtain k s' where k: "k \<le> Suc n" "after_failures k attempt s = Some s'"
          "attempt s' = Some (r, t)" "k = Suc n \<or> (\<exists>x. r = Inr x)" by blast
        with Some p Inl show ?r by (cases k) (auto intro: exI)
      next
        assume ?r
        then obtain k s' where k: "k \<le> n" "after_failures k attempt s1 = Some s'"
          "attempt s' = Some (r, t)" "k = n \<or> (\<exists>x. r = Inr x)" by blast
        with Some p Inl show ?l by (intro exI [of _ "Suc k"]) auto
      qed
      with Some p Inl Suc.IH show ?thesis by (simp add: runCatching_def)
    next
      case (Inr x)
      have "after_failures k attempt s = Some s' \<longleftrightarrow> k = 0 \<and> s' = s" for k s'
        using Some p Inr by (cases k) auto
      with Some p Inr show ?thesis by (auto simp: runCatching_def)
    qed
  qed
qed auto

text \<open>The handle a run gives back.\<close>

lemma runner_run_handle:
  assumes "runner_run rio req c = Some (Inr h, c')"
  shows "hd_remove_on_drop h = (\<not> (cr_reuse req \<and> reuse_enabled rio)) \<and> \<not> hd_dropped h \<and>
    \<not> hd_stopping_fired h \<and> hd_stopping_hooks h = cr_stopping_hooks req \<and>
    hd_exposed_ports h = cr_exposed_ports req"
proof -
  have new: "\<exists>cid tty. h = new_handle cid rod tty (cr_stopping_hooks req) (cr_exposed_ports req)"
    if "with_retry n (create_start_wait rio req s rod) c0 = Some (Inr h, c')" for n s rod c0
    using that create_start_wait_success unfolding with_retry_Some by fast
  have adopted: "\<exists>cid tty. h = new_handle cid False tty (cr_stopping_hooks req) (cr_exposed_ports req)"
    if "adopt rio req tty cid c0 = Some (Inr h, c')" for tty cid c0
    using that by (auto simp: adopt_def runThen_Some)
  have "\<exists>cid tty. h = new_handle cid (\<not> (cr_reuse req \<and> reuse_enabled rio)) tty
      (cr_stopping_hooks req) (cr_exposed_ports req)"
  proof (cases "cr_reuse req \<and> reuse_enabled rio")
    case True
    with assms obtain spec c0 where "run_reuse rio req spec c0 = Some (Inr h, c')"
      by (auto simp: runner_run_def runThen_Some)
    then obtain ms s c1 where "adopt_or_create rio req s ms c1 = Some (Inr h, c')"
      by (auto simp: run_reuse_def runThen_Some Let_def)
    with True show ?thesis
      using new [where rod=False] adopted
      by (cases "List.find (\<lambda>m. su_state m = ''running'') ms") (auto simp: adopt_or_create_def)
  next
    case False
    with assms obtain s n c0 where
      "with_retry n (create_start_wait rio req s True) c0 = Some (Inr h, c')"
      by (auto simp: runner_run_def runThen_Some)
    with False show ?thesis using new [where rod=True] by simp
  qed
  then show ?thesis by (auto simp: new_handle_def)
qed

text \<open>A run that is not reused: what fails before the first attempt, and the attempts with one specification.\<close>

lemma runner_run_attempts:
  assumes "runner_run rio req c = Some (r, c')" "\<not> (cr_reuse req \<and> reuse_enabled rio)"
  obtains e where "r = Inl e" "pull_first rio req c = (Inl e, c')"
  | e c1 where "r = Inl e" "pull_first rio req c = (Inr (), c1)"
      "ro_wire rio (cr_spec req) (cr_host_access_ports req) c1 = (Inl e, c')"
  | spec c1 where "with_retry (attempts_left req)
      (create_start_wait rio req (add_labels (testcontainers_labels rio) spec) True) c1 = Some (r, c')"
  using assms by (auto simp: runner_run_def runThen_Some split: if_splits)

end
