(* ===== verification/Handles.thy ===== *)
theory Handles
  imports Runner
begin

section \<open>The handle of a container\<close>

text \<open>
  \<open>src/Container.cpp\<close> and \<open>include/testcontainers/Container.hpp\<close>.  A handle owns its own copy of
  the client: an operation on it works on the pair of the two.  The destructor is \<open>drop\<close>.
\<close>

subsection \<open>The owned client\<close>

type_synonym ('w, 'h) owned = "'w client \<times> 'h"

definition on_client :: "('w client, 'a) act \<Rightarrow> (('w, 'h) owned, 'a) act" where
  "on_client m s = (case m (fst s) of (r, c) \<Rightarrow> (r, (c, snd s)))"

text \<open>The handle as the run hands it over: with a copy of the client that ran it.\<close>

definition handed_over :: "'w client \<Rightarrow> 'h \<Rightarrow> ('w, 'h) owned" where
  "handed_over c h = (copy_client c, h)"

datatype AdoptOwnership = Keep | RemoveOnDrop

definition adopt_container :: "'w client \<Rightarrow> string \<Rightarrow> AdoptOwnership \<Rightarrow> bool \<Rightarrow> ('w, 'w handle) owned" where
  "adopt_container c cid ownership tty = (c, new_handle cid (ownership = RemoveOnDrop) tty [] [])"

subsection \<open>Ports\<close>

definition host_port_or_throw ::
  "'w net \<Rightarrow> string \<Rightarrow> ContainerPort \<Rightarrow> HostPortFamily \<Rightarrow> string \<Rightarrow> ('w client, nat) act" where
  "host_port_or_throw net cid port family published =
     andThen (inspect_container net cid) (\<lambda>info.
       let key = port_to_string port in
       case select_host_port (ci_ports info) key family of
         Some p \<Rightarrow> ret p
       | None \<Rightarrow>
           throw (DockerError (''Container '' @ cid @ '' has no '' @ published @ '' host port for '' @ key)
                    None cid))"

definition get_host_port :: "'w net \<Rightarrow> ContainerPort \<Rightarrow> (('w, 'w handle) owned, nat) act" where
  "get_host_port net port s =
     on_client (host_port_or_throw net (hd_id (snd s)) port Any ''published'') s"

definition get_host_port_ipv4 :: "'w net \<Rightarrow> ContainerPort \<Rightarrow> (('w, 'w handle) owned, nat) act" where
  "get_host_port_ipv4 net port s =
     on_client (host_port_or_throw net (hd_id (snd s)) port Ipv4 ''IPv4-published'') s"

definition get_host_port_ipv6 :: "'w net \<Rightarrow> ContainerPort \<Rightarrow> (('w, 'w handle) owned, nat) act" where
  "get_host_port_ipv6 net port s =
     on_client (host_port_or_throw net (hd_id (snd s)) port Ipv6 ''IPv6-published'') s"

definition first_mapped_port :: "'w net \<Rightarrow> (('w, 'w handle) owned, nat) act" where
  "first_mapped_port net s =
     (let h = snd s in
      case hd_exposed_ports h of
        port # _ \<Rightarrow> get_host_port net port s
      | [] \<Rightarrow>
          on_client (andThen (inspect_container net (hd_id h)) (\<lambda>info.
            case lowest_published_host_port (ci_ports info) Any of
              Some p \<Rightarrow> ret p
            | None \<Rightarrow> throw (DockerError (''Container '' @ hd_id h @ '' publishes no ports'') None (hd_id h)))) s)"

subsection \<open>Logs and files\<close>

definition default_log_options :: LogOptions where
  "default_log_options =
     \<lparr>lo_include_stdout = True, lo_include_stderr = True, lo_tail = ''all'', lo_timestamps = False,
      lo_tty = False\<rparr>"

definition container_logs :: "'w net \<Rightarrow> (('w, 'w handle) owned, ContainerLogs) act" where
  "container_logs net s =
     on_client (logs net (hd_id (snd s)) (default_log_options\<lparr>lo_tty := hd_tty (snd s)\<rparr>)) s"

definition container_follow_logs ::
  "'w stream_io \<Rightarrow> LogOptions \<Rightarrow> 'c consumer \<Rightarrow> 'c \<Rightarrow> (('w, 'w handle) owned, FollowEnd option \<times> 'c) act" where
  "container_follow_logs io opts consumer st s =
     on_client (follow_logs io (hd_id (snd s)) (opts\<lparr>lo_tty := lo_tty opts \<or> hd_tty (snd s)\<rparr>)
                  consumer None st) s"

text \<open>The calls that go to the owned client as they are.\<close>

definition on_id :: "(string \<Rightarrow> ('w client, 'a) act) \<Rightarrow> (('w, 'w handle) owned, 'a) act" where
  "on_id call s = on_client (call (hd_id (snd s))) s"

definition container_host :: "'w wait_io \<Rightarrow> ('w, 'w handle) owned \<Rightarrow> string" where
  "container_host wio s = probe_host wio (fst s)"

definition container_inspect :: "'w net \<Rightarrow> (('w, 'w handle) owned, ContainerInspect) act" where
  "container_inspect net = on_id (inspect_container net)"

definition container_inspect_raw :: "'w net \<Rightarrow> (('w, 'w handle) owned, string) act" where
  "container_inspect_raw net = on_id (inspect_container_raw net)"

definition inspect_by_id :: "('w \<Rightarrow> 'w client res \<times> 'w) \<Rightarrow> 'w net \<Rightarrow> string \<Rightarrow> ('w, ContainerInspect) act" where
  "inspect_by_id fresh net cid = with_fresh fresh (inspect_container net cid)"

definition container_resize_tty :: "'w net \<Rightarrow> TtySize \<Rightarrow> (('w, 'w handle) owned, unit) act" where
  "container_resize_tty net sz = on_id (\<lambda>cid. resize_container_tty net cid sz)"

definition container_copy_to :: "'w run_io \<Rightarrow> CopyToContainer \<Rightarrow> (('w, 'w handle) owned, unit) act" where
  "container_copy_to rio source = on_id (\<lambda>cid. copy_one_to_container rio cid source)"

definition client_exec :: "'w stream_io \<Rightarrow> string \<Rightarrow> string list \<Rightarrow> ('w client, ExecResult option) act" where
  "client_exec io cid cmd = exec_captured io None cid cmd plain_exec"

definition container_exec_plain ::
  "'w stream_io \<Rightarrow> string list \<Rightarrow> (('w, 'w handle) owned, ExecResult option) act" where
  "container_exec_plain io cmd = on_id (\<lambda>cid. client_exec io cid cmd)"

definition container_exec_captured ::
  "'w stream_io \<Rightarrow> 'w started \<Rightarrow> string list \<Rightarrow> ExecOptions \<Rightarrow> (('w, 'w handle) owned, ExecResult option) act" where
  "container_exec_captured io on_started cmd opts = on_id (\<lambda>cid. exec_captured io on_started cid cmd opts)"

definition container_exec_streamed ::
  "'w stream_io \<Rightarrow> 'w started \<Rightarrow> string list \<Rightarrow> ExecOptions \<Rightarrow> 'c consumer \<Rightarrow> 'c \<Rightarrow>
    (('w, 'w handle) owned, ExecResult option \<times> 'c) act" where
  "container_exec_streamed io on_started cmd opts consumer st =
     on_id (\<lambda>cid. exec_streamed io on_started cid cmd opts consumer st)"

definition container_exec_until ::
  "'w stream_io \<Rightarrow> 'w started \<Rightarrow> string list \<Rightarrow> ExecOptions \<Rightarrow> 'c consumer \<Rightarrow> int \<Rightarrow> 'c \<Rightarrow>
    (('w, 'w handle) owned, ExecStreamResult option \<times> 'c) act" where
  "container_exec_until io on_started cmd opts consumer deadline st =
     on_id (\<lambda>cid. exec_until io on_started cid cmd opts consumer deadline st)"

text \<open>The single regular file of an archive.\<close>

definition only_file :: "string \<Rightarrow> string \<Rightarrow> TarEntry list \<Rightarrow> string res" where
  "only_file cid container_path entries =
     (case filter te_is_regular_file entries of
        [file] \<Rightarrow> Inr (te_body file)
      | files \<Rightarrow>
          Inl (DockerError (''read_file('' @ quoted container_path @ '') on container '' @ cid @
                 '' expected exactly one regular file in the archive but found '' @
                 to_dec (length files) @ '' (is it a directory?)'') None []))"

definition read_file ::
  "'w net \<Rightarrow> (string \<Rightarrow> archive_read) \<Rightarrow> string \<Rightarrow> (('w, 'w handle) owned, string) act" where
  "read_file net open_archive container_path s =
     on_client (andThen (copy_from_container net (hd_id (snd s)) container_path) (\<lambda>tar.
       lift_res (try_bind (extract_tar (open_archive tar))
                   (only_file (hd_id (snd s)) container_path)))) s"

text \<open>
  The copy of one file to the host, which has an empty parent path when its name is a single
  component; \<open>store\<close> says which bytes the write leaves in the file and whether it succeeds.
\<close>

definition copy_file_error :: "string \<Rightarrow> string list \<Rightarrow> string \<Rightarrow> exn" where
  "copy_file_error container_path dest what =
     DockerError (''copy_file_from('' @ quoted container_path @ '', '' @ quoted (''/'' @ join dest ''/'') @
       ''): '' @ what) None []"

definition save_file ::
  "disk_rules \<Rightarrow> (string \<Rightarrow> string \<times> bool) \<Rightarrow> string \<Rightarrow> string \<Rightarrow> string list \<Rightarrow> disk \<Rightarrow> unit res \<times> disk" where
  "save_file rules store bytes container_path dest d =
     (let parent = butlast dest;
          (ok, d1) = (if parent \<noteq> [] then create_directories rules d parent else (True, d)) in
      if \<not> ok then
        (Inl (copy_file_error container_path dest
                (''cannot create parent directory: '' @ dr_why rules)), d1)
      else if \<not> dr_may_file rules d1 dest then
        (Inl (copy_file_error container_path dest ''cannot open host file for writing''), d1)
      else
        let (written, fine) = store bytes
        in (if fine then Inr ()
            else Inl (copy_file_error container_path dest ''failed writing host file''),
            d1(dest \<mapsto> File written)))"

definition copy_file_from ::
  "'w net \<Rightarrow> (string \<Rightarrow> archive_read) \<Rightarrow> disk_rules \<Rightarrow> (string \<Rightarrow> string \<times> bool) \<Rightarrow> string \<Rightarrow>
    string list \<Rightarrow>    (('w, 'w handle) owned \<times> disk, unit) act" where
  "copy_file_from net open_archive rules store container_path dest s =
     (case read_file net open_archive container_path (fst s) of
        (Inl e, t) \<Rightarrow> (Inl e, (t, snd s))
      | (Inr bytes, t) \<Rightarrow>
          (case save_file rules store bytes container_path dest (snd s) of (r, d) \<Rightarrow> (r, (t, d))))"

subsection \<open>Teardown\<close>

definition fire_hooks :: "string \<Rightarrow> 'w hook list \<Rightarrow> ('w client, unit) act" where
  "fire_hooks cid hooks = each (\<lambda>hook. best_effort (call_hook cid hook)) hooks"

definition fire_stopping :: "('w, 'w handle) owned \<Rightarrow> ('w, 'w handle) owned" where
  "fire_stopping s =
     (let (c, h) = s in
      if hd_stopping_fired h then s
      else (snd (fire_hooks (hd_id h) (hd_stopping_hooks h) c), h\<lparr>hd_stopping_fired := True\<rparr>))"

definition container_stop :: "'w net \<Rightarrow> int option \<Rightarrow> (('w, 'w handle) owned, unit) act" where
  "container_stop net timeout_secs s =
     on_client (stop_container net (hd_id (snd s)) timeout_secs) (fire_stopping s)"

definition container_start :: "'w net \<Rightarrow> (('w, 'w handle) owned, unit) act" where
  "container_start net s = on_client (start_container net (hd_id (snd s))) s"

definition is_running :: "'w net \<Rightarrow> (('w, 'w handle) owned, bool) act" where
  "is_running net s =
     on_client (andThen (inspect_container net (hd_id (snd s))) (\<lambda>info. ret (ci_running info))) s"

definition container_keep :: "bool \<Rightarrow> ('w, 'w handle) owned \<Rightarrow> ('w, 'w handle) owned" where
  "container_keep keep s = (fst s, (snd s)\<lparr>hd_remove_on_drop := \<not> keep\<rparr>)"

definition container_drop :: "'w net \<Rightarrow> ('w, 'w handle) owned \<Rightarrow> ('w, 'w handle) owned" where
  "container_drop net s =
     (let (c, h) = s in
      if hd_dropped h then s
      else
        let h1 = h\<lparr>hd_dropped := True\<rparr> in
        if \<not> hd_remove_on_drop h1 then (c, h1)
        else
          let (c2, h2) = fire_stopping (c, h1)
          in (snd (best_effort (remove_container net (hd_id h2) True True) c2), h2))"

text \<open>The move constructor: the new handle, and what is left of the old one.\<close>

definition container_move :: "'w handle \<Rightarrow> 'w handle \<times> 'w handle" where
  "container_move other =
     (other,
      other\<lparr>hd_id := [], hd_exposed_ports := [], hd_stopping_hooks := [], hd_dropped := True,
            hd_stopping_fired := True\<rparr>)"

text \<open>
  The move assignment: the old resource is torn down first, then the other handle is taken over.
  The world and the process-wide cache are shared by all clients.
\<close>

definition see_world :: "'w client \<Rightarrow> 'w client \<Rightarrow> 'w client" where
  "see_world c other = other\<lparr>cl_world := cl_world c, cl_os_cache := cl_os_cache c\<rparr>"

definition container_move_assign ::
  "'w net \<Rightarrow> ('w, 'w handle) owned \<Rightarrow> ('w, 'w handle) owned \<Rightarrow> ('w, 'w handle) owned \<times> 'w handle" where
  "container_move_assign net this other =
     (let this1 = container_drop net this; (h, left_over) = container_move (snd other)
      in ((see_world (fst this1) (fst other), h), left_over))"

definition container_remove :: "'w net \<Rightarrow> ('w, 'w handle) owned \<Rightarrow> ('w, 'w handle) owned" where
  "container_remove net = container_drop net"

subsection \<open>The contract of an owning handle\<close>

text \<open>
  What every handle of the library promises about its teardown: it happens once, and a handle
  that gave its resource away owns nothing.
\<close>

locale raii_handle =
  fixes drop_it :: "'s \<Rightarrow> 's" and dropped :: "'s \<Rightarrow> bool"
  assumes dropped_drop: "dropped (drop_it s)"
    and drop_dropped: "dropped s \<Longrightarrow> drop_it s = s"
begin

lemma drop_twice: "drop_it (drop_it s) = drop_it s"
  by (rule drop_dropped [OF dropped_drop])

lemma drop_many: "(drop_it ^^ Suc n) s = drop_it s"
  by (induction n) (simp_all add: drop_twice)

lemma drop_only_first: "foldl (\<lambda>s f. if f then drop_it s else s) (drop_it s) fs = drop_it s"
  by (induction fs arbitrary: s) (simp_all add: drop_twice)

end

locale keepable_handle = raii_handle drop_it dropped
  for drop_it :: "'c \<times> 'h \<Rightarrow> 'c \<times> 'h" and dropped :: "'c \<times> 'h \<Rightarrow> bool" +
  fixes keep_it :: "bool \<Rightarrow> 'c \<times> 'h \<Rightarrow> 'c \<times> 'h" and persistent :: "'c \<times> 'h \<Rightarrow> bool"
  assumes persistent_keep: "persistent (keep_it b s) = b"
    and dropped_keep: "dropped (keep_it b s) = dropped s"
    and fst_keep: "fst (keep_it b s) = fst s"
    and persistent_drop: "persistent s \<Longrightarrow> fst (drop_it s) = fst s"
begin

lemma kept_is_left_alone: "fst (drop_it (keep_it True s)) = fst s"
  by (simp add: persistent_drop persistent_keep fst_keep)

lemma keep_after_drop: "dropped s \<Longrightarrow> drop_it (keep_it b s) = keep_it b s"
  by (simp add: drop_dropped dropped_keep)

end

lemma fire_stopping_handle:
  "snd (fire_stopping s) = (snd s)\<lparr>hd_stopping_fired := True\<rparr>"
  by (cases s) (auto simp: fire_stopping_def)

lemma fire_stopping_fired: "hd_stopping_fired (snd s) \<Longrightarrow> fire_stopping s = s"
  by (cases s) (simp add: fire_stopping_def)

lemma container_drop_handle:
  "hd_dropped (snd (container_drop net s))"
  using fire_stopping_handle [of "(fst s, (snd s)\<lparr>hd_dropped := True\<rparr>)"]
  by (cases s) (auto simp: container_drop_def Let_def split: prod.splits)

interpretation container_handle: keepable_handle "container_drop net" "\<lambda>s. hd_dropped (snd s)"
  container_keep "\<lambda>s. \<not> hd_remove_on_drop (snd s)"
proof unfold_locales
  fix b and s :: "('a, 'a handle) owned"
  show "hd_dropped (snd (container_drop net s))" by (rule container_drop_handle)
  show "hd_dropped (snd s) \<Longrightarrow> container_drop net s = s"
    by (cases s) (simp add: container_drop_def)
  show "(\<not> hd_remove_on_drop (snd (container_keep b s))) = b"
    and "hd_dropped (snd (container_keep b s)) = hd_dropped (snd s)"
    and "fst (container_keep b s) = fst s"
    by (simp_all add: container_keep_def)
  show "\<not> hd_remove_on_drop (snd s) \<Longrightarrow> fst (container_drop net s) = fst s"
    by (cases s) (simp add: container_drop_def)
qed

subsection \<open>The life of a handle\<close>

datatype handle_op = OpStop "int option" | OpStart | OpKeep bool | OpRemove

definition handle_step :: "'w net \<Rightarrow> handle_op \<Rightarrow> ('w, 'w handle) owned \<Rightarrow> ('w, 'w handle) owned" where
  "handle_step net oper s =
     (case oper of
        OpStop t \<Rightarrow> snd (container_stop net t s)
      | OpStart \<Rightarrow> snd (container_start net s)
      | OpKeep b \<Rightarrow> container_keep b s
      | OpRemove \<Rightarrow> container_drop net s)"

definition handle_run :: "'w net \<Rightarrow> handle_op list \<Rightarrow> ('w, 'w handle) owned \<Rightarrow> ('w, 'w handle) owned" where
  "handle_run net ops s = foldl (\<lambda>s oper. handle_step net oper s) s ops"

lemma handle_run_simps [simp]:
  "handle_run net [] s = s"
  "handle_run net (oper # ops) s = handle_run net ops (handle_step net oper s)"
  by (simp_all add: handle_run_def)

text \<open>Only the hooks of the handle differ.\<close>

definition same_but_hooks :: "('w, 'w handle) owned \<Rightarrow> ('w, 'w handle) owned \<Rightarrow> bool" where
  "same_but_hooks s t \<longleftrightarrow>
     fst s = fst t \<and> (snd s)\<lparr>hd_stopping_hooks := []\<rparr> = (snd t)\<lparr>hd_stopping_hooks := []\<rparr>"

lemma same_but_hooksD:
  assumes "same_but_hooks s t"
  shows "fst s = fst t" "hd_id (snd s) = hd_id (snd t)" "hd_dropped (snd s) = hd_dropped (snd t)"
    "hd_remove_on_drop (snd s) = hd_remove_on_drop (snd t)"
    "hd_stopping_fired (snd s) = hd_stopping_fired (snd t)"
  using assms by (cases "snd s"; cases "snd t"; simp add: same_but_hooks_def)+

text \<open>Once the hooks have fired they are never called again: which hooks there are is irrelevant.\<close>

lemma handle_step_fired:
  assumes "hd_stopping_fired (snd s)"
  shows "hd_stopping_fired (snd (handle_step net oper s))"
  using assms fire_stopping_fired [OF assms]
  by (cases s)
    (auto simp: handle_step_def container_stop_def container_start_def container_keep_def
      container_drop_def on_client_def fire_stopping_def Let_def split: handle_op.splits prod.splits)

lemma handle_step_hooks:
  assumes "hd_stopping_fired (snd s)" "same_but_hooks s t"
  shows "same_but_hooks (handle_step net oper s) (handle_step net oper t)"
proof -
  note d = same_but_hooksD [OF assms(2)]
  obtain c h where s: "s = (c, h)" by (cases s)
  obtain h' where t: "t = (c, h')" using d(1) s by (cases t) simp
  note fs = fire_stopping_fired [of s] fire_stopping_fired [of t]
  show ?thesis
    using assms d fs unfolding s t
    by (cases oper; cases h; cases h')
      (auto simp: handle_step_def container_stop_def container_start_def container_keep_def
        container_drop_def on_client_def fire_stopping_def same_but_hooks_def Let_def split: prod.splits)
qed

lemma handle_run_hooks:
  "hd_stopping_fired (snd s) \<Longrightarrow> same_but_hooks s t \<Longrightarrow>
     same_but_hooks (handle_run net ops s) (handle_run net ops t)"
proof (induction ops arbitrary: s t)
  case (Cons oper ops)
  have "same_but_hooks (handle_run net ops (handle_step net oper s)) (handle_run net ops (handle_step net oper t))"
    using Cons.prems handle_step_fired handle_step_hooks by (intro Cons.IH) blast+
  then show ?case by simp
qed simp

text \<open>After the first removal of a handle the others do nothing, whatever happens in between.\<close>

lemma handle_step_dropped:
  "hd_dropped (snd s) \<Longrightarrow> hd_dropped (snd (handle_step net oper s))"
  using fire_stopping_handle [of s]
  by (cases oper)
    (auto simp: handle_step_def container_stop_def container_start_def container_keep_def
      on_client_def container_drop_handle split: prod.splits)

lemma handle_run_removals:
  "hd_dropped (snd s) \<Longrightarrow>
     handle_run net ops s = handle_run net (filter (\<lambda>oper. oper \<noteq> OpRemove) ops) s"
proof (induction ops arbitrary: s)
  case (Cons oper ops)
  have rm: "handle_step net OpRemove s = s"
    by (simp add: handle_step_def container_handle.drop_dropped [OF Cons.prems])
  have "handle_run net ops (handle_step net oper s) =
      handle_run net (filter (\<lambda>oper. oper \<noteq> OpRemove) ops) (handle_step net oper s)"
    by (rule Cons.IH [OF handle_step_dropped [OF Cons.prems]])
  with rm show ?case by (cases "oper = OpRemove") simp_all
qed simp

text \<open>A moved-from handle is inert; a removal sends the hooks first, then the removal itself.\<close>

lemma container_moved_from:
  "container_drop net (c, snd (container_move h)) = (c, snd (container_move h))"
  by (simp add: container_drop_def container_move_def)

lemma container_drop_fresh:
  assumes "\<not> hd_dropped h" "hd_remove_on_drop h"
  shows "fst (container_drop net (c, h)) =
    snd (remove_container net (hd_id h) True True
      (if hd_stopping_fired h then c else snd (fire_hooks (hd_id h) (hd_stopping_hooks h) c)))"
  using assms by (simp add: container_drop_def fire_stopping_def Let_def)

lemma only_file_ok:
  "only_file cid p es = Inr body \<longleftrightarrow>
     (\<exists>e. filter te_is_regular_file es = [e] \<and> te_body e = body)"
  by (auto simp: only_file_def split: list.splits)

end
