(* ===== verification/Resources.thy ===== *)
theory Resources
  imports Handles
begin

section \<open>Networks and volumes\<close>

text \<open>
  \<open>src/Network.cpp\<close> and \<open>src/Volume.cpp\<close> with their headers: the builders, reuse of a network,
  the seeding of a volume through a throwaway helper container, and the handles.  The client of
  an operation is the one made from the environment; booting the reaper, generated names and the
  release of a network by the host-port forwarder are the record \<open>handle_io\<close>.
\<close>

record 'w handle_io =
  ho_run :: "'w run_io"
  ho_reaper :: "('w client, unit) act"
  ho_release :: "string \<Rightarrow> ('w client, unit) act"
  ho_random_name :: "'w \<Rightarrow> string \<times> 'w"

abbreviation ho_net :: "'w handle_io \<Rightarrow> 'w net" where
  "ho_net hio \<equiv> ro_net (ho_run hio)"

definition named :: "'w handle_io \<Rightarrow> string \<Rightarrow> ('w client, string) act" where
  "named hio name = (if name = [] then world_op (ho_random_name hio) else ret name)"

subsection \<open>The handle of a network\<close>

record network_handle =
  nh_id :: string
  nh_name :: string
  nh_dropped :: bool
  nh_remove_on_drop :: bool

definition new_network :: "string \<Rightarrow> string \<Rightarrow> network_handle" where
  "new_network nid name = \<lparr>nh_id = nid, nh_name = name, nh_dropped = False, nh_remove_on_drop = True\<rparr>"

definition network_keep :: "bool \<Rightarrow> ('w, network_handle) owned \<Rightarrow> ('w, network_handle) owned" where
  "network_keep keep s = (fst s, (snd s)\<lparr>nh_remove_on_drop := \<not> keep\<rparr>)"

definition network_drop :: "'w handle_io \<Rightarrow> ('w, network_handle) owned \<Rightarrow> ('w, network_handle) owned" where
  "network_drop hio s =
     (let (c, h) = s in
      if nh_dropped h then s
      else
        let h1 = h\<lparr>nh_dropped := True\<rparr> in
        if \<not> nh_remove_on_drop h1 then (c, h1)
        else
          (snd (best_effort (andThen (ho_release hio (nh_name h1)) (\<lambda>_. remove_network (ho_net hio) (nh_id h1))) c),
           h1))"

definition network_connect ::
  "'w handle_io \<Rightarrow> string \<Rightarrow> string list \<Rightarrow> (('w, network_handle) owned, unit) act" where
  "network_connect hio container_id aliases s =
     on_client (connect_network (ho_net hio) (nh_id (snd s)) container_id aliases) s"

definition network_inspect :: "'w handle_io \<Rightarrow> (('w, network_handle) owned, NetworkInspect) act" where
  "network_inspect hio s = on_client (inspect_network (ho_net hio) (nh_id (snd s))) s"

definition network_inspect_raw :: "'w handle_io \<Rightarrow> (('w, network_handle) owned, string) act" where
  "network_inspect_raw hio s = on_client (inspect_network_raw (ho_net hio) (nh_id (snd s))) s"

definition network_inspect_of ::
  "('w \<Rightarrow> 'w client res \<times> 'w) \<Rightarrow> 'w handle_io \<Rightarrow> string \<Rightarrow> ('w, NetworkInspect) act" where
  "network_inspect_of fresh hio id_or_name = with_fresh fresh (inspect_network (ho_net hio) id_or_name)"

definition network_move :: "network_handle \<Rightarrow> network_handle \<times> network_handle" where
  "network_move other = (other, other\<lparr>nh_id := [], nh_name := [], nh_dropped := True\<rparr>)"

definition network_move_assign ::
  "'w handle_io \<Rightarrow> ('w, network_handle) owned \<Rightarrow> ('w, network_handle) owned \<Rightarrow>
    ('w, network_handle) owned \<times> network_handle" where
  "network_move_assign hio this other =
     (let this1 = network_drop hio this; (h, left_over) = network_move (snd other)
      in ((see_world (fst this1) (fst other), h), left_over))"

subsection \<open>Creating a network\<close>

record NetworkBuilder =
  nb_name :: string
  nb_driver :: "string option"
  nb_internal :: bool
  nb_attachable :: bool
  nb_enable_ipv6 :: bool
  nb_subnet :: "string option"
  nb_gateway :: "string option"
  nb_ipam_pools :: "NetworkIpamPool list"
  nb_options :: "(string \<times> string) list"
  nb_labels :: "(string \<times> string) list"
  nb_reuse :: bool

definition network_spec :: "NetworkBuilder \<Rightarrow> string \<Rightarrow> NetworkCreateSpec" where
  "network_spec b name =
     \<lparr>ns_name = name, ns_driver = nb_driver b, ns_internal = nb_internal b,
      ns_attachable = nb_attachable b, ns_enable_ipv6 = nb_enable_ipv6 b, ns_subnet = nb_subnet b,
      ns_gateway = nb_gateway b, ns_ipam_pools = nb_ipam_pools b, ns_options = nb_options b,
      ns_labels = nb_labels b\<rparr>"

definition named_network_spec :: "string \<Rightarrow> (string \<times> string) list \<Rightarrow> NetworkCreateSpec" where
  "named_network_spec name ls =
     \<lparr>ns_name = name, ns_driver = None, ns_internal = False, ns_attachable = False,
      ns_enable_ipv6 = False, ns_subnet = None, ns_gateway = None, ns_ipam_pools = [],
      ns_options = [], ns_labels = ls\<rparr>"

definition network_create_named ::
  "'w handle_io \<Rightarrow> string \<Rightarrow> 'w client \<Rightarrow> network_handle res \<times> 'w client" where
  "network_create_named hio name =
     andThen (ho_reaper hio) (\<lambda>_.
     andThen (create_network (ho_net hio)
                (named_network_spec name (testcontainers_labels (ho_run hio)))) (\<lambda>nid.
       ret (new_network nid name)))"

text \<open>The first candidate of exactly this name that carries the hash, and whether the name is taken.\<close>

definition network_create :: "'w handle_io \<Rightarrow> ('w client, network_handle) act" where
  "network_create hio = andThen (world_op (ho_random_name hio)) (network_create_named hio)"

fun reuse_candidate :: "string \<Rightarrow> string \<Rightarrow> NetworkInspect list \<Rightarrow> bool \<Rightarrow> NetworkInspect option \<times> bool" where
  "reuse_candidate name hash [] taken = (None, taken)"
| "reuse_candidate name hash (n # ns) taken =
     (if ni_name n \<noteq> name then reuse_candidate name hash ns taken
      else if map_of (ni_labels n) reuse_hash_label = Some hash then (Some n, True)
      else reuse_candidate name hash ns True)"

definition reuse_needs_name :: exn where
  "reuse_needs_name =
     DockerError (''Network reuse needs a fixed name: combine with_reuse() with '' @
       ''with_name(...) - a generated name would never match across runs'') None []"

definition name_ambiguous :: "string \<Rightarrow> exn" where
  "name_ambiguous name =
     DockerError (''with_reuse: network '' @ quoted name @
       '' already exists with a different configuration (or is not a '' @
       ''reuse network); creating another would make the name ambiguous '' @
       ''- remove it, or change the config back / pick another name'') None []"

definition network_reuse ::
  "'w handle_io \<Rightarrow> NetworkCreateSpec \<Rightarrow> ('w client, network_handle) act" where
  "network_reuse hio spec =
     (let net = ho_net hio; name = ns_name spec;
          hash = reuse_hash (jl_dump (net_json net) (build_network_create_body spec)) in
      andThen (list_networks net [(''name'', name)]) (\<lambda>candidates.
        case reuse_candidate name hash candidates False of
          (Some n, _) \<Rightarrow> ret ((new_network (ni_id n) name)\<lparr>nh_remove_on_drop := False\<rparr>)
        | (None, True) \<Rightarrow> throw (name_ambiguous name)
        | (None, False) \<Rightarrow>
            andThen (create_network net (spec\<lparr>ns_labels := ns_labels spec @ reuse_labels hash\<rparr>)) (\<lambda>nid.
              ret ((new_network nid name)\<lparr>nh_remove_on_drop := False\<rparr>))))"

definition network_build :: "'w handle_io \<Rightarrow> NetworkBuilder \<Rightarrow> ('w client, network_handle) act" where
  "network_build hio b =
     andThen (ho_reaper hio) (\<lambda>_.
     andThen (named hio (nb_name b)) (\<lambda>name.
       let spec = network_spec b name in
       if nb_reuse b \<and> reuse_enabled (ho_run hio) then
         (if nb_name b = [] then throw reuse_needs_name else network_reuse hio spec)
       else
         andThen (create_network (ho_net hio)
                    (spec\<lparr>ns_labels := ns_labels spec @ testcontainers_labels (ho_run hio)\<rparr>)) (\<lambda>nid.
           ret (new_network nid name))))"

subsection \<open>The handle of a volume\<close>

record volume_handle =
  vh_name :: string
  vh_dropped :: bool

definition new_volume :: "string \<Rightarrow> volume_handle" where
  "new_volume name = \<lparr>vh_name = name, vh_dropped = False\<rparr>"

definition volume_drop :: "'w handle_io \<Rightarrow> ('w, volume_handle) owned \<Rightarrow> ('w, volume_handle) owned" where
  "volume_drop hio s =
     (let (c, h) = s in
      if vh_dropped h then s
      else (snd (best_effort (remove_volume (ho_net hio) (vh_name h) False) c), h\<lparr>vh_dropped := True\<rparr>))"

definition volume_move :: "volume_handle \<Rightarrow> volume_handle \<times> volume_handle" where
  "volume_move other = (other, other\<lparr>vh_name := [], vh_dropped := True\<rparr>)"

definition volume_move_assign ::
  "'w handle_io \<Rightarrow> ('w, volume_handle) owned \<Rightarrow> ('w, volume_handle) owned \<Rightarrow>
    ('w, volume_handle) owned \<times> volume_handle" where
  "volume_move_assign hio this other =
     (let this1 = volume_drop hio this; (h, left_over) = volume_move (snd other)
      in ((see_world (fst this1) (fst other), h), left_over))"

record VolumeBuilder =
  vb_name :: string
  vb_driver :: "string option"
  vb_driver_opts :: "(string \<times> string) list"
  vb_labels :: "(string \<times> string) list"

definition volume_create_named :: "'w handle_io \<Rightarrow> string \<Rightarrow> ('w client, volume_handle) act" where
  "volume_create_named hio name =
     andThen (ho_reaper hio) (\<lambda>_.
     andThen (create_volume (ho_net hio)
                \<lparr>vs_name = name, vs_driver = None, vs_driver_opts = [],
                 vs_labels = testcontainers_labels (ho_run hio)\<rparr>) (\<lambda>created.
       ret (new_volume created)))"

definition volume_create :: "'w handle_io \<Rightarrow> ('w client, volume_handle) act" where
  "volume_create hio = andThen (world_op (ho_random_name hio)) (volume_create_named hio)"

definition volume_inspect :: "'w handle_io \<Rightarrow> (('w, volume_handle) owned, VolumeInspect) act" where
  "volume_inspect hio s = on_client (inspect_volume (ho_net hio) (vh_name (snd s))) s"

definition volume_build :: "'w handle_io \<Rightarrow> VolumeBuilder \<Rightarrow> ('w client, volume_handle) act" where
  "volume_build hio b =
     andThen (ho_reaper hio) (\<lambda>_.
     andThen (named hio (vb_name b)) (\<lambda>name.
     andThen (create_volume (ho_net hio)
                \<lparr>vs_name = name, vs_driver = vb_driver b, vs_driver_opts = vb_driver_opts b,
                 vs_labels = vb_labels b @ testcontainers_labels (ho_run hio)\<rparr>) (\<lambda>created.
       ret (new_volume created))))"

subsection \<open>Seeding a volume\<close>

definition rebase_source :: "CopyToContainer \<Rightarrow> string \<Rightarrow> CopyToContainer" where
  "rebase_source source pre =
     (let target = pre @ cp_target source in
      (case cp_source source of
         HostDir \<Rightarrow> host_dir (cp_host_path source) target
       | HostFile \<Rightarrow> host_file (cp_host_path source) target
       | Bytes \<Rightarrow> host_content (cp_bytes source) target)\<lparr>cp_mode := cp_mode source\<rparr>)"

definition backslashed :: "string \<Rightarrow> string" where
  "backslashed path = map (\<lambda>ch. if ch = CHR ''/'' then CHR 0x5C else ch) path"

definition kWindowsStageDir :: string where
  "kWindowsStageDir = ''/__tc_stage''"

definition helper_image :: "'w handle_io \<Rightarrow> string \<Rightarrow> string" where
  "helper_image hio img =
     (let wio = ro_wait (ho_run hio)
      in fst (substitute_image_name (wi_env wio) (wi_files wio) img (wi_cache wio)))"

definition helper_spec :: "'w handle_io \<Rightarrow> string \<Rightarrow> string list \<Rightarrow> string \<Rightarrow> string \<Rightarrow> CreateContainerSpec" where
  "helper_spec hio img cmd volume_name mount_path =
     empty_create_spec\<lparr>cs_image := img, cs_cmd := cmd, cs_mounts := [mount_volume volume_name mount_path],
       cs_labels := testcontainers_labels (ho_run hio)\<rparr>"

definition settled :: "('s, 'a option) act \<Rightarrow> ('s, 'a) run" where
  "settled m s =
     (case m s of (Inl e, s') \<Rightarrow> Some (Inl e, s') | (Inr None, s') \<Rightarrow> None
      | (Inr (Some x), s') \<Rightarrow> Some (Inr x, s'))"

definition copy_failed :: "ExecResult \<Rightarrow> exn" where
  "copy_failed copied =
     DockerError (''populate: in-container copy onto the volume failed (xcopy exit '' @
       int_dec (er_exit_code copied) @ ''): '' @ er_stdout_data copied @ er_stderr_data copied) None []"

definition seed_windows ::
  "'w handle_io \<Rightarrow> string \<Rightarrow> CopyToContainer list \<Rightarrow> string \<Rightarrow> ('w client, unit) run" where
  "seed_windows hio helper_id sources mount_path =
     runThen (runs (andThen (copy_to_container (ho_run hio) helper_id
                               (map (\<lambda>s. rebase_source s kWindowsStageDir) sources)) (\<lambda>_.
                    start_container (ho_net hio) helper_id))) (\<lambda>_.
     if sources = [] then runs (ret ())
     else
       runThen (settled (exec_captured (ro_stream (ho_run hio)) None helper_id
                 [''xcopy'', backslashed (''C:'' @ kWindowsStageDir), backslashed mount_path,
                  ''/e'', ''/i'', ''/q'', ''/y''] plain_exec)) (\<lambda>copied.
         runs (if er_exit_code copied \<noteq> 0 then throw (copy_failed copied) else ret ())))"

definition seed_linux ::
  "'w handle_io \<Rightarrow> string \<Rightarrow> CopyToContainer list \<Rightarrow> string \<Rightarrow> ('w client, unit) run" where
  "seed_linux hio helper_id sources mount =
     runs (andThen (start_container (ho_net hio) helper_id) (\<lambda>_.
       each (\<lambda>s. copy_one_to_container (ho_run hio) helper_id (rebase_source s mount)) sources))"

text \<open>The helper of either kind: created, used, and removed whatever the seed did.\<close>

definition with_helper ::
  "'w handle_io \<Rightarrow> CreateContainerSpec \<Rightarrow> (string \<Rightarrow> ('w client, unit) run) \<Rightarrow> ('w client, unit) run" where
  "with_helper hio spec seed =
     runThen (runs (create_container (ho_net hio) spec None)) (\<lambda>helper_id.
     runThen (runCatching (seed helper_id) (\<lambda>e. runs (remove_and_rethrow (ho_run hio) helper_id e))) (\<lambda>_.
       runs (remove_container (ho_net hio) helper_id True True)))"

definition populate_windows ::
  "'w handle_io \<Rightarrow> string \<Rightarrow> CopyToContainer list \<Rightarrow> string \<Rightarrow> string \<Rightarrow> ('w client, unit) run" where
  "populate_windows hio volume_name sources mount_path img =
     with_helper hio
       ((helper_spec hio img [''cmd'', ''/c'', ''ping -n 300 127.0.0.1 >nul''] volume_name mount_path)
          \<lparr>cs_user := Some ''ContainerAdministrator''\<rparr>)
       (\<lambda>helper_id. seed_windows hio helper_id sources mount_path)"

definition relative_target :: "CopyToContainer \<Rightarrow> bool" where
  "relative_target s \<longleftrightarrow> cp_target s = [] \<or> hd (cp_target s) \<noteq> CHR ''/''"

definition target_not_absolute :: "string \<Rightarrow> exn" where
  "target_not_absolute target =
     DockerError (''populate: source target must be absolute POSIX-style ('' @ quoted ''/path'' @
       ''), got '' @ quoted target) None []"

definition or_default :: "string \<Rightarrow> string \<Rightarrow> string" where
  "or_default s d = (if s = [] then d else s)"

definition populate ::
  "'w handle_io \<Rightarrow> string \<Rightarrow> CopyToContainer list \<Rightarrow> string \<Rightarrow> string \<Rightarrow> ('w client, unit) run" where
  "populate hio volume_name sources mount_path img =
     (case List.find relative_target sources of
        Some s \<Rightarrow> runs (throw (target_not_absolute (cp_target s)))
      | None \<Rightarrow>
          runThen (runs (server_os (ho_net hio))) (\<lambda>os.
            if os = ''windows'' then
              populate_windows hio volume_name sources (or_default mount_path ''C:/__tc_seed'')
                (helper_image hio (or_default img ''mcr.microsoft.com/windows/nanoserver:ltsc2022''))
            else
              let mount = or_default mount_path ''/__tc_seed'' in
              with_helper hio
                (helper_spec hio (helper_image hio (or_default img ''alpine:3.20'')) [''sleep'', ''30'']
                   volume_name mount)
                (\<lambda>helper_id. seed_linux hio helper_id sources mount)))"

definition volume_populate ::
  "'w handle_io \<Rightarrow> CopyToContainer list \<Rightarrow> string \<Rightarrow> string \<Rightarrow> (('w, volume_handle) owned, unit) run" where
  "volume_populate hio sources mount_path img s =
     (case populate hio (vh_name (snd s)) sources mount_path img (fst s) of
        None \<Rightarrow> None | Some (r, c) \<Rightarrow> Some (r, (c, snd s)))"

subsection \<open>What the handles promise\<close>

interpretation network_handle: keepable_handle "network_drop hio" "\<lambda>s. nh_dropped (snd s)"
  network_keep "\<lambda>s. \<not> nh_remove_on_drop (snd s)"
proof unfold_locales
  fix b and s :: "('a, network_handle) owned"
  show "nh_dropped (snd (network_drop hio s))" by (cases s) (simp add: network_drop_def Let_def)
  show "nh_dropped (snd s) \<Longrightarrow> network_drop hio s = s" by (cases s) (simp add: network_drop_def)
  show "(\<not> nh_remove_on_drop (snd (network_keep b s))) = b"
    and "nh_dropped (snd (network_keep b s)) = nh_dropped (snd s)"
    and "fst (network_keep b s) = fst s"
    by (simp_all add: network_keep_def)
  show "\<not> nh_remove_on_drop (snd s) \<Longrightarrow> fst (network_drop hio s) = fst s"
    by (cases s) (simp add: network_drop_def)
qed

interpretation volume_handle: raii_handle "volume_drop hio" "\<lambda>s. vh_dropped (snd s)"
  by unfold_locales (auto simp: volume_drop_def split: prod.splits)

lemma network_moved_from: "network_drop hio (c, snd (network_move h)) = (c, snd (network_move h))"
  by (simp add: network_drop_def network_move_def)

lemma volume_moved_from: "volume_drop hio (c, snd (volume_move h)) = (c, snd (volume_move h))"
  by (simp add: volume_drop_def volume_move_def)

subsection \<open>What reuse promises\<close>

lemma reuse_candidate_found:
  "reuse_candidate name hash ns taken = (Some n, t) \<Longrightarrow>
     n \<in> set ns \<and> ni_name n = name \<and> map_of (ni_labels n) reuse_hash_label = Some hash"
  by (induction ns arbitrary: taken) (auto split: if_splits)

lemma reuse_candidate_none:
  "reuse_candidate name hash ns taken = (None, t) \<Longrightarrow>
     t \<longleftrightarrow> taken \<or> (\<exists>n \<in> set ns. ni_name n = name)"
  by (induction ns arbitrary: taken) (auto split: if_splits)

text \<open>A network of the name exists: nothing is created.\<close>

lemma network_reuse_taken:
  assumes l: "list_networks (ho_net hio) [(''name'', ns_name spec)] c = (Inr candidates, c1)"
    and n: "n \<in> set candidates" "ni_name n = ns_name spec"
  shows "snd (network_reuse hio spec c) = c1"
    and "fst (network_reuse hio spec c) = Inr h \<Longrightarrow>
      \<not> nh_remove_on_drop h \<and> nh_name h = ns_name spec \<and>
      (\<exists>n \<in> set candidates. nh_id h = ni_id n \<and> ni_name n = ns_name spec \<and>
         map_of (ni_labels n) reuse_hash_label =
           Some (reuse_hash (jl_dump (net_json (ho_net hio)) (build_network_create_body spec))))"
proof -
  let ?hash = "reuse_hash (jl_dump (net_json (ho_net hio)) (build_network_create_body spec))"
  obtain found taken where r: "reuse_candidate (ns_name spec) ?hash candidates False = (found, taken)"
    by (cases "reuse_candidate (ns_name spec) ?hash candidates False")
  have t: "found = None \<Longrightarrow> taken" using reuse_candidate_none [of _ _ candidates False taken] r n by blast
  show "snd (network_reuse hio spec c) = c1"
    using l r t by (cases found) (simp_all add: network_reuse_def Let_def)
  show "fst (network_reuse hio spec c) = Inr h \<Longrightarrow>
      \<not> nh_remove_on_drop h \<and> nh_name h = ns_name spec \<and>
      (\<exists>n \<in> set candidates. nh_id h = ni_id n \<and> ni_name n = ns_name spec \<and>
         map_of (ni_labels n) reuse_hash_label = Some ?hash)"
  proof (cases found)
    case None
    then show "fst (network_reuse hio spec c) = Inr h \<Longrightarrow> ?thesis"
      using l r t by (simp add: network_reuse_def Let_def)
  next
    case (Some m)
    assume "fst (network_reuse hio spec c) = Inr h"
    with l r Some have "h = (new_network (ni_id m) (ns_name spec))\<lparr>nh_remove_on_drop := False\<rparr>"
      by (simp add: network_reuse_def Let_def)
    moreover have "m \<in> set candidates \<and> ni_name m = ns_name spec \<and>
        map_of (ni_labels m) reuse_hash_label = Some ?hash"
      using r Some reuse_candidate_found by blast
    ultimately show ?thesis by (auto simp: new_network_def)
  qed
qed

subsection \<open>What the seeding of a volume promises\<close>

lemma with_helper_cases:
  assumes "with_helper hio spec seed c = Some (r, c')"
  shows "(\<exists>e. r = Inl e \<and> create_container (ho_net hio) spec None c = (Inl e, c')) \<or>
    (\<exists>helper_id c1 c2 q. create_container (ho_net hio) spec None c = (Inr helper_id, c1) \<and>
       seed helper_id c1 = Some (q, c2) \<and>
       c' = snd (remove_container (ho_net hio) helper_id True True c2) \<and>
       (\<forall>e. q = Inl e \<longrightarrow> r = Inl e) \<and>
       (q = Inr () \<longrightarrow> r = fst (remove_container (ho_net hio) helper_id True True c2)))"
proof -
  from assms consider (create) e where "create_container (ho_net hio) spec None c = (Inl e, c')" "r = Inl e"
    | (created) helper_id c1 where "create_container (ho_net hio) spec None c = (Inr helper_id, c1)"
      "runThen (runCatching (seed helper_id) (\<lambda>e. runs (remove_and_rethrow (ho_run hio) helper_id e)))
         (\<lambda>_. runs (remove_container (ho_net hio) helper_id True True)) c1 = Some (r, c')"
    by (auto simp: with_helper_def runThen_Some)
  then show ?thesis
  proof cases
    case create
    then show ?thesis by simp
  next
    case created
    then show ?thesis by (auto simp: runThen_Some runCatching_Some)
  qed
qed

lemma populate_relative:
  assumes "\<exists>s \<in> set sources. relative_target s"
  shows "\<exists>t. populate hio volume_name sources mount_path img c = Some (Inl (target_not_absolute t), c)"
proof -
  from assms obtain s where "List.find relative_target sources = Some s"
    by (metis find_None_iff option.exhaust)
  then show ?thesis by (auto simp: populate_def)
qed

lemma rebase_source_fields:
  "cp_target (rebase_source s pre) = pre @ cp_target s" "cp_mode (rebase_source s pre) = cp_mode s"
  "cp_source (rebase_source s pre) = cp_source s"
  by (cases "cp_source s"; simp add: rebase_source_def host_dir_def host_file_def host_content_def Let_def)+

end
