(* ===== verification/Reaper.thy ===== *)
theory Reaper
  imports Resources Timing
begin

section \<open>The reaper\<close>

text \<open>
  \<open>src/Reaper.cpp\<close>: one Ryuk container per daemon endpoint, its start, the handshake that
  registers the session filter, and further filters.  The mutex makes the calls sequential.  The
  control socket is the record \<open>reap_io\<close>; the legs of an exchange report what they met.
\<close>

record 'w reap_io =
  rp_run :: "'w run_io"
  rp_resolve :: "string \<Rightarrow> nat \<Rightarrow> 'w \<Rightarrow> net_ec option \<times> 'w"
  rp_connect :: "string \<Rightarrow> nat \<Rightarrow> int \<Rightarrow> 'w \<Rightarrow> (net_ec option \<times> nat) \<times> 'w"
  rp_write :: "nat \<Rightarrow> string \<Rightarrow> int \<Rightarrow> 'w \<Rightarrow> net_ec option \<times> 'w"
  rp_read_line :: "nat \<Rightarrow> int \<Rightarrow> 'w \<Rightarrow> (net_ec option \<times> string) \<times> 'w"
  rp_close :: "nat \<Rightarrow> 'w \<Rightarrow> 'w"
  rp_no_error :: string

abbreviation rp_wait :: "'w reap_io \<Rightarrow> 'w wait_io" where
  "rp_wait rio \<equiv> ro_wait (rp_run rio)"

abbreviation rp_net :: "'w reap_io \<Rightarrow> 'w net" where
  "rp_net rio \<equiv> ro_net (rp_run rio)"

subsection \<open>Starting Ryuk\<close>

definition kRyukImage :: string where
  "kRyukImage = ''testcontainers/ryuk:0.11.0''"

definition kRyukPort :: string where
  "kRyukPort = ''8080/tcp''"

definition ryuk_image :: "'w wait_io \<Rightarrow> string" where
  "ryuk_image wio =
     (let (override, cache) = config_value (wi_env wio) (wi_files wio)
            ''TESTCONTAINERS_RYUK_CONTAINER_IMAGE'' ''ryuk.container.image'' (wi_cache wio)
      in fst (substitute_image_name (wi_env wio) (wi_files wio)
                (case override of None \<Rightarrow> kRyukImage | Some img \<Rightarrow> img) cache))"

definition ryuk_filter_line :: "string \<Rightarrow> string \<Rightarrow> string" where
  "ryuk_filter_line key val = ''label='' @ key @ ''='' @ val @ newline"

definition ryuk_spec :: "'w wait_io \<Rightarrow> bool \<Rightarrow> CreateContainerSpec" where
  "ryuk_spec wio auto_remove =
     empty_create_spec\<lparr>cs_image := ryuk_image wio, cs_exposed_ports := [kRyukPort],
       cs_publish_all_ports := True,
       cs_mounts := [mount_bind ''/var/run/docker.sock'' ''/var/run/docker.sock''],
       cs_env := [''RYUK_RECONNECTION_TIMEOUT=10s''], cs_auto_remove := auto_remove,
       cs_labels := [managed_by]\<rparr>"

record RyukEndpoint =
  ry_container_id :: string
  ry_host :: string
  ry_port :: nat

definition kill_ryuk :: "'w reap_io \<Rightarrow> string \<Rightarrow> exn \<Rightarrow> ('w client, 'a) act" where
  "kill_ryuk rio cid e = remove_and_rethrow (rp_run rio) cid e"

definition start_ryuk :: "'w reap_io \<Rightarrow> bool \<Rightarrow> ('w client, RyukEndpoint) act" where
  "start_ryuk rio auto_remove =
     andThen (create_container (rp_net rio) (ryuk_spec (rp_wait rio) auto_remove) None) (\<lambda>cid.
     andThen (start_container (rp_net rio) cid) (\<lambda>_.
     andThen (inspect_container (rp_net rio) cid) (\<lambda>info.
       case select_host_port (ci_ports info) kRyukPort Any of
         None \<Rightarrow>
           kill_ryuk rio cid
             (DockerError (''Ryuk container '' @ cid @ '' published no host port for '' @ kRyukPort) None [])
       | Some port \<Rightarrow>
           (\<lambda>c. (Inr \<lparr>ry_container_id = cid, ry_host = probe_host (rp_wait rio) c, ry_port = port\<rparr>, c)))))"

subsection \<open>The handshake\<close>

text \<open>One line and its answer; each leg has the budget left when it starts.\<close>

definition send_filter_line ::
  "'w reap_io \<Rightarrow> nat \<Rightarrow> string \<Rightarrow> ('w client \<Rightarrow> int) \<Rightarrow> ('w client, net_ec option \<times> string) act" where
  "send_filter_line rio sock line budget =
     andThen (\<lambda>c. world_op (rp_write rio sock line (budget c)) c) (\<lambda>ec.
       case ec of
         Some e \<Rightarrow> ret (Some e, [])
       | None \<Rightarrow>
           andThen (\<lambda>c. world_op (rp_read_line rio sock (budget c)) c) (\<lambda>(ec, reply).
             ret (ec, if ec = None then reply else [])))"

definition budget_left :: "'w reap_io \<Rightarrow> int \<Rightarrow> 'w client \<Rightarrow> int" where
  "budget_left rio deadline c =
     max (min (to_ms (wi_clock (rp_wait rio)) (deadline - now_of (rp_wait rio) c)) 5000) 1"

text \<open>
  One turn of the handshake loop after the resolution: connect, send the filter, read the
  answer; a connection that failed is closed.
\<close>

definition handshake_turn ::
  "'w reap_io \<Rightarrow> RyukEndpoint \<Rightarrow> string \<Rightarrow> int \<Rightarrow> ('w client, net_ec + (nat \<times> string)) act" where
  "handshake_turn rio ep line deadline =
     andThen (\<lambda>c. world_op (rp_connect rio (ry_host ep) (ry_port ep) (budget_left rio deadline c)) c)
       (\<lambda>(ec, sock).
         case ec of
           Some e \<Rightarrow> andThen (world_do (rp_close rio sock)) (\<lambda>_. ret (Inl e))
         | None \<Rightarrow>
             andThen (send_filter_line rio sock line (budget_left rio deadline)) (\<lambda>(ec, ack).
               case ec of
                 None \<Rightarrow> ret (Inr (sock, ack))
               | Some e \<Rightarrow> andThen (world_do (rp_close rio sock)) (\<lambda>_. ret (Inl e))))"

text \<open>The loop: \<open>None\<close> for a spent budget, with the last error.\<close>

fun handshake ::
  "nat \<Rightarrow> 'w reap_io \<Rightarrow> RyukEndpoint \<Rightarrow> string \<Rightarrow> int \<Rightarrow> string \<Rightarrow>
    ('w client, (nat \<times> string) option \<times> string) run" where
  "handshake 0 rio ep line deadline last_error c = None"
| "handshake (Suc n) rio ep line deadline last_error c =
     (if past (rp_wait rio) deadline c then Some (Inr (None, last_error), c)
      else
        case world_op (rp_resolve rio (ry_host ep) (ry_port ep)) c of
          (Inl e, c1) \<Rightarrow> Some (Inl e, c1)
        | (Inr (Some ec), c1) \<Rightarrow>
            handshake n rio ep line deadline (ec_message ec) (sleep_for (rp_wait rio) 200 c1)
        | (Inr None, c1) \<Rightarrow>
            (case handshake_turn rio ep line deadline c1 of
               (Inl e, c2) \<Rightarrow> Some (Inl e, c2)
             | (Inr (Inr (sock, ack)), c2) \<Rightarrow> Some (Inr (Some (sock, ack), rp_no_error rio), c2)
             | (Inr (Inl ec), c2) \<Rightarrow>
                 handshake n rio ep line deadline (ec_message ec) (sleep_for (rp_wait rio) 200 c2)))"

declare handshake.simps [simp del]

definition is_ack :: "string \<Rightarrow> bool" where
  "is_ack reply \<longleftrightarrow> starts_with ''ACK'' reply"

subsection \<open>One reaper per daemon\<close>

record daemon =
  dm_container_id :: string
  dm_socket :: nat
  dm_filters :: "string list"

definition handshake_failed :: "RyukEndpoint \<Rightarrow> string \<Rightarrow> exn" where
  "handshake_failed ep last_error =
     TransportTimeoutError (''Could not complete the Ryuk handshake at '' @ ry_host ep @ '':'' @
       to_dec (ry_port ep) @ '' within the handshake budget (last error: '' @ last_error @ '')'') []"

definition session_line :: "'w reap_io \<Rightarrow> string" where
  "session_line rio = ryuk_filter_line kSessionIdLabel (ro_session_id (rp_run rio))"

definition greet :: "nat \<Rightarrow> 'w reap_io \<Rightarrow> RyukEndpoint \<Rightarrow> ('w client, daemon option) run" where
  "greet fuel rio ep c =
     (let deadline = now_of (rp_wait rio) c + 20000 * ticks_per_ms (wi_clock (rp_wait rio)) in
      runThen (handshake fuel rio ep (session_line rio) deadline (rp_no_error rio)) (\<lambda>(shaken, last_error).
        runs (case shaken of
                None \<Rightarrow> kill_ryuk rio (ry_container_id ep) (handshake_failed ep last_error)
              | Some (sock, ack) \<Rightarrow>
                  (if is_ack ack then
                     ret (Some \<lparr>dm_container_id = ry_container_id ep, dm_socket = sock,
                                dm_filters = [session_line rio]\<rparr>)
                   else
                     kill_ryuk rio (ry_container_id ep)
                       (DockerError (''Ryuk did not acknowledge the session filter (got '' @ quoted ack @ '')'')
                          None [])))) c)"

definition boot_daemon :: "nat \<Rightarrow> 'w reap_io \<Rightarrow> ('w client, daemon option) run" where
  "boot_daemon fuel rio =
     runThen (runs (is_windows_engine (rp_net rio))) (\<lambda>windows.
       if windows then runs (ret None)
       else runThen (runs (start_ryuk rio True)) (greet fuel rio))"

type_synonym daemons = "string \<rightharpoonup> daemon option"

definition daemon_locked :: "nat \<Rightarrow> 'w reap_io \<Rightarrow> ('w client \<times> daemons, daemon option) run" where
  "daemon_locked fuel rio s =
     (let (c, ds) = s; endpoint = dh_url (cl_host c) in
      case ds endpoint of
        Some d \<Rightarrow> Some (Inr d, s)
      | None \<Rightarrow>
          (case boot_daemon fuel rio c of
             None \<Rightarrow> None
           | Some (Inl e, c1) \<Rightarrow> Some (Inl e, (c1, ds))
           | Some (Inr d, c1) \<Rightarrow> Some (Inr d, (c1, ds(endpoint \<mapsto> d)))))"

definition ensure_started :: "nat \<Rightarrow> 'w reap_io \<Rightarrow> ('w client \<times> daemons, unit) run" where
  "ensure_started fuel rio =
     (if ryuk_disabled (rp_run rio) then runs (ret ())
      else runThen (daemon_locked fuel rio) (\<lambda>_. runs (ret ())))"

text \<open>The overload that makes its own client; a disabled reaper makes none.\<close>

definition ensure_started_here ::
  "nat \<Rightarrow> 'w reap_io \<Rightarrow> ('w \<Rightarrow> 'w client res \<times> 'w) \<Rightarrow> ('w \<times> daemons, unit) run" where
  "ensure_started_here fuel rio fresh s =
     (let (w, ds) = s in
      if ryuk_disabled (rp_run rio) then Some (Inr (), s)
      else
        case fresh w of
          (Inl e, w1) \<Rightarrow> Some (Inl e, (w1, ds))
        | (Inr c, w1) \<Rightarrow>
            map_option (\<lambda>(r, (c1, ds1)). (try_bind r (\<lambda>_. Inr ()), (cl_world c1, ds1)))
              (daemon_locked fuel rio (c\<lparr>cl_world := w1\<rparr>, ds)))"

text \<open>The session of a process: drawn once, then the same for ever.\<close>

definition session_id :: "('w \<Rightarrow> nat \<times> 'w) \<Rightarrow> string option \<Rightarrow> 'w \<Rightarrow> string \<times> string option \<times> 'w" where
  "session_id draw known w =
     (case known of
        Some sid \<Rightarrow> (sid, known, w)
      | None \<Rightarrow> (let (sid, w1) = random_hex draw 32 w in (sid, Some sid, w1)))"

lemma session_id_stable:
  assumes "session_id draw known w = (sid, known', w1)"
  shows "session_id draw known' w2 = (sid, known', w2)"
  using assms by (auto simp: session_id_def split: option.splits prod.splits)

definition filter_failed :: "string \<Rightarrow> string \<Rightarrow> string \<Rightarrow> exn" where
  "filter_failed key val why =
     DockerError (''Failed to register the Ryuk filter for '' @ key @ ''='' @ val @ '': '' @ why) None []"

definition filter_refused :: "string \<Rightarrow> string \<Rightarrow> string \<Rightarrow> exn" where
  "filter_refused key val ack =
     DockerError (''Ryuk did not acknowledge the filter for '' @ key @ ''='' @ val @ '' (got '' @
       quoted ack @ '')'') None []"

definition add_filter :: "daemons \<Rightarrow> string \<Rightarrow> daemon \<Rightarrow> string \<Rightarrow> daemons" where
  "add_filter ds endpoint d line = ds(endpoint \<mapsto> Some (d\<lparr>dm_filters := dm_filters d @ [line]\<rparr>))"

text \<open>The filter goes to the entry \<open>endpoint\<close> of the table, which holds \<open>d\<close>.\<close>

definition announce ::
  "'w reap_io \<Rightarrow> string \<Rightarrow> string \<Rightarrow> string \<Rightarrow> daemon \<Rightarrow> ('w client \<times> daemons, unit) act" where
  "announce rio key val endpoint d s =
     (let (c, ds) = s; line = ryuk_filter_line key val in
      if line \<in> set (dm_filters d) then (Inr (), s)
      else
        case send_filter_line rio (dm_socket d) line (\<lambda>_. 5000) c of
          (Inl e, c1) \<Rightarrow> (Inl e, (c1, ds))
        | (Inr (Some ec, _), c1) \<Rightarrow> (Inl (filter_failed key val (ec_message ec)), (c1, ds))
        | (Inr (None, ack), c1) \<Rightarrow>
            (if is_ack ack then (Inr (), (c1, add_filter ds endpoint d line))
             else (Inl (filter_refused key val ack), (c1, ds))))"

definition register_at ::
  "'w reap_io \<Rightarrow> string \<Rightarrow> string \<Rightarrow> string \<Rightarrow> daemon option \<Rightarrow> ('w client \<times> daemons, unit) act" where
  "register_at rio key val endpoint impl =
     (case impl of None \<Rightarrow> ret () | Some d \<Rightarrow> announce rio key val endpoint d)"

definition register_filter ::
  "nat \<Rightarrow> 'w reap_io \<Rightarrow> string \<Rightarrow> string \<Rightarrow> ('w client \<times> daemons, unit) run" where
  "register_filter fuel rio key val s =
     (if ryuk_disabled (rp_run rio) then Some (Inr (), s)
      else
        runThen (daemon_locked fuel rio) (\<lambda>impl.
          runs (register_at rio key val (dh_url (cl_host (fst s))) impl)) s)"

definition registered_filters :: "string \<Rightarrow> daemons \<Rightarrow> string list" where
  "registered_filters endpoint ds =
     (case ds endpoint of Some (Some d) \<Rightarrow> dm_filters d | _ \<Rightarrow> [])"

subsection \<open>The public run\<close>

text \<open>\<open>run(client, request)\<close> of \<open>src/Runner.cpp\<close>: the reaper of the client's daemon first.\<close>

definition run_container ::
  "nat \<Rightarrow> 'w reap_io \<Rightarrow> 'w ContainerRequest \<Rightarrow> ('w client \<times> daemons, ('w, 'w handle) owned) run" where
  "run_container fuel rio req =
     runThen (ensure_started fuel rio) (\<lambda>_ (c, ds).
       case runner_run (rp_run rio) req c of
         None \<Rightarrow> None
       | Some (Inl e, c1) \<Rightarrow> Some (Inl e, (c1, ds))
       | Some (Inr h, c1) \<Rightarrow> Some (Inr (handed_over c1 h), (c1, ds)))"

text \<open>\<open>run(request)\<close>: the client of the environment.\<close>

definition run_container_here ::
  "nat \<Rightarrow> 'w reap_io \<Rightarrow> ('w \<Rightarrow> 'w client res \<times> 'w) \<Rightarrow> 'w ContainerRequest \<Rightarrow>
    ('w \<times> daemons, ('w, 'w handle) owned) run" where
  "run_container_here fuel rio fresh req s =
     (let (w, ds) = s in
      case fresh w of
        (Inl e, w1) \<Rightarrow> Some (Inl e, (w1, ds))
      | (Inr c, w1) \<Rightarrow>
          map_option (\<lambda>(r, (c1, ds1)). (r, (cl_world c1, ds1)))
            (run_container fuel rio req (c\<lparr>cl_world := w1\<rparr>, ds)))"

subsection \<open>What the reaper promises\<close>

lemma world_op_Inr: "\<exists>x t. world_op f c = (Inr x, t)"
  by (simp add: world_op_def split_def Let_def)

text \<open>No leg of the handshake throws: errors are answers.\<close>

lemma send_filter_line_Inr: "\<exists>x t. send_filter_line rio sock line budget c = (Inr x, t)"
proof -
  obtain ec c1 where w: "world_op (rp_write rio sock line (budget c)) c = (Inr ec, c1)"
    using world_op_Inr [of "rp_write rio sock line (budget c)" c] by auto
  obtain ec' reply c2 where r: "world_op (rp_read_line rio sock (budget c1)) c1 = (Inr (ec', reply), c2)"
    using world_op_Inr [of "rp_read_line rio sock (budget c1)" c1] by auto
  show ?thesis using w r by (cases ec) (simp_all add: send_filter_line_def andThen_apply)
qed

lemma handshake_turn_Inr: "\<exists>x t. handshake_turn rio ep line deadline c = (Inr x, t)"
proof -
  obtain ec sock c1 where k:
    "world_op (rp_connect rio (ry_host ep) (ry_port ep) (budget_left rio deadline c)) c = (Inr (ec, sock), c1)"
    using world_op_Inr [of "rp_connect rio (ry_host ep) (ry_port ep) (budget_left rio deadline c)" c] by auto
  obtain ec' ack c2 where f:
    "send_filter_line rio sock line (budget_left rio deadline) c1 = (Inr (ec', ack), c2)"
    using send_filter_line_Inr [of rio sock line "budget_left rio deadline" c1] by auto
  show ?thesis using k f
    by (cases ec; cases ec') (simp_all add: handshake_turn_def andThen_apply world_do_def)
qed

lemma handshake_Inr: "handshake n rio ep line deadline last_error c = Some (r, t) \<Longrightarrow> \<exists>x. r = Inr x"
proof (induction n arbitrary: last_error c)
  case (Suc n)
  obtain rec c1 where w: "world_op (rp_resolve rio (ry_host ep) (ry_port ep)) c = (Inr rec, c1)"
    using world_op_Inr [of "rp_resolve rio (ry_host ep) (ry_port ep)" c] by auto
  obtain x c2 where h: "handshake_turn rio ep line deadline c1 = (Inr x, c2)"
    using handshake_turn_Inr by blast
  show ?case
    using Suc w h
    by (cases rec; cases x)
      (auto simp: handshake.simps(2) split: if_splits prod.splits)
qed (simp add: handshake.simps)

text \<open>A handshake that fails leaves no container behind: its removal is asked for.\<close>

lemma greet_failure:
  assumes "greet fuel rio ep c = Some (Inl e, c')"
  shows "\<exists>c1. c' = snd (remove_container (rp_net rio) (ry_container_id ep) True True c1)"
proof -
  let ?dl = "now_of (rp_wait rio) c + 20000 * ticks_per_ms (wi_clock (rp_wait rio))"
  obtain r c1 where h: "handshake fuel rio ep (session_line rio) ?dl (rp_no_error rio) c = Some (r, c1)"
    using assms by (auto simp: greet_def Let_def runThen_def split: option.splits)
  then obtain shaken last_error where "r = Inr (shaken, last_error)" using handshake_Inr by fastforce
  with assms h show ?thesis
    by (auto simp: greet_def Let_def runThen_def kill_ryuk_def split: option.splits if_splits)
qed

text \<open>A start of Ryuk that fails between its creation and the port check does leave it behind.\<close>

lemma start_ryuk_not_removed:
  assumes "create_container (rp_net rio) (ryuk_spec (rp_wait rio) b) None c = (Inr cid, c1)"
    and "start_container (rp_net rio) cid c1 = (Inl e, c2)"
  shows "start_ryuk rio b c = (Inl e, c2)"
  using assms by (simp add: start_ryuk_def)

text \<open>A failed bootstrap leaves no entry; a finished one is used by every later call.\<close>

lemma daemon_locked_failed: "daemon_locked fuel rio (c, ds) = Some (Inl e, (c', ds')) \<Longrightarrow> ds' = ds"
  by (auto simp: daemon_locked_def Let_def split: option.splits prod.splits sum.splits)

lemma daemon_locked_entry:
  "daemon_locked fuel rio (c, ds) = Some (Inr d, (c', ds')) \<Longrightarrow> ds' (dh_url (cl_host c)) = Some d"
  by (auto simp: daemon_locked_def Let_def split: option.splits prod.splits sum.splits)

lemma daemon_locked_known:
  "ds (dh_url (cl_host c)) = Some d \<Longrightarrow> daemon_locked fuel rio (c, ds) = Some (Inr d, (c, ds))"
  by (simp add: daemon_locked_def)

text \<open>
  The invariant of the process-wide table: the filters of a booted reaper start with the session's
  and hold no line twice.
\<close>

definition reaper_inv :: "'w reap_io \<Rightarrow> daemons \<Rightarrow> bool" where
  "reaper_inv rio ds \<longleftrightarrow>
     (\<forall>endpoint d. ds endpoint = Some (Some d) \<longrightarrow>
        (\<exists>rest. dm_filters d = session_line rio # rest) \<and> distinct (dm_filters d))"

lemma boot_daemon_filters:
  assumes "boot_daemon fuel rio c = Some (Inr (Some d), c')"
  shows "dm_filters d = [session_line rio]"
proof -
  from assms obtain ep c1 c2 where g: "greet fuel rio ep c1 = Some (Inr (Some d), c2)"
    by (auto simp: boot_daemon_def runThen_Some split: if_splits)
  then obtain shaken last_error c3 where
    "(case shaken of
        None \<Rightarrow> kill_ryuk rio (ry_container_id ep) (handshake_failed ep last_error)
      | Some (sock, ack) \<Rightarrow>
          (if is_ack ack then
             ret (Some \<lparr>dm_container_id = ry_container_id ep, dm_socket = sock,
                        dm_filters = [session_line rio]\<rparr>)
           else
             kill_ryuk rio (ry_container_id ep)
               (DockerError (''Ryuk did not acknowledge the session filter (got '' @ quoted ack @ '')'')
                  None []))) c3 = (Inr (Some d), c2)"
    unfolding greet_def Let_def runThen_Some runs_apply by auto
  then show ?thesis
    by (cases shaken) (auto simp: kill_ryuk_def split: prod.splits if_splits)
qed

lemma daemon_locked_inv:
  assumes "reaper_inv rio ds" "daemon_locked fuel rio (c, ds) = Some (r, (c', ds'))"
  shows "reaper_inv rio ds'"
  using assms
  by (auto simp: daemon_locked_def Let_def reaper_inv_def boot_daemon_filters
      split: option.splits prod.splits sum.splits if_splits)

lemma announce_inv:
  assumes "reaper_inv rio ds" "ds endpoint = Some (Some d)"
    and "announce rio key val endpoint d (c, ds) = (r, (c', ds'))"
  shows "reaper_inv rio ds'"
proof (cases "ds' = ds")
  case True
  with assms(1) show ?thesis by simp
next
  case False
  with assms(3) have ds': "ds' = add_filter ds endpoint d (ryuk_filter_line key val)"
    "ryuk_filter_line key val \<notin> set (dm_filters d)"
    by (auto simp: announce_def Let_def split: if_splits prod.splits sum.splits option.splits)
  have "(\<exists>rest. dm_filters d = session_line rio # rest) \<and> distinct (dm_filters d)"
    using assms(1,2) by (auto simp: reaper_inv_def)
  with ds' assms(1) show ?thesis by (auto simp: reaper_inv_def add_filter_def)
qed

inductive reaper_step :: "'w reap_io \<Rightarrow> daemons \<Rightarrow> daemons \<Rightarrow> bool" for rio where
  Ensure: "ensure_started fuel rio (c, ds) = Some (r, (c', ds')) \<Longrightarrow> reaper_step rio ds ds'"
| Register: "register_filter fuel rio key val (c, ds) = Some (r, (c', ds')) \<Longrightarrow> reaper_step rio ds ds'"

inductive_cases reaper_stepE [consumes 1, case_names ensured registered]: "reaper_step rio ds ds'"

lemma register_filter_inv:
  assumes inv: "reaper_inv rio ds" and r: "register_filter fuel rio key val (c, ds) = Some (r, (c', ds'))"
  shows "reaper_inv rio ds'"
proof (cases "ryuk_disabled (rp_run rio)")
  case True
  with r inv show ?thesis by (simp add: register_filter_def)
next
  case False
  with r consider (failed) e where "daemon_locked fuel rio (c, ds) = Some (Inl e, (c', ds'))"
    | (found) impl c1 ds1 where "daemon_locked fuel rio (c, ds) = Some (Inr impl, (c1, ds1))"
      "register_at rio key val (dh_url (cl_host c)) impl (c1, ds1) = (r, (c', ds'))"
    by (auto simp: register_filter_def runThen_Some)
  then show ?thesis
  proof cases
    case failed
    show ?thesis by (rule daemon_locked_inv [OF inv failed])
  next
    case found
    have inv1: "reaper_inv rio ds1" by (rule daemon_locked_inv [OF inv found(1)])
    show ?thesis
    proof (cases impl)
      case None
      with found(2) inv1 show ?thesis by (simp add: register_at_def)
    next
      case (Some d)
      have "ds1 (dh_url (cl_host c)) = Some (Some d)" using daemon_locked_entry [OF found(1)] Some by simp
      moreover have "announce rio key val (dh_url (cl_host c)) d (c1, ds1) = (r, (c', ds'))"
        using found(2) Some by (simp add: register_at_def)
      ultimately show ?thesis by (rule announce_inv [OF inv1])
    qed
  qed
qed

lemma reaper_step_inv: "reaper_step rio ds ds' \<Longrightarrow> reaper_inv rio ds \<Longrightarrow> reaper_inv rio ds'"
proof (induction rule: reaper_step.induct)
  case (Ensure fuel c ds r c' ds')
  then show ?case
    by (auto simp: ensure_started_def runThen_Some split: if_splits dest: daemon_locked_inv)
next
  case (Register fuel key val c ds r c' ds')
  then show ?case by (blast intro: register_filter_inv)
qed

lemma reaper_inv_start: "reaper_inv rio Map.empty"
  by (simp add: reaper_inv_def)

lemma reaper_reachable: "(reaper_step rio)\<^sup>*\<^sup>* Map.empty ds \<Longrightarrow> reaper_inv rio ds"
  by (induction rule: rtranclp_induct) (auto intro: reaper_inv_start reaper_step_inv)

text \<open>
  The daemon's reaper removes what carries a label of its filters; of labels of the same key the last
  one counts.
\<close>

definition watches :: "daemon \<Rightarrow> CreateContainerSpec \<Rightarrow> bool" where
  "watches d s \<longleftrightarrow>
     (\<exists>(key, val) \<in> set (cs_labels s).
        map_of (rev (cs_labels s)) key = Some val \<and> ryuk_filter_line key val \<in> set (dm_filters d))"

lemma session_watched:
  assumes "\<not> ryuk_disabled (rp_run rio)" "session_line rio \<in> set (dm_filters d)"
  shows "watches d (add_labels (testcontainers_labels (rp_run rio)) spec)"
  using assms by (auto simp: watches_def add_labels_def testcontainers_labels_def session_line_def)

lemma ensured_entry:
  assumes "ensure_started fuel rio (c, ds) = Some (Inr (), (c1, ds1))" "\<not> ryuk_disabled (rp_run rio)"
  shows "\<exists>impl. ds1 (dh_url (cl_host c)) = Some impl"
proof -
  from assms obtain impl where "daemon_locked fuel rio (c, ds) = Some (Inr impl, (c1, ds1))"
    by (auto simp: ensure_started_def runThen_Some)
  from daemon_locked_entry [OF this] show ?thesis by blast
qed

lemma ensure_failed:
  assumes "ensure_started fuel rio (c, ds) = Some (Inl e, (c1, ds1))"
  shows "ds1 = ds"
  using assms by (auto simp: ensure_started_def runThen_Some split: if_splits dest: daemon_locked_failed)

text \<open>Only a daemon of the Windows engine goes without one.\<close>

lemma ensured_none:
  assumes "ensure_started fuel rio (c, ds) = Some (Inr (), (c1, ds1))" "\<not> ryuk_disabled (rp_run rio)"
    and "ds1 (dh_url (cl_host c)) = Some None"
  shows "ds (dh_url (cl_host c)) = Some None \<or> fst (is_windows_engine (rp_net rio) c) = Inr True"
proof (cases "ds (dh_url (cl_host c))")
  case (Some impl)
  with assms show ?thesis by (auto simp: ensure_started_def runThen_Some daemon_locked_def)
next
  case None
  with assms obtain c2 where "boot_daemon fuel rio c = Some (Inr None, c2)"
    by (auto simp: ensure_started_def runThen_Some daemon_locked_def Let_def
        split: option.splits prod.splits sum.splits)
  then have "fst (is_windows_engine (rp_net rio) c) = Inr True"
    by (auto simp: boot_daemon_def runThen_Some greet_def kill_ryuk_def Let_def split: if_splits option.splits)
  then show ?thesis ..
qed

lemma ensure_reached:
  assumes "(reaper_step rio)\<^sup>*\<^sup>* Map.empty ds" "ensure_started fuel rio (c, ds) = Some (r, (c1, ds1))"
  shows "reaper_inv rio ds1"
  using reaper_step_inv [OF reaper_step.Ensure [OF assms(2)] reaper_reachable [OF assms(1)]] .

text \<open>What a reaper has acknowledged stays in its list: the list only grows at its end.\<close>

definition grown_filters :: "daemons \<Rightarrow> daemons \<Rightarrow> bool" where
  "grown_filters ds ds' \<longleftrightarrow>
     (\<forall>endpoint. \<exists>rest. registered_filters endpoint ds' = registered_filters endpoint ds @ rest)"

lemma grown_filters_refl [simp]: "grown_filters ds ds"
  by (simp add: grown_filters_def)

lemma grown_filters_trans: "grown_filters ds ds1 \<Longrightarrow> grown_filters ds1 ds2 \<Longrightarrow> grown_filters ds ds2"
  unfolding grown_filters_def by (metis append.assoc)

lemma daemon_locked_grows:
  assumes "daemon_locked fuel rio (c, ds) = Some (r, (c', ds'))"
  shows "grown_filters ds ds'"
proof -
  from assms have "ds' = ds \<or> (\<exists>d. ds (dh_url (cl_host c)) = None \<and> ds' = ds(dh_url (cl_host c) \<mapsto> d))"
    by (auto simp: daemon_locked_def Let_def split: option.splits prod.splits sum.splits)
  then show ?thesis by (auto simp: grown_filters_def registered_filters_def)
qed

lemma register_at_grows:
  assumes "\<And>d. impl = Some d \<Longrightarrow> ds endpoint = Some (Some d)"
    and "register_at rio key val endpoint impl (c, ds) = (r, (c', ds'))"
  shows "grown_filters ds ds'"
proof (cases impl)
  case None
  with assms(2) show ?thesis by (simp add: register_at_def)
next
  case (Some d)
  with assms(2) have "ds' = ds \<or> ds' = add_filter ds endpoint d (ryuk_filter_line key val)"
    by (auto simp: register_at_def announce_def Let_def split: if_splits prod.splits sum.splits option.splits)
  with assms(1) [OF Some] show ?thesis
    by (auto simp: grown_filters_def registered_filters_def add_filter_def)
qed

lemma reaper_step_grows:
  assumes "reaper_step rio ds ds'"
  shows "grown_filters ds ds'"
  using assms
proof (cases rule: reaper_stepE)
  case (ensured fuel c r c')
  then show ?thesis
    by (auto simp: ensure_started_def runThen_Some split: if_splits dest: daemon_locked_grows)
next
  case (registered fuel key val c r c')
  then consider "ds' = ds" | e where "daemon_locked fuel rio (c, ds) = Some (Inl e, (c', ds'))"
    | impl c1 ds1 where "daemon_locked fuel rio (c, ds) = Some (Inr impl, (c1, ds1))"
      "register_at rio key val (dh_url (cl_host c)) impl (c1, ds1) = (r, (c', ds'))"
    by (auto simp: register_filter_def runThen_Some split: if_splits)
  then show ?thesis
  proof cases
    case (3 impl c1 ds1)
    from daemon_locked_entry [OF 3(1)] register_at_grows [OF _ 3(2)] have "grown_filters ds1 ds'" by simp
    with daemon_locked_grows [OF 3(1)] show ?thesis by (rule grown_filters_trans)
  qed (auto dest: daemon_locked_grows)
qed

lemma reaper_steps_grow: "(reaper_step rio)\<^sup>*\<^sup>* ds ds' \<Longrightarrow> grown_filters ds ds'"
  by (induction rule: rtranclp_induct) (auto intro: grown_filters_trans reaper_step_grows)

lemma reaper_inv_session:
  assumes "reaper_inv rio ds" "ds endpoint = Some (Some d)"
  shows "session_line rio \<in> set (dm_filters d)"
proof -
  from assms obtain rest where "dm_filters d = session_line rio # rest" unfolding reaper_inv_def by blast
  then show ?thesis by simp
qed

text \<open>A public run: the reaper first, then the runner with the table as it is.\<close>

lemma run_container_cases:
  assumes "run_container fuel rio req (c, ds) = Some (r, (c', ds'))"
  obtains e where "r = Inl e" "ensure_started fuel rio (c, ds) = Some (Inl e, (c', ds'))"
  | c1 q where "ensure_started fuel rio (c, ds) = Some (Inr (), (c1, ds'))"
      "runner_run (rp_run rio) req c1 = Some (q, c')" "r = map_sum id (handed_over c') q"
proof -
  from assms consider (failed) e where "r = Inl e" "ensure_started fuel rio (c, ds) = Some (Inl e, (c', ds'))"
    | (up) c1 ds1 where "ensure_started fuel rio (c, ds) = Some (Inr (), (c1, ds1))"
      "(case runner_run (rp_run rio) req c1 of
          None \<Rightarrow> None
        | Some (Inl e, c2) \<Rightarrow> Some (Inl e, (c2, ds1))
        | Some (Inr h, c2) \<Rightarrow> Some (Inr (handed_over c2 h), (c2, ds1))) = Some (r, (c', ds'))"
    by (auto simp: run_container_def runThen_Some)
  then show ?thesis
  proof cases
    case failed
    with that(1) show ?thesis by blast
  next
    case up
    obtain q c2 where q: "runner_run (rp_run rio) req c1 = Some (q, c2)"
      using up(2) by (cases "runner_run (rp_run rio) req c1") auto
    with up that(2) [of c1 q] show ?thesis by (cases q) auto
  qed
qed

text \<open>A line that was acknowledged once is not sent again.\<close>

lemma register_known:
  assumes "ds (dh_url (cl_host c)) = Some (Some d)" "ryuk_filter_line key val \<in> set (dm_filters d)"
  shows "register_filter fuel rio key val (c, ds) = Some (Inr (), (c, ds))"
  using assms by (simp add: register_filter_def runThen_def daemon_locked_known announce_def register_at_def)

subsection \<open>The handshake returns\<close>

definition reaper_time_runs :: "'w reap_io \<Rightarrow> bool" where
  "reaper_time_runs rio \<longleftrightarrow>
     (let now = si_now (wi_stream (rp_wait rio)) in
      time_runs (rp_wait rio) \<and>
      (\<forall>h p w. now w \<le> now (snd (rp_resolve rio h p w))) \<and>
      (\<forall>h p b w. now w \<le> now (snd (rp_connect rio h p b w))) \<and>
      (\<forall>n l b w. now w \<le> now (snd (rp_write rio n l b w))) \<and>
      (\<forall>n b w. now w \<le> now (snd (rp_read_line rio n b w))) \<and>
      (\<forall>n w. now w \<le> now (rp_close rio n w)))"

lemma world_op_moves:
  assumes "\<And>w. si_now (wi_stream wio) w \<le> si_now (wi_stream wio) (snd (f w))"
    and "world_op f c = (x, t)"
  shows "now_of wio c \<le> now_of wio t"
  using moves_world_op [of wio f, OF assms(1)] assms(2) by (metis moves_def snd_conv)

lemma send_filter_line_moves:
  assumes "reaper_time_runs rio" "send_filter_line rio sock line budget c = (x, t)"
  shows "now_of (rp_wait rio) c \<le> now_of (rp_wait rio) t"
proof -
  obtain ec c1 where w: "world_op (rp_write rio sock line (budget c)) c = (Inr ec, c1)"
    using world_op_Inr [of "rp_write rio sock line (budget c)" c] by auto
  obtain ec' reply c2 where r: "world_op (rp_read_line rio sock (budget c1)) c1 = (Inr (ec', reply), c2)"
    using world_op_Inr [of "rp_read_line rio sock (budget c1)" c1] by auto
  have "now_of (rp_wait rio) c \<le> now_of (rp_wait rio) c1"
    by (rule world_op_moves [OF _ w]) (use assms(1) in \<open>simp add: reaper_time_runs_def Let_def\<close>)
  moreover have "now_of (rp_wait rio) c1 \<le> now_of (rp_wait rio) c2"
    by (rule world_op_moves [OF _ r]) (use assms(1) in \<open>simp add: reaper_time_runs_def Let_def\<close>)
  ultimately show ?thesis using assms(2) w r
    by (cases ec) (auto simp: send_filter_line_def andThen_apply)
qed

lemma close_moves:
  assumes "reaper_time_runs rio"
  shows "now_of (rp_wait rio) c \<le> now_of (rp_wait rio) (c\<lparr>cl_world := rp_close rio sock (cl_world c)\<rparr>)"
  using assms by (simp add: reaper_time_runs_def now_of_def Let_def)

lemma handshake_turn_moves:
  assumes rt: "reaper_time_runs rio" and h: "handshake_turn rio ep line deadline c = (x, t)"
  shows "now_of (rp_wait rio) c \<le> now_of (rp_wait rio) t"
proof -
  let ?now = "now_of (rp_wait rio)"
  obtain ec sock c1 where k:
    "world_op (rp_connect rio (ry_host ep) (ry_port ep) (budget_left rio deadline c)) c = (Inr (ec, sock), c1)"
    using world_op_Inr [of "rp_connect rio (ry_host ep) (ry_port ep) (budget_left rio deadline c)" c] by auto
  have k1: "?now c \<le> ?now c1"
    by (rule world_op_moves [OF _ k]) (use rt in \<open>simp add: reaper_time_runs_def Let_def\<close>)
  obtain ec' ack c2 where f:
    "send_filter_line rio sock line (budget_left rio deadline) c1 = (Inr (ec', ack), c2)"
    using send_filter_line_Inr [of rio sock line "budget_left rio deadline" c1] by auto
  have f1: "?now c1 \<le> ?now c2" by (rule send_filter_line_moves [OF rt f])
  show ?thesis
    using h k f k1 f1 close_moves [OF rt, of c1 sock] close_moves [OF rt, of c2 sock]
    by (cases ec; cases ec') (auto simp: handshake_turn_def andThen_apply world_do_def)
qed

lemma handshake_returns:
  assumes rt: "reaper_time_runs rio"
  shows "deadline - now_of (rp_wait rio) c \<le> int n * (200 * ticks_per_ms (wi_clock (rp_wait rio))) \<Longrightarrow>
    handshake (Suc n) rio ep line deadline last_error c \<noteq> None"
proof (induction n arbitrary: last_error c)
  case 0
  then show ?case by (simp add: handshake.simps(2) past_def)
next
  case (Suc n)
  let ?now = "now_of (rp_wait rio)" and ?step = "200 * ticks_per_ms (wi_clock (rp_wait rio))"
  have sl: "?now u + ?step \<le> ?now (sleep_for (rp_wait rio) 200 u)" for u
    using rt by (simp add: reaper_time_runs_def time_runs_def now_of_def sleep_for_def Let_def)
  have again: "handshake (Suc n) rio ep line deadline le (sleep_for (rp_wait rio) 200 u) \<noteq> None"
    if "?now c \<le> ?now u" for le u
  proof (rule Suc.IH)
    show "deadline - ?now (sleep_for (rp_wait rio) 200 u) \<le> int n * ?step"
      using Suc.prems sl [of u] that by (simp add: algebra_simps)
  qed
  obtain rec c1 where w: "world_op (rp_resolve rio (ry_host ep) (ry_port ep)) c = (Inr rec, c1)"
    using world_op_Inr [of "rp_resolve rio (ry_host ep) (ry_port ep)" c] by auto
  have c1: "?now c \<le> ?now c1"
    by (rule world_op_moves [OF _ w]) (use rt in \<open>simp add: reaper_time_runs_def Let_def\<close>)
  obtain x c2 where h: "handshake_turn rio ep line deadline c1 = (Inr x, c2)"
    using handshake_turn_Inr by blast
  have c2: "?now c \<le> ?now c2" using c1 handshake_turn_moves [OF rt h] by simp
  show ?case
    using w h again [OF c1] again [OF c2]
    by (cases rec; cases x)
      (auto simp: handshake.simps(2) [of "Suc n"] split: prod.splits)
qed

lemma greet_returns:
  assumes "reaper_time_runs rio"
  shows "greet (Suc 100) rio ep c \<noteq> None"
proof -
  let ?dl = "now_of (rp_wait rio) c + 20000 * ticks_per_ms (wi_clock (rp_wait rio))"
  have "handshake (Suc 100) rio ep (session_line rio) ?dl (rp_no_error rio) c \<noteq> None"
    by (rule handshake_returns [OF assms]) simp
  then show ?thesis by (auto simp: greet_def Let_def runThen_def split: option.splits prod.splits sum.splits)
qed

end
