(* ===== verification/Images.thy ===== *)
theory Images
  imports Reaper
begin

section \<open>The image builder\<close>

text \<open>
  \<open>include/testcontainers/GenericImage.hpp\<close> and \<open>src/GenericImage.cpp\<close>: the fluent builder, one
  function per method, and its translation into a request.  The floating point product of
  \<open>with_cpu_limit\<close>, rounded, is the argument \<open>to_nanos\<close> applied to the number of CPUs.
\<close>

record 'w GenericImage =
  gi_image :: string
  gi_tag :: string
  gi_env :: "(string \<times> string) list"
  gi_substitutor :: "(string \<Rightarrow> string) option"
  gi_request :: "'w ContainerRequest"

definition empty_request :: "'w ContainerRequest" where
  "empty_request =
     \<lparr>cr_spec = empty_create_spec, cr_exposed_ports = [], cr_copy_to_sources = [],
      cr_host_access_ports = [], cr_waits = [], cr_startup_timeout = 60000, cr_registry_auth = None,
      cr_pull_policy = DefaultPull, cr_pull_max_age = None, cr_reuse = False, cr_created_hooks = [],
      cr_starting_hooks = [], cr_started_hooks = [], cr_stopping_hooks = [], cr_startup_attempts = 1\<rparr>"

definition generic_image :: "string \<Rightarrow> string \<Rightarrow> 'w GenericImage" where
  "generic_image img tag =
     \<lparr>gi_image = img, gi_tag = tag, gi_env = [], gi_substitutor = None, gi_request = empty_request\<rparr>"

definition from_reference :: "string \<Rightarrow> 'w GenericImage" where
  "from_reference reference = (let (img, tag) = split_image reference in generic_image img tag)"

definition with_image :: "string \<Rightarrow> 'w GenericImage \<Rightarrow> 'w GenericImage" where
  "with_image reference g =
     (let (img, tag) = split_image reference in g\<lparr>gi_image := img, gi_tag := tag\<rparr>)"

subsection \<open>The methods of the builder\<close>

definition on_request :: "('w ContainerRequest \<Rightarrow> 'w ContainerRequest) \<Rightarrow> 'w GenericImage \<Rightarrow> 'w GenericImage" where
  "on_request f g = g\<lparr>gi_request := f (gi_request g)\<rparr>"

definition on_spec :: "(CreateContainerSpec \<Rightarrow> CreateContainerSpec) \<Rightarrow> 'w GenericImage \<Rightarrow> 'w GenericImage" where
  "on_spec f = on_request (\<lambda>req. req\<lparr>cr_spec := f (cr_spec req)\<rparr>)"

named_theorems builder_defs

lemmas [builder_defs] = on_request_def on_spec_def with_image_def

definition with_exposed_port :: "ContainerPort \<Rightarrow> 'w GenericImage \<Rightarrow> 'w GenericImage" where
  [builder_defs]: "with_exposed_port p =
     on_request (\<lambda>req. req\<lparr>cr_exposed_ports := cr_exposed_ports req @ [p],
       cr_spec := (cr_spec req)
         \<lparr>cs_exposed_ports := cs_exposed_ports (cr_spec req) @ [port_to_string p],
          cs_published_ports := cs_published_ports (cr_spec req) @ [port_to_string p]\<rparr>\<rparr>)"

definition with_env :: "string \<Rightarrow> string \<Rightarrow> 'w GenericImage \<Rightarrow> 'w GenericImage" where
  [builder_defs]: "with_env key val g = g\<lparr>gi_env := gi_env g @ [(key, val)]\<rparr>"

definition with_image_name_substitutor :: "(string \<Rightarrow> string) option \<Rightarrow> 'w GenericImage \<Rightarrow> 'w GenericImage" where
  [builder_defs]: "with_image_name_substitutor fn g = g\<lparr>gi_substitutor := fn\<rparr>"

definition with_image_pull_policy :: "ImagePullPolicy \<Rightarrow> 'w GenericImage \<Rightarrow> 'w GenericImage" where
  [builder_defs]: "with_image_pull_policy policy =
     on_request (\<lambda>req. req\<lparr>cr_pull_policy := policy, cr_pull_max_age := None\<rparr>)"

definition with_image_pull_max_age :: "int \<Rightarrow> 'w GenericImage \<Rightarrow> 'w GenericImage" where
  [builder_defs]: "with_image_pull_max_age max_age =
     on_request (\<lambda>req. req\<lparr>cr_pull_policy := DefaultPull, cr_pull_max_age := Some max_age\<rparr>)"

definition with_startup_attempts :: "int \<Rightarrow> 'w GenericImage \<Rightarrow> 'w GenericImage" where
  [builder_defs]: "with_startup_attempts n =
     on_request (\<lambda>req. req\<lparr>cr_startup_attempts := (if n < 1 then 1 else n)\<rparr>)"

definition with_cmd :: "string list \<Rightarrow> 'w GenericImage \<Rightarrow> 'w GenericImage" where
  [builder_defs]: "with_cmd cmd =
     on_spec (\<lambda>spec. spec\<lparr>cs_cmd := cmd\<rparr>)"

definition with_entrypoint :: "string list \<Rightarrow> 'w GenericImage \<Rightarrow> 'w GenericImage" where
  [builder_defs]: "with_entrypoint entrypoint =
     on_spec (\<lambda>spec. spec\<lparr>cs_entrypoint := entrypoint\<rparr>)"

definition with_working_dir :: "string \<Rightarrow> 'w GenericImage \<Rightarrow> 'w GenericImage" where
  [builder_defs]: "with_working_dir dir =
     on_spec (\<lambda>spec. spec\<lparr>cs_working_dir := Some dir\<rparr>)"

definition with_user :: "string \<Rightarrow> 'w GenericImage \<Rightarrow> 'w GenericImage" where
  [builder_defs]: "with_user user =
     on_spec (\<lambda>spec. spec\<lparr>cs_user := Some user\<rparr>)"

definition with_privileged :: "bool \<Rightarrow> 'w GenericImage \<Rightarrow> 'w GenericImage" where
  [builder_defs]: "with_privileged b =
     on_spec (\<lambda>spec. spec\<lparr>cs_privileged := b\<rparr>)"

definition with_isolation :: "string \<Rightarrow> 'w GenericImage \<Rightarrow> 'w GenericImage" where
  [builder_defs]: "with_isolation isolation =
     on_spec (\<lambda>spec. spec\<lparr>cs_isolation := Some isolation\<rparr>)"

definition with_tty :: "bool \<Rightarrow> 'w GenericImage \<Rightarrow> 'w GenericImage" where
  [builder_defs]: "with_tty b =
     on_spec (\<lambda>spec. spec\<lparr>cs_tty := b\<rparr>)"

definition with_mount :: "Mount \<Rightarrow> 'w GenericImage \<Rightarrow> 'w GenericImage" where
  [builder_defs]: "with_mount mount =
     on_spec (\<lambda>spec. spec\<lparr>cs_mounts := cs_mounts spec @ [mount]\<rparr>)"

definition with_copy_to :: "CopyToContainer \<Rightarrow> 'w GenericImage \<Rightarrow> 'w GenericImage" where
  [builder_defs]: "with_copy_to source =
     on_request (\<lambda>req. req\<lparr>cr_copy_to_sources := cr_copy_to_sources req @ [source]\<rparr>)"

definition with_label :: "string \<Rightarrow> string \<Rightarrow> 'w GenericImage \<Rightarrow> 'w GenericImage" where
  [builder_defs]: "with_label key val =
     on_spec (\<lambda>spec. spec\<lparr>cs_labels := cs_labels spec @ [(key, val)]\<rparr>)"

definition with_wait :: "WaitFor \<Rightarrow> 'w GenericImage \<Rightarrow> 'w GenericImage" where
  [builder_defs]: "with_wait w =
     on_request (\<lambda>req. req\<lparr>cr_waits := cr_waits req @ [w]\<rparr>)"

definition with_startup_timeout :: "int \<Rightarrow> 'w GenericImage \<Rightarrow> 'w GenericImage" where
  [builder_defs]: "with_startup_timeout timeout =
     on_request (\<lambda>req. req\<lparr>cr_startup_timeout := timeout\<rparr>)"

definition with_healthcheck :: "Healthcheck \<Rightarrow> 'w GenericImage \<Rightarrow> 'w GenericImage" where
  [builder_defs]: "with_healthcheck hc =
     on_spec (\<lambda>spec. spec\<lparr>cs_healthcheck := Some hc\<rparr>)"

definition with_network :: "string \<Rightarrow> 'w GenericImage \<Rightarrow> 'w GenericImage" where
  [builder_defs]: "with_network network =
     on_spec (\<lambda>spec. spec\<lparr>cs_network := Some network\<rparr>)"

definition with_network_alias :: "string \<Rightarrow> 'w GenericImage \<Rightarrow> 'w GenericImage" where
  [builder_defs]: "with_network_alias alias =
     on_spec (\<lambda>spec. spec\<lparr>cs_network_aliases := cs_network_aliases spec @ [alias]\<rparr>)"

definition with_network_of :: "network_handle \<Rightarrow> 'w GenericImage \<Rightarrow> 'w GenericImage" where
  "with_network_of network = with_network (nh_name network)"

definition with_static_ipv4 :: "string \<Rightarrow> 'w GenericImage \<Rightarrow> 'w GenericImage" where
  [builder_defs]: "with_static_ipv4 ip =
     on_spec (\<lambda>spec. spec\<lparr>cs_static_ipv4 := Some ip\<rparr>)"

definition with_container_name :: "string \<Rightarrow> 'w GenericImage \<Rightarrow> 'w GenericImage" where
  [builder_defs]: "with_container_name name =
     on_spec (\<lambda>spec. spec\<lparr>cs_name := Some name\<rparr>)"

definition with_platform :: "string \<Rightarrow> 'w GenericImage \<Rightarrow> 'w GenericImage" where
  [builder_defs]: "with_platform platform =
     on_spec (\<lambda>spec. spec\<lparr>cs_platform := Some platform\<rparr>)"

definition with_registry_auth :: "RegistryAuth \<Rightarrow> 'w GenericImage \<Rightarrow> 'w GenericImage" where
  [builder_defs]: "with_registry_auth auth =
     on_request (\<lambda>req. req\<lparr>cr_registry_auth := Some auth\<rparr>)"

definition with_memory_limit :: "int \<Rightarrow> 'w GenericImage \<Rightarrow> 'w GenericImage" where
  [builder_defs]: "with_memory_limit bytes =
     on_spec (\<lambda>spec. spec\<lparr>cs_memory_bytes := Some bytes\<rparr>)"

definition with_shm_size :: "int \<Rightarrow> 'w GenericImage \<Rightarrow> 'w GenericImage" where
  [builder_defs]: "with_shm_size bytes =
     on_spec (\<lambda>spec. spec\<lparr>cs_shm_size_bytes := Some bytes\<rparr>)"

definition with_ulimit :: "string \<Rightarrow> int \<Rightarrow> int \<Rightarrow> 'w GenericImage \<Rightarrow> 'w GenericImage" where
  [builder_defs]: "with_ulimit name soft hard =
     on_spec (\<lambda>spec. spec\<lparr>cs_ulimits := cs_ulimits spec @ [\<lparr>ul_name = name, ul_soft = soft, ul_hard = hard\<rparr>]\<rparr>)"

definition with_cap_add :: "string \<Rightarrow> 'w GenericImage \<Rightarrow> 'w GenericImage" where
  [builder_defs]: "with_cap_add cap =
     on_spec (\<lambda>spec. spec\<lparr>cs_cap_add := cs_cap_add spec @ [cap]\<rparr>)"

definition with_cap_drop :: "string \<Rightarrow> 'w GenericImage \<Rightarrow> 'w GenericImage" where
  [builder_defs]: "with_cap_drop cap =
     on_spec (\<lambda>spec. spec\<lparr>cs_cap_drop := cs_cap_drop spec @ [cap]\<rparr>)"

definition with_extra_host :: "string \<Rightarrow> string \<Rightarrow> 'w GenericImage \<Rightarrow> 'w GenericImage" where
  [builder_defs]: "with_extra_host host ip =
     on_spec (\<lambda>spec. spec\<lparr>cs_extra_hosts := cs_extra_hosts spec @ [host @ '':'' @ ip]\<rparr>)"

definition with_cpu_limit :: "('d \<Rightarrow> int) \<Rightarrow> 'd \<Rightarrow> 'w GenericImage \<Rightarrow> 'w GenericImage" where
  [builder_defs]: "with_cpu_limit to_nanos cpus =
     on_spec (\<lambda>spec. spec\<lparr>cs_nano_cpus := Some (to_nanos cpus)\<rparr>)"

definition with_cpuset_cpus :: "string \<Rightarrow> 'w GenericImage \<Rightarrow> 'w GenericImage" where
  [builder_defs]: "with_cpuset_cpus cpus =
     on_spec (\<lambda>spec. spec\<lparr>cs_cpuset_cpus := Some cpus\<rparr>)"

definition with_pids_limit :: "int \<Rightarrow> 'w GenericImage \<Rightarrow> 'w GenericImage" where
  [builder_defs]: "with_pids_limit limit =
     on_spec (\<lambda>spec. spec\<lparr>cs_pids_limit := Some limit\<rparr>)"

definition with_restart_policy :: "RestartPolicy \<Rightarrow> 'w GenericImage \<Rightarrow> 'w GenericImage" where
  [builder_defs]: "with_restart_policy policy =
     on_spec (\<lambda>spec. spec\<lparr>cs_restart_policy := Some policy\<rparr>)"

definition with_dns_server :: "string \<Rightarrow> 'w GenericImage \<Rightarrow> 'w GenericImage" where
  [builder_defs]: "with_dns_server server =
     on_spec (\<lambda>spec. spec\<lparr>cs_dns_servers := cs_dns_servers spec @ [server]\<rparr>)"

definition with_dns_search :: "string \<Rightarrow> 'w GenericImage \<Rightarrow> 'w GenericImage" where
  [builder_defs]: "with_dns_search domain =
     on_spec (\<lambda>spec. spec\<lparr>cs_dns_search := cs_dns_search spec @ [domain]\<rparr>)"

definition with_dns_option :: "string \<Rightarrow> 'w GenericImage \<Rightarrow> 'w GenericImage" where
  [builder_defs]: "with_dns_option option =
     on_spec (\<lambda>spec. spec\<lparr>cs_dns_options := cs_dns_options spec @ [option]\<rparr>)"

definition with_sysctl :: "string \<Rightarrow> string \<Rightarrow> 'w GenericImage \<Rightarrow> 'w GenericImage" where
  [builder_defs]: "with_sysctl key val =
     on_spec (\<lambda>spec. spec\<lparr>cs_sysctls := cs_sysctls spec @ [(key, val)]\<rparr>)"

definition with_device :: "string \<Rightarrow> string \<Rightarrow> string \<Rightarrow> 'w GenericImage \<Rightarrow> 'w GenericImage" where
  [builder_defs]: "with_device on_host in_container perms =
     on_spec (\<lambda>spec. spec\<lparr>cs_devices := cs_devices spec @ [\<lparr>dv_path_on_host = on_host, dv_path_in_container = in_container, dv_cgroup_permissions = perms\<rparr>]\<rparr>)"

definition with_exposed_host_port :: "nat \<Rightarrow> 'w GenericImage \<Rightarrow> 'w GenericImage" where
  [builder_defs]: "with_exposed_host_port port =
     on_request (\<lambda>req. req\<lparr>cr_host_access_ports := cr_host_access_ports req @ [port]\<rparr>)"

definition with_create_body_patch :: "string \<Rightarrow> 'w GenericImage \<Rightarrow> 'w GenericImage" where
  [builder_defs]: "with_create_body_patch json_object =
     on_spec (\<lambda>spec. spec\<lparr>cs_create_body_patch := json_object\<rparr>)"

definition with_reuse :: "bool \<Rightarrow> 'w GenericImage \<Rightarrow> 'w GenericImage" where
  [builder_defs]: "with_reuse b =
     on_request (\<lambda>req. req\<lparr>cr_reuse := b\<rparr>)"

definition with_created_hook :: "'w hook \<Rightarrow> 'w GenericImage \<Rightarrow> 'w GenericImage" where
  [builder_defs]: "with_created_hook hook =
     on_request (\<lambda>req. req\<lparr>cr_created_hooks := cr_created_hooks req @ [hook]\<rparr>)"

definition with_starting_hook :: "'w hook \<Rightarrow> 'w GenericImage \<Rightarrow> 'w GenericImage" where
  [builder_defs]: "with_starting_hook hook =
     on_request (\<lambda>req. req\<lparr>cr_starting_hooks := cr_starting_hooks req @ [hook]\<rparr>)"

definition with_started_hook :: "'w hook \<Rightarrow> 'w GenericImage \<Rightarrow> 'w GenericImage" where
  [builder_defs]: "with_started_hook hook =
     on_request (\<lambda>req. req\<lparr>cr_started_hooks := cr_started_hooks req @ [hook]\<rparr>)"

definition with_stopping_hook :: "'w hook \<Rightarrow> 'w GenericImage \<Rightarrow> 'w GenericImage" where
  [builder_defs]: "with_stopping_hook hook =
     on_request (\<lambda>req. req\<lparr>cr_stopping_hooks := cr_stopping_hooks req @ [hook]\<rparr>)"

subsection \<open>The request\<close>

definition env_entry :: "string \<times> string \<Rightarrow> string" where
  "env_entry kv = fst kv @ ''='' @ snd kv"

definition effective_image :: "'w wait_io \<Rightarrow> 'w GenericImage \<Rightarrow> string" where
  "effective_image wio g =
     (let raw_ref = join_image (gi_image g) (gi_tag g) in
      case gi_substitutor g of
        Some f \<Rightarrow> f raw_ref
      | None \<Rightarrow> fst (substitute_image_name (wi_env wio) (wi_files wio) raw_ref (wi_cache wio)))"

definition to_request :: "'w wait_io \<Rightarrow> 'w GenericImage \<Rightarrow> 'w ContainerRequest" where
  "to_request wio g =
     (let req = gi_request g in
      req\<lparr>cr_spec := (cr_spec req)\<lparr>cs_image := effective_image wio g,
                                   cs_env := cs_env (cr_spec req) @ map env_entry (gi_env g)\<rparr>\<rparr>)"

definition start_image ::
  "nat \<Rightarrow> 'w reap_io \<Rightarrow> 'w GenericImage \<Rightarrow> ('w client \<times> daemons, ('w, 'w handle) owned) run" where
  "start_image fuel rio g = run_container fuel rio (to_request (rp_wait rio) g)"

text \<open>The static functions, each on a client of its own.\<close>

definition image_is_present ::
  "('w \<Rightarrow> 'w client res \<times> 'w) \<Rightarrow> 'w net \<Rightarrow> string \<Rightarrow> string \<Rightarrow> ('w, bool) act" where
  "image_is_present fresh net name tag = with_fresh fresh (image_exists net (join_image name tag))"

definition inspect_reference ::
  "('w \<Rightarrow> 'w client res \<times> 'w) \<Rightarrow> 'w net \<Rightarrow> string \<Rightarrow> string \<Rightarrow> ('w, ImageInspect) act" where
  "inspect_reference fresh net name tag = with_fresh fresh (inspect_image net (join_image name tag))"

definition inspect_generic_image ::
  "('w \<Rightarrow> 'w client res \<times> 'w) \<Rightarrow> 'w net \<Rightarrow> 'w GenericImage \<Rightarrow> ('w, ImageInspect) act" where
  "inspect_generic_image fresh net g = inspect_reference fresh net (gi_image g) (gi_tag g)"

subsection \<open>What the builder promises\<close>

text \<open>The images a program can build, starting from a constructor.\<close>

inductive built :: "'w GenericImage \<Rightarrow> bool" where
  Start: "built (generic_image img tag)"
| Image: "built g \<Longrightarrow> built (with_image x g)"
| ExposedPort: "built g \<Longrightarrow> built (with_exposed_port x g)"
| Env: "built g \<Longrightarrow> built (with_env x y g)"
| ImageNameSubstitutor: "built g \<Longrightarrow> built (with_image_name_substitutor x g)"
| ImagePullPolicy: "built g \<Longrightarrow> built (with_image_pull_policy x g)"
| ImagePullMaxAge: "built g \<Longrightarrow> built (with_image_pull_max_age x g)"
| StartupAttempts: "built g \<Longrightarrow> built (with_startup_attempts x g)"
| Cmd: "built g \<Longrightarrow> built (with_cmd x g)"
| Entrypoint: "built g \<Longrightarrow> built (with_entrypoint x g)"
| WorkingDir: "built g \<Longrightarrow> built (with_working_dir x g)"
| User: "built g \<Longrightarrow> built (with_user x g)"
| Privileged: "built g \<Longrightarrow> built (with_privileged x g)"
| Isolation: "built g \<Longrightarrow> built (with_isolation x g)"
| Tty: "built g \<Longrightarrow> built (with_tty x g)"
| Mount: "built g \<Longrightarrow> built (with_mount x g)"
| CopyTo: "built g \<Longrightarrow> built (with_copy_to x g)"
| Label: "built g \<Longrightarrow> built (with_label x y g)"
| Wait: "built g \<Longrightarrow> built (with_wait x g)"
| StartupTimeout: "built g \<Longrightarrow> built (with_startup_timeout x g)"
| Healthcheck: "built g \<Longrightarrow> built (with_healthcheck x g)"
| Network: "built g \<Longrightarrow> built (with_network x g)"
| NetworkAlias: "built g \<Longrightarrow> built (with_network_alias x g)"
| StaticIpv4: "built g \<Longrightarrow> built (with_static_ipv4 x g)"
| ContainerName: "built g \<Longrightarrow> built (with_container_name x g)"
| Platform: "built g \<Longrightarrow> built (with_platform x g)"
| RegistryAuth: "built g \<Longrightarrow> built (with_registry_auth x g)"
| MemoryLimit: "built g \<Longrightarrow> built (with_memory_limit x g)"
| ShmSize: "built g \<Longrightarrow> built (with_shm_size x g)"
| Ulimit: "built g \<Longrightarrow> built (with_ulimit x y z g)"
| CapAdd: "built g \<Longrightarrow> built (with_cap_add x g)"
| CapDrop: "built g \<Longrightarrow> built (with_cap_drop x g)"
| ExtraHost: "built g \<Longrightarrow> built (with_extra_host x y g)"
| CpuLimit: "built g \<Longrightarrow> built (with_cpu_limit f (x :: int) g)"
| CpusetCpus: "built g \<Longrightarrow> built (with_cpuset_cpus x g)"
| PidsLimit: "built g \<Longrightarrow> built (with_pids_limit x g)"
| RestartPolicy: "built g \<Longrightarrow> built (with_restart_policy x g)"
| DnsServer: "built g \<Longrightarrow> built (with_dns_server x g)"
| DnsSearch: "built g \<Longrightarrow> built (with_dns_search x g)"
| DnsOption: "built g \<Longrightarrow> built (with_dns_option x g)"
| Sysctl: "built g \<Longrightarrow> built (with_sysctl x y g)"
| Device: "built g \<Longrightarrow> built (with_device x y z g)"
| ExposedHostPort: "built g \<Longrightarrow> built (with_exposed_host_port x g)"
| CreateBodyPatch: "built g \<Longrightarrow> built (with_create_body_patch x g)"
| Reuse: "built g \<Longrightarrow> built (with_reuse x g)"
| CreatedHook: "built g \<Longrightarrow> built (with_created_hook x g)"
| StartingHook: "built g \<Longrightarrow> built (with_starting_hook x g)"
| StartedHook: "built g \<Longrightarrow> built (with_started_hook x g)"
| StoppingHook: "built g \<Longrightarrow> built (with_stopping_hook x g)"

text \<open>
  The three views of the exposed ports agree, the attempts are at least one, the spec carries
  neither an image nor environment entries, and an age budget is set only under the default
  pull policy.
\<close>

definition image_inv :: "'w GenericImage \<Rightarrow> bool" where
  "image_inv g \<longleftrightarrow>
     (let req = gi_request g; spec = cr_spec req; ps = map port_to_string (cr_exposed_ports req) in
      cs_exposed_ports spec = ps \<and> cs_published_ports spec = ps \<and> 1 \<le> cr_startup_attempts req \<and>
      cs_image spec = [] \<and> cs_env spec = [] \<and> \<not> cs_publish_all_ports spec \<and>
      (cr_pull_max_age req \<noteq> None \<longrightarrow> cr_pull_policy req = DefaultPull))"

lemma built_inv: "built g \<Longrightarrow> image_inv g"
proof (induction rule: built.induct)
  case (Start img tag)
  then show ?case
    by (simp add: image_inv_def generic_image_def empty_request_def empty_create_spec_def Let_def)
qed (simp_all add: image_inv_def builder_defs Let_def split: prod.splits)

text \<open>The translation of a built image; taking it twice does not accumulate.\<close>

lemma to_request_built:
  assumes "built g"
  shows "cs_env (cr_spec (to_request wio g)) = map env_entry (gi_env g)"
    "cs_exposed_ports (cr_spec (to_request wio g)) = map port_to_string (cr_exposed_ports (to_request wio g))"
    "cs_published_ports (cr_spec (to_request wio g)) = cs_exposed_ports (cr_spec (to_request wio g))"
    "attempts_left (to_request wio g) = nat (cr_startup_attempts (to_request wio g)) - 1"
  using built_inv [OF assms] by (simp_all add: to_request_def image_inv_def attempts_left_def Let_def nat_diff_distrib)

end
