(* ===== verification/Compose.thy ===== *)
theory Compose
  imports Reaper Quoting "HOL-Library.List_Lexorder" "HOL-Library.Char_ord"
begin

section \<open>Compose projects\<close>

text \<open>
  \<open>src/compose/ComposeCommand.cpp\<close>, \<open>src/compose/ComposeClients.cpp\<close> and
  \<open>src/DockerComposeContainer.cpp\<close>: the command lines of \<open>docker compose\<close>, its two clients (the
  host's command and a helper container), and the handle of a project with its start, discovery,
  ambassador, probes and teardown.  Everything lives in the world \<open>'w\<close>; what the code gets from
  outside (a fresh client, child processes, files, the reaper) is the record \<open>compose_io\<close>.
\<close>

subsection \<open>Commands\<close>

record ComposeUpCommand =
  uc_project_name :: string
  uc_files :: "string list"
  uc_profiles :: "string list"
  uc_scales :: "(string \<times> int) list"
  uc_env :: "(string \<times> string) list"
  uc_wait_timeout_secs :: int
  uc_build :: bool
  uc_pull :: bool
  uc_wait :: bool

record ComposeDownCommand =
  dc_project_name :: string
  dc_profiles :: "string list"
  dc_env :: "(string \<times> string) list"
  dc_volumes :: bool
  dc_remove_images :: bool

definition flagged :: "string \<Rightarrow> string list \<Rightarrow> string list" where
  "flagged name values = concat (map (\<lambda>v. [name, v]) values)"

definition build_compose_up_args :: "ComposeUpCommand \<Rightarrow> string list" where
  "build_compose_up_args command =
     [''--project-name'', uc_project_name command] @
     flagged ''-f'' (uc_files command) @ flagged ''--profile'' (uc_profiles command) @
     [''up'', ''-d''] @
     (if uc_build command then [''--build''] else []) @
     (if uc_pull command then [''--pull'', ''always''] else []) @
     flagged ''--scale'' (map (\<lambda>(service, instances). service @ ''='' @ int_dec instances) (uc_scales command)) @
     (if uc_wait command then [''--wait'', ''--wait-timeout'', int_dec (uc_wait_timeout_secs command)] else [])"

definition build_compose_down_args :: "ComposeDownCommand \<Rightarrow> string list" where
  "build_compose_down_args command =
     [''--project-name'', dc_project_name command] @ flagged ''--profile'' (dc_profiles command) @ [''down''] @
     (if dc_volumes command then [''--volumes''] else []) @
     (if dc_remove_images command then [''--rmi'', ''all''] else [])"

record AmbassadorTarget =
  at_service :: string
  at_service_port :: ContainerPort
  at_listen_port :: ContainerPort

definition socat_line :: "AmbassadorTarget \<Rightarrow> string" where
  "socat_line target =
     (let udp = (cp_proto (at_service_port target) = UdpProto) in
      ''socat '' @ (if udp then ''UDP-LISTEN'' else ''TCP-LISTEN'') @ '':'' @
      to_dec (cp_port (at_listen_port target)) @ '',fork,reuseaddr '' @ (if udp then ''UDP'' else ''TCP'') @ '':'' @
      at_service target @ '':'' @ to_dec (cp_port (at_service_port target)) @ '' & '')"

definition build_socat_script :: "AmbassadorTarget list \<Rightarrow> string" where
  "build_socat_script targets = concat (map socat_line targets) @ ''wait''"

subsection \<open>The world of a project\<close>

record 'w compose_io =
  co_run :: "'w run_io"
  co_docker :: "'w \<Rightarrow> 'w client res \<times> 'w"
  co_process :: "string list \<Rightarrow> (string \<times> string) list \<Rightarrow> 'w \<Rightarrow> (int \<times> string) res \<times> 'w"
  co_absolute :: "string \<Rightarrow> string option"
  co_register :: "string \<Rightarrow> string \<Rightarrow> ('w, unit) run"
  co_hex :: "nat \<Rightarrow> 'w \<Rightarrow> string \<times> 'w"
  co_temp_dir :: string
  co_write_file :: "string \<Rightarrow> string \<Rightarrow> 'w \<Rightarrow> bool \<times> 'w"
  co_remove_file :: "string \<Rightarrow> 'w \<Rightarrow> 'w"

abbreviation co_net :: "'w compose_io \<Rightarrow> 'w net" where
  "co_net io \<equiv> ro_net (co_run io)"

abbreviation co_wait :: "'w compose_io \<Rightarrow> 'w wait_io" where
  "co_wait io \<equiv> ro_wait (co_run io)"

text \<open>What a client of its own does: \<open>DockerClient::from_environment()\<close>, then the calls.\<close>

definition on_docker :: "'w compose_io \<Rightarrow> ('w client, 'a) run \<Rightarrow> ('w, 'a) run" where
  "on_docker io m w =
     (case co_docker io w of
        (Inl e, w1) \<Rightarrow> Some (Inl e, w1)
      | (Inr c, w1) \<Rightarrow>
          (case m (c\<lparr>cl_world := w1\<rparr>) of None \<Rightarrow> None | Some (r, c1) \<Rightarrow> Some (r, cl_world c1)))"

text \<open>The calls of a client that is kept, beside a world that goes on without it.\<close>

definition on_held :: "('w client, 'a) run \<Rightarrow> ('w client \<times> 'w, 'a) run" where
  "on_held m s =
     (let (c, w) = s in
      case m (c\<lparr>cl_world := w\<rparr>) of None \<Rightarrow> None | Some (r, c1) \<Rightarrow> Some (r, (c1, cl_world c1)))"

text \<open>A step whose failure is swallowed.\<close>

definition attempted :: "('s, 'a) run \<Rightarrow> 's \<Rightarrow> 's option" where
  "attempted m s = map_option snd (m s)"

subsection \<open>The compose clients\<close>

datatype 'w compose_client =
    LocalClient "string list" string
  | ContainerisedClient "'w client" string "string list"

datatype ClientKind = Local | Containerised | Auto

definition docker_compose_prefix :: "string list" where
  "docker_compose_prefix = [''docker'', ''compose'']"

text \<open>\<open>std::filesystem::path::parent_path()\<close> on a POSIX path.\<close>

definition parent_path :: "string \<Rightarrow> string" where
  "parent_path p =
     (case rfind_char (CHR ''/'') p of
        None \<Rightarrow> []
      | Some i \<Rightarrow>
          (let d = rev (dropWhile (\<lambda>c. c = CHR ''/'') (rev (take i p)))
           in if d = [] then ''/'' else d))"

definition extract_project_directory :: "string list \<Rightarrow> string" where
  "extract_project_directory files =
     (case files of
        [] \<Rightarrow> ''.''
      | f # _ \<Rightarrow> (let parent = parent_path f in if parent = [] then ''.'' else parent))"

definition local_client :: "string list \<Rightarrow> 'w compose_client" where
  "local_client compose_files = LocalClient compose_files (extract_project_directory compose_files)"

definition compose_failed :: "string \<Rightarrow> int \<Rightarrow> string \<Rightarrow> exn" where
  "compose_failed verb code output =
     DockerError (''docker compose '' @ verb @ '' exited with status '' @ int_dec code @ '':'' @ newline @ output)
       None []"

definition local_compose ::
  "'w compose_io \<Rightarrow> string \<Rightarrow> string list \<Rightarrow> (string \<times> string) list \<Rightarrow> ('w, unit) act" where
  "local_compose io verb argv env w =
     (case co_process io argv env w of
        (Inl e, w1) \<Rightarrow> (Inl e, w1)
      | (Inr (code, output), w1) \<Rightarrow>
          (if code \<noteq> 0 then (Inl (compose_failed verb code output), w1) else (Inr (), w1)))"

definition local_up :: "'w compose_io \<Rightarrow> string list \<Rightarrow> string \<Rightarrow> ComposeUpCommand \<Rightarrow> ('w, unit) act" where
  "local_up io compose_files dir command =
     local_compose io ''up''
       (docker_compose_prefix @ [''--project-directory'', dir] @
        build_compose_up_args (command\<lparr>uc_files := compose_files\<rparr>))
       (uc_env command)"

definition local_down :: "'w compose_io \<Rightarrow> string list \<Rightarrow> string \<Rightarrow> ComposeDownCommand \<Rightarrow> ('w, unit) act" where
  "local_down io compose_files dir command =
     local_compose io ''down''
       (docker_compose_prefix @ [''--project-directory'', dir] @ flagged ''-f'' compose_files @
        build_compose_down_args command)
       (dc_env command)"

definition files_in_container :: "string list \<Rightarrow> string list" where
  "files_in_container compose_files =
     map (\<lambda>i. ''/docker-compose-'' @ to_dec i @ ''.yml'') [0..<length compose_files]"

definition substituted :: "'w compose_io \<Rightarrow> string \<Rightarrow> string" where
  "substituted io img =
     fst (substitute_image_name (wi_env (co_wait io)) (wi_files (co_wait io)) img (wi_cache (co_wait io)))"

definition cli_spec :: "'w compose_io \<Rightarrow> string \<Rightarrow> CreateContainerSpec" where
  "cli_spec io compose_image =
     empty_create_spec\<lparr>cs_image := substituted io compose_image, cs_entrypoint := [''/bin/sh''],
       cs_cmd := [''-c'', ''sleep infinity''],
       cs_mounts := [mount_bind ''/var/run/docker.sock'' ''/var/run/docker.sock''],
       cs_labels := [managed_by], cs_auto_remove := False\<rparr>"

text \<open>The constructor: the helper container is removed again when its start or a copy fails.\<close>

definition bring_cli_up :: "'w compose_io \<Rightarrow> string list \<Rightarrow> string \<Rightarrow> ('w client, unit) act" where
  "bring_cli_up io compose_files cid =
     andThen (start_container (co_net io) cid) (\<lambda>_.
       each (\<lambda>(host_path, in_container).
               copy_one_to_container (co_run io) cid (host_file host_path in_container))
         (zip compose_files (files_in_container compose_files)))"

definition start_cli :: "'w compose_io \<Rightarrow> string list \<Rightarrow> string \<Rightarrow> ('w client, string) act" where
  "start_cli io compose_files compose_image =
     andThen (create_container (co_net io) (cli_spec io compose_image) None) (\<lambda>cid.
     andThen (catching (bring_cli_up io compose_files cid) (remove_and_rethrow (co_run io) cid)) (\<lambda>_. ret cid))"

definition containerised_client ::
  "'w compose_io \<Rightarrow> string list \<Rightarrow> string \<Rightarrow> ('w, 'w compose_client) act" where
  "containerised_client io compose_files compose_image w =
     (case co_docker io w of
        (Inl e, w1) \<Rightarrow> (Inl e, w1)
      | (Inr c, w1) \<Rightarrow>
          (case start_cli io compose_files compose_image (c\<lparr>cl_world := w1\<rparr>) of
             (Inl e, c1) \<Rightarrow> (Inl e, cl_world c1)
           | (Inr cid, c1) \<Rightarrow>
               (Inr (ContainerisedClient c1 cid (files_in_container compose_files)), cl_world c1)))"

definition exec_compose ::
  "'w compose_io \<Rightarrow> string \<Rightarrow> string list \<Rightarrow> (string \<times> string) list \<Rightarrow> ('w client, ExecResult) run" where
  "exec_compose io cid argv env =
     settled (exec_captured (ro_stream (co_run io)) None cid
       (if env = [] then argv else [''/bin/sh'', ''-c'', build_env_wrapped_script argv env]) plain_exec)"

definition cli_compose ::
  "'w compose_io \<Rightarrow> string \<Rightarrow> string \<Rightarrow> string list \<Rightarrow> (string \<times> string) list \<Rightarrow> ('w client, unit) run" where
  "cli_compose io verb cid argv env =
     runThen (exec_compose io cid argv env) (\<lambda>result.
       runs (if er_exit_code result \<noteq> 0
             then throw (compose_failed verb (er_exit_code result) (er_stdout_data result @ er_stderr_data result))
             else ret ()))"

text \<open>\<open>up\<close> and \<open>down\<close> of either client; a containerised one keeps its connection state.\<close>

definition on_client_of ::
  "'w compose_client \<Rightarrow> (string list \<Rightarrow> string \<Rightarrow> ('w, unit) act) \<Rightarrow>
    (string \<Rightarrow> string list \<Rightarrow> ('w client, unit) run) \<Rightarrow> 'w \<Rightarrow> (unit res \<times> 'w compose_client \<times> 'w) option" where
  "on_client_of cl host cli w =
     (case cl of
        LocalClient fs dir \<Rightarrow> (let (r, w1) = host fs dir w in Some (r, cl, w1))
      | ContainerisedClient c cid fs \<Rightarrow>
          (case on_held (cli cid fs) (c, w) of
             None \<Rightarrow> None | Some (r, (c1, w1)) \<Rightarrow> Some (r, ContainerisedClient c1 cid fs, w1)))"

definition client_up :: "'w compose_io \<Rightarrow> ComposeUpCommand \<Rightarrow> ('w compose_client \<times> 'w, unit) run" where
  "client_up io command s =
     on_client_of (fst s) (\<lambda>fs dir. local_up io fs dir command)
       (\<lambda>cid fs. cli_compose io ''up'' cid
          (docker_compose_prefix @ build_compose_up_args (command\<lparr>uc_files := fs\<rparr>)) (uc_env command))
       (snd s)"

definition client_down :: "'w compose_io \<Rightarrow> ComposeDownCommand \<Rightarrow> ('w compose_client \<times> 'w, unit) run" where
  "client_down io command s =
     on_client_of (fst s) (\<lambda>fs dir. local_down io fs dir command)
       (\<lambda>cid fs. cli_compose io ''down'' cid
          (docker_compose_prefix @ build_compose_down_args command) (dc_env command))
       (snd s)"

text \<open>The destructor.\<close>

definition client_release :: "'w compose_io \<Rightarrow> 'w compose_client \<Rightarrow> 'w \<Rightarrow> 'w" where
  "client_release io cl w =
     (case cl of
        LocalClient _ _ \<Rightarrow> w
      | ContainerisedClient c cid _ \<Rightarrow>
          cl_world (snd (best_effort (remove_container (co_net io) cid True True) (c\<lparr>cl_world := w\<rparr>))))"

definition host_docker_compose_available :: "'w compose_io \<Rightarrow> 'w \<Rightarrow> bool \<times> 'w" where
  "host_docker_compose_available io w =
     (case co_process io [''docker'', ''compose'', ''version''] [] w of
        (Inl _, w1) \<Rightarrow> (False, w1) | (Inr (code, _), w1) \<Rightarrow> (code = 0, w1))"

definition make_compose_client ::
  "'w compose_io \<Rightarrow> ClientKind \<Rightarrow> string list \<Rightarrow> string \<Rightarrow> ('w, 'w compose_client) act" where
  "make_compose_client io kind compose_files compose_image w =
     (case kind of
        Local \<Rightarrow> (Inr (local_client compose_files), w)
      | Containerised \<Rightarrow> containerised_client io compose_files compose_image w
      | Auto \<Rightarrow>
          (let (available, w1) = host_docker_compose_available io w in
           if available then (Inr (local_client compose_files), w1)
           else containerised_client io compose_files compose_image w1))"

subsection \<open>The handle of a project\<close>

text \<open>
  \<open>std::map\<close> as a list in ascending order of its keys; \<open>m[k] = v\<close> and \<open>m.emplace(k, v)\<close>, which
  keeps what is there.
\<close>

fun map_put :: "'k :: linorder \<Rightarrow> 'v \<Rightarrow> ('k \<times> 'v) list \<Rightarrow> ('k \<times> 'v) list" where
  "map_put k v [] = [(k, v)]"
| "map_put k v ((k', v') # ms) =
     (if k = k' then (k, v) # ms
      else if k < k' then (k, v) # (k', v') # ms else (k', v') # map_put k v ms)"

definition map_emplace :: "'k :: linorder \<Rightarrow> 'v \<Rightarrow> ('k \<times> 'v) list \<Rightarrow> ('k \<times> 'v) list" where
  "map_emplace k v ms = (if map_of ms k \<noteq> None then ms else map_put k v ms)"

type_synonym instances = "(int \<times> string) list"

record 'w active_stack =
  as_client :: "'w compose_client option"
  as_project :: string
  as_profiles :: "string list"
  as_env :: "(string \<times> string) list"
  as_remove_volumes :: bool
  as_remove_images :: bool
  as_service_to_id :: "string \<rightharpoonup> instances"
  as_ambassador_id :: string
  as_ambassador_targets :: "string \<times> string \<rightharpoonup> ContainerPort"

definition empty_stack :: "'w active_stack" where
  "empty_stack =
     \<lparr>as_client = None, as_project = [], as_profiles = [], as_env = [], as_remove_volumes = True,
      as_remove_images = False, as_service_to_id = Map.empty, as_ambassador_id = [],
      as_ambassador_targets = Map.empty\<rparr>"

record ExposedService =
  xs_service :: string
  xs_instance :: int
  xs_port :: ContainerPort

record 'w compose =
  cm_files :: "string list"
  cm_project :: string
  cm_compose_image :: string
  cm_ambassador_image :: string
  cm_client_kind :: ClientKind
  cm_env :: "(string \<times> string) list"
  cm_profiles :: "string list"
  cm_scales :: "(string \<times> int) list"
  cm_ambassadors :: "(string \<times> ContainerPort) list"
  cm_build :: bool
  cm_pull :: bool
  cm_wait :: bool
  cm_wait_timeout :: int
  cm_remove_volumes :: bool
  cm_remove_images :: bool
  cm_exposed_services :: "ExposedService list"
  cm_active :: "'w active_stack option"
  cm_temp_file :: string

definition kComposeImage :: string where
  "kComposeImage = ''docker:26.1-cli''"

definition kSocatImage :: string where
  "kSocatImage = ''alpine/socat:1.8.0.3''"

definition configured :: "'w compose_io \<Rightarrow> string \<Rightarrow> string \<Rightarrow> string \<Rightarrow> string" where
  "configured io env_name key fallback =
     (case fst (config_value (wi_env (co_wait io)) (wi_files (co_wait io)) env_name key (wi_cache (co_wait io))) of
        None \<Rightarrow> fallback | Some v \<Rightarrow> v)"

definition default_compose_image :: "'w compose_io \<Rightarrow> string" where
  "default_compose_image io =
     configured io ''TESTCONTAINERS_COMPOSE_CONTAINER_IMAGE'' ''compose.container.image'' kComposeImage"

definition default_ambassador_image :: "'w compose_io \<Rightarrow> string" where
  "default_ambassador_image io =
     configured io ''TESTCONTAINERS_SOCAT_CONTAINER_IMAGE'' ''socat.container.image'' kSocatImage"

definition absolute_path :: "'w compose_io \<Rightarrow> string \<Rightarrow> string" where
  "absolute_path io path = (case co_absolute io path of None \<Rightarrow> path | Some a \<Rightarrow> a)"

definition bare_compose :: "'w compose_io \<Rightarrow> string list \<Rightarrow> string \<Rightarrow> string \<Rightarrow> 'w compose" where
  "bare_compose io files project temp =
     \<lparr>cm_files = files, cm_project = project, cm_compose_image = default_compose_image io,
      cm_ambassador_image = default_ambassador_image io, cm_client_kind = Local, cm_env = [],
      cm_profiles = [], cm_scales = [], cm_ambassadors = [], cm_build = False, cm_pull = False,
      cm_wait = True, cm_wait_timeout = 60, cm_remove_volumes = True, cm_remove_images = False,
      cm_exposed_services = [], cm_active = None, cm_temp_file = temp\<rparr>"

definition docker_compose_container :: "'w compose_io \<Rightarrow> string list \<Rightarrow> 'w \<Rightarrow> 'w compose \<times> 'w" where
  "docker_compose_container io files w =
     (let (hex, w1) = co_hex io 8 w
      in (bare_compose io (map (absolute_path io) files) (''tc'' @ hex) [], w1))"

definition with_client :: "ClientKind \<Rightarrow> 'w compose \<Rightarrow> 'w compose" where
  "with_client kind h = h\<lparr>cm_client_kind := kind\<rparr>"

definition with_kind_client ::
  "'w compose_io \<Rightarrow> ClientKind \<Rightarrow> string list \<Rightarrow> 'w \<Rightarrow> 'w compose \<times> 'w" where
  "with_kind_client io kind files w =
     (let (h, w1) = docker_compose_container io files w in (with_client kind h, w1))"

definition from_yaml :: "'w compose_io \<Rightarrow> string \<Rightarrow> ('w, 'w compose) act" where
  "from_yaml io compose_yaml w =
     (let (project, w1) = co_hex io 8 w;
          (hex, w2) = co_hex io 12 w1;
          temp = path_join (co_temp_dir io) (''tc-compose-'' @ hex @ ''.yml'');
          (ok, w3) = co_write_file io temp compose_yaml w2
      in if \<not> ok then
           (Inl (DockerError (''DockerComposeContainer::from_yaml: cannot create temp file '' @ quoted temp)
              None []), w3)
         else (Inr (bare_compose io [temp] (''tc'' @ project) temp), w3))"

definition with_exposed_instance :: "string \<Rightarrow> int \<Rightarrow> ContainerPort \<Rightarrow> 'w compose \<Rightarrow> 'w compose" where
  "with_exposed_instance service i port h =
     h\<lparr>cm_exposed_services :=
         cm_exposed_services h @ [\<lparr>xs_service = service, xs_instance = i, xs_port = port\<rparr>]\<rparr>"

definition with_exposed_service :: "string \<Rightarrow> ContainerPort \<Rightarrow> 'w compose \<Rightarrow> 'w compose" where
  "with_exposed_service service port = with_exposed_instance service 0 port"

definition with_scale :: "string \<Rightarrow> int \<Rightarrow> 'w compose \<Rightarrow> 'w compose" where
  "with_scale service instances h = h\<lparr>cm_scales := map_put service instances (cm_scales h)\<rparr>"

definition with_ambassador :: "string \<Rightarrow> ContainerPort \<Rightarrow> 'w compose \<Rightarrow> 'w compose" where
  "with_ambassador service port h = h\<lparr>cm_ambassadors := cm_ambassadors h @ [(service, port)]\<rparr>"

definition with_ambassador_image :: "string \<Rightarrow> 'w compose \<Rightarrow> 'w compose" where
  "with_ambassador_image img h = h\<lparr>cm_ambassador_image := img\<rparr>"

definition with_profile :: "string \<Rightarrow> 'w compose \<Rightarrow> 'w compose" where
  "with_profile profile h = h\<lparr>cm_profiles := cm_profiles h @ [profile]\<rparr>"

definition with_project_name :: "string \<Rightarrow> 'w compose \<Rightarrow> 'w compose" where
  "with_project_name name h = h\<lparr>cm_project := name\<rparr>"

definition with_compose_image :: "string \<Rightarrow> 'w compose \<Rightarrow> 'w compose" where
  "with_compose_image img h = h\<lparr>cm_compose_image := img\<rparr>"

definition with_compose_env :: "string \<Rightarrow> string \<Rightarrow> 'w compose \<Rightarrow> 'w compose" where
  "with_compose_env key val h = h\<lparr>cm_env := map_put key val (cm_env h)\<rparr>"

definition with_env_vars :: "(string \<times> string) list \<Rightarrow> 'w compose \<Rightarrow> 'w compose" where
  "with_env_vars env h = foldl (\<lambda>h (key, val). with_compose_env key val h) h env"

definition with_build :: "bool \<Rightarrow> 'w compose \<Rightarrow> 'w compose" where
  "with_build build h = h\<lparr>cm_build := build\<rparr>"

definition with_pull :: "bool \<Rightarrow> 'w compose \<Rightarrow> 'w compose" where
  "with_pull pull h = h\<lparr>cm_pull := pull\<rparr>"

definition with_compose_wait :: "bool \<Rightarrow> 'w compose \<Rightarrow> 'w compose" where
  "with_compose_wait wait h = h\<lparr>cm_wait := wait\<rparr>"

definition with_wait_timeout :: "int \<Rightarrow> 'w compose \<Rightarrow> 'w compose" where
  "with_wait_timeout seconds h = h\<lparr>cm_wait_timeout := seconds\<rparr>"

definition with_remove_volumes :: "bool \<Rightarrow> 'w compose \<Rightarrow> 'w compose" where
  "with_remove_volumes remove h = h\<lparr>cm_remove_volumes := remove\<rparr>"

definition with_remove_images :: "bool \<Rightarrow> 'w compose \<Rightarrow> 'w compose" where
  "with_remove_images remove h = h\<lparr>cm_remove_images := remove\<rparr>"

subsection \<open>Teardown\<close>

definition kComposeProjectLabel :: string where
  "kComposeProjectLabel = ''com.docker.compose.project''"

definition kComposeServiceLabel :: string where
  "kComposeServiceLabel = ''com.docker.compose.service''"

definition kComposeContainerNumberLabel :: string where
  "kComposeContainerNumberLabel = ''com.docker.compose.container-number''"

definition project_filter :: "string \<Rightarrow> (string \<times> string) list" where
  "project_filter project = [(''label'', kComposeProjectLabel @ ''='' @ project)]"

definition down_command :: "'w active_stack \<Rightarrow> ComposeDownCommand" where
  "down_command st =
     \<lparr>dc_project_name = as_project st, dc_profiles = as_profiles st, dc_env = as_env st,
      dc_volumes = as_remove_volumes st, dc_remove_images = as_remove_images st\<rparr>"

definition sweep :: "'w compose_io \<Rightarrow> string \<Rightarrow> ('w client, unit) act" where
  "sweep io project =
     andThen (list_containers (co_net io) (project_filter project) True) (\<lambda>leftovers.
       each (\<lambda>summary. best_effort (remove_container (co_net io) (su_id summary) True True)) leftovers)"

definition drop_ambassador :: "'w compose_io \<Rightarrow> 'w active_stack \<Rightarrow> 'w \<Rightarrow> 'w option" where
  "drop_ambassador io st w =
     (if as_ambassador_id st = [] then Some w
      else attempted (on_docker io (runs (remove_container (co_net io) (as_ambassador_id st) True True))) w)"

text \<open>
  \<open>~ActiveStack\<close>, then the members: the ambassador, \<open>down\<close>, the sweep by label, and last the
  client, which removes its helper container.  Failures are swallowed at every step.
\<close>

definition teardown :: "'w compose_io \<Rightarrow> 'w active_stack \<Rightarrow> 'w \<Rightarrow> 'w option" where
  "teardown io st w =
     Option.bind (drop_ambassador io st w) (\<lambda>w1.
     case as_client st of
       None \<Rightarrow> attempted (on_docker io (runs (sweep io (as_project st)))) w1
     | Some cl \<Rightarrow>
         Option.bind (attempted (client_down io (down_command st)) (cl, w1)) (\<lambda>(cl1, w2).
         map_option (client_release io cl1)
           (attempted (on_docker io (runs (sweep io (as_project st)))) w2)))"

definition reset_active :: "'w compose_io \<Rightarrow> 'w compose \<times> 'w \<Rightarrow> ('w compose \<times> 'w) option" where
  "reset_active io s =
     (let (h, w) = s in
      case cm_active h of
        None \<Rightarrow> Some s
      | Some st \<Rightarrow> map_option (\<lambda>w1. (h\<lparr>cm_active := None\<rparr>, w1)) (teardown io st w))"

definition remove_temp_file :: "'w compose_io \<Rightarrow> 'w compose \<times> 'w \<Rightarrow> 'w compose \<times> 'w" where
  "remove_temp_file io s =
     (let (h, w) = s in
      if cm_temp_file h = [] then s
      else (h\<lparr>cm_temp_file := []\<rparr>, co_remove_file io (cm_temp_file h) w))"

definition compose_stop :: "'w compose_io \<Rightarrow> 'w compose \<times> 'w \<Rightarrow> ('w compose \<times> 'w) option" where
  "compose_stop io s = map_option (remove_temp_file io) (reset_active io s)"

text \<open>
  The moves: the stack and the temporary file change hands; what else is left in the source has no
  effect when it is destroyed.  The assignment first releases what the target owns.
\<close>

definition compose_move :: "'w compose \<Rightarrow> 'w compose \<times> 'w compose" where
  "compose_move h = (h, h\<lparr>cm_active := None, cm_temp_file := []\<rparr>)"

definition compose_move_assign ::
  "'w compose_io \<Rightarrow> 'w compose \<Rightarrow> 'w compose \<Rightarrow> 'w \<Rightarrow> ('w compose \<times> 'w compose \<times> 'w) option" where
  "compose_move_assign io target source w =
     map_option (\<lambda>(t, w1). (let (h, rest) = compose_move source in (h, rest, w1)))
       (compose_stop io (target, w))"

subsection \<open>Discovery\<close>

text \<open>\<open>std::from_chars\<close> into an \<open>int\<close>; what follows the number is not looked at.\<close>

definition from_chars_int :: "string \<Rightarrow> int option" where
  "from_chars_int t =
     (if t \<noteq> [] \<and> hd t = CHR ''-'' then
        map_option (\<lambda>(v, r). - int v) (from_chars_dec (2 ^ 31) (tl t))
      else map_option (\<lambda>(v, r). int v) (from_chars_dec (2 ^ 31 - 1) t))"

text \<open>The instance of a container, the next free number when it carries none.\<close>

definition instance_number :: "ContainerSummary \<Rightarrow> instances \<Rightarrow> int" where
  "instance_number summary found =
     (case Option.bind (map_of (su_labels summary) kComposeContainerNumberLabel) from_chars_int of
        Some n \<Rightarrow> n
      | None \<Rightarrow> (if found = [] then 1 else fst (last found) + 1))"

definition discover_one ::
  "(string \<rightharpoonup> instances) \<Rightarrow> ContainerSummary \<Rightarrow> string \<rightharpoonup> instances" where
  "discover_one services summary =
     (case map_of (su_labels summary) kComposeServiceLabel of
        None \<Rightarrow> services
      | Some service \<Rightarrow>
          (let found = (case services service of None \<Rightarrow> [] | Some l \<Rightarrow> l)
           in services(service \<mapsto> map_emplace (instance_number summary found) (su_id summary) found)))"

subsection \<open>The ambassador\<close>

definition unknown_ambassador :: "string \<Rightarrow> string \<Rightarrow> exn" where
  "unknown_ambassador service project =
     DockerError (''with_ambassador: unknown compose service '' @ quoted service @ '' in project '' @
       quoted project @ '' (is its profile active, and its scale non-zero?)'') None []"

text \<open>The targets in the order added, a repeated pair once; listen ports count up from 2000.\<close>

fun collect_targets ::
  "string \<Rightarrow> (string \<rightharpoonup> instances) \<Rightarrow> (string \<times> ContainerPort) list \<Rightarrow> nat \<Rightarrow>
    AmbassadorTarget list \<Rightarrow> (string \<times> string \<rightharpoonup> ContainerPort) \<Rightarrow>
    (AmbassadorTarget list \<times> (string \<times> string \<rightharpoonup> ContainerPort)) res" where
  "collect_targets project services [] next_listen targets ports = Inr (targets, ports)"
| "collect_targets project services ((service, port) # rest) next_listen targets ports =
     (if services service = None \<or> services service = Some [] then Inl (unknown_ambassador service project)
      else
        let listen = \<lparr>cp_port = next_listen, cp_proto = cp_proto port\<rparr> in
        if ports (service, port_to_string port) \<noteq> None then
          collect_targets project services rest next_listen targets ports
        else
          collect_targets project services rest ((next_listen + 1) mod 65536)
            (targets @ [\<lparr>at_service = service, at_service_port = port, at_listen_port = listen\<rparr>])
            (ports((service, port_to_string port) \<mapsto> listen)))"

definition first_instance :: "(string \<rightharpoonup> instances) \<Rightarrow> string \<Rightarrow> string" where
  "first_instance services service =
     (case services service of Some ((n, cid) # _) \<Rightarrow> cid | _ \<Rightarrow> [])"

text \<open>The name of the first network that holds every target, empty when none does.\<close>

fun pick_network ::
  "'w net \<Rightarrow> (string \<rightharpoonup> instances) \<Rightarrow> AmbassadorTarget list \<Rightarrow> NetworkInspect list \<Rightarrow>
    ('w client, string) act" where
  "pick_network net services targets [] = ret []"
| "pick_network net services targets (n # ns) =
     andThen (inspect_network net (ni_id n)) (\<lambda>info.
       if \<forall>target \<in> set targets.
            first_instance services (at_service target) \<in> set (map fst (ni_containers info))
       then ret (ni_name n) else pick_network net services targets ns)"

text \<open>The message holds a dash in its UTF-8 bytes.\<close>

definition no_shared_network :: "string \<Rightarrow> exn" where
  "no_shared_network project =
     DockerError (''with_ambassador: no single compose project network holds every '' @
       ''target (project '' @ quoted project @ '') '' @ [CHR 0xE2, CHR 0x80, CHR 0x94] @
       '' one relay joins one network, so all targets must share one'') None []"

definition ambassador_spec ::
  "'w compose_io \<Rightarrow> 'w compose \<Rightarrow> AmbassadorTarget list \<Rightarrow> string \<Rightarrow> CreateContainerSpec" where
  "ambassador_spec io h targets network =
     empty_create_spec\<lparr>cs_image := substituted io (cm_ambassador_image h), cs_entrypoint := [''/bin/sh''],
       cs_cmd := [''-c'', build_socat_script targets],
       cs_exposed_ports := map (\<lambda>t. port_to_string (at_listen_port t)) targets,
       cs_publish_all_ports := True, cs_network := Some network,
       cs_labels := testcontainers_labels (co_run io) @ [(kComposeProjectLabel, cm_project h)]\<rparr>"

text \<open>Calls of the client beside the stack, and assignments to the stack.\<close>

definition beside :: "('c, 'a) act \<Rightarrow> ('c \<times> 's, 'a) act" where
  "beside m s = (let (c, st) = s; (r, c1) = m c in (r, (c1, st)))"

definition set_stack :: "('s \<Rightarrow> 's) \<Rightarrow> ('c \<times> 's, unit) act" where
  "set_stack f = modify (\<lambda>(c, st). (c, f st))"

definition start_ambassador ::
  "'w compose_io \<Rightarrow> 'w compose \<Rightarrow> ('w client \<times> 'w active_stack, unit) act" where
  "start_ambassador io h =
     andThen (gets (\<lambda>(c, st). as_service_to_id st)) (\<lambda>services.
     andThen (lift_res (collect_targets (cm_project h) services (cm_ambassadors h) 2000 [] Map.empty))
       (\<lambda>(targets, ports).
     andThen (set_stack (\<lambda>st. st\<lparr>as_ambassador_targets := ports\<rparr>)) (\<lambda>_.
     andThen (beside (list_networks (co_net io) (project_filter (cm_project h)))) (\<lambda>networks.
     andThen (beside (pick_network (co_net io) services targets networks)) (\<lambda>network.
       if network = [] then throw (no_shared_network (cm_project h))
       else
         andThen (beside (create_container (co_net io) (ambassador_spec io h targets network) None)) (\<lambda>cid.
         andThen (set_stack (\<lambda>st. st\<lparr>as_ambassador_id := cid\<rparr>)) (\<lambda>_.
           beside (start_container (co_net io) cid))))))))"

definition discover :: "'w compose_io \<Rightarrow> 'w compose \<Rightarrow> ('w client \<times> 'w active_stack, unit) act" where
  "discover io h =
     andThen (beside (list_containers (co_net io) (project_filter (cm_project h)) True)) (\<lambda>summaries.
       set_stack (\<lambda>st. st\<lparr>as_service_to_id := foldl discover_one (as_service_to_id st) summaries\<rparr>))"

subsection \<open>What the handle answers\<close>

definition unknown_service :: "string \<Rightarrow> string \<Rightarrow> exn" where
  "unknown_service service project =
     DockerError (''Unknown compose service '' @ quoted service @ '' in project '' @ quoted project @
       '' (did start() run, is the service'' @ [CHR 0x27] @ ''s profile active, and is its scale '' @
       ''non-zero?)'') None []"

definition find_service_instances :: "'w compose \<Rightarrow> string \<Rightarrow> instances res" where
  "find_service_instances h service =
     (case Option.bind (cm_active h) (\<lambda>st. as_service_to_id st service) of
        Some (i # is) \<Rightarrow> Inr (i # is)
      | _ \<Rightarrow> Inl (unknown_service service (cm_project h)))"

definition get_service_container_id :: "'w compose \<Rightarrow> string \<Rightarrow> string res" where
  "get_service_container_id h service =
     try_bind (find_service_instances h service) (\<lambda>found. Inr (snd (hd found)))"

definition no_instance :: "string \<Rightarrow> string \<Rightarrow> int \<Rightarrow> instances \<Rightarrow> exn" where
  "no_instance service project i found =
     DockerError (''Compose service '' @ quoted service @ '' in project '' @ quoted project @
       '' has no instance '' @ int_dec i @ '' (running instances: '' @
       join (map (\<lambda>(n, cid). int_dec n) found) '', '' @ '')'') None []"

definition get_instance_container_id :: "'w compose \<Rightarrow> string \<Rightarrow> int \<Rightarrow> string res" where
  "get_instance_container_id h service i =
     try_bind (find_service_instances h service) (\<lambda>found.
       case map_of found i of
         None \<Rightarrow> Inl (no_instance service (cm_project h) i found)
       | Some cid \<Rightarrow> Inr cid)"

definition service_instances :: "'w compose \<Rightarrow> string \<Rightarrow> int list res" where
  "service_instances h service = try_bind (find_service_instances h service) (\<lambda>found. Inr (map fst found))"

definition published_host_port :: "ContainerInspect \<Rightarrow> string \<Rightarrow> nat res" where
  "published_host_port info key =
     (case select_host_port (ci_ports info) key Any of
        None \<Rightarrow>
          Inl (DockerError (''Compose service container '' @ ci_id info @ '' published no host port for '' @ key)
            None [])
      | Some p \<Rightarrow> Inr p)"

definition published_port_of :: "'w compose_io \<Rightarrow> string \<Rightarrow> ContainerPort \<Rightarrow> ('w, nat) run" where
  "published_port_of io cid port =
     on_docker io (runs (andThen (inspect_container (co_net io) cid) (\<lambda>info.
       lift_res (published_host_port info (port_to_string port)))))"

definition get_instance_port ::
  "'w compose_io \<Rightarrow> 'w compose \<Rightarrow> string \<Rightarrow> int \<Rightarrow> ContainerPort \<Rightarrow> ('w, nat) run" where
  "get_instance_port io h service i port =
     runThen (runs (lift_res (get_instance_container_id h service i))) (\<lambda>cid. published_port_of io cid port)"

text \<open>The relay's port for a pair that an ambassador serves.\<close>

definition ambassador_port :: "'w compose \<Rightarrow> string \<Rightarrow> ContainerPort \<Rightarrow> (string \<times> ContainerPort) option" where
  "ambassador_port h service port =
     Option.bind (cm_active h) (\<lambda>st.
       if as_ambassador_id st = [] then None
       else map_option (\<lambda>p. (as_ambassador_id st, p))
              (as_ambassador_targets st (service, port_to_string port)))"

definition get_service_port :: "'w compose_io \<Rightarrow> 'w compose \<Rightarrow> string \<Rightarrow> ContainerPort \<Rightarrow> ('w, nat) run" where
  "get_service_port io h service port =
     (case ambassador_port h service port of
        Some (cid, relay_port) \<Rightarrow> published_port_of io cid relay_port
      | None \<Rightarrow>
          runThen (runs (lift_res (get_service_container_id h service))) (\<lambda>cid. published_port_of io cid port))"

definition get_service_host :: "'w compose_io \<Rightarrow> 'w compose \<Rightarrow> string \<Rightarrow> ('w, string) run" where
  "get_service_host io h service =
     runThen (runs (lift_res (get_service_container_id h service))) (\<lambda>_.
       on_docker io (runs (gets (probe_host (co_wait io)))))"

definition get_service_logs ::
  "'w compose_io \<Rightarrow> 'w compose \<Rightarrow> string \<Rightarrow> int option \<Rightarrow> LogOptions \<Rightarrow> ('w, ContainerLogs) run" where
  "get_service_logs io h service i opts =
     runThen (runs (lift_res (case i of None \<Rightarrow> get_service_container_id h service
                              | Some n \<Rightarrow> get_instance_container_id h service n))) (\<lambda>cid.
       on_docker io (runs (logs (co_net io) cid opts)))"

definition follow_service_logs ::
  "'w compose_io \<Rightarrow> 'w compose \<Rightarrow> string \<Rightarrow> int option \<Rightarrow> 'c consumer \<Rightarrow> int option \<Rightarrow> LogOptions \<Rightarrow> 'c \<Rightarrow>
    ('w, FollowEnd \<times> 'c) run" where
  "follow_service_logs io h service i consumer deadline opts s =
     runThen (runs (lift_res (case i of None \<Rightarrow> get_service_container_id h service
                              | Some n \<Rightarrow> get_instance_container_id h service n))) (\<lambda>cid.
       on_docker io (finished (follow_logs (ro_stream (co_run io)) cid opts consumer deadline s)))"

subsection \<open>Start\<close>

text \<open>
  The conversion of \<open>std::chrono::seconds\<close> to milliseconds at the call of \<open>saturated_add\<close>: a product
  in 64 bits, written out as the wrap-around of two's complement.
\<close>

definition seconds_to_ms :: "int \<Rightarrow> int" where
  "seconds_to_ms s = (s * 1000 + 2 ^ 63) mod 2 ^ 64 - 2 ^ 63"

text \<open>The probe of one exposed port; \<open>None\<close> when the fuel is spent.\<close>

fun probe_service ::
  "nat \<Rightarrow> 'w compose_io \<Rightarrow> string \<Rightarrow> nat \<Rightarrow> int \<Rightarrow> 'w \<Rightarrow> (bool \<times> 'w) option" where
  "probe_service 0 io host port deadline w = None"
| "probe_service (Suc n) io host port deadline w =
     (let wio = co_wait io; now = si_now (wi_stream wio) w in
      if \<not> now < deadline then Some (False, w)
      else
        let (x, w1) = wi_tcp wio host port (probe_budget (wi_clock wio) now deadline) w
        in if tcp_answer x then Some (True, w1)
           else probe_service n io host port deadline (net_sleep (co_net io) 200 w1))"

definition not_connected :: "ExposedService \<Rightarrow> nat \<Rightarrow> exn" where
  "not_connected x port =
     StartupTimeoutError (''Compose service '' @ quoted (xs_service x) @
       (if xs_instance x \<noteq> 0 then '' instance '' @ int_dec (xs_instance x) else []) @ '' host port '' @
       to_dec port @ '' did not accept a connection within the wait timeout'') (xs_service x)"

definition probe_exposed ::
  "nat \<Rightarrow> 'w compose_io \<Rightarrow> 'w compose \<Rightarrow> ExposedService \<Rightarrow> ('w, unit) run" where
  "probe_exposed fuel io h x =
     runThen (if xs_instance x = 0 then get_service_port io h (xs_service x) (xs_port x)
              else get_instance_port io h (xs_service x) (xs_instance x) (xs_port x)) (\<lambda>port.
     runThen (get_service_host io h (xs_service x)) (\<lambda>host w.
       let wio = co_wait io;
           deadline = saturated_add (wi_clock wio) (si_now (wi_stream wio) w) (seconds_to_ms (cm_wait_timeout h))
       in case probe_service fuel io host port deadline w of
            None \<Rightarrow> None
          | Some (connected, w1) \<Rightarrow>
              Some (if connected then Inr () else Inl (not_connected x port), w1)))"

fun probe_all :: "nat \<Rightarrow> 'w compose_io \<Rightarrow> 'w compose \<Rightarrow> ExposedService list \<Rightarrow> ('w, unit) run" where
  "probe_all fuel io h [] = runs (ret ())"
| "probe_all fuel io h (x # xs) = runThen (probe_exposed fuel io h x) (\<lambda>_. probe_all fuel io h xs)"

definition new_stack :: "'w compose \<Rightarrow> 'w compose_client \<Rightarrow> 'w active_stack" where
  "new_stack h cl =
     empty_stack\<lparr>as_client := Some cl, as_project := cm_project h, as_profiles := cm_profiles h,
       as_env := cm_env h, as_remove_volumes := cm_remove_volumes h, as_remove_images := cm_remove_images h\<rparr>"

definition up_command :: "'w compose \<Rightarrow> ComposeUpCommand" where
  "up_command h =
     \<lparr>uc_project_name = cm_project h, uc_files = cm_files h, uc_profiles = cm_profiles h,
      uc_scales = cm_scales h, uc_env = cm_env h, uc_wait_timeout_secs = cm_wait_timeout h,
      uc_build = cm_build h, uc_pull = cm_pull h, uc_wait = cm_wait h\<rparr>"

text \<open>Steps on the stack and the world.\<close>

definition stack_world :: "('w, 'a) run \<Rightarrow> ('w active_stack \<times> 'w, 'a) run" where
  "stack_world m s =
     (let (st, w) = s in case m w of None \<Rightarrow> None | Some (r, w1) \<Rightarrow> Some (r, (st, w1)))"

definition stack_up :: "'w compose_io \<Rightarrow> ComposeUpCommand \<Rightarrow> ('w active_stack \<times> 'w, unit) run" where
  "stack_up io command s =
     (let (st, w) = s in
      case as_client st of
        None \<Rightarrow> Some (Inr (), s)
      | Some cl \<Rightarrow>
          (case client_up io command (cl, w) of
             None \<Rightarrow> None
           | Some (r, (cl1, w1)) \<Rightarrow> Some (r, (st\<lparr>as_client := Some cl1\<rparr>, w1))))"

definition stack_docker ::
  "'w compose_io \<Rightarrow> ('w client \<times> 'w active_stack, 'a) act \<Rightarrow> ('w active_stack \<times> 'w, 'a) run" where
  "stack_docker io m s =
     (let (st, w) = s in
      case co_docker io w of
        (Inl e, w1) \<Rightarrow> Some (Inl e, (st, w1))
      | (Inr c, w1) \<Rightarrow> (let (r, (c1, st1)) = m (c\<lparr>cl_world := w1\<rparr>, st) in Some (r, (st1, cl_world c1))))"

text \<open>From the registration with the reaper to the ambassador.\<close>

definition bring_stack_up :: "'w compose_io \<Rightarrow> 'w compose \<Rightarrow> ('w active_stack \<times> 'w, unit) run" where
  "bring_stack_up io h =
     runThen (stack_world (co_register io kComposeProjectLabel (cm_project h))) (\<lambda>_.
     runThen (stack_up io (up_command h)) (\<lambda>_.
       stack_docker io (andThen (discover io h) (\<lambda>_.
         only_if (cm_ambassadors h \<noteq> []) (start_ambassador io h)))))"

text \<open>
  The whole start: the old stack goes first; a stack that did not come up is torn down and the
  failure passed on; one that came up is the handle's, also when a probe then fails.
\<close>

definition compose_start :: "nat \<Rightarrow> 'w compose_io \<Rightarrow> ('w compose \<times> 'w, unit) run" where
  "compose_start fuel io s =
     Option.bind (reset_active io s) (\<lambda>(h, w).
     case make_compose_client io (cm_client_kind h) (cm_files h) (cm_compose_image h) w of
       (Inl e, w1) \<Rightarrow> map_option (\<lambda>w2. (Inl e, (h, w2))) (teardown io empty_stack w1)
     | (Inr cl, w1) \<Rightarrow>
         Option.bind (bring_stack_up io h (new_stack h cl, w1)) (\<lambda>(r, (st, w2)).
           case r of
             Inl e \<Rightarrow> map_option (\<lambda>w3. (Inl e, (h, w3))) (teardown io st w2)
           | Inr _ \<Rightarrow>
               (let h1 = h\<lparr>cm_active := Some st\<rparr> in
                map_option (\<lambda>(q, w3). (q, (h1, w3))) (probe_all fuel io h1 (cm_exposed_services h1) w2))))"

subsection \<open>Lemmas\<close>

lemma map_of_map_put [simp]: "map_of (map_put k v ms) = (map_of ms)(k \<mapsto> v)"
  by (induction k v ms rule: map_put.induct) auto

lemma set_map_put: "set (map fst (map_put k v ms)) = insert k (set (map fst ms))"
  by (induction k v ms rule: map_put.induct) auto

lemma sorted_map_put: "sorted_wrt (<) (map fst ms) \<Longrightarrow> sorted_wrt (<) (map fst (map_put k v ms))"
proof (induction k v ms rule: map_put.induct)
  case (2 k v k' v' ms)
  then show ?case using set_map_put [of k v ms] by auto
qed simp

lemma sorted_map_emplace:
  "sorted_wrt (<) (map fst ms) \<Longrightarrow> sorted_wrt (<) (map fst (map_emplace k v ms))"
  by (simp add: map_emplace_def sorted_map_put)

lemma map_of_map_emplace:
  "map_of (map_emplace k v ms) = (if map_of ms k = None then (map_of ms)(k \<mapsto> v) else map_of ms)"
  by (simp add: map_emplace_def)

text \<open>Discovery keeps each service's instances in strictly ascending order.\<close>

definition services_ok :: "(string \<rightharpoonup> instances) \<Rightarrow> bool" where
  "services_ok services \<longleftrightarrow>
     (\<forall>service l. services service = Some l \<longrightarrow> l \<noteq> [] \<and> sorted_wrt (<) (map fst l))"

lemma map_put_not_Nil [simp]: "map_put k v ms \<noteq> []"
  by (cases ms) (auto split: if_splits)

lemma services_ok_discover_one: "services_ok services \<Longrightarrow> services_ok (discover_one services summary)"
  by (auto simp: services_ok_def discover_one_def sorted_map_emplace map_emplace_def sorted_map_put Let_def
      split: option.splits)

lemma services_ok_discover: "services_ok services \<Longrightarrow> services_ok (foldl discover_one services summaries)"
  by (induction summaries arbitrary: services) (auto intro: services_ok_discover_one)

lemma services_ok_empty: "services_ok Map.empty"
  by (simp add: services_ok_def)

lemma last_greatest: "sorted_wrt (<) (ks :: 'k :: linorder list) \<Longrightarrow> k \<in> set ks \<Longrightarrow> k \<le> last ks"
  by (induction ks) (auto simp: less_imp_le)

text \<open>A container without a number gets a free one, so it is never dropped.\<close>

lemma instance_number_fresh:
  assumes "sorted_wrt (<) (map fst found)"
    and "Option.bind (map_of (su_labels summary) kComposeContainerNumberLabel) from_chars_int = None"
  shows "map_of found (instance_number summary found) = None"
proof (cases "found = []")
  case False
  have "n \<le> fst (last found)" if "(n, cid) \<in> set found" for n cid
    using last_greatest [OF assms(1), of n] that False by (force simp: last_map)
  then have "(fst (last found) + 1) \<notin> fst ` set found" by force
  with False assms(2) show ?thesis by (simp add: instance_number_def map_of_eq_None_iff)
qed simp

lemma discover_one_numberless:
  assumes "services_ok services" "map_of (su_labels summary) kComposeServiceLabel = Some service"
    and "Option.bind (map_of (su_labels summary) kComposeContainerNumberLabel) from_chars_int = None"
  shows "\<exists>l n. discover_one services summary service = Some l \<and> map_of l n = Some (su_id summary) \<and>
    (\<forall>l0. services service = Some l0 \<longrightarrow> map_of l0 \<subseteq>\<^sub>m map_of l)"
proof -
  let ?found = "case services service of None \<Rightarrow> [] | Some l \<Rightarrow> l"
  have "sorted_wrt (<) (map fst ?found)" using assms(1) by (auto simp: services_ok_def split: option.splits)
  from instance_number_fresh [OF this assms(3)] assms(2) show ?thesis
    by (auto simp: discover_one_def Let_def map_of_map_emplace map_le_def intro!: exI [of _ "instance_number summary ?found"]
        split: option.splits)
qed

text \<open>Stopping.\<close>

lemma reset_active_none: "reset_active io s = Some (h, w) \<Longrightarrow> cm_active h = None"
  by (auto simp: reset_active_def split: prod.splits option.splits)

lemma compose_stop_owns_nothing:
  assumes "compose_stop io s = Some (h, w)"
  shows "cm_active h = None \<and> cm_temp_file h = []"
proof -
  from assms obtain h1 w1 where r: "reset_active io s = Some (h1, w1)" "(h, w) = remove_temp_file io (h1, w1)"
    by (auto simp: compose_stop_def)
  from r(2) reset_active_none [OF r(1)] show ?thesis
    by (cases "cm_temp_file h1 = []") (simp_all add: remove_temp_file_def)
qed

lemma compose_stop_idle:
  "cm_active h = None \<Longrightarrow> cm_temp_file h = [] \<Longrightarrow> compose_stop io (h, w) = Some (h, w)"
  by (simp add: compose_stop_def reset_active_def remove_temp_file_def)

lemma compose_stop_snapshot:
  assumes "cm_active h1 = cm_active h" "cm_temp_file h1 = cm_temp_file h"
  shows "map_option snd (compose_stop io (h1, w)) = map_option snd (compose_stop io (h, w))"
  using assms
  by (cases "cm_active h"; cases "cm_temp_file h = []")
    (simp_all add: compose_stop_def reset_active_def remove_temp_file_def option.map_comp comp_def)

text \<open>Starting: what a failure leaves behind.\<close>

lemma compose_start_cases:
  assumes "compose_start fuel io s = Some (r, (h', w'))"
  obtains h w e w1 where "reset_active io s = Some (h, w)" "r = Inl e" "h' = h"
      "make_compose_client io (cm_client_kind h) (cm_files h) (cm_compose_image h) w = (Inl e, w1)"
      "teardown io empty_stack w1 = Some w'"
    | h w cl w1 e st w2 where "reset_active io s = Some (h, w)" "r = Inl e" "h' = h"
      "make_compose_client io (cm_client_kind h) (cm_files h) (cm_compose_image h) w = (Inr cl, w1)"
      "bring_stack_up io h (new_stack h cl, w1) = Some (Inl e, (st, w2))" "teardown io st w2 = Some w'"
    | h w cl w1 st w2 where "reset_active io s = Some (h, w)" "h' = h\<lparr>cm_active := Some st\<rparr>"
      "make_compose_client io (cm_client_kind h) (cm_files h) (cm_compose_image h) w = (Inr cl, w1)"
      "bring_stack_up io h (new_stack h cl, w1) = Some (Inr (), (st, w2))"
      "probe_all fuel io h' (cm_exposed_services h) w2 = Some (r, w')"
proof -
  obtain h w where a: "reset_active io s = Some (h, w)"
    using assms by (cases "reset_active io s") (auto simp: compose_start_def)
  obtain q w1 where m: "make_compose_client io (cm_client_kind h) (cm_files h) (cm_compose_image h) w = (q, w1)"
    by fastforce
  show ?thesis
  proof (cases q)
    case (Inl e)
    with assms a m that(1) show ?thesis by (auto simp: compose_start_def)
  next
    case (Inr cl)
    obtain p st w2 where b: "bring_stack_up io h (new_stack h cl, w1) = Some (p, (st, w2))"
      using assms a m Inr
      by (cases "bring_stack_up io h (new_stack h cl, w1)") (auto simp: compose_start_def)
    show ?thesis
    proof (cases p)
      case (Inl e)
      with assms a m Inr b that(2) show ?thesis by (auto simp: compose_start_def)
    next
      case (Inr u)
      with assms a m \<open>q = Inr cl\<close> b that(3) show ?thesis by (auto simp: compose_start_def Let_def)
    qed
  qed
qed

text \<open>Targets: those asked for, once each, on listen ports of their own.\<close>

definition target_pair :: "AmbassadorTarget \<Rightarrow> string \<times> string" where
  "target_pair t = (at_service t, port_to_string (at_service_port t))"

lemma collect_targets_inv:
  "collect_targets project services asked n targets ports = Inr (ts, ps) \<Longrightarrow>
     dom ports = set (map target_pair targets) \<Longrightarrow> distinct (map target_pair targets) \<Longrightarrow>
     dom ps = set (map target_pair ts) \<and> distinct (map target_pair ts) \<and>
     set (map target_pair ts) = set (map target_pair targets) \<union> (\<lambda>(s, p). (s, port_to_string p)) ` set asked \<and>
     (\<forall>(s, p) \<in> set asked. \<exists>l. services s = Some l \<and> l \<noteq> [])"
proof (induction project services asked n targets ports rule: collect_targets.induct)
  case (2 project services service port rest n targets ports)
  let ?t = "\<lparr>at_service = service, at_service_port = port,
    at_listen_port = \<lparr>cp_port = n, cp_proto = cp_proto port\<rparr>\<rparr>"
  have known: "\<exists>l. services service = Some l \<and> l \<noteq> []"
    using "2.prems"(1) by (cases "services service") (auto split: if_splits)
  then have k: "\<not> (services service = None \<or> services service = Some [])" by auto
  have tp: "target_pair ?t = (service, port_to_string port)" by (simp add: target_pair_def)
  show ?case
  proof (cases "ports (service, port_to_string port) = None")
    case True
    with "2.prems"(1) k have c: "collect_targets project services rest ((n + 1) mod 65536) (targets @ [?t])
        (ports((service, port_to_string port) \<mapsto> \<lparr>cp_port = n, cp_proto = cp_proto port\<rparr>)) = Inr (ts, ps)"
      by (simp add: Let_def)
    have "(service, port_to_string port) \<notin> set (map target_pair targets)"
      using True "2.prems"(2) by (metis domIff)
    then have d2: "distinct (map target_pair (targets @ [?t]))"
      using "2.prems"(3) tp by simp
    have d1: "dom (ports((service, port_to_string port) \<mapsto> \<lparr>cp_port = n, cp_proto = cp_proto port\<rparr>)) =
        set (map target_pair (targets @ [?t]))"
      using "2.prems"(2) tp by (simp only: dom_fun_upd option.simps if_False) auto
    have "\<not> ports (service, port_to_string port) \<noteq> None" using True by simp
    from "2.IH"(2) [OF k refl this c d1 d2] tp known show ?thesis by simp
  next
    case False
    with "2.prems"(1) k have c: "collect_targets project services rest n targets ports = Inr (ts, ps)"
      by (simp add: Let_def)
    have "(service, port_to_string port) \<in> set (map target_pair targets)"
      using False "2.prems"(2) by (metis domIff)
    with "2.IH"(1) [OF k refl False c "2.prems"(2,3)] known show ?thesis by auto
  qed
qed auto

text \<open>A timeout in seconds that does not fit in milliseconds.\<close>

lemma seconds_to_ms_fits: "- (2 ^ 63) \<le> s * 1000 \<Longrightarrow> s * 1000 < 2 ^ 63 \<Longrightarrow> seconds_to_ms s = s * 1000"
  by (simp add: seconds_to_ms_def)

lemma seconds_to_ms_forever: "seconds_to_ms (2 ^ 63 - 1) = - 1000"
  by (simp add: seconds_to_ms_def)

lemma probe_forever:
  assumes "cm_wait_timeout h = 2 ^ 63 - 1" "xs_instance x = 0"
    and "get_service_port io h (xs_service x) (xs_port x) w = Some (Inr port, w1)"
    and "get_service_host io h (xs_service x) w1 = Some (Inr host, w2)"
  shows "probe_exposed (Suc n) io h x w = Some (Inl (not_connected x port), w2)"
  using assms
  by (simp add: probe_exposed_def runThen_def seconds_to_ms_def saturated_add_def Let_def)

end
