(* ===== verification/Buildable.thy ===== *)
theory Buildable
  imports Images DockerIgnoreM
begin

section \<open>Images built from a context\<close>

text \<open>
  \<open>include/testcontainers/GenericBuildableImage.hpp\<close> and \<open>src/GenericBuildableImage.cpp\<close>: the
  description of a build, the expansion of its context into the files of the upload under the
  \<open>.dockerignore\<close> of each directory, and the build itself.  The client is the environment's.
\<close>

record 'c GenericBuildableImage =
  gb_name :: string
  gb_tag :: string
  gb_context :: "CopyToContainer list"
  gb_build_args :: "(string \<times> string) list"
  gb_target :: string
  gb_no_cache :: bool
  gb_pull :: bool
  gb_log_consumer :: "(string \<Rightarrow> 'c \<Rightarrow> 'c) option"

definition buildable_image :: "string \<Rightarrow> string \<Rightarrow> 'c GenericBuildableImage" where
  "buildable_image name tag =
     \<lparr>gb_name = name, gb_tag = tag, gb_context = [], gb_build_args = [], gb_target = [],
      gb_no_cache = False, gb_pull = False, gb_log_consumer = None\<rparr>"

definition add_entry :: "CopyToContainer \<Rightarrow> 'c GenericBuildableImage \<Rightarrow> 'c GenericBuildableImage" where
  "add_entry e b = b\<lparr>gb_context := gb_context b @ [e]\<rparr>"

definition with_dockerfile :: "string \<Rightarrow> 'c GenericBuildableImage \<Rightarrow> 'c GenericBuildableImage" where
  "with_dockerfile source_path = add_entry (host_file source_path ''Dockerfile'')"

definition with_dockerfile_string :: "string \<Rightarrow> 'c GenericBuildableImage \<Rightarrow> 'c GenericBuildableImage" where
  "with_dockerfile_string bytes = add_entry (host_content bytes ''Dockerfile'')"

definition with_file :: "string \<Rightarrow> string \<Rightarrow> 'c GenericBuildableImage \<Rightarrow> 'c GenericBuildableImage" where
  "with_file source_path target = add_entry (host_file source_path target)"

definition with_data :: "string \<Rightarrow> string \<Rightarrow> 'c GenericBuildableImage \<Rightarrow> 'c GenericBuildableImage" where
  "with_data bytes target = add_entry (host_content bytes target)"

definition with_build_arg ::
  "string \<Rightarrow> string \<Rightarrow> 'c GenericBuildableImage \<Rightarrow> 'c GenericBuildableImage" where
  "with_build_arg key val b = b\<lparr>gb_build_args := gb_build_args b @ [(key, val)]\<rparr>"

definition with_target :: "string \<Rightarrow> 'c GenericBuildableImage \<Rightarrow> 'c GenericBuildableImage" where
  "with_target stage b = b\<lparr>gb_target := stage\<rparr>"

definition with_no_cache :: "bool \<Rightarrow> 'c GenericBuildableImage \<Rightarrow> 'c GenericBuildableImage" where
  "with_no_cache no_cache b = b\<lparr>gb_no_cache := no_cache\<rparr>"

definition with_build_pull :: "bool \<Rightarrow> 'c GenericBuildableImage \<Rightarrow> 'c GenericBuildableImage" where
  "with_build_pull pull b = b\<lparr>gb_pull := pull\<rparr>"

definition with_build_log_consumer ::
  "(string \<Rightarrow> 'c \<Rightarrow> 'c) option \<Rightarrow> 'c GenericBuildableImage \<Rightarrow> 'c GenericBuildableImage" where
  "with_build_log_consumer consumer b = b\<lparr>gb_log_consumer := consumer\<rparr>"

definition build_descriptor :: "'c GenericBuildableImage \<Rightarrow> string" where
  "build_descriptor b = gb_name b @ '':'' @ gb_tag b"

subsection \<open>The context\<close>

text \<open>\<open>read_file\<close>: the bytes of a file, nothing when it cannot be read.\<close>

definition read_file_or_empty :: "host_fs \<Rightarrow> string \<Rightarrow> string" where
  "read_file_or_empty fs p = (case hf_read fs p of None \<Rightarrow> [] | Some bytes \<Rightarrow> bytes)"

text \<open>
  Whether a file of a walked directory ships: a \<open>Dockerfile\<close> at the context root gives way to one
  added by hand, it and the \<open>.dockerignore\<close> are otherwise exempt from the rules.
\<close>

definition ships :: "IgnorePattern list \<Rightarrow> bool \<Rightarrow> bool \<Rightarrow> walk_item \<Rightarrow> bool" where
  "ships patterns root_mapped skip_dockerfile item =
     (let rel = wk_rel item;
          always_shipped = root_mapped \<and> (rel = ''.dockerignore'' \<or> rel = ''Dockerfile'')
      in wk_kind item = WalkFile \<and> \<not> (root_mapped \<and> rel = ''Dockerfile'' \<and> skip_dockerfile) \<and>
         \<not> (\<not> always_shipped \<and> patterns \<noteq> [] \<and> dockerignore_excludes patterns rel))"

definition walked_file :: "string \<Rightarrow> int \<Rightarrow> walk_item \<Rightarrow> TarFile" where
  "walked_file target mode item =
     \<lparr>tx_name = path_join target (wk_rel item), tx_body = [], tx_mode = mode, tx_path = wk_path item\<rparr>"

definition cannot_walk :: "string \<Rightarrow> string \<Rightarrow> exn" where
  "cannot_walk src what =
     DockerError (''build context: cannot walk host directory '' @ quoted src @ '': '' @ what) None []"

definition dir_context :: "host_fs \<Rightarrow> string \<Rightarrow> string \<Rightarrow> int \<Rightarrow> bool \<Rightarrow> TarFile list res" where
  "dir_context fs src target mode skip_dockerfile =
     (let patterns = parse_dockerignore (read_file_or_empty fs (path_join src ''.dockerignore''));
          (items, failure) = hf_walk fs src
      in case failure of
           Some what \<Rightarrow> Inl (cannot_walk src what)
         | None \<Rightarrow>
             Inr (sort_key tx_name (map (walked_file target mode)
                    (filter (ships patterns (target = []) skip_dockerfile) items))))"

definition entry_context :: "host_fs \<Rightarrow> bool \<Rightarrow> CopyToContainer \<Rightarrow> TarFile list res" where
  "entry_context fs explicit_dockerfile e =
     (if cp_source e \<noteq> HostFile then
        Inr [\<lparr>tx_name = cp_target e, tx_body = cp_bytes e, tx_mode = cp_mode e, tx_path = []\<rparr>]
      else if hf_is_dir fs (cp_host_path e) then
        dir_context fs (cp_host_path e) (cp_target e) (cp_mode e) explicit_dockerfile
      else
        Inr [\<lparr>tx_name = cp_target e, tx_body = [], tx_mode = cp_mode e, tx_path = cp_host_path e\<rparr>])"

definition has_dockerfile :: "CopyToContainer list \<Rightarrow> bool" where
  "has_dockerfile entries \<longleftrightarrow>
     list_ex (\<lambda>e. cp_source e \<noteq> HostDir \<and> cp_target e = ''Dockerfile'') entries"

definition context_files :: "host_fs \<Rightarrow> CopyToContainer list \<Rightarrow> TarFile list res" where
  "context_files fs entries =
     try_bind (try_map (entry_context fs (has_dockerfile entries)) entries) (\<lambda>ess. Inr (concat ess))"

subsection \<open>The build\<close>

definition build_options :: "'w run_io \<Rightarrow> 'c GenericBuildableImage \<Rightarrow> BuildOptions" where
  "build_options rio b =
     \<lparr>bo_tag = build_descriptor b, bo_dockerfile = ''Dockerfile'', bo_build_args = gb_build_args b,
      bo_labels = testcontainers_labels rio, bo_target = gb_target b, bo_no_cache = gb_no_cache b,
      bo_pull = gb_pull b\<rparr>"

definition context_producer :: "'w run_io \<Rightarrow> TarFile list \<Rightarrow> producer" where
  "context_producer rio files =
     (let t = stream_context_tar (ro_fs rio) files in \<lparr>pr_blocks = ro_format rio t, pr_failure = snd t\<rparr>)"

text \<open>The state of the log consumer is handed on beside the image.\<close>

definition build ::
  "nat \<Rightarrow> 'w reap_io \<Rightarrow> 'c GenericBuildableImage \<Rightarrow> 'c \<Rightarrow>
    ('w client \<times> daemons, 'w GenericImage \<times> 'c) run" where
  "build fuel rio b consumed =
     (let run = rp_run rio in
      runThen (runs (lift_res (context_files (ro_fs run) (gb_context b)))) (\<lambda>files.
      runThen (ensure_started fuel rio) (\<lambda>_ (c, ds).
      map_option (\<lambda>(r, c1). (r, (c1, ds)))
        (runThen (settled (build_image (ro_stream run) (context_producer run files)
                             (build_options run b) (gb_log_consumer b) consumed)) (\<lambda>consumed'.
         runs (ret (generic_image (gb_name b) (gb_tag b), consumed'))) c))))"

subsection \<open>What a context holds\<close>

lemma dir_context_Inr:
  assumes "dir_context fs src target mode skip = Inr files" "f \<in> set files"
  obtains item where "item \<in> set (fst (hf_walk fs src))" "f = walked_file target mode item"
    "ships (parse_dockerignore (read_file_or_empty fs (path_join src ''.dockerignore''))) (target = []) skip item"
  using assms by (auto simp: dir_context_def Let_def split: option.splits prod.splits)

lemma context_files_Inr:
  assumes "context_files fs entries = Inr files" "f \<in> set files"
  obtains e fs' where "e \<in> set entries" "entry_context fs (has_dockerfile entries) e = Inr fs'" "f \<in> set fs'"
proof -
  obtain ess where m: "try_map (entry_context fs (has_dockerfile entries)) entries = Inr ess" "files = concat ess"
    using assms(1) by (auto simp: context_files_def try_bind_Inr)
  have "try_map g xs = Inr ess \<Longrightarrow> l \<in> set ess \<Longrightarrow> \<exists>x \<in> set xs. g x = Inr l"
    for g :: "CopyToContainer \<Rightarrow> TarFile list res" and xs ess l
    by (induction xs arbitrary: ess) (auto simp: try_bind_Inr)
  from this [OF m(1)] m(2) assms(2) that show ?thesis by auto
qed

text \<open>
  With a \<open>Dockerfile\<close> of its own, a context takes none from a walked directory; the directories
  must not be mapped to \<open>/\<close>, the one case the code does not see as the root.
\<close>

lemma walked_dockerfile:
  assumes "t \<noteq> ''/''" "strip_leading_slash (path_join t rel) = ''Dockerfile''"
  shows "t = [] \<and> (rel = ''Dockerfile'' \<or> rel = ''/Dockerfile'')"
proof -
  have no: "CHR ''/'' \<notin> set (strip_leading_slash (path_join t rel))" using assms(2) by simp
  show ?thesis
  proof (cases t)
    case Nil
    with assms(2) show ?thesis by (cases rel) (auto simp: path_join_def strip_leading_slash_def split: if_splits)
  next
    case (Cons c cs)
    have "CHR ''/'' \<in> set (strip_leading_slash (path_join t rel))"
    proof (cases "last t = CHR ''/''")
      case True
      then have "CHR ''/'' \<in> set cs" using Cons assms(1) by (cases cs rule: rev_cases) auto
      with True Cons show ?thesis by (auto simp: path_join_def strip_leading_slash_def)
    next
      case False
      with Cons show ?thesis by (auto simp: path_join_def strip_leading_slash_def)
    qed
    with no show ?thesis by simp
  qed
qed

lemma dockerfile_from_entry:
  assumes "context_files fs entries = Inr files" "has_dockerfile entries" "f \<in> set files"
    and "strip_leading_slash (tx_name f) = ''Dockerfile''"
    and "\<forall>e \<in> set entries. cp_target e \<noteq> ''/''"
    and "\<forall>src. \<forall>item \<in> set (fst (hf_walk fs src)). wk_rel item \<noteq> ''/Dockerfile''"
  shows "\<exists>e \<in> set entries. \<not> (cp_source e = HostFile \<and> hf_is_dir fs (cp_host_path e)) \<and>
    tx_name f = cp_target e"
proof -
  obtain e fs' where e: "e \<in> set entries" "entry_context fs True e = Inr fs'" "f \<in> set fs'"
    using context_files_Inr [OF assms(1,3)] assms(2) by auto
  have False if d: "cp_source e = HostFile \<and> hf_is_dir fs (cp_host_path e)"
  proof -
    have "dir_context fs (cp_host_path e) (cp_target e) (cp_mode e) True = Inr fs'"
      using e(2) d by (simp add: entry_context_def)
    from dir_context_Inr [OF this e(3)] obtain item where i:
      "item \<in> set (fst (hf_walk fs (cp_host_path e)))" "f = walked_file (cp_target e) (cp_mode e) item"
      "ships (parse_dockerignore (read_file_or_empty fs (path_join (cp_host_path e) ''.dockerignore'')))
        (cp_target e = []) True item" by blast
    have "cp_target e = [] \<and> (wk_rel item = ''Dockerfile'' \<or> wk_rel item = ''/Dockerfile'')"
      using assms(4,5) e(1) i(2) by (intro walked_dockerfile) (auto simp: walked_file_def)
    with i assms(6) show False by (auto simp: ships_def)
  qed
  with e show ?thesis by (auto simp: entry_context_def split: if_splits)
qed

text \<open>
  A directory mapped to \<open>/\<close> lands at the root of the context as well, but is not treated as mapped
  to it: its \<open>Dockerfile\<close> follows the one added by hand under the same entry name.
\<close>

lemma slash_shadows_dockerfile:
  assumes "hf_is_dir fs src" "hf_walk fs src = ([\<lparr>wk_rel = ''Dockerfile'', wk_kind = WalkFile, wk_path = p\<rparr>], None)"
    and "hf_read fs (path_join src ''.dockerignore'') = None"
  shows "\<exists>a b. context_files fs (gb_context (with_file src ''/'' (with_dockerfile_string ''FROM x''
           (buildable_image n t)))) = Inr [a, b] \<and>
    strip_leading_slash (tx_name a) = ''Dockerfile'' \<and> tx_body a = ''FROM x'' \<and>
    strip_leading_slash (tx_name b) = ''Dockerfile'' \<and> tx_path b = p"
proof -
  have "parse_dockerignore [] = []" by (simp add: parse_dockerignore_def List.map_filter_def)
  then show ?thesis
    using assms
    by (simp add: context_files_def with_file_def with_dockerfile_string_def buildable_image_def add_entry_def
        has_dockerfile_def host_file_def host_content_def entry_context_def dir_context_def
        read_file_or_empty_def ships_def walked_file_def path_join_def strip_leading_slash_def Let_def)
qed

end
