(* ===== verification/ConnString.thy ===== *)
theory ConnString
  imports ApiBuild
begin

section \<open>Connection strings\<close>

text \<open>
  \<open>include/testcontainers/ConnectionString.hpp\<close> and \<open>src/ConnectionString.cpp\<close>: the builder of
  \<open>scheme://[user[:password]@]host[:port][/database][?key=value&...]\<close>.  The reader \<open>read_url\<close> is
  not in the repository: it takes a URL apart by the rules of RFC 3986, each component at the first
  delimiter that ends it, and undoes the percent encoding.
\<close>

record ConnectionString =
  cx_scheme :: string
  cx_user :: "string option"
  cx_password :: "string option"
  cx_host :: string
  cx_port :: "nat option"
  cx_database :: "string option"
  cx_params :: "(string \<times> string) list"

definition connection_url :: "string \<Rightarrow> ConnectionString" where
  "connection_url scheme =
     \<lparr>cx_scheme = scheme, cx_user = None, cx_password = None, cx_host = [], cx_port = None,
      cx_database = None, cx_params = []\<rparr>"

definition with_url_user :: "string \<Rightarrow> ConnectionString \<Rightarrow> ConnectionString" where
  "with_url_user user cx = cx\<lparr>cx_user := Some user\<rparr>"

definition with_url_password :: "string \<Rightarrow> ConnectionString \<Rightarrow> ConnectionString" where
  "with_url_password password cx = cx\<lparr>cx_password := Some password\<rparr>"

definition with_url_host :: "string \<Rightarrow> ConnectionString \<Rightarrow> ConnectionString" where
  "with_url_host host cx = cx\<lparr>cx_host := host\<rparr>"

definition with_url_port :: "nat \<Rightarrow> ConnectionString \<Rightarrow> ConnectionString" where
  "with_url_port port cx = cx\<lparr>cx_port := Some port\<rparr>"

definition with_url_database :: "string \<Rightarrow> ConnectionString \<Rightarrow> ConnectionString" where
  "with_url_database database cx = cx\<lparr>cx_database := Some database\<rparr>"

definition with_url_param :: "string \<Rightarrow> string \<Rightarrow> ConnectionString \<Rightarrow> ConnectionString" where
  "with_url_param key val cx = cx\<lparr>cx_params := cx_params cx @ [(key, val)]\<rparr>"

lemmas url_defs = connection_url_def with_url_user_def with_url_password_def with_url_host_def
  with_url_port_def with_url_database_def with_url_param_def

subsection \<open>Rendering\<close>

definition render_userinfo :: "string option \<Rightarrow> string option \<Rightarrow> string" where
  "render_userinfo user password =
     (if user \<noteq> None \<or> password \<noteq> None then
        (case user of Some u \<Rightarrow> encode_component u | None \<Rightarrow> []) @
        (case password of Some p \<Rightarrow> '':'' @ encode_component p | None \<Rightarrow> []) @ ''@''
      else [])"

definition render_host :: "string \<Rightarrow> string" where
  "render_host host =
     (if host \<noteq> [] \<and> CHR '':'' \<in> set host \<and> hd host \<noteq> CHR ''['' then ''['' @ host @ '']'' else host)"

text \<open>The loop over the parameters with its separator.\<close>

fun render_params :: "char \<Rightarrow> (string \<times> string) list \<Rightarrow> string" where
  "render_params sep [] = []"
| "render_params sep ((key, val) # params) =
     [sep] @ encode_component key @ ''='' @ encode_component val @ render_params (CHR ''&'') params"

definition url_to_string :: "ConnectionString \<Rightarrow> string" where
  "url_to_string cx =
     cx_scheme cx @ ''://'' @ render_userinfo (cx_user cx) (cx_password cx) @ render_host (cx_host cx) @
     (case cx_port cx of Some p \<Rightarrow> '':'' @ to_dec p | None \<Rightarrow> []) @
     (case cx_database cx of Some d \<Rightarrow> ''/'' @ encode_component d | None \<Rightarrow> []) @
     render_params (CHR ''?'') (cx_params cx)"

subsection \<open>A reader of URLs\<close>

text \<open>What a URL says: the user information is there or not, and in it the password.\<close>

record url_view =
  uv_scheme :: string
  uv_userinfo :: "(string \<times> string option) option"
  uv_host :: string
  uv_port :: "nat option"
  uv_path :: "string option"
  uv_params :: "(string \<times> string) list"

definition read_userinfo :: "string \<Rightarrow> (string \<times> string option) option" where
  "read_userinfo s =
     (case split_first (CHR '':'') s of
        None \<Rightarrow> map_option (\<lambda>u. (u, None)) (percent_decode s)
      | Some (u, p) \<Rightarrow>
          (case (percent_decode u, percent_decode p) of
             (Some u', Some p') \<Rightarrow> Some (u', Some p') | _ \<Rightarrow> None))"

text \<open>Host and port: an address in brackets, or up to the first colon.\<close>

definition read_port :: "string \<Rightarrow> nat option option" where
  "read_port s =
     (case s of [] \<Rightarrow> Some None
      | c # ds \<Rightarrow> (if c = CHR '':'' then map_option Some (parse_dec 65535 ds) else None))"

definition read_host :: "string \<Rightarrow> (string \<times> nat option) option" where
  "read_host s =
     (if s \<noteq> [] \<and> hd s = CHR ''['' then
        (case split_first (CHR '']'') (tl s) of
           None \<Rightarrow> None | Some (h, rest) \<Rightarrow> map_option (\<lambda>p. (h, p)) (read_port rest))
      else
        (case split_first (CHR '':'') s of
           None \<Rightarrow> Some (s, None) | Some (h, ds) \<Rightarrow> map_option (\<lambda>p. (h, p)) (read_port (CHR '':'' # ds))))"

definition read_authority :: "string \<Rightarrow> ((string \<times> string option) option \<times> string \<times> nat option) option" where
  "read_authority s =
     (case split_first (CHR ''@'') s of
        None \<Rightarrow> map_option (\<lambda>(h, p). (None, h, p)) (read_host s)
      | Some (ui, hp) \<Rightarrow>
          (case (read_userinfo ui, read_host hp) of
             (Some u, Some (h, p)) \<Rightarrow> Some (Some u, h, p) | _ \<Rightarrow> None))"

definition read_param :: "string \<Rightarrow> (string \<times> string) option" where
  "read_param s =
     (case split_first (CHR ''='') s of
        None \<Rightarrow> None
      | Some (k, v) \<Rightarrow>
          (case (percent_decode k, percent_decode v) of (Some k', Some v') \<Rightarrow> Some (k', v') | _ \<Rightarrow> None))"

definition read_url :: "string \<Rightarrow> url_view option" where
  "read_url s =
     (case split_first (CHR '':'') s of
        None \<Rightarrow> None
      | Some (scheme, rest) \<Rightarrow>
          (if take 2 rest \<noteq> ''//'' then None
           else
             let hier = takeWhile (\<lambda>c. c \<noteq> CHR ''?'') (drop 2 rest);
                 query = drop (Suc (length hier)) (drop 2 rest);
                 authority = takeWhile (\<lambda>c. c \<noteq> CHR ''/'') hier;
                 path = drop (length authority) hier
             in case (read_authority authority, percent_decode (tl path),
                      if query = [] then Some [] else collect read_param (split_all (CHR ''&'') query)) of
                  (Some (ui, h, p), Some d, Some ps) \<Rightarrow>
                    Some \<lparr>uv_scheme = scheme, uv_userinfo = ui, uv_host = h, uv_port = p,
                          uv_path = (if path = [] then None else Some d), uv_params = ps\<rparr>
                | _ \<Rightarrow> None))"

text \<open>What a connection string means: a password alone has the empty user.\<close>

definition view_of :: "ConnectionString \<Rightarrow> url_view" where
  "view_of cx =
     \<lparr>uv_scheme = cx_scheme cx,
      uv_userinfo =
        (if cx_user cx = None \<and> cx_password cx = None then None
         else Some (case cx_user cx of Some u \<Rightarrow> u | None \<Rightarrow> [], cx_password cx)),
      uv_host = cx_host cx, uv_port = cx_port cx, uv_path = cx_database cx, uv_params = cx_params cx\<rparr>"

text \<open>The parts that are emitted as given must not hold a delimiter of their own.\<close>

definition url_ok :: "ConnectionString \<Rightarrow> bool" where
  "url_ok cx \<longleftrightarrow>
     CHR '':'' \<notin> set (cx_scheme cx) \<and> set (cx_host cx) \<inter> set ''/?@[]'' = {} \<and>
     (case cx_port cx of Some p \<Rightarrow> p \<le> 65535 | None \<Rightarrow> True)"

subsection \<open>Reading back\<close>

lemma encode_free [simp]:
  "CHR '':'' \<notin> set (encode_component s)" "CHR ''/'' \<notin> set (encode_component s)"
  "CHR ''@'' \<notin> set (encode_component s)" "CHR ''?'' \<notin> set (encode_component s)"
  "CHR ''&'' \<notin> set (encode_component s)" "CHR ''='' \<notin> set (encode_component s)"
  by (simp_all add: encode_component_no_sep)

lemma dec_free [simp]:
  "CHR '':'' \<notin> set (to_dec n)" "CHR ''/'' \<notin> set (to_dec n)" "CHR ''@'' \<notin> set (to_dec n)"
  "CHR ''?'' \<notin> set (to_dec n)"
  by (simp_all add: not_in_to_dec is_digit_iff)

lemmas [simp] = percent_decode_encode_component

definition userinfo_text :: "string option \<Rightarrow> string option \<Rightarrow> string" where
  "userinfo_text user password =
     (case user of Some u \<Rightarrow> encode_component u | None \<Rightarrow> []) @
     (case password of Some p \<Rightarrow> '':'' @ encode_component p | None \<Rightarrow> [])"

lemma userinfo_text_free: "CHR ''@'' \<notin> set (userinfo_text u p)" "CHR ''/'' \<notin> set (userinfo_text u p)"
  "CHR ''?'' \<notin> set (userinfo_text u p)"
  by (auto simp: userinfo_text_def split: option.splits)

lemma read_userinfo_text:
  "read_userinfo (userinfo_text user password) =
     Some (case user of Some u \<Rightarrow> u | None \<Rightarrow> [], password)"
proof -
  have [simp]: "split_first (CHR '':'') (CHR '':'' # b) = Some ([], b)" for b
    using split_first_eq [of "CHR '':''" "[]" b] by simp
  show ?thesis
    by (cases user; cases password) (simp_all add: userinfo_text_def read_userinfo_def)
qed

definition host_text :: "ConnectionString \<Rightarrow> string" where
  "host_text cx = render_host (cx_host cx) @ (case cx_port cx of Some p \<Rightarrow> '':'' @ to_dec p | None \<Rightarrow> [])"

lemma host_text_free:
  assumes "url_ok cx"
  shows "CHR ''@'' \<notin> set (host_text cx)" "CHR ''/'' \<notin> set (host_text cx)" "CHR ''?'' \<notin> set (host_text cx)"
  using assms by (auto simp: host_text_def render_host_def url_ok_def split: option.splits)

lemma read_port_text [simp]:
  "(case port of Some p \<Rightarrow> p \<le> 65535 | None \<Rightarrow> True) \<Longrightarrow>
   read_port (case port of Some p \<Rightarrow> '':'' @ to_dec p | None \<Rightarrow> []) = Some port"
  by (cases port) (simp_all add: read_port_def)

lemma read_host_text:
  assumes "url_ok cx"
  shows "read_host (host_text cx) = Some (cx_host cx, cx_port cx)"
proof (cases "CHR '':'' \<in> set (cx_host cx)")
  case True
  then have ne: "cx_host cx \<noteq> []" by auto
  have "CHR ''['' \<notin> set (cx_host cx)" using assms by (simp add: url_ok_def)
  with hd_in_set [OF ne] have "hd (cx_host cx) \<noteq> CHR ''[''" by metis
  with True ne have "host_text cx = CHR ''['' # cx_host cx @ CHR '']'' #
      (case cx_port cx of Some p \<Rightarrow> '':'' @ to_dec p | None \<Rightarrow> [])"
    by (simp add: host_text_def render_host_def)
  moreover have "CHR '']'' \<notin> set (cx_host cx)" using assms by (auto simp: url_ok_def)
  ultimately show ?thesis using assms by (simp add: read_host_def url_ok_def)
next
  case False
  then have h: "host_text cx = cx_host cx @ (case cx_port cx of Some p \<Rightarrow> '':'' @ to_dec p | None \<Rightarrow> [])"
    by (simp add: host_text_def render_host_def)
  have b: "\<not> (host_text cx \<noteq> [] \<and> hd (host_text cx) = CHR ''['')"
  proof (cases "cx_host cx")
    case Nil
    then show ?thesis by (cases "cx_port cx") (simp_all add: h)
  next
    case (Cons c cs)
    then show ?thesis using assms by (auto simp: h url_ok_def)
  qed
  show ?thesis
  proof (cases "cx_port cx")
    case None
    with False h b show ?thesis by (simp only: read_host_def if_False) simp
  next
    case (Some p)
    with assms have "p \<le> 65535" by (simp add: url_ok_def)
    then have "read_port (CHR '':'' # to_dec p) = Some (Some p)" by (simp add: read_port_def)
    with False h b Some show ?thesis by (simp only: read_host_def if_False) simp
  qed
qed

lemma read_authority_text:
  assumes "url_ok cx"
  shows "read_authority (render_userinfo (cx_user cx) (cx_password cx) @ host_text cx) =
     Some (uv_userinfo (view_of cx), cx_host cx, cx_port cx)"
proof (cases "cx_user cx = None \<and> cx_password cx = None")
  case True
  with host_text_free(1) [OF assms] read_host_text [OF assms] show ?thesis
    by (simp add: read_authority_def render_userinfo_def view_of_def)
next
  case False
  then have "render_userinfo (cx_user cx) (cx_password cx) =
      userinfo_text (cx_user cx) (cx_password cx) @ ''@''"
    by (simp add: render_userinfo_def userinfo_text_def)
  with False userinfo_text_free(1) read_host_text [OF assms] show ?thesis
    by (auto simp: read_authority_def read_userinfo_text view_of_def)
qed

definition param_text :: "string \<times> string \<Rightarrow> string" where
  "param_text kv = encode_component (fst kv) @ ''='' @ encode_component (snd kv)"

lemma render_params_join:
  "params \<noteq> [] \<Longrightarrow> render_params sep params = sep # join (map param_text params) ''&''"
proof (induction sep params rule: render_params.induct)
  case (2 sep key val params)
  then show ?case by (cases params) (auto simp: param_text_def join_Cons)
qed simp

lemma collect_read_param: "collect read_param (map param_text params) = Some params"
  by (induction params) (simp_all add: param_text_def read_param_def)

lemma read_params:
  "params \<noteq> [] \<Longrightarrow> join (map param_text params) ''&'' \<noteq> [] \<and>
     collect read_param (split_all (CHR ''&'') (join (map param_text params) ''&'')) = Some params"
proof -
  assume ne: "params \<noteq> []"
  have "split_all (CHR ''&'') (join (map param_text params) [CHR ''&'']) = map param_text params"
    using ne by (intro split_all_join) (auto simp: param_text_def)
  moreover have "join (map param_text params) ''&'' \<noteq> []"
    using ne by (cases params) (auto simp: param_text_def join_Cons)
  ultimately show ?thesis by (simp add: collect_read_param)
qed

lemma takeWhile_stop: "\<forall>x \<in> set xs. P x \<Longrightarrow> takeWhile P (xs @ ys) = xs @ takeWhile P ys"
  by (induction xs) auto

lemma read_url_to_string:
  assumes "url_ok cx"
  shows "read_url (url_to_string cx) = Some (view_of cx)"
proof -
  let ?auth = "render_userinfo (cx_user cx) (cx_password cx) @ host_text cx"
  let ?path = "case cx_database cx of Some d \<Rightarrow> ''/'' @ encode_component d | None \<Rightarrow> []"
  let ?query = "render_params (CHR ''?'') (cx_params cx)"
  have u: "url_to_string cx = cx_scheme cx @ CHR '':'' # CHR ''/'' # CHR ''/'' # ?auth @ ?path @ ?query"
    by (simp add: url_to_string_def host_text_def)
  have s: "split_first (CHR '':'') (url_to_string cx) =
      Some (cx_scheme cx, CHR ''/'' # CHR ''/'' # ?auth @ ?path @ ?query)"
    using assms unfolding u by (intro split_first_eq) (simp add: url_ok_def)
  have free: "\<forall>c \<in> set ?auth. c \<noteq> CHR ''?'' \<and> c \<noteq> CHR ''/''"
    using host_text_free [OF assms] userinfo_text_free [of "cx_user cx" "cx_password cx"]
    by (auto simp: render_userinfo_def userinfo_text_def split: option.splits)
  have pfree: "\<forall>c \<in> set ?path. c \<noteq> CHR ''?''" by (auto split: option.splits)
  have q: "takeWhile (\<lambda>c. c \<noteq> CHR ''?'') ?query = []"
    by (cases "cx_params cx") (auto simp: render_params_join)
  have hier: "takeWhile (\<lambda>c. c \<noteq> CHR ''?'') (?auth @ ?path @ ?query) = ?auth @ ?path"
    using free pfree q takeWhile_stop [of "?auth @ ?path" "\<lambda>c. c \<noteq> CHR ''?''" ?query] by auto
  have "takeWhile (\<lambda>c. c \<noteq> CHR ''/'') ?path = []" by (cases "cx_database cx") auto
  then have auth: "takeWhile (\<lambda>c. c \<noteq> CHR ''/'') (?auth @ ?path) = ?auth"
    using free takeWhile_stop [of ?auth "\<lambda>c. c \<noteq> CHR ''/''" ?path] by auto
  have path: "percent_decode (tl ?path) = Some (case cx_database cx of Some d \<Rightarrow> d | None \<Rightarrow> [])"
    "?path = [] \<longleftrightarrow> cx_database cx = None"
    by (cases "cx_database cx"; simp)+
  have params: "(if drop (Suc (length (?auth @ ?path))) (?auth @ ?path @ ?query) = [] then Some []
      else collect read_param (split_all (CHR ''&'') (drop (Suc (length (?auth @ ?path))) (?auth @ ?path @ ?query))))
      = Some (cx_params cx)"
    using read_params [of "cx_params cx"]
    by (cases "cx_params cx = []") (simp_all add: render_params_join)
  have t: "take 2 (CHR ''/'' # CHR ''/'' # ?auth @ ?path @ ?query) = ''//''"
    "drop 2 (CHR ''/'' # CHR ''/'' # ?auth @ ?path @ ?query) = ?auth @ ?path @ ?query"
    by (simp_all add: numeral_2_eq_2)
  have v: "\<lparr>uv_scheme = cx_scheme cx, uv_userinfo = uv_userinfo (view_of cx), uv_host = cx_host cx,
      uv_port = cx_port cx, uv_path = (if ?path = [] then None else
        Some (case cx_database cx of Some d \<Rightarrow> d | None \<Rightarrow> [])), uv_params = cx_params cx\<rparr> = view_of cx"
    by (cases "cx_database cx") (simp_all add: view_of_def)
  have d: "drop (length ?auth) (?auth @ ?path) = ?path" by simp
  show ?thesis
    unfolding read_url_def s option.case prod.case Let_def t hier auth d params path(1)
      read_authority_text [OF assms] by (simp only: v if_False simp_thms option.case prod.case)
qed

end
