(* ===== verification/ModuleDetail.thy ===== *)
theory ModuleDetail
  imports Images ConnString Occurrences "HOL-Library.List_Lexorder"
begin

section \<open>What the service modules share\<close>

text \<open>
  \<open>src/modules/ModuleDetail.cpp\<close> and the shape all modules of \<open>include/testcontainers/modules\<close>
  have: a description that embeds a generic image and a list of customizers, \<open>to_generic\<close> that
  renders it, and a running container whose host and ports are resolved once, when it started.
\<close>

subsection \<open>Descriptions\<close>

text \<open>A customizer is a callback of the caller, so it may throw.\<close>

type_synonym 'w customizer = "'w GenericImage \<Rightarrow> 'w GenericImage res"

record 'w module_image =
  mi_image :: "'w GenericImage"
  mi_customizers :: "'w customizer list"

definition on_image ::
  "('w GenericImage \<Rightarrow> 'w GenericImage) \<Rightarrow> ('w, 'z) module_image_scheme \<Rightarrow> ('w, 'z) module_image_scheme" where
  "on_image f m = m\<lparr>mi_image := f (mi_image m)\<rparr>"

definition add_customizer ::
  "'w customizer \<Rightarrow> ('w, 'z) module_image_scheme \<Rightarrow> ('w, 'z) module_image_scheme" where
  "add_customizer customize m = m\<lparr>mi_customizers := mi_customizers m @ [customize]\<rparr>"

fun customized :: "'w customizer list \<Rightarrow> 'w GenericImage \<Rightarrow> 'w GenericImage res" where
  "customized [] g = Inr g"
| "customized (c # cs) g = try_bind (c g) (customized cs)"

text \<open>The loops over staged copies and over waits, and the waits that replace a default.\<close>

definition copy_all :: "CopyToContainer list \<Rightarrow> 'w GenericImage \<Rightarrow> 'w GenericImage" where
  "copy_all sources g = foldl (\<lambda>g s. with_copy_to s g) g sources"

definition wait_all :: "WaitFor list \<Rightarrow> 'w GenericImage \<Rightarrow> 'w GenericImage" where
  "wait_all waits g = foldl (\<lambda>g w. with_wait w g) g waits"

definition waits_or :: "WaitFor list \<Rightarrow> WaitFor list \<Rightarrow> 'w GenericImage \<Rightarrow> 'w GenericImage" where
  "waits_or waits defaults = wait_all (if waits = [] then defaults else waits)"

definition env_all :: "(string \<times> string) list \<Rightarrow> 'w GenericImage \<Rightarrow> 'w GenericImage" where
  "env_all kvs g = foldl (\<lambda>g (k, v). with_env k v g) g kvs"

text \<open>The factories of \<open>wait_for\<close> that the modules use, with their defaults.\<close>

definition wait_log :: "string \<Rightarrow> WaitFor" where
  "wait_log t = LogMessage t 1 FromEither"

definition wait_http :: "string \<Rightarrow> ContainerPort \<Rightarrow> WaitFor" where
  "wait_http path port = Http path port 200 200"

definition listening_port :: "ContainerPort \<Rightarrow> WaitFor" where
  "listening_port port = Port port 200"

definition successful_command :: "string list \<Rightarrow> WaitFor" where
  "successful_command cmd = Command cmd 200"

definition successful_shell_command :: "string \<Rightarrow> WaitFor" where
  "successful_shell_command script = successful_command [''/bin/sh'', ''-c'', script]"

definition tcp :: "nat \<Rightarrow> ContainerPort" where
  "tcp p = \<lparr>cp_port = p, cp_proto = TcpProto\<rparr>"

subsection \<open>Init scripts\<close>

definition zero_pad4 :: "nat \<Rightarrow> string" where
  "zero_pad4 val = (let digits = to_dec val in replicate (4 - length digits) (CHR ''0'') @ digits)"

definition default_init_extensions :: "string list" where
  "default_init_extensions = [''.sql'', ''.sql.gz'', ''.sql.xz'', ''.sql.zst'', ''.sh'']"

definition has_extension :: "string \<Rightarrow> string \<Rightarrow> bool" where
  "has_extension name ext \<longleftrightarrow> length ext < length name \<and> ends_with ext name"

definition has_known_init_extension :: "string \<Rightarrow> string list \<Rightarrow> bool" where
  "has_known_init_extension name allowed \<longleftrightarrow> list_ex (has_extension name) allowed"

definition apostrophe :: string where
  "apostrophe = [CHR 0x27]"

definition double_quoted :: "string \<Rightarrow> string" where
  "double_quoted s = [CHR 0x22] @ s @ [CHR 0x22]"

definition too_many_scripts :: exn where
  "too_many_scripts = Error (''too many init scripts (the 0000- ordering prefix is four digits)'')"

definition check_init_script :: "string \<Rightarrow> nat \<Rightarrow> string \<Rightarrow> string list \<Rightarrow> unit res" where
  "check_init_script name i entrypoint_name allowed =
     (if \<not> has_known_init_extension name allowed then
        Inl (Error (''init script '' @ quoted name @ '' has an extension '' @
          entrypoint_name @ '' would silently ignore; use one of: '' @ join allowed '', ''))
      else if 10000 \<le> i then Inl too_many_scripts
      else Inr ())"

definition init_target :: "nat \<Rightarrow> string \<Rightarrow> string" where
  "init_target i name = ''/docker-entrypoint-initdb.d/'' @ zero_pad4 i @ ''-'' @ name"

text \<open>Mode 0755 is 493, the default of a copy 0644.\<close>

definition shipped_executable_if_sh :: "string \<Rightarrow> CopyToContainer \<Rightarrow> CopyToContainer" where
  "shipped_executable_if_sh name copy = (if ends_with ''.sh'' name then copy\<lparr>cp_mode := 493\<rparr> else copy)"

text \<open>\<open>std::filesystem::path::filename()\<close> on a POSIX path.\<close>

definition file_name :: "string \<Rightarrow> string" where
  "file_name p = (case rfind_char (CHR ''/'') p of None \<Rightarrow> p | Some i \<Rightarrow> drop (Suc i) p)"

definition stage_init_file :: "string \<Rightarrow> nat \<Rightarrow> string \<Rightarrow> string list \<Rightarrow> CopyToContainer res" where
  "stage_init_file host_path i entrypoint_name allowed =
     (let name = file_name host_path in
      try_bind (check_init_script name i entrypoint_name allowed) (\<lambda>_.
        Inr (shipped_executable_if_sh name (host_file host_path (init_target i name)))))"

definition not_a_bare_name :: "string \<Rightarrow> exn" where
  "not_a_bare_name name =
     Error (''init script name '' @ quoted name @ '' must be a bare file name'')"

definition bare_name :: "string \<Rightarrow> bool" where
  "bare_name name \<longleftrightarrow> name \<noteq> [] \<and> CHR ''/'' \<notin> set name \<and> CHR 0x5C \<notin> set name"

definition stage_init_content :: "string \<Rightarrow> string \<Rightarrow> nat \<Rightarrow> string \<Rightarrow> string list \<Rightarrow> CopyToContainer res" where
  "stage_init_content name bytes i entrypoint_name allowed =
     (if \<not> bare_name name then Inl (not_a_bare_name name)
      else
        try_bind (check_init_script name i entrypoint_name allowed) (\<lambda>_.
          Inr (shipped_executable_if_sh name (host_content bytes (init_target i name)))))"

text \<open>The overloads with the extensions of the standard entry point.\<close>

definition stage_default_file :: "string \<Rightarrow> nat \<Rightarrow> string \<Rightarrow> CopyToContainer res" where
  "stage_default_file host_path i entrypoint_name =
     stage_init_file host_path i entrypoint_name default_init_extensions"

definition stage_default_content :: "string \<Rightarrow> string \<Rightarrow> nat \<Rightarrow> string \<Rightarrow> CopyToContainer res" where
  "stage_default_content name bytes i entrypoint_name =
     stage_init_content name bytes i entrypoint_name default_init_extensions"

subsection \<open>Commands in the container\<close>

definition exec_in :: "'w run_io \<Rightarrow> string \<Rightarrow> string list \<Rightarrow> ('w client, ExecResult) run" where
  "exec_in rio cid cmd = settled (exec_captured (ro_stream rio) None cid cmd plain_exec)"

definition exec_failed :: "string \<Rightarrow> string \<Rightarrow> ExecResult \<Rightarrow> exn" where
  "exec_failed what cid res =
     DockerError (what @ '' failed (exit '' @ int_dec (er_exit_code res) @ ''): '' @
       (if er_stderr_data res = [] then er_stdout_data res else er_stderr_data res)) None cid"

definition exec_or_throw ::
  "'w run_io \<Rightarrow> string \<Rightarrow> string list \<Rightarrow> string \<Rightarrow> ('w client, ExecResult) run" where
  "exec_or_throw rio cid cmd what =
     runThen (exec_in rio cid cmd) (\<lambda>res.
       runs (if er_exit_code res \<noteq> 0 then throw (exec_failed what cid res) else ret res))"

fun run_each :: "('a \<Rightarrow> ('s, unit) run) \<Rightarrow> 'a list \<Rightarrow> ('s, unit) run" where
  "run_each f [] = runs (ret ())"
| "run_each f (x # xs) = runThen (f x) (\<lambda>_. run_each f xs)"

text \<open>
  A hook that runs commands, as the runner calls hooks.  A hook that has not returned has no
  outcome a caller could see; \<open>hook_of\<close> fixes one, and what is proved of a hook is proved of the
  run it stands for.
\<close>

definition hook_of :: "(string \<Rightarrow> ('w client, unit) run) \<Rightarrow> 'w hook" where
  "hook_of m = Some (\<lambda>cid c. case m cid c of None \<Rightarrow> (Inl (Foreign ''no outcome''), c) | Some r \<Rightarrow> r)"

text \<open>A command of a running container, \<open>Container::exec\<close>.\<close>

definition container_exec ::
  "'w run_io \<Rightarrow> string list \<Rightarrow> (('w, 'w handle) owned, ExecResult) run" where
  "container_exec rio cmd s =
     map_option (\<lambda>(r, c). (r, (c, snd s))) (exec_in rio (hd_id (snd s)) cmd (fst s))"

subsection \<open>Start\<close>

text \<open>The members of a running container: the host first, then the ports in order.\<close>

definition resolve_members ::
  "'w wait_io \<Rightarrow> ContainerPort list \<Rightarrow> (('w, 'w handle) owned, string \<times> nat list) act" where
  "resolve_members wio ports =
     andThen (gets (\<lambda>s. probe_host wio (fst s))) (\<lambda>host.
     andThen (each_map (get_host_port (wi_net wio)) ports) (\<lambda>host_ports. ret (host, host_ports)))"

text \<open>
  \<open>Module(to_generic().start(), ...)\<close>: an exception while the members are initialised destroys the
  container that is already a member.
\<close>

definition start_module ::
  "nat \<Rightarrow> 'w reap_io \<Rightarrow> ContainerPort list \<Rightarrow> 'w GenericImage res \<Rightarrow>
    ('w client \<times> daemons, ('w, 'w handle) owned \<times> string \<times> nat list) run" where
  "start_module fuel rio ports g =
     runThen (runs (lift_res g)) (\<lambda>generic.
     runThen (start_image fuel rio generic) (\<lambda>s (c, ds).
       case resolve_members (rp_wait rio) ports s of
         (Inl e, s1) \<Rightarrow> Some (Inl e, (see_world (fst (container_drop (rp_net rio) s1)) c, ds))
       | (Inr (host, host_ports), s1) \<Rightarrow> Some (Inr (s1, host, host_ports), (see_world (fst s1) c, ds))))"

record 'w module_container =
  mc_container :: "('w, 'w handle) owned"
  mc_host :: string
  mc_ports :: "nat list"

definition module_started :: "('w, 'w handle) owned \<times> string \<times> nat list \<Rightarrow> 'w module_container" where
  "module_started x = (case x of (s, host, ports) \<Rightarrow> \<lparr>mc_container = s, mc_host = host, mc_ports = ports\<rparr>)"

text \<open>The port of a module with one port, and of the second one of a module with two.\<close>

definition mc_port :: "('w, 'z) module_container_scheme \<Rightarrow> nat" where
  "mc_port h = mc_ports h ! 0"

definition mc_second_port :: "('w, 'z) module_container_scheme \<Rightarrow> nat" where
  "mc_second_port h = mc_ports h ! 1"

definition exec_on_module ::
  "'w run_io \<Rightarrow> string list \<Rightarrow> (('w, 'z) module_container_scheme, ExecResult) run" where
  "exec_on_module rio cmd h =
     map_option (\<lambda>(r, s). (r, h\<lparr>mc_container := s\<rparr>)) (container_exec rio cmd (mc_container h))"

definition plain_url :: "string \<Rightarrow> string \<Rightarrow> nat \<Rightarrow> string" where
  "plain_url scheme host port =
     url_to_string (with_url_port port (with_url_host host (connection_url scheme)))"

subsection \<open>Rendering and the environment\<close>

named_theorems render_env \<open>what the environment of a rendered image holds\<close>

lemma gi_env_builders [render_env]:
  "gi_env (with_env k v g) = gi_env g @ [(k, v)]" "gi_env (with_cmd cmd g) = gi_env g"
  "gi_env (with_copy_to s g) = gi_env g" "gi_env (with_wait w g) = gi_env g"
  "gi_env (with_label k v g) = gi_env g" "gi_env (with_started_hook h g) = gi_env g"
  by (simp_all add: builder_defs)

lemma gi_env_all [render_env]:
  "gi_env (env_all kvs g) = gi_env g @ kvs" "gi_env (copy_all cs g) = gi_env g"
  "gi_env (wait_all ws g) = gi_env g" "gi_env (waits_or ws ds g) = gi_env g"
proof -
  show "gi_env (env_all kvs g) = gi_env g @ kvs"
    by (induction kvs arbitrary: g) (auto simp: env_all_def gi_env_builders)
  show "gi_env (copy_all cs g) = gi_env g"
    by (induction cs arbitrary: g) (auto simp: copy_all_def gi_env_builders)
  have w: "gi_env (wait_all xs g) = gi_env g" for xs
    by (induction xs arbitrary: g) (auto simp: wait_all_def gi_env_builders)
  show "gi_env (wait_all ws g) = gi_env g" "gi_env (waits_or ws ds g) = gi_env g"
    by (simp_all add: w waits_or_def)
qed

text \<open>A customizer that leaves the environment alone.\<close>

definition keeps_env :: "'w customizer list \<Rightarrow> bool" where
  "keeps_env cs \<longleftrightarrow> (\<forall>c \<in> set cs. \<forall>g g'. c g = Inr g' \<longrightarrow> gi_env g' = gi_env g)"

lemma customized_env: "keeps_env cs \<Longrightarrow> customized cs g = Inr g' \<Longrightarrow> gi_env g' = gi_env g"
  by (induction cs arbitrary: g) (auto simp: keeps_env_def try_bind_Inr)

text \<open>
  What a process reads for a key that the image's shell entrypoint exports: the last entry.
\<close>

definition entrypoint_value :: "(string \<times> string) list \<Rightarrow> string \<Rightarrow> string option" where
  "entrypoint_value env key = map_of (rev env) key"

text \<open>
  A module whose rendering appends the entries it manages to those the caller passed through: the
  values it manages are what the server sees.
\<close>

locale managed_env =
  fixes check :: "'m \<Rightarrow> unit res" and render :: "'m \<Rightarrow> 'w GenericImage" and raw :: "'m \<Rightarrow> 'w GenericImage"
    and managed :: "'m \<Rightarrow> (string \<times> string) list" and customizers :: "'m \<Rightarrow> 'w customizer list"
  assumes appended: "gi_env (render m) = gi_env (raw m) @ managed m"
begin

lemma server_sees:
  assumes "try_bind (check m) (\<lambda>_. customized (customizers m) (render m)) = Inr g" "keeps_env (customizers m)"
  shows "entrypoint_value (gi_env g) k =
    (case entrypoint_value (managed m) k of Some v \<Rightarrow> Some v | None \<Rightarrow> entrypoint_value (gi_env (raw m)) k)"
proof -
  have "gi_env g = gi_env (raw m) @ managed m"
    using assms(1) customized_env [OF assms(2)] appended by (auto simp: try_bind_Inr)
  then show ?thesis by (simp add: entrypoint_value_def map_add_def split: option.split)
qed

lemma checked: "try_bind (check m) (\<lambda>_. customized (customizers m) (render m)) = Inr g \<Longrightarrow> check m = Inr ()"
  by (auto simp: try_bind_Inr)

end

subsection \<open>Staged files come in registration order\<close>

lemma zero_pad4_digits:
  assumes "n < 10000"
  shows "zero_pad4 n = map digit_char [n div 1000, n div 100 mod 10, n div 10 mod 10, n mod 10]"
proof -
  have d0: "digit_char 0 = CHR ''0''" by (simp add: digit_char_def char_of_def bit_0)
  have one: "to_dec m = [digit_char m]" if "m < 10" for m using that by (subst to_dec.simps) simp
  have step: "to_dec m = to_dec (m div 10) @ [digit_char (m mod 10)]" if "10 \<le> m" for m
    using that by (subst to_dec.simps) simp
  have dv: "n div 10 div 10 = n div 100" "n div 10 div 10 div 10 = n div 1000" "n div 100 div 10 = n div 1000"
    by (simp_all add: div_mult2_eq [symmetric])
  consider "n < 10" | "10 \<le> n" "n < 100" | "100 \<le> n" "n < 1000" | "1000 \<le> n" "n < 10000"
    using assms by linarith
  then show ?thesis
  proof cases
    case 1
    then show ?thesis by (simp add: zero_pad4_def one d0 numeral_3_eq_3)
  next
    case 2
    then have "to_dec n = [digit_char (n div 10), digit_char (n mod 10)]" "n div 100 = 0" "n div 1000 = 0"
      "n div 10 mod 10 = n div 10"
      by (auto simp: step one)
    then show ?thesis by (simp add: zero_pad4_def d0 numeral_2_eq_2)
  next
    case 3
    then have "n div 10 \<ge> 10" "n div 100 < 10" "n div 1000 = 0" by auto
    then have "to_dec n = [digit_char (n div 100), digit_char (n div 10 mod 10), digit_char (n mod 10)]"
      "n div 100 mod 10 = n div 100"
      using 3 step [of n] step [of "n div 10"] one [of "n div 100"] dv by auto
    with \<open>n div 1000 = 0\<close> show ?thesis by (simp add: zero_pad4_def d0)
  next
    case 4
    then have "n div 10 \<ge> 10" "n div 100 \<ge> 10" "n div 1000 < 10" by auto
    then have "to_dec n = [digit_char (n div 1000), digit_char (n div 100 mod 10), digit_char (n div 10 mod 10),
        digit_char (n mod 10)]"
      using 4 step [of n] step [of "n div 10"] step [of "n div 100"] one [of "n div 1000"] dv by auto
    then show ?thesis by (simp add: zero_pad4_def)
  qed
qed

lemma digit_char_less: "a < b \<Longrightarrow> b < 10 \<Longrightarrow> digit_char a < digit_char b"
  by (simp add: less_char_def)

lemma digit_char_eq: "a < 10 \<Longrightarrow> b < 10 \<Longrightarrow> digit_char a = digit_char b \<longleftrightarrow> a = b"
  by (metis of_char_digit add_left_cancel)

lemma digits_less:
  fixes a b c d a' b' c' d' :: nat
  assumes "1000 * a + 100 * b + 10 * c + d < 1000 * a' + 100 * b' + 10 * c' + d'"
    and "b < 10" "c < 10" "d < 10" "b' < 10" "c' < 10" "d' < 10"
  shows "a < a' \<or> a = a' \<and> (b < b' \<or> b = b' \<and> (c < c' \<or> c = c' \<and> d < d'))"
  using assms by linarith

lemma zero_pad4_less:
  assumes "i < j" "j < 10000"
  shows "zero_pad4 i @ x < zero_pad4 j @ y"
proof -
  have b: "i div 1000 < 10" "j div 1000 < 10" using assms by auto
  have lt: "i div 1000 < j div 1000 \<or> i div 1000 = j div 1000 \<and>
      (i div 100 mod 10 < j div 100 mod 10 \<or> i div 100 mod 10 = j div 100 mod 10 \<and>
        (i div 10 mod 10 < j div 10 mod 10 \<or> i div 10 mod 10 = j div 10 mod 10 \<and> i mod 10 < j mod 10))"
  proof -
    have e: "n = 1000 * (n div 1000) + 100 * (n div 100 mod 10) + 10 * (n div 10 mod 10) + n mod 10" for n :: nat
    proof -
      have q: "n div 1000 = n div 10 div 10 div 10" "n div 100 = n div 10 div 10"
        by (simp_all add: div_mult2_eq [symmetric])
      show ?thesis
        unfolding q
        using div_mult_mod_eq [of n 10] div_mult_mod_eq [of "n div 10" 10] div_mult_mod_eq [of "n div 10 div 10" 10]
        by linarith
    qed
    have "1000 * (i div 1000) + 100 * (i div 100 mod 10) + 10 * (i div 10 mod 10) + i mod 10 <
        1000 * (j div 1000) + 100 * (j div 100 mod 10) + 10 * (j div 10 mod 10) + j mod 10"
      unfolding e [of i, symmetric] e [of j, symmetric] by (rule assms(1))
    then show ?thesis by (rule digits_less) simp_all
  qed
  have d: "digit_char a < digit_char c \<longleftrightarrow> a < c" if "a < 10" "c < 10" for a c
    using that digit_char_less [of a c] digit_char_less [of c a] by (metis linorder_cases order_less_asym)
  show ?thesis
    using b assms
    by (simp add: zero_pad4_digits d digit_char_eq) (use lt in blast)
qed

lemma prefix_less [simp]: "(p @ x < p @ y) \<longleftrightarrow> x < (y :: string)"
  by (induction p) auto

text \<open>The files a module stages: numbered from a base, without gaps, in the order they were added.\<close>

definition numbered :: "string \<Rightarrow> nat \<Rightarrow> CopyToContainer list \<Rightarrow> bool" where
  "numbered dir base copies \<longleftrightarrow>
     base + length copies \<le> 10000 \<and>
     (\<forall>i < length copies. \<exists>name. cp_target (copies ! i) = dir @ zero_pad4 (base + i) @ name)"

lemma numbered_Nil [simp]: "numbered dir base [] \<longleftrightarrow> base \<le> 10000"
  by (simp add: numbered_def)

lemma numbered_snoc:
  assumes "numbered dir base copies" "base + length copies < 10000"
    and "cp_target c = dir @ zero_pad4 (base + length copies) @ name"
  shows "numbered dir base (copies @ [c])"
  using assms by (auto simp: numbered_def nth_append less_Suc_eq)

lemma numbered_ascending:
  assumes "numbered dir base copies"
  shows "sorted_wrt (<) (map cp_target copies)"
proof -
  have "map cp_target copies ! i < map cp_target copies ! j" if "i < j" "j < length copies" for i j
  proof -
    have "i < length copies" using that by simp
    then obtain x where "cp_target (copies ! i) = dir @ zero_pad4 (base + i) @ x"
      using assms by (auto simp: numbered_def)
    moreover from \<open>j < length copies\<close> obtain y where "cp_target (copies ! j) = dir @ zero_pad4 (base + j) @ y"
      using assms by (auto simp: numbered_def)
    ultimately show ?thesis using that assms by (auto simp: numbered_def intro!: zero_pad4_less)
  qed
  then show ?thesis by (simp add: sorted_wrt_iff_nth_less)
qed

text \<open>A script from a file of the host, or one given by name and bytes.\<close>

datatype script_source = OnHost string | InMemory string string

fun stage_all :: "('x \<Rightarrow> 'm \<Rightarrow> 'm res) \<Rightarrow> 'x list \<Rightarrow> 'm \<Rightarrow> 'm res" where
  "stage_all stage [] m = Inr m"
| "stage_all stage (x # xs) m = try_bind (stage x m) (stage_all stage xs)"

locale numbered_staging =
  fixes stage :: "'x \<Rightarrow> 'm \<Rightarrow> 'm res" and staged :: "'m \<Rightarrow> CopyToContainer list" and dir :: string and base :: nat
  assumes stage_one: "stage x m = Inr m' \<Longrightarrow> base + length (staged m) < 10000 \<and>
    (\<exists>c name. staged m' = staged m @ [c] \<and> cp_target c = dir @ zero_pad4 (base + length (staged m)) @ name)"
begin

lemma stage_numbered: "numbered dir base (staged m) \<Longrightarrow> stage x m = Inr m' \<Longrightarrow> numbered dir base (staged m')"
  using stage_one [of x m m'] by (auto intro: numbered_snoc)

lemma stage_all_numbered:
  "stage_all stage xs m = Inr m' \<Longrightarrow> numbered dir base (staged m) \<Longrightarrow>
     numbered dir base (staged m') \<and> length (staged m') = length (staged m) + length xs"
proof (induction xs arbitrary: m)
  case (Cons x xs)
  then obtain m1 where s: "stage x m = Inr m1" "stage_all stage xs m1 = Inr m'" by (auto simp: try_bind_Inr)
  with stage_one [OF s(1)] Cons.IH [OF s(2)] stage_numbered [OF Cons.prems(2) s(1)] show ?case by auto
qed simp

lemma stage_all_ascending:
  assumes "stage_all stage xs m = Inr m'" "staged m = []" "base \<le> 10000"
  shows "length (staged m') = length xs \<and> sorted_wrt (<) (map cp_target (staged m'))"
  using stage_all_numbered [OF assms(1)] assms(2,3) numbered_ascending by fastforce

end

lemma check_init_script_Inr: "check_init_script name i e allowed = Inr () \<longleftrightarrow>
    has_known_init_extension name allowed \<and> i < 10000"
  by (auto simp: check_init_script_def)

lemma stage_init_file_Inr:
  "stage_init_file p i e allowed = Inr c \<Longrightarrow>
     i < 10000 \<and> (\<exists>name. cp_target c = ''/docker-entrypoint-initdb.d/'' @ zero_pad4 i @ name)"
  by (auto simp: stage_init_file_def try_bind_Inr check_init_script_Inr shipped_executable_if_sh_def
      init_target_def host_file_def Let_def)

lemma stage_init_content_Inr:
  "stage_init_content n bytes i e allowed = Inr c \<Longrightarrow>
     i < 10000 \<and> (\<exists>name. cp_target c = ''/docker-entrypoint-initdb.d/'' @ zero_pad4 i @ name)"
  by (auto simp: stage_init_content_def try_bind_Inr check_init_script_Inr shipped_executable_if_sh_def
      init_target_def host_content_def split: if_splits)

subsection \<open>Starting\<close>

text \<open>A start that cannot resolve the endpoint gives the container up again.\<close>

lemma start_module_failed:
  assumes "start_module fuel rio ports g s = Some (Inl e, s')"
  shows "g = Inl e \<or> (\<exists>img. g = Inr img \<and> start_image fuel rio img s = Some (Inl e, s')) \<or>
    (\<exists>img own c ds s1. g = Inr img \<and> start_image fuel rio img s = Some (Inr own, (c, ds)) \<and>
       resolve_members (rp_wait rio) ports own = (Inl e, s1) \<and>
       s' = (see_world (fst (container_drop (rp_net rio) s1)) c, ds))"
  using assms
  by (auto simp: start_module_def runThen_def split: option.splits sum.splits prod.splits)

end
