(* ===== verification/SqlModules.thy ===== *)
theory SqlModules
  imports ModuleDetail Quoting
begin

section \<open>The database modules\<close>

text \<open>
  \<open>src/modules/PostgreSQL.cpp\<close>, \<open>MySqlFamily.cpp\<close> with its two shells \<open>MySQL.cpp\<close> and
  \<open>MariaDB.cpp\<close>, and \<open>ClickHouse.cpp\<close>: the descriptions, what they render, and what the running
  containers answer.
\<close>

subsection \<open>PostgreSQL\<close>

record 'w PostgreSQLImage = "'w module_image" +
  pg_username :: string
  pg_password :: string
  pg_database :: string
  pg_init_scripts :: "CopyToContainer list"
  pg_config_options :: "(string \<times> string) list"
  pg_waits :: "WaitFor list"

definition postgres_port :: nat where
  "postgres_port = 5432"

definition postgres_image :: "'w PostgreSQLImage" where
  "postgres_image =
     \<lparr>mi_image = with_exposed_port (tcp postgres_port) (from_reference ''postgres:16-alpine''),
      mi_customizers = [], pg_username = ''test'', pg_password = ''test'', pg_database = ''test'',
      pg_init_scripts = [], pg_config_options = [], pg_waits = []\<rparr>"

definition postgres_with_image ::
  "string \<Rightarrow> 'w PostgreSQLImage \<Rightarrow> 'w PostgreSQLImage" where
  "postgres_with_image reference = on_image (with_image reference)"

definition postgres_with_env ::
  "string \<Rightarrow> string \<Rightarrow> 'w PostgreSQLImage \<Rightarrow> 'w PostgreSQLImage" where
  "postgres_with_env key val = on_image (with_env key val)"

definition postgres_with_label ::
  "string \<Rightarrow> string \<Rightarrow> 'w PostgreSQLImage \<Rightarrow> 'w PostgreSQLImage" where
  "postgres_with_label key val = on_image (with_label key val)"

definition postgres_with_network ::
  "string \<Rightarrow> 'w PostgreSQLImage \<Rightarrow> 'w PostgreSQLImage" where
  "postgres_with_network network = on_image (with_network network)"

definition postgres_with_network_handle ::
  "network_handle \<Rightarrow> 'w PostgreSQLImage \<Rightarrow> 'w PostgreSQLImage" where
  "postgres_with_network_handle network = on_image (with_network (nh_name network))"

definition postgres_with_network_alias ::
  "string \<Rightarrow> 'w PostgreSQLImage \<Rightarrow> 'w PostgreSQLImage" where
  "postgres_with_network_alias alias = on_image (with_network_alias alias)"

definition postgres_with_reuse ::
  "bool \<Rightarrow> 'w PostgreSQLImage \<Rightarrow> 'w PostgreSQLImage" where
  "postgres_with_reuse b = on_image (with_reuse b)"

definition postgres_with_startup_timeout ::
  "int \<Rightarrow> 'w PostgreSQLImage \<Rightarrow> 'w PostgreSQLImage" where
  "postgres_with_startup_timeout timeout = on_image (with_startup_timeout timeout)"

definition postgres_with_startup_attempts ::
  "int \<Rightarrow> 'w PostgreSQLImage \<Rightarrow> 'w PostgreSQLImage" where
  "postgres_with_startup_attempts n = on_image (with_startup_attempts n)"

definition postgres_with_customizer ::
  "'w customizer \<Rightarrow> 'w PostgreSQLImage \<Rightarrow> 'w PostgreSQLImage" where
  "postgres_with_customizer customize = add_customizer customize"

definition postgres_with_username :: "string \<Rightarrow> 'w PostgreSQLImage \<Rightarrow> 'w PostgreSQLImage" where
  "postgres_with_username username m = m\<lparr>pg_username := username\<rparr>"

definition postgres_with_password :: "string \<Rightarrow> 'w PostgreSQLImage \<Rightarrow> 'w PostgreSQLImage" where
  "postgres_with_password password m = m\<lparr>pg_password := password\<rparr>"

definition postgres_with_database :: "string \<Rightarrow> 'w PostgreSQLImage \<Rightarrow> 'w PostgreSQLImage" where
  "postgres_with_database database m = m\<lparr>pg_database := database\<rparr>"

definition postgres_with_init_file :: "string \<Rightarrow> 'w PostgreSQLImage \<Rightarrow> 'w PostgreSQLImage res" where
  "postgres_with_init_file host_path m =
     try_bind (stage_init_file host_path (length (pg_init_scripts m)) ''the postgres entrypoint''
                 default_init_extensions) (\<lambda>copy.
       Inr (m\<lparr>pg_init_scripts := pg_init_scripts m @ [copy]\<rparr>))"

definition postgres_with_init_script ::
  "string \<Rightarrow> string \<Rightarrow> 'w PostgreSQLImage \<Rightarrow> 'w PostgreSQLImage res" where
  "postgres_with_init_script name bytes m =
     try_bind (stage_init_content name bytes (length (pg_init_scripts m)) ''the postgres entrypoint''
                 default_init_extensions) (\<lambda>copy.
       Inr (m\<lparr>pg_init_scripts := pg_init_scripts m @ [copy]\<rparr>))"

definition postgres_with_config_option ::
  "string \<Rightarrow> string \<Rightarrow> 'w PostgreSQLImage \<Rightarrow> 'w PostgreSQLImage" where
  "postgres_with_config_option key val m = m\<lparr>pg_config_options := pg_config_options m @ [(key, val)]\<rparr>"

definition postgres_with_wait :: "WaitFor \<Rightarrow> 'w PostgreSQLImage \<Rightarrow> 'w PostgreSQLImage" where
  "postgres_with_wait wait m = m\<lparr>pg_waits := pg_waits m @ [wait]\<rparr>"

definition refuses_empty_password :: exn where
  "refuses_empty_password =
     Error (''the postgres image refuses to boot with an empty POSTGRES_PASSWORD: '' @
       ''set with_password, or opt into a passwordless server explicitly with '' @
       ''with_env('' @ double_quoted ''POSTGRES_HOST_AUTH_METHOD'' @ '', '' @
       double_quoted ''trust'' @ '')'')"

definition postgres_check :: "'w PostgreSQLImage \<Rightarrow> unit res" where
  "postgres_check m =
     (if pg_username m = [] then
        Inl (Error ''PostgreSQL username must not be empty (with_username)'')
      else if pg_database m = [] then
        Inl (Error ''PostgreSQL database name must not be empty (with_database)'')
      else if pg_password m = [] \<and>
          foldl (\<lambda>auth (key, val). if key = ''POSTGRES_HOST_AUTH_METHOD'' then val else auth) []
            (gi_env (mi_image m)) \<noteq> ''trust'' then
        Inl refuses_empty_password
      else Inr ())"

definition postgres_cmd :: "(string \<times> string) list \<Rightarrow> string list" where
  "postgres_cmd opts = ''postgres'' # concat (map (\<lambda>(key, val). [''-c'', key @ ''='' @ val]) opts)"

definition postgres_probe :: "'w PostgreSQLImage \<Rightarrow> WaitFor" where
  "postgres_probe m =
     successful_command [''pg_isready'', ''-h'', ''127.0.0.1'', ''-p'', to_dec postgres_port, ''-U'',
       pg_username m, ''-d'', pg_database m]"

definition postgres_render :: "'w PostgreSQLImage \<Rightarrow> 'w GenericImage" where
  "postgres_render m =
     (let g = with_env ''POSTGRES_USER'' (pg_username m) (mi_image m);
          g = (if pg_password m = [] then g else with_env ''POSTGRES_PASSWORD'' (pg_password m) g);
          g = with_env ''POSTGRES_DB'' (pg_database m) g;
          g = (if pg_config_options m = [] then g else with_cmd (postgres_cmd (pg_config_options m)) g);
          g = copy_all (pg_init_scripts m) g
      in waits_or (pg_waits m) [postgres_probe m] g)"

definition postgres_to_generic :: "'w PostgreSQLImage \<Rightarrow> 'w GenericImage res" where
  "postgres_to_generic m =
     try_bind (postgres_check m) (\<lambda>_. customized (mi_customizers m) (postgres_render m))"

record 'w PostgreSQLContainer = "'w module_container" +
  pgc_username :: string
  pgc_password :: string
  pgc_database :: string

definition postgres_start ::
  "nat \<Rightarrow> 'w reap_io \<Rightarrow> 'w PostgreSQLImage \<Rightarrow> ('w client \<times> daemons, 'w PostgreSQLContainer) run" where
  "postgres_start fuel rio m =
     runThen (start_module fuel rio [tcp postgres_port] (postgres_to_generic m)) (\<lambda>x.
       runs (ret (module_container.extend (module_started x)
         \<lparr>pgc_username = pg_username m, pgc_password = pg_password m, pgc_database = pg_database m\<rparr>)))"

definition postgres_url :: "string \<Rightarrow> 'w PostgreSQLContainer \<Rightarrow> ConnectionString" where
  "postgres_url scheme h =
     (let url = with_url_user (pgc_username h) (connection_url scheme);
          url = (if pgc_password h = [] then url else with_url_password (pgc_password h) url)
      in with_url_database (pgc_database h) (with_url_port (mc_port h) (with_url_host (mc_host h) url)))"

definition postgres_connection_string_with_scheme :: "string \<Rightarrow> 'w PostgreSQLContainer \<Rightarrow> string" where
  "postgres_connection_string_with_scheme scheme h = url_to_string (postgres_url scheme h)"

definition postgres_connection_string :: "'w PostgreSQLContainer \<Rightarrow> string" where
  "postgres_connection_string = postgres_connection_string_with_scheme ''postgresql''"

definition postgres_conninfo :: "'w PostgreSQLContainer \<Rightarrow> string" where
  "postgres_conninfo h =
     ''host='' @ quote_conninfo_value (mc_host h) @ '' port='' @ to_dec (mc_port h) @
     '' dbname='' @ quote_conninfo_value (pgc_database h) @
     '' user='' @ quote_conninfo_value (pgc_username h) @
     (if pgc_password h = [] then [] else '' password='' @ quote_conninfo_value (pgc_password h))"

definition postgres_exec_sql ::
  "'w run_io \<Rightarrow> string \<Rightarrow> ('w PostgreSQLContainer, ExecResult) run" where
  "postgres_exec_sql rio sql h =
     exec_on_module rio
       [''psql'', ''-v'', ''ON_ERROR_STOP=1'', ''-X'', ''-tA'', ''-U'', pgc_username h, ''-d'',
        pgc_database h, ''-c'', sql] h"

subsection \<open>MySQL and MariaDB\<close>

text \<open>The customizers of the family's options are those of the embedded description.\<close>

record MySqlFamilyOptions =
  my_username :: string
  my_password :: string
  my_database :: string
  my_init_scripts :: "CopyToContainer list"
  my_command_args :: "string list"
  my_config_files :: "CopyToContainer list"
  my_waits :: "WaitFor list"

record MySqlFamilyFlavor =
  fl_display_name :: string
  fl_env_user :: string
  fl_env_password :: string
  fl_env_root_password :: string
  fl_env_allow_empty_root :: string
  fl_env_database :: string
  fl_ready_probe :: "MySqlFamilyOptions \<Rightarrow> string list"

record 'w family_image = "'w module_image" +
  fi_opts :: MySqlFamilyOptions

type_synonym 'w MySQLImage = "'w family_image"
type_synonym 'w MariaDBImage = "'w family_image"

definition default_options :: MySqlFamilyOptions where
  "default_options =
     \<lparr>my_username = ''test'', my_password = ''test'', my_database = ''test'', my_init_scripts = [],
      my_command_args = [], my_config_files = [], my_waits = []\<rparr>"

definition mysql_ready_probe :: "MySqlFamilyOptions \<Rightarrow> string list" where
  "mysql_ready_probe opts =
     [''mysqladmin'', ''ping'', ''-h127.0.0.1'', ''-u'' @ my_username opts] @
     (if my_password opts = [] then [] else [''-p'' @ my_password opts])"

definition mariadb_ready_probe :: "MySqlFamilyOptions \<Rightarrow> string list" where
  "mariadb_ready_probe opts = [''healthcheck.sh'', ''--connect'', ''--innodb_initialized'']"

definition mysql_flavor :: MySqlFamilyFlavor where
  "mysql_flavor =
     \<lparr>fl_display_name = ''MySQL'', fl_env_user = ''MYSQL_USER'', fl_env_password = ''MYSQL_PASSWORD'',
      fl_env_root_password = ''MYSQL_ROOT_PASSWORD'',
      fl_env_allow_empty_root = ''MYSQL_ALLOW_EMPTY_PASSWORD'', fl_env_database = ''MYSQL_DATABASE'',
      fl_ready_probe = mysql_ready_probe\<rparr>"

definition mariadb_flavor :: MySqlFamilyFlavor where
  "mariadb_flavor =
     \<lparr>fl_display_name = ''MariaDB'', fl_env_user = ''MARIADB_USER'', fl_env_password = ''MARIADB_PASSWORD'',
      fl_env_root_password = ''MARIADB_ROOT_PASSWORD'',
      fl_env_allow_empty_root = ''MARIADB_ALLOW_EMPTY_ROOT_PASSWORD'',
      fl_env_database = ''MARIADB_DATABASE'', fl_ready_probe = mariadb_ready_probe\<rparr>"

definition is_root_username :: "string \<Rightarrow> bool" where
  "is_root_username username \<longleftrightarrow> to_lower username = ''root''"

definition add_init_file :: "string \<Rightarrow> MySqlFamilyOptions \<Rightarrow> MySqlFamilyOptions res" where
  "add_init_file host_path opts =
     try_bind (stage_init_file host_path (length (my_init_scripts opts))
                 (''the image'' @ apostrophe @ ''s entrypoint'') default_init_extensions) (\<lambda>copy.
       Inr (opts\<lparr>my_init_scripts := my_init_scripts opts @ [copy]\<rparr>))"

definition add_init_script :: "string \<Rightarrow> string \<Rightarrow> MySqlFamilyOptions \<Rightarrow> MySqlFamilyOptions res" where
  "add_init_script name bytes opts =
     try_bind (stage_init_content name bytes (length (my_init_scripts opts))
                 (''the image'' @ apostrophe @ ''s entrypoint'') default_init_extensions) (\<lambda>copy.
       Inr (opts\<lparr>my_init_scripts := my_init_scripts opts @ [copy]\<rparr>))"

text \<open>The message of the refusal holds a dash in its UTF-8 bytes.\<close>

definition add_config_file :: "string \<Rightarrow> MySqlFamilyOptions \<Rightarrow> MySqlFamilyOptions res" where
  "add_config_file host_cnf opts =
     (let name = file_name host_cnf in
      if \<not> has_extension name ''.cnf'' then
        Inl (Error (''config file '' @ double_quoted name @ '' must be named *.cnf '' @
          [CHR 0xE2, CHR 0x80, CHR 0x94] @ '' the image'' @ apostrophe @
          ''s /etc/mysql/conf.d include glob would silently skip it''))
      else
        Inr (opts\<lparr>my_config_files := my_config_files opts @
               [host_file host_cnf (''/etc/mysql/conf.d/'' @ name)]\<rparr>))"

definition family_check :: "MySqlFamilyFlavor \<Rightarrow> MySqlFamilyOptions \<Rightarrow> unit res" where
  "family_check flavor opts =
     (if my_username opts = [] then
        Inl (Error (fl_display_name flavor @ '' username must not be empty (with_username)''))
      else if \<not> is_root_username (my_username opts) \<and> my_password opts = [] then
        Inl (Error (fl_display_name flavor @
          '' refuses to create a user with an empty password: set with_password, or '' @
          ''use with_username('' @ double_quoted ''root'' @ '') for a passwordless root server''))
      else Inr ())"

definition family_env :: "MySqlFamilyFlavor \<Rightarrow> MySqlFamilyOptions \<Rightarrow> (string \<times> string) list" where
  "family_env flavor opts =
     (if is_root_username (my_username opts) then
        (if my_password opts \<noteq> [] then [(fl_env_root_password flavor, my_password opts)]
         else [(fl_env_allow_empty_root flavor, ''yes'')])
      else
        [(fl_env_user flavor, my_username opts), (fl_env_password flavor, my_password opts),
         (fl_env_root_password flavor, my_password opts)]) @
     (if my_database opts = [] then [] else [(fl_env_database flavor, my_database opts)])"

definition family_render :: "MySqlFamilyFlavor \<Rightarrow> 'w GenericImage \<Rightarrow> MySqlFamilyOptions \<Rightarrow> 'w GenericImage" where
  "family_render flavor base opts =
     (let g = env_all (family_env flavor opts) base;
          g = copy_all (my_config_files opts) (copy_all (my_init_scripts opts) g);
          g = (if my_command_args opts = [] then g else with_cmd (my_command_args opts) g)
      in waits_or (my_waits opts) [Command (fl_ready_probe flavor opts) 500] g)"

definition render_family :: "MySqlFamilyFlavor \<Rightarrow> 'w family_image \<Rightarrow> 'w GenericImage res" where
  "render_family flavor m =
     try_bind (family_check flavor (fi_opts m)) (\<lambda>_.
       customized (mi_customizers m) (family_render flavor (mi_image m) (fi_opts m)))"

definition family_url :: "string \<Rightarrow> string \<Rightarrow> string \<Rightarrow> nat \<Rightarrow> string \<Rightarrow> ConnectionString" where
  "family_url username password host port database =
     (let url = with_url_user username (connection_url ''mysql'');
          url = (if password = [] then url else with_url_password password url);
          url = with_url_port port (with_url_host host url)
      in if database = [] then url else with_url_database database url)"

definition family_connection_string :: "string \<Rightarrow> string \<Rightarrow> string \<Rightarrow> nat \<Rightarrow> string \<Rightarrow> string" where
  "family_connection_string username password host port database =
     url_to_string (family_url username password host port database)"

definition on_opts ::
  "(MySqlFamilyOptions \<Rightarrow> MySqlFamilyOptions) \<Rightarrow> 'w family_image \<Rightarrow> 'w family_image" where
  "on_opts f m = m\<lparr>fi_opts := f (fi_opts m)\<rparr>"

definition on_opts_res ::
  "(MySqlFamilyOptions \<Rightarrow> MySqlFamilyOptions res) \<Rightarrow> 'w family_image \<Rightarrow> 'w family_image res" where
  "on_opts_res f m = try_bind (f (fi_opts m)) (\<lambda>opts. Inr (m\<lparr>fi_opts := opts\<rparr>))"

text \<open>A root user in any spelling becomes \<open>root\<close>.\<close>

definition normalized_username :: "string \<Rightarrow> string" where
  "normalized_username username = (if is_root_username username then ''root'' else username)"

definition family_port :: nat where
  "family_port = 3306"

record 'w family_container = "'w module_container" +
  myc_username :: string
  myc_password :: string
  myc_database :: string

subsubsection \<open>MySQL\<close>

definition mysql_image :: "'w MySQLImage" where
  "mysql_image =
     \<lparr>mi_image = with_startup_timeout 120000
        (with_exposed_port (tcp family_port) (from_reference ''mysql:8.4'')),
      mi_customizers = [], fi_opts = default_options\<rparr>"

definition mysql_with_image ::
  "string \<Rightarrow> 'w MySQLImage \<Rightarrow> 'w MySQLImage" where
  "mysql_with_image reference = on_image (with_image reference)"

definition mysql_with_env ::
  "string \<Rightarrow> string \<Rightarrow> 'w MySQLImage \<Rightarrow> 'w MySQLImage" where
  "mysql_with_env key val = on_image (with_env key val)"

definition mysql_with_label ::
  "string \<Rightarrow> string \<Rightarrow> 'w MySQLImage \<Rightarrow> 'w MySQLImage" where
  "mysql_with_label key val = on_image (with_label key val)"

definition mysql_with_network ::
  "string \<Rightarrow> 'w MySQLImage \<Rightarrow> 'w MySQLImage" where
  "mysql_with_network network = on_image (with_network network)"

definition mysql_with_network_handle ::
  "network_handle \<Rightarrow> 'w MySQLImage \<Rightarrow> 'w MySQLImage" where
  "mysql_with_network_handle network = on_image (with_network (nh_name network))"

definition mysql_with_network_alias ::
  "string \<Rightarrow> 'w MySQLImage \<Rightarrow> 'w MySQLImage" where
  "mysql_with_network_alias alias = on_image (with_network_alias alias)"

definition mysql_with_reuse :: "bool \<Rightarrow> 'w MySQLImage \<Rightarrow> 'w MySQLImage" where
  "mysql_with_reuse b = on_image (with_reuse b)"

definition mysql_with_startup_timeout ::
  "int \<Rightarrow> 'w MySQLImage \<Rightarrow> 'w MySQLImage" where
  "mysql_with_startup_timeout timeout = on_image (with_startup_timeout timeout)"

definition mysql_with_startup_attempts ::
  "int \<Rightarrow> 'w MySQLImage \<Rightarrow> 'w MySQLImage" where
  "mysql_with_startup_attempts n = on_image (with_startup_attempts n)"

definition mysql_with_customizer ::
  "'w customizer \<Rightarrow> 'w MySQLImage \<Rightarrow> 'w MySQLImage" where
  "mysql_with_customizer customize = add_customizer customize"

definition mysql_with_username :: "string \<Rightarrow> 'w MySQLImage \<Rightarrow> 'w MySQLImage" where
  "mysql_with_username username = on_opts (\<lambda>opts. opts\<lparr>my_username := normalized_username username\<rparr>)"

definition mysql_with_password :: "string \<Rightarrow> 'w MySQLImage \<Rightarrow> 'w MySQLImage" where
  "mysql_with_password password = on_opts (\<lambda>opts. opts\<lparr>my_password := password\<rparr>)"

definition mysql_with_database :: "string \<Rightarrow> 'w MySQLImage \<Rightarrow> 'w MySQLImage" where
  "mysql_with_database database = on_opts (\<lambda>opts. opts\<lparr>my_database := database\<rparr>)"

definition mysql_with_init_file :: "string \<Rightarrow> 'w MySQLImage \<Rightarrow> 'w MySQLImage res" where
  "mysql_with_init_file host_path = on_opts_res (add_init_file host_path)"

definition mysql_with_init_script ::
  "string \<Rightarrow> string \<Rightarrow> 'w MySQLImage \<Rightarrow> 'w MySQLImage res" where
  "mysql_with_init_script name bytes = on_opts_res (add_init_script name bytes)"

definition mysql_with_config_file :: "string \<Rightarrow> 'w MySQLImage \<Rightarrow> 'w MySQLImage res" where
  "mysql_with_config_file host_cnf = on_opts_res (add_config_file host_cnf)"

definition mysql_with_command_arg :: "string \<Rightarrow> 'w MySQLImage \<Rightarrow> 'w MySQLImage" where
  "mysql_with_command_arg arg = on_opts (\<lambda>opts. opts\<lparr>my_command_args := my_command_args opts @ [arg]\<rparr>)"

definition mysql_with_command_args :: "string list \<Rightarrow> 'w MySQLImage \<Rightarrow> 'w MySQLImage" where
  "mysql_with_command_args args = on_opts (\<lambda>opts. opts\<lparr>my_command_args := my_command_args opts @ args\<rparr>)"

definition mysql_with_wait :: "WaitFor \<Rightarrow> 'w MySQLImage \<Rightarrow> 'w MySQLImage" where
  "mysql_with_wait wait = on_opts (\<lambda>opts. opts\<lparr>my_waits := my_waits opts @ [wait]\<rparr>)"

definition mysql_to_generic :: "'w MySQLImage \<Rightarrow> 'w GenericImage res" where
  "mysql_to_generic = render_family mysql_flavor"

definition mysql_start ::
  "nat \<Rightarrow> 'w reap_io \<Rightarrow> 'w MySQLImage \<Rightarrow> ('w client \<times> daemons, 'w family_container) run" where
  "mysql_start fuel rio m =
     runThen (start_module fuel rio [tcp family_port] (mysql_to_generic m)) (\<lambda>x.
       runs (ret (module_container.extend (module_started x)
         \<lparr>myc_username = my_username (fi_opts m), myc_password = my_password (fi_opts m),
          myc_database = my_database (fi_opts m)\<rparr>)))"

definition mysql_connection_string :: "'w family_container \<Rightarrow> string" where
  "mysql_connection_string h =
     family_connection_string (myc_username h) (myc_password h) (mc_host h) (mc_port h) (myc_database h)"

subsubsection \<open>MariaDB\<close>

definition mariadb_image :: "'w MariaDBImage" where
  "mariadb_image =
     \<lparr>mi_image = with_startup_timeout 120000
        (with_exposed_port (tcp family_port) (from_reference ''mariadb:11'')),
      mi_customizers = [], fi_opts = default_options\<rparr>"

definition mariadb_with_image ::
  "string \<Rightarrow> 'w MariaDBImage \<Rightarrow> 'w MariaDBImage" where
  "mariadb_with_image reference = on_image (with_image reference)"

definition mariadb_with_env ::
  "string \<Rightarrow> string \<Rightarrow> 'w MariaDBImage \<Rightarrow> 'w MariaDBImage" where
  "mariadb_with_env key val = on_image (with_env key val)"

definition mariadb_with_label ::
  "string \<Rightarrow> string \<Rightarrow> 'w MariaDBImage \<Rightarrow> 'w MariaDBImage" where
  "mariadb_with_label key val = on_image (with_label key val)"

definition mariadb_with_network ::
  "string \<Rightarrow> 'w MariaDBImage \<Rightarrow> 'w MariaDBImage" where
  "mariadb_with_network network = on_image (with_network network)"

definition mariadb_with_network_handle ::
  "network_handle \<Rightarrow> 'w MariaDBImage \<Rightarrow> 'w MariaDBImage" where
  "mariadb_with_network_handle network = on_image (with_network (nh_name network))"

definition mariadb_with_network_alias ::
  "string \<Rightarrow> 'w MariaDBImage \<Rightarrow> 'w MariaDBImage" where
  "mariadb_with_network_alias alias = on_image (with_network_alias alias)"

definition mariadb_with_reuse ::
  "bool \<Rightarrow> 'w MariaDBImage \<Rightarrow> 'w MariaDBImage" where
  "mariadb_with_reuse b = on_image (with_reuse b)"

definition mariadb_with_startup_timeout ::
  "int \<Rightarrow> 'w MariaDBImage \<Rightarrow> 'w MariaDBImage" where
  "mariadb_with_startup_timeout timeout = on_image (with_startup_timeout timeout)"

definition mariadb_with_startup_attempts ::
  "int \<Rightarrow> 'w MariaDBImage \<Rightarrow> 'w MariaDBImage" where
  "mariadb_with_startup_attempts n = on_image (with_startup_attempts n)"

definition mariadb_with_customizer ::
  "'w customizer \<Rightarrow> 'w MariaDBImage \<Rightarrow> 'w MariaDBImage" where
  "mariadb_with_customizer customize = add_customizer customize"

definition mariadb_with_username :: "string \<Rightarrow> 'w MariaDBImage \<Rightarrow> 'w MariaDBImage" where
  "mariadb_with_username username = on_opts (\<lambda>opts. opts\<lparr>my_username := normalized_username username\<rparr>)"

definition mariadb_with_password :: "string \<Rightarrow> 'w MariaDBImage \<Rightarrow> 'w MariaDBImage" where
  "mariadb_with_password password = on_opts (\<lambda>opts. opts\<lparr>my_password := password\<rparr>)"

definition mariadb_with_database :: "string \<Rightarrow> 'w MariaDBImage \<Rightarrow> 'w MariaDBImage" where
  "mariadb_with_database database = on_opts (\<lambda>opts. opts\<lparr>my_database := database\<rparr>)"

definition mariadb_with_init_file :: "string \<Rightarrow> 'w MariaDBImage \<Rightarrow> 'w MariaDBImage res" where
  "mariadb_with_init_file host_path = on_opts_res (add_init_file host_path)"

definition mariadb_with_init_script ::
  "string \<Rightarrow> string \<Rightarrow> 'w MariaDBImage \<Rightarrow> 'w MariaDBImage res" where
  "mariadb_with_init_script name bytes = on_opts_res (add_init_script name bytes)"

definition mariadb_with_config_file :: "string \<Rightarrow> 'w MariaDBImage \<Rightarrow> 'w MariaDBImage res" where
  "mariadb_with_config_file host_cnf = on_opts_res (add_config_file host_cnf)"

definition mariadb_with_command_arg :: "string \<Rightarrow> 'w MariaDBImage \<Rightarrow> 'w MariaDBImage" where
  "mariadb_with_command_arg arg = on_opts (\<lambda>opts. opts\<lparr>my_command_args := my_command_args opts @ [arg]\<rparr>)"

definition mariadb_with_command_args :: "string list \<Rightarrow> 'w MariaDBImage \<Rightarrow> 'w MariaDBImage" where
  "mariadb_with_command_args args = on_opts (\<lambda>opts. opts\<lparr>my_command_args := my_command_args opts @ args\<rparr>)"

definition mariadb_with_wait :: "WaitFor \<Rightarrow> 'w MariaDBImage \<Rightarrow> 'w MariaDBImage" where
  "mariadb_with_wait wait = on_opts (\<lambda>opts. opts\<lparr>my_waits := my_waits opts @ [wait]\<rparr>)"

definition mariadb_to_generic :: "'w MariaDBImage \<Rightarrow> 'w GenericImage res" where
  "mariadb_to_generic = render_family mariadb_flavor"

definition mariadb_start ::
  "nat \<Rightarrow> 'w reap_io \<Rightarrow> 'w MariaDBImage \<Rightarrow> ('w client \<times> daemons, 'w family_container) run" where
  "mariadb_start fuel rio m =
     runThen (start_module fuel rio [tcp family_port] (mariadb_to_generic m)) (\<lambda>x.
       runs (ret (module_container.extend (module_started x)
         \<lparr>myc_username = my_username (fi_opts m), myc_password = my_password (fi_opts m),
          myc_database = my_database (fi_opts m)\<rparr>)))"

definition mariadb_connection_string :: "'w family_container \<Rightarrow> string" where
  "mariadb_connection_string h =
     family_connection_string (myc_username h) (myc_password h) (mc_host h) (mc_port h) (myc_database h)"

subsection \<open>ClickHouse\<close>

record 'w ClickHouseImage = "'w module_image" +
  ch_username :: string
  ch_password :: string
  ch_database :: string
  ch_init_scripts :: "CopyToContainer list"
  ch_config_files :: "CopyToContainer list"
  ch_waits :: "WaitFor list"

definition clickhouse_http_port :: nat where
  "clickhouse_http_port = 8123"

definition clickhouse_native_port :: nat where
  "clickhouse_native_port = 9000"

definition clickhouse_init_extensions :: "string list" where
  "clickhouse_init_extensions = [''.sql'', ''.sql.gz'', ''.sh'']"

definition clickhouse_image :: "'w ClickHouseImage" where
  "clickhouse_image =
     \<lparr>mi_image = with_exposed_port (tcp clickhouse_native_port)
        (with_exposed_port (tcp clickhouse_http_port) (from_reference ''clickhouse:26.3'')),
      mi_customizers = [], ch_username = ''test'', ch_password = ''test'', ch_database = ''test'',
      ch_init_scripts = [], ch_config_files = [], ch_waits = []\<rparr>"

definition clickhouse_with_image ::
  "string \<Rightarrow> 'w ClickHouseImage \<Rightarrow> 'w ClickHouseImage" where
  "clickhouse_with_image reference = on_image (with_image reference)"

definition clickhouse_with_env ::
  "string \<Rightarrow> string \<Rightarrow> 'w ClickHouseImage \<Rightarrow> 'w ClickHouseImage" where
  "clickhouse_with_env key val = on_image (with_env key val)"

definition clickhouse_with_label ::
  "string \<Rightarrow> string \<Rightarrow> 'w ClickHouseImage \<Rightarrow> 'w ClickHouseImage" where
  "clickhouse_with_label key val = on_image (with_label key val)"

definition clickhouse_with_network ::
  "string \<Rightarrow> 'w ClickHouseImage \<Rightarrow> 'w ClickHouseImage" where
  "clickhouse_with_network network = on_image (with_network network)"

definition clickhouse_with_network_handle ::
  "network_handle \<Rightarrow> 'w ClickHouseImage \<Rightarrow> 'w ClickHouseImage" where
  "clickhouse_with_network_handle network = on_image (with_network (nh_name network))"

definition clickhouse_with_network_alias ::
  "string \<Rightarrow> 'w ClickHouseImage \<Rightarrow> 'w ClickHouseImage" where
  "clickhouse_with_network_alias alias = on_image (with_network_alias alias)"

definition clickhouse_with_reuse ::
  "bool \<Rightarrow> 'w ClickHouseImage \<Rightarrow> 'w ClickHouseImage" where
  "clickhouse_with_reuse b = on_image (with_reuse b)"

definition clickhouse_with_startup_timeout ::
  "int \<Rightarrow> 'w ClickHouseImage \<Rightarrow> 'w ClickHouseImage" where
  "clickhouse_with_startup_timeout timeout = on_image (with_startup_timeout timeout)"

definition clickhouse_with_startup_attempts ::
  "int \<Rightarrow> 'w ClickHouseImage \<Rightarrow> 'w ClickHouseImage" where
  "clickhouse_with_startup_attempts n = on_image (with_startup_attempts n)"

definition clickhouse_with_customizer ::
  "'w customizer \<Rightarrow> 'w ClickHouseImage \<Rightarrow> 'w ClickHouseImage" where
  "clickhouse_with_customizer customize = add_customizer customize"

definition clickhouse_with_username :: "string \<Rightarrow> 'w ClickHouseImage \<Rightarrow> 'w ClickHouseImage" where
  "clickhouse_with_username username m = m\<lparr>ch_username := username\<rparr>"

definition clickhouse_with_password :: "string \<Rightarrow> 'w ClickHouseImage \<Rightarrow> 'w ClickHouseImage" where
  "clickhouse_with_password password m = m\<lparr>ch_password := password\<rparr>"

definition clickhouse_with_database :: "string \<Rightarrow> 'w ClickHouseImage \<Rightarrow> 'w ClickHouseImage" where
  "clickhouse_with_database database m = m\<lparr>ch_database := database\<rparr>"

definition clickhouse_with_init_file :: "string \<Rightarrow> 'w ClickHouseImage \<Rightarrow> 'w ClickHouseImage res" where
  "clickhouse_with_init_file host_path m =
     try_bind (stage_init_file host_path (length (ch_init_scripts m)) ''the clickhouse entrypoint''
                 clickhouse_init_extensions) (\<lambda>copy.
       Inr (m\<lparr>ch_init_scripts := ch_init_scripts m @ [copy]\<rparr>))"

definition clickhouse_with_init_script ::
  "string \<Rightarrow> string \<Rightarrow> 'w ClickHouseImage \<Rightarrow> 'w ClickHouseImage res" where
  "clickhouse_with_init_script name bytes m =
     try_bind (stage_init_content name bytes (length (ch_init_scripts m)) ''the clickhouse entrypoint''
                 clickhouse_init_extensions) (\<lambda>copy.
       Inr (m\<lparr>ch_init_scripts := ch_init_scripts m @ [copy]\<rparr>))"

definition clickhouse_with_config_file :: "string \<Rightarrow> 'w ClickHouseImage \<Rightarrow> 'w ClickHouseImage res" where
  "clickhouse_with_config_file host_config m =
     (let name = file_name host_config in
      if \<not> has_extension name ''.xml'' \<and> \<not> has_extension name ''.yaml'' \<and> \<not> has_extension name ''.yml'' then
        Inl (Error (''config drop-in '' @ double_quoted name @
          '' must be named *.xml, *.yaml, or *.yml '' @ [CHR 0xE2, CHR 0x80, CHR 0x94] @
          '' the server merges only those from config.d and would silently skip it''))
      else
        Inr (m\<lparr>ch_config_files := ch_config_files m @
               [host_file host_config (''/etc/clickhouse-server/config.d/'' @ name)]\<rparr>))"

definition clickhouse_with_wait :: "WaitFor \<Rightarrow> 'w ClickHouseImage \<Rightarrow> 'w ClickHouseImage" where
  "clickhouse_with_wait wait m = m\<lparr>ch_waits := ch_waits m @ [wait]\<rparr>"

definition clickhouse_check :: "'w ClickHouseImage \<Rightarrow> unit res" where
  "clickhouse_check m =
     (if ch_username m = [] then Inl (Error ''ClickHouse username must not be empty (with_username)'')
      else if ch_database m = [] then
        Inl (Error ''ClickHouse database name must not be empty (with_database)'')
      else if ch_password m = [] then
        Inl (Error (''ClickHouse password must not be empty (with_password): the image '' @
          ''restricts a passwordless server to the container'' @ apostrophe @ ''s loopback, which the '' @
          ''module'' @ apostrophe @ ''s host-side getters cannot describe '' @
          [CHR 0xE2, CHR 0x80, CHR 0x94] @ '' configure a password, or '' @
          ''build the container from a plain GenericImage''))
      else Inr ())"

definition clickhouse_client :: "string \<Rightarrow> string \<Rightarrow> string \<Rightarrow> string \<Rightarrow> string list" where
  "clickhouse_client username password database sql =
     [''clickhouse-client'', ''--user'', username, ''--password'', password, ''--database'', database,
      ''--query'', sql]"

definition clickhouse_render :: "'w ClickHouseImage \<Rightarrow> 'w GenericImage" where
  "clickhouse_render m =
     waits_or (ch_waits m)
       [successful_shell_command ''grep -q clickhouse /proc/1/comm'',
        wait_http ''/ping'' (tcp clickhouse_http_port),
        successful_command (clickhouse_client (ch_username m) (ch_password m) (ch_database m) ''SELECT 1'')]
       (copy_all (ch_config_files m) (copy_all (ch_init_scripts m)
          (env_all [(''CLICKHOUSE_USER'', ch_username m), (''CLICKHOUSE_PASSWORD'', ch_password m),
                    (''CLICKHOUSE_DB'', ch_database m)] (mi_image m))))"

definition clickhouse_to_generic :: "'w ClickHouseImage \<Rightarrow> 'w GenericImage res" where
  "clickhouse_to_generic m =
     try_bind (clickhouse_check m) (\<lambda>_. customized (mi_customizers m) (clickhouse_render m))"

record 'w ClickHouseContainer = "'w module_container" +
  chc_username :: string
  chc_password :: string
  chc_database :: string

definition clickhouse_start ::
  "nat \<Rightarrow> 'w reap_io \<Rightarrow> 'w ClickHouseImage \<Rightarrow> ('w client \<times> daemons, 'w ClickHouseContainer) run" where
  "clickhouse_start fuel rio m =
     runThen (start_module fuel rio [tcp clickhouse_http_port, tcp clickhouse_native_port]
       (clickhouse_to_generic m)) (\<lambda>x.
       runs (ret (module_container.extend (module_started x)
         \<lparr>chc_username = ch_username m, chc_password = ch_password m, chc_database = ch_database m\<rparr>)))"

definition clickhouse_url :: "'w ClickHouseContainer \<Rightarrow> ConnectionString" where
  "clickhouse_url h =
     with_url_database (chc_database h) (with_url_port (mc_second_port h) (with_url_host (mc_host h)
       (with_url_password (chc_password h) (with_url_user (chc_username h) (connection_url ''clickhouse'')))))"

definition clickhouse_connection_string :: "'w ClickHouseContainer \<Rightarrow> string" where
  "clickhouse_connection_string h = url_to_string (clickhouse_url h)"

definition clickhouse_http_url :: "'w ClickHouseContainer \<Rightarrow> string" where
  "clickhouse_http_url h = plain_url ''http'' (mc_host h) (mc_port h)"

definition clickhouse_exec_sql ::
  "'w run_io \<Rightarrow> string \<Rightarrow> ('w ClickHouseContainer, ExecResult) run" where
  "clickhouse_exec_sql rio sql h =
     exec_on_module rio (clickhouse_client (chc_username h) (chc_password h) (chc_database h) sql) h"

subsection \<open>What the server sees\<close>

definition postgres_managed :: "'w PostgreSQLImage \<Rightarrow> (string \<times> string) list" where
  "postgres_managed m =
     [(''POSTGRES_USER'', pg_username m)] @
     (if pg_password m = [] then [] else [(''POSTGRES_PASSWORD'', pg_password m)]) @
     [(''POSTGRES_DB'', pg_database m)]"

definition clickhouse_managed :: "'w ClickHouseImage \<Rightarrow> (string \<times> string) list" where
  "clickhouse_managed m =
     [(''CLICKHOUSE_USER'', ch_username m), (''CLICKHOUSE_PASSWORD'', ch_password m),
      (''CLICKHOUSE_DB'', ch_database m)]"

interpretation pg_env: managed_env postgres_check postgres_render mi_image postgres_managed mi_customizers
  by unfold_locales (simp add: postgres_render_def postgres_managed_def render_env Let_def)

interpretation ch_env: managed_env clickhouse_check clickhouse_render mi_image clickhouse_managed mi_customizers
  by unfold_locales (simp add: clickhouse_render_def clickhouse_managed_def render_env)

interpretation fam_env: managed_env "\<lambda>m. family_check flavor (fi_opts m)"
    "\<lambda>m. family_render flavor (mi_image m) (fi_opts m)" mi_image "\<lambda>m. family_env flavor (fi_opts m)"
    mi_customizers for flavor
  by unfold_locales (simp add: family_render_def render_env Let_def)

lemma postgres_server_sees:
  assumes "postgres_to_generic m = Inr g" "keeps_env (mi_customizers m)"
  shows "entrypoint_value (gi_env g) ''POSTGRES_USER'' = Some (pg_username m)"
    "entrypoint_value (gi_env g) ''POSTGRES_DB'' = Some (pg_database m)"
    "pg_password m \<noteq> [] \<Longrightarrow> entrypoint_value (gi_env g) ''POSTGRES_PASSWORD'' = Some (pg_password m)"
  using pg_env.server_sees [OF assms(1) [unfolded postgres_to_generic_def] assms(2)]
  by (simp_all add: entrypoint_value_def postgres_managed_def)

text \<open>The boot matrix: a root decision is always there, a user never is in root mode.\<close>

lemma family_matrix:
  assumes "family_check flavor opts = Inr ()"
  shows "\<exists>k v. (k, v) \<in> set (family_env flavor opts) \<and>
    (k = fl_env_root_password flavor \<and> v = my_password opts \<and> v \<noteq> [] \<or>
     k = fl_env_allow_empty_root flavor \<and> my_password opts = [] \<and> is_root_username (my_username opts))"
  using assms by (auto simp: family_check_def family_env_def split: if_splits)

lemma mysql_server_sees:
  assumes "mysql_to_generic m = Inr g" "keeps_env (mi_customizers m)"
  shows "\<not> is_root_username (my_username (fi_opts m)) \<Longrightarrow>
      entrypoint_value (gi_env g) ''MYSQL_USER'' = Some (my_username (fi_opts m)) \<and>
      entrypoint_value (gi_env g) ''MYSQL_PASSWORD'' = Some (my_password (fi_opts m))"
    and "my_password (fi_opts m) \<noteq> [] \<Longrightarrow>
      entrypoint_value (gi_env g) ''MYSQL_ROOT_PASSWORD'' = Some (my_password (fi_opts m))"
    and "my_database (fi_opts m) \<noteq> [] \<Longrightarrow>
      entrypoint_value (gi_env g) ''MYSQL_DATABASE'' = Some (my_database (fi_opts m))"
  using fam_env.server_sees [OF assms(1) [unfolded mysql_to_generic_def render_family_def] assms(2)]
  by (simp_all add: entrypoint_value_def family_env_def mysql_flavor_def)

text \<open>
  A passwordless root server with a root password passed through as plain environment: the module
  appends nothing that outdoes it, so the server asks for a password the getters do not know.
\<close>

lemma raw_root_password_kept:
  assumes "mysql_to_generic m = Inr g" "keeps_env (mi_customizers m)"
    and "is_root_username (my_username (fi_opts m))" "my_password (fi_opts m) = []"
    and "entrypoint_value (gi_env (mi_image m)) ''MYSQL_ROOT_PASSWORD'' = Some secret"
  shows "entrypoint_value (gi_env g) ''MYSQL_ROOT_PASSWORD'' = Some secret"
  using fam_env.server_sees [OF assms(1) [unfolded mysql_to_generic_def render_family_def] assms(2)] assms(3-5)
  by (simp add: entrypoint_value_def family_env_def mysql_flavor_def)

subsection \<open>Init scripts\<close>

fun postgres_stage :: "script_source \<Rightarrow> 'w PostgreSQLImage \<Rightarrow> 'w PostgreSQLImage res" where
  "postgres_stage (OnHost path) = postgres_with_init_file path"
| "postgres_stage (InMemory name bytes) = postgres_with_init_script name bytes"

fun family_stage :: "script_source \<Rightarrow> MySqlFamilyOptions \<Rightarrow> MySqlFamilyOptions res" where
  "family_stage (OnHost path) = add_init_file path"
| "family_stage (InMemory name bytes) = add_init_script name bytes"

fun clickhouse_stage :: "script_source \<Rightarrow> 'w ClickHouseImage \<Rightarrow> 'w ClickHouseImage res" where
  "clickhouse_stage (OnHost path) = clickhouse_with_init_file path"
| "clickhouse_stage (InMemory name bytes) = clickhouse_with_init_script name bytes"

interpretation pg_scripts: numbered_staging postgres_stage pg_init_scripts "''/docker-entrypoint-initdb.d/''" 0
proof
  fix x and m m' :: "'a PostgreSQLImage"
  assume "postgres_stage x m = Inr m'"
  then show "0 + length (pg_init_scripts m) < 10000 \<and> (\<exists>c name. pg_init_scripts m' = pg_init_scripts m @ [c] \<and>
      cp_target c = ''/docker-entrypoint-initdb.d/'' @ zero_pad4 (0 + length (pg_init_scripts m)) @ name)"
    by (cases x) (auto simp: postgres_with_init_file_def postgres_with_init_script_def try_bind_Inr
        dest!: stage_init_file_Inr stage_init_content_Inr)
qed

interpretation fam_scripts: numbered_staging family_stage my_init_scripts "''/docker-entrypoint-initdb.d/''" 0
proof
  fix x m m'
  assume "family_stage x m = Inr m'"
  then show "0 + length (my_init_scripts m) < 10000 \<and> (\<exists>c name. my_init_scripts m' = my_init_scripts m @ [c] \<and>
      cp_target c = ''/docker-entrypoint-initdb.d/'' @ zero_pad4 (0 + length (my_init_scripts m)) @ name)"
    by (cases x) (auto simp: add_init_file_def add_init_script_def try_bind_Inr
        dest!: stage_init_file_Inr stage_init_content_Inr)
qed

interpretation ch_scripts: numbered_staging clickhouse_stage ch_init_scripts "''/docker-entrypoint-initdb.d/''" 0
proof
  fix x and m m' :: "'a ClickHouseImage"
  assume "clickhouse_stage x m = Inr m'"
  then show "0 + length (ch_init_scripts m) < 10000 \<and> (\<exists>c name. ch_init_scripts m' = ch_init_scripts m @ [c] \<and>
      cp_target c = ''/docker-entrypoint-initdb.d/'' @ zero_pad4 (0 + length (ch_init_scripts m)) @ name)"
    by (cases x) (auto simp: clickhouse_with_init_file_def clickhouse_with_init_script_def try_bind_Inr
        dest!: stage_init_file_Inr stage_init_content_Inr)
qed

end
