(* ===== verification/StoreModules.thy ===== *)
theory StoreModules
  imports ModuleDetail Rfc3339
begin

section \<open>The store and search modules\<close>

text \<open>
  \<open>src/modules/Redis.cpp\<close>, \<open>MongoDB.cpp\<close>, \<open>ScyllaDB.cpp\<close>, \<open>MinIO.cpp\<close>, \<open>RustFS.cpp\<close> and
  \<open>OpenSearch.cpp\<close>: descriptions, rendering, the started hooks that finish a boot, and what the
  running containers answer.
\<close>

subsection \<open>Redis\<close>

record 'w RedisImage = "'w module_image" +
  rd_password :: string
  rd_args :: "string list"

definition redis_port :: nat where
  "redis_port = 6379"

definition redis_image :: "'w RedisImage" where
  "redis_image =
     \<lparr>mi_image = with_wait (successful_command [''redis-cli'', ''ping''])
        (with_exposed_port (tcp redis_port) (from_reference ''redis:7.2'')),
      mi_customizers = [], rd_password = [], rd_args = []\<rparr>"

definition redis_with_image ::
  "string \<Rightarrow> 'w RedisImage \<Rightarrow> 'w RedisImage" where
  "redis_with_image reference = on_image (with_image reference)"

definition redis_with_env ::
  "string \<Rightarrow> string \<Rightarrow> 'w RedisImage \<Rightarrow> 'w RedisImage" where
  "redis_with_env key val = on_image (with_env key val)"

definition redis_with_label ::
  "string \<Rightarrow> string \<Rightarrow> 'w RedisImage \<Rightarrow> 'w RedisImage" where
  "redis_with_label key val = on_image (with_label key val)"

definition redis_with_network ::
  "string \<Rightarrow> 'w RedisImage \<Rightarrow> 'w RedisImage" where
  "redis_with_network network = on_image (with_network network)"

definition redis_with_network_handle ::
  "network_handle \<Rightarrow> 'w RedisImage \<Rightarrow> 'w RedisImage" where
  "redis_with_network_handle network = on_image (with_network (nh_name network))"

definition redis_with_network_alias ::
  "string \<Rightarrow> 'w RedisImage \<Rightarrow> 'w RedisImage" where
  "redis_with_network_alias alias = on_image (with_network_alias alias)"

definition redis_with_reuse :: "bool \<Rightarrow> 'w RedisImage \<Rightarrow> 'w RedisImage" where
  "redis_with_reuse b = on_image (with_reuse b)"

definition redis_with_startup_timeout ::
  "int \<Rightarrow> 'w RedisImage \<Rightarrow> 'w RedisImage" where
  "redis_with_startup_timeout timeout = on_image (with_startup_timeout timeout)"

definition redis_with_startup_attempts ::
  "int \<Rightarrow> 'w RedisImage \<Rightarrow> 'w RedisImage" where
  "redis_with_startup_attempts n = on_image (with_startup_attempts n)"

definition redis_with_customizer ::
  "'w customizer \<Rightarrow> 'w RedisImage \<Rightarrow> 'w RedisImage" where
  "redis_with_customizer customize = add_customizer customize"

definition redis_with_password :: "string \<Rightarrow> 'w RedisImage \<Rightarrow> 'w RedisImage" where
  "redis_with_password password m = m\<lparr>rd_password := password\<rparr>"

definition redis_with_command_args :: "string list \<Rightarrow> 'w RedisImage \<Rightarrow> 'w RedisImage" where
  "redis_with_command_args args m = m\<lparr>rd_args := rd_args m @ args\<rparr>"

definition redis_with_command_arg :: "string \<Rightarrow> 'w RedisImage \<Rightarrow> 'w RedisImage" where
  "redis_with_command_arg arg m = m\<lparr>rd_args := rd_args m @ [arg]\<rparr>"

definition rediscli_auth_managed :: exn where
  "rediscli_auth_managed =
     Error (''REDISCLI_AUTH is managed by with_password: a raw with_env entry would win '' @
       ''over the module'' @ apostrophe @ ''s in exec'' @ apostrophe @
       ''d processes (the first duplicate wins there) and '' @ ''desync the readiness probe '' @
       [CHR 0xE2, CHR 0x80, CHR 0x94] @ '' drop the with_env call'')"

definition redis_check :: "'w RedisImage \<Rightarrow> unit res" where
  "redis_check m =
     (if rd_password m \<noteq> [] \<and> list_ex (\<lambda>(key, val). key = ''REDISCLI_AUTH'') (gi_env (mi_image m))
      then Inl rediscli_auth_managed else Inr ())"

definition redis_render :: "'w RedisImage \<Rightarrow> 'w GenericImage" where
  "redis_render m =
     (let g = mi_image m;
          g = (if rd_password m \<noteq> [] \<or> rd_args m \<noteq> [] then
                 with_cmd (''redis-server'' #
                   (if rd_password m = [] then [] else [''--requirepass'', rd_password m]) @ rd_args m) g
               else g)
      in if rd_password m = [] then g else with_env ''REDISCLI_AUTH'' (rd_password m) g)"

definition redis_to_generic :: "'w RedisImage \<Rightarrow> 'w GenericImage res" where
  "redis_to_generic m = try_bind (redis_check m) (\<lambda>_. customized (mi_customizers m) (redis_render m))"

record 'w RedisContainer = "'w module_container" +
  rdc_password :: string

definition redis_start ::
  "nat \<Rightarrow> 'w reap_io \<Rightarrow> 'w RedisImage \<Rightarrow> ('w client \<times> daemons, 'w RedisContainer) run" where
  "redis_start fuel rio m =
     runThen (start_module fuel rio [tcp redis_port] (redis_to_generic m)) (\<lambda>x.
       runs (ret (module_container.extend (module_started x) \<lparr>rdc_password = rd_password m\<rparr>)))"

definition redis_url :: "int \<Rightarrow> 'w RedisContainer \<Rightarrow> ConnectionString" where
  "redis_url database h =
     (let url = connection_url ''redis'';
          url = (if rdc_password h = [] then url else with_url_password (rdc_password h) url);
          url = with_url_port (mc_port h) (with_url_host (mc_host h) url)
      in if database = 0 then url else with_url_database (int_dec database) url)"

definition redis_connection_string :: "int \<Rightarrow> 'w RedisContainer \<Rightarrow> string" where
  "redis_connection_string database h = url_to_string (redis_url database h)"

subsection \<open>MongoDB\<close>

record 'w MongoDBImage = "'w module_image" +
  mg_replica_set_name :: string
  mg_database :: string

definition mongo_port :: nat where
  "mongo_port = 27017"

definition mongo_image :: "'w MongoDBImage" where
  "mongo_image =
     \<lparr>mi_image = with_exposed_port (tcp mongo_port) (from_reference ''mongo:7''), mi_customizers = [],
      mg_replica_set_name = ''rs0'', mg_database = ''test''\<rparr>"

definition mongo_with_image ::
  "string \<Rightarrow> 'w MongoDBImage \<Rightarrow> 'w MongoDBImage" where
  "mongo_with_image reference = on_image (with_image reference)"

definition mongo_with_env ::
  "string \<Rightarrow> string \<Rightarrow> 'w MongoDBImage \<Rightarrow> 'w MongoDBImage" where
  "mongo_with_env key val = on_image (with_env key val)"

definition mongo_with_label ::
  "string \<Rightarrow> string \<Rightarrow> 'w MongoDBImage \<Rightarrow> 'w MongoDBImage" where
  "mongo_with_label key val = on_image (with_label key val)"

definition mongo_with_network ::
  "string \<Rightarrow> 'w MongoDBImage \<Rightarrow> 'w MongoDBImage" where
  "mongo_with_network network = on_image (with_network network)"

definition mongo_with_network_handle ::
  "network_handle \<Rightarrow> 'w MongoDBImage \<Rightarrow> 'w MongoDBImage" where
  "mongo_with_network_handle network = on_image (with_network (nh_name network))"

definition mongo_with_network_alias ::
  "string \<Rightarrow> 'w MongoDBImage \<Rightarrow> 'w MongoDBImage" where
  "mongo_with_network_alias alias = on_image (with_network_alias alias)"

definition mongo_with_reuse ::
  "bool \<Rightarrow> 'w MongoDBImage \<Rightarrow> 'w MongoDBImage" where
  "mongo_with_reuse b = on_image (with_reuse b)"

definition mongo_with_startup_timeout ::
  "int \<Rightarrow> 'w MongoDBImage \<Rightarrow> 'w MongoDBImage" where
  "mongo_with_startup_timeout timeout = on_image (with_startup_timeout timeout)"

definition mongo_with_startup_attempts ::
  "int \<Rightarrow> 'w MongoDBImage \<Rightarrow> 'w MongoDBImage" where
  "mongo_with_startup_attempts n = on_image (with_startup_attempts n)"

definition mongo_with_customizer ::
  "'w customizer \<Rightarrow> 'w MongoDBImage \<Rightarrow> 'w MongoDBImage" where
  "mongo_with_customizer customize = add_customizer customize"

definition mongo_with_replica_set_name :: "string \<Rightarrow> 'w MongoDBImage \<Rightarrow> 'w MongoDBImage" where
  "mongo_with_replica_set_name name m = m\<lparr>mg_replica_set_name := name\<rparr>"

definition mongo_with_database :: "string \<Rightarrow> 'w MongoDBImage \<Rightarrow> 'w MongoDBImage" where
  "mongo_with_database database m = m\<lparr>mg_database := database\<rparr>"

definition url_safe_char :: "char \<Rightarrow> bool" where
  "url_safe_char c \<longleftrightarrow> ascii_alnum (byte_nat c) \<or> c = CHR ''-'' \<or> c = CHR ''_''"

definition valid_replica_set_name :: "string \<Rightarrow> bool" where
  "valid_replica_set_name name \<longleftrightarrow> name \<noteq> [] \<and> list_all url_safe_char name"

definition initiate_js :: "string \<Rightarrow> string" where
  "initiate_js rs_name =
     ''try { rs.initiate({_id: '' @ quoted rs_name @ '', members: [{_id: 0, host: '' @
     quoted ''127.0.0.1:27017'' @ ''}]}); } '' @
     ''catch (e) { if (e.codeName !== '' @ quoted ''AlreadyInitialized'' @ '') throw e; }''"

definition primary_js :: "int \<Rightarrow> string" where
  "primary_js ticks =
     ''let n = 0; while (true) { let ok = false; '' @
     ''try { ok = db.hello().isWritablePrimary; } catch (e) {} '' @
     ''if (ok) break; if (n++ >= '' @ int_dec ticks @ '') quit(1); sleep(100); }''"

definition not_primary :: "int \<Rightarrow> string \<Rightarrow> exn" where
  "not_primary phase_budget cid =
     StartupTimeoutError (''mongodb node did not become the writable PRIMARY within '' @
       int_dec (cdiv phase_budget 1000) @ ''s of rs.initiate (the startup timeout, applied per phase)'') cid"

text \<open>The poll for the election; one unit of fuel is one turn, so one command in the container.\<close>

fun await_primary ::
  "nat \<Rightarrow> 'w run_io \<Rightarrow> string \<Rightarrow> int \<Rightarrow> int \<Rightarrow> ('w client, unit) run" where
  "await_primary 0 rio cid phase_budget deadline c = None"
| "await_primary (Suc n) rio cid phase_budget deadline c =
     (let remaining = to_ms (wi_clock (ro_wait rio)) (deadline - now_of (ro_wait rio) c) in
      if remaining \<le> 0 then Some (Inl (not_primary phase_budget cid), c)
      else
        let ticks = min 150 (remaining div 100 + 1) in
        (case exec_in rio cid [''mongosh'', ''--quiet'', ''--eval'', primary_js ticks] c of
           None \<Rightarrow> None
         | Some (Inl e, c1) \<Rightarrow> Some (Inl e, c1)
         | Some (Inr res, c1) \<Rightarrow>
             (if er_exit_code res = 0 then Some (Inr (), c1)
              else await_primary n rio cid phase_budget deadline c1)))"

definition run_mongo_rs_init ::
  "nat \<Rightarrow> 'w run_io \<Rightarrow> string \<Rightarrow> int \<Rightarrow> string \<Rightarrow> ('w client, unit) run" where
  "run_mongo_rs_init fuel rio rs_name phase_budget cid =
     runThen (exec_or_throw rio cid [''mongosh'', ''--quiet'', ''--eval'', initiate_js rs_name] ''rs.initiate'')
       (\<lambda>_ c.
         let deadline = saturated_add (wi_clock (ro_wait rio)) (now_of (ro_wait rio) c) phase_budget
         in await_primary fuel rio cid phase_budget deadline c)"

definition auth_env_key :: "string \<Rightarrow> bool" where
  "auth_env_key key \<longleftrightarrow> key = ''MONGO_INITDB_ROOT_USERNAME'' \<or> key = ''MONGO_INITDB_ROOT_PASSWORD''"

definition mongo_check :: "'w MongoDBImage \<Rightarrow> unit res" where
  "mongo_check m =
     (if \<not> valid_replica_set_name (mg_replica_set_name m) then
        Inl (Error (''replica set name '' @ double_quoted (mg_replica_set_name m) @
          '' must be non-empty and use only letters, digits, '' @ quoted ''-'' @ '' and '' @ quoted ''_''))
      else
        case find (\<lambda>(key, val). auth_env_key key) (gi_env (mi_image m)) of
          None \<Rightarrow> Inr ()
        | Some (key, val) \<Rightarrow>
            Inl (Error (key @ '' is not supported by this module: MongoDB requires a cluster '' @
              ''keyfile when auth is combined with --replSet (the server runs '' @
              ''without authentication; see the class comment)'')))"

definition mongo_render :: "'w run_io \<Rightarrow> 'w MongoDBImage \<Rightarrow> 'w GenericImage" where
  "mongo_render rio m =
     with_started_hook
       (hook_of (run_mongo_rs_init (ro_fuel rio) rio (mg_replica_set_name m)
          (cr_startup_timeout (gi_request (mi_image m)))))
       (wait_all [wait_log ''Waiting for connections'', listening_port (tcp mongo_port)]
          (with_cmd [''--replSet'', mg_replica_set_name m, ''--bind_ip_all''] (mi_image m)))"

definition mongo_to_generic :: "'w run_io \<Rightarrow> 'w MongoDBImage \<Rightarrow> 'w GenericImage res" where
  "mongo_to_generic rio m =
     try_bind (mongo_check m) (\<lambda>_. customized (mi_customizers m) (mongo_render rio m))"

record 'w MongoDBContainer = "'w module_container" +
  mgc_replica_set_name :: string
  mgc_database :: string

definition mongo_start ::
  "nat \<Rightarrow> 'w reap_io \<Rightarrow> 'w MongoDBImage \<Rightarrow> ('w client \<times> daemons, 'w MongoDBContainer) run" where
  "mongo_start fuel rio m =
     runThen (start_module fuel rio [tcp mongo_port] (mongo_to_generic (rp_run rio) m)) (\<lambda>x.
       runs (ret (module_container.extend (module_started x)
         \<lparr>mgc_replica_set_name = mg_replica_set_name m, mgc_database = mg_database m\<rparr>)))"

definition mongo_url :: "string \<Rightarrow> 'w MongoDBContainer \<Rightarrow> ConnectionString" where
  "mongo_url database h =
     with_url_param ''directConnection'' ''true'' (with_url_database database
       (with_url_port (mc_port h) (with_url_host (mc_host h) (connection_url ''mongodb''))))"

definition mongo_connection_string :: "string \<Rightarrow> 'w MongoDBContainer \<Rightarrow> string" where
  "mongo_connection_string database h = url_to_string (mongo_url database h)"

definition mongosh :: "'w run_io \<Rightarrow> string \<Rightarrow> ('w MongoDBContainer, ExecResult) run" where
  "mongosh rio js h =
     exec_on_module rio
       (if mgc_database h = [] then [''mongosh'', ''--quiet'', ''--eval'', js]
        else [''mongosh'', ''--quiet'', mgc_database h, ''--eval'', js]) h"

subsection \<open>ScyllaDB\<close>

record 'w ScyllaDBImage = "'w module_image" +
  sy_smp :: int
  sy_memory :: string
  sy_datacenter :: string
  sy_datacenter_set :: bool
  sy_extra_args :: "string list"
  sy_init_scripts :: "CopyToContainer list"
  sy_waits :: "WaitFor list"

definition scylla_port :: nat where
  "scylla_port = 9042"

definition scylla_image :: "'w ScyllaDBImage" where
  "scylla_image =
     \<lparr>mi_image = with_startup_timeout 120000
        (with_exposed_port (tcp scylla_port) (from_reference ''scylladb/scylla:2026.1'')),
      mi_customizers = [], sy_smp = 1, sy_memory = ''512M'', sy_datacenter = ''datacenter1'',
      sy_datacenter_set = False, sy_extra_args = [], sy_init_scripts = [], sy_waits = []\<rparr>"

definition scylla_with_image ::
  "string \<Rightarrow> 'w ScyllaDBImage \<Rightarrow> 'w ScyllaDBImage" where
  "scylla_with_image reference = on_image (with_image reference)"

definition scylla_with_env ::
  "string \<Rightarrow> string \<Rightarrow> 'w ScyllaDBImage \<Rightarrow> 'w ScyllaDBImage" where
  "scylla_with_env key val = on_image (with_env key val)"

definition scylla_with_label ::
  "string \<Rightarrow> string \<Rightarrow> 'w ScyllaDBImage \<Rightarrow> 'w ScyllaDBImage" where
  "scylla_with_label key val = on_image (with_label key val)"

definition scylla_with_network ::
  "string \<Rightarrow> 'w ScyllaDBImage \<Rightarrow> 'w ScyllaDBImage" where
  "scylla_with_network network = on_image (with_network network)"

definition scylla_with_network_handle ::
  "network_handle \<Rightarrow> 'w ScyllaDBImage \<Rightarrow> 'w ScyllaDBImage" where
  "scylla_with_network_handle network = on_image (with_network (nh_name network))"

definition scylla_with_network_alias ::
  "string \<Rightarrow> 'w ScyllaDBImage \<Rightarrow> 'w ScyllaDBImage" where
  "scylla_with_network_alias alias = on_image (with_network_alias alias)"

definition scylla_with_reuse ::
  "bool \<Rightarrow> 'w ScyllaDBImage \<Rightarrow> 'w ScyllaDBImage" where
  "scylla_with_reuse b = on_image (with_reuse b)"

definition scylla_with_startup_timeout ::
  "int \<Rightarrow> 'w ScyllaDBImage \<Rightarrow> 'w ScyllaDBImage" where
  "scylla_with_startup_timeout timeout = on_image (with_startup_timeout timeout)"

definition scylla_with_startup_attempts ::
  "int \<Rightarrow> 'w ScyllaDBImage \<Rightarrow> 'w ScyllaDBImage" where
  "scylla_with_startup_attempts n = on_image (with_startup_attempts n)"

definition scylla_with_customizer ::
  "'w customizer \<Rightarrow> 'w ScyllaDBImage \<Rightarrow> 'w ScyllaDBImage" where
  "scylla_with_customizer customize = add_customizer customize"

definition scylla_with_smp :: "int \<Rightarrow> 'w ScyllaDBImage \<Rightarrow> 'w ScyllaDBImage" where
  "scylla_with_smp shards m = m\<lparr>sy_smp := shards\<rparr>"

definition scylla_with_memory :: "string \<Rightarrow> 'w ScyllaDBImage \<Rightarrow> 'w ScyllaDBImage" where
  "scylla_with_memory amount m = m\<lparr>sy_memory := amount\<rparr>"

definition scylla_with_datacenter :: "string \<Rightarrow> 'w ScyllaDBImage \<Rightarrow> 'w ScyllaDBImage" where
  "scylla_with_datacenter name m = m\<lparr>sy_datacenter := name, sy_datacenter_set := True\<rparr>"

definition scylla_with_command_args :: "string list \<Rightarrow> 'w ScyllaDBImage \<Rightarrow> 'w ScyllaDBImage" where
  "scylla_with_command_args args m = m\<lparr>sy_extra_args := sy_extra_args m @ args\<rparr>"

definition scylla_with_command_arg :: "string \<Rightarrow> 'w ScyllaDBImage \<Rightarrow> 'w ScyllaDBImage" where
  "scylla_with_command_arg arg m = m\<lparr>sy_extra_args := sy_extra_args m @ [arg]\<rparr>"

definition cqlsh_exec :: "string \<Rightarrow> string \<Rightarrow> string list" where
  "cqlsh_exec opt argument =
     [''sh'', ''-c'', ''cqlsh '' @ double_quoted ''$(hostname)'' @ '' '' @ opt @ '' '' @ double_quoted ''$1'',
      ''cqlsh'', argument]"

definition scylla_init_target :: "nat \<Rightarrow> string \<Rightarrow> string res" where
  "scylla_init_target i name =
     (if 10000 \<le> i then Inl too_many_scripts
      else if \<not> has_extension name ''.cql'' then
        Inl (Error (''init script '' @ quoted name @ '' must be named *.cql '' @
          [CHR 0xE2, CHR 0x80, CHR 0x94] @ '' the module runs scripts through cqlsh -f''))
      else Inr (''/tmp/testcontainers-'' @ zero_pad4 i @ ''-'' @ name))"

definition scylla_with_init_file :: "string \<Rightarrow> 'w ScyllaDBImage \<Rightarrow> 'w ScyllaDBImage res" where
  "scylla_with_init_file host_path m =
     try_bind (scylla_init_target (length (sy_init_scripts m)) (file_name host_path)) (\<lambda>target.
       Inr (m\<lparr>sy_init_scripts := sy_init_scripts m @ [host_file host_path target]\<rparr>))"

definition scylla_with_init_script :: "string \<Rightarrow> string \<Rightarrow> 'w ScyllaDBImage \<Rightarrow> 'w ScyllaDBImage res" where
  "scylla_with_init_script name bytes m =
     (if \<not> bare_name name then Inl (not_a_bare_name name)
      else
        try_bind (scylla_init_target (length (sy_init_scripts m)) name) (\<lambda>target.
          Inr (m\<lparr>sy_init_scripts := sy_init_scripts m @ [host_content bytes target]\<rparr>)))"

definition scylla_with_wait :: "WaitFor \<Rightarrow> 'w ScyllaDBImage \<Rightarrow> 'w ScyllaDBImage" where
  "scylla_with_wait wait m = m\<lparr>sy_waits := sy_waits m @ [wait]\<rparr>"

definition scylla_check :: "'w ScyllaDBImage \<Rightarrow> unit res" where
  "scylla_check m =
     (if sy_smp m < 1 then Inl (Error ''ScyllaDB shard count must be at least 1 (with_smp)'')
      else if sy_memory m = [] then Inl (Error ''ScyllaDB memory amount must not be empty (with_memory)'')
      else if sy_datacenter_set m \<and> sy_datacenter m = [] then
        Inl (Error ''ScyllaDB datacenter name must not be empty (with_datacenter)'')
      else Inr ())"

definition run_scylla_scripts :: "'w run_io \<Rightarrow> string list \<Rightarrow> string \<Rightarrow> ('w client, unit) run" where
  "run_scylla_scripts rio targets cid =
     run_each (\<lambda>target.
       runThen (exec_or_throw rio cid (cqlsh_exec ''-f'' target)
                  (''running scylladb init script '' @ quoted target)) (\<lambda>_. runs (ret ()))) targets"

definition scylla_cmd :: "'w ScyllaDBImage \<Rightarrow> string list" where
  "scylla_cmd m =
     [''--developer-mode=1'', ''--overprovisioned=1'', ''--smp'', int_dec (sy_smp m), ''--memory'',
      sy_memory m] @
     (if sy_datacenter_set m then [''--dc'', sy_datacenter m] else []) @ sy_extra_args m"

definition scylla_render :: "'w run_io \<Rightarrow> 'w ScyllaDBImage \<Rightarrow> 'w GenericImage" where
  "scylla_render rio m =
     (let g = copy_all (sy_init_scripts m) (with_cmd (scylla_cmd m) (mi_image m));
          g = waits_or (sy_waits m)
                [wait_log ''Starting listening for CQL clients'',
                 successful_shell_command (''cqlsh '' @ double_quoted ''$(hostname)'' @ '' -e '' @
                   double_quoted ''SELECT release_version FROM system.local'')] g
      in if sy_init_scripts m = [] then g
         else with_started_hook
                (hook_of (run_scylla_scripts rio (map cp_target (sy_init_scripts m)))) g)"

definition scylla_to_generic :: "'w run_io \<Rightarrow> 'w ScyllaDBImage \<Rightarrow> 'w GenericImage res" where
  "scylla_to_generic rio m =
     try_bind (scylla_check m) (\<lambda>_. customized (mi_customizers m) (scylla_render rio m))"

record 'w ScyllaDBContainer = "'w module_container" +
  syc_datacenter :: string
  syc_contact_point :: string

definition scylla_start ::
  "nat \<Rightarrow> 'w reap_io \<Rightarrow> 'w ScyllaDBImage \<Rightarrow> ('w client \<times> daemons, 'w ScyllaDBContainer) run" where
  "scylla_start fuel rio m =
     runThen (start_module fuel rio [tcp scylla_port] (scylla_to_generic (rp_run rio) m)) (\<lambda>x.
       let h = module_started x in
       runs (ret (module_container.extend h
         \<lparr>syc_datacenter = sy_datacenter m, syc_contact_point = mc_host h @ '':'' @ to_dec (mc_port h)\<rparr>)))"

definition exec_cql :: "'w run_io \<Rightarrow> string \<Rightarrow> ('w ScyllaDBContainer, ExecResult) run" where
  "exec_cql rio cql = exec_on_module rio (cqlsh_exec ''-e'' cql)"

subsection \<open>MinIO\<close>

record 'w MinIOImage = "'w module_image" +
  mn_access_key :: string
  mn_secret_key :: string
  mn_buckets :: "string list"
  mn_waits :: "WaitFor list"

definition minio_s3_port :: nat where
  "minio_s3_port = 9000"

definition minio_console_port :: nat where
  "minio_console_port = 9001"

definition minio_image :: "'w MinIOImage" where
  "minio_image =
     \<lparr>mi_image = with_exposed_port (tcp minio_console_port) (with_exposed_port (tcp minio_s3_port)
        (from_reference ''minio/minio:RELEASE.2025-09-07T16-13-09Z'')),
      mi_customizers = [], mn_access_key = ''minioadmin'', mn_secret_key = ''minioadmin'',
      mn_buckets = [], mn_waits = []\<rparr>"

definition minio_with_image ::
  "string \<Rightarrow> 'w MinIOImage \<Rightarrow> 'w MinIOImage" where
  "minio_with_image reference = on_image (with_image reference)"

definition minio_with_env ::
  "string \<Rightarrow> string \<Rightarrow> 'w MinIOImage \<Rightarrow> 'w MinIOImage" where
  "minio_with_env key val = on_image (with_env key val)"

definition minio_with_label ::
  "string \<Rightarrow> string \<Rightarrow> 'w MinIOImage \<Rightarrow> 'w MinIOImage" where
  "minio_with_label key val = on_image (with_label key val)"

definition minio_with_network ::
  "string \<Rightarrow> 'w MinIOImage \<Rightarrow> 'w MinIOImage" where
  "minio_with_network network = on_image (with_network network)"

definition minio_with_network_handle ::
  "network_handle \<Rightarrow> 'w MinIOImage \<Rightarrow> 'w MinIOImage" where
  "minio_with_network_handle network = on_image (with_network (nh_name network))"

definition minio_with_network_alias ::
  "string \<Rightarrow> 'w MinIOImage \<Rightarrow> 'w MinIOImage" where
  "minio_with_network_alias alias = on_image (with_network_alias alias)"

definition minio_with_reuse :: "bool \<Rightarrow> 'w MinIOImage \<Rightarrow> 'w MinIOImage" where
  "minio_with_reuse b = on_image (with_reuse b)"

definition minio_with_startup_timeout ::
  "int \<Rightarrow> 'w MinIOImage \<Rightarrow> 'w MinIOImage" where
  "minio_with_startup_timeout timeout = on_image (with_startup_timeout timeout)"

definition minio_with_startup_attempts ::
  "int \<Rightarrow> 'w MinIOImage \<Rightarrow> 'w MinIOImage" where
  "minio_with_startup_attempts n = on_image (with_startup_attempts n)"

definition minio_with_customizer ::
  "'w customizer \<Rightarrow> 'w MinIOImage \<Rightarrow> 'w MinIOImage" where
  "minio_with_customizer customize = add_customizer customize"

definition minio_with_access_key :: "string \<Rightarrow> 'w MinIOImage \<Rightarrow> 'w MinIOImage" where
  "minio_with_access_key key m = m\<lparr>mn_access_key := key\<rparr>"

definition minio_with_secret_key :: "string \<Rightarrow> 'w MinIOImage \<Rightarrow> 'w MinIOImage" where
  "minio_with_secret_key key m = m\<lparr>mn_secret_key := key\<rparr>"

definition minio_with_bucket :: "string \<Rightarrow> 'w MinIOImage \<Rightarrow> 'w MinIOImage" where
  "minio_with_bucket name m = m\<lparr>mn_buckets := mn_buckets m @ [name]\<rparr>"

definition minio_with_wait :: "WaitFor \<Rightarrow> 'w MinIOImage \<Rightarrow> 'w MinIOImage" where
  "minio_with_wait wait m = m\<lparr>mn_waits := mn_waits m @ [wait]\<rparr>"

definition create_buckets ::
  "'w run_io \<Rightarrow> string \<Rightarrow> string \<Rightarrow> string list \<Rightarrow> string \<Rightarrow> ('w client, unit) run" where
  "create_buckets rio access_key secret_key buckets cid =
     runThen (exec_or_throw rio cid
       [''mc'', ''alias'', ''set'', ''tc'', ''http://127.0.0.1:'' @ to_dec minio_s3_port, access_key, secret_key]
       ''aliasing the in-image mc to the server'') (\<lambda>_.
     run_each (\<lambda>bucket.
       runThen (exec_or_throw rio cid [''mc'', ''mb'', ''--ignore-existing'', ''tc/'' @ bucket]
                  (''creating minio bucket '' @ quoted bucket)) (\<lambda>_. runs (ret ()))) buckets)"

definition minio_check :: "'w MinIOImage \<Rightarrow> unit res" where
  "minio_check m =
     (if length (mn_access_key m) < 3 then
        Inl (Error (''MinIO access key must be at least 3 characters (with_access_key): the '' @
          ''server rejects shorter ones at boot''))
      else if length (mn_secret_key m) < 8 then
        Inl (Error (''MinIO secret key must be at least 8 characters (with_secret_key): the '' @
          ''server rejects shorter ones at boot (also why this module cannot default '' @
          ''to the house '' @ double_quoted ''test'' @ '')''))
      else if [] \<in> set (mn_buckets m) then
        Inl (Error ''MinIO bucket name must not be empty (with_bucket)'')
      else Inr ())"

definition minio_render :: "'w run_io \<Rightarrow> 'w MinIOImage \<Rightarrow> 'w GenericImage" where
  "minio_render rio m =
     (let g = with_cmd [''server'', ''/data'', ''--console-address'', '':'' @ to_dec minio_console_port]
                (mi_image m);
          g = env_all [(''MINIO_ROOT_USER'', mn_access_key m), (''MINIO_ROOT_PASSWORD'', mn_secret_key m)] g;
          g = waits_or (mn_waits m) [wait_http ''/minio/health/cluster'' (tcp minio_s3_port)] g
      in if mn_buckets m = [] then g
         else
           with_started_hook (hook_of (create_buckets rio (mn_access_key m) (mn_secret_key m) (mn_buckets m)))
             (with_label ''org.testcontainers.minio.buckets'' (join (sort (mn_buckets m)) '','') g))"

definition minio_to_generic :: "'w run_io \<Rightarrow> 'w MinIOImage \<Rightarrow> 'w GenericImage res" where
  "minio_to_generic rio m =
     try_bind (minio_check m) (\<lambda>_. customized (mi_customizers m) (minio_render rio m))"

text \<open>The running containers of the two S3 stores.\<close>

record 'w s3_container = "'w module_container" +
  s3c_access_key :: string
  s3c_secret_key :: string

definition minio_start ::
  "nat \<Rightarrow> 'w reap_io \<Rightarrow> 'w MinIOImage \<Rightarrow> ('w client \<times> daemons, 'w s3_container) run" where
  "minio_start fuel rio m =
     runThen (start_module fuel rio [tcp minio_s3_port, tcp minio_console_port]
       (minio_to_generic (rp_run rio) m)) (\<lambda>x.
       runs (ret (module_container.extend (module_started x)
         \<lparr>s3c_access_key = mn_access_key m, s3c_secret_key = mn_secret_key m\<rparr>)))"

definition minio_s3_url :: "'w s3_container \<Rightarrow> string" where
  "minio_s3_url h = plain_url ''http'' (mc_host h) (mc_port h)"

definition minio_console_url :: "'w s3_container \<Rightarrow> string" where
  "minio_console_url h = plain_url ''http'' (mc_host h) (mc_second_port h)"

subsection \<open>RustFS\<close>

record 'w RustFSImage = "'w module_image" +
  rs_access_key :: string
  rs_secret_key :: string
  rs_waits :: "WaitFor list"

definition rustfs_s3_port :: nat where
  "rustfs_s3_port = 9000"

definition rustfs_console_port :: nat where
  "rustfs_console_port = 9001"

definition rustfs_image :: "'w RustFSImage" where
  "rustfs_image =
     \<lparr>mi_image = with_exposed_port (tcp rustfs_console_port) (with_exposed_port (tcp rustfs_s3_port)
        (from_reference ''rustfs/rustfs:1.0.0-beta.8'')),
      mi_customizers = [], rs_access_key = ''rustfsadmin'', rs_secret_key = ''rustfsadmin'', rs_waits = []\<rparr>"

definition rustfs_with_image ::
  "string \<Rightarrow> 'w RustFSImage \<Rightarrow> 'w RustFSImage" where
  "rustfs_with_image reference = on_image (with_image reference)"

definition rustfs_with_env ::
  "string \<Rightarrow> string \<Rightarrow> 'w RustFSImage \<Rightarrow> 'w RustFSImage" where
  "rustfs_with_env key val = on_image (with_env key val)"

definition rustfs_with_label ::
  "string \<Rightarrow> string \<Rightarrow> 'w RustFSImage \<Rightarrow> 'w RustFSImage" where
  "rustfs_with_label key val = on_image (with_label key val)"

definition rustfs_with_network ::
  "string \<Rightarrow> 'w RustFSImage \<Rightarrow> 'w RustFSImage" where
  "rustfs_with_network network = on_image (with_network network)"

definition rustfs_with_network_handle ::
  "network_handle \<Rightarrow> 'w RustFSImage \<Rightarrow> 'w RustFSImage" where
  "rustfs_with_network_handle network = on_image (with_network (nh_name network))"

definition rustfs_with_network_alias ::
  "string \<Rightarrow> 'w RustFSImage \<Rightarrow> 'w RustFSImage" where
  "rustfs_with_network_alias alias = on_image (with_network_alias alias)"

definition rustfs_with_reuse ::
  "bool \<Rightarrow> 'w RustFSImage \<Rightarrow> 'w RustFSImage" where
  "rustfs_with_reuse b = on_image (with_reuse b)"

definition rustfs_with_startup_timeout ::
  "int \<Rightarrow> 'w RustFSImage \<Rightarrow> 'w RustFSImage" where
  "rustfs_with_startup_timeout timeout = on_image (with_startup_timeout timeout)"

definition rustfs_with_startup_attempts ::
  "int \<Rightarrow> 'w RustFSImage \<Rightarrow> 'w RustFSImage" where
  "rustfs_with_startup_attempts n = on_image (with_startup_attempts n)"

definition rustfs_with_customizer ::
  "'w customizer \<Rightarrow> 'w RustFSImage \<Rightarrow> 'w RustFSImage" where
  "rustfs_with_customizer customize = add_customizer customize"

definition rustfs_with_access_key :: "string \<Rightarrow> 'w RustFSImage \<Rightarrow> 'w RustFSImage" where
  "rustfs_with_access_key key m = m\<lparr>rs_access_key := key\<rparr>"

definition rustfs_with_secret_key :: "string \<Rightarrow> 'w RustFSImage \<Rightarrow> 'w RustFSImage" where
  "rustfs_with_secret_key key m = m\<lparr>rs_secret_key := key\<rparr>"

definition rustfs_with_wait :: "WaitFor \<Rightarrow> 'w RustFSImage \<Rightarrow> 'w RustFSImage" where
  "rustfs_with_wait wait m = m\<lparr>rs_waits := rs_waits m @ [wait]\<rparr>"

definition rustfs_check :: "'w RustFSImage \<Rightarrow> unit res" where
  "rustfs_check m =
     (if rs_access_key m = [] then Inl (Error ''RustFS access key must not be empty (with_access_key)'')
      else if rs_secret_key m = [] then Inl (Error ''RustFS secret key must not be empty (with_secret_key)'')
      else Inr ())"

definition rustfs_render :: "'w RustFSImage \<Rightarrow> 'w GenericImage" where
  "rustfs_render m =
     waits_or (rs_waits m) [wait_http ''/health'' (tcp rustfs_s3_port)]
       (env_all [(''RUSTFS_ACCESS_KEY'', rs_access_key m), (''RUSTFS_SECRET_KEY'', rs_secret_key m)]
          (mi_image m))"

definition rustfs_to_generic :: "'w RustFSImage \<Rightarrow> 'w GenericImage res" where
  "rustfs_to_generic m = try_bind (rustfs_check m) (\<lambda>_. customized (mi_customizers m) (rustfs_render m))"

definition rustfs_start ::
  "nat \<Rightarrow> 'w reap_io \<Rightarrow> 'w RustFSImage \<Rightarrow> ('w client \<times> daemons, 'w s3_container) run" where
  "rustfs_start fuel rio m =
     runThen (start_module fuel rio [tcp rustfs_s3_port, tcp rustfs_console_port] (rustfs_to_generic m)) (\<lambda>x.
       runs (ret (module_container.extend (module_started x)
         \<lparr>s3c_access_key = rs_access_key m, s3c_secret_key = rs_secret_key m\<rparr>)))"

definition rustfs_s3_url :: "'w s3_container \<Rightarrow> string" where
  "rustfs_s3_url h = plain_url ''http'' (mc_host h) (mc_port h)"

definition rustfs_console_url :: "'w s3_container \<Rightarrow> string" where
  "rustfs_console_url h = plain_url ''http'' (mc_host h) (mc_second_port h) @ ''/rustfs/console/''"

subsection \<open>OpenSearch\<close>

record 'w OpenSearchImage = "'w module_image" +
  os_waits :: "WaitFor list"

definition opensearch_port :: nat where
  "opensearch_port = 9200"

definition opensearch_image :: "'w OpenSearchImage" where
  "opensearch_image =
     \<lparr>mi_image = env_all
        [(''discovery.type'', ''single-node''), (''DISABLE_SECURITY_PLUGIN'', ''true''),
         (''DISABLE_INSTALL_DEMO_CONFIG'', ''true''), (''OPENSEARCH_JAVA_OPTS'', ''-Xms512m -Xmx512m'')]
        (with_startup_timeout 120000 (with_exposed_port (tcp opensearch_port)
          (from_reference ''opensearchproject/opensearch:3.7.0''))),
      mi_customizers = [], os_waits = []\<rparr>"

definition opensearch_with_image ::
  "string \<Rightarrow> 'w OpenSearchImage \<Rightarrow> 'w OpenSearchImage" where
  "opensearch_with_image reference = on_image (with_image reference)"

definition opensearch_with_env ::
  "string \<Rightarrow> string \<Rightarrow> 'w OpenSearchImage \<Rightarrow> 'w OpenSearchImage" where
  "opensearch_with_env key val = on_image (with_env key val)"

definition opensearch_with_label ::
  "string \<Rightarrow> string \<Rightarrow> 'w OpenSearchImage \<Rightarrow> 'w OpenSearchImage" where
  "opensearch_with_label key val = on_image (with_label key val)"

definition opensearch_with_network ::
  "string \<Rightarrow> 'w OpenSearchImage \<Rightarrow> 'w OpenSearchImage" where
  "opensearch_with_network network = on_image (with_network network)"

definition opensearch_with_network_handle ::
  "network_handle \<Rightarrow> 'w OpenSearchImage \<Rightarrow> 'w OpenSearchImage" where
  "opensearch_with_network_handle network = on_image (with_network (nh_name network))"

definition opensearch_with_network_alias ::
  "string \<Rightarrow> 'w OpenSearchImage \<Rightarrow> 'w OpenSearchImage" where
  "opensearch_with_network_alias alias = on_image (with_network_alias alias)"

definition opensearch_with_reuse ::
  "bool \<Rightarrow> 'w OpenSearchImage \<Rightarrow> 'w OpenSearchImage" where
  "opensearch_with_reuse b = on_image (with_reuse b)"

definition opensearch_with_startup_timeout ::
  "int \<Rightarrow> 'w OpenSearchImage \<Rightarrow> 'w OpenSearchImage" where
  "opensearch_with_startup_timeout timeout = on_image (with_startup_timeout timeout)"

definition opensearch_with_startup_attempts ::
  "int \<Rightarrow> 'w OpenSearchImage \<Rightarrow> 'w OpenSearchImage" where
  "opensearch_with_startup_attempts n = on_image (with_startup_attempts n)"

definition opensearch_with_customizer ::
  "'w customizer \<Rightarrow> 'w OpenSearchImage \<Rightarrow> 'w OpenSearchImage" where
  "opensearch_with_customizer customize = add_customizer customize"

definition opensearch_with_wait :: "WaitFor \<Rightarrow> 'w OpenSearchImage \<Rightarrow> 'w OpenSearchImage" where
  "opensearch_with_wait wait m = m\<lparr>os_waits := os_waits m @ [wait]\<rparr>"

definition opensearch_to_generic :: "'w OpenSearchImage \<Rightarrow> 'w GenericImage res" where
  "opensearch_to_generic m =
     customized (mi_customizers m)
       (waits_or (os_waits m) [wait_http ''/_cluster/health'' (tcp opensearch_port)] (mi_image m))"

definition opensearch_start ::
  "nat \<Rightarrow> 'w reap_io \<Rightarrow> 'w OpenSearchImage \<Rightarrow> ('w client \<times> daemons, 'w module_container) run" where
  "opensearch_start fuel rio m =
     runThen (start_module fuel rio [tcp opensearch_port] (opensearch_to_generic m)) (\<lambda>x.
       runs (ret (module_started x)))"

definition opensearch_http_url :: "'w module_container \<Rightarrow> string" where
  "opensearch_http_url h = plain_url ''http'' (mc_host h) (mc_port h)"

subsection \<open>What the server sees\<close>

definition minio_managed :: "'w MinIOImage \<Rightarrow> (string \<times> string) list" where
  "minio_managed m = [(''MINIO_ROOT_USER'', mn_access_key m), (''MINIO_ROOT_PASSWORD'', mn_secret_key m)]"

definition rustfs_managed :: "'w RustFSImage \<Rightarrow> (string \<times> string) list" where
  "rustfs_managed m = [(''RUSTFS_ACCESS_KEY'', rs_access_key m), (''RUSTFS_SECRET_KEY'', rs_secret_key m)]"

definition redis_managed :: "'w RedisImage \<Rightarrow> (string \<times> string) list" where
  "redis_managed m = (if rd_password m = [] then [] else [(''REDISCLI_AUTH'', rd_password m)])"

interpretation mn_env: managed_env minio_check "minio_render rio" mi_image minio_managed mi_customizers for rio
  by unfold_locales (simp add: minio_render_def minio_managed_def render_env Let_def)

interpretation rs_env: managed_env rustfs_check rustfs_render mi_image rustfs_managed mi_customizers
  by unfold_locales (simp add: rustfs_render_def rustfs_managed_def render_env)

interpretation rd_env: managed_env redis_check redis_render mi_image redis_managed mi_customizers
  by unfold_locales (simp add: redis_render_def redis_managed_def render_env Let_def)

text \<open>
  A process started by an exec reads the first entry of a key.  The check refuses a raw entry, so
  both readings of the password agree.
\<close>

definition exec_value :: "(string \<times> string) list \<Rightarrow> string \<Rightarrow> string option" where
  "exec_value env key = map_of env key"

lemma redis_password_unique:
  assumes "redis_to_generic m = Inr g" "keeps_env (mi_customizers m)" "rd_password m \<noteq> []"
  shows "exec_value (gi_env g) ''REDISCLI_AUTH'' = Some (rd_password m)"
    "entrypoint_value (gi_env g) ''REDISCLI_AUTH'' = Some (rd_password m)"
proof -
  have g: "try_bind (redis_check m) (\<lambda>_. customized (mi_customizers m) (redis_render m)) = Inr g"
    using assms(1) by (simp add: redis_to_generic_def)
  have "redis_check m = Inr ()" by (rule rd_env.checked [OF g])
  with assms(3) have "map_of (gi_env (mi_image m)) ''REDISCLI_AUTH'' = None"
    by (fastforce simp: redis_check_def map_of_eq_None_iff list_ex_iff split: if_splits)
  moreover have "gi_env g = gi_env (mi_image m) @ redis_managed m"
    using g customized_env [OF assms(2)] rd_env.appended by (auto simp: try_bind_Inr)
  ultimately show "exec_value (gi_env g) ''REDISCLI_AUTH'' = Some (rd_password m)"
    using assms(3) by (simp add: exec_value_def map_add_def redis_managed_def)
  show "entrypoint_value (gi_env g) ''REDISCLI_AUTH'' = Some (rd_password m)"
    using rd_env.server_sees [OF g assms(2)] assms(3) by (simp add: entrypoint_value_def redis_managed_def)
qed

subsection \<open>Init scripts\<close>

fun scylla_stage :: "script_source \<Rightarrow> 'w ScyllaDBImage \<Rightarrow> 'w ScyllaDBImage res" where
  "scylla_stage (OnHost path) = scylla_with_init_file path"
| "scylla_stage (InMemory name bytes) = scylla_with_init_script name bytes"

lemma scylla_init_target_Inr:
  "scylla_init_target i name = Inr t \<Longrightarrow> i < 10000 \<and> (\<exists>n. t = ''/tmp/testcontainers-'' @ zero_pad4 i @ n)"
  by (auto simp: scylla_init_target_def split: if_splits)

interpretation sy_scripts: numbered_staging scylla_stage sy_init_scripts "''/tmp/testcontainers-''" 0
proof
  fix x and m m' :: "'a ScyllaDBImage"
  assume "scylla_stage x m = Inr m'"
  then show "0 + length (sy_init_scripts m) < 10000 \<and> (\<exists>c name. sy_init_scripts m' = sy_init_scripts m @ [c] \<and>
      cp_target c = ''/tmp/testcontainers-'' @ zero_pad4 (0 + length (sy_init_scripts m)) @ name)"
    by (cases x) (auto simp: scylla_with_init_file_def scylla_with_init_script_def try_bind_Inr host_file_def
        host_content_def split: if_splits dest!: scylla_init_target_Inr)
qed

subsection \<open>The election\<close>

text \<open>
  The poll comes back: every turn is a command in the container, which takes at least \<open>step\<close> ticks,
  and the deadline ends it.  A normal end saw the command succeed.
\<close>

lemma await_primary_returns:
  assumes exec: "\<And>cmd c. \<exists>r c'. exec_in rio cid cmd c = Some (r, c') \<and>
      now_of (ro_wait rio) c + step \<le> now_of (ro_wait rio) c'"
    and ticks: "0 < ticks_per_ms (wi_clock (ro_wait rio))" and "deadline - now_of (ro_wait rio) c \<le> int n * step"
  shows "await_primary (Suc n) rio cid budget deadline c \<noteq> None"
  using assms(3)
proof (induction n arbitrary: c)
  case 0
  then have "to_ms (wi_clock (ro_wait rio)) (deadline - now_of (ro_wait rio) c) \<le> 0"
    using ticks by (auto simp: to_ms_def pos_imp_zdiv_nonneg_iff)
  then show ?case by simp
next
  case (Suc n)
  let ?left = "to_ms (wi_clock (ro_wait rio)) (deadline - now_of (ro_wait rio) c)"
  let ?cmd = "[''mongosh'', ''--quiet'', ''--eval'', primary_js (min 150 (?left div 100 + 1))]"
  obtain r c' where e: "exec_in rio cid ?cmd c = Some (r, c')"
    "now_of (ro_wait rio) c + step \<le> now_of (ro_wait rio) c'" using exec by blast
  have "deadline - now_of (ro_wait rio) c' \<le> int n * step"
    using Suc.prems e(2) by (simp add: algebra_simps)
  then have "await_primary (Suc n) rio cid budget deadline c' \<noteq> None" by (rule Suc.IH)
  with e(1) show ?case
    by (cases r) (auto simp: await_primary.simps(2) [of "Suc n"] Let_def simp del: await_primary.simps(2))
qed

lemma await_primary_ready:
  "await_primary n rio cid budget deadline c = Some (Inr (), c') \<Longrightarrow>
     \<exists>ticks c1 res. 1 \<le> ticks \<and> ticks \<le> 150 \<and> er_exit_code res = 0 \<and>
       exec_in rio cid [''mongosh'', ''--quiet'', ''--eval'', primary_js ticks] c1 = Some (Inr res, c')"
proof (induction n rio cid budget deadline c rule: await_primary.induct)
  case (2 n rio cid budget deadline c)
  let ?left = "to_ms (wi_clock (ro_wait rio)) (deadline - now_of (ro_wait rio) c)"
  let ?ticks = "min 150 (?left div 100 + 1)"
  have pos: "\<not> ?left \<le> 0" using "2.prems" by (auto simp: Let_def)
  then have t: "1 \<le> ?ticks" "?ticks \<le> 150" by (auto simp: pos_imp_zdiv_nonneg_iff)
  obtain res c1 where e: "exec_in rio cid [''mongosh'', ''--quiet'', ''--eval'', primary_js ?ticks] c = Some (Inr res, c1)"
    using "2.prems" pos by (auto simp: Let_def split: option.splits sum.splits prod.splits)
  show ?case
  proof (cases "er_exit_code res = 0")
    case True
    with "2.prems" pos e have "c1 = c'" by (simp add: Let_def)
    with t e True show ?thesis by blast
  next
    case False
    with "2.prems" pos e have "await_primary n rio cid budget deadline c1 = Some (Inr (), c')" by (simp add: Let_def)
    from "2.IH" [OF refl pos refl e refl refl False this] show ?thesis .
  qed
qed simp

end
