(* ===== verification/BrokerModules.thy ===== *)
theory BrokerModules
  imports ModuleDetail
begin

section \<open>The broker modules\<close>

text \<open>
  \<open>src/modules/Kafka.cpp\<close> with \<open>KafkaDetail.cpp\<close>, \<open>RabbitMQ.cpp\<close>, \<open>NATS.cpp\<close> and
  \<open>Mosquitto.cpp\<close>: descriptions, rendering, the two-phase boot of Kafka and the plugins of RabbitMQ
  as started hooks, and what the running containers answer.
\<close>

subsection \<open>Kafka\<close>

record 'w KafkaImage = "'w module_image" +
  kf_cluster_id :: string
  kf_extra_env :: "(string \<times> string) list"
  kf_topics :: "(string \<times> int) list"

definition kafka_port :: nat where
  "kafka_port = 9092"

definition kafka_internal_port :: nat where
  "kafka_internal_port = 9093"

definition kKafkaSentinel :: string where
  "kKafkaSentinel = ''testcontainers: waiting for start script''"

definition kKafkaReadyLine :: string where
  "kKafkaReadyLine = ''Kafka Server started''"

definition kKafkaStarterPath :: string where
  "kKafkaStarterPath = ''/tmp/testcontainers_start.sh''"

definition kKafkaTopicsLabel :: string where
  "kKafkaTopicsLabel = ''org.testcontainers.kafka.topics''"

definition kafka_image :: "'w KafkaImage" where
  "kafka_image =
     \<lparr>mi_image = with_exposed_port (tcp kafka_port) (from_reference ''apache/kafka:3.9.1''),
      mi_customizers = [], kf_cluster_id = ''4L6g3nShT-eMCtK--X86sw'', kf_extra_env = [], kf_topics = []\<rparr>"

definition kafka_with_image ::
  "string \<Rightarrow> 'w KafkaImage \<Rightarrow> 'w KafkaImage" where
  "kafka_with_image reference = on_image (with_image reference)"

definition kafka_with_label ::
  "string \<Rightarrow> string \<Rightarrow> 'w KafkaImage \<Rightarrow> 'w KafkaImage" where
  "kafka_with_label key val = on_image (with_label key val)"

definition kafka_with_network ::
  "string \<Rightarrow> 'w KafkaImage \<Rightarrow> 'w KafkaImage" where
  "kafka_with_network network = on_image (with_network network)"

definition kafka_with_network_handle ::
  "network_handle \<Rightarrow> 'w KafkaImage \<Rightarrow> 'w KafkaImage" where
  "kafka_with_network_handle network = on_image (with_network (nh_name network))"

definition kafka_with_network_alias ::
  "string \<Rightarrow> 'w KafkaImage \<Rightarrow> 'w KafkaImage" where
  "kafka_with_network_alias alias = on_image (with_network_alias alias)"

definition kafka_with_reuse :: "bool \<Rightarrow> 'w KafkaImage \<Rightarrow> 'w KafkaImage" where
  "kafka_with_reuse b = on_image (with_reuse b)"

definition kafka_with_startup_timeout ::
  "int \<Rightarrow> 'w KafkaImage \<Rightarrow> 'w KafkaImage" where
  "kafka_with_startup_timeout timeout = on_image (with_startup_timeout timeout)"

definition kafka_with_startup_attempts ::
  "int \<Rightarrow> 'w KafkaImage \<Rightarrow> 'w KafkaImage" where
  "kafka_with_startup_attempts n = on_image (with_startup_attempts n)"

definition kafka_with_customizer ::
  "'w customizer \<Rightarrow> 'w KafkaImage \<Rightarrow> 'w KafkaImage" where
  "kafka_with_customizer customize = add_customizer customize"

definition kafka_with_env :: "string \<Rightarrow> string \<Rightarrow> 'w KafkaImage \<Rightarrow> 'w KafkaImage" where
  "kafka_with_env key val m = m\<lparr>kf_extra_env := kf_extra_env m @ [(key, val)]\<rparr>"

definition kafka_with_cluster_id :: "string \<Rightarrow> 'w KafkaImage \<Rightarrow> 'w KafkaImage" where
  "kafka_with_cluster_id cluster_id m = m\<lparr>kf_cluster_id := cluster_id\<rparr>"

definition kafka_with_topic :: "string \<Rightarrow> int \<Rightarrow> 'w KafkaImage \<Rightarrow> 'w KafkaImage" where
  "kafka_with_topic name partitions m = m\<lparr>kf_topics := kf_topics m @ [(name, partitions)]\<rparr>"

definition valid_kafka_cluster_id :: "string \<Rightarrow> bool" where
  "valid_kafka_cluster_id cid \<longleftrightarrow>
     length cid = 22 \<and>
     list_all (\<lambda>c. ascii_alnum (byte_nat c) \<or> c = CHR ''-'' \<or> c = CHR ''_'') cid"

definition kafka_env :: "string \<Rightarrow> (string \<times> string) list" where
  "kafka_env cluster_id =
     [(''KAFKA_LISTENERS'', ''PLAINTEXT://0.0.0.0:9092,BROKER://0.0.0.0:9093,'' @ ''CONTROLLER://0.0.0.0:9094''),
      (''KAFKA_LISTENER_SECURITY_PROTOCOL_MAP'', ''PLAINTEXT:PLAINTEXT,BROKER:PLAINTEXT,CONTROLLER:PLAINTEXT''),
      (''KAFKA_INTER_BROKER_LISTENER_NAME'', ''BROKER''),
      (''KAFKA_PROCESS_ROLES'', ''broker,controller''),
      (''KAFKA_NODE_ID'', ''1''),
      (''KAFKA_CONTROLLER_QUORUM_VOTERS'', ''1@localhost:9094''),
      (''KAFKA_CONTROLLER_LISTENER_NAMES'', ''CONTROLLER''),
      (''CLUSTER_ID'', cluster_id),
      (''KAFKA_OFFSETS_TOPIC_REPLICATION_FACTOR'', ''1''),
      (''KAFKA_OFFSETS_TOPIC_NUM_PARTITIONS'', ''1''),
      (''KAFKA_TRANSACTION_STATE_LOG_REPLICATION_FACTOR'', ''1''),
      (''KAFKA_TRANSACTION_STATE_LOG_MIN_ISR'', ''1''),
      (''KAFKA_GROUP_INITIAL_REBALANCE_DELAY_MS'', ''0''),
      (''KAFKA_LOG_FLUSH_INTERVAL_MESSAGES'', ''9223372036854775807'')]"

definition kafka_await_command :: string where
  "kafka_await_command =
     ''echo '' @ quoted kKafkaSentinel @ ''; while [ ! -f '' @ kKafkaStarterPath @
     '' ]; do sleep 0.1; done; exec '' @ kKafkaStarterPath"

definition kafka_starter_script :: "string \<Rightarrow> nat \<Rightarrow> string \<Rightarrow> string" where
  "kafka_starter_script advertised_host mapped_port internal_host =
     ''#!/bin/bash'' @ newline @
     ''export KAFKA_ADVERTISED_LISTENERS='' @ quoted (''PLAINTEXT://'' @ advertised_host @ '':'' @
       to_dec mapped_port @ '',BROKER://'' @ internal_host @ '':9093'') @ newline @
     ''if [ -x /etc/kafka/docker/run ]; then'' @ newline @
     ''  exec /etc/kafka/docker/run'' @ newline @
     ''else'' @ newline @
     ''  exec /etc/confluent/docker/run'' @ newline @
     ''fi'' @ newline"

definition kafka_topics_label :: "(string \<times> int) list \<Rightarrow> string" where
  "kafka_topics_label topics =
     join (map (\<lambda>(name, partitions). name @ '':'' @ int_dec partitions) topics) '',''"

text \<open>The boot, phase two: a handle of its own, on a copy of the client, asks for host and port.\<close>

definition probing ::
  "string \<Rightarrow> (('w, 'w handle) owned, 'a) act \<Rightarrow> ('w client, 'a) act" where
  "probing cid m c =
     (let (r, s) = m (adopt_container (copy_client c) cid Keep False) in (r, see_world (fst s) c))"

definition place_starter :: "'w run_io \<Rightarrow> string option \<Rightarrow> string \<Rightarrow> ('w client, unit) act" where
  "place_starter rio alias cid =
     probing cid (andThen (resolve_members (ro_wait rio) [tcp kafka_port]) (\<lambda>(host, ports).
       let internal_host = (case alias of Some a \<Rightarrow> a | None \<Rightarrow> take 12 cid) in
       on_client (copy_one_to_container rio cid
         ((host_content (kafka_starter_script host (hd ports) internal_host) kKafkaStarterPath)\<lparr>cp_mode := 493\<rparr>))))"

text \<open>The scanners of the two streams; following stops at the first match on either.\<close>

definition ready_consumer :: "(OccurrenceCounter \<times> OccurrenceCounter) consumer" where
  "ready_consumer source chunk scanned =
     (let (on_stdout, on_stderr) = scanned;
          rescanned = (if source = Stdout then (oc_feed on_stdout chunk, on_stderr)
                       else (on_stdout, oc_feed on_stderr chunk))
      in (oc_count (fst rescanned) + oc_count (snd rescanned) = 0, rescanned))"

definition broker_log_tail :: "'w run_io \<Rightarrow> string \<Rightarrow> ('w client, string) act" where
  "broker_log_tail rio cid =
     andThen (catching
       (andThen (logs (ro_net rio) cid (default_log_options\<lparr>lo_tail := ''50''\<rparr>)) (\<lambda>l.
          ret (if lg_stderr_data l = [] then lg_stdout_data l else lg_stderr_data l)))
       (\<lambda>e. if is_docker_error e then ret ''<logs unavailable>'' else throw e)) (\<lambda>log_tail.
     ret (drop (length log_tail - 2048) log_tail))"

definition broker_not_ready :: "FollowEnd \<Rightarrow> string \<Rightarrow> string \<Rightarrow> exn" where
  "broker_not_ready fin cid log_tail =
     StartupTimeoutError ((if fin = StreamEnded then ''kafka broker exited during startup''
       else ''kafka broker did not become ready in time'') @ ''; last log lines: '' @ log_tail) cid"

definition create_topic :: "'w run_io \<Rightarrow> string \<Rightarrow> string \<times> int \<Rightarrow> ('w client, unit) run" where
  "create_topic rio cid topic =
     (let (name, partitions) = topic in
      runThen (exec_or_throw rio cid
        [''/opt/kafka/bin/kafka-topics.sh'', ''--bootstrap-server'',
         ''localhost:'' @ to_dec kafka_internal_port, ''--create'', ''--if-not-exists'', ''--topic'', name,
         ''--partitions'', int_dec partitions, ''--replication-factor'', ''1'']
        (''creating kafka topic '' @ quoted name)) (\<lambda>_. runs (ret ())))"

definition run_kafka_boot ::
  "'w run_io \<Rightarrow> string option \<Rightarrow> (string \<times> int) list \<Rightarrow> int \<Rightarrow> string \<Rightarrow> ('w client, unit) run" where
  "run_kafka_boot rio alias topics phase_budget cid =
     runThen (runs (place_starter rio alias cid)) (\<lambda>_.
     runThen (\<lambda>c. finished (follow_logs (ro_stream rio) cid default_log_options ready_consumer
                (Some (saturated_add (wi_clock (ro_wait rio)) (now_of (ro_wait rio) c) phase_budget))
                (new_counter kKafkaReadyLine, new_counter kKafkaReadyLine)) c) (\<lambda>(fin, scanned).
     if fin \<noteq> ConsumerStopped then
       runs (andThen (broker_log_tail rio cid) (\<lambda>log_tail. throw (broker_not_ready fin cid log_tail)))
     else run_each (create_topic rio cid) topics))"

definition bad_topic :: "string \<times> int \<Rightarrow> bool" where
  "bad_topic topic \<longleftrightarrow> fst topic = [] \<or> snd topic < 1"

definition kafka_check :: "'w KafkaImage \<Rightarrow> unit res" where
  "kafka_check m =
     (if \<not> valid_kafka_cluster_id (kf_cluster_id m) then
        Inl (Error (''KRaft cluster id '' @ double_quoted (kf_cluster_id m) @
          '' must be exactly 22 URL-safe base64 characters '' @
          ''(kafka-storage.sh random-uuid prints one)''))
      else
        case find bad_topic (kf_topics m) of
          None \<Rightarrow> Inr ()
        | Some (name, partitions) \<Rightarrow>
            Inl (Error (''kafka topic '' @ double_quoted name @
              '' needs a non-empty name and at least one partition'')))"

definition first_alias :: "'w GenericImage \<Rightarrow> string option" where
  "first_alias g = (case cs_network_aliases (cr_spec (gi_request g)) of [] \<Rightarrow> None | a # _ \<Rightarrow> Some a)"

definition kafka_render :: "'w run_io \<Rightarrow> 'w KafkaImage \<Rightarrow> 'w GenericImage" where
  "kafka_render rio m =
     (let g = env_all (kf_extra_env m) (env_all (kafka_env (kf_cluster_id m)) (mi_image m));
          g = with_cmd [''sh'', ''-c'', kafka_await_command] g;
          g = with_wait (wait_log kKafkaSentinel) g;
          g = (if kf_topics m = [] then g else with_label kKafkaTopicsLabel (kafka_topics_label (kf_topics m)) g)
      in with_started_hook
           (hook_of (run_kafka_boot rio (first_alias (mi_image m)) (kf_topics m)
              (cr_startup_timeout (gi_request (mi_image m))))) g)"

definition kafka_to_generic :: "'w run_io \<Rightarrow> 'w KafkaImage \<Rightarrow> 'w GenericImage res" where
  "kafka_to_generic rio m =
     try_bind (kafka_check m) (\<lambda>_. customized (mi_customizers m) (kafka_render rio m))"

record 'w KafkaContainer = "'w module_container" +
  kfc_bootstrap :: string
  kfc_internal_bootstrap :: string
  kfc_cluster_id :: string

definition kafka_start ::
  "nat \<Rightarrow> 'w reap_io \<Rightarrow> 'w KafkaImage \<Rightarrow> ('w client \<times> daemons, 'w KafkaContainer) run" where
  "kafka_start fuel rio m =
     runThen (start_module fuel rio [tcp kafka_port] (kafka_to_generic (rp_run rio) m)) (\<lambda>x.
       let h = module_started x;
           cid = hd_id (snd (mc_container h));
           internal_host = (case first_alias (mi_image m) of None \<Rightarrow> take 12 cid | Some a \<Rightarrow> a) in
       runs (ret (module_container.extend h
         \<lparr>kfc_bootstrap = mc_host h @ '':'' @ to_dec (mc_port h),
          kfc_internal_bootstrap = internal_host @ '':'' @ to_dec kafka_internal_port,
          kfc_cluster_id = kf_cluster_id m\<rparr>)))"

subsection \<open>RabbitMQ\<close>

record 'w RabbitMQImage = "'w module_image" +
  rb_username :: string
  rb_password :: string
  rb_vhost :: string
  rb_definitions :: "CopyToContainer list"
  rb_plugins :: "string list"

definition amqp_port :: nat where
  "amqp_port = 5672"

definition management_port :: nat where
  "management_port = 15672"

definition kDefinitionsDir :: string where
  "kDefinitionsDir = ''/etc/rabbitmq/definitions.d''"

definition rabbit_image :: "'w RabbitMQImage" where
  "rabbit_image =
     \<lparr>mi_image = with_exposed_port (tcp management_port) (with_exposed_port (tcp amqp_port)
        (from_reference ''rabbitmq:3.13-management'')),
      mi_customizers = [], rb_username = ''guest'', rb_password = ''guest'', rb_vhost = ''/'',
      rb_definitions = [], rb_plugins = []\<rparr>"

definition rabbit_with_image ::
  "string \<Rightarrow> 'w RabbitMQImage \<Rightarrow> 'w RabbitMQImage" where
  "rabbit_with_image reference = on_image (with_image reference)"

definition rabbit_with_env ::
  "string \<Rightarrow> string \<Rightarrow> 'w RabbitMQImage \<Rightarrow> 'w RabbitMQImage" where
  "rabbit_with_env key val = on_image (with_env key val)"

definition rabbit_with_label ::
  "string \<Rightarrow> string \<Rightarrow> 'w RabbitMQImage \<Rightarrow> 'w RabbitMQImage" where
  "rabbit_with_label key val = on_image (with_label key val)"

definition rabbit_with_network ::
  "string \<Rightarrow> 'w RabbitMQImage \<Rightarrow> 'w RabbitMQImage" where
  "rabbit_with_network network = on_image (with_network network)"

definition rabbit_with_network_handle ::
  "network_handle \<Rightarrow> 'w RabbitMQImage \<Rightarrow> 'w RabbitMQImage" where
  "rabbit_with_network_handle network = on_image (with_network (nh_name network))"

definition rabbit_with_network_alias ::
  "string \<Rightarrow> 'w RabbitMQImage \<Rightarrow> 'w RabbitMQImage" where
  "rabbit_with_network_alias alias = on_image (with_network_alias alias)"

definition rabbit_with_reuse ::
  "bool \<Rightarrow> 'w RabbitMQImage \<Rightarrow> 'w RabbitMQImage" where
  "rabbit_with_reuse b = on_image (with_reuse b)"

definition rabbit_with_startup_timeout ::
  "int \<Rightarrow> 'w RabbitMQImage \<Rightarrow> 'w RabbitMQImage" where
  "rabbit_with_startup_timeout timeout = on_image (with_startup_timeout timeout)"

definition rabbit_with_startup_attempts ::
  "int \<Rightarrow> 'w RabbitMQImage \<Rightarrow> 'w RabbitMQImage" where
  "rabbit_with_startup_attempts n = on_image (with_startup_attempts n)"

definition rabbit_with_customizer ::
  "'w customizer \<Rightarrow> 'w RabbitMQImage \<Rightarrow> 'w RabbitMQImage" where
  "rabbit_with_customizer customize = add_customizer customize"

definition rabbit_with_username :: "string \<Rightarrow> 'w RabbitMQImage \<Rightarrow> 'w RabbitMQImage" where
  "rabbit_with_username username m = m\<lparr>rb_username := username\<rparr>"

definition rabbit_with_password :: "string \<Rightarrow> 'w RabbitMQImage \<Rightarrow> 'w RabbitMQImage" where
  "rabbit_with_password password m = m\<lparr>rb_password := password\<rparr>"

definition rabbit_with_vhost :: "string \<Rightarrow> 'w RabbitMQImage \<Rightarrow> 'w RabbitMQImage" where
  "rabbit_with_vhost vhost m = m\<lparr>rb_vhost := vhost\<rparr>"

definition rabbit_with_plugin :: "string \<Rightarrow> 'w RabbitMQImage \<Rightarrow> 'w RabbitMQImage" where
  "rabbit_with_plugin plugin m = m\<lparr>rb_plugins := rb_plugins m @ [plugin]\<rparr>"

definition next_definitions_target :: "'w RabbitMQImage \<Rightarrow> string" where
  "next_definitions_target m =
     kDefinitionsDir @ ''/'' @ zero_pad4 (500 + length (rb_definitions m)) @ ''-definitions.json''"

definition too_many_definitions :: exn where
  "too_many_definitions = Error ''too many definitions files (the 05NN ordering prefix is four digits)''"

definition rabbit_with_definitions :: "string \<Rightarrow> 'w RabbitMQImage \<Rightarrow> 'w RabbitMQImage res" where
  "rabbit_with_definitions host_json m =
     (let name = file_name host_json in
      if \<not> has_extension name ''.json'' then
        Inl (Error (''definitions file '' @ double_quoted name @
          '' must be named *.json (the broker imports the definitions directory '' @ ''as JSON)''))
      else if 9500 \<le> length (rb_definitions m) then Inl too_many_definitions
      else Inr (m\<lparr>rb_definitions := rb_definitions m @ [host_file host_json (next_definitions_target m)]\<rparr>))"

definition rabbit_with_definitions_json :: "string \<Rightarrow> 'w RabbitMQImage \<Rightarrow> 'w RabbitMQImage res" where
  "rabbit_with_definitions_json bytes m =
     (if 9500 \<le> length (rb_definitions m) then Inl too_many_definitions
      else Inr (m\<lparr>rb_definitions := rb_definitions m @ [host_content bytes (next_definitions_target m)]\<rparr>))"

definition json_record :: "(string \<times> string) list \<Rightarrow> json" where
  "json_record kvs = foldl (\<lambda>j (k, v). json_set k (JStr v) j) (JObj []) kvs"

definition seed_definitions :: "string \<Rightarrow> string \<Rightarrow> string \<Rightarrow> json" where
  "seed_definitions username password vhost =
     json_set ''permissions''
       (JArr [json_record [(''user'', username), (''vhost'', vhost), (''configure'', ''.*''), (''write'', ''.*''),
                           (''read'', ''.*'')]])
     (json_set ''vhosts'' (JArr [json_record [(''name'', vhost)]])
     (json_set ''users''
       (JArr [json_record [(''name'', username), (''password'', password), (''tags'', ''administrator'')]])
       (JObj [])))"

definition seed_definitions_json :: "jsonlib \<Rightarrow> string \<Rightarrow> string \<Rightarrow> string \<Rightarrow> string" where
  "seed_definitions_json L username password vhost = jl_dump L (seed_definitions username password vhost)"

definition rabbit_check :: "'w RabbitMQImage \<Rightarrow> unit res" where
  "rabbit_check m =
     (if rb_username m = [] then Inl (Error ''RabbitMQ username must not be empty (with_username)'')
      else if rb_password m = [] then
        Inl (Error (''RabbitMQ password must not be empty (with_password): the broker '' @
          ''prohibits blank-password logins on its internal auth backend''))
      else if rb_vhost m = [] then
        Inl (Error (''RabbitMQ vhost must not be empty (with_vhost); the broker'' @ apostrophe @
          ''s default '' @ ''vhost is '' @ double_quoted ''/''))
      else Inr ())"

definition enable_plugins :: "'w run_io \<Rightarrow> string list \<Rightarrow> string \<Rightarrow> ('w client, unit) run" where
  "enable_plugins rio plugins cid =
     runThen (exec_or_throw rio cid ([''rabbitmq-plugins'', ''enable'', ''--quiet''] @ plugins)
                ''rabbitmq-plugins enable'') (\<lambda>_. runs (ret ()))"

text \<open>The copies: the seed first, the files in their order, last the setting that loads them.\<close>

definition definition_copies :: "jsonlib \<Rightarrow> 'w RabbitMQImage \<Rightarrow> CopyToContainer list" where
  "definition_copies L m =
     (if rb_definitions m = [] then []
      else
        [host_content (seed_definitions_json L (rb_username m) (rb_password m) (rb_vhost m))
           (kDefinitionsDir @ ''/0010-testcontainers-seed.json'')] @
        rb_definitions m @
        [host_content (''load_definitions = '' @ kDefinitionsDir @ newline)
           ''/etc/rabbitmq/conf.d/20-testcontainers-definitions.conf''])"

definition rabbit_render :: "'w run_io \<Rightarrow> 'w RabbitMQImage \<Rightarrow> 'w GenericImage" where
  "rabbit_render rio m =
     (let g = env_all [(''RABBITMQ_DEFAULT_USER'', rb_username m), (''RABBITMQ_DEFAULT_PASS'', rb_password m),
                       (''RABBITMQ_DEFAULT_VHOST'', rb_vhost m)] (mi_image m);
          g = copy_all (definition_copies (net_json (ro_net rio)) m) g;
          g = wait_all [wait_log ''Server startup complete'',
                        Command [''rabbitmq-diagnostics'', ''-q'', ''check_port_connectivity''] 1000] g
      in if rb_plugins m = [] then g
         else
           with_started_hook (hook_of (enable_plugins rio (rb_plugins m)))
             (with_label ''org.testcontainers.rabbitmq.plugins'' (join (sort (rb_plugins m)) '','') g))"

definition rabbit_to_generic :: "'w run_io \<Rightarrow> 'w RabbitMQImage \<Rightarrow> 'w GenericImage res" where
  "rabbit_to_generic rio m =
     try_bind (rabbit_check m) (\<lambda>_. customized (mi_customizers m) (rabbit_render rio m))"

record 'w RabbitMQContainer = "'w module_container" +
  rbc_username :: string
  rbc_password :: string
  rbc_vhost :: string

definition rabbit_start ::
  "nat \<Rightarrow> 'w reap_io \<Rightarrow> 'w RabbitMQImage \<Rightarrow> ('w client \<times> daemons, 'w RabbitMQContainer) run" where
  "rabbit_start fuel rio m =
     runThen (start_module fuel rio [tcp amqp_port, tcp management_port] (rabbit_to_generic (rp_run rio) m)) (\<lambda>x.
       runs (ret (module_container.extend (module_started x)
         \<lparr>rbc_username = rb_username m, rbc_password = rb_password m, rbc_vhost = rb_vhost m\<rparr>)))"

definition rabbit_url :: "'w RabbitMQContainer \<Rightarrow> ConnectionString" where
  "rabbit_url h =
     (let url = with_url_port (mc_port h) (with_url_host (mc_host h)
                  (with_url_password (rbc_password h) (with_url_user (rbc_username h) (connection_url ''amqp''))))
      in if rbc_vhost h = ''/'' then url else with_url_database (rbc_vhost h) url)"

definition amqp_url :: "'w RabbitMQContainer \<Rightarrow> string" where
  "amqp_url h = url_to_string (rabbit_url h)"

definition management_url :: "'w RabbitMQContainer \<Rightarrow> string" where
  "management_url h = plain_url ''http'' (mc_host h) (mc_second_port h)"

subsection \<open>NATS\<close>

record 'w NATSImage = "'w module_image" +
  nt_username :: string
  nt_password :: string
  nt_jetstream :: bool
  nt_args :: "string list"

definition nats_client_port :: nat where
  "nats_client_port = 4222"

definition nats_monitoring_port :: nat where
  "nats_monitoring_port = 8222"

definition kManagedFlagNames :: "string list" where
  "kManagedFlagNames =
     [''user'', ''pass'', ''js'', ''jetstream'', ''m'', ''http_port'', ''p'', ''port'', ''a'', ''addr'', ''net'',
      ''c'', ''config'']"

definition is_managed_flag :: "string \<Rightarrow> bool" where
  "is_managed_flag arg =
     (if length arg < 2 \<or> arg ! 0 \<noteq> CHR ''-'' then False
      else
        let name = drop (if arg ! 1 = CHR ''-'' then 2 else 1) arg;
            name = (case find_char (CHR ''='') name of None \<Rightarrow> name | Some eq \<Rightarrow> take eq name)
        in name \<in> set kManagedFlagNames)"

definition nats_image :: "'w NATSImage" where
  "nats_image =
     \<lparr>mi_image = with_wait (wait_http ''/healthz'' (tcp nats_monitoring_port))
        (with_wait (wait_log ''Server is ready'')
        (with_exposed_port (tcp nats_monitoring_port) (with_exposed_port (tcp nats_client_port)
        (from_reference ''nats:2.12'')))),
      mi_customizers = [], nt_username = [], nt_password = [], nt_jetstream = False, nt_args = []\<rparr>"

definition nats_with_image :: "string \<Rightarrow> 'w NATSImage \<Rightarrow> 'w NATSImage" where
  "nats_with_image reference = on_image (with_image reference)"

definition nats_with_env ::
  "string \<Rightarrow> string \<Rightarrow> 'w NATSImage \<Rightarrow> 'w NATSImage" where
  "nats_with_env key val = on_image (with_env key val)"

definition nats_with_label ::
  "string \<Rightarrow> string \<Rightarrow> 'w NATSImage \<Rightarrow> 'w NATSImage" where
  "nats_with_label key val = on_image (with_label key val)"

definition nats_with_network :: "string \<Rightarrow> 'w NATSImage \<Rightarrow> 'w NATSImage" where
  "nats_with_network network = on_image (with_network network)"

definition nats_with_network_handle ::
  "network_handle \<Rightarrow> 'w NATSImage \<Rightarrow> 'w NATSImage" where
  "nats_with_network_handle network = on_image (with_network (nh_name network))"

definition nats_with_network_alias ::
  "string \<Rightarrow> 'w NATSImage \<Rightarrow> 'w NATSImage" where
  "nats_with_network_alias alias = on_image (with_network_alias alias)"

definition nats_with_reuse :: "bool \<Rightarrow> 'w NATSImage \<Rightarrow> 'w NATSImage" where
  "nats_with_reuse b = on_image (with_reuse b)"

definition nats_with_startup_timeout ::
  "int \<Rightarrow> 'w NATSImage \<Rightarrow> 'w NATSImage" where
  "nats_with_startup_timeout timeout = on_image (with_startup_timeout timeout)"

definition nats_with_startup_attempts ::
  "int \<Rightarrow> 'w NATSImage \<Rightarrow> 'w NATSImage" where
  "nats_with_startup_attempts n = on_image (with_startup_attempts n)"

definition nats_with_customizer ::
  "'w customizer \<Rightarrow> 'w NATSImage \<Rightarrow> 'w NATSImage" where
  "nats_with_customizer customize = add_customizer customize"

definition nats_with_username :: "string \<Rightarrow> 'w NATSImage \<Rightarrow> 'w NATSImage" where
  "nats_with_username username m = m\<lparr>nt_username := username\<rparr>"

definition nats_with_password :: "string \<Rightarrow> 'w NATSImage \<Rightarrow> 'w NATSImage" where
  "nats_with_password password m = m\<lparr>nt_password := password\<rparr>"

definition nats_with_jetstream :: "bool \<Rightarrow> 'w NATSImage \<Rightarrow> 'w NATSImage" where
  "nats_with_jetstream enable m = m\<lparr>nt_jetstream := enable\<rparr>"

definition nats_with_command_args :: "string list \<Rightarrow> 'w NATSImage \<Rightarrow> 'w NATSImage" where
  "nats_with_command_args args m = m\<lparr>nt_args := nt_args m @ args\<rparr>"

definition nats_with_command_arg :: "string \<Rightarrow> 'w NATSImage \<Rightarrow> 'w NATSImage" where
  "nats_with_command_arg arg m = m\<lparr>nt_args := nt_args m @ [arg]\<rparr>"

definition flag_is_managed :: "string \<Rightarrow> exn" where
  "flag_is_managed arg =
     Error (''nats-server flag '' @ double_quoted arg @
       '' is managed by the module: the server keeps the LAST duplicate of '' @
       ''a flag, so a raw copy would win and desync the connection getters or '' @
       ''the readiness probes '' @ [CHR 0xE2, CHR 0x80, CHR 0x94] @
       '' use the typed setter (with_username / '' @
       ''with_password / with_jetstream), or take full command ownership with '' @
       ''a customizer'' @ apostrophe @ ''s with_cmd'')"

definition nats_check :: "'w NATSImage \<Rightarrow> unit res" where
  "nats_check m =
     (if (nt_username m = []) \<noteq> (nt_password m = []) then
        Inl (Error (''NATS credentials come as a pair: set both with_username and '' @
          ''with_password, or neither''))
      else
        case find is_managed_flag (nt_args m) of None \<Rightarrow> Inr () | Some arg \<Rightarrow> Inl (flag_is_managed arg))"

definition nats_cmd :: "'w NATSImage \<Rightarrow> string list" where
  "nats_cmd m =
     [''-m'', to_dec nats_monitoring_port] @
     (if nt_username m = [] then [] else [''--user'', nt_username m, ''--pass'', nt_password m]) @
     (if nt_jetstream m then [''-js''] else []) @ nt_args m"

definition nats_render :: "'w NATSImage \<Rightarrow> 'w GenericImage" where
  "nats_render m = with_cmd (nats_cmd m) (mi_image m)"

definition nats_to_generic :: "'w NATSImage \<Rightarrow> 'w GenericImage res" where
  "nats_to_generic m = try_bind (nats_check m) (\<lambda>_. customized (mi_customizers m) (nats_render m))"

record 'w NATSContainer = "'w module_container" +
  ntc_username :: string
  ntc_password :: string

definition nats_start ::
  "nat \<Rightarrow> 'w reap_io \<Rightarrow> 'w NATSImage \<Rightarrow> ('w client \<times> daemons, 'w NATSContainer) run" where
  "nats_start fuel rio m =
     runThen (start_module fuel rio [tcp nats_client_port, tcp nats_monitoring_port] (nats_to_generic m)) (\<lambda>x.
       runs (ret (module_container.extend (module_started x)
         \<lparr>ntc_username = nt_username m, ntc_password = nt_password m\<rparr>)))"

definition nats_url_of :: "'w NATSContainer \<Rightarrow> ConnectionString" where
  "nats_url_of h =
     (let url = connection_url ''nats'';
          url = (if ntc_username h = [] then url
                 else with_url_password (ntc_password h) (with_url_user (ntc_username h) url))
      in with_url_port (mc_port h) (with_url_host (mc_host h) url))"

definition nats_url :: "'w NATSContainer \<Rightarrow> string" where
  "nats_url h = url_to_string (nats_url_of h)"

definition nats_monitoring_url :: "'w NATSContainer \<Rightarrow> string" where
  "nats_monitoring_url h = plain_url ''http'' (mc_host h) (mc_second_port h)"

subsection \<open>Mosquitto\<close>

record 'w MosquittoImage = "'w module_image" +
  mq_config_options :: "(string \<times> string) list"
  mq_user_config :: "CopyToContainer option"

definition mosquitto_port :: nat where
  "mosquitto_port = 1883"

definition kConfigPath :: string where
  "kConfigPath = ''/mosquitto/config/mosquitto.conf''"

definition mosquitto_image :: "'w MosquittoImage" where
  "mosquitto_image =
     \<lparr>mi_image = with_wait (wait_log ''running'')
        (with_exposed_port (tcp mosquitto_port) (from_reference ''eclipse-mosquitto:2.0'')),
      mi_customizers = [], mq_config_options = [], mq_user_config = None\<rparr>"

definition mosquitto_with_image ::
  "string \<Rightarrow> 'w MosquittoImage \<Rightarrow> 'w MosquittoImage" where
  "mosquitto_with_image reference = on_image (with_image reference)"

definition mosquitto_with_env ::
  "string \<Rightarrow> string \<Rightarrow> 'w MosquittoImage \<Rightarrow> 'w MosquittoImage" where
  "mosquitto_with_env key val = on_image (with_env key val)"

definition mosquitto_with_label ::
  "string \<Rightarrow> string \<Rightarrow> 'w MosquittoImage \<Rightarrow> 'w MosquittoImage" where
  "mosquitto_with_label key val = on_image (with_label key val)"

definition mosquitto_with_network ::
  "string \<Rightarrow> 'w MosquittoImage \<Rightarrow> 'w MosquittoImage" where
  "mosquitto_with_network network = on_image (with_network network)"

definition mosquitto_with_network_handle ::
  "network_handle \<Rightarrow> 'w MosquittoImage \<Rightarrow> 'w MosquittoImage" where
  "mosquitto_with_network_handle network = on_image (with_network (nh_name network))"

definition mosquitto_with_network_alias ::
  "string \<Rightarrow> 'w MosquittoImage \<Rightarrow> 'w MosquittoImage" where
  "mosquitto_with_network_alias alias = on_image (with_network_alias alias)"

definition mosquitto_with_reuse ::
  "bool \<Rightarrow> 'w MosquittoImage \<Rightarrow> 'w MosquittoImage" where
  "mosquitto_with_reuse b = on_image (with_reuse b)"

definition mosquitto_with_startup_timeout ::
  "int \<Rightarrow> 'w MosquittoImage \<Rightarrow> 'w MosquittoImage" where
  "mosquitto_with_startup_timeout timeout = on_image (with_startup_timeout timeout)"

definition mosquitto_with_startup_attempts ::
  "int \<Rightarrow> 'w MosquittoImage \<Rightarrow> 'w MosquittoImage" where
  "mosquitto_with_startup_attempts n = on_image (with_startup_attempts n)"

definition mosquitto_with_customizer ::
  "'w customizer \<Rightarrow> 'w MosquittoImage \<Rightarrow> 'w MosquittoImage" where
  "mosquitto_with_customizer customize = add_customizer customize"

definition mosquitto_with_config_option ::
  "string \<Rightarrow> string \<Rightarrow> 'w MosquittoImage \<Rightarrow> 'w MosquittoImage" where
  "mosquitto_with_config_option key val m =
     m\<lparr>mq_config_options := mq_config_options m @ [(key, val)]\<rparr>"

definition mosquitto_with_config :: "string \<Rightarrow> 'w MosquittoImage \<Rightarrow> 'w MosquittoImage" where
  "mosquitto_with_config host_conf m = m\<lparr>mq_user_config := Some (host_file host_conf kConfigPath)\<rparr>"

definition mosquitto_with_config_content :: "string \<Rightarrow> 'w MosquittoImage \<Rightarrow> 'w MosquittoImage" where
  "mosquitto_with_config_content conf m = m\<lparr>mq_user_config := Some (host_content conf kConfigPath)\<rparr>"

definition options_beside_config :: exn where
  "options_beside_config =
     Error (''with_config_option cannot be combined with a replacement config '' @
       ''(with_config / with_config_content) '' @ [CHR 0xE2, CHR 0x80, CHR 0x94] @
       '' mosquitto options are order- and '' @
       ''listener-scoped, so put the line in your config file instead'')"

definition managed_config :: "(string \<times> string) list \<Rightarrow> string" where
  "managed_config opts =
     ''# Generated by testcontainers-cpp (MosquittoImage).'' @ newline @
     ''listener '' @ to_dec mosquitto_port @ newline @ ''allow_anonymous true'' @ newline @
     concat (map (\<lambda>(key, val). key @ '' '' @ val @ newline) opts)"

definition mosquitto_render :: "'w MosquittoImage \<Rightarrow> 'w GenericImage" where
  "mosquitto_render m =
     with_copy_to
       (case mq_user_config m of
          Some conf \<Rightarrow> conf
        | None \<Rightarrow> host_content (managed_config (mq_config_options m)) kConfigPath)
       (mi_image m)"

definition mosquitto_to_generic :: "'w MosquittoImage \<Rightarrow> 'w GenericImage res" where
  "mosquitto_to_generic m =
     (if mq_user_config m \<noteq> None \<and> mq_config_options m \<noteq> [] then Inl options_beside_config
      else customized (mi_customizers m) (mosquitto_render m))"

record 'w MosquittoContainer = "'w module_container" +
  mqc_broker_url :: string

definition mosquitto_start ::
  "nat \<Rightarrow> 'w reap_io \<Rightarrow> 'w MosquittoImage \<Rightarrow> ('w client \<times> daemons, 'w MosquittoContainer) run" where
  "mosquitto_start fuel rio m =
     runThen (start_module fuel rio [tcp mosquitto_port] (mosquitto_to_generic m)) (\<lambda>x.
       let h = module_started x in
       runs (ret (module_container.extend h
         \<lparr>mqc_broker_url = ''tcp://'' @ mc_host h @ '':'' @ to_dec (mc_port h)\<rparr>)))"

subsection \<open>The boot of Kafka\<close>

text \<open>A delivery that the consumer ended is a run of the consumer over what was delivered.\<close>

lemma body_loop_run:
  "body_loop clk tty consumer deadline d c armed evs = (Some ConsumerStopped, c', armed') \<Longrightarrow> demux_at tty h d \<Longrightarrow>
     \<exists>k. run_consumer consumer (items_from tty h (map ev_data (take k evs))) c = (False, c')"
proof (induction evs arbitrary: h d c armed)
  case (Cons ev evs)
  show ?case
  proof (cases "ev_data ev = []")
    case True
    with Cons.prems(1) obtain armed1 where
      "body_loop clk tty consumer deadline d c armed1 evs = (Some ConsumerStopped, c', armed')"
      by (auto simp: Let_def split: if_splits option.splits)
    from Cons.IH [OF this Cons.prems(2)] obtain k where
      "run_consumer consumer (items_from tty h (map ev_data (take k evs))) c = (False, c')" by blast
    with True show ?thesis by (intro exI [of _ "Suc k"]) simp
  next
    case False
    obtain d' where i: "deliver_chunk consumer tty d (ev_data ev) c =
        (let (go, c') = run_consumer consumer (chunk_items tty h (ev_data ev)) c in (go, d', c'))"
      and d': "demux_at tty (h @ ev_data ev) d'"
      using deliver_chunk_items [OF Cons.prems(2) False, of consumer c] by blast
    obtain go c1 where r: "run_consumer consumer (chunk_items tty h (ev_data ev)) c = (go, c1)" by fastforce
    from Cons.prems(1) False i r consider (stopped) "\<not> go" "c' = c1"
      | (went) armed1 where "go" "body_loop clk tty consumer deadline d' c1 armed1 evs = (Some ConsumerStopped, c', armed')"
      by (auto simp: Let_def split: if_splits option.splits)
    then show ?thesis
    proof cases
      case stopped
      with r show ?thesis by (intro exI [of _ "Suc 0"]) simp
    next
      case went
      from Cons.IH [OF went(2) d'] obtain k where
        "run_consumer consumer (items_from tty (h @ ev_data ev) (map ev_data (take k evs))) c1 = (False, c')" by blast
      with r went(1) show ?thesis by (intro exI [of _ "Suc k"]) (simp add: run_consumer_append)
    qed
  qed
qed simp

definition scanned_at :: "(LogSource \<times> string) list \<Rightarrow> OccurrenceCounter \<times> OccurrenceCounter \<Rightarrow> bool" where
  "scanned_at items scanned \<longleftrightarrow>
     oc_sim kKafkaReadyLine (text_of_source Stdout items) (fst scanned) \<and>
     oc_sim kKafkaReadyLine (text_of_source Stderr items) (snd scanned)"

lemma scanned_step:
  "scanned_at items scanned \<Longrightarrow> scanned_at (items @ [(src, dat)]) (snd (ready_consumer src dat scanned))"
  by (cases src) (auto simp: scanned_at_def ready_consumer_def text_of_source_snoc oc.sim_feed split: prod.splits)

lemma scanned_count:
  "scanned_at items scanned \<Longrightarrow>
     oc_count (fst scanned) + oc_count (snd scanned) = occurrences_in FromEither kKafkaReadyLine items"
  by (auto simp: scanned_at_def occurrences_in_def count_occurrences_occ dest!: oc.sim_obs)

lemma ready_consumer_stops:
  "scanned_at before scanned \<Longrightarrow> run_consumer ready_consumer items scanned = (False, scanned') \<Longrightarrow>
     \<exists>k. 0 < occurrences_in FromEither kKafkaReadyLine (before @ take k items)"
proof (induction items arbitrary: before scanned)
  case (Cons it items)
  obtain src dat where it: "it = (src, dat)" by (cases it)
  obtain go s1 where st: "ready_consumer src dat scanned = (go, s1)"
    by (cases "ready_consumer src dat scanned")
  have s1: "scanned_at (before @ [(src, dat)]) s1" using scanned_step [OF Cons.prems(1), of src dat] st by simp
  show ?case
  proof (cases go)
    case False
    with st have "oc_count (fst s1) + oc_count (snd s1) \<noteq> 0"
      by (auto simp: ready_consumer_def Let_def split: prod.splits if_splits)
    with scanned_count [OF s1] it show ?thesis by (intro exI [of _ "1::nat"]) auto
  next
    case True
    with Cons.prems(2) it st have "run_consumer ready_consumer items s1 = (False, scanned')" by simp
    from Cons.IH [OF s1 this] obtain k where "0 < occurrences_in FromEither kKafkaReadyLine ((before @ [(src, dat)]) @ take k items)"
      by blast
    with it show ?thesis by (intro exI [of _ "Suc k"]) simp
  qed
qed simp

lemma follow_logs_stopped:
  assumes "finished (follow_logs io cid opts consumer deadline s) c = Some (Inr (ConsumerStopped, s'), c')"
  shows "\<exists>conn w k. run_consumer consumer
    (stream_items (lo_tty opts) (map ev_data (take k (fst (si_body io conn deadline w))))) s = (False, s')"
proof -
  have "follow_logs io cid opts consumer deadline s c = (Inr (Some ConsumerStopped, s'), c')"
    using assms by (auto simp: finished_def split: prod.splits sum.splits option.splits)
  then obtain conn c1 evs c2 armed where
    "world_op (si_body io conn deadline) c1 = (Inr evs, c2)"
    "stream_body_to_consumer (si_clock io) (lo_tty opts) consumer deadline s evs = (Some ConsumerStopped, s', armed)"
    unfolding follow_logs_def andThen_Inr
    by (force simp: Let_def andThen_Inr split: prod.splits option.splits)
  then have "evs = fst (si_body io conn deadline (cl_world c1))"
    "body_loop (si_clock io) (lo_tty opts) consumer deadline new_demuxer s [] evs = (Some ConsumerStopped, s', armed)"
    by (auto simp: world_op_def stream_body_to_consumer_def Let_def split: prod.splits)
  with body_loop_run [OF this(2) demux_at_new] show ?thesis by (auto simp: items_from_stream)
qed

lemma scanned_init [simp]: "scanned_at [] (new_counter kKafkaReadyLine, new_counter kKafkaReadyLine)"
  using oc.sim_init [of kKafkaReadyLine] by (simp add: scanned_at_def text_of_source_def)

text \<open>A boot that comes back has read the broker's line in the log it followed, on one of the streams.\<close>

lemma kafka_boot_ready:
  assumes "run_kafka_boot rio alias topics budget cid c = Some (Inr (), c')"
  shows "\<exists>conn deadline w k j. 0 < occurrences_in FromEither kKafkaReadyLine
    (take j (stream_items False (map ev_data (take k (fst (si_body (ro_stream rio) conn deadline w))))))"
proof -
  obtain c1 fin scanned c2 where f: "finished (follow_logs (ro_stream rio) cid default_log_options ready_consumer
      (Some (saturated_add (wi_clock (ro_wait rio)) (now_of (ro_wait rio) c1) budget))
      (new_counter kKafkaReadyLine, new_counter kKafkaReadyLine)) c1 = Some (Inr (fin, scanned), c2)"
    "fin \<noteq> ConsumerStopped \<longrightarrow> False"
    using assms by (auto simp: run_kafka_boot_def runThen_Some andThen_Inr split: if_splits)
  then have "fin = ConsumerStopped" by blast
  from follow_logs_stopped [OF f(1) [unfolded this]] obtain conn deadline w k where
    "run_consumer ready_consumer (stream_items False (map ev_data (take k (fst (si_body (ro_stream rio) conn deadline w)))))
       (new_counter kKafkaReadyLine, new_counter kKafkaReadyLine) = (False, scanned)"
    by (auto simp: default_log_options_def)
  from ready_consumer_stops [OF scanned_init this] show ?thesis unfolding append_Nil by blast
qed

subsection \<open>What RabbitMQ sees\<close>

definition rabbit_managed :: "'w RabbitMQImage \<Rightarrow> (string \<times> string) list" where
  "rabbit_managed m =
     [(''RABBITMQ_DEFAULT_USER'', rb_username m), (''RABBITMQ_DEFAULT_PASS'', rb_password m),
      (''RABBITMQ_DEFAULT_VHOST'', rb_vhost m)]"

interpretation rb_env: managed_env rabbit_check "rabbit_render rio" mi_image rabbit_managed mi_customizers for rio
  by unfold_locales (simp add: rabbit_render_def rabbit_managed_def render_env Let_def)

fun rabbit_stage :: "script_source \<Rightarrow> 'w RabbitMQImage \<Rightarrow> 'w RabbitMQImage res" where
  "rabbit_stage (OnHost path) = rabbit_with_definitions path"
| "rabbit_stage (InMemory name bytes) = rabbit_with_definitions_json bytes"

interpretation rb_files: numbered_staging rabbit_stage rb_definitions "kDefinitionsDir @ ''/''" 500
proof
  fix x and m m' :: "'a RabbitMQImage"
  assume "rabbit_stage x m = Inr m'"
  then show "500 + length (rb_definitions m) < 10000 \<and> (\<exists>c name. rb_definitions m' = rb_definitions m @ [c] \<and>
      cp_target c = (kDefinitionsDir @ ''/'') @ zero_pad4 (500 + length (rb_definitions m)) @ name)"
    by (cases x) (auto simp: rabbit_with_definitions_def rabbit_with_definitions_json_def host_file_def
        host_content_def next_definitions_target_def Let_def split: if_splits)
qed

text \<open>The directory as the broker reads it, in the order of the names: the seed first.\<close>

lemma zero_pad4_10: "zero_pad4 10 = ''0010''"
  by (simp add: zero_pad4_digits digit_char_def char_of_def bit_0)

lemma definitions_ascending:
  assumes "numbered (kDefinitionsDir @ ''/'') 500 (rb_definitions m)" "rb_definitions m \<noteq> []"
  shows "sorted_wrt (<) (map cp_target (butlast (definition_copies L m)))"
proof -
  have "kDefinitionsDir @ ''/0010-testcontainers-seed.json'' < cp_target c" if c: "c \<in> set (rb_definitions m)" for c
  proof -
    obtain i where "i < length (rb_definitions m)" "c = rb_definitions m ! i" using c by (metis in_set_conv_nth)
    then obtain name where t: "cp_target c = (kDefinitionsDir @ ''/'') @ zero_pad4 (500 + i) @ name"
      and i: "500 + i < 10000"
      using assms(1) by (auto simp: numbered_def)
    have "zero_pad4 10 @ ''-testcontainers-seed.json'' < zero_pad4 (500 + i) @ name"
      using i by (intro zero_pad4_less) auto
    then have "''0010-testcontainers-seed.json'' < zero_pad4 (500 + i) @ name" by (simp add: zero_pad4_10)
    then show ?thesis by (simp add: t)
  qed
  with assms numbered_ascending [OF assms(1)] show ?thesis
    by (auto simp: definition_copies_def host_content_def butlast_append)
qed

subsection \<open>NATS and Mosquitto\<close>

text \<open>What passes the check adds no occurrence of a flag the module manages.\<close>

lemma nats_checked: "nats_check m = Inr () \<longleftrightarrow>
    (nt_username m = [] \<longleftrightarrow> nt_password m = []) \<and> (\<forall>arg \<in> set (nt_args m). \<not> is_managed_flag arg)"
  by (auto simp: nats_check_def find_None_iff find_Some_iff split: option.splits dest: nth_mem)

text \<open>
  The broker's URL is put together without the brackets an IPv6 address needs: a reader of URLs
  cannot take it apart again.
\<close>

lemma broker_url_ipv6: "read_url (''tcp://'' @ ''::1'' @ '':'' @ to_dec p) = None"
proof -
  have s: "split_first (CHR '':'') (''tcp://::1:'' @ to_dec p) = Some (''tcp'', ''//::1:'' @ to_dec p)"
    using split_first_eq [of "CHR '':''" "''tcp''" "''//::1:'' @ to_dec p"] by simp
  have free: "\<forall>c \<in> set (''::1:'' @ to_dec p). c \<noteq> CHR ''?'' \<and> c \<noteq> CHR ''/'' \<and> c \<noteq> CHR ''@''"
    using dec_free [of p] by auto
  then have t: "takeWhile (\<lambda>c. c \<noteq> CHR ''?'') (''::1:'' @ to_dec p) = ''::1:'' @ to_dec p"
    "takeWhile (\<lambda>c. c \<noteq> CHR ''/'') (''::1:'' @ to_dec p) = ''::1:'' @ to_dec p"
    by (simp_all only: takeWhile_eq_all_conv) auto
  have n: "split_first (CHR ''@'') (''::1:'' @ to_dec p) = None" using free by (auto simp: split_first_None)
  have h: "split_first (CHR '':'') (''::1:'' @ to_dec p) = Some ([], '':1:'' @ to_dec p)"
    using split_first_eq [of "CHR '':''" "[]" "'':1:'' @ to_dec p"] by simp
  have "parse_dec 65535 ('':1:'' @ to_dec p) = None"
    by (simp add: parse_dec_def from_chars_dec_def is_digit_iff)
  then have a: "read_authority (''::1:'' @ to_dec p) = None"
    by (simp only: read_authority_def n read_host_def h option.case prod.case read_port_def) simp
  have d: "take 2 (''//::1:'' @ to_dec p) = ''//''" "drop 2 (''//::1:'' @ to_dec p) = ''::1:'' @ to_dec p"
    by (simp_all add: numeral_2_eq_2)
  have u: "''tcp://'' @ ''::1'' @ '':'' @ to_dec p = ''tcp://::1:'' @ to_dec p" by simp
  show ?thesis
    unfolding u read_url_def s option.case prod.case Let_def d t a by simp
qed

end
