(* ===== verification/Tunnel.thy ===== *)
theory Tunnel
  imports Wait
begin

section \<open>The tunnel of the host-port forwarder\<close>

text \<open>
  \<open>SshTunnel\<close> of \<open>src/HostPortForwarding.cpp\<close>: one SSH session that carries the remote forwards,
  and the pump that moves bytes between its channels and the local services.  What libssh2 and the
  sockets answer is the record \<open>tunnel_io\<close>; channels, sockets and listeners are handles.  The mutex
  makes a pass of the pump and a registration of a forward atomic.  The pieces of state that a pass
  changes are returned; a loop that never ends is \<open>None\<close>.
\<close>

subsection \<open>What libssh2 and the sockets give\<close>

datatype ssh_rc =
    SshAgain | SocketSend | SocketRecv | SocketDisconnect | ProtocolViolation | BadSocket | OtherRc int

datatype sock_ec = WouldBlock | SockEof | SockError

record 'w tunnel_io =
  tn_now :: "'w \<Rightarrow> int"
  tn_clock :: clock
  tn_last_errno :: "'w \<Rightarrow> ssh_rc"
  tn_last_error :: "'w \<Rightarrow> string \<times> int"
  tn_init :: "'w \<Rightarrow> 'w"
  tn_exit :: "'w \<Rightarrow> 'w"
  tn_connect_ssh :: "string \<Rightarrow> nat \<Rightarrow> 'w \<Rightarrow> exn option \<times> 'w"
  tn_session_init :: "'w \<Rightarrow> bool \<times> 'w"
  tn_set_blocking :: "bool \<Rightarrow> 'w \<Rightarrow> 'w"
  tn_handshake :: "'w \<Rightarrow> bool \<times> 'w"
  tn_userauth :: "string \<Rightarrow> string \<Rightarrow> 'w \<Rightarrow> bool \<times> 'w"
  tn_keepalive_config :: "bool \<Rightarrow> nat \<Rightarrow> 'w \<Rightarrow> 'w"
  tn_keepalive_send :: "'w \<Rightarrow> 'w"
  tn_disconnect :: "string \<Rightarrow> 'w \<Rightarrow> 'w"
  tn_session_free :: "'w \<Rightarrow> 'w"
  tn_close_ssh :: "'w \<Rightarrow> 'w"
  tn_listen :: "nat \<Rightarrow> 'w \<Rightarrow> nat option \<times> 'w"
  tn_cancel :: "nat \<Rightarrow> 'w \<Rightarrow> 'w"
  tn_accept :: "nat \<Rightarrow> 'w \<Rightarrow> nat option \<times> 'w"
  tn_channel_read :: "nat \<Rightarrow> 'w \<Rightarrow> (ssh_rc + string) \<times> 'w"
  tn_channel_eof :: "nat \<Rightarrow> 'w \<Rightarrow> bool"
  tn_channel_write :: "nat \<Rightarrow> string \<Rightarrow> 'w \<Rightarrow> (ssh_rc + nat) \<times> 'w"
  tn_send_eof :: "nat \<Rightarrow> 'w \<Rightarrow> bool \<times> 'w"
  tn_channel_free :: "nat \<Rightarrow> 'w \<Rightarrow> bool \<times> 'w"
  tn_sock_connect :: "nat \<Rightarrow> 'w \<Rightarrow> (bool \<times> nat) \<times> 'w"
  tn_sock_nonblocking :: "nat \<Rightarrow> 'w \<Rightarrow> 'w"
  tn_sock_open :: "nat \<Rightarrow> 'w \<Rightarrow> bool"
  tn_sock_read :: "nat \<Rightarrow> 'w \<Rightarrow> (sock_ec + string) \<times> 'w"
  tn_sock_write :: "nat \<Rightarrow> string \<Rightarrow> 'w \<Rightarrow> (sock_ec + nat) \<times> 'w"
  tn_sock_shutdown :: "nat \<Rightarrow> 'w \<Rightarrow> 'w"
  tn_sock_close :: "nat \<Rightarrow> 'w \<Rightarrow> 'w"
  tn_select_ssh :: "int \<Rightarrow> 'w \<Rightarrow> 'w"
  tn_select :: "(nat \<times> bool) list \<Rightarrow> int \<Rightarrow> 'w \<Rightarrow> 'w"

definition ssh_error :: "'w tunnel_io \<Rightarrow> 'w \<Rightarrow> string" where
  "ssh_error io w =
     (let (msg, rc) = tn_last_error io w
      in (if msg = [] then ''unknown libssh2 error'' else msg) @ '' (rc '' @ int_dec rc @ '')'')"

fun is_session_fatal :: "ssh_rc \<Rightarrow> bool" where
  "is_session_fatal SocketSend = True"
| "is_session_fatal SocketRecv = True"
| "is_session_fatal SocketDisconnect = True"
| "is_session_fatal ProtocolViolation = True"
| "is_session_fatal BadSocket = True"
| "is_session_fatal _ = False"

definition kConnBufferCap :: nat where
  "kConnBufferCap = 256 * 1024"

subsection \<open>The state\<close>

record tunnel_conn =
  cn_ch :: nat
  cn_sock :: nat
  cn_to_sock :: string
  cn_to_ch :: string
  cn_ch_eof :: bool
  cn_sock_eof :: bool
  cn_sock_send_shut :: bool
  cn_ch_eof_sent :: bool
  cn_done :: bool

definition new_conn :: "nat \<Rightarrow> nat \<Rightarrow> tunnel_conn" where
  "new_conn ch sock =
     \<lparr>cn_ch = ch, cn_sock = sock, cn_to_sock = [], cn_to_ch = [], cn_ch_eof = False, cn_sock_eof = False,
      cn_sock_send_shut = False, cn_ch_eof_sent = False, cn_done = False\<rparr>"

record listener =
  ln_handle :: nat
  ln_port :: nat

record tunnel =
  tl_listeners :: "listener list"
  tl_conns :: "tunnel_conn list"
  tl_stop :: bool
  tl_dead :: bool
  tl_why_dead :: string

definition new_tunnel :: tunnel where
  "new_tunnel = \<lparr>tl_listeners = [], tl_conns = [], tl_stop = False, tl_dead = False, tl_why_dead = []\<rparr>"

subsection \<open>Opening and closing\<close>

definition ssh_refused :: "'w tunnel_io \<Rightarrow> string \<Rightarrow> 'w \<Rightarrow> exn" where
  "ssh_refused io what w =
     DockerError (what @ '' with the host-access sidecar failed: '' @ ssh_error io w) None []"

text \<open>
  The constructor: each failure frees the session, if there is one by then, gives back the
  library's initialisation and is thrown on.
\<close>

definition open_tunnel ::
  "'w tunnel_io \<Rightarrow> string \<Rightarrow> nat \<Rightarrow> string \<Rightarrow> string \<Rightarrow> ('w, tunnel) act" where
  "open_tunnel io host port user password w =
     (case tn_connect_ssh io host port (tn_init io w) of
        (Some e, w1) \<Rightarrow> (Inl e, tn_exit io w1)
      | (None, w1) \<Rightarrow>
          (case tn_session_init io w1 of
             (False, w2) \<Rightarrow> (Inl (DockerError ''libssh2_session_init failed'' None []), tn_exit io w2)
           | (True, w2) \<Rightarrow>
               (case tn_handshake io (tn_set_blocking io True w2) of
                  (False, w3) \<Rightarrow> (Inl (ssh_refused io ''SSH handshake'' w3), tn_exit io (tn_session_free io w3))
                | (True, w3) \<Rightarrow>
                    (case tn_userauth io user password w3 of
                       (False, w4) \<Rightarrow>
                         (Inl (ssh_refused io ''SSH authentication'' w4), tn_exit io (tn_session_free io w4))
                     | (True, w4) \<Rightarrow>
                         (Inr new_tunnel, tn_set_blocking io False (tn_keepalive_config io False 30 w4))))))"

text \<open>The destructor, once the pump has come back.\<close>

definition close_tunnel :: "'w tunnel_io \<Rightarrow> tunnel \<Rightarrow> 'w \<Rightarrow> 'w" where
  "close_tunnel io t w =
     (let w1 = tn_set_blocking io True w;
          w2 = fold (\<lambda>c v. snd (tn_channel_free io (cn_ch c) v)) (tl_conns t) w1;
          w3 = fold (\<lambda>l. tn_cancel io (ln_handle l)) (tl_listeners t) w2
      in tn_exit io (tn_close_ssh io (tn_session_free io (tn_disconnect io ''testcontainers shutdown'' w3))))"

definition request_stop :: "tunnel \<Rightarrow> tunnel" where
  "request_stop t = t\<lparr>tl_stop := True\<rparr>"

subsection \<open>Registering a forward\<close>

definition forward_failed :: "'w tunnel_io \<Rightarrow> nat \<Rightarrow> 'w \<Rightarrow> exn" where
  "forward_failed io port w =
     DockerError (''requesting the remote forward for host port '' @ to_dec port @ '' failed: '' @ ssh_error io w)
       None []"

definition forward_timed_out :: "nat \<Rightarrow> exn" where
  "forward_timed_out port =
     DockerError (''timed out requesting the remote forward for host port '' @ to_dec port) None []"

fun listen_loop :: "nat \<Rightarrow> 'w tunnel_io \<Rightarrow> nat \<Rightarrow> int \<Rightarrow> ('w, nat) run" where
  "listen_loop 0 io port deadline w = None"
| "listen_loop (Suc n) io port deadline w =
     (case tn_listen io port w of
        (Some l, w1) \<Rightarrow> Some (Inr l, w1)
      | (None, w1) \<Rightarrow>
          (if tn_last_errno io w1 \<noteq> SshAgain then Some (Inl (forward_failed io port w1), w1)
           else if deadline \<le> tn_now io w1 then Some (Inl (forward_timed_out port), w1)
           else listen_loop n io port deadline (tn_select_ssh io 50 w1)))"

definition tunnel_down :: "tunnel \<Rightarrow> exn" where
  "tunnel_down t =
     DockerError (''the SSH tunnel to the host-access sidecar is down: '' @ tl_why_dead t) None []"

definition add_forward :: "nat \<Rightarrow> 'w tunnel_io \<Rightarrow> nat \<Rightarrow> (tunnel \<times> 'w, unit) run" where
  "add_forward fuel io port s =
     (let (t, w) = s in
      if tl_dead t then Some (Inl (tunnel_down t), s)
      else
        map_option (\<lambda>(r, w1).
            case r of
              Inl e \<Rightarrow> (Inl e, (t, w1))
            | Inr l \<Rightarrow> (Inr (), (t\<lparr>tl_listeners := tl_listeners t @ [\<lparr>ln_handle = l, ln_port = port\<rparr>]\<rparr>, w1)))
          (listen_loop fuel io port (tn_now io w + 10000 * ticks_per_ms (tn_clock io)) w))"

subsection \<open>One pass over one connection\<close>

text \<open>How a stage of a pass ended: on, with the connection given up, or with the session.\<close>

datatype pass = Pumped | ConnBroke | SessionBroke string

type_synonym 'w stage = "tunnel_conn \<Rightarrow> 'w \<Rightarrow> pass \<times> tunnel_conn \<times> 'w"

definition close_socks :: "'w tunnel_io \<Rightarrow> nat list \<Rightarrow> 'w \<Rightarrow> 'w" where
  "close_socks io socks w = fold (tn_sock_close io) socks w"

definition conn_error :: "'w tunnel_io \<Rightarrow> tunnel_conn \<Rightarrow> 'w \<Rightarrow> tunnel_conn \<times> 'w" where
  "conn_error io c w = (c\<lparr>cn_done := True\<rparr>, tn_sock_close io (cn_sock c) w)"

text \<open>
  An SSH error: one that is fatal for the session first closes the sockets of all connections
  (\<open>fail_locked\<close>), and either way the connection is given up.
\<close>

definition channel_broke :: "'w tunnel_io \<Rightarrow> nat list \<Rightarrow> string \<Rightarrow> ssh_rc \<Rightarrow> 'w stage" where
  "channel_broke io socks what rc c w =
     (if is_session_fatal rc then
        (SessionBroke (what @ '': '' @ ssh_error io w), conn_error io c (close_socks io socks w))
      else (ConnBroke, conn_error io c w))"

function fill_to_sock :: "'w tunnel_io \<Rightarrow> nat list \<Rightarrow> 'w stage" where
  "fill_to_sock io socks c w =
     (if \<not> cn_ch_eof c \<and> length (cn_to_sock c) < kConnBufferCap then
        case tn_channel_read io (cn_ch c) w of
          (Inr bytes, w1) \<Rightarrow>
            (if bytes = [] then
               (Pumped, if tn_channel_eof io (cn_ch c) w1 then c\<lparr>cn_ch_eof := True\<rparr> else c, w1)
             else fill_to_sock io socks (c\<lparr>cn_to_sock := cn_to_sock c @ bytes\<rparr>) w1)
        | (Inl rc, w1) \<Rightarrow>
            (if rc = SshAgain then (Pumped, c, w1)
             else channel_broke io socks ''reading a forwarded connection failed'' rc c w1)
      else (Pumped, c, w))"
  by pat_completeness auto
termination
  by (relation "measure (\<lambda>(io, socks, c, w). kConnBufferCap - length (cn_to_sock c))")
    (auto intro: diff_less_mono2 simp: neq_Nil_conv)

declare fill_to_sock.simps [simp del]

partial_function (option) drain_to_sock ::
  "'w tunnel_io \<Rightarrow> tunnel_conn \<Rightarrow> 'w \<Rightarrow> (pass \<times> tunnel_conn \<times> 'w) option" where
  "drain_to_sock io c w =
     (if cn_to_sock c = [] then Some (Pumped, c, w)
      else
        case tn_sock_write io (cn_sock c) (cn_to_sock c) w of
          (Inl ec, w1) \<Rightarrow>
            (if ec = WouldBlock then Some (Pumped, c, w1) else Some (ConnBroke, conn_error io c w1))
        | (Inr n, w1) \<Rightarrow> drain_to_sock io (c\<lparr>cn_to_sock := drop n (cn_to_sock c)\<rparr>) w1)"

definition shut_sock :: "'w tunnel_io \<Rightarrow> 'w stage" where
  "shut_sock io c w =
     (if cn_ch_eof c \<and> cn_to_sock c = [] \<and> \<not> cn_sock_send_shut c then
        (Pumped, c\<lparr>cn_sock_send_shut := True\<rparr>, tn_sock_shutdown io (cn_sock c) w)
      else (Pumped, c, w))"

partial_function (option) fill_to_ch ::
  "'w tunnel_io \<Rightarrow> tunnel_conn \<Rightarrow> 'w \<Rightarrow> (pass \<times> tunnel_conn \<times> 'w) option" where
  "fill_to_ch io c w =
     (if \<not> cn_sock_eof c \<and> length (cn_to_ch c) < kConnBufferCap then
        case tn_sock_read io (cn_sock c) w of
          (Inl ec, w1) \<Rightarrow>
            (if ec = WouldBlock then Some (Pumped, c, w1)
             else if ec = SockEof then Some (Pumped, c\<lparr>cn_sock_eof := True\<rparr>, w1)
             else Some (ConnBroke, conn_error io c w1))
        | (Inr bytes, w1) \<Rightarrow> fill_to_ch io (c\<lparr>cn_to_ch := cn_to_ch c @ bytes\<rparr>) w1
      else Some (Pumped, c, w))"

partial_function (option) drain_to_ch ::
  "'w tunnel_io \<Rightarrow> nat list \<Rightarrow> tunnel_conn \<Rightarrow> 'w \<Rightarrow> (pass \<times> tunnel_conn \<times> 'w) option" where
  "drain_to_ch io socks c w =
     (if cn_to_ch c = [] then Some (Pumped, c, w)
      else
        case tn_channel_write io (cn_ch c) (cn_to_ch c) w of
          (Inl rc, w1) \<Rightarrow>
            (if rc = SshAgain then Some (Pumped, c, w1)
             else Some (channel_broke io socks ''writing a forwarded connection failed'' rc c w1))
        | (Inr n, w1) \<Rightarrow> drain_to_ch io socks (c\<lparr>cn_to_ch := drop n (cn_to_ch c)\<rparr>) w1)"

definition send_ch_eof :: "'w tunnel_io \<Rightarrow> 'w stage" where
  "send_ch_eof io c w =
     (if cn_sock_eof c \<and> cn_to_ch c = [] \<and> \<not> cn_ch_eof_sent c then
        case tn_send_eof io (cn_ch c) w of
          (ok, w1) \<Rightarrow> (Pumped, if ok then c\<lparr>cn_ch_eof_sent := True\<rparr> else c, w1)
      else (Pumped, c, w))"

definition settle_conn :: "'w stage" where
  "settle_conn c w =
     (Pumped, if cn_ch_eof c \<and> cn_sock_eof c \<and> cn_to_sock c = [] \<and> cn_to_ch c = [] then c\<lparr>cn_done := True\<rparr> else c, w)"

text \<open>A stage goes on to the next unless it broke.\<close>

definition onward ::
  "(pass \<times> tunnel_conn \<times> 'w) option \<Rightarrow> (tunnel_conn \<Rightarrow> 'w \<Rightarrow> (pass \<times> tunnel_conn \<times> 'w) option) \<Rightarrow>
    (pass \<times> tunnel_conn \<times> 'w) option" where
  "onward r f =
     (case r of None \<Rightarrow> None | Some (p, c, w) \<Rightarrow> (if p = Pumped then f c w else Some (p, c, w)))"

definition pump_conn ::
  "'w tunnel_io \<Rightarrow> nat list \<Rightarrow> tunnel_conn \<Rightarrow> 'w \<Rightarrow> (pass \<times> tunnel_conn \<times> 'w) option" where
  "pump_conn io socks c w =
     onward (onward (onward (onward (onward (onward
       (Some (fill_to_sock io socks c w))
       (drain_to_sock io))
       (\<lambda>c w. Some (shut_sock io c w)))
       (fill_to_ch io))
       (drain_to_ch io socks))
       (\<lambda>c w. Some (send_ch_eof io c w)))
       (\<lambda>c w. Some (settle_conn c w))"

subsection \<open>One pass over the session\<close>

text \<open>Accepting: the answer says why the session broke, if it did.\<close>

partial_function (option) accept_all ::
  "'w tunnel_io \<Rightarrow> nat \<Rightarrow> nat \<Rightarrow> tunnel_conn list \<Rightarrow> 'w \<Rightarrow> (string option \<times> tunnel_conn list \<times> 'w) option" where
  "accept_all io l port conns w =
     (case tn_accept io l w of
        (None, w1) \<Rightarrow>
          (if tn_last_errno io w1 \<noteq> SshAgain \<and> is_session_fatal (tn_last_errno io w1) then
             Some (Some (''accepting a forwarded connection failed: '' @ ssh_error io w1), conns,
               close_socks io (map cn_sock conns) w1)
           else Some (None, conns, w1))
      | (Some ch, w1) \<Rightarrow>
          (case tn_sock_connect io port w1 of
             ((ok, sock), w2) \<Rightarrow>
               (if ok then accept_all io l port (conns @ [new_conn ch sock]) (tn_sock_nonblocking io sock w2)
                else accept_all io l port (conns @ [(new_conn ch sock)\<lparr>cn_done := True\<rparr>]) w2)))"

fun accept_each ::
  "'w tunnel_io \<Rightarrow> listener list \<Rightarrow> tunnel_conn list \<Rightarrow> 'w \<Rightarrow> (string option \<times> tunnel_conn list \<times> 'w) option" where
  "accept_each io [] conns w = Some (None, conns, w)"
| "accept_each io (l # ls) conns w =
     (case accept_all io (ln_handle l) (ln_port l) conns w of
        None \<Rightarrow> None
      | Some (Some why, conns1, w1) \<Rightarrow> Some (Some why, conns1, w1)
      | Some (None, conns1, w1) \<Rightarrow> accept_each io ls conns1 w1)"

fun pump_conns ::
  "'w tunnel_io \<Rightarrow> nat list \<Rightarrow> tunnel_conn list \<Rightarrow> 'w \<Rightarrow> (string option \<times> tunnel_conn list \<times> 'w) option" where
  "pump_conns io socks [] w = Some (None, [], w)"
| "pump_conns io socks (c # cs) w =
     (if cn_done c then
        map_option (\<lambda>(why, cs1, w1). (why, c # cs1, w1)) (pump_conns io socks cs w)
      else
        case pump_conn io socks c w of
          None \<Rightarrow> None
        | Some (SessionBroke why, c1, w1) \<Rightarrow> Some (Some why, c1 # cs, w1)
        | Some (_, c1, w1) \<Rightarrow>
            map_option (\<lambda>(why, cs1, w2). (why, c1 # cs1, w2)) (pump_conns io socks cs w1))"

fun reap_conns :: "'w tunnel_io \<Rightarrow> tunnel_conn list \<Rightarrow> 'w \<Rightarrow> tunnel_conn list \<times> 'w" where
  "reap_conns io [] w = ([], w)"
| "reap_conns io (c # cs) w =
     (if cn_done c then
        case tn_channel_free io (cn_ch c) w of
          (freed, w1) \<Rightarrow>
            (if freed then reap_conns io cs (tn_sock_close io (cn_sock c) w1)
             else apfst ((#) c) (reap_conns io cs w1))
      else apfst ((#) c) (reap_conns io cs w))"

definition broken :: "string option \<Rightarrow> tunnel \<Rightarrow> tunnel" where
  "broken why t = (case why of None \<Rightarrow> t | Some r \<Rightarrow> t\<lparr>tl_dead := True, tl_why_dead := r\<rparr>)"

definition pump_tunnel :: "'w tunnel_io \<Rightarrow> tunnel \<times> 'w \<Rightarrow> (tunnel \<times> 'w) option" where
  "pump_tunnel io s =
     (let (t, w) = s in
      case accept_each io (tl_listeners t) (tl_conns t) (tn_keepalive_send io w) of
        None \<Rightarrow> None
      | Some (Some why, conns, w1) \<Rightarrow> Some (broken (Some why) (t\<lparr>tl_conns := conns\<rparr>), w1)
      | Some (None, conns, w1) \<Rightarrow>
          (case pump_conns io (map cn_sock conns) conns w1 of
             None \<Rightarrow> None
           | Some (Some why, conns2, w2) \<Rightarrow> Some (broken (Some why) (t\<lparr>tl_conns := conns2\<rparr>), w2)
           | Some (None, conns2, w2) \<Rightarrow>
               (case reap_conns io conns2 w2 of (conns3, w3) \<Rightarrow> Some (t\<lparr>tl_conns := conns3\<rparr>, w3))))"

definition watched :: "'w tunnel_io \<Rightarrow> tunnel \<Rightarrow> 'w \<Rightarrow> (nat \<times> bool) list" where
  "watched io t w =
     map (\<lambda>c. (cn_sock c, cn_to_sock c \<noteq> []))
       (filter (\<lambda>c. \<not> cn_done c \<and> tn_sock_open io (cn_sock c) w) (tl_conns t))"

text \<open>One turn of the pump thread: whether it goes on, and the state then.\<close>

definition loop_turn :: "'w tunnel_io \<Rightarrow> tunnel \<times> 'w \<Rightarrow> (bool \<times> tunnel \<times> 'w) option" where
  "loop_turn io s =
     (if tl_stop (fst s) \<or> tl_dead (fst s) then Some (False, s)
      else
        map_option (\<lambda>(t, w).
            if tl_stop t \<or> tl_dead t then (False, t, w) else (True, t, tn_select io (watched io t w) 100 w))
          (pump_tunnel io s))"

end
