(* ===== verification/Relay.thy ===== *)
theory Relay
  imports Tunnel
begin

section \<open>What the tunnel relays\<close>

text \<open>
  The life of one forwarded connection of \<open>src/HostPortForwarding.cpp\<close>.  The I/O is recorded: its
  world carries, beside the given one, the events of the connection in order.  The two directions of
  a connection share one contract, the locale \<open>relay\<close>.
\<close>

subsection \<open>Recording\<close>

datatype io_event = ChRead string | SkWrote string | SkShut | SkRead string | ChWrote string | ChEofSent

type_synonym 'w seen_world = "'w \<times> io_event list"

definition silently :: "('w \<Rightarrow> 'w) \<Rightarrow> 'w seen_world \<Rightarrow> 'w seen_world" where
  "silently f s = (f (fst s), snd s)"

definition noting :: "('a \<Rightarrow> io_event list) \<Rightarrow> ('w \<Rightarrow> 'a \<times> 'w) \<Rightarrow> 'w seen_world \<Rightarrow> 'a \<times> 'w seen_world" where
  "noting note f s = (case f (fst s) of (x, w) \<Rightarrow> (x, (w, snd s @ note x)))"

abbreviation unnoted :: "('w \<Rightarrow> 'a \<times> 'w) \<Rightarrow> 'w seen_world \<Rightarrow> 'a \<times> 'w seen_world" where
  "unnoted \<equiv> noting (\<lambda>_. [])"

definition recording :: "'w tunnel_io \<Rightarrow> 'w seen_world tunnel_io" where
  "recording io =
     \<lparr>tn_now = tn_now io \<circ> fst, tn_clock = tn_clock io, tn_last_errno = tn_last_errno io \<circ> fst,
      tn_last_error = tn_last_error io \<circ> fst, tn_init = silently (tn_init io), tn_exit = silently (tn_exit io),
      tn_connect_ssh = (\<lambda>h p. unnoted (tn_connect_ssh io h p)), tn_session_init = unnoted (tn_session_init io),
      tn_set_blocking = (\<lambda>b. silently (tn_set_blocking io b)), tn_handshake = unnoted (tn_handshake io),
      tn_userauth = (\<lambda>u p. unnoted (tn_userauth io u p)),
      tn_keepalive_config = (\<lambda>r n. silently (tn_keepalive_config io r n)),
      tn_keepalive_send = silently (tn_keepalive_send io),
      tn_disconnect = (\<lambda>m. silently (tn_disconnect io m)), tn_session_free = silently (tn_session_free io),
      tn_close_ssh = silently (tn_close_ssh io), tn_listen = (\<lambda>p. unnoted (tn_listen io p)),
      tn_cancel = (\<lambda>l. silently (tn_cancel io l)), tn_accept = (\<lambda>l. unnoted (tn_accept io l)),
      tn_channel_read = (\<lambda>ch. noting (case_sum (\<lambda>_. []) (\<lambda>bytes. [ChRead bytes])) (tn_channel_read io ch)),
      tn_channel_eof = (\<lambda>ch s. tn_channel_eof io ch (fst s)),
      tn_channel_write = (\<lambda>ch bytes. noting (case_sum (\<lambda>_. []) (\<lambda>n. [ChWrote (take n bytes)]))
        (tn_channel_write io ch bytes)),
      tn_send_eof = (\<lambda>ch. noting (\<lambda>ok. if ok then [ChEofSent] else []) (tn_send_eof io ch)),
      tn_channel_free = (\<lambda>ch. unnoted (tn_channel_free io ch)),
      tn_sock_connect = (\<lambda>p. unnoted (tn_sock_connect io p)),
      tn_sock_nonblocking = (\<lambda>k. silently (tn_sock_nonblocking io k)),
      tn_sock_open = (\<lambda>k s. tn_sock_open io k (fst s)),
      tn_sock_read = (\<lambda>k. noting (case_sum (\<lambda>_. []) (\<lambda>bytes. [SkRead bytes])) (tn_sock_read io k)),
      tn_sock_write = (\<lambda>k bytes. noting (case_sum (\<lambda>_. []) (\<lambda>n. [SkWrote (take n bytes)]))
        (tn_sock_write io k bytes)),
      tn_sock_shutdown = (\<lambda>k s. (tn_sock_shutdown io k (fst s), snd s @ [SkShut])),
      tn_sock_close = (\<lambda>k. silently (tn_sock_close io k)),
      tn_select_ssh = (\<lambda>ms. silently (tn_select_ssh io ms)),
      tn_select = (\<lambda>fds ms. silently (tn_select io fds ms))\<rparr>"

lemma recording_simps [simp]:
  "tn_channel_read (recording io) ch = noting (case_sum (\<lambda>_. []) (\<lambda>bytes. [ChRead bytes])) (tn_channel_read io ch)"
  "tn_channel_eof (recording io) ch s = tn_channel_eof io ch (fst s)"
  "tn_channel_write (recording io) ch bytes =
     noting (case_sum (\<lambda>_. []) (\<lambda>n. [ChWrote (take n bytes)])) (tn_channel_write io ch bytes)"
  "tn_send_eof (recording io) ch = noting (\<lambda>ok. if ok then [ChEofSent] else []) (tn_send_eof io ch)"
  "tn_sock_read (recording io) k = noting (case_sum (\<lambda>_. []) (\<lambda>bytes. [SkRead bytes])) (tn_sock_read io k)"
  "tn_sock_write (recording io) k bytes =
     noting (case_sum (\<lambda>_. []) (\<lambda>n. [SkWrote (take n bytes)])) (tn_sock_write io k bytes)"
  "tn_sock_shutdown (recording io) k s = (tn_sock_shutdown io k (fst s), snd s @ [SkShut])"
  "tn_sock_close (recording io) k = silently (tn_sock_close io k)"
  by (simp_all add: recording_def)

lemma snd_noting: "noting note f s = (x, s') \<Longrightarrow> snd s' = snd s @ note x"
  by (auto simp: noting_def split: prod.splits)

lemma fst_noting [simp]: "fst (noting note f s) = fst (f (fst s))"
  by (simp add: noting_def split: prod.split)

lemma snd_silently [simp]: "snd (silently f s) = snd s"
  by (simp add: silently_def)

lemma snd_close_socks [simp]: "snd (close_socks (recording io) socks s) = snd s"
  by (induction socks arbitrary: s) (simp_all add: close_socks_def)

subsection \<open>What each stage does\<close>

lemma conn_error_seen:
  "conn_error (recording io) c s = (c', s') \<Longrightarrow> c' = c\<lparr>cn_done := True\<rparr> \<and> snd s' = snd s"
  by (auto simp: conn_error_def)

lemma channel_broke_seen:
  "channel_broke (recording io) socks what rc c s = (p, c', s') \<Longrightarrow>
     p \<noteq> Pumped \<and> c' = c\<lparr>cn_done := True\<rparr> \<and> snd s' = snd s"
  by (auto simp: channel_broke_def conn_error_def split: if_splits)

lemma fill_to_sock_seen:
  "fill_to_sock (recording io) socks c s = (p, c', s') \<Longrightarrow>
     \<exists>bss e d. snd s' = snd s @ map ChRead bss \<and>
       c' = c\<lparr>cn_to_sock := cn_to_sock c @ concat bss, cn_ch_eof := e, cn_done := d\<rparr> \<and>
       (cn_ch_eof c \<longrightarrow> e \<and> bss = []) \<and> (p = Pumped \<longrightarrow> d = cn_done c) \<and> (p \<noteq> Pumped \<longrightarrow> d)"
proof (induction "recording io" socks c s arbitrary: p c' s' rule: fill_to_sock.induct)
  case (1 socks c s)
  show ?case
  proof (cases "\<not> cn_ch_eof c \<and> length (cn_to_sock c) < kConnBufferCap")
    case False
    with "1.prems" have "p = Pumped" "c' = c" "s' = s" by (auto simp: fill_to_sock.simps [of _ _ c])
    then show ?thesis by (intro exI [of _ "[]"] exI [of _ "cn_ch_eof c"] exI [of _ "cn_done c"]) simp
  next
    case True
    obtain r s1 where r: "tn_channel_read (recording io) (cn_ch c) s = (r, s1)"
      by (cases "tn_channel_read (recording io) (cn_ch c) s")
    then have tr: "snd s1 = snd s @ case_sum (\<lambda>_. []) (\<lambda>bytes. [ChRead bytes]) r" by (auto dest: snd_noting)
    show ?thesis
    proof (cases r)
      case (Inl rc)
      show ?thesis
      proof (cases "rc = SshAgain")
        case again: True
        with "1.prems" True r Inl have "p = Pumped" "c' = c" "s' = s1" by (auto simp: fill_to_sock.simps [of _ _ c])
        with tr Inl show ?thesis by (intro exI [of _ "[]"] exI [of _ "cn_ch_eof c"] exI [of _ "cn_done c"]) simp
      next
        case False
        with "1.prems" True r Inl have
          "channel_broke (recording io) socks ''reading a forwarded connection failed'' rc c s1 = (p, c', s')"
          by (simp add: fill_to_sock.simps [of _ _ c])
        with tr Inl show ?thesis
          by (intro exI [of _ "[]"] exI [of _ "cn_ch_eof c"] exI [of _ True]) (auto dest!: channel_broke_seen)
      qed
    next
      case (Inr bytes)
      show ?thesis
      proof (cases "bytes = []")
        case True
        with "1.prems" \<open>\<not> cn_ch_eof c \<and> _\<close> r tr Inr show ?thesis
          by (intro exI [of _ "[[]]"] exI [of _ "cn_ch_eof c'"] exI [of _ "cn_done c"])
            (auto simp: fill_to_sock.simps [of _ _ c])
      next
        case False
        with "1.prems" True r Inr have "fill_to_sock (recording io) socks (c\<lparr>cn_to_sock := cn_to_sock c @ bytes\<rparr>) s1 = (p, c', s')"
          by (simp add: fill_to_sock.simps [of _ _ c])
        from "1.hyps" [OF True r [symmetric] Inr False this] obtain bss e d where
          "snd s' = snd s1 @ map ChRead bss"
          "c' = c\<lparr>cn_to_sock := (cn_to_sock c @ bytes) @ concat bss, cn_ch_eof := e, cn_done := d\<rparr>"
          "p = Pumped \<longrightarrow> d = cn_done c" "p \<noteq> Pumped \<longrightarrow> d"
          by auto
        with True tr Inr show ?thesis
          by (intro exI [of _ "bytes # bss"] exI [of _ e] exI [of _ d]) auto
      qed
    qed
  qed
qed

lemmas drain_to_sock_run [consumes 1, case_names turn] = drain_to_sock.raw_induct [rotated]

lemma drain_to_sock_seen:
  assumes "drain_to_sock (recording io) c s = Some (p, c', s')"
  shows "\<exists>bss d. snd s' = snd s @ map SkWrote bss \<and> cn_to_sock c = concat bss @ cn_to_sock c' \<and>
    c' = c\<lparr>cn_to_sock := cn_to_sock c', cn_done := d\<rparr> \<and> (bss \<noteq> [] \<longrightarrow> cn_to_sock c \<noteq> []) \<and>
    (p = Pumped \<longrightarrow> d = cn_done c) \<and> (p \<noteq> Pumped \<longrightarrow> d)"
  using assms
proof (induction "recording io" c s "(p, c', s')" rule: drain_to_sock_run)
  case (turn drain c s)
  show ?case
  proof (cases "cn_to_sock c = []")
    case True
    with turn.hyps show ?thesis by (auto intro!: exI [of _ "[]"])
  next
    case False
    obtain r s1 where r: "tn_sock_write (recording io) (cn_sock c) (cn_to_sock c) s = (r, s1)"
      by (cases "tn_sock_write (recording io) (cn_sock c) (cn_to_sock c) s")
    then have tr: "snd s1 = snd s @ case_sum (\<lambda>_. []) (\<lambda>n. [SkWrote (take n (cn_to_sock c))]) r"
      by (auto dest: snd_noting)
    show ?thesis
    proof (cases r)
      case (Inl ec)
      with turn.hyps False r tr show ?thesis
        by (intro exI [of _ "[]"] exI [of _ "cn_done c'"]) (auto split: if_splits dest!: conn_error_seen)
    next
      case (Inr n)
      with turn.hyps False r have "drain (recording io) (c\<lparr>cn_to_sock := drop n (cn_to_sock c)\<rparr>) s1 = Some (p, c', s')"
        by simp
      from turn.hyps(1) [OF this] obtain bss d where
        "snd s' = snd s1 @ map SkWrote bss" "drop n (cn_to_sock c) = concat bss @ cn_to_sock c'"
        "c' = c\<lparr>cn_to_sock := cn_to_sock c', cn_done := d\<rparr>" "p = Pumped \<longrightarrow> d = cn_done c" "p \<noteq> Pumped \<longrightarrow> d"
        by auto
      moreover from this(2) have "cn_to_sock c = take n (cn_to_sock c) @ concat bss @ cn_to_sock c'"
        by (metis append_take_drop_id)
      ultimately show ?thesis using tr Inr False
        by (intro exI [of _ "take n (cn_to_sock c) # bss"] exI [of _ d]) auto
    qed
  qed
qed

lemmas fill_to_ch_run [consumes 1, case_names turn] = fill_to_ch.raw_induct [rotated]

lemma fill_to_ch_seen:
  assumes "fill_to_ch (recording io) c s = Some (p, c', s')"
  shows "\<exists>bss e d. snd s' = snd s @ map SkRead bss \<and>
    c' = c\<lparr>cn_to_ch := cn_to_ch c @ concat bss, cn_sock_eof := e, cn_done := d\<rparr> \<and>
    (cn_sock_eof c \<longrightarrow> e \<and> bss = []) \<and> (p = Pumped \<longrightarrow> d = cn_done c) \<and> (p \<noteq> Pumped \<longrightarrow> d)"
  using assms
proof (induction "recording io" c s "(p, c', s')" rule: fill_to_ch_run)
  case (turn fill c s)
  show ?case
  proof (cases "\<not> cn_sock_eof c \<and> length (cn_to_ch c) < kConnBufferCap")
    case False
    with turn.hyps have "p = Pumped" "c' = c" "s' = s" by auto
    then show ?thesis by (intro exI [of _ "[]"] exI [of _ "cn_sock_eof c"] exI [of _ "cn_done c"]) simp
  next
    case True
    obtain r s1 where r: "tn_sock_read (recording io) (cn_sock c) s = (r, s1)"
      by (cases "tn_sock_read (recording io) (cn_sock c) s")
    then have tr: "snd s1 = snd s @ case_sum (\<lambda>_. []) (\<lambda>bytes. [SkRead bytes]) r" by (auto dest: snd_noting)
    show ?thesis
    proof (cases r)
      case (Inl ec)
      with turn.hyps True r tr show ?thesis
        by (intro exI [of _ "[]"] exI [of _ "cn_sock_eof c'"] exI [of _ "cn_done c'"])
          (auto split: if_splits dest!: conn_error_seen)
    next
      case (Inr bytes)
      with turn.hyps True r have "fill (recording io) (c\<lparr>cn_to_ch := cn_to_ch c @ bytes\<rparr>) s1 = Some (p, c', s')"
        by simp
      from turn.hyps(1) [OF this] obtain bss e d where "snd s' = snd s1 @ map SkRead bss"
        "c' = c\<lparr>cn_to_ch := (cn_to_ch c @ bytes) @ concat bss, cn_sock_eof := e, cn_done := d\<rparr>"
        "p = Pumped \<longrightarrow> d = cn_done c" "p \<noteq> Pumped \<longrightarrow> d"
        by auto
      with tr Inr True show ?thesis
        by (intro exI [of _ "bytes # bss"] exI [of _ e] exI [of _ d]) auto
    qed
  qed
qed

lemmas drain_to_ch_run [consumes 1, case_names turn] = drain_to_ch.raw_induct [rotated]

lemma drain_to_ch_seen:
  assumes "drain_to_ch (recording io) socks c s = Some (p, c', s')"
  shows "\<exists>bss d. snd s' = snd s @ map ChWrote bss \<and> cn_to_ch c = concat bss @ cn_to_ch c' \<and>
    c' = c\<lparr>cn_to_ch := cn_to_ch c', cn_done := d\<rparr> \<and> (bss \<noteq> [] \<longrightarrow> cn_to_ch c \<noteq> []) \<and>
    (p = Pumped \<longrightarrow> d = cn_done c) \<and> (p \<noteq> Pumped \<longrightarrow> d)"
  using assms
proof (induction "recording io" socks c s "(p, c', s')" rule: drain_to_ch_run)
  case (turn drain socks c s)
  show ?case
  proof (cases "cn_to_ch c = []")
    case True
    with turn.hyps show ?thesis by (auto intro!: exI [of _ "[]"])
  next
    case False
    obtain r s1 where r: "tn_channel_write (recording io) (cn_ch c) (cn_to_ch c) s = (r, s1)"
      by (cases "tn_channel_write (recording io) (cn_ch c) (cn_to_ch c) s")
    then have tr: "snd s1 = snd s @ case_sum (\<lambda>_. []) (\<lambda>n. [ChWrote (take n (cn_to_ch c))]) r"
      by (auto dest: snd_noting)
    show ?thesis
    proof (cases r)
      case (Inl rc)
      with turn.hyps False r tr show ?thesis
        by (intro exI [of _ "[]"] exI [of _ "cn_done c'"]) (auto split: if_splits dest!: channel_broke_seen)
    next
      case (Inr n)
      with turn.hyps False r have "drain (recording io) socks (c\<lparr>cn_to_ch := drop n (cn_to_ch c)\<rparr>) s1 = Some (p, c', s')"
        by simp
      from turn.hyps(1) [OF this] obtain bss d where
        "snd s' = snd s1 @ map ChWrote bss" "drop n (cn_to_ch c) = concat bss @ cn_to_ch c'"
        "c' = c\<lparr>cn_to_ch := cn_to_ch c', cn_done := d\<rparr>" "p = Pumped \<longrightarrow> d = cn_done c" "p \<noteq> Pumped \<longrightarrow> d"
        by auto
      moreover from this(2) have "cn_to_ch c = take n (cn_to_ch c) @ concat bss @ cn_to_ch c'"
        by (metis append_take_drop_id)
      ultimately show ?thesis using tr Inr False
        by (intro exI [of _ "take n (cn_to_ch c) # bss"] exI [of _ d]) auto
    qed
  qed
qed

subsection \<open>The two directions\<close>

definition ch_read :: "io_event list \<Rightarrow> string" where
  "ch_read tr = concat (map (\<lambda>ev. case ev of ChRead bytes \<Rightarrow> bytes | _ \<Rightarrow> []) tr)"

definition sk_wrote :: "io_event list \<Rightarrow> string" where
  "sk_wrote tr = concat (map (\<lambda>ev. case ev of SkWrote bytes \<Rightarrow> bytes | _ \<Rightarrow> []) tr)"

definition sk_read :: "io_event list \<Rightarrow> string" where
  "sk_read tr = concat (map (\<lambda>ev. case ev of SkRead bytes \<Rightarrow> bytes | _ \<Rightarrow> []) tr)"

definition ch_wrote :: "io_event list \<Rightarrow> string" where
  "ch_wrote tr = concat (map (\<lambda>ev. case ev of ChWrote bytes \<Rightarrow> bytes | _ \<Rightarrow> []) tr)"

lemma traffic_append [simp]:
  "ch_read (tr @ evs) = ch_read tr @ ch_read evs" "sk_wrote (tr @ evs) = sk_wrote tr @ sk_wrote evs"
  "sk_read (tr @ evs) = sk_read tr @ sk_read evs" "ch_wrote (tr @ evs) = ch_wrote tr @ ch_wrote evs"
  by (simp_all add: ch_read_def sk_wrote_def sk_read_def ch_wrote_def)

lemma traffic_nil [simp]: "ch_read [] = []" "sk_wrote [] = []" "sk_read [] = []" "ch_wrote [] = []"
  by (simp_all add: ch_read_def sk_wrote_def sk_read_def ch_wrote_def)

lemma traffic_one [simp]:
  "ch_read [SkShut] = []" "sk_wrote [SkShut] = []" "sk_read [SkShut] = []" "ch_wrote [SkShut] = []"
  "ch_read [ChEofSent] = []" "sk_wrote [ChEofSent] = []" "sk_read [ChEofSent] = []" "ch_wrote [ChEofSent] = []"
  by (simp_all add: ch_read_def sk_wrote_def sk_read_def ch_wrote_def)

lemma traffic_map [simp]:
  "ch_read (map ChRead bss) = concat bss" "sk_wrote (map ChRead bss) = []"
  "sk_read (map ChRead bss) = []" "ch_wrote (map ChRead bss) = []"
  "ch_read (map SkWrote bss) = []" "sk_wrote (map SkWrote bss) = concat bss"
  "sk_read (map SkWrote bss) = []" "ch_wrote (map SkWrote bss) = []"
  "ch_read (map SkRead bss) = []" "sk_wrote (map SkRead bss) = []"
  "sk_read (map SkRead bss) = concat bss" "ch_wrote (map SkRead bss) = []"
  "ch_read (map ChWrote bss) = []" "sk_wrote (map ChWrote bss) = []"
  "sk_read (map ChWrote bss) = []" "ch_wrote (map ChWrote bss) = concat bss"
  by (induction bss) (auto simp: ch_read_def sk_wrote_def sk_read_def ch_wrote_def)

text \<open>
  One direction: a stage that fills the buffer with what it takes from one side, and one that drains
  it, from the front, to the other.
\<close>

locale relay =
  fixes pending :: "tunnel_conn \<Rightarrow> string" and taken given :: "io_event list \<Rightarrow> string"
    and fill drain :: "tunnel_conn \<Rightarrow> 'w seen_world \<Rightarrow> (pass \<times> tunnel_conn \<times> 'w seen_world) option"
  assumes fills: "fill c s = Some (p, c', s') \<Longrightarrow>
      \<exists>bytes. taken (snd s') = taken (snd s) @ bytes \<and> pending c' = pending c @ bytes \<and> given (snd s') = given (snd s)"
    and drains: "drain c s = Some (p, c', s') \<Longrightarrow>
      \<exists>bytes. pending c = bytes @ pending c' \<and> given (snd s') = given (snd s) @ bytes \<and> taken (snd s') = taken (snd s)"
begin

lemma balanced_fill:
  "fill c s = Some (p, c', s') \<Longrightarrow> taken (snd s) = given (snd s) @ pending c \<Longrightarrow>
     taken (snd s') = given (snd s') @ pending c'"
  using fills [of c s p c' s'] by auto

lemma balanced_drain:
  "drain c s = Some (p, c', s') \<Longrightarrow> taken (snd s) = given (snd s) @ pending c \<Longrightarrow>
     taken (snd s') = given (snd s') @ pending c'"
  using drains [of c s p c' s'] by auto

end

interpretation inbound: relay cn_to_sock ch_read sk_wrote
  "\<lambda>c s. Some (fill_to_sock (recording io) socks c s)" "drain_to_sock (recording io)" for io socks
proof
  show "Some (fill_to_sock (recording io) socks c s) = Some (p, c', s') \<Longrightarrow>
      \<exists>bytes. ch_read (snd s') = ch_read (snd s) @ bytes \<and> cn_to_sock c' = cn_to_sock c @ bytes \<and>
        sk_wrote (snd s') = sk_wrote (snd s)" for c p c' and s s' :: "'a seen_world"
    by (auto dest!: fill_to_sock_seen)
  show "drain_to_sock (recording io) c s = Some (p, c', s') \<Longrightarrow>
      \<exists>bytes. cn_to_sock c = bytes @ cn_to_sock c' \<and> sk_wrote (snd s') = sk_wrote (snd s) @ bytes \<and>
        ch_read (snd s') = ch_read (snd s)" for c p c' and s s' :: "'a seen_world"
    by (auto dest!: drain_to_sock_seen)
qed

interpretation outbound: relay cn_to_ch sk_read ch_wrote
  "fill_to_ch (recording io)" "drain_to_ch (recording io) socks" for io socks
proof
  show "fill_to_ch (recording io) c s = Some (p, c', s') \<Longrightarrow>
      \<exists>bytes. sk_read (snd s') = sk_read (snd s) @ bytes \<and> cn_to_ch c' = cn_to_ch c @ bytes \<and>
        ch_wrote (snd s') = ch_wrote (snd s)" for c p c' and s s' :: "'a seen_world"
    by (auto dest!: fill_to_ch_seen)
  show "drain_to_ch (recording io) socks c s = Some (p, c', s') \<Longrightarrow>
      \<exists>bytes. cn_to_ch c = bytes @ cn_to_ch c' \<and> ch_wrote (snd s') = ch_wrote (snd s) @ bytes \<and>
        sk_read (snd s') = sk_read (snd s)" for c p c' and s s' :: "'a seen_world"
    by (auto dest!: drain_to_ch_seen)
qed

subsection \<open>Half-closes\<close>

fun toward_sock :: "io_event \<Rightarrow> bool" where
  "toward_sock (SkWrote _) = True"
| "toward_sock SkShut = True"
| "toward_sock _ = False"

fun toward_ch :: "io_event \<Rightarrow> bool" where
  "toward_ch (ChWrote _) = True"
| "toward_ch ChEofSent = True"
| "toward_ch _ = False"

subsection \<open>The life of a connection\<close>

definition relay_inv :: "tunnel_conn \<Rightarrow> io_event list \<Rightarrow> bool" where
  "relay_inv c tr \<longleftrightarrow>
     ch_read tr = sk_wrote tr @ cn_to_sock c \<and> sk_read tr = ch_wrote tr @ cn_to_ch c \<and>
     (SkShut \<in> set tr \<longleftrightarrow> cn_sock_send_shut c) \<and> (cn_sock_send_shut c \<longrightarrow> cn_ch_eof c \<and> cn_to_sock c = []) \<and>
     (ChEofSent \<in> set tr \<longleftrightarrow> cn_ch_eof_sent c) \<and> (cn_ch_eof_sent c \<longrightarrow> cn_sock_eof c \<and> cn_to_ch c = []) \<and>
     nothing_after toward_sock SkShut tr \<and> nothing_after toward_ch ChEofSent tr"

lemma toward_map [simp]:
  "\<not> list_ex toward_sock (map ChRead bss)" "\<not> list_ex toward_sock (map SkRead bss)"
  "\<not> list_ex toward_sock (map ChWrote bss)" "\<not> list_ex toward_ch (map ChRead bss)"
  "\<not> list_ex toward_ch (map SkRead bss)" "\<not> list_ex toward_ch (map SkWrote bss)"
  by (induction bss) auto

lemma relay_inv_new [simp]: "relay_inv (new_conn ch sock) []"
  by (simp add: relay_inv_def new_conn_def)

lemma relay_inv_done [simp]: "relay_inv (c\<lparr>cn_done := d\<rparr>) tr = relay_inv c tr"
  by (simp add: relay_inv_def)

lemma relay_inv_fill_to_sock:
  assumes "fill_to_sock (recording io) socks c s = (p, c', s')" "relay_inv c (snd s)"
  shows "relay_inv c' (snd s')"
proof -
  have b: "ch_read (snd s') = sk_wrote (snd s') @ cn_to_sock c'"
    using inbound.balanced_fill [of io socks c s p c' s'] assms by (simp add: relay_inv_def)
  from fill_to_sock_seen [OF assms(1)] obtain bss e d where "snd s' = snd s @ map ChRead bss"
    "c' = c\<lparr>cn_to_sock := cn_to_sock c @ concat bss, cn_ch_eof := e, cn_done := d\<rparr>" "cn_ch_eof c \<longrightarrow> e \<and> bss = []"
    by blast
  with b assms(2) show ?thesis by (auto simp: relay_inv_def intro!: nothing_after_more)
qed

lemma relay_inv_fill_to_ch:
  assumes "fill_to_ch (recording io) c s = Some (p, c', s')" "relay_inv c (snd s)"
  shows "relay_inv c' (snd s')"
proof -
  have b: "sk_read (snd s') = ch_wrote (snd s') @ cn_to_ch c'"
    using outbound.balanced_fill [of io c s p c' s'] assms by (simp add: relay_inv_def)
  from fill_to_ch_seen [OF assms(1)] obtain bss e d where "snd s' = snd s @ map SkRead bss"
    "c' = c\<lparr>cn_to_ch := cn_to_ch c @ concat bss, cn_sock_eof := e, cn_done := d\<rparr>" "cn_sock_eof c \<longrightarrow> e \<and> bss = []"
    by blast
  with b assms(2) show ?thesis by (auto simp: relay_inv_def intro!: nothing_after_more)
qed

lemma relay_inv_drain_to_sock:
  assumes "drain_to_sock (recording io) c s = Some (p, c', s')" "relay_inv c (snd s)"
  shows "relay_inv c' (snd s')"
proof -
  have b: "ch_read (snd s') = sk_wrote (snd s') @ cn_to_sock c'"
    using inbound.balanced_drain [of io c s p c' s'] assms by (simp add: relay_inv_def)
  from drain_to_sock_seen [OF assms(1)] obtain bss d where e: "snd s' = snd s @ map SkWrote bss"
    "cn_to_sock c = concat bss @ cn_to_sock c'" "bss \<noteq> [] \<longrightarrow> cn_to_sock c \<noteq> []"
    and c: "c' = c\<lparr>cn_to_sock := cn_to_sock c', cn_done := d\<rparr>"
    by blast
  from c have f: "cn_sock_send_shut c' = cn_sock_send_shut c" "cn_ch_eof c' = cn_ch_eof c" "cn_to_ch c' = cn_to_ch c"
    "cn_ch_eof_sent c' = cn_ch_eof_sent c" "cn_sock_eof c' = cn_sock_eof c"
    by (metis tunnel_conn.select_convs tunnel_conn.update_convs tunnel_conn.surjective)+
  from b e f assms(2) show ?thesis by (auto simp: relay_inv_def intro!: nothing_after_more)
qed

lemma relay_inv_drain_to_ch:
  assumes "drain_to_ch (recording io) socks c s = Some (p, c', s')" "relay_inv c (snd s)"
  shows "relay_inv c' (snd s')"
proof -
  have b: "sk_read (snd s') = ch_wrote (snd s') @ cn_to_ch c'"
    using outbound.balanced_drain [of io socks c s p c' s'] assms by (simp add: relay_inv_def)
  from drain_to_ch_seen [OF assms(1)] obtain bss d where e: "snd s' = snd s @ map ChWrote bss"
    "cn_to_ch c = concat bss @ cn_to_ch c'" "bss \<noteq> [] \<longrightarrow> cn_to_ch c \<noteq> []"
    and c: "c' = c\<lparr>cn_to_ch := cn_to_ch c', cn_done := d\<rparr>"
    by blast
  from c have f: "cn_sock_send_shut c' = cn_sock_send_shut c" "cn_ch_eof c' = cn_ch_eof c" "cn_to_sock c' = cn_to_sock c"
    "cn_ch_eof_sent c' = cn_ch_eof_sent c" "cn_sock_eof c' = cn_sock_eof c"
    by (metis tunnel_conn.select_convs tunnel_conn.update_convs tunnel_conn.surjective)+
  from b e f assms(2) show ?thesis by (auto simp: relay_inv_def intro!: nothing_after_more)
qed

lemma relay_inv_shut_sock:
  assumes "shut_sock (recording io) c s = (p, c', s')" "relay_inv c (snd s)"
  shows "relay_inv c' (snd s')"
proof (cases "cn_ch_eof c \<and> cn_to_sock c = [] \<and> \<not> cn_sock_send_shut c")
  case True
  with assms(1) have e: "c' = c\<lparr>cn_sock_send_shut := True\<rparr>" "snd s' = snd s @ [SkShut]"
    by (auto simp: shut_sock_def)
  have n: "nothing_after toward_sock SkShut (snd s @ [SkShut])" "nothing_after toward_ch ChEofSent (snd s @ [SkShut])"
    using True assms(2) by (simp_all add: relay_inv_def nothing_after_mark nothing_after_more)
  show ?thesis using assms(2) True by (simp add: relay_inv_def e n)
next
  case False
  with assms show ?thesis unfolding shut_sock_def by (simp only: if_False prod.inject)
qed

lemma relay_inv_send_ch_eof:
  assumes "send_ch_eof (recording io) c s = (p, c', s')" "relay_inv c (snd s)"
  shows "relay_inv c' (snd s')"
proof (cases "cn_sock_eof c \<and> cn_to_ch c = [] \<and> \<not> cn_ch_eof_sent c")
  case True
  obtain ok s1 where r: "tn_send_eof (recording io) (cn_ch c) s = (ok, s1)"
    by (cases "tn_send_eof (recording io) (cn_ch c) s")
  then have s1: "snd s1 = snd s @ (if ok then [ChEofSent] else [])" by (auto dest: snd_noting)
  from assms(1) True r have e: "c' = (if ok then c\<lparr>cn_ch_eof_sent := True\<rparr> else c)" "s' = s1"
    by (simp_all add: send_ch_eof_def)
  have n: "nothing_after toward_sock SkShut (snd s @ [ChEofSent])" "nothing_after toward_ch ChEofSent (snd s @ [ChEofSent])"
    using True assms(2) by (simp_all add: relay_inv_def nothing_after_mark nothing_after_more)
  show ?thesis
    using assms(2) True by (cases ok) (simp_all add: relay_inv_def e s1 n)
next
  case False
  with assms show ?thesis unfolding send_ch_eof_def by (simp only: if_False prod.inject)
qed

lemma relay_inv_settle_conn: "settle_conn c s = (p, c', s') \<Longrightarrow> relay_inv c (snd s) \<Longrightarrow> relay_inv c' (snd s')"
  by (auto simp: settle_conn_def split: if_splits)

text \<open>A fact that every stage keeps holds after the pass.\<close>

definition after :: "(tunnel_conn \<Rightarrow> 'w \<Rightarrow> bool) \<Rightarrow> (pass \<times> tunnel_conn \<times> 'w) option \<Rightarrow> bool" where
  "after Q r \<longleftrightarrow> (\<forall>p c s. r = Some (p, c, s) \<longrightarrow> Q c s)"

lemma after_onward: "after Q r \<Longrightarrow> (\<And>c s. Q c s \<Longrightarrow> after Q (f c s)) \<Longrightarrow> after Q (onward r f)"
  unfolding after_def onward_def by (cases r) (force split: if_splits)+

lemma relay_inv_pump_conn:
  assumes "pump_conn (recording io) socks c s = Some (p, c', s')" "relay_inv c (snd s)"
  shows "relay_inv c' (snd s')"
proof -
  let ?Q = "\<lambda>c s. relay_inv c (snd s)"
  have "after ?Q (pump_conn (recording io) socks c s)"
    unfolding pump_conn_def
  proof (intro after_onward)
    show "after ?Q (Some (fill_to_sock (recording io) socks c s))"
      using assms(2) unfolding after_def option.inject by (blast intro: relay_inv_fill_to_sock)
    show "?Q c s \<Longrightarrow> after ?Q (drain_to_sock (recording io) c s)" for c s
      unfolding after_def option.inject by (blast intro: relay_inv_drain_to_sock)
    show "?Q c s \<Longrightarrow> after ?Q (Some (shut_sock (recording io) c s))" for c s
      unfolding after_def option.inject by (blast intro: relay_inv_shut_sock)
    show "?Q c s \<Longrightarrow> after ?Q (fill_to_ch (recording io) c s)" for c s
      unfolding after_def option.inject by (blast intro: relay_inv_fill_to_ch)
    show "?Q c s \<Longrightarrow> after ?Q (drain_to_ch (recording io) socks c s)" for c s
      unfolding after_def option.inject by (blast intro: relay_inv_drain_to_ch)
    show "?Q c s \<Longrightarrow> after ?Q (Some (send_ch_eof (recording io) c s))" for c s
      unfolding after_def option.inject by (blast intro: relay_inv_send_ch_eof)
    show "?Q c s \<Longrightarrow> after ?Q (Some (settle_conn c s))" for c s
      unfolding after_def option.inject by (blast intro: relay_inv_settle_conn)
  qed
  then show ?thesis using assms(1) unfolding after_def by blast
qed

text \<open>
  A connection from its acceptance through any number of passes; between two passes the world may
  change in any way (the peers, the other connections).
\<close>

inductive life :: "'w tunnel_io \<Rightarrow> pass \<Rightarrow> tunnel_conn \<Rightarrow> io_event list \<Rightarrow> bool" for io where
  accepted: "life io Pumped (new_conn ch sock) []"
| passed: "life io Pumped c tr \<Longrightarrow> \<not> cn_done c \<Longrightarrow>
    pump_conn (recording io) socks c (w, tr) = Some (p, c', (w', tr')) \<Longrightarrow> life io p c' tr'"

inductive_cases lifeE [consumes 1, case_names accepted passed]: "life io p c tr"

lemma life_inv: "life io p c tr \<Longrightarrow> relay_inv c tr"
proof (induction rule: life.induct)
  case (passed c tr socks w p c' w' tr')
  from relay_inv_pump_conn [OF passed.hyps(3)] passed.IH show ?case by simp
qed simp

text \<open>A connection that ended without breaking has passed everything on, and both ends know.\<close>

lemma onward_Pumped:
  "onward r f = Some (Pumped, c', s') \<longleftrightarrow> (\<exists>c s. r = Some (Pumped, c, s) \<and> f c s = Some (Pumped, c', s'))"
  by (auto simp: onward_def split: option.splits if_splits)

lemma settle_conn_done:
  "settle_conn c s = (p, c', s') \<Longrightarrow> cn_done c' \<Longrightarrow> \<not> cn_done c \<Longrightarrow>
     cn_ch_eof c' \<and> cn_sock_eof c' \<and> cn_to_sock c' = [] \<and> cn_to_ch c' = []"
  by (auto simp: settle_conn_def split: if_splits)

lemma pump_conn_Pumped:
  assumes "pump_conn (recording io) socks c s = Some (Pumped, c', s')" "\<not> cn_done c"
  obtains c1 s1 where "cn_done c1 = cn_done c" "settle_conn c1 s1 = (Pumped, c', s')"
proof -
  from assms(1) obtain c1 s1 c2 s2 c3 s3 c4 s4 c5 s5 c6 s6 where st:
    "fill_to_sock (recording io) socks c s = (Pumped, c1, s1)"
    "drain_to_sock (recording io) c1 s1 = Some (Pumped, c2, s2)"
    "shut_sock (recording io) c2 s2 = (Pumped, c3, s3)"
    "fill_to_ch (recording io) c3 s3 = Some (Pumped, c4, s4)"
    "drain_to_ch (recording io) socks c4 s4 = Some (Pumped, c5, s5)"
    "send_ch_eof (recording io) c5 s5 = (Pumped, c6, s6)" "settle_conn c6 s6 = (Pumped, c', s')"
    unfolding pump_conn_def onward_Pumped option.inject by blast
  have "cn_done c1 = cn_done c" using fill_to_sock_seen [OF st(1)] by auto
  moreover have "cn_done c2 = cn_done c1" using drain_to_sock_seen [OF st(2)] by (metis tunnel_conn.select_convs(9) tunnel_conn.update_convs(9) tunnel_conn.surjective)
  moreover have "cn_done c3 = cn_done c2" using st(3) by (auto simp: shut_sock_def split: if_splits)
  moreover have "cn_done c4 = cn_done c3" using fill_to_ch_seen [OF st(4)] by auto
  moreover have "cn_done c5 = cn_done c4" using drain_to_ch_seen [OF st(5)] by (metis tunnel_conn.select_convs(9) tunnel_conn.update_convs(9) tunnel_conn.surjective)
  moreover have "cn_done c6 = cn_done c5" using st(6) by (auto simp: send_ch_eof_def split: if_splits prod.splits)
  ultimately show thesis using that st(7) by simp
qed

lemma life_finished:
  assumes "life io Pumped c tr" "cn_done c"
  shows "cn_ch_eof c \<and> cn_sock_eof c \<and> ch_read tr = sk_wrote tr \<and> sk_read tr = ch_wrote tr"
proof -
  have "cn_ch_eof c \<and> cn_sock_eof c \<and> cn_to_sock c = [] \<and> cn_to_ch c = []"
    using assms
  proof (cases rule: lifeE)
    case (passed c0 tr0 socks w w')
    from pump_conn_Pumped [OF passed(3,2)] obtain c1 s1 where
      "cn_done c1 = cn_done c0" "settle_conn c1 s1 = (Pumped, c, (w', tr))" by blast
    with settle_conn_done assms(2) passed(2) show ?thesis by metis
  qed (simp add: new_conn_def)
  with life_inv [OF assms(1)] show ?thesis by (simp add: relay_inv_def)
qed

text \<open>The buffers never hold more than the cap and one read.\<close>

definition reads_at_most :: "nat \<Rightarrow> 'w tunnel_io \<Rightarrow> bool" where
  "reads_at_most m io \<longleftrightarrow>
     (\<forall>ch w bytes. fst (tn_channel_read io ch w) = Inr bytes \<longrightarrow> length bytes \<le> m) \<and>
     (\<forall>k w bytes. fst (tn_sock_read io k w) = Inr bytes \<longrightarrow> length bytes \<le> m)"

lemma reads_at_most_recording [simp]: "reads_at_most m (recording io) = reads_at_most m io"
  by (simp add: reads_at_most_def)

definition buffers_at_most :: "nat \<Rightarrow> tunnel_conn \<Rightarrow> bool" where
  "buffers_at_most n c \<longleftrightarrow> length (cn_to_sock c) \<le> n \<and> length (cn_to_ch c) \<le> n"

lemma fill_to_sock_bound:
  "fill_to_sock io socks c w = (p, c', w') \<Longrightarrow> reads_at_most m io \<Longrightarrow> buffers_at_most (kConnBufferCap + m) c \<Longrightarrow>
     buffers_at_most (kConnBufferCap + m) c'"
proof (induction io socks c w arbitrary: p c' w' rule: fill_to_sock.induct)
  case (1 io socks c w)
  show ?case
  proof (cases "\<not> cn_ch_eof c \<and> length (cn_to_sock c) < kConnBufferCap")
    case False
    with "1.prems" show ?thesis by (auto simp: fill_to_sock.simps [of _ _ c])
  next
    case True
    obtain r w1 where r: "tn_channel_read io (cn_ch c) w = (r, w1)" by (cases "tn_channel_read io (cn_ch c) w")
    show ?thesis
    proof (cases "\<exists>bytes. r = Inr bytes \<and> bytes \<noteq> []")
      case False
      with "1.prems" True r show ?thesis
        by (cases r) (auto simp: fill_to_sock.simps [of _ _ c] channel_broke_def conn_error_def buffers_at_most_def
            split: if_splits)
    next
      case b: True
      then obtain bytes where bytes: "r = Inr bytes" "bytes \<noteq> []" by blast
      from "1.prems"(2) r bytes have l: "length bytes \<le> m" unfolding reads_at_most_def by (metis fst_conv)
      from "1.prems"(1) True r bytes have
        n: "fill_to_sock io socks (c\<lparr>cn_to_sock := cn_to_sock c @ bytes\<rparr>) w1 = (p, c', w')"
        by (simp add: fill_to_sock.simps [of _ _ c])
      have "buffers_at_most (kConnBufferCap + m) (c\<lparr>cn_to_sock := cn_to_sock c @ bytes\<rparr>)"
        using "1.prems"(3) True l by (simp add: buffers_at_most_def)
      from "1.IH" [OF True r [symmetric] bytes n "1.prems"(2) this] show ?thesis .
    qed
  qed
qed

lemma fill_to_ch_bound:
  assumes "fill_to_ch io c w = Some r" "reads_at_most m io" "buffers_at_most (kConnBufferCap + m) c"
  shows "buffers_at_most (kConnBufferCap + m) (fst (snd r))"
  using assms
proof (induction io c w r rule: fill_to_ch_run)
  case (turn fill io c w r)
  show ?case
  proof (cases "\<not> cn_sock_eof c \<and> length (cn_to_ch c) < kConnBufferCap")
    case False
    with turn show ?thesis by auto
  next
    case True
    obtain x w1 where x: "tn_sock_read io (cn_sock c) w = (x, w1)" by (cases "tn_sock_read io (cn_sock c) w")
    show ?thesis
    proof (cases x)
      case (Inl ec)
      with turn.hyps turn.prems True x show ?thesis
        by (auto simp: conn_error_def buffers_at_most_def split: if_splits)
    next
      case (Inr bytes)
      with turn.prems(1) x have l: "length bytes \<le> m" unfolding reads_at_most_def by (metis fst_conv)
      from turn.hyps True x Inr have n: "fill io (c\<lparr>cn_to_ch := cn_to_ch c @ bytes\<rparr>) w1 = Some r" by simp
      have "buffers_at_most (kConnBufferCap + m) (c\<lparr>cn_to_ch := cn_to_ch c @ bytes\<rparr>)"
        using turn.prems(2) True l by (simp add: buffers_at_most_def)
      from turn.IH [OF n turn.prems(1) this] show ?thesis .
    qed
  qed
qed

lemma life_buffers:
  assumes "life io p c tr" "reads_at_most m io"
  shows "buffers_at_most (kConnBufferCap + m) c"
  using assms(1)
proof (induction rule: life.induct)
  case (accepted ch sock)
  show ?case by (simp add: buffers_at_most_def new_conn_def)
next
  case (passed c tr socks w p c' w' tr')
  let ?Q = "\<lambda>c (s :: 'a seen_world). buffers_at_most (kConnBufferCap + m) c"
  have rec: "reads_at_most m (recording io)" using assms(2) by simp
  have "after ?Q (pump_conn (recording io) socks c (w, tr))"
    unfolding pump_conn_def
  proof (intro after_onward)
    show "after ?Q (Some (fill_to_sock (recording io) socks c (w, tr)))"
      unfolding after_def option.inject using passed.IH fill_to_sock_bound [OF _ rec] by blast
    show "?Q c s \<Longrightarrow> after ?Q (fill_to_ch (recording io) c s)" for c and s :: "'a seen_world"
      unfolding after_def using fill_to_ch_bound [OF _ rec] by fastforce
    show "?Q c s \<Longrightarrow> after ?Q (drain_to_sock (recording io) c s)" for c and s :: "'a seen_world"
    proof (unfold after_def, intro allI impI)
      fix p c' and s' :: "'a seen_world"
      assume q: "?Q c s" and "drain_to_sock (recording io) c s = Some (p, c', s')"
      from drain_to_sock_seen [OF this(2)] obtain bss d where "cn_to_sock c = concat bss @ cn_to_sock c'"
        "c' = c\<lparr>cn_to_sock := cn_to_sock c', cn_done := d\<rparr>" by blast
      moreover from this(2) have "cn_to_ch c' = cn_to_ch c"
        by (metis tunnel_conn.select_convs(4) tunnel_conn.update_convs tunnel_conn.surjective)
      ultimately show "?Q c' s'" using q by (simp add: buffers_at_most_def)
    qed
    show "?Q c s \<Longrightarrow> after ?Q (drain_to_ch (recording io) socks c s)" for c and s :: "'a seen_world"
    proof (unfold after_def, intro allI impI)
      fix p c' and s' :: "'a seen_world"
      assume q: "?Q c s" and "drain_to_ch (recording io) socks c s = Some (p, c', s')"
      from drain_to_ch_seen [OF this(2)] obtain bss d where "cn_to_ch c = concat bss @ cn_to_ch c'"
        "c' = c\<lparr>cn_to_ch := cn_to_ch c', cn_done := d\<rparr>" by blast
      moreover from this(2) have "cn_to_sock c' = cn_to_sock c"
        by (metis tunnel_conn.select_convs(3) tunnel_conn.update_convs tunnel_conn.surjective)
      ultimately show "?Q c' s'" using q by (simp add: buffers_at_most_def)
    qed
  qed (auto simp: after_def shut_sock_def send_ch_eof_def settle_conn_def buffers_at_most_def split: if_splits prod.splits)
  with passed.hyps show ?case unfolding after_def by blast
qed

subsection \<open>Passes come back, and connections end\<close>

text \<open>What the non-blocking calls promise: a transfer that is no error moves at least one byte.\<close>

definition makes_progress :: "'w tunnel_io \<Rightarrow> bool" where
  "makes_progress io \<longleftrightarrow>
     (\<forall>k w. fst (tn_sock_read io k w) \<noteq> Inr []) \<and>
     (\<forall>k bytes w n. bytes \<noteq> [] \<longrightarrow> fst (tn_sock_write io k bytes w) = Inr n \<longrightarrow> 0 < n) \<and>
     (\<forall>ch bytes w n. bytes \<noteq> [] \<longrightarrow> fst (tn_channel_write io ch bytes w) = Inr n \<longrightarrow> 0 < n)"

lemma drain_to_sock_returns: "makes_progress io \<Longrightarrow> drain_to_sock io c w \<noteq> None"
proof (induction "length (cn_to_sock c)" arbitrary: c w rule: less_induct)
  case less
  show ?case
  proof (cases "cn_to_sock c = []")
    case True
    then show ?thesis by (simp add: drain_to_sock.simps [of _ c])
  next
    case False
    obtain r w1 where r: "tn_sock_write io (cn_sock c) (cn_to_sock c) w = (r, w1)"
      by (cases "tn_sock_write io (cn_sock c) (cn_to_sock c) w")
    show ?thesis
    proof (cases r)
      case (Inl ec)
      with False r show ?thesis by (simp add: drain_to_sock.simps [of _ c])
    next
      case (Inr n)
      with less.prems False r have "0 < n" unfolding makes_progress_def by (metis fst_conv)
      with False have "length (cn_to_sock (c\<lparr>cn_to_sock := drop n (cn_to_sock c)\<rparr>)) < length (cn_to_sock c)" by simp
      from less.hyps [OF this less.prems] False r Inr show ?thesis by (simp add: drain_to_sock.simps [of _ c])
    qed
  qed
qed

lemma drain_to_ch_returns: "makes_progress io \<Longrightarrow> drain_to_ch io socks c w \<noteq> None"
proof (induction "length (cn_to_ch c)" arbitrary: c w rule: less_induct)
  case less
  show ?case
  proof (cases "cn_to_ch c = []")
    case True
    then show ?thesis by (simp add: drain_to_ch.simps [of _ _ c])
  next
    case False
    obtain r w1 where r: "tn_channel_write io (cn_ch c) (cn_to_ch c) w = (r, w1)"
      by (cases "tn_channel_write io (cn_ch c) (cn_to_ch c) w")
    show ?thesis
    proof (cases r)
      case (Inl rc)
      with False r show ?thesis
        by (cases "channel_broke io socks ''writing a forwarded connection failed'' rc c w1")
          (simp add: drain_to_ch.simps [of _ _ c])
    next
      case (Inr n)
      with less.prems False r have "0 < n" unfolding makes_progress_def by (metis fst_conv)
      with False have "length (cn_to_ch (c\<lparr>cn_to_ch := drop n (cn_to_ch c)\<rparr>)) < length (cn_to_ch c)" by simp
      from less.hyps [OF this less.prems] False r Inr show ?thesis by (simp add: drain_to_ch.simps [of _ _ c])
    qed
  qed
qed

lemma fill_to_ch_returns: "makes_progress io \<Longrightarrow> fill_to_ch io c w \<noteq> None"
proof (induction "kConnBufferCap - length (cn_to_ch c)" arbitrary: c w rule: less_induct)
  case less
  show ?case
  proof (cases "\<not> cn_sock_eof c \<and> length (cn_to_ch c) < kConnBufferCap")
    case False
    then show ?thesis by (auto simp: fill_to_ch.simps [of _ c])
  next
    case True
    obtain r w1 where r: "tn_sock_read io (cn_sock c) w = (r, w1)" by (cases "tn_sock_read io (cn_sock c) w")
    show ?thesis
    proof (cases r)
      case (Inl ec)
      with True r show ?thesis by (simp add: fill_to_ch.simps [of _ c])
    next
      case (Inr bytes)
      with less.prems r have "bytes \<noteq> []" unfolding makes_progress_def by (metis fst_conv)
      then have "kConnBufferCap - length (cn_to_ch (c\<lparr>cn_to_ch := cn_to_ch c @ bytes\<rparr>)) < kConnBufferCap - length (cn_to_ch c)"
        using True by (cases bytes) auto
      from less.hyps [OF this less.prems] True r Inr show ?thesis by (simp add: fill_to_ch.simps [of _ c])
    qed
  qed
qed

lemma onward_returns: "r \<noteq> None \<Longrightarrow> (\<And>c w. f c w \<noteq> None) \<Longrightarrow> onward r f \<noteq> None"
  by (auto simp: onward_def)

lemma pump_conn_returns: "makes_progress io \<Longrightarrow> pump_conn io socks c w \<noteq> None"
  unfolding pump_conn_def
  by (intro onward_returns drain_to_sock_returns drain_to_ch_returns fill_to_ch_returns) simp_all

text \<open>Both ends of the connection have ended, and what is still to be passed on is accepted.\<close>

definition ending :: "'w tunnel_io \<Rightarrow> tunnel_conn \<Rightarrow> bool" where
  "ending io c \<longleftrightarrow>
     (\<forall>w. fst (tn_channel_read io (cn_ch c) w) = Inr [] \<and> tn_channel_eof io (cn_ch c) w) \<and>
     (\<forall>w. fst (tn_sock_read io (cn_sock c) w) = Inl SockEof) \<and>
     (\<forall>bytes w. bytes \<noteq> [] \<longrightarrow> (\<exists>n > 0. fst (tn_sock_write io (cn_sock c) bytes w) = Inr n)) \<and>
     (\<forall>bytes w. bytes \<noteq> [] \<longrightarrow> (\<exists>n > 0. fst (tn_channel_write io (cn_ch c) bytes w) = Inr n)) \<and>
     (\<forall>w. fst (tn_send_eof io (cn_ch c) w))"

lemma ending_cong: "cn_ch c' = cn_ch c \<Longrightarrow> cn_sock c' = cn_sock c \<Longrightarrow> ending io c' = ending io c"
  by (simp add: ending_def)

lemma fst_eqD: "fst x = a \<Longrightarrow> \<exists>b. x = (a, b)"
  by (cases x) simp

lemma ending_drain_to_sock:
  "ending io c \<Longrightarrow> \<exists>w'. drain_to_sock io c w = Some (Pumped, c\<lparr>cn_to_sock := []\<rparr>, w')"
proof (induction "length (cn_to_sock c)" arbitrary: c w rule: less_induct)
  case less
  show ?case
  proof (cases "cn_to_sock c = []")
    case True
    then show ?thesis by (simp add: drain_to_sock.simps [of _ c])
  next
    case False
    let ?c = "\<lambda>n. c\<lparr>cn_to_sock := drop n (cn_to_sock c)\<rparr>"
    obtain n w1 where w1: "0 < n" "tn_sock_write io (cn_sock c) (cn_to_sock c) w = (Inr n, w1)"
      using less.prems False unfolding ending_def by (metis fst_eqD)
    then have "length (cn_to_sock (?c n)) < length (cn_to_sock c)" using False by simp
    moreover have "ending io (?c n)" using less.prems by (simp add: ending_def)
    ultimately obtain w' where "drain_to_sock io (?c n) w1 = Some (Pumped, (?c n)\<lparr>cn_to_sock := []\<rparr>, w')"
      using less.hyps by blast
    with w1 False show ?thesis by (simp add: drain_to_sock.simps [of _ c])
  qed
qed

lemma ending_drain_to_ch:
  "ending io c \<Longrightarrow> \<exists>w'. drain_to_ch io socks c w = Some (Pumped, c\<lparr>cn_to_ch := []\<rparr>, w')"
proof (induction "length (cn_to_ch c)" arbitrary: c w rule: less_induct)
  case less
  show ?case
  proof (cases "cn_to_ch c = []")
    case True
    then show ?thesis by (simp add: drain_to_ch.simps [of _ _ c])
  next
    case False
    let ?c = "\<lambda>n. c\<lparr>cn_to_ch := drop n (cn_to_ch c)\<rparr>"
    obtain n w1 where w1: "0 < n" "tn_channel_write io (cn_ch c) (cn_to_ch c) w = (Inr n, w1)"
      using less.prems False unfolding ending_def by (metis fst_eqD)
    then have "length (cn_to_ch (?c n)) < length (cn_to_ch c)" using False by simp
    moreover have "ending io (?c n)" using less.prems by (simp add: ending_def)
    ultimately obtain w' where "drain_to_ch io socks (?c n) w1 = Some (Pumped, (?c n)\<lparr>cn_to_ch := []\<rparr>, w')"
      using less.hyps by blast
    with w1 False show ?thesis by (simp add: drain_to_ch.simps [of _ _ c])
  qed
qed

lemma ending_fill_to_sock:
  assumes "ending io c"
  shows "\<exists>w'. fill_to_sock io socks c w =
    (Pumped, c\<lparr>cn_ch_eof := cn_ch_eof c \<or> length (cn_to_sock c) < kConnBufferCap\<rparr>, w')"
proof -
  obtain w1 where "tn_channel_read io (cn_ch c) w = (Inr [], w1)" "tn_channel_eof io (cn_ch c) w1"
    using assms unfolding ending_def by (metis fst_eqD)
  then show ?thesis by (auto simp: fill_to_sock.simps [of _ _ c])
qed

lemma ending_fill_to_ch:
  assumes "ending io c"
  shows "\<exists>w'. fill_to_ch io c w =
    Some (Pumped, c\<lparr>cn_sock_eof := cn_sock_eof c \<or> length (cn_to_ch c) < kConnBufferCap\<rparr>, w')"
proof -
  obtain w1 where "tn_sock_read io (cn_sock c) w = (Inl SockEof, w1)"
    using assms unfolding ending_def by (metis fst_eqD)
  then show ?thesis by (auto simp: fill_to_ch.simps [of _ c])
qed

lemma drained_shut_sock:
  "cn_to_sock c = [] \<Longrightarrow>
     \<exists>w'. shut_sock io c w = (Pumped, c\<lparr>cn_sock_send_shut := cn_sock_send_shut c \<or> cn_ch_eof c\<rparr>, w')"
  by (cases "cn_ch_eof c"; cases "cn_sock_send_shut c") (simp_all add: shut_sock_def)

lemma drained_send_ch_eof:
  assumes "cn_to_ch c = []" "ending io c"
  shows "\<exists>w'. send_ch_eof io c w = (Pumped, c\<lparr>cn_ch_eof_sent := cn_ch_eof_sent c \<or> cn_sock_eof c\<rparr>, w')"
proof -
  obtain w1 where "tn_send_eof io (cn_ch c) w = (True, w1)"
    using assms(2) unfolding ending_def by (metis fst_eqD)
  with assms(1) show ?thesis
    by (cases "cn_sock_eof c"; cases "cn_ch_eof_sent c") (simp_all add: send_ch_eof_def)
qed

lemma ending_pass:
  assumes "ending io c"
  shows "\<exists>c' w'. pump_conn io socks c w = Some (Pumped, c', w') \<and> cn_ch c' = cn_ch c \<and> cn_sock c' = cn_sock c \<and>
    cn_to_sock c' = [] \<and> cn_to_ch c' = [] \<and>
    (length (cn_to_sock c) < kConnBufferCap \<and> length (cn_to_ch c) < kConnBufferCap \<longrightarrow>
       cn_done c' \<and> cn_sock_send_shut c' \<and> cn_ch_eof_sent c')"
proof -
  have e: "ending io c'" if "cn_ch c' = cn_ch c" "cn_sock c' = cn_sock c" for c'
    using assms by (simp add: ending_cong [OF that])
  obtain c1 w1 where s1: "fill_to_sock io socks c w = (Pumped, c1, w1)"
    and c1: "c1 = c\<lparr>cn_ch_eof := cn_ch_eof c \<or> length (cn_to_sock c) < kConnBufferCap\<rparr>"
    using ending_fill_to_sock [OF assms] by blast
  have e1: "ending io c1" by (rule e) (simp_all add: c1)
  obtain c2 w2 where s2: "drain_to_sock io c1 w1 = Some (Pumped, c2, w2)" and c2: "c2 = c1\<lparr>cn_to_sock := []\<rparr>"
    using ending_drain_to_sock [OF e1] by blast
  obtain c3 w3 where s3: "shut_sock io c2 w2 = (Pumped, c3, w3)"
    and c3: "c3 = c2\<lparr>cn_sock_send_shut := cn_sock_send_shut c2 \<or> cn_ch_eof c2\<rparr>"
    using drained_shut_sock [of c2 io w2] c2 by auto
  have e3: "ending io c3" by (rule e) (simp_all add: c1 c2 c3)
  obtain c4 w4 where s4: "fill_to_ch io c3 w3 = Some (Pumped, c4, w4)"
    and c4: "c4 = c3\<lparr>cn_sock_eof := cn_sock_eof c3 \<or> length (cn_to_ch c3) < kConnBufferCap\<rparr>"
    using ending_fill_to_ch [OF e3] by blast
  have e4: "ending io c4" by (rule e) (simp_all add: c1 c2 c3 c4)
  obtain c5 w5 where s5: "drain_to_ch io socks c4 w4 = Some (Pumped, c5, w5)" and c5: "c5 = c4\<lparr>cn_to_ch := []\<rparr>"
    using ending_drain_to_ch [OF e4] by blast
  have e5: "ending io c5" "cn_to_ch c5 = []" by (rule e) (simp_all add: c1 c2 c3 c4 c5)
  obtain c6 w6 where s6: "send_ch_eof io c5 w5 = (Pumped, c6, w6)"
    and c6: "c6 = c5\<lparr>cn_ch_eof_sent := cn_ch_eof_sent c5 \<or> cn_sock_eof c5\<rparr>"
    using drained_send_ch_eof [OF e5(2,1)] by blast
  have "pump_conn io socks c w = Some (settle_conn c6 w6)"
    by (simp add: pump_conn_def onward_def s1 s2 s3 s4 s5 s6 split: prod.split)
  then show ?thesis by (auto simp: settle_conn_def c1 c2 c3 c4 c5 c6)
qed

text \<open>At most two passes end it, whatever is still buffered.\<close>

lemma ending_ends:
  assumes "ending io c"
  shows "\<exists>c1 w1 c2 w2. pump_conn io socks c w = Some (Pumped, c1, w1) \<and>
    (cn_done c1 \<or> pump_conn io socks c1 w1' = Some (Pumped, c2, w2) \<and> cn_done c2)"
proof -
  obtain c1 w1 where p: "pump_conn io socks c w = Some (Pumped, c1, w1)" "cn_ch c1 = cn_ch c" "cn_sock c1 = cn_sock c"
    "cn_to_sock c1 = []" "cn_to_ch c1 = []"
    using ending_pass [OF assms] by blast
  have "ending io c1" using assms by (simp add: ending_cong [OF p(2,3)])
  from ending_pass [OF this, of socks w1'] p(4,5) obtain c2 w2 where
    "pump_conn io socks c1 w1' = Some (Pumped, c2, w2)" "cn_done c2"
    by (auto simp: kConnBufferCap_def)
  with p(1) show ?thesis by blast
qed

subsection \<open>Recording changes nothing\<close>

lemma close_socks_recording [simp]: "close_socks (recording io) socks (w, tr) = (close_socks io socks w, tr)"
  by (induction socks arbitrary: w) (simp_all add: close_socks_def silently_def)

lemma conn_error_recording [simp]:
  "conn_error (recording io) c (w, tr) = (case conn_error io c w of (c', w') \<Rightarrow> (c', w', tr))"
  by (simp add: conn_error_def silently_def)

lemma channel_broke_recording [simp]:
  "channel_broke (recording io) socks what rc c (w, tr) =
     (case channel_broke io socks what rc c w of (p, c', w') \<Rightarrow> (p, c', w', tr))"
  by (simp add: channel_broke_def ssh_error_def recording_def split: prod.split)
    (simp add: recording_def [symmetric] conn_error_def silently_def)

lemma fill_to_sock_recorded:
  "fill_to_sock io socks c w = (p, c', w') \<Longrightarrow>
     \<exists>tr'. fill_to_sock (recording io) socks c (w, tr) = (p, c', (w', tr'))"
proof (induction io socks c w arbitrary: p c' w' tr rule: fill_to_sock.induct)
  case (1 io socks c w)
  show ?case
  proof (cases "\<not> cn_ch_eof c \<and> length (cn_to_sock c) < kConnBufferCap")
    case False
    then have "fill_to_sock (recording io) socks c (w, tr) = (Pumped, c, (w, tr))"
      by (simp only: fill_to_sock.simps [of _ _ c] if_False)
    with "1.prems" False show ?thesis by (simp only: fill_to_sock.simps [of _ _ c] if_False) blast
  next
    case True
    obtain r w1 where r: "tn_channel_read io (cn_ch c) w = (r, w1)" by (cases "tn_channel_read io (cn_ch c) w")
    show ?thesis
    proof (cases "\<exists>bytes. r = Inr bytes \<and> bytes \<noteq> []")
      case False
      with "1.prems" True r show ?thesis
        by (cases r) (auto simp: fill_to_sock.simps [of _ _ c] noting_def split: if_splits prod.splits)
    next
      case b: True
      then obtain bytes where bytes: "r = Inr bytes" "bytes \<noteq> []" by blast
      from "1.prems" True r bytes have
        n: "fill_to_sock io socks (c\<lparr>cn_to_sock := cn_to_sock c @ bytes\<rparr>) w1 = (p, c', w')"
        by (simp add: fill_to_sock.simps [of _ _ c])
      from "1.IH" [OF True r [symmetric] bytes n, of "tr @ [ChRead bytes]"] True r bytes show ?thesis
        by (simp add: fill_to_sock.simps [of _ _ c] noting_def)
    qed
  qed
qed

lemma drain_to_sock_recorded:
  assumes "drain_to_sock io c w = Some r"
  shows "\<exists>tr'. drain_to_sock (recording io) c (w, tr) = (case r of (p, c', w') \<Rightarrow> Some (p, c', (w', tr')))"
  using assms
proof (induction io c w r arbitrary: tr rule: drain_to_sock_run)
  case (turn drain io c w r)
  obtain x w1 where x: "tn_sock_write io (cn_sock c) (cn_to_sock c) w = (x, w1)"
    by (cases "tn_sock_write io (cn_sock c) (cn_to_sock c) w")
  show ?case
  proof (cases "cn_to_sock c = []")
    case True
    with turn.hyps show ?thesis by (auto simp: drain_to_sock.simps [of _ c])
  next
    case False
    show ?thesis
    proof (cases x)
      case (Inl ec)
      with False x turn.hyps show ?thesis
        by (auto simp: drain_to_sock.simps [of _ c] noting_def split: if_splits prod.splits)
    next
      case (Inr n)
      with False x turn.hyps have d: "drain io (c\<lparr>cn_to_sock := drop n (cn_to_sock c)\<rparr>) w1 = Some r" by simp
      from turn.IH [OF d, of "tr @ [SkWrote (take n (cn_to_sock c))]"] False x Inr show ?thesis
        by (simp add: drain_to_sock.simps [of _ c] noting_def)
    qed
  qed
qed

lemma drain_to_ch_recorded:
  assumes "drain_to_ch io socks c w = Some r"
  shows "\<exists>tr'. drain_to_ch (recording io) socks c (w, tr) = (case r of (p, c', w') \<Rightarrow> Some (p, c', (w', tr')))"
  using assms
proof (induction io socks c w r arbitrary: tr rule: drain_to_ch_run)
  case (turn drain io socks c w r)
  obtain x w1 where x: "tn_channel_write io (cn_ch c) (cn_to_ch c) w = (x, w1)"
    by (cases "tn_channel_write io (cn_ch c) (cn_to_ch c) w")
  show ?case
  proof (cases "cn_to_ch c = []")
    case True
    with turn.hyps show ?thesis by (auto simp: drain_to_ch.simps [of _ _ c])
  next
    case False
    show ?thesis
    proof (cases x)
      case (Inl rc)
      with False x turn.hyps show ?thesis
        by (auto simp: drain_to_ch.simps [of _ _ c] noting_def split: if_splits prod.splits)
    next
      case (Inr n)
      with False x turn.hyps have d: "drain io socks (c\<lparr>cn_to_ch := drop n (cn_to_ch c)\<rparr>) w1 = Some r" by simp
      from turn.IH [OF d, of "tr @ [ChWrote (take n (cn_to_ch c))]"] False x Inr show ?thesis
        by (simp add: drain_to_ch.simps [of _ _ c] noting_def)
    qed
  qed
qed

lemma fill_to_ch_recorded:
  assumes "fill_to_ch io c w = Some r"
  shows "\<exists>tr'. fill_to_ch (recording io) c (w, tr) = (case r of (p, c', w') \<Rightarrow> Some (p, c', (w', tr')))"
  using assms
proof (induction io c w r arbitrary: tr rule: fill_to_ch_run)
  case (turn fill io c w r)
  obtain x w1 where x: "tn_sock_read io (cn_sock c) w = (x, w1)" by (cases "tn_sock_read io (cn_sock c) w")
  show ?case
  proof (cases "\<not> cn_sock_eof c \<and> length (cn_to_ch c) < kConnBufferCap")
    case False
    with turn.hyps show ?thesis by (auto simp: fill_to_ch.simps [of _ c])
  next
    case True
    show ?thesis
    proof (cases x)
      case (Inl ec)
      with True x turn.hyps show ?thesis
        by (auto simp: fill_to_ch.simps [of _ c] noting_def split: if_splits prod.splits)
    next
      case (Inr bytes)
      with True x turn.hyps have d: "fill io (c\<lparr>cn_to_ch := cn_to_ch c @ bytes\<rparr>) w1 = Some r" by simp
      from turn.IH [OF d, of "tr @ [SkRead bytes]"] True x Inr show ?thesis
        by (simp add: fill_to_ch.simps [of _ c] noting_def)
    qed
  qed
qed

lemma onward_recorded:
  assumes "onward r f = Some (p, c', w')"
    and "\<And>p c w. r = Some (p, c, w) \<Longrightarrow> \<exists>tr. r1 = Some (p, c, (w, tr))"
    and "\<And>c w p c' w' tr. f c w = Some (p, c', w') \<Longrightarrow> \<exists>tr'. f1 c (w, tr) = Some (p, c', (w', tr'))"
  shows "\<exists>tr'. onward r1 f1 = Some (p, c', (w', tr'))"
proof -
  obtain q c w where r: "r = Some (q, c, w)" using assms(1) by (cases r) (auto simp: onward_def)
  from assms(2) [OF r] obtain tr where r1: "r1 = Some (q, c, (w, tr))" by blast
  show ?thesis
    using assms(1,3) r r1 by (cases "q = Pumped") (auto simp: onward_def)
qed

lemma pump_conn_recorded:
  "pump_conn io socks c w = Some (p, c', w') \<Longrightarrow>
     \<exists>tr'. pump_conn (recording io) socks c (w, tr) = Some (p, c', (w', tr'))"
  unfolding pump_conn_def
  apply (erule onward_recorded)+
        apply (auto dest: fill_to_sock_recorded)[1]
       apply (drule drain_to_sock_recorded, fastforce)
      apply (auto simp: shut_sock_def split: if_splits)[1]
     apply (drule fill_to_ch_recorded, fastforce)
    apply (drule drain_to_ch_recorded, fastforce)
   apply (auto simp: send_ch_eof_def noting_def split: if_splits prod.splits)[1]
  apply (auto simp: settle_conn_def split: if_splits)[1]
  done

end
