(* ===== verification/Forwarder.thy ===== *)
theory Forwarder
  imports Relay ModuleDetail
begin

section \<open>Host ports reachable from containers\<close>

text \<open>
  \<open>HostPortForwarder\<close> of \<open>src/HostPortForwarding.cpp\<close>: one sidecar with
  one tunnel per daemon, the wiring of a container's spec, and the release of a network.  The mutex
  makes the calls sequential; between two of them the pump thread may have made passes.
\<close>

subsection \<open>The state\<close>

record 'w forward_io =
  fw_run :: "'w run_io"
  fw_tunnel :: "'w tunnel_io"
  fw_draw :: "'w \<Rightarrow> nat \<times> 'w"

abbreviation fw_net :: "'w forward_io \<Rightarrow> 'w net" where
  "fw_net io \<equiv> ro_net (fw_run io)"

abbreviation fw_wait :: "'w forward_io \<Rightarrow> 'w wait_io" where
  "fw_wait io \<equiv> ro_wait (fw_run io)"

record 'w forward_state =
  fs_sidecar :: "('w, 'w handle) owned"
  fs_tunnel :: tunnel
  fs_sidecar_id :: string
  fs_bridge_ip :: string
  fs_forwarded :: "nat set"
  fs_networks :: "string set"

type_synonym 'w forwarders = "string \<rightharpoonup> 'w forward_state option"

definition kHostAccessAlias :: string where
  "kHostAccessAlias = ''host.testcontainers.internal''"

definition kSshdImage :: string where
  "kSshdImage = ''testcontainers/sshd''"

definition kSshdTag :: string where
  "kSshdTag = ''1.3.0''"

definition sshd_image_and_tag :: "'w wait_io \<Rightarrow> string \<times> string" where
  "sshd_image_and_tag wio =
     (case fst (config_value (wi_env wio) (wi_files wio) ''TESTCONTAINERS_SSHD_CONTAINER_IMAGE''
                  ''sshd.container.image'' (wi_cache wio)) of
        None \<Rightarrow> (kSshdImage, kSshdTag)
      | Some override \<Rightarrow> split_image override)"

subsection \<open>Addresses on networks\<close>

definition no_address :: "string \<Rightarrow> exn" where
  "no_address network =
     DockerError (''the host-access sidecar has no IP address on network '' @ quoted network) None []"

text \<open>\<open>json.empty()\<close>, and the first member, which only an object has (error 207).\<close>

fun json_empty :: "json \<Rightarrow> bool" where
  "json_empty JNull = True"
| "json_empty (JArr js) = (js = [])"
| "json_empty (JObj ms) = (ms = [])"
| "json_empty _ = False"

definition address_in :: "jsonlib \<Rightarrow> string \<Rightarrow> bool \<Rightarrow> json \<Rightarrow> string res" where
  "address_in L network fallback_first nets =
     try_bind (case jfind network nets of
                 Some n \<Rightarrow> json_value L get_string n ''IPAddress'' []
               | None \<Rightarrow>
                   (if fallback_first \<and> \<not> json_empty nets then
                      (case members nets of
                         (_, n) # _ \<Rightarrow> json_value L get_string n ''IPAddress'' []
                       | [] \<Rightarrow> Inl (Foreign (jl_error L 207)))
                    else Inr []))
       (\<lambda>ip. if ip = [] then Inl (no_address network) else Inr ip)"

definition ip_on_network :: "'w net \<Rightarrow> string \<Rightarrow> string \<Rightarrow> bool \<Rightarrow> ('w client, string) act" where
  "ip_on_network net cid network fallback_first =
     andThen (inspect_container_raw net cid) (\<lambda>text.
       lift_res (try_bind (json_parse (net_json net) text) (\<lambda>body.
                 try_bind (json_at (net_json net) body ''NetworkSettings'') (\<lambda>settings.
                 try_bind (json_at (net_json net) settings ''Networks'')
                   (address_in (net_json net) network fallback_first)))))"

definition resolve_network_name :: "'w net \<Rightarrow> string \<Rightarrow> ('w client, string) act" where
  "resolve_network_name net network =
     andThen (inspect_network_raw net network) (\<lambda>text.
       lift_res (try_bind (json_parse (net_json net) text) (\<lambda>body.
                 try_bind (json_at (net_json net) body ''Name'') (get_string (net_json net)))))"

subsection \<open>The sidecar\<close>

text \<open>The caller's client and the sidecar's own, which share the world.\<close>

definition on_caller :: "('w client, 'a) act \<Rightarrow> ('w client \<times> ('w, 'w handle) owned, 'a) act" where
  "on_caller m s = (case m (fst s) of (r, c) \<Rightarrow> (r, (c, snd s)))"

definition on_caller_run :: "('w client, 'a) run \<Rightarrow> ('w client \<times> ('w, 'w handle) owned, 'a) run" where
  "on_caller_run m s = map_option (\<lambda>(r, c). (r, (c, snd s))) (m (fst s))"

definition on_sidecar :: "(('w, 'w handle) owned, 'a) act \<Rightarrow> ('w client \<times> ('w, 'w handle) owned, 'a) act" where
  "on_sidecar m s =
     (let (c, own) = s in
      case m (see_world c (fst own), snd own) of (r, own1) \<Rightarrow> (r, (see_world (fst own1) c, own1)))"

definition drop_sidecar :: "'w net \<Rightarrow> 'w client \<times> ('w, 'w handle) owned \<Rightarrow> 'w client" where
  "drop_sidecar net s =
     (let (c, own) = s in see_world (fst (container_drop net (see_world c (fst own), snd own))) c)"

definition sshd_request :: "'w wait_io \<Rightarrow> string \<Rightarrow> 'w ContainerRequest" where
  "sshd_request wio password =
     (let (img, tag) = sshd_image_and_tag wio
      in to_request wio
           (with_wait (listening_port (tcp 22))
             (with_env ''PASSWORD'' password
               (with_exposed_port (tcp 22) (generic_image img tag)))))"

text \<open>Connect, handshake and authentication are tried again for twenty seconds.\<close>

fun dial_sidecar ::
  "nat \<Rightarrow> 'w forward_io \<Rightarrow> string \<Rightarrow> nat \<Rightarrow> string \<Rightarrow> int \<Rightarrow> ('w client, tunnel) run" where
  "dial_sidecar 0 io host port password deadline c = None"
| "dial_sidecar (Suc n) io host port password deadline c =
     (case world_res (open_tunnel (fw_tunnel io) host port ''root'' password) c of
        (Inr t, c1) \<Rightarrow> Some (Inr t, c1)
      | (Inl e, c1) \<Rightarrow>
          (if \<not> is_docker_error e \<or> past (fw_wait io) deadline c1 then Some (Inl e, c1)
           else dial_sidecar n io host port password deadline (sleep_for (fw_wait io) 200 c1)))"

definition reach_sidecar ::
  "nat \<Rightarrow> 'w forward_io \<Rightarrow> string \<Rightarrow> ('w client \<times> ('w, 'w handle) owned, string \<times> tunnel) run" where
  "reach_sidecar fuel io password s =
     (let cid = hd_id (snd (snd s)) in
      runThen (runs (on_caller (ip_on_network (fw_net io) cid ''bridge'' True))) (\<lambda>ip.
      runThen (runs (on_sidecar (get_host_port (fw_net io) (tcp 22)))) (\<lambda>port s1.
        let host = probe_host (fw_wait io) (fst (snd s1));
            deadline = now_of (fw_wait io) (fst s1) + 20000 * ticks_per_ms (wi_clock (fw_wait io))
        in runThen (on_caller_run (dial_sidecar fuel io host port password deadline))
             (\<lambda>t. runs (ret (ip, t))) s1)) s)"

text \<open>A sidecar that cannot be reached is dropped with the half-made state.\<close>

definition make_state :: "nat \<Rightarrow> 'w forward_io \<Rightarrow> ('w client, 'w forward_state) run" where
  "make_state fuel io =
     runThen (runs (world_op (random_hex (fw_draw io) 24))) (\<lambda>password.
     runThen (runner_run (fw_run io) (sshd_request (fw_wait io) password)) (\<lambda>h c.
       case reach_sidecar fuel io password (c, handed_over c h) of
         None \<Rightarrow> None
       | Some (Inl e, s1) \<Rightarrow> Some (Inl e, drop_sidecar (fw_net io) s1)
       | Some (Inr (ip, t), (c1, own)) \<Rightarrow>
           Some (Inr \<lparr>fs_sidecar = own, fs_tunnel = t, fs_sidecar_id = hd_id (snd own), fs_bridge_ip = ip,
                      fs_forwarded = {}, fs_networks = {}\<rparr>, c1)))"

text \<open>The destructor of a state: first the tunnel, then the sidecar.\<close>

definition drop_state :: "'w forward_io \<Rightarrow> 'w forward_state \<Rightarrow> 'w client \<Rightarrow> 'w client" where
  "drop_state io st c =
     drop_sidecar (fw_net io)
       (c\<lparr>cl_world := close_tunnel (fw_tunnel io) (request_stop (fs_tunnel st)) (cl_world c)\<rparr>, fs_sidecar st)"

subsection \<open>wire\<close>

definition bad_network_mode :: "string option \<Rightarrow> string option" where
  "bad_network_mode network =
     (case network of
        None \<Rightarrow> None
      | Some mode \<Rightarrow>
          (if mode = ''host'' \<or> mode = ''none'' \<or> starts_with ''container:'' mode then Some mode else None))"

definition mode_not_supported :: "string \<Rightarrow> exn" where
  "mode_not_supported mode =
     DockerError (''with_exposed_host_port does not support network mode '' @ quoted mode) None []"

definition needs_linux :: exn where
  "needs_linux =
     DockerError
       (''with_exposed_host_port requires a Linux-containers daemon: the '' @
        ''host-access sidecar (testcontainers/sshd) is a Linux image'') None []"

definition check_wiring :: "'w forward_io \<Rightarrow> CreateContainerSpec \<Rightarrow> ('w client, unit) act" where
  "check_wiring io spec =
     andThen (is_windows_engine (fw_net io)) (\<lambda>windows.
       if windows then throw needs_linux
       else case bad_network_mode (cs_network spec) of
              Some mode \<Rightarrow> throw (mode_not_supported mode)
            | None \<Rightarrow> ret ())"

text \<open>The entry of the daemon, with a live tunnel.\<close>

definition live_state ::
  "nat \<Rightarrow> 'w forward_io \<Rightarrow> ('w client \<times> 'w forwarders, 'w forward_state) run" where
  "live_state fuel io s =
     (let (c, fs) = s; url = dh_url (cl_host c);
          fresh = (\<lambda>c. map_option (\<lambda>(r, c1). (r, (c1, fs(url \<mapsto> (case r of Inl _ \<Rightarrow> None | Inr st \<Rightarrow> Some st)))))
                        (make_state fuel io c))
      in case fs url of
           Some (Some st) \<Rightarrow>
             (if tl_dead (fs_tunnel st) then fresh (drop_state io st c) else Some (Inr st, s))
         | _ \<Rightarrow> fresh c)"

type_synonym 'w wiring = "'w client \<times> 'w forward_state"

definition forward_port :: "nat \<Rightarrow> 'w forward_io \<Rightarrow> nat \<Rightarrow> ('w wiring, unit) run" where
  "forward_port fuel io port s =
     (let (c, st) = s in
      if port \<in> fs_forwarded st then Some (Inr (), s)
      else
        map_option (\<lambda>(r, (t, w)).
            (r, (c\<lparr>cl_world := w\<rparr>,
                 (case r of
                    Inl _ \<Rightarrow> st\<lparr>fs_tunnel := t\<rparr>
                  | Inr _ \<Rightarrow> st\<lparr>fs_tunnel := t, fs_forwarded := insert port (fs_forwarded st)\<rparr>))))
          (add_forward fuel (fw_tunnel io) port (fs_tunnel st, cl_world c)))"

definition already_there :: "exn \<Rightarrow> bool" where
  "already_there e \<longleftrightarrow> is_docker_error e \<and> find_str ''already exists'' (exn_what e) \<noteq> None"

definition join_network :: "'w forward_io \<Rightarrow> string \<Rightarrow> string \<Rightarrow> ('w wiring, unit) act" where
  "join_network io network name s =
     (let (c, st) = s in
      if name \<in> fs_networks st then (Inr (), s)
      else
        case catching (connect_network (fw_net io) network (fs_sidecar_id st) [])
               (\<lambda>e. if already_there e then ret () else throw e) c of
          (Inl e, c1) \<Rightarrow> (Inl e, (c1, st))
        | (Inr _, c1) \<Rightarrow> (Inr (), (c1, st\<lparr>fs_networks := insert name (fs_networks st)\<rparr>)))"

definition on_wired :: "('w client, 'a) act \<Rightarrow> ('w wiring, 'a) act" where
  "on_wired m s = (case m (fst s) of (r, c) \<Rightarrow> (r, (c, snd s)))"

definition alias_ip :: "'w forward_io \<Rightarrow> string option \<Rightarrow> ('w wiring, string) act" where
  "alias_ip io network s =
     (case network of
        Some net \<Rightarrow>
          (if net \<noteq> ''bridge'' then
             andThen (on_wired (resolve_network_name (fw_net io) net)) (\<lambda>name.
             andThen (join_network io net name) (\<lambda>_.
             on_wired (ip_on_network (fw_net io) (fs_sidecar_id (snd s)) name False))) s
           else (Inr (fs_bridge_ip (snd s)), s))
      | None \<Rightarrow> (Inr (fs_bridge_ip (snd s)), s))"

definition alias_entry :: "string \<Rightarrow> string" where
  "alias_entry ip = kHostAccessAlias @ '':'' @ ip"

definition wire_live ::
  "nat \<Rightarrow> 'w forward_io \<Rightarrow> CreateContainerSpec \<Rightarrow> nat list \<Rightarrow> ('w wiring, CreateContainerSpec) run" where
  "wire_live fuel io spec ports =
     runThen (run_each (forward_port fuel io) ports) (\<lambda>_.
     runs (andThen (alias_ip io (cs_network spec)) (\<lambda>ip.
       ret (spec\<lparr>cs_extra_hosts := cs_extra_hosts spec @ [alias_entry ip]\<rparr>))))"

definition forwarder_wire ::
  "nat \<Rightarrow> 'w forward_io \<Rightarrow> CreateContainerSpec \<Rightarrow> nat list \<Rightarrow>
    ('w client \<times> 'w forwarders, CreateContainerSpec) run" where
  "forwarder_wire fuel io spec ports s =
     (let url = dh_url (cl_host (fst s)) in
      runThen (runs (\<lambda>(c, fs). case check_wiring io spec c of (r, c1) \<Rightarrow> (r, (c1, fs)))) (\<lambda>_.
      runThen (live_state fuel io) (\<lambda>st (c, fs).
        map_option (\<lambda>(r, (c1, st1)). (r, (c1, fs(url \<mapsto> Some st1)))) (wire_live fuel io spec ports (c, st)))) s)"

text \<open>The build without the feature.\<close>

definition wire_disabled ::
  "CreateContainerSpec \<Rightarrow> nat list \<Rightarrow> ('w client \<times> 'w forwarders, CreateContainerSpec) run" where
  "wire_disabled spec ports =
     runs (throw (DockerError
       (''with_exposed_host_port needs the sshd sidecar tunnel, but this build of '' @
        ''testcontainers-cpp has it disabled (CMake option TC_HOST_PORT_FORWARDING=OFF / '' @
        ''conan option host_port_forwarding=False)'') None []))"

definition release_disabled :: "string \<Rightarrow> 'w client \<Rightarrow> 'w client" where
  "release_disabled network c = c"

subsection \<open>release\_network\<close>

definition release_from :: "'w forward_io \<Rightarrow> string \<Rightarrow> 'w wiring \<Rightarrow> 'w wiring" where
  "release_from io network s =
     (let (c, st) = s;
          (r, c1) = (if network \<in> fs_networks st then (Inr network, c)
                     else resolve_network_name (fw_net io) network c)
      in case r of
           Inl _ \<Rightarrow> (c1, st)
         | Inr name \<Rightarrow>
             (if name \<in> fs_networks st then
                (snd (disconnect_network (fw_net io) network (fs_sidecar_id st) False c1),
                 st\<lparr>fs_networks := fs_networks st - {name}\<rparr>)
              else (c1, st)))"

definition release_network :: "'w forward_io \<Rightarrow> string \<Rightarrow> 'w client \<times> 'w forwarders \<Rightarrow> 'w client \<times> 'w forwarders" where
  "release_network io network s =
     (let (c, fs) = s; url = dh_url (cl_host c) in
      case fs url of
        Some (Some st) \<Rightarrow> (case release_from io network (c, st) of (c1, st1) \<Rightarrow> (c1, fs(url \<mapsto> Some st1)))
      | _ \<Rightarrow> s)"

subsection \<open>Passes of the pump\<close>

text \<open>A pass never touches the listeners; it only takes connections away that are finished.\<close>

lemma pump_tunnel_keeps:
  "pump_tunnel io (t, w) = Some (t', w') \<Longrightarrow> tl_listeners t' = tl_listeners t \<and> tl_stop t' = tl_stop t"
  by (auto simp: pump_tunnel_def broken_def split: option.splits prod.splits)

lemma reap_conns_unfinished:
  "filter (\<lambda>c. \<not> cn_done c) (fst (reap_conns io cs w)) = filter (\<lambda>c. \<not> cn_done c) cs"
  by (induction io cs w rule: reap_conns.induct) (auto split: prod.splits)

subsection \<open>Invariants of the registry\<close>

lemma address_in_Inr: "address_in L network first nets = Inr ip \<Longrightarrow> ip \<noteq> []"
  by (auto simp: address_in_def try_bind_Inr split: if_splits)

lemma ip_on_network_Inr: "ip_on_network net cid network first c = (Inr ip, c') \<Longrightarrow> ip \<noteq> []"
  by (auto simp: ip_on_network_def andThen_Inr try_bind_Inr dest: address_in_Inr)

lemma open_tunnel_Inr: "open_tunnel io host port user password w = (Inr t, w') \<Longrightarrow> t = new_tunnel"
  by (auto simp: open_tunnel_def split: prod.splits option.splits bool.splits)

lemma dial_sidecar_Inr: "dial_sidecar n io host port password deadline c = Some (Inr t, c') \<Longrightarrow> t = new_tunnel"
  by (induction n io host port password deadline c rule: dial_sidecar.induct)
    (auto simp: world_res_def Let_def split: prod.splits sum.splits if_splits dest: open_tunnel_Inr)

lemma reach_sidecar_Inr:
  assumes "reach_sidecar fuel io password s = Some (Inr (ip, t), s')"
  shows "ip \<noteq> [] \<and> t = new_tunnel"
proof -
  obtain s1 host port deadline c0 c1 where
    "on_caller (ip_on_network (fw_net io) (hd_id (snd (snd s))) ''bridge'' True) s = (Inr ip, s1)"
    "dial_sidecar fuel io host port password deadline c0 = Some (Inr t, c1)"
    using assms by (auto simp: reach_sidecar_def runThen_Some Let_def on_caller_run_def)
  then show ?thesis
    by (auto simp: on_caller_def split: prod.splits dest: ip_on_network_Inr dial_sidecar_Inr)
qed

definition state_ok :: "'w forward_state \<Rightarrow> bool" where
  "state_ok st \<longleftrightarrow>
     fs_forwarded st = set (map ln_port (tl_listeners (fs_tunnel st))) \<and>
     distinct (map ln_port (tl_listeners (fs_tunnel st))) \<and> \<not> tl_stop (fs_tunnel st) \<and>
     fs_bridge_ip st \<noteq> [] \<and> fs_sidecar_id st = hd_id (snd (fs_sidecar st))"

definition forwarders_ok :: "'w forwarders \<Rightarrow> bool" where
  "forwarders_ok fs \<longleftrightarrow> (\<forall>url st. fs url = Some (Some st) \<longrightarrow> state_ok st)"

lemma make_state_ok:
  assumes "make_state fuel io c = Some (Inr st, c')"
  shows "state_ok st \<and> fs_forwarded st = {} \<and> fs_networks st = {} \<and> \<not> tl_dead (fs_tunnel st)"
proof -
  from assms obtain password c0 h where
    m: "(case reach_sidecar fuel io password (c0, handed_over c0 h) of
         None \<Rightarrow> None
       | Some (Inl e, s1) \<Rightarrow> Some (Inl e, drop_sidecar (fw_net io) s1)
       | Some (Inr (ip, t), (c1, own)) \<Rightarrow>
           Some (Inr \<lparr>fs_sidecar = own, fs_tunnel = t, fs_sidecar_id = hd_id (snd own), fs_bridge_ip = ip,
                      fs_forwarded = {}, fs_networks = {}\<rparr>, c1)) = Some (Inr st, c')"
    unfolding make_state_def runThen_Some by blast
  then obtain ip t own where "reach_sidecar fuel io password (c0, handed_over c0 h) = Some (Inr (ip, t), (c', own))"
    and st: "st = \<lparr>fs_sidecar = own, fs_tunnel = t, fs_sidecar_id = hd_id (snd own), fs_bridge_ip = ip,
                fs_forwarded = {}, fs_networks = {}\<rparr>"
    by (cases "reach_sidecar fuel io password (c0, handed_over c0 h)") (auto split: sum.splits prod.splits)
  with reach_sidecar_Inr [OF this(1)] show ?thesis by (simp add: state_ok_def new_tunnel_def)
qed

lemma add_forward_cases:
  assumes "add_forward fuel io port (t, w) = Some (r, (t', w'))"
  shows "(\<exists>e. r = Inl e \<and> t' = t) \<or>
    (\<exists>l. r = Inr () \<and> t' = t\<lparr>tl_listeners := tl_listeners t @ [\<lparr>ln_handle = l, ln_port = port\<rparr>]\<rparr> \<and> \<not> tl_dead t)"
proof (cases "tl_dead t")
  case True
  with assms show ?thesis by (auto simp: add_forward_def)
next
  case False
  with assms obtain q w1 where
    "listen_loop fuel io port (tn_now io w + 10000 * ticks_per_ms (tn_clock io)) w = Some (q, w1)"
    by (auto simp: add_forward_def)
  with assms False show ?thesis by (cases q) (auto simp: add_forward_def)
qed

definition grown :: "'w forward_state \<Rightarrow> 'w forward_state \<Rightarrow> bool" where
  "grown st st' \<longleftrightarrow> fs_forwarded st \<subseteq> fs_forwarded st' \<and> fs_networks st \<subseteq> fs_networks st' \<and>
     fs_sidecar_id st' = fs_sidecar_id st \<and> fs_bridge_ip st' = fs_bridge_ip st \<and>
     tl_dead (fs_tunnel st') = tl_dead (fs_tunnel st)"

lemma grown_refl [simp]: "grown st st"
  by (simp add: grown_def)

lemma grown_trans: "grown st st1 \<Longrightarrow> grown st1 st2 \<Longrightarrow> grown st st2"
  unfolding grown_def by auto

lemma forward_port_ok:
  assumes "forward_port fuel io port (c, st) = Some (r, (c', st'))" "state_ok st"
  shows "state_ok st' \<and> grown st st' \<and> (r = Inr () \<longrightarrow> port \<in> fs_forwarded st')"
proof (cases "port \<in> fs_forwarded st")
  case True
  with assms show ?thesis by (auto simp: forward_port_def)
next
  case False
  with assms(1) obtain t w where f: "add_forward fuel (fw_tunnel io) port (fs_tunnel st, cl_world c) = Some (r, (t, w))"
    and st: "st' = (case r of Inl _ \<Rightarrow> st\<lparr>fs_tunnel := t\<rparr>
       | Inr _ \<Rightarrow> st\<lparr>fs_tunnel := t, fs_forwarded := insert port (fs_forwarded st)\<rparr>)"
    by (auto simp: forward_port_def)
  from add_forward_cases [OF f] show ?thesis
    using False assms(2) by (auto simp: st state_ok_def grown_def)
qed

lemma forward_ports_ok:
  "run_each (forward_port fuel io) ports (c, st) = Some (r, (c', st')) \<Longrightarrow> state_ok st \<Longrightarrow>
     state_ok st' \<and> grown st st' \<and> (r = Inr () \<longrightarrow> set ports \<subseteq> fs_forwarded st')"
proof (induction ports arbitrary: c st)
  case (Cons port ports)
  consider (failed) e where "forward_port fuel io port (c, st) = Some (Inl e, (c', st'))" "r = Inl e"
    | (going) c1 st1 where "forward_port fuel io port (c, st) = Some (Inr (), (c1, st1))"
      "run_each (forward_port fuel io) ports (c1, st1) = Some (r, (c', st'))"
    using Cons.prems(1) by (auto simp: runThen_Some)
  then show ?case
  proof cases
    case failed
    with forward_port_ok [OF failed(1) Cons.prems(2)] show ?thesis by simp
  next
    case going
    from forward_port_ok [OF going(1) Cons.prems(2)] have f: "state_ok st1" "grown st st1" "port \<in> fs_forwarded st1"
      by simp_all
    from Cons.IH [OF going(2) f(1)] f show ?thesis by (auto intro: grown_trans simp: grown_def)
  qed
qed simp

lemma join_network_ok:
  "join_network io network name (c, st) = (r, (c', st')) \<Longrightarrow> state_ok st \<Longrightarrow>
     state_ok st' \<and> grown st st' \<and> (r = Inr () \<longrightarrow> name \<in> fs_networks st')"
  by (auto simp: join_network_def Let_def state_ok_def grown_def split: if_splits prod.splits sum.splits)

lemma on_wired_Inr: "on_wired m (c, st) = (r, (c', st')) \<longleftrightarrow> m c = (r, c') \<and> st' = st"
  by (auto simp: on_wired_def split: prod.splits)

text \<open>
  The address the alias stands for: the sidecar's on the container's own network, which it has
  joined, or the one on the default bridge.
\<close>

definition address_for :: "'w forward_io \<Rightarrow> string option \<Rightarrow> 'w forward_state \<Rightarrow> string \<Rightarrow> 'w client \<Rightarrow> bool" where
  "address_for io network st ip c \<longleftrightarrow>
     (if network = None \<or> network = Some ''bridge'' then ip = fs_bridge_ip st
      else \<exists>name \<in> fs_networks st. \<exists>c0. ip_on_network (fw_net io) (fs_sidecar_id st) name False c0 = (Inr ip, c))"

lemma alias_ip_ok:
  assumes "alias_ip io network (c, st) = (r, (c', st'))" "state_ok st"
  shows "state_ok st' \<and> grown st st' \<and> (\<forall>ip. r = Inr ip \<longrightarrow> ip \<noteq> [] \<and> address_for io network st' ip c')"
proof (cases "\<exists>net. network = Some net \<and> net \<noteq> ''bridge''")
  case False
  with assms show ?thesis by (auto simp: alias_ip_def state_ok_def address_for_def split: option.splits)
next
  case True
  then obtain net where n: "network = Some net" "net \<noteq> ''bridge''" by blast
  obtain q c1 where q: "resolve_network_name (fw_net io) net c = (q, c1)"
    by (cases "resolve_network_name (fw_net io) net c")
  show ?thesis
  proof (cases q)
    case (Inl e)
    with assms n q show ?thesis by (auto simp: alias_ip_def andThen_apply on_wired_def)
  next
    case (Inr name)
    obtain j c2 st2 where j: "join_network io net name (c1, st) = (j, (c2, st2))"
      by (cases "join_network io net name (c1, st)") auto
    from join_network_ok [OF j assms(2)] have k: "state_ok st2" "grown st st2" "j = Inr () \<longrightarrow> name \<in> fs_networks st2"
      by simp_all
    show ?thesis
    proof (cases j)
      case (Inl e)
      with assms(1) n q Inr j k show ?thesis by (auto simp: alias_ip_def andThen_apply on_wired_def)
    next
      case (Inr u)
      with assms(1) n q \<open>q = Inr name\<close> j have
        "on_wired (ip_on_network (fw_net io) (fs_sidecar_id st) name False) (c2, st2) = (r, (c', st'))"
        by (simp add: alias_ip_def andThen_apply on_wired_def)
      then have i: "ip_on_network (fw_net io) (fs_sidecar_id st) name False c2 = (r, c')" "st' = st2"
        by (simp_all add: on_wired_Inr)
      from k(2) have "fs_sidecar_id st2 = fs_sidecar_id st" by (simp add: grown_def)
      moreover have "name \<in> fs_networks st2" using k(3) Inr by simp
      ultimately have "address_for io network st2 ip c'" if "r = Inr ip" for ip
        using i(1) n that by (auto simp: address_for_def)
      with i k show ?thesis by (auto dest: ip_on_network_Inr)
    qed
  qed
qed

lemma wire_live_ok:
  assumes "wire_live fuel io spec ports (c, st) = Some (r, (c', st'))" "state_ok st"
  shows "state_ok st' \<and> grown st st' \<and> (\<forall>spec'. r = Inr spec' \<longrightarrow> set ports \<subseteq> fs_forwarded st' \<and>
    (\<exists>ip. ip \<noteq> [] \<and> address_for io (cs_network spec) st' ip c' \<and> spec' = spec\<lparr>cs_extra_hosts := cs_extra_hosts spec @ [alias_entry ip]\<rparr>))"
proof -
  consider (failed) e where "run_each (forward_port fuel io) ports (c, st) = Some (Inl e, (c', st'))" "r = Inl e"
    | (forwarded) c1 st1 where "run_each (forward_port fuel io) ports (c, st) = Some (Inr (), (c1, st1))"
      "andThen (alias_ip io (cs_network spec)) (\<lambda>ip.
         ret (spec\<lparr>cs_extra_hosts := cs_extra_hosts spec @ [alias_entry ip]\<rparr>)) (c1, st1) = (r, (c', st'))"
    using assms(1) by (auto simp: wire_live_def runThen_Some)
  then show ?thesis
  proof cases
    case failed
    with forward_ports_ok [OF failed(1) assms(2)] show ?thesis by simp
  next
    case forwarded
    from forward_ports_ok [OF forwarded(1) assms(2)] have f: "state_ok st1" "grown st st1" "set ports \<subseteq> fs_forwarded st1"
      by simp_all
    obtain q c2 st2 where a: "alias_ip io (cs_network spec) (c1, st1) = (q, (c2, st2))"
      by (cases "alias_ip io (cs_network spec) (c1, st1)") auto
    from alias_ip_ok [OF a f(1)] have g: "state_ok st2" "grown st1 st2"
      "\<forall>ip. q = Inr ip \<longrightarrow> ip \<noteq> [] \<and> address_for io (cs_network spec) st2 ip c2"
      by simp_all
    from a forwarded(2) have e: "st' = st2" "c' = c2"
      "r = (case q of Inl e \<Rightarrow> Inl e | Inr ip \<Rightarrow> Inr (spec\<lparr>cs_extra_hosts := cs_extra_hosts spec @ [alias_entry ip]\<rparr>))"
      by (auto simp: andThen_apply split: sum.splits)
    have "set ports \<subseteq> fs_forwarded st2" using f(3) g(2) by (auto simp: grown_def)
    with f g e show ?thesis by (cases q) (auto intro: grown_trans)
  qed
qed

lemma live_state_ok:
  assumes "live_state fuel io (c, fs) = Some (r, (c', fs'))" "forwarders_ok fs"
  shows "forwarders_ok fs' \<and> (\<forall>st. r = Inr st \<longrightarrow> state_ok st \<and> \<not> tl_dead (fs_tunnel st))"
proof -
  let ?url = "dh_url (cl_host c)"
  have fresh: "forwarders_ok fs' \<and> (\<forall>st. r = Inr st \<longrightarrow> state_ok st \<and> \<not> tl_dead (fs_tunnel st))"
    if "map_option (\<lambda>(r, c1). (r, (c1, fs(?url \<mapsto> (case r of Inl _ \<Rightarrow> None | Inr st \<Rightarrow> Some st)))))
          (make_state fuel io c0) = Some (r, (c', fs'))" for c0
  proof -
    from that obtain c1 where m: "make_state fuel io c0 = Some (r, c1)"
      and fs': "fs' = fs(?url \<mapsto> (case r of Inl _ \<Rightarrow> None | Inr st \<Rightarrow> Some st))" by auto
    show ?thesis
    proof (cases r)
      case (Inl e)
      with assms(2) fs' show ?thesis by (auto simp: forwarders_ok_def)
    next
      case (Inr st)
      with make_state_ok [OF m [unfolded Inr]] assms(2) fs' show ?thesis by (auto simp: forwarders_ok_def)
    qed
  qed
  consider (live) st where "fs ?url = Some (Some st)" "\<not> tl_dead (fs_tunnel st)"
    | (dead) st where "fs ?url = Some (Some st)" "tl_dead (fs_tunnel st)"
    | (none) "fs ?url = None \<or> fs ?url = Some None"
  proof (cases "fs ?url")
    case None
    then show thesis using that(3) by simp
  next
    case (Some entry)
    then show thesis using that by (cases entry) auto
  qed
  then show ?thesis
  proof cases
    case live
    with assms show ?thesis by (auto simp: live_state_def forwarders_ok_def)
  next
    case dead
    with assms(1) show ?thesis by (intro fresh [of "drop_state io st c"]) (simp add: live_state_def Let_def)
  next
    case none
    with assms(1) show ?thesis by (intro fresh [of c]) (auto simp: live_state_def Let_def)
  qed
qed

lemma forwarder_wire_ok:
  assumes "forwarder_wire fuel io spec ports (c, fs) = Some (r, (c', fs'))" "forwarders_ok fs"
  shows "forwarders_ok fs' \<and> (\<forall>spec'. r = Inr spec' \<longrightarrow>
    (\<exists>st ip. fs' (dh_url (cl_host c)) = Some (Some st) \<and> set ports \<subseteq> fs_forwarded st \<and>
       \<not> tl_dead (fs_tunnel st) \<and> ip \<noteq> [] \<and>
       address_for io (cs_network spec) st ip c' \<and>
       spec' = spec\<lparr>cs_extra_hosts := cs_extra_hosts spec @ [alias_entry ip]\<rparr>))"
proof -
  let ?url = "dh_url (cl_host c)"
  consider (refused) e where "r = Inl e" "fs' = fs"
    | (no_state) e c1 where "live_state fuel io (c1, fs) = Some (Inl e, (c', fs'))" "r = Inl e"
    | (wired) c1 st c2 fs2 st' where "live_state fuel io (c1, fs) = Some (Inr st, (c2, fs2))"
      "wire_live fuel io spec ports (c2, st) = Some (r, (c', st'))" "fs' = fs2(?url \<mapsto> Some st')"
    using assms(1)
    by (auto simp: forwarder_wire_def runThen_Some Let_def split: prod.splits)
  then show ?thesis
  proof cases
    case refused
    with assms(2) show ?thesis by simp
  next
    case no_state
    with live_state_ok [OF no_state(1) assms(2)] show ?thesis by simp
  next
    case wired
    from live_state_ok [OF wired(1) assms(2)] have l: "forwarders_ok fs2" "state_ok st" "\<not> tl_dead (fs_tunnel st)"
      by simp_all
    from wire_live_ok [OF wired(2) l(2)] l wired(3) show ?thesis
      by (auto simp: forwarders_ok_def grown_def)
  qed
qed

lemma release_from_ok:
  "release_from io network (c, st) = (c', st') \<Longrightarrow> state_ok st \<Longrightarrow>
     state_ok st' \<and> network \<notin> fs_networks st' \<and> fs_networks st' \<subseteq> fs_networks st"
  by (auto simp: release_from_def state_ok_def Let_def split: if_splits prod.splits sum.splits)

text \<open>
  The registry over the life of the process: wirings, releases, and the passes of each daemon's pump
  in between, in any order and with any clients.
\<close>

inductive forwarding :: "'w forward_io \<Rightarrow> 'w forwarders \<Rightarrow> bool" for io where
  idle: "forwarding io Map.empty"
| wiring: "forwarding io fs \<Longrightarrow> forwarder_wire fuel io spec ports (c, fs) = Some (r, (c', fs')) \<Longrightarrow> forwarding io fs'"
| releasing: "forwarding io fs \<Longrightarrow> release_network io network (c, fs) = (c', fs') \<Longrightarrow> forwarding io fs'"
| pumping: "forwarding io fs \<Longrightarrow> fs url = Some (Some st) \<Longrightarrow>
    loop_turn (fw_tunnel io) (fs_tunnel st, w) = Some (going, t, w') \<Longrightarrow>
    forwarding io (fs(url \<mapsto> Some (st\<lparr>fs_tunnel := t\<rparr>)))"

lemma loop_turn_keeps:
  "loop_turn io (t, w) = Some (going, t', w') \<Longrightarrow> tl_listeners t' = tl_listeners t \<and> tl_stop t' = tl_stop t"
  by (auto simp: loop_turn_def split: if_splits dest: pump_tunnel_keeps)

lemma forwarding_ok: "forwarding io fs \<Longrightarrow> forwarders_ok fs"
proof (induction rule: forwarding.induct)
  case (wiring fs fuel spec ports c r c' fs')
  from forwarder_wire_ok [OF wiring.hyps(2) wiring.IH] show ?case by blast
next
  case (releasing fs network c c' fs')
  show ?case
  proof (cases "\<exists>st. fs (dh_url (cl_host c)) = Some (Some st)")
    case True
    then obtain st where st: "fs (dh_url (cl_host c)) = Some (Some st)" by blast
    obtain c1 st1 where r: "release_from io network (c, st) = (c1, st1)" by (cases "release_from io network (c, st)")
    have "state_ok st" using st releasing.IH by (simp add: forwarders_ok_def)
    from release_from_ok [OF r this] releasing st r show ?thesis
      by (auto simp: release_network_def forwarders_ok_def split: if_splits)
  next
    case False
    then have "release_network io network (c, fs) = (c, fs)"
      by (auto simp: release_network_def Let_def split: option.split)
    with releasing show ?thesis by simp
  qed
next
  case (pumping fs url st w going t w')
  then show ?case by (auto simp: forwarders_ok_def state_ok_def dest: loop_turn_keeps)
qed (simp add: forwarders_ok_def)

subsection \<open>Failures\<close>

text \<open>
  A sidecar that started but could not be reached is dropped: the state reached is the one its
  handle's destructor leaves.
\<close>

lemma make_state_failed:
  assumes "make_state fuel io c = Some (Inl e, c')"
  shows "(\<exists>password c1. runner_run (fw_run io) (sshd_request (fw_wait io) password) c1 = Some (Inl e, c')) \<or>
    (\<exists>password c1 h c2 s1. runner_run (fw_run io) (sshd_request (fw_wait io) password) c1 = Some (Inr h, c2) \<and>
       reach_sidecar fuel io password (c2, handed_over c2 h) = Some (Inl e, s1) \<and> c' = drop_sidecar (fw_net io) s1)"
proof -
  obtain password c1 where p: "world_op (random_hex (fw_draw io) 24) c = (Inr password, c1)"
    by (cases "world_op (random_hex (fw_draw io) 24) c") (auto simp: world_op_def split: prod.splits)
  consider "runner_run (fw_run io) (sshd_request (fw_wait io) password) c1 = Some (Inl e, c')"
    | h c2 where "runner_run (fw_run io) (sshd_request (fw_wait io) password) c1 = Some (Inr h, c2)"
      "(case reach_sidecar fuel io password (c2, handed_over c2 h) of
         None \<Rightarrow> None
       | Some (Inl e, s1) \<Rightarrow> Some (Inl e, drop_sidecar (fw_net io) s1)
       | Some (Inr (ip, t), (c1, own)) \<Rightarrow>
           Some (Inr \<lparr>fs_sidecar = own, fs_tunnel = t, fs_sidecar_id = hd_id (snd own), fs_bridge_ip = ip,
                      fs_forwarded = {}, fs_networks = {}\<rparr>, c1)) = Some (Inl e, c')"
    using assms p unfolding make_state_def runThen_Some runs_apply by auto
  then show ?thesis
  proof cases
    case 2
    then obtain s1 where "reach_sidecar fuel io password (c2, handed_over c2 h) = Some (Inl e, s1)"
      "c' = drop_sidecar (fw_net io) s1"
      by (cases "reach_sidecar fuel io password (c2, handed_over c2 h)") (auto split: sum.splits prod.splits)
    with 2(1) show ?thesis by blast
  qed blast
qed

text \<open>The SSH port that refuses the connection is not tried again: what asio throws is no Docker error.\<close>

lemma dial_refused:
  assumes "tn_connect_ssh (fw_tunnel io) host port (tn_init (fw_tunnel io) (cl_world c)) = (Some (Foreign what), w1)"
  shows "dial_sidecar (Suc n) io host port password deadline c =
    Some (Inl (Foreign what), c\<lparr>cl_world := tn_exit (fw_tunnel io) w1\<rparr>)"
  using assms by (simp add: world_res_def open_tunnel_def)

text \<open>
  A tunnel that cannot be opened leaves nothing behind: every failure gives back the library's
  initialisation, after the session it may have made.
\<close>

lemma open_tunnel_failed:
  assumes "open_tunnel io host port user password w = (Inl e, w')"
  shows "\<exists>w0. w' = tn_exit io w0"
  using assms by (auto simp: open_tunnel_def split: prod.splits option.splits bool.splits)

subsection \<open>Retries end\<close>

lemma dial_sidecar_returns:
  assumes dialled: "\<And>c r c1. world_res (open_tunnel (fw_tunnel io) host port ''root'' password) c = (r, c1) \<Longrightarrow>
      now_of (fw_wait io) c \<le> now_of (fw_wait io) c1"
    and pause: "\<And>c. now_of (fw_wait io) c + step \<le> now_of (fw_wait io) (sleep_for (fw_wait io) 200 c)"
    and fuel: "deadline - now_of (fw_wait io) c \<le> int n * step"
  shows "dial_sidecar (Suc n) io host port password deadline c \<noteq> None"
  using fuel
proof (induction n arbitrary: c)
  case 0
  obtain r c1 where r: "world_res (open_tunnel (fw_tunnel io) host port ''root'' password) c = (r, c1)"
    by (cases "world_res (open_tunnel (fw_tunnel io) host port ''root'' password) c")
  from dialled [OF r] 0 have "past (fw_wait io) deadline c1" by (simp add: past_def)
  with r show ?case by (cases r) simp_all
next
  case (Suc n)
  obtain r c1 where r: "world_res (open_tunnel (fw_tunnel io) host port ''root'' password) c = (r, c1)"
    by (cases "world_res (open_tunnel (fw_tunnel io) host port ''root'' password) c")
  have "deadline - now_of (fw_wait io) (sleep_for (fw_wait io) 200 c1) \<le> int n * step"
    using dialled [OF r] pause [of c1] Suc.prems by (simp add: algebra_simps)
  from Suc.IH [OF this] r show ?case
    by (cases r) (auto simp: dial_sidecar.simps(2) [of "Suc n"] simp del: dial_sidecar.simps(2))
qed

lemma listen_loop_returns:
  assumes trying: "\<And>w. tn_now io w \<le> tn_now io (snd (tn_listen io port w))"
    and pause: "\<And>w. tn_now io w + step \<le> tn_now io (tn_select_ssh io 50 w)"
    and fuel: "deadline - tn_now io w \<le> int n * step"
  shows "listen_loop (Suc n) io port deadline w \<noteq> None"
  using fuel
proof (induction n arbitrary: w)
  case 0
  obtain l w1 where l: "tn_listen io port w = (l, w1)" by (cases "tn_listen io port w")
  with trying [of w] 0 have "deadline \<le> tn_now io w1" by simp
  with l show ?case by (cases l) simp_all
next
  case (Suc n)
  obtain l w1 where l: "tn_listen io port w = (l, w1)" by (cases "tn_listen io port w")
  have "deadline - tn_now io (tn_select_ssh io 50 w1) \<le> int n * step"
    using trying [of w] l pause [of w1] Suc.prems by (simp add: algebra_simps)
  from Suc.IH [OF this] l show ?case
    by (cases l) (auto simp: listen_loop.simps(2) [of "Suc n"] simp del: listen_loop.simps(2))
qed

end
