(* ===== verification/Duplex.thy ===== *)
theory Duplex
  imports Delivery
begin

section \<open>The full-duplex exchange\<close>

text \<open>
  \<open>src/docker/DuplexExchange.hpp\<close> (\<open>duplex_exchange\<close>) and the sequential \<open>exchange\<close> and \<open>write_all\<close> of
  \<open>src/docker/Transport.hpp\<close>.  The event loop runs one completion handler at a time; which one, and
  with what result, is the schedule, a list of turns.  Handlers are functions on the state that the
  source's lambdas capture.  The calls made on the stream are recorded in order.
\<close>

datatype asio_ec = AsioEof | AsioTimedOut | AsioAborted | AsioBrokenPipe | AsioOther string

subsection \<open>State\<close>

text \<open>What happens on the stream: operations started, bytes accepted, the half-close, the cancellation.\<close>

datatype stream_call = ReadStarted | WriteStarted string | Accepted string | EofSent | Cancelled

record 'c duplex =
  dx_read_done :: bool
  dx_read_ec :: "asio_ec option"
  dx_sent :: nat
  dx_writes_drained :: bool
  dx_eof_owed :: bool
  dx_send_ec :: "asio_ec option"
  dx_stopping :: bool
  dx_reading :: bool
  dx_writing :: "string option"
  dx_consumer :: 'c
  dx_calls :: "stream_call list"

record 'c duplex_env =
  de_clock :: clock
  de_io_timeout :: "int option"
  de_input :: string
  de_on_chunk :: "string \<Rightarrow> 'c \<Rightarrow> bool \<times> 'c"
  de_deadline :: "int option"

definition kWriteChunk :: nat where
  "kWriteChunk = 64 * 1024"

subsection \<open>Handlers\<close>

definition start_read :: "'c duplex \<Rightarrow> 'c duplex" where
  "start_read st = st\<lparr>dx_reading := True, dx_calls := dx_calls st @ [ReadStarted]\<rparr>"

definition start_write :: "'c duplex_env \<Rightarrow> 'c duplex \<Rightarrow> 'c duplex" where
  "start_write env st =
     (let chunk = take kWriteChunk (drop (dx_sent st) (de_input env))
      in st\<lparr>dx_writing := Some chunk, dx_calls := dx_calls st @ [WriteStarted chunk]\<rparr>)"

definition on_read :: "'c duplex_env \<Rightarrow> asio_ec option \<Rightarrow> string \<Rightarrow> 'c duplex \<Rightarrow> 'c duplex" where
  "on_read env op_ec bytes st0 =
     (let st = st0\<lparr>dx_reading := False\<rparr>;
          end_ec = (if op_ec = None \<and> bytes = [] then Some AsioEof else op_ec)
      in if dx_stopping st then st
         else
           let (go, c) = (if bytes = [] then (True, dx_consumer st) else de_on_chunk env bytes (dx_consumer st));
               st1 = st\<lparr>dx_consumer := c\<rparr>
           in if \<not> go then st1\<lparr>dx_read_done := True\<rparr>
              else if end_ec \<noteq> None then st1\<lparr>dx_read_ec := end_ec, dx_read_done := True\<rparr>
              else start_read st1)"

definition on_write :: "'c duplex_env \<Rightarrow> asio_ec option \<Rightarrow> nat \<Rightarrow> 'c duplex \<Rightarrow> 'c duplex" where
  "on_write env op_ec n st0 =
     (let st = st0\<lparr>dx_writing := None, dx_sent := dx_sent st0 + n,
                  dx_calls := dx_calls st0 @
                    [Accepted (take n (case dx_writing st0 of None \<Rightarrow> [] | Some chunk \<Rightarrow> chunk))]\<rparr>
      in if op_ec \<noteq> None then st\<lparr>dx_send_ec := op_ec, dx_writes_drained := True, dx_eof_owed := False\<rparr>
         else if dx_stopping st then st\<lparr>dx_writes_drained := True\<rparr>
         else if dx_sent st < length (de_input env) then start_write env st
         else st\<lparr>dx_writes_drained := True\<rparr>)"

text \<open>A completion: of the read, of the write, or of something else (the pipe's half-close message).\<close>

datatype completion = ReadDone "asio_ec option" string | WriteDone "asio_ec option" nat | OtherDone

fun run_handler :: "'c duplex_env \<Rightarrow> completion \<Rightarrow> 'c duplex \<Rightarrow> 'c duplex" where
  "run_handler env (ReadDone ec bytes) st = on_read env ec bytes st"
| "run_handler env (WriteDone ec n) st = on_write env ec n st"
| "run_handler env OtherDone st = st"

subsection \<open>The loop\<close>

definition settle_eof :: "'c duplex \<Rightarrow> 'c duplex" where
  "settle_eof st =
     (if dx_writes_drained st \<and> dx_eof_owed st then
        st\<lparr>dx_eof_owed := False, dx_calls := dx_calls st @ [EofSent]\<rparr>
      else st)"

text \<open>The budget of a turn: \<open>None\<close> for a deadline that has passed, else the wait, if it is bounded.\<close>

definition turn_wait :: "'c duplex_env \<Rightarrow> int \<Rightarrow> 'c duplex \<Rightarrow> int option option" where
  "turn_wait env now st =
     (let wait = (if dx_writes_drained st then None else de_io_timeout env)
      in case de_deadline env of
           None \<Rightarrow> Some wait
         | Some deadline \<Rightarrow>
             (let left = to_ms (de_clock env) (deadline - now)
              in if left \<le> 0 then None
                 else Some (Some (case wait of None \<Rightarrow> left | Some w \<Rightarrow> min w left))))"

text \<open>A turn: the clock, and what \<open>run_one_for\<close> ran; \<open>None\<close> when the budget ran out first.\<close>

record turn =
  tu_now :: int
  tu_ran :: "completion option"

text \<open>The loop says whether it expired; \<open>None\<close> while it waits for the next turn.\<close>

fun duplex_loop :: "'c duplex_env \<Rightarrow> turn list \<Rightarrow> 'c duplex \<Rightarrow> (bool \<times> 'c duplex) option" where
  "duplex_loop env turns st =
     (if dx_read_done st then Some (False, st)
      else
        case turns of
          [] \<Rightarrow> None
        | t # ts \<Rightarrow>
            (let st1 = settle_eof st in
             case turn_wait env (tu_now t) st1 of
               None \<Rightarrow> Some (True, st1)
             | Some _ \<Rightarrow>
                 (case tu_ran t of
                    None \<Rightarrow> Some (True, st1)
                  | Some did \<Rightarrow> duplex_loop env ts (run_handler env did st1))))"

declare duplex_loop.simps [simp del]

definition duplex_start :: "'c duplex_env \<Rightarrow> bool \<Rightarrow> 'c \<Rightarrow> 'c duplex" where
  "duplex_start env eof_after_input c =
     (let st = \<lparr>dx_read_done = False, dx_read_ec = None, dx_sent = 0, dx_writes_drained = (de_input env = []),
               dx_eof_owed = eof_after_input, dx_send_ec = None, dx_stopping = False, dx_reading = False,
               dx_writing = None, dx_consumer = c, dx_calls = []\<rparr>;
          st1 = start_read st
      in if dx_writes_drained st1 then st1 else start_write env st1)"

text \<open>The epilogue: cancel, and run the handlers of what was in flight.\<close>

definition duplex_drain :: "'c duplex_env \<Rightarrow> completion list \<Rightarrow> 'c duplex \<Rightarrow> 'c duplex" where
  "duplex_drain env rest st =
     fold (run_handler env) rest (st\<lparr>dx_stopping := True, dx_calls := dx_calls st @ [Cancelled]\<rparr>)"

definition duplex_outcome :: "bool \<Rightarrow> 'c duplex \<Rightarrow> asio_ec option" where
  "duplex_outcome expired st =
     (if expired \<or> \<not> dx_read_done st \<or> dx_read_ec st = Some AsioAborted then Some AsioTimedOut
      else dx_read_ec st)"

definition duplex_exchange ::
  "'c duplex_env \<Rightarrow> bool \<Rightarrow> turn list \<Rightarrow> completion list \<Rightarrow> 'c \<Rightarrow> (asio_ec option \<times> 'c duplex) option" where
  "duplex_exchange env eof_after_input turns rest c =
     map_option (\<lambda>(expired, st).
         let st1 = duplex_drain env rest st in (duplex_outcome expired st1, st1))
       (duplex_loop env turns (duplex_start env eof_after_input c))"

subsection \<open>The sequential fallback\<close>

text \<open>
  \<open>write_all\<close>: one result of \<open>write_some\<close> per turn; a write of no bytes without an error counts as
  a broken pipe.
\<close>

fun write_all_loop :: "nat \<Rightarrow> nat \<Rightarrow> (asio_ec option \<times> nat) list \<Rightarrow> (asio_ec option \<times> nat) option" where
  "write_all_loop sent len ws =
     (if sent < len then
        case ws of
          [] \<Rightarrow> None
        | (ec, n) # ws' \<Rightarrow>
            (let ec1 = (if n = 0 \<and> ec = None then Some AsioBrokenPipe else ec)
             in if ec1 = None then write_all_loop (sent + n) len ws' else Some (ec1, sent + n))
      else Some (None, sent))"

declare write_all_loop.simps [simp del]

definition write_all :: "string \<Rightarrow> (asio_ec option \<times> nat) list \<Rightarrow> (asio_ec option \<times> nat) option" where
  "write_all bytes ws = write_all_loop 0 (length bytes) ws"

text \<open>The reads, each with the clock before it.\<close>

fun read_loop ::
  "'c duplex_env \<Rightarrow> (int \<times> asio_ec option \<times> string) list \<Rightarrow> 'c \<Rightarrow> (asio_ec option \<times> 'c) option" where
  "read_loop env [] c = None"
| "read_loop env ((now, ec, bytes) # rs) c =
     (if (\<exists>deadline. de_deadline env = Some deadline \<and> to_ms (de_clock env) (deadline - now) \<le> 0) then
        Some (Some AsioTimedOut, c)
      else
        let (go, c1) = (if bytes = [] then (True, c) else de_on_chunk env bytes c)
        in if \<not> go then Some (None, c1)
           else if ec \<noteq> None then Some (ec, c1)
           else read_loop env rs c1)"

definition exchange_fallback ::
  "'c duplex_env \<Rightarrow> bool \<Rightarrow> (asio_ec option \<times> nat) list \<Rightarrow> (int \<times> asio_ec option \<times> string) list \<Rightarrow> 'c \<Rightarrow>
    (bool \<times> asio_ec option \<times> 'c) option" where
  "exchange_fallback env eof_after_input ws rs c =
     (case write_all (de_input env) ws of
        None \<Rightarrow> None
      | Some (send_ec, _) \<Rightarrow>
          map_option (\<lambda>r. (send_ec = None \<and> eof_after_input, r)) (read_loop env rs c))"

subsection \<open>The epilogue changes nothing\<close>

text \<open>
  Once \<open>stopping\<close> is set no handler delivers or starts anything; what the drained handlers find only
  shows in the counters of the write side.
\<close>

lemma drained_handle:
  assumes "dx_stopping st"
  shows "dx_stopping (run_handler env ev st) \<and> dx_consumer (run_handler env ev st) = dx_consumer st \<and>
    dx_read_done (run_handler env ev st) = dx_read_done st \<and> dx_read_ec (run_handler env ev st) = dx_read_ec st \<and>
    (\<exists>acc. dx_calls (run_handler env ev st) = dx_calls st @ map Accepted acc)"
proof (cases ev)
  case (ReadDone ec bytes)
  with assms show ?thesis by (auto simp: on_read_def Let_def intro!: exI [of _ "[]"])
next
  case (WriteDone ec n)
  with assms show ?thesis
    by (auto simp: on_write_def Let_def intro!: exI [of _ "[take n (case dx_writing st of None \<Rightarrow> [] | Some chunk \<Rightarrow> chunk)]"])
next
  case OtherDone
  with assms show ?thesis by (auto intro!: exI [of _ "[]"])
qed

lemma drained_handles:
  "dx_stopping st \<Longrightarrow>
     dx_stopping (fold (run_handler env) rest st) \<and> dx_consumer (fold (run_handler env) rest st) = dx_consumer st \<and>
     dx_read_done (fold (run_handler env) rest st) = dx_read_done st \<and>
     dx_read_ec (fold (run_handler env) rest st) = dx_read_ec st \<and>
     (\<exists>acc. dx_calls (fold (run_handler env) rest st) = dx_calls st @ map Accepted acc)"
proof (induction rest arbitrary: st)
  case Nil
  then show ?case by (auto intro!: exI [of _ "[]"])
next
  case (Cons ev rest)
  from drained_handle [OF Cons.prems, of env ev] obtain acc where h: "dx_stopping (run_handler env ev st)"
    "dx_consumer (run_handler env ev st) = dx_consumer st" "dx_read_done (run_handler env ev st) = dx_read_done st"
    "dx_read_ec (run_handler env ev st) = dx_read_ec st" "dx_calls (run_handler env ev st) = dx_calls st @ map Accepted acc"
    by blast
  from Cons.IH [OF h(1)] h obtain acc' where
    "dx_calls (fold (run_handler env) rest (run_handler env ev st)) = dx_calls st @ map Accepted (acc @ acc')"
    by auto
  with Cons.IH [OF h(1)] h show ?case by (simp del: map_append) blast
qed

lemma duplex_drain_fixed:
  "dx_consumer (duplex_drain env rest st) = dx_consumer st"
  "dx_read_done (duplex_drain env rest st) = dx_read_done st"
  "dx_read_ec (duplex_drain env rest st) = dx_read_ec st"
  "\<exists>acc. dx_calls (duplex_drain env rest st) = dx_calls st @ Cancelled # map Accepted acc"
  using drained_handles [of "st\<lparr>dx_stopping := True, dx_calls := dx_calls st @ [Cancelled]\<rparr>" env rest]
  by (auto simp: duplex_drain_def)

subsection \<open>What is sent\<close>

definition accepted :: "stream_call list \<Rightarrow> string" where
  "accepted calls = concat (map (\<lambda>call. case call of Accepted bytes \<Rightarrow> bytes | _ \<Rightarrow> []) calls)"

lemma accepted_append [simp]: "accepted (a @ b) = accepted a @ accepted b"
  by (simp add: accepted_def)

lemma accepted_one [simp]:
  "accepted [] = []" "accepted (Accepted bytes # cs) = bytes @ accepted cs" "accepted (ReadStarted # cs) = accepted cs"
  "accepted (WriteStarted bytes # cs) = accepted cs" "accepted (EofSent # cs) = accepted cs"
  "accepted (Cancelled # cs) = accepted cs"
  by (simp_all add: accepted_def)

text \<open>What would still reach the peer.\<close>

fun sending :: "stream_call \<Rightarrow> bool" where
  "sending (WriteStarted _) = True"
| "sending (Accepted _) = True"
| "sending EofSent = True"
| "sending _ = False"

text \<open>A completion that can happen: of an operation in flight, with no more bytes than it offered.\<close>

definition completion_ok :: "'c duplex \<Rightarrow> completion \<Rightarrow> bool" where
  "completion_ok st ev \<longleftrightarrow>
     (case ev of
        ReadDone _ _ \<Rightarrow> dx_reading st
      | WriteDone _ n \<Rightarrow> (\<exists>chunk. dx_writing st = Some chunk \<and> n \<le> length chunk)
      | OtherDone \<Rightarrow> True)"

fun turns_ok :: "'c duplex_env \<Rightarrow> turn list \<Rightarrow> 'c duplex \<Rightarrow> bool" where
  "turns_ok env [] st = True"
| "turns_ok env (t # ts) st =
     (dx_read_done st \<or>
      (case turn_wait env (tu_now t) (settle_eof st) of
         None \<Rightarrow> True
       | Some _ \<Rightarrow>
           (case tu_ran t of
              None \<Rightarrow> True
            | Some did \<Rightarrow> completion_ok (settle_eof st) did \<and> turns_ok env ts (run_handler env did (settle_eof st)))))"

fun drain_ok :: "'c duplex_env \<Rightarrow> completion list \<Rightarrow> 'c duplex \<Rightarrow> bool" where
  "drain_ok env [] st = True"
| "drain_ok env (ev # evs) st = (completion_ok st ev \<and> drain_ok env evs (run_handler env ev st))"

definition duplex_inv :: "'c duplex_env \<Rightarrow> bool \<Rightarrow> 'c duplex \<Rightarrow> bool" where
  "duplex_inv env eof st \<longleftrightarrow>
     dx_sent st \<le> length (de_input env) \<and> accepted (dx_calls st) = take (dx_sent st) (de_input env) \<and>
     (\<forall>chunk. dx_writing st = Some chunk \<longrightarrow> chunk = take kWriteChunk (drop (dx_sent st) (de_input env))) \<and>
     (dx_writes_drained st \<longleftrightarrow> dx_writing st = None) \<and>
     (dx_writes_drained st \<longrightarrow> dx_send_ec st = None \<longrightarrow> dx_stopping st \<or> dx_sent st = length (de_input env)) \<and>
     (dx_send_ec st \<noteq> None \<longrightarrow> \<not> dx_eof_owed st) \<and>
     (EofSent \<in> set (dx_calls st) \<longrightarrow> eof \<and> \<not> dx_eof_owed st \<and> dx_writes_drained st \<and>
        dx_sent st = length (de_input env)) \<and>
     (dx_eof_owed st \<longrightarrow> eof) \<and> nothing_after sending EofSent (dx_calls st)"

lemma duplex_inv_start: "duplex_inv env eof (duplex_start env eof c)"
  by (auto simp: duplex_inv_def duplex_start_def start_read_def start_write_def Let_def)

lemma duplex_inv_settle:
  assumes "duplex_inv env eof st" "\<not> dx_stopping st"
  shows "duplex_inv env eof (settle_eof st)"
proof (cases "dx_writes_drained st \<and> dx_eof_owed st")
  case True
  then have "EofSent \<notin> set (dx_calls st)" using assms(1) by (auto simp: duplex_inv_def)
  with True assms show ?thesis by (auto simp: duplex_inv_def settle_eof_def nothing_after_mark)
next
  case False
  then have "settle_eof st = st" unfolding settle_eof_def by (rule if_not_P)
  with assms(1) show ?thesis by simp
qed

lemma duplex_inv_on_read: "duplex_inv env eof st \<Longrightarrow> duplex_inv env eof (on_read env ec bytes st)"
  by (auto simp: duplex_inv_def on_read_def start_read_def Let_def nothing_after_more split: prod.split)

lemma taken_chunk:
  assumes "chunk = take k (drop i xs)" "n \<le> length chunk"
  shows "take i xs @ take n chunk = take (i + n) xs \<and> (i \<le> length xs \<longrightarrow> i + n \<le> length xs)"
proof -
  from assms have n: "n \<le> k" "n \<le> length xs - i" by simp_all
  then have "take n chunk = take n (drop i xs)" using assms(1) by simp
  then have "take i xs @ take n chunk = take (i + n) xs" by (simp add: take_add)
  moreover have "i + n \<le> length xs" if "i \<le> length xs" using n(2) that by linarith
  ultimately show ?thesis by blast
qed

lemma duplex_inv_on_write:
  assumes inv: "duplex_inv env eof st" and ok: "completion_ok st (WriteDone ec n)"
  shows "duplex_inv env eof (on_write env ec n st)"
proof -
  from ok obtain chunk where w: "dx_writing st = Some chunk" "n \<le> length chunk"
    by (auto simp: completion_ok_def)
  with inv have chunk: "chunk = take kWriteChunk (drop (dx_sent st) (de_input env))" by (simp add: duplex_inv_def)
  from inv w(1) have nd: "\<not> dx_writes_drained st" "EofSent \<notin> set (dx_calls st)" by (auto simp: duplex_inv_def)
  have acc: "accepted (dx_calls st) @ take n chunk = take (dx_sent st + n) (de_input env)"
    "dx_sent st + n \<le> length (de_input env)"
    using taken_chunk [OF chunk w(2)] inv by (simp_all add: duplex_inv_def)
  have full: "\<not> dx_sent st + n < length (de_input env) \<Longrightarrow> dx_sent st + n = length (de_input env)"
    using acc(2) by simp
  show ?thesis
    using inv nd acc full w(1) by (auto simp: duplex_inv_def on_write_def start_write_def Let_def)
qed

lemma duplex_inv_handle: "duplex_inv env eof st \<Longrightarrow> completion_ok st ev \<Longrightarrow> duplex_inv env eof (run_handler env ev st)"
  by (cases ev) (simp_all add: duplex_inv_on_read duplex_inv_on_write)

lemma handle_stopping [simp]: "dx_stopping (run_handler env ev st) = dx_stopping st"
  by (cases ev) (auto simp: on_read_def on_write_def start_read_def start_write_def Let_def split: prod.split)

lemma settle_stopping [simp]: "dx_stopping (settle_eof st) = dx_stopping st"
  by (simp add: settle_eof_def)

lemma duplex_inv_loop:
  "duplex_loop env turns st = Some (expired, st') \<Longrightarrow> turns_ok env turns st \<Longrightarrow> \<not> dx_stopping st \<Longrightarrow>
     duplex_inv env eof st \<Longrightarrow> duplex_inv env eof st' \<and> \<not> dx_stopping st'"
proof (induction env turns st rule: duplex_loop.induct)
  case (1 env turns st)
  show ?case
  proof (cases "dx_read_done st")
    case True
    with "1.prems" show ?thesis by (simp add: duplex_loop.simps)
  next
    case False
    with "1.prems"(1) obtain t ts where ts: "turns = t # ts" by (cases turns) (auto simp: duplex_loop.simps)
    let ?st1 = "settle_eof st"
    have st1: "duplex_inv env eof ?st1" "\<not> dx_stopping ?st1" using duplex_inv_settle "1.prems" by simp_all
    show ?thesis
    proof (cases "turn_wait env (tu_now t) ?st1 = None \<or> tu_ran t = None")
      case True
      with "1.prems"(1) False ts st1 show ?thesis
        by (auto simp: duplex_loop.simps [of env "t # ts"] Let_def split: option.splits)
    next
      case goes: False
      then obtain b did where bd: "turn_wait env (tu_now t) ?st1 = Some b" "tu_ran t = Some did" by auto
      with "1.prems"(2) False ts have ok: "completion_ok ?st1 did" "turns_ok env ts (run_handler env did ?st1)" by simp_all
      from "1.prems"(1) False ts bd have l: "duplex_loop env ts (run_handler env did ?st1) = Some (expired, st')"
        by (simp add: duplex_loop.simps [of env "t # ts"] Let_def)
      have "\<not> dx_stopping (run_handler env did ?st1)" using st1(2) by simp
      from "1.IH" [OF False ts refl bd(1) bd(2) l ok(2) this duplex_inv_handle [OF st1(1) ok(1)]] show ?thesis .
    qed
  qed
qed

lemma duplex_inv_stop:
  "duplex_inv env eof st \<Longrightarrow> \<not> dx_stopping st \<Longrightarrow>
     duplex_inv env eof (st\<lparr>dx_stopping := True, dx_calls := dx_calls st @ [Cancelled]\<rparr>)"
  by (auto simp: duplex_inv_def nothing_after_more)

lemma duplex_inv_drained: "drain_ok env rest st \<Longrightarrow> duplex_inv env eof st \<Longrightarrow> duplex_inv env eof (fold (run_handler env) rest st)"
  by (induction rest arbitrary: st) (auto intro: duplex_inv_handle)

text \<open>Whatever the schedule: the bytes accepted are the start of the input, and the half-close, if any, follows all of it.\<close>

lemma duplex_exchange_inv:
  assumes "duplex_exchange env eof turns rest c = Some (ec, st)" "turns_ok env turns (duplex_start env eof c)"
    and "\<And>expired st0. duplex_loop env turns (duplex_start env eof c) = Some (expired, st0) \<Longrightarrow>
      drain_ok env rest (st0\<lparr>dx_stopping := True, dx_calls := dx_calls st0 @ [Cancelled]\<rparr>)"
  shows "duplex_inv env eof st"
proof -
  from assms(1) obtain expired st0 where l: "duplex_loop env turns (duplex_start env eof c) = Some (expired, st0)"
    and st: "st = duplex_drain env rest st0"
    by (auto simp: duplex_exchange_def Let_def)
  have "\<not> dx_stopping (duplex_start env eof c)"
    by (simp add: duplex_start_def start_read_def start_write_def Let_def)
  from duplex_inv_loop [OF l assms(2) this duplex_inv_start] have
    "duplex_inv env eof st0" "\<not> dx_stopping st0" by simp_all
  from duplex_inv_drained [OF assms(3) [OF l] duplex_inv_stop [OF this]] show ?thesis
    by (simp add: st duplex_drain_def)
qed

subsection \<open>Against the sequential exchange\<close>

text \<open>The results of the reads of a schedule, in order, for an exchange without a deadline.\<close>

definition reads_of :: "turn list \<Rightarrow> (int \<times> asio_ec option \<times> string) list" where
  "reads_of turns =
     concat (map (\<lambda>t. case tu_ran t of Some (ReadDone ec bytes) \<Rightarrow> [(tu_now t, ec, bytes)] | _ \<Rightarrow> []) turns)"

definition plain_turn :: "turn \<Rightarrow> bool" where
  "plain_turn t \<longleftrightarrow> tu_ran t \<noteq> None \<and> tu_ran t \<noteq> Some (ReadDone None [])"

lemma handle_other:
  "(\<forall>ec bytes. ev \<noteq> ReadDone ec bytes) \<Longrightarrow>
     dx_consumer (run_handler env ev st) = dx_consumer st \<and> dx_read_done (run_handler env ev st) = dx_read_done st \<and>
     dx_read_ec (run_handler env ev st) = dx_read_ec st"
  by (cases ev) (auto simp: on_write_def start_write_def Let_def)

lemma settle_eof_reads [simp]:
  "dx_consumer (settle_eof st) = dx_consumer st" "dx_read_done (settle_eof st) = dx_read_done st"
  "dx_read_ec (settle_eof st) = dx_read_ec st"
  by (simp_all add: settle_eof_def)

lemma duplex_loop_reads:
  "duplex_loop env turns st = Some (expired, st') \<Longrightarrow> de_deadline env = None \<Longrightarrow> list_all plain_turn turns \<Longrightarrow>
     \<not> dx_stopping st \<Longrightarrow> \<not> dx_read_done st \<Longrightarrow> dx_read_ec st = None \<Longrightarrow>
     \<not> expired \<and> dx_read_done st' \<and>
     read_loop env (reads_of turns) (dx_consumer st) = Some (dx_read_ec st', dx_consumer st')"
proof (induction env turns st rule: duplex_loop.induct)
  case (1 env turns st)
  note nd = "1.prems"(5)
  with "1.prems"(1) obtain t ts where ts: "turns = t # ts" by (cases turns) (auto simp: duplex_loop.simps)
  let ?st1 = "settle_eof st"
  from "1.prems"(3) ts obtain did where did: "tu_ran t = Some did" "did \<noteq> ReadDone None []"
    by (auto simp: plain_turn_def)
  obtain b where b: "turn_wait env (tu_now t) ?st1 = Some b" using "1.prems"(2) by (simp add: turn_wait_def Let_def)
  from "1.prems"(1) nd ts b did have l: "duplex_loop env ts (run_handler env did ?st1) = Some (expired, st')"
    by (simp add: duplex_loop.simps [of env "t # ts"] Let_def)
  note IH = "1.IH" [OF nd ts refl b did(1) l "1.prems"(2)]
  have tsp: "list_all plain_turn ts" and stop: "\<not> dx_stopping (run_handler env did ?st1)"
    using "1.prems" ts by simp_all
  show ?case
  proof (cases "\<exists>ec bytes. did = ReadDone ec bytes")
    case False
    then have "dx_consumer (run_handler env did ?st1) = dx_consumer st \<and>
        \<not> dx_read_done (run_handler env did ?st1) \<and> dx_read_ec (run_handler env did ?st1) = None"
      using handle_other [of did env ?st1] "1.prems" by auto
    moreover have "reads_of turns = reads_of ts"
      using False did(1) ts by (cases did) (auto simp: reads_of_def)
    ultimately show ?thesis using IH [OF tsp stop] by simp
  next
    case True
    then obtain ec bytes where r: "did = ReadDone ec bytes" by blast
    with did(2) have ne: "bytes = [] \<longrightarrow> ec \<noteq> None" by auto
    have rd: "reads_of turns = (tu_now t, ec, bytes) # reads_of ts" using r did(1) ts by (simp add: reads_of_def)
    obtain go c1 where g: "(if bytes = [] then (True, dx_consumer st) else de_on_chunk env bytes (dx_consumer st)) = (go, c1)"
      by (cases "if bytes = [] then (True, dx_consumer st) else de_on_chunk env bytes (dx_consumer st)")
    show ?thesis
    proof (cases "go \<and> ec = None")
      case True
      with r g ne "1.prems" have h: "\<not> dx_read_done (run_handler env did ?st1)" "dx_read_ec (run_handler env did ?st1) = None"
        "dx_consumer (run_handler env did ?st1) = c1"
        by (auto simp: on_read_def start_read_def Let_def)
      from IH [OF tsp stop h(1,2)] h(3) rd True g "1.prems"(2) show ?thesis by simp
    next
      case False
      with r g ne "1.prems" have h: "dx_read_done (run_handler env did ?st1)" "dx_consumer (run_handler env did ?st1) = c1"
        "dx_read_ec (run_handler env did ?st1) = (if go then ec else None)"
        by (auto simp: on_read_def start_read_def Let_def)
      from l h(1) have "expired = False" "st' = run_handler env did ?st1" by (simp_all add: duplex_loop.simps)
      with h rd False g "1.prems"(2) show ?thesis by auto
    qed
  qed
qed

text \<open>
  Without a deadline, and with reads that give bytes or an error, every interleaving ends as the
  sequential exchange does on the same reads: same error, same chunks delivered.
\<close>

lemma duplex_as_sequential:
  assumes "duplex_exchange env eof turns rest c = Some (ec, st)" "de_deadline env = None"
    and "list_all plain_turn turns"
  shows "\<exists>r. read_loop env (reads_of turns) c = Some (r, dx_consumer st) \<and>
    ec = (if r = Some AsioAborted then Some AsioTimedOut else r)"
proof -
  let ?st = "duplex_start env eof c"
  have s: "\<not> dx_stopping ?st" "\<not> dx_read_done ?st" "dx_read_ec ?st = None" "dx_consumer ?st = c"
    by (simp_all add: duplex_start_def start_read_def start_write_def Let_def)
  from assms(1) obtain expired st0 where l: "duplex_loop env turns ?st = Some (expired, st0)"
    and e: "st = duplex_drain env rest st0" "ec = duplex_outcome expired st"
    by (auto simp: duplex_exchange_def Let_def)
  from duplex_loop_reads [OF l assms(2,3) s(1,2,3)] s(4) have
    "\<not> expired" "dx_read_done st0" "read_loop env (reads_of turns) c = Some (dx_read_ec st0, dx_consumer st0)"
    by simp_all
  then show ?thesis by (simp add: e duplex_outcome_def duplex_drain_fixed)
qed

text \<open>The outcome does not depend on what the epilogue drains.\<close>

lemma duplex_drain_irrelevant:
  "map_option (\<lambda>(ec, st). (ec, dx_consumer st)) (duplex_exchange env eof turns rest c) =
     map_option (\<lambda>(ec, st). (ec, dx_consumer st)) (duplex_exchange env eof turns rest' c)"
  by (cases "duplex_loop env turns (duplex_start env eof c)")
    (auto simp: duplex_exchange_def Let_def duplex_outcome_def duplex_drain_fixed)

end
