(* ===== verification/Transports.thy ===== *)
theory Transports
  imports Duplex Client
begin

section \<open>Transports\<close>

text \<open>
  \<open>src/AsioRun.hpp\<close> and the transports of \<open>src/docker/Transport.cpp\<close> with \<open>src/docker/Transport.hpp\<close>:
  bounded operations and connection establishment under one budget; what an open transport does is in
  \<open>TransportOps\<close>.  An asynchronous operation of the I/O library is a \<open>pending_op\<close>: what
  running the event loop for a while gives, and what draining it after a cancellation gives.
\<close>

subsection \<open>One bounded operation\<close>

record ('w, 'a) pending_op =
  po_run :: "int option \<Rightarrow> 'w \<Rightarrow> (asio_ec option \<times> 'a) option \<times> 'w"
  po_drain :: "'w \<Rightarrow> (asio_ec option \<times> 'a) option \<times> 'w"

definition run_pending ::
  "('w, 'a) pending_op \<Rightarrow> int option \<Rightarrow> ('w \<Rightarrow> 'w) \<Rightarrow> 'w \<Rightarrow> (asio_ec option \<times> 'a option) \<times> 'w" where
  "run_pending oper timeout cancel w =
     (case po_run oper timeout w of
        (Some (ec, x), w1) \<Rightarrow> ((ec, Some x), w1)
      | (None, w1) \<Rightarrow>
          (if timeout = None then ((None, None), w1)
           else
             case po_drain oper (cancel w1) of
               (None, w2) \<Rightarrow> ((Some AsioTimedOut, None), w2)
             | (Some (ec, x), w2) \<Rightarrow>
                 ((if ec = Some AsioAborted then Some AsioTimedOut else ec, Some x), w2)))"

definition remaining :: "clock \<Rightarrow> int \<Rightarrow> int \<Rightarrow> int" where
  "remaining clk deadline now = (let left = to_ms clk (deadline - now) in if 0 < left then left else 0)"

subsection \<open>What the I/O library gives\<close>

record 'w asio_io =
  as_clock :: clock
  as_now :: "'w \<Rightarrow> int"
  as_message :: "asio_ec \<Rightarrow> string"
  as_literal :: "string \<Rightarrow> bool"
  as_resolve :: "string \<Rightarrow> nat \<Rightarrow> ('w, string list) pending_op"
  as_cancel_resolve :: "'w \<Rightarrow> 'w"
  as_socket :: "'w \<Rightarrow> nat \<times> 'w"
  as_connect :: "nat \<Rightarrow> string list \<Rightarrow> nat \<Rightarrow> ('w, unit) pending_op"
  as_local_connect :: "nat \<Rightarrow> string \<Rightarrow> ('w, unit) pending_op"
  as_read :: "nat \<Rightarrow> nat \<Rightarrow> ('w, string) pending_op"
  as_write :: "nat \<Rightarrow> string \<Rightarrow> ('w, nat) pending_op"
  as_cancel :: "nat \<Rightarrow> 'w \<Rightarrow> 'w"
  as_shutdown_send :: "nat \<Rightarrow> 'w \<Rightarrow> 'w"
  as_shutdown_both :: "nat \<Rightarrow> 'w \<Rightarrow> 'w"
  as_close :: "nat \<Rightarrow> 'w \<Rightarrow> 'w"
  as_file_exists :: "string \<Rightarrow> 'w \<Rightarrow> bool"
  as_load_ca :: "string \<Rightarrow> 'w \<Rightarrow> asio_ec option \<times> 'w"
  as_use_client :: "string \<Rightarrow> string \<Rightarrow> 'w \<Rightarrow> string option \<times> 'w"
  as_set_verify :: "bool \<Rightarrow> 'w \<Rightarrow> 'w"
  as_verify_host :: "nat \<Rightarrow> string \<Rightarrow> 'w \<Rightarrow> 'w"
  as_set_sni :: "nat \<Rightarrow> string \<Rightarrow> 'w \<Rightarrow> bool \<times> 'w"
  as_handshake :: "nat \<Rightarrow> ('w, unit) pending_op"
  as_tls_shutdown :: "nat \<Rightarrow> ('w, unit) pending_op"
  as_open_pipe :: "string \<Rightarrow> 'w \<Rightarrow> (nat + nat) \<times> 'w"
  as_wait_pipe :: "string \<Rightarrow> int \<Rightarrow> 'w \<Rightarrow> 'w"
  as_assign :: "nat \<Rightarrow> 'w \<Rightarrow> asio_ec option \<times> 'w"
  as_message_type :: "nat \<Rightarrow> 'w \<Rightarrow> bool"
  as_flush :: "nat \<Rightarrow> 'w \<Rightarrow> 'w"
  as_zero_write :: "nat \<Rightarrow> 'w \<Rightarrow> (nat + ('w, unit) pending_op) \<times> 'w"
  as_system_error :: "nat \<Rightarrow> asio_ec"

definition throw_transport_error :: "string \<Rightarrow> asio_ec \<Rightarrow> exn" where
  "throw_transport_error message ec =
     (if ec = AsioTimedOut then TransportTimeoutError message [] else DockerError message None [])"

definition time_left :: "'w asio_io \<Rightarrow> int \<Rightarrow> 'w \<Rightarrow> int" where
  "time_left io deadline w = remaining (as_clock io) deadline (as_now io w)"

definition connect_deadline :: "'w asio_io \<Rightarrow> TransportTimeouts \<Rightarrow> 'w \<Rightarrow> int" where
  "connect_deadline io timeouts w = saturated_add (as_clock io) (as_now io w) (tt_connect timeouts)"

definition resolve_endpoints :: "'w asio_io \<Rightarrow> string \<Rightarrow> nat \<Rightarrow> int \<Rightarrow> ('w, string list) act" where
  "resolve_endpoints io host port deadline w =
     (if as_literal io host then (Inr [host], w)
      else
        case run_pending (as_resolve io host port) (Some (time_left io deadline w)) (as_cancel_resolve io) w of
          ((Some ec, _), w1) \<Rightarrow>
            (Inl (throw_transport_error (''Cannot resolve Docker host '' @ quoted host @ '': '' @ as_message io ec) ec), w1)
        | ((None, endpoints), w1) \<Rightarrow> (Inr (case endpoints of None \<Rightarrow> [] | Some es \<Rightarrow> es), w1))"

subsection \<open>The transports\<close>

datatype transport_kind = TcpKind | TlsKind | UnixKind | PipeKind bool

record transport =
  tr_kind :: transport_kind
  tr_handle :: nat
  tr_io_timeout :: "int option"

definition cannot_connect :: "'w asio_io \<Rightarrow> string \<Rightarrow> nat \<Rightarrow> asio_ec \<Rightarrow> exn" where
  "cannot_connect io host port ec =
     throw_transport_error
       (''Cannot connect to Docker at '' @ host @ '':'' @ to_dec port @ '': '' @ as_message io ec) ec"

text \<open>
  The connect of TCP and of TLS: an expired budget closes the socket, as a cancelled attempt would
  move on to the next endpoint.  Leaving by an exception destroys the socket.
\<close>

definition dial :: "'w asio_io \<Rightarrow> nat \<Rightarrow> string \<Rightarrow> nat \<Rightarrow> int \<Rightarrow> ('w, unit) act" where
  "dial io sock host port deadline =
     andThen (resolve_endpoints io host port deadline) (\<lambda>endpoints w.
       case run_pending (as_connect io sock endpoints port) (Some (time_left io deadline w)) (as_close io sock) w of
         ((Some ec, _), w1) \<Rightarrow> (Inl (cannot_connect io host port ec), w1)
       | ((None, _), w1) \<Rightarrow> (Inr (), w1))"

definition closing_on_error :: "'w asio_io \<Rightarrow> nat \<Rightarrow> ('w, 'a) act \<Rightarrow> ('w, 'a) act" where
  "closing_on_error io sock m = catching m (\<lambda>e w. (Inl e, as_close io sock w))"

definition tcp_connect :: "'w asio_io \<Rightarrow> string \<Rightarrow> nat \<Rightarrow> TransportTimeouts \<Rightarrow> ('w, transport) act" where
  "tcp_connect io host port timeouts w =
     (let (sock, w1) = as_socket io w
      in closing_on_error io sock
           (andThen (dial io sock host port (connect_deadline io timeouts w1)) (\<lambda>_.
            ret \<lparr>tr_kind = TcpKind, tr_handle = sock, tr_io_timeout = tt_io timeouts\<rparr>)) w1)"

definition unix_connect :: "'w asio_io \<Rightarrow> string \<Rightarrow> TransportTimeouts \<Rightarrow> ('w, transport) act" where
  "unix_connect io path timeouts w =
     (let (sock, w1) = as_socket io w
      in closing_on_error io sock
           (\<lambda>w. case run_pending (as_local_connect io sock path) (Some (tt_connect timeouts)) (as_cancel io sock) w of
              ((Some ec, _), w2) \<Rightarrow>
                (Inl (throw_transport_error (''Cannot connect to Docker unix socket '' @ quoted path @ '': '' @
                        as_message io ec @ ''. Is the Docker daemon running?'') ec), w2)
            | ((None, _), w2) \<Rightarrow>
                (Inr \<lparr>tr_kind = UnixKind, tr_handle = sock, tr_io_timeout = tt_io timeouts\<rparr>, w2)) w1)"

subsection \<open>TLS\<close>

definition ca_not_loaded :: "'w asio_io \<Rightarrow> string \<Rightarrow> asio_ec \<Rightarrow> exn" where
  "ca_not_loaded io ca ec =
     DockerError (''Cannot load Docker TLS CA certificate '' @ quoted ca @ '': '' @ as_message io ec) None []"

definition client_not_loaded :: "string \<Rightarrow> string \<Rightarrow> string \<Rightarrow> exn" where
  "client_not_loaded cert key what =
     DockerError (''Cannot load Docker TLS client certificate/key ('' @ quoted cert @ '', '' @ quoted key @
       ''): '' @ what) None []"

definition make_context :: "'w asio_io \<Rightarrow> TlsPlan \<Rightarrow> ('w, unit) act" where
  "make_context io plan =
     andThen (modify (as_set_verify io (tp_verify plan))) (\<lambda>_.
     andThen (\<lambda>w.
         if tp_verify plan \<and> tp_ca_cert plan \<noteq> [] \<and> as_file_exists io (tp_ca_cert plan) w then
           case as_load_ca io (tp_ca_cert plan) w of
             (Some ec, w1) \<Rightarrow> (Inl (ca_not_loaded io (tp_ca_cert plan) ec), w1)
           | (None, w1) \<Rightarrow> (Inr (), w1)
         else (Inr (), w)) (\<lambda>_ w.
       if tp_client_cert plan \<noteq> [] \<and> tp_client_key plan \<noteq> [] \<and> as_file_exists io (tp_client_cert plan) w \<and>
          as_file_exists io (tp_client_key plan) w then
         case as_use_client io (tp_client_cert plan) (tp_client_key plan) w of
           (Some what, w1) \<Rightarrow> (Inl (client_not_loaded (tp_client_cert plan) (tp_client_key plan) what), w1)
         | (None, w1) \<Rightarrow> (Inr (), w1)
       else (Inr (), w)))"

definition tls_handshake :: "'w asio_io \<Rightarrow> nat \<Rightarrow> string \<Rightarrow> nat \<Rightarrow> int \<Rightarrow> ('w, unit) act" where
  "tls_handshake io sock host port deadline w =
     (case run_pending (as_handshake io sock) (Some (time_left io deadline w)) (as_cancel io sock) w of
        ((Some ec, _), w1) \<Rightarrow>
          (Inl (throw_transport_error
             (''TLS handshake with '' @ host @ '':'' @ to_dec port @ '' failed: '' @ as_message io ec) ec), w1)
      | ((None, _), w1) \<Rightarrow> (Inr (), w1))"

definition tls_connect ::
  "'w asio_io \<Rightarrow> string \<Rightarrow> nat \<Rightarrow> TransportTimeouts \<Rightarrow> TlsPlan \<Rightarrow> ('w, transport) act" where
  "tls_connect io host port timeouts plan =
     andThen (make_context io plan) (\<lambda>_ w.
       let (sock, w1) = as_socket io w in
       closing_on_error io sock
         (andThen (only_if (tp_verify plan) (modify (as_verify_host io sock host))) (\<lambda>_ w.
            let deadline = connect_deadline io timeouts w in
            andThen (dial io sock host port deadline) (\<lambda>_.
            andThen (\<lambda>w. case as_set_sni io sock host w of
                (True, w2) \<Rightarrow> (Inr (), w2)
              | (False, w2) \<Rightarrow> (Inl (DockerError (''Cannot set TLS SNI host name for '' @ host) None []), w2)) (\<lambda>_.
            andThen (tls_handshake io sock host port deadline) (\<lambda>_.
              ret \<lparr>tr_kind = TlsKind, tr_handle = sock, tr_io_timeout = tt_io timeouts\<rparr>))) w)) w1)"

subsection \<open>Named pipes\<close>

definition to_windows_pipe_path :: "string \<Rightarrow> string" where
  "to_windows_pipe_path path = map (\<lambda>c. if c = CHR ''/'' then CHR 0x5C else c) path"

definition kPipeBusy :: nat where
  "kPipeBusy = 231"

text \<open>\<open>CreateFileA\<close> gives a handle or the error number; a busy pipe is tried again within the budget.\<close>

fun open_pipe :: "nat \<Rightarrow> 'w asio_io \<Rightarrow> string \<Rightarrow> int \<Rightarrow> ('w, nat) run" where
  "open_pipe 0 io path deadline w = None"
| "open_pipe (Suc n) io path deadline w =
     (case as_open_pipe io path w of
        (Inr h, w1) \<Rightarrow> Some (Inr h, w1)
      | (Inl err, w1) \<Rightarrow>
          (if err \<noteq> kPipeBusy then
             Some (Inl (DockerError (''Cannot open Docker named pipe '' @ quoted path @ '' (Win32 error '' @
               to_dec err @ ''). Is Docker Desktop running?'') None []), w1)
           else if deadline \<le> as_now io w1 then
             Some (Inl (TransportTimeoutError (''Docker named pipe is busy: '' @ path @
               '' (connect budget exhausted)'') []), w1)
           else open_pipe n io path deadline (as_wait_pipe io path (max 1 (time_left io deadline w1)) w1)))"

definition pipe_connect :: "nat \<Rightarrow> 'w asio_io \<Rightarrow> string \<Rightarrow> TransportTimeouts \<Rightarrow> ('w, transport) run" where
  "pipe_connect fuel io pipe_path timeouts w =
     runThen (open_pipe fuel io (to_windows_pipe_path pipe_path) (connect_deadline io timeouts w)) (\<lambda>h w1.
       Some (case as_assign io h w1 of
               (Some ec, w2) \<Rightarrow>
                 (Inl (DockerError (''Cannot bind Docker named pipe handle: '' @ as_message io ec) None []),
                  as_close io h w2)
             | (None, w2) \<Rightarrow>
                 (Inr \<lparr>tr_kind = PipeKind (as_message_type io h w2), tr_handle = h,
                       tr_io_timeout = tt_io timeouts\<rparr>, w2))) w"

subsection \<open>Dispatch\<close>

text \<open>What the build supports.\<close>

record platform =
  pf_local_sockets :: bool
  pf_windows :: bool
  pf_tls :: bool

definition connect_transport ::
  "nat \<Rightarrow> platform \<Rightarrow> 'w asio_io \<Rightarrow> (TlsMaterials option \<Rightarrow> TlsPlan) \<Rightarrow> DockerHost \<Rightarrow> TransportTimeouts \<Rightarrow>
    ('w, transport) run" where
  "connect_transport fuel pf io plan host timeouts =
     (case dh_scheme host of
        Unix \<Rightarrow>
          (if pf_local_sockets pf then runs (unix_connect io (dh_path host) timeouts)
           else runs (throw (DockerError ''Unix socket transport is not supported on this platform'' None [])))
      | NamedPipe \<Rightarrow>
          (if pf_windows pf then pipe_connect fuel io (dh_path host) timeouts
           else runs (throw (DockerError ''Named pipe transport is Windows-only'' None [])))
      | Tcp \<Rightarrow> runs (tcp_connect io (dh_hostname host) (dh_port host) timeouts)
      | Https \<Rightarrow>
          (if pf_tls pf then
             runs (tls_connect io (dh_hostname host) (dh_port host) timeouts (plan (dh_tls_materials host)))
           else
             runs (throw (DockerError (''Docker host '' @ quoted (dh_url host) @
               '' needs TLS, but this build of testcontainers-cpp has it disabled '' @
               ''(CMake option TC_TLS=OFF / conan option tls=False)'') None []))))"

subsection \<open>Bounded operations keep their promise\<close>

text \<open>
  Without an error the operation completed; within the budget its own result stands; an expiry is
  reported as one unless the operation ended by itself while it was drained.
\<close>

lemma run_pending_completed:
  assumes "run_pending oper (Some timeout) cancel w = ((None, x), w')"
  shows "\<exists>y. x = Some y \<and>
    (po_run oper (Some timeout) w = (Some (None, y), w') \<or>
     (\<exists>w1. po_run oper (Some timeout) w = (None, w1) \<and> po_drain oper (cancel w1) = (Some (None, y), w')))"
  using assms by (auto simp: run_pending_def split: prod.splits option.splits if_splits)

lemma run_pending_expired:
  assumes "po_run oper (Some timeout) w = (None, w1)"
    and "po_drain oper (cancel w1) = (r, w2)" "r = None \<or> r = Some (Some AsioAborted, y)"
  shows "fst (fst (run_pending oper (Some timeout) cancel w)) = Some AsioTimedOut \<and>
    snd (run_pending oper (Some timeout) cancel w) = w2"
  using assms by (auto simp: run_pending_def)

lemma run_pending_never_aborted:
  assumes "\<And>w1 x w2. po_run oper (Some timeout) w \<noteq> (Some (Some AsioAborted, x), w2)"
  shows "fst (fst (run_pending oper (Some timeout) cancel w)) \<noteq> Some AsioAborted"
  using assms by (auto simp: run_pending_def split: prod.splits option.splits)

lemma remaining_nonneg [simp]: "0 \<le> remaining clk deadline now"
  by (simp add: remaining_def Let_def)

lemma remaining_spent:
  assumes "clock_ok clk" and le: "deadline \<le> now"
  shows "remaining clk deadline now = 0"
proof -
  have "to_ms clk (deadline - now) \<le> 0"
  proof (cases "deadline = now")
    case False
    with le have "\<not> 0 \<le> deadline - now" by simp
    moreover have "0 \<le> (- (deadline - now)) div ticks_per_ms clk"
      using assms by (simp add: pos_imp_zdiv_nonneg_iff clock_ok_def)
    ultimately show ?thesis by (simp add: to_ms_def)
  qed (simp add: to_ms_def)
  then show ?thesis by (simp add: remaining_def Let_def)
qed

subsection \<open>Connecting fails with errors of Docker only\<close>

text \<open>An error of Docker's family with no answer of the daemon behind it.\<close>

fun unanswered :: "exn \<Rightarrow> bool" where
  "unanswered (DockerError _ status _) = (status = None)"
| "unanswered (TransportTimeoutError _ _) = True"
| "unanswered _ = False"

lemma unanswered_docker: "unanswered e \<Longrightarrow> is_docker_error e \<and> exn_status e = None"
  by (cases e) simp_all

definition docker_errors :: "('w, 'a) act \<Rightarrow> bool" where
  "docker_errors m \<longleftrightarrow> (\<forall>w e w'. m w = (Inl e, w') \<longrightarrow> unanswered e)"

named_theorems docker_failure

lemma throw_transport_error_docker [simp]: "unanswered (throw_transport_error m ec)"
  by (simp add: throw_transport_error_def)

lemma docker_errors_andThen [docker_failure]:
  "docker_errors m \<Longrightarrow> (\<And>x. docker_errors (f x)) \<Longrightarrow> docker_errors (andThen m f)"
  by (fastforce simp: docker_errors_def andThen_Inl)

lemma docker_errors_closing [docker_failure]: "docker_errors m \<Longrightarrow> docker_errors (closing_on_error io sock m)"
  by (auto simp: docker_errors_def closing_on_error_def catching_def split: prod.splits sum.splits)

lemma docker_errors_steps [docker_failure]:
  "docker_errors (ret x)" "docker_errors (modify f)" "docker_errors (only_if b (modify f))"
  by (simp_all add: docker_errors_def ret_def modify_def only_if_def)

lemma docker_errors_dial [docker_failure]: "docker_errors (dial io sock host port deadline)"
  unfolding dial_def
  by (rule docker_failure)
    (auto simp: docker_errors_def resolve_endpoints_def cannot_connect_def split: prod.splits option.splits if_splits)

lemma docker_errors_context [docker_failure]: "docker_errors (make_context io plan)"
  unfolding make_context_def
  by (intro docker_failure; simp add: docker_errors_def ca_not_loaded_def client_not_loaded_def split: prod.splits option.splits)

lemma docker_errors_handshake [docker_failure]: "docker_errors (tls_handshake io sock host port deadline)"
  by (simp add: docker_errors_def tls_handshake_def split: prod.splits option.splits)

lemma docker_errors_at: "docker_errors m \<Longrightarrow> m w = (Inl e, w') \<Longrightarrow> unanswered e"
  unfolding docker_errors_def by blast

lemma tcp_connect_error: "docker_errors (tcp_connect io host port timeouts)"
proof -
  have c: "docker_errors (closing_on_error io sock (andThen (dial io sock host port d) (\<lambda>_. ret t)))" for sock d t
    by (intro docker_failure)
  show ?thesis unfolding docker_errors_def tcp_connect_def Let_def
    using docker_errors_at [OF c] by (auto split: prod.splits)
qed

lemma unix_connect_error: "docker_errors (unix_connect io path timeouts)"
  by (auto simp: docker_errors_def unix_connect_def closing_on_error_def catching_def
      split: prod.splits sum.splits option.splits)

lemma tls_connect_error: "docker_errors (tls_connect io host port timeouts plan)"
proof -
  define sni where "sni sock = (\<lambda>w. case as_set_sni io sock host w of
      (True, w2) \<Rightarrow> (Inr (), w2)
    | (False, w2) \<Rightarrow> (Inl (DockerError (''Cannot set TLS SNI host name for '' @ host) None []), w2))" for sock
  have sni [docker_failure]: "docker_errors (sni sock)" for sock
    by (auto simp: docker_errors_def sni_def split: prod.splits bool.splits)
  have rest: "docker_errors (\<lambda>w. let deadline = connect_deadline io timeouts w in
      andThen (dial io sock host port deadline) (\<lambda>_. andThen (sni sock) (\<lambda>_.
        andThen (tls_handshake io sock host port deadline) (\<lambda>_. ret t))) w)" for sock t
  proof -
    have d: "docker_errors (andThen (dial io sock host port deadline) (\<lambda>_. andThen (sni sock) (\<lambda>_.
        andThen (tls_handshake io sock host port deadline) (\<lambda>_. ret t))))" for deadline
      by (intro docker_failure sni)
    show ?thesis unfolding docker_errors_def Let_def using docker_errors_at [OF d] by blast
  qed
  have body: "docker_errors (closing_on_error io sock
      (andThen (only_if (tp_verify plan) (modify (as_verify_host io sock host))) (\<lambda>_ w.
         let deadline = connect_deadline io timeouts w in
         andThen (dial io sock host port deadline) (\<lambda>_. andThen (sni sock) (\<lambda>_.
           andThen (tls_handshake io sock host port deadline) (\<lambda>_. ret t))) w)))" for sock t
    by (intro docker_failure rest)
  show ?thesis unfolding tls_connect_def sni_def [symmetric]
    by (rule docker_failure, rule docker_failure)
      (unfold docker_errors_def, use docker_errors_at [OF body] in \<open>auto simp: Let_def split: prod.splits\<close>)
qed

lemma open_pipe_error: "open_pipe n io path deadline w = Some (Inl e, w') \<Longrightarrow> unanswered e"
  by (induction n arbitrary: w) (auto split: prod.splits sum.splits if_splits)

lemma pipe_connect_error:
  assumes "pipe_connect fuel io path timeouts w = Some (Inl e, w')"
  shows "unanswered e"
proof (cases "open_pipe fuel io (to_windows_pipe_path path) (connect_deadline io timeouts w) w")
  case None
  with assms show ?thesis by (simp add: pipe_connect_def runThen_def)
next
  case (Some o1)
  obtain r w1 where o1: "o1 = (r, w1)" by (cases o1)
  show ?thesis
  proof (cases r)
    case (Inl d)
    with assms Some o1 show ?thesis by (auto simp: pipe_connect_def runThen_def dest: open_pipe_error)
  next
    case (Inr h)
    with assms Some o1 show ?thesis
      by (cases "as_assign io h w1"; cases "fst (as_assign io h w1)") (auto simp: pipe_connect_def runThen_def)
  qed
qed

lemma connect_transport_error:
  assumes "connect_transport fuel pf io plan host timeouts w = Some (Inl e, w')"
  shows "unanswered e"
  using assms
  by (cases "dh_scheme host")
    (auto simp: connect_transport_def runs_def throw_def pipe_connect_error split: if_splits
      dest: docker_errors_at [OF unix_connect_error] docker_errors_at [OF tcp_connect_error]
        docker_errors_at [OF tls_connect_error])

text \<open>An attempt that fails leaves no socket: closing it is the last thing that happens.\<close>

lemma closing_on_error_closed:
  "closing_on_error io sock m w = (Inl e, w') \<Longrightarrow> \<exists>w1. m w = (Inl e, w1) \<and> w' = as_close io sock w1"
  by (auto simp: closing_on_error_def catching_def split: prod.splits sum.splits)

lemma tcp_connect_closes:
  assumes "tcp_connect io host port timeouts w = (Inl e, w')"
  shows "\<exists>w1. w' = as_close io (fst (as_socket io w)) w1"
  using assms by (auto simp: tcp_connect_def Let_def split: prod.splits dest!: closing_on_error_closed)

lemma unix_connect_closes:
  assumes "unix_connect io path timeouts w = (Inl e, w')"
  shows "\<exists>w1. w' = as_close io (fst (as_socket io w)) w1"
  using assms by (auto simp: unix_connect_def Let_def split: prod.splits dest!: closing_on_error_closed)

text \<open>TLS: a context that cannot be set up opens no socket.\<close>

lemma tls_context_first:
  "make_context io plan w = (Inl e, w') \<Longrightarrow> tls_connect io host port timeouts plan w = (Inl e, w')"
  by (simp add: tls_connect_def)

subsection \<open>A budget that is spent\<close>

lemma dial_expired:
  assumes "as_literal io host" "po_run (as_connect io sock [host] port) (Some (time_left io deadline w)) w = (None, w1)"
    and "po_drain (as_connect io sock [host] port) (as_close io sock w1) = (r, w2)"
    and "r = None \<or> r = Some (Some AsioAborted, y)"
  shows "dial io sock host port deadline w =
    (Inl (TransportTimeoutError (''Cannot connect to Docker at '' @ host @ '':'' @ to_dec port @ '': '' @
       as_message io AsioTimedOut) []), w2)"
  using assms by (auto simp: dial_def resolve_endpoints_def run_pending_def cannot_connect_def throw_transport_error_def)

text \<open>The busy pipe: every round lets time pass, so the loop ends with the budget.\<close>

lemma open_pipe_returns:
  assumes steady: "\<And>w. as_now io w \<le> as_now io (snd (as_open_pipe io path w))"
    and waits: "\<And>w ms. 1 \<le> ms \<Longrightarrow> as_now io w < as_now io (as_wait_pipe io path ms w)"
  shows "deadline - as_now io w < int n \<Longrightarrow> \<exists>r w'. open_pipe (Suc n) io path deadline w = Some (r, w')"
proof (induction n arbitrary: w)
  case 0
  with steady [of w] show ?case by (auto split: prod.splits sum.splits)
next
  case (Suc n)
  obtain r w1 where o1: "as_open_pipe io path w = (r, w1)" by (cases "as_open_pipe io path w")
  show ?case
  proof (cases "\<exists>err. r = Inl err \<and> err = kPipeBusy \<and> \<not> deadline \<le> as_now io w1")
    case False
    then show ?thesis unfolding open_pipe.simps(2) [of "Suc n"] o1 by (auto split: sum.splits)
  next
    case True
    have "deadline - as_now io (as_wait_pipe io path (max 1 (time_left io deadline w1)) w1) < int n"
      using Suc.prems steady [of w] waits [of "max 1 (time_left io deadline w1)" w1] o1 by auto
    from Suc.IH [OF this] True o1 show ?thesis by (auto simp: open_pipe.simps(2) [of "Suc n"])
  qed
qed

end
