(* ===== verification/TransportOps.thy ===== *)
theory TransportOps
  imports Transports
begin

section \<open>Operations of an open transport\<close>

text \<open>
  The virtual functions of \<open>ITransport\<close> (\<open>src/docker/Transport.hpp\<close>) as the four classes of
  \<open>src/docker/Transport.cpp\<close> override them, the shared \<open>write_all\<close> and sequential \<open>exchange\<close> of the
  base class, and the adapter through which the HTTP library uses a transport.
\<close>

subsection \<open>Bounded reads and writes\<close>

definition set_io_timeout :: "int option \<Rightarrow> transport \<Rightarrow> transport" where
  "set_io_timeout timeout t = t\<lparr>tr_io_timeout := timeout\<rparr>"

text \<open>What the operation reports, \<open>nothing\<close> when its handler never ran.\<close>

definition bounded_io ::
  "('w, 'a) pending_op \<Rightarrow> int option \<Rightarrow> 'a \<Rightarrow> ('w \<Rightarrow> 'w) \<Rightarrow> 'w \<Rightarrow> (asio_ec option \<times> 'a) \<times> 'w" where
  "bounded_io oper timeout nothing cancel w =
     (case run_pending oper timeout cancel w of
        ((ec, got), w1) \<Rightarrow> ((ec, (case got of None \<Rightarrow> nothing | Some x \<Rightarrow> x)), w1))"

definition bounded_read_some ::
  "'w asio_io \<Rightarrow> nat \<Rightarrow> int option \<Rightarrow> nat \<Rightarrow> ('w \<Rightarrow> 'w) \<Rightarrow> 'w \<Rightarrow> (asio_ec option \<times> string) \<times> 'w" where
  "bounded_read_some io h timeout room cancel = bounded_io (as_read io h room) timeout [] cancel"

definition bounded_write_some ::
  "'w asio_io \<Rightarrow> nat \<Rightarrow> int option \<Rightarrow> string \<Rightarrow> ('w \<Rightarrow> 'w) \<Rightarrow> 'w \<Rightarrow> (asio_ec option \<times> nat) \<times> 'w" where
  "bounded_write_some io h timeout bytes cancel = bounded_io (as_write io h bytes) timeout 0 cancel"

subsection \<open>The four classes\<close>

text \<open>
  What a class overrides.  Its \<open>exchange\<close> is the sequential one of the base class, or the interleaved
  pump with the half-close that is safe inside the pump's loop.
\<close>

datatype 'w exchange_kind = Sequential | Interleaved "'w \<Rightarrow> 'w"

record 'w methods =
  mt_read_some :: "nat \<Rightarrow> 'w \<Rightarrow> (asio_ec option \<times> string) \<times> 'w"
  mt_write_some :: "string \<Rightarrow> 'w \<Rightarrow> (asio_ec option \<times> nat) \<times> 'w"
  mt_shutdown_send :: "'w \<Rightarrow> 'w"
  mt_supports_half_close :: bool
  mt_exchange :: "'w exchange_kind"
  mt_close :: "'w \<Rightarrow> 'w"

definition cancel_pending :: "'w asio_io \<Rightarrow> transport \<Rightarrow> 'w \<Rightarrow> 'w" where
  "cancel_pending io t = as_cancel io (tr_handle t)"

definition tcp_methods :: "'w asio_io \<Rightarrow> transport \<Rightarrow> 'w methods" where
  "tcp_methods io t =
     (let h = tr_handle t in
      \<lparr>mt_read_some = (\<lambda>room. bounded_read_some io h (tr_io_timeout t) room (cancel_pending io t)),
       mt_write_some = (\<lambda>bytes. bounded_write_some io h (tr_io_timeout t) bytes (cancel_pending io t)),
       mt_shutdown_send = as_shutdown_send io h,
       mt_supports_half_close = True,
       mt_exchange = Interleaved (as_shutdown_send io h),
       mt_close = (\<lambda>w. as_close io h (as_shutdown_both io h w))\<rparr>)"

definition kShutdownCap :: int where
  "kShutdownCap = 5000"

definition tls_methods :: "'w asio_io \<Rightarrow> transport \<Rightarrow> 'w methods" where
  "tls_methods io t =
     (let h = tr_handle t in
      \<lparr>mt_read_some = (\<lambda>room. bounded_read_some io h (tr_io_timeout t) room (cancel_pending io t)),
       mt_write_some = (\<lambda>bytes. bounded_write_some io h (tr_io_timeout t) bytes (cancel_pending io t)),
       mt_shutdown_send = (\<lambda>w. w),
       mt_supports_half_close = False,
       mt_exchange = Sequential,
       mt_close = (\<lambda>w. as_close io h
         (snd (run_pending (as_tls_shutdown io h)
                 (Some (min (case tr_io_timeout t of None \<Rightarrow> kShutdownCap | Some ms \<Rightarrow> ms) kShutdownCap))
                 (cancel_pending io t) w)))\<rparr>)"

definition unix_methods :: "'w asio_io \<Rightarrow> transport \<Rightarrow> 'w methods" where
  "unix_methods io t =
     (let h = tr_handle t in
      \<lparr>mt_read_some = (\<lambda>room. bounded_read_some io h (tr_io_timeout t) room (cancel_pending io t)),
       mt_write_some = (\<lambda>bytes. bounded_write_some io h (tr_io_timeout t) bytes (cancel_pending io t)),
       mt_shutdown_send = as_shutdown_send io h,
       mt_supports_half_close = True,
       mt_exchange = Interleaved (as_shutdown_send io h),
       mt_close = as_close io h\<rparr>)"

text \<open>A named pipe: a read of nothing is the peer's half-close, and a zero-byte message is the own one.\<close>

definition pipe_read_some :: "'w asio_io \<Rightarrow> transport \<Rightarrow> nat \<Rightarrow> 'w \<Rightarrow> (asio_ec option \<times> string) \<times> 'w" where
  "pipe_read_some io t room w =
     (case bounded_read_some io (tr_handle t) (tr_io_timeout t) room (cancel_pending io t) w of
        ((ec, bytes), w1) \<Rightarrow>
          ((if ec = None \<and> bytes = [] \<and> room \<noteq> 0 then Some AsioEof else ec, bytes), w1))"

definition start_zero_write :: "'w asio_io \<Rightarrow> nat \<Rightarrow> 'w \<Rightarrow> ('w, unit) pending_op \<times> 'w" where
  "start_zero_write io h w =
     (case as_zero_write io h w of
        (Inr oper, w1) \<Rightarrow> (oper, w1)
      | (Inl last_error, w1) \<Rightarrow>
          (let posted = (\<lambda>w. (Some (Some (as_system_error io last_error), ()), w))
           in (\<lparr>po_run = (\<lambda>timeout. posted), po_drain = posted\<rparr>, w1)))"

definition pipe_shutdown_send :: "'w asio_io \<Rightarrow> transport \<Rightarrow> bool \<Rightarrow> 'w \<Rightarrow> 'w" where
  "pipe_shutdown_send io t message_mode w =
     (if \<not> message_mode then w
      else
        let (oper, w1) = start_zero_write io (tr_handle t) (as_flush io (tr_handle t) w)
        in snd (run_pending oper (tr_io_timeout t) (cancel_pending io t) w1))"

definition pipe_pump_eof :: "'w asio_io \<Rightarrow> transport \<Rightarrow> bool \<Rightarrow> 'w \<Rightarrow> 'w" where
  "pipe_pump_eof io t message_mode w =
     (if \<not> message_mode then w
      else snd (start_zero_write io (tr_handle t) (as_flush io (tr_handle t) w)))"

definition pipe_methods :: "'w asio_io \<Rightarrow> transport \<Rightarrow> bool \<Rightarrow> 'w methods" where
  "pipe_methods io t message_mode =
     \<lparr>mt_read_some = pipe_read_some io t,
      mt_write_some =
        (\<lambda>bytes. bounded_write_some io (tr_handle t) (tr_io_timeout t) bytes (cancel_pending io t)),
      mt_shutdown_send = pipe_shutdown_send io t message_mode,
      mt_supports_half_close = message_mode,
      mt_exchange = Interleaved (pipe_pump_eof io t message_mode),
      mt_close = as_close io (tr_handle t)\<rparr>"

definition methods_of :: "'w asio_io \<Rightarrow> transport \<Rightarrow> 'w methods" where
  "methods_of io t =
     (case tr_kind t of
        TcpKind \<Rightarrow> tcp_methods io t
      | TlsKind \<Rightarrow> tls_methods io t
      | UnixKind \<Rightarrow> unix_methods io t
      | PipeKind message_mode \<Rightarrow> pipe_methods io t message_mode)"

subsection \<open>The functions of the base class\<close>

text \<open>\<open>write_all\<close>: a turn that goes on has moved at least one byte, so the loop ends.\<close>

function write_all_on :: "'w methods \<Rightarrow> string \<Rightarrow> 'w \<Rightarrow> (asio_ec option \<times> nat) \<times> 'w" where
  "write_all_on m bytes w =
     (if bytes = [] then ((None, 0), w)
      else
        case mt_write_some m bytes w of
          ((ec, n), w1) \<Rightarrow>
            (if n = 0 \<and> ec = None then ((Some AsioBrokenPipe, 0), w1)
             else if ec \<noteq> None then ((ec, n), w1)
             else case write_all_on m (drop n bytes) w1 of ((ec', k), w2) \<Rightarrow> ((ec', n + k), w2)))"
  by pat_completeness auto

termination
  by (relation "measure (\<lambda>(m, bytes, w). length bytes)") auto

declare write_all_on.simps [simp del]

text \<open>
  The reads of the sequential \<open>exchange\<close>; the peer may go on for ever, \<open>None\<close> when it still does after
  \<open>fuel\<close> reads.  The loop changes the transport's own deadline.
\<close>

fun read_until ::
  "nat \<Rightarrow> 'w asio_io \<Rightarrow> (string \<Rightarrow> 'c \<Rightarrow> bool \<times> 'c) \<Rightarrow> int option \<Rightarrow> 'c \<Rightarrow> transport \<times> 'w \<Rightarrow>
    ((asio_ec option \<times> 'c) \<times> transport \<times> 'w) option" where
  "read_until 0 io on_chunk deadline c s = None"
| "read_until (Suc fuel) io on_chunk deadline c s =
     (let (t, w) = s;
          left = map_option (\<lambda>d. to_ms (as_clock io) (d - as_now io w)) deadline in
      if (\<exists>l. left = Some l \<and> l \<le> 0) then Some ((Some AsioTimedOut, c), s)
      else
        let t1 = (if left = None then t else set_io_timeout left t) in
        case mt_read_some (methods_of io t1) 8192 w of
          ((ec, bytes), w1) \<Rightarrow>
            (let (go, c1) = (if bytes = [] then (True, c) else on_chunk bytes c) in
             if \<not> go then Some ((None, c1), (t1, w1))
             else if ec \<noteq> None then Some ((ec, c1), (t1, w1))
             else read_until fuel io on_chunk deadline c1 (t1, w1)))"

definition exchange_on ::
  "nat \<Rightarrow> 'w asio_io \<Rightarrow> string \<Rightarrow> bool \<Rightarrow> (string \<Rightarrow> 'c \<Rightarrow> bool \<times> 'c) \<Rightarrow> int option \<Rightarrow> 'c \<Rightarrow> transport \<times> 'w \<Rightarrow>
    ((asio_ec option \<times> 'c) \<times> transport \<times> 'w) option" where
  "exchange_on fuel io input eof_after_input on_chunk deadline c s =
     (let (t, w) = s;
          ((send_ec, n), w1) = write_all_on (methods_of io t) input w;
          w2 = (if send_ec = None \<and> eof_after_input then mt_shutdown_send (methods_of io t) w1 else w1)
      in read_until fuel io on_chunk deadline c (t, w2))"

subsection \<open>The stream adapter\<close>

text \<open>An operation on a buffer sequence is one on its first buffer that is not empty.\<close>

definition stream_read_some ::
  "'w methods \<Rightarrow> nat list \<Rightarrow> 'w \<Rightarrow> (asio_ec option \<times> string) \<times> 'w" where
  "stream_read_some m sizes w =
     (case List.find (\<lambda>n. n \<noteq> 0) sizes of None \<Rightarrow> ((None, []), w) | Some n \<Rightarrow> mt_read_some m n w)"

definition stream_write_some ::
  "'w methods \<Rightarrow> string list \<Rightarrow> 'w \<Rightarrow> (asio_ec option \<times> nat) \<times> 'w" where
  "stream_write_some m buffers w =
     (case List.find (\<lambda>b. b \<noteq> []) buffers of None \<Rightarrow> ((None, 0), w) | Some b \<Rightarrow> mt_write_some m b w)"

text \<open>The overloads that throw.\<close>

definition or_throw :: "'w asio_io \<Rightarrow> ('w \<Rightarrow> (asio_ec option \<times> 'a) \<times> 'w) \<Rightarrow> ('w, 'a) act" where
  "or_throw io m w =
     (case m w of ((Some ec, _), w1) \<Rightarrow> (Inl (Foreign (as_message io ec)), w1) | ((None, x), w1) \<Rightarrow> (Inr x, w1))"

definition stream_read_or_throw :: "'w asio_io \<Rightarrow> 'w methods \<Rightarrow> nat list \<Rightarrow> ('w, string) act" where
  "stream_read_or_throw io m sizes = or_throw io (stream_read_some m sizes)"

definition stream_write_or_throw :: "'w asio_io \<Rightarrow> 'w methods \<Rightarrow> string list \<Rightarrow> ('w, nat) act" where
  "stream_write_or_throw io m buffers = or_throw io (stream_write_some m buffers)"

subsection \<open>The interface\<close>

text \<open>
  What the callers rely on: a transport that reports no half-close does nothing when asked for one,
  and one that runs the pump reports its half-close as the pump performs it.
\<close>

locale itransport =
  fixes m :: "'w methods"
  assumes shutdown_honest: "\<not> mt_supports_half_close m \<Longrightarrow> mt_shutdown_send m w = w"
    and pump_honest: "mt_exchange m = Interleaved eof \<Longrightarrow> \<not> mt_supports_half_close m \<Longrightarrow> eof w = w"
    and sequential_silent: "mt_exchange m = Sequential \<Longrightarrow> \<not> mt_supports_half_close m"
begin

lemma sequential_no_eof: "mt_exchange m = Sequential \<Longrightarrow> mt_shutdown_send m w = w"
  by (rule shutdown_honest) (rule sequential_silent)

lemma eof_needs_half_close:
  "mt_shutdown_send m w \<noteq> w \<Longrightarrow> mt_supports_half_close m \<and> (\<exists>eof. mt_exchange m = Interleaved eof)"
  using shutdown_honest sequential_silent by (cases "mt_exchange m") auto

end

lemmas methods_defs = tcp_methods_def tls_methods_def unix_methods_def pipe_methods_def Let_def

interpretation transport: itransport "methods_of io t"
  by unfold_locales
    (auto simp: methods_of_def methods_defs pipe_shutdown_send_def pipe_pump_eof_def split: transport_kind.splits)

lemma half_close_kinds:
  "mt_supports_half_close (methods_of io t) \<longleftrightarrow>
     (case tr_kind t of TcpKind \<Rightarrow> True | TlsKind \<Rightarrow> False | UnixKind \<Rightarrow> True | PipeKind message_mode \<Rightarrow> message_mode)"
  by (simp add: methods_of_def methods_defs split: transport_kind.splits)

lemma tls_sequential: "mt_exchange (methods_of io t) = Sequential \<longleftrightarrow> tr_kind t = TlsKind"
  by (auto simp: methods_of_def methods_defs split: transport_kind.splits)

text \<open>On a pipe no read returns nothing without an end: loops that read to the end stop there.\<close>

lemma pipe_read_ends:
  assumes "tr_kind t = PipeKind b" "room \<noteq> 0" "mt_read_some (methods_of io t) room w = ((None, bytes), w')"
  shows "bytes \<noteq> []"
  using assms by (auto simp: methods_of_def methods_defs pipe_read_some_def split: prod.splits if_splits)

lemma stream_read_some_first:
  "stream_read_some m (replicate k 0 @ n # sizes) w =
     (if n = 0 then stream_read_some m sizes w else mt_read_some m n w)"
  by (induction k) (simp_all add: stream_read_some_def)

text \<open>An operation that runs out of time is a time-out: the caller's error has that type.\<close>

lemma bounded_io_expired:
  assumes "po_run oper (Some timeout) w = (None, w1)"
    and "po_drain oper (cancel w1) = (r, w2)" "r = None \<or> r = Some (Some AsioAborted, y)"
  shows "fst (fst (bounded_io oper (Some timeout) x cancel w)) = Some AsioTimedOut"
  using assms by (auto simp: bounded_io_def run_pending_def)

lemma bounded_io_completed:
  "po_run oper timeout w = (Some (ec, y), w1) \<Longrightarrow> bounded_io oper timeout x cancel w = ((ec, y), w1)"
  by (simp add: bounded_io_def run_pending_def)

subsection \<open>What write\_all sends\<close>

text \<open>The bytes that the writes accepted, in order.\<close>

definition noting_writes :: "'w methods \<Rightarrow> ('w \<times> string) methods" where
  "noting_writes m =
     \<lparr>mt_read_some = (\<lambda>room (w, out). case mt_read_some m room w of (r, w1) \<Rightarrow> (r, (w1, out))),
      mt_write_some = (\<lambda>bytes (w, out). case mt_write_some m bytes w of
         ((ec, n), w1) \<Rightarrow> ((ec, n), (w1, out @ take n bytes))),
      mt_shutdown_send = (\<lambda>(w, out). (mt_shutdown_send m w, out)),
      mt_supports_half_close = mt_supports_half_close m,
      mt_exchange = (case mt_exchange m of Sequential \<Rightarrow> Sequential
                       | Interleaved eof \<Rightarrow> Interleaved (\<lambda>(w, out). (eof w, out))),
      mt_close = (\<lambda>(w, out). (mt_close m w, out))\<rparr>"

lemma noting_writes_write:
  "mt_write_some m bytes w = ((ec, n), w1) \<Longrightarrow>
     mt_write_some (noting_writes m) bytes (w, out) = ((ec, n), (w1, out @ take n bytes))"
  by (simp add: noting_writes_def)

text \<open>Watching changes nothing.\<close>

lemma write_all_on_noted:
  "write_all_on m bytes w = (r, w') \<longleftrightarrow> (\<exists>out'. write_all_on (noting_writes m) bytes (w, out) = (r, (w', out')))"
proof (induction m bytes w arbitrary: r w' out rule: write_all_on.induct)
  case (1 m bytes w)
  obtain ec n w1 where wr: "mt_write_some m bytes w = ((ec, n), w1)"
    by (metis prod.exhaust)
  note wr' = noting_writes_write [OF wr, of out]
  show ?case
  proof (cases "bytes = [] \<or> n = 0 \<or> ec \<noteq> None")
    case True
    then show ?thesis
      by (auto simp: write_all_on.simps [of m bytes] write_all_on.simps [of "noting_writes m" bytes] wr wr')
  next
    case False
    then have b: "bytes \<noteq> []" "\<not> (n = 0 \<and> ec = None)" "\<not> ec \<noteq> None" by auto
    obtain e k w2 where rest: "write_all_on m (drop n bytes) w1 = ((e, k), w2)" by (metis prod.exhaust)
    from "1.IH" [OF b(1) wr [symmetric] refl b(2) b(3), of "(e, k)" w2 "out @ take n bytes"] rest obtain out' where
      "write_all_on (noting_writes m) (drop n bytes) (w1, out @ take n bytes) = ((e, k), (w2, out'))" by auto
    with b rest show ?thesis
      by (auto simp: write_all_on.simps [of m bytes] write_all_on.simps [of "noting_writes m" bytes] wr wr')
  qed
qed

lemma write_all_on_sends:
  "write_all_on (noting_writes m) bytes (w, out) = ((ec, n), (w', out')) \<Longrightarrow>
     \<exists>sent rest. out' = out @ sent \<and> bytes = sent @ rest \<and> (ec = None \<longrightarrow> rest = [])"
proof (induction m bytes w arbitrary: ec n w' out out' rule: write_all_on.induct)
  case (1 m bytes w)
  obtain e1 n1 w1 where wr: "mt_write_some m bytes w = ((e1, n1), w1)" by (metis prod.exhaust)
  note wr' = noting_writes_write [OF wr, of out]
  show ?case
  proof (cases "bytes = [] \<or> n1 = 0 \<or> e1 \<noteq> None")
    case True
    show ?thesis
    proof (cases "bytes = []")
      case True
      with "1.prems" show ?thesis by (simp add: write_all_on.simps [of "noting_writes m" "[]"])
    next
      case ne: False
      with True "1.prems" have "out' = out @ take n1 bytes" "ec \<noteq> None"
        by (auto simp: write_all_on.simps [of "noting_writes m" bytes] wr' split: if_splits)
      then have "out' = out @ take n1 bytes \<and> bytes = take n1 bytes @ drop n1 bytes \<and> (ec = None \<longrightarrow> drop n1 bytes = [])"
        by auto
      then show ?thesis by blast
    qed
  next
    case False
    then have b: "bytes \<noteq> []" "\<not> (n1 = 0 \<and> e1 = None)" "\<not> e1 \<noteq> None" by auto
    obtain k out2 where rest: "write_all_on (noting_writes m) (drop n1 bytes) (w1, out @ take n1 bytes) = ((ec, k), (w', out'))"
      using "1.prems" b by (auto simp: write_all_on.simps [of "noting_writes m" bytes] wr' split: prod.splits)
    from "1.IH" [OF b(1) wr [symmetric] refl b(2) b(3) rest] obtain sent r where
      "out' = (out @ take n1 bytes) @ sent" "drop n1 bytes = sent @ r" "ec = None \<longrightarrow> r = []" by blast
    then have "out' = out @ (take n1 bytes @ sent)" "bytes = (take n1 bytes @ sent) @ r"
      using append_take_drop_id [of n1 bytes] by simp_all
    with \<open>ec = None \<longrightarrow> r = []\<close> show ?thesis by blast
  qed
qed

subsection \<open>The base class on a transport refines the event-driven model\<close>

lemma write_all_loop_refined:
  "sent + length bytes = len \<Longrightarrow> write_all_on m bytes w = ((ec, n), w') \<Longrightarrow>
     \<exists>ws. write_all_loop sent len ws = Some (ec, sent + n)"
proof (induction m bytes w arbitrary: sent ec n w' rule: write_all_on.induct)
  case (1 m bytes w)
  obtain e1 n1 w1 where wr: "mt_write_some m bytes w = ((e1, n1), w1)" by (metis prod.exhaust)
  consider "bytes = []" | "bytes \<noteq> []" "n1 = 0 \<or> e1 \<noteq> None" | "bytes \<noteq> []" "n1 \<noteq> 0" "e1 = None" by blast
  then show ?case
  proof cases
    case 1
    with "1.prems" show ?thesis by (auto simp: write_all_on.simps [of m "[]"] write_all_loop.simps)
  next
    case 2
    with "1.prems" wr show ?thesis
      by (intro exI [of _ "[(e1, n1)]"]) (auto simp: write_all_on.simps [of m bytes] write_all_loop.simps split: if_splits)
  next
    case 3
    then have b: "\<not> (n1 = 0 \<and> e1 = None)" "\<not> e1 \<noteq> None" by auto
    obtain k where rest: "write_all_on m (drop n1 bytes) w1 = ((ec, k), w')" "n = n1 + k"
      using "1.prems"(2) 3 wr by (auto simp: write_all_on.simps [of m bytes] split: prod.splits)
    have "\<exists>ws. write_all_loop (sent + n1) len ws = Some (ec, sent + n1 + k)"
    proof (cases "n1 \<le> length bytes")
      case True
      with "1.prems"(1) have "sent + n1 + length (drop n1 bytes) = len" by simp
      from "1.IH" [OF 3(1) wr [symmetric] refl b(1) b(2) this rest(1)] show ?thesis .
    next
      case False
      with rest have "ec = None" "k = 0" by (simp_all add: write_all_on.simps [of m "[]"])
      with False "1.prems"(1) show ?thesis by (simp add: write_all_loop.simps)
    qed
    then obtain ws where ws: "write_all_loop (sent + n1) len ws = Some (ec, sent + n1 + k)" by blast
    moreover have "sent < len" using 3(1) "1.prems"(1) by (cases bytes) simp_all
    ultimately show ?thesis using 3 rest(2)
      by (intro exI [of _ "(e1, n1) # ws"])
        (simp add: write_all_loop.simps [of sent] add.assoc)
  qed
qed

lemma write_all_refined: "\<exists>ws. write_all bytes ws = Some (fst (write_all_on m bytes w))"
  using write_all_loop_refined [of 0 bytes "length bytes" m w]
  by (cases "write_all_on m bytes w") (auto simp: write_all_def)

lemma read_until_refined:
  "read_until fuel io on_chunk deadline c s = Some ((ec, c'), s') \<Longrightarrow>
     de_clock env = as_clock io \<Longrightarrow> de_on_chunk env = on_chunk \<Longrightarrow> de_deadline env = deadline \<Longrightarrow>
     \<exists>rs. length rs \<le> fuel \<and> read_loop env rs c = Some (ec, c')"
proof (induction fuel arbitrary: c s)
  case (Suc fuel)
  obtain t w where s: "s = (t, w)" by (cases s)
  let ?late = "\<exists>d. deadline = Some d \<and> to_ms (as_clock io) (d - as_now io w) \<le> 0"
  show ?case
  proof (cases ?late)
    case True
    with Suc.prems s show ?thesis by (intro exI [of _ "[(as_now io w, None, [])]"]) auto
  next
    case False
    define t1 where "t1 = (if deadline = None then t
      else set_io_timeout (map_option (\<lambda>d. to_ms (as_clock io) (d - as_now io w)) deadline) t)"
    obtain e1 bytes w1 where rd: "mt_read_some (methods_of io t1) 8192 w = ((e1, bytes), w1)" by (metis prod.exhaust)
    obtain go c1 where g: "(if bytes = [] then (True, c) else on_chunk bytes c) = (go, c1)" by (metis prod.exhaust)
    have step: "read_until (Suc fuel) io on_chunk deadline c s =
        (if \<not> go then Some ((None, c1), (t1, w1))
         else if e1 \<noteq> None then Some ((e1, c1), (t1, w1))
         else read_until fuel io on_chunk deadline c1 (t1, w1))"
      using False rd g s by (cases deadline) (auto simp: t1_def [symmetric] Let_def simp: t1_def)
    show ?thesis
    proof (cases "go \<and> e1 = None")
      case True
      with step Suc.prems(1) have "read_until fuel io on_chunk deadline c1 (t1, w1) = Some ((ec, c'), s')" by simp
      from Suc.IH [OF this Suc.prems(2-4)] obtain rs where
        "length rs \<le> fuel" "read_loop env rs c1 = Some (ec, c')" by blast
      with True False g Suc.prems(2-4) show ?thesis
        by (intro exI [of _ "(as_now io w, e1, bytes) # rs"]) auto
    next
      case go: False
      with step Suc.prems(1) False g Suc.prems(2-4) show ?thesis
        by (intro exI [of _ "[(as_now io w, e1, bytes)]"]) (auto split: if_splits)
    qed
  qed
qed simp

text \<open>The exchange of the base class over a transport is one of those the event-driven model allows.\<close>

lemma exchange_on_refined:
  assumes "exchange_on fuel io (de_input env) eof (de_on_chunk env) (de_deadline env) c s = Some ((ec, c'), s')"
    and "de_clock env = as_clock io"
  shows "\<exists>ws rs half. exchange_fallback env eof ws rs c = Some (half, ec, c')"
proof -
  obtain t w where s: "s = (t, w)" by (cases s)
  obtain e n w1 where wa: "write_all_on (methods_of io t) (de_input env) w = ((e, n), w1)" by (metis prod.exhaust)
  from write_all_refined [of "de_input env" "methods_of io t" w] wa obtain ws where
    ws: "write_all (de_input env) ws = Some (e, n)" by auto
  from assms s wa obtain s1 where "read_until fuel io (de_on_chunk env) (de_deadline env) c s1 = Some ((ec, c'), s')"
    by (auto simp: exchange_on_def Let_def)
  from read_until_refined [OF this assms(2) refl refl] obtain rs where "read_loop env rs c = Some (ec, c')" by blast
  with ws show ?thesis by (auto simp: exchange_fallback_def intro!: exI [of _ ws] exI [of _ rs])
qed

end
