(* ===== verification/Connected.thy ===== *)
theory Connected
  imports TransportOps ClientStream
begin

section \<open>The client on its transports\<close>

text \<open>
  The client of \<open>src/docker/DockerClient.cpp\<close> takes its connections from \<open>connect()\<close> of
  \<open>src/docker/Transport.cpp\<close>.  Here the two models are put together: the client's world holds the
  transports it opened, and connecting, closing, the deadlines, the writes of raw bytes and the half-close
  are those of the transport; the HTTP library's part stays as it was.
\<close>

subsection \<open>The world with its transports\<close>

record 'w wired =
  wd_world :: 'w
  wd_open :: "nat \<rightharpoonup> transport"

definition transport_at :: "nat \<Rightarrow> 'w wired \<Rightarrow> transport" where
  "transport_at h s =
     (case wd_open s h of None \<Rightarrow> \<lparr>tr_kind = TcpKind, tr_handle = h, tr_io_timeout = None\<rparr> | Some t \<Rightarrow> t)"

definition on_wire :: "('w \<Rightarrow> 'a \<times> 'w) \<Rightarrow> 'w wired \<Rightarrow> 'a \<times> 'w wired" where
  "on_wire f s = (case f (wd_world s) of (x, w) \<Rightarrow> (x, s\<lparr>wd_world := w\<rparr>))"

text \<open>
  A pipe that stays busy is asked at least once a tick until the budget is spent, so this many attempts
  are enough.
\<close>

definition pipe_fuel :: "'w asio_io \<Rightarrow> TransportTimeouts \<Rightarrow> 'w \<Rightarrow> nat" where
  "pipe_fuel io timeouts w = Suc (nat (connect_deadline io timeouts w - as_now io w + 1))"

definition pipe_busy :: "string \<Rightarrow> exn" where
  "pipe_busy path =
     TransportTimeoutError (''Docker named pipe is busy: '' @ path @ '' (connect budget exhausted)'') []"

definition wired_connect ::
  "platform \<Rightarrow> 'w asio_io \<Rightarrow> (TlsMaterials option \<Rightarrow> TlsPlan) \<Rightarrow> DockerHost \<Rightarrow> TransportTimeouts \<Rightarrow>
    'w wired \<Rightarrow> nat res \<times> 'w wired" where
  "wired_connect pf io plan host timeouts s =
     (case connect_transport (pipe_fuel io timeouts (wd_world s)) pf io plan host timeouts (wd_world s) of
        None \<Rightarrow> (Inl (pipe_busy (dh_path host)), s)
      | Some (Inl e, w) \<Rightarrow> (Inl e, s\<lparr>wd_world := w\<rparr>)
      | Some (Inr t, w) \<Rightarrow>
          (Inr (tr_handle t), s\<lparr>wd_world := w, wd_open := (wd_open s)(tr_handle t \<mapsto> t)\<rparr>))"

definition wired_close :: "'w asio_io \<Rightarrow> nat \<Rightarrow> 'w wired \<Rightarrow> 'w wired" where
  "wired_close io h s = s\<lparr>wd_world := mt_close (methods_of io (transport_at h s)) (wd_world s)\<rparr>"

definition wired_set_io_timeout :: "nat \<Rightarrow> int option \<Rightarrow> 'w wired \<Rightarrow> 'w wired" where
  "wired_set_io_timeout h timeout s =
     s\<lparr>wd_open := (wd_open s)(h \<mapsto> set_io_timeout timeout (transport_at h s))\<rparr>"

definition wired_net ::
  "platform \<Rightarrow> 'w asio_io \<Rightarrow> (TlsMaterials option \<Rightarrow> TlsPlan) \<Rightarrow> 'w wired net \<Rightarrow> 'w wired net" where
  "wired_net pf io plan http =
     http\<lparr>net_connect := wired_connect pf io plan, net_set_io_timeout := wired_set_io_timeout,
          net_close := wired_close io\<rparr>"

definition net_ec_of :: "'w asio_io \<Rightarrow> asio_ec \<Rightarrow> net_ec" where
  "net_ec_of io ec =
     (if ec = AsioTimedOut then EcTimedOut (as_message io ec) else EcOther (as_message io ec))"

definition wired_write_all :: "'w asio_io \<Rightarrow> nat \<Rightarrow> string \<Rightarrow> 'w wired \<Rightarrow> net_ec option \<times> 'w wired" where
  "wired_write_all io h bytes s =
     on_wire (\<lambda>w. case write_all_on (methods_of io (transport_at h s)) bytes w of
        ((ec, n), w1) \<Rightarrow> (map_option (net_ec_of io) ec, w1)) s"

definition wired_shutdown_send :: "'w asio_io \<Rightarrow> nat \<Rightarrow> 'w wired \<Rightarrow> 'w wired" where
  "wired_shutdown_send io h s =
     s\<lparr>wd_world := mt_shutdown_send (methods_of io (transport_at h s)) (wd_world s)\<rparr>"

definition wired_stream ::
  "platform \<Rightarrow> 'w asio_io \<Rightarrow> (TlsMaterials option \<Rightarrow> TlsPlan) \<Rightarrow> 'w wired stream_io \<Rightarrow> 'w wired stream_io" where
  "wired_stream pf io plan http =
     http\<lparr>si_net := wired_net pf io plan (si_net http), si_write_all := wired_write_all io,
          si_shutdown_send := wired_shutdown_send io,
          si_supports_half_close := (\<lambda>h s. mt_supports_half_close (methods_of io (transport_at h s)))\<rparr>"

lemma wired_simps [simp]:
  "net_connect (wired_net pf io plan http) = wired_connect pf io plan"
  "net_close (wired_net pf io plan http) = wired_close io"
  "net_set_io_timeout (wired_net pf io plan http) = wired_set_io_timeout"
  "net_exchange (wired_net pf io plan http) = net_exchange http"
  "si_net (wired_stream pf io plan hs) = wired_net pf io plan (si_net hs)"
  "si_write_all (wired_stream pf io plan hs) = wired_write_all io"
  "si_shutdown_send (wired_stream pf io plan hs) = wired_shutdown_send io"
  by (simp_all add: wired_net_def wired_stream_def)

subsection \<open>Connecting a pipe comes back\<close>

lemma connect_transport_returns:
  assumes steady: "\<And>path w. as_now io w \<le> as_now io (snd (as_open_pipe io path w))"
    and waits: "\<And>path w ms. 1 \<le> ms \<Longrightarrow> as_now io w < as_now io (as_wait_pipe io path ms w)"
  shows "connect_transport (pipe_fuel io timeouts w) pf io plan host timeouts w \<noteq> None"
proof -
  let ?dl = "connect_deadline io timeouts w"
  have "?dl - as_now io w < int (nat (?dl - as_now io w + 1))" by simp
  from open_pipe_returns [where io = io and path = "to_windows_pipe_path (dh_path host)", OF steady waits this]
  obtain r w' where "open_pipe (pipe_fuel io timeouts w) io (to_windows_pipe_path (dh_path host)) ?dl w = Some (r, w')"
    unfolding pipe_fuel_def by blast
  then have "pipe_connect (pipe_fuel io timeouts w) io (dh_path host) timeouts w \<noteq> None"
    by (cases r) (simp_all add: pipe_connect_def runThen_def)
  then show ?thesis by (cases "dh_scheme host") (auto simp: connect_transport_def runs_def)
qed

subsection \<open>Every failure of a request is one of Docker's\<close>

lemma perform_error: "perform net m t b h conn k c = (Inl e, c') \<Longrightarrow> unanswered e"
  by (auto simp: perform_def perform_result_def transport_error_def Let_def
      split: prod.splits option.splits if_splits net_ec.splits)

lemma wired_connect_error: "wired_connect pf io plan host timeouts s = (Inl e, s') \<Longrightarrow> unanswered e"
  by (auto simp: wired_connect_def pipe_busy_def split: option.splits sum.splits dest: connect_transport_error)

lemma fresh_request_error:
  assumes "\<And>host timeouts w e w'. net_connect net host timeouts w = (Inl e, w') \<Longrightarrow> unanswered e"
    and "fresh_request net m t b h timeouts reuse c = (Inl e, c')"
  shows "unanswered e"
  using assms(2)
  by (auto simp: fresh_request_def andThen_Inl world_res_def world_do_def modify_def Let_def
      split: prod.splits if_splits dest: assms(1) perform_error)

lemma request_error:
  assumes "\<And>host timeouts w e w'. net_connect net host timeouts w = (Inl e, w') \<Longrightarrow> unanswered e"
    and "request net m t b h c = (Inl e, c')"
  shows "unanswered e"
proof -
  have fresh: "unanswered e" if "fresh_request net m t b h tmo reuse c0 = (Inl e, c')" for m tmo reuse c0
    by (rule fresh_request_error [OF _ that]) (rule assms(1))
  from assms(2) show ?thesis
    by (auto simp: request_def request_with_io_timeout_def andThen_Inl world_do_def drop_session_transport_def Let_def
        split: option.splits if_splits prod.splits sum.splits dest: fresh perform_error)
qed

lemma wired_request_error: "request (wired_net pf io plan http) m t b h c = (Inl e, c') \<Longrightarrow> unanswered e"
  by (rule request_error [where net = "wired_net pf io plan http"]) (auto dest: wired_connect_error)

text \<open>A call that accepts some statuses fails without an answer, or with the status that came.\<close>

lemma wired_expect_status_error:
  assumes "expect_status (wired_net pf io plan http) m t b h oks ctx rid c = (Inl e, c')"
  shows "request (wired_net pf io plan http) m t b h c = (Inl e, c') \<and> unanswered e \<or>
    (\<exists>res. request (wired_net pf io plan http) m t b h c = (Inr res, c') \<and>
       rs_status_code res \<notin> set oks \<and> e = response_error ctx res rid)"
  using assms
  by (auto simp: expect_status_def andThen_Inl dest: wired_request_error split: if_splits)

subsection \<open>Input for a command needs a half-close\<close>

lemma transport_at_new:
  "wired_connect pf io plan host timeouts s = (Inr h, s') \<Longrightarrow>
     \<exists>t. tr_handle t = h \<and> transport_at h s' = t \<and>
       connect_transport (pipe_fuel io timeouts (wd_world s)) pf io plan host timeouts (wd_world s) =
         Some (Inr t, wd_world s')"
  by (auto simp: wired_connect_def transport_at_def split: option.splits sum.splits)

text \<open>What an action can give when it gives something.\<close>

definition yields :: "('a \<Rightarrow> bool) \<Rightarrow> ('s, 'a) act \<Rightarrow> bool" where
  "yields P m \<longleftrightarrow> (\<forall>s x s'. m s = (Inr x, s') \<longrightarrow> P x)"

lemma yields_at: "yields P m \<Longrightarrow> m s = (Inr x, s') \<Longrightarrow> P x"
  by (auto simp: yields_def)

lemma yields_ret: "P x \<Longrightarrow> yields P (ret x)"
  by (simp add: yields_def)

lemma yields_andThen: "(\<And>x. yields P (f x)) \<Longrightarrow> yields P (andThen m f)"
  by (auto simp: yields_def andThen_Inr)

lemma yields_closing: "yields P m \<Longrightarrow> yields P (closing_on_error io sock m)"
  by (auto simp: yields_def closing_on_error_def catching_def split: prod.splits sum.splits)

lemma tls_connect_kind:
  assumes "tls_connect io host port timeouts plan w = (Inr t, w')"
  shows "tr_kind t = TlsKind"
proof -
  have body: "yields (\<lambda>t. tr_kind t = TlsKind) (closing_on_error io sock
      (andThen (only_if (tp_verify plan) (modify (as_verify_host io sock host))) (\<lambda>_ w.
         andThen (dial io sock host port (connect_deadline io timeouts w)) (\<lambda>_.
         andThen (sni sock) (\<lambda>_.
         andThen (tls_handshake io sock host port (connect_deadline io timeouts w)) (\<lambda>_.
           ret \<lparr>tr_kind = TlsKind, tr_handle = sock, tr_io_timeout = tt_io timeouts\<rparr>))) w)))" for sock sni
  proof (intro yields_closing yields_andThen)
    fix x
    have rest: "yields (\<lambda>t. tr_kind t = TlsKind) (andThen (dial io sock host port d) (\<lambda>_. andThen (sni sock) (\<lambda>_.
        andThen (tls_handshake io sock host port d) (\<lambda>_.
          ret \<lparr>tr_kind = TlsKind, tr_handle = sock, tr_io_timeout = tt_io timeouts\<rparr>))))" for d
      by (intro yields_andThen yields_ret) simp
    show "yields (\<lambda>t. tr_kind t = TlsKind) (\<lambda>w. andThen (dial io sock host port (connect_deadline io timeouts w)) (\<lambda>_.
        andThen (sni sock) (\<lambda>_. andThen (tls_handshake io sock host port (connect_deadline io timeouts w)) (\<lambda>_.
          ret \<lparr>tr_kind = TlsKind, tr_handle = sock, tr_io_timeout = tt_io timeouts\<rparr>))) w)"
      using rest unfolding yields_def by blast
  qed
  have "yields (\<lambda>t. tr_kind t = TlsKind) (tls_connect io host port timeouts plan)"
    unfolding tls_connect_def Let_def
    by (rule yields_andThen) (auto simp: yields_def split: prod.splits dest: yields_at [OF body])
  from yields_at [OF this assms] show ?thesis .
qed

text \<open>
  Over TLS nothing but the connection happens: no exec is created, and the connection is closed again.
\<close>

lemma tls_stdin_refused:
  assumes "dh_scheme (cl_host c) = Https" "pf_tls pf" "eo_stdin_data opts \<noteq> None" "\<not> eo_detach opts"
  shows "exec_stream_impl (wired_stream pf io plan http) on_started cid cmd opts consumer deadline st c =
    (case tls_connect io (dh_hostname (cl_host c)) (dh_port (cl_host c)) (cl_timeouts c)
            (plan (dh_tls_materials (cl_host c))) (wd_world (cl_world c)) of
       (Inl e, w) \<Rightarrow> (Inl e, c\<lparr>cl_world := (cl_world c)\<lparr>wd_world := w\<rparr>\<rparr>)
     | (Inr t, w) \<Rightarrow>
         (Inl (DockerError no_half_close None []),
          c\<lparr>cl_world := (cl_world c)\<lparr>wd_world := mt_close (tls_methods io t) w,
                                     wd_open := (wd_open (cl_world c))(tr_handle t \<mapsto> t)\<rparr>\<rparr>))"
proof -
  obtain r w where tc: "tls_connect io (dh_hostname (cl_host c)) (dh_port (cl_host c)) (cl_timeouts c)
      (plan (dh_tls_materials (cl_host c))) (wd_world (cl_world c)) = (r, w)" by (metis prod.exhaust)
  have ct: "connect_transport f pf io plan (cl_host c) (cl_timeouts c) (wd_world (cl_world c)) = Some (r, w)" for f
    using assms(1,2) tc by (simp add: connect_transport_def runs_def)
  show ?thesis
  proof (cases r)
    case (Inl e)
    with ct have o: "open_transport (wired_stream pf io plan http) c =
        (Inl e, c\<lparr>cl_world := (cl_world c)\<lparr>wd_world := w\<rparr>\<rparr>)"
      by (simp add: open_transport_def world_res_def wired_connect_def)
    from assms(4) tc Inl show ?thesis by (simp add: exec_stream_impl_def Let_def andThen_err [where m = "open_transport (wired_stream pf io plan http)", OF o])
  next
    case (Inr t)
    have "tr_kind t = TlsKind" using tc Inr by (intro tls_connect_kind) simp
    then have k: "methods_of io t = tls_methods io t" by (simp add: methods_of_def)
    have half: "\<not> mt_supports_half_close (tls_methods io t)" by (simp add: tls_methods_def Let_def)
    let ?c1 = "c\<lparr>cl_world := (cl_world c)\<lparr>wd_world := w, wd_open := (wd_open (cl_world c))(tr_handle t \<mapsto> t)\<rparr>\<rparr>"
    from Inr ct have o: "open_transport (wired_stream pf io plan http) c = (Inr (tr_handle t), ?c1)"
      by (simp add: open_transport_def world_res_def wired_connect_def)
    have at: "transport_at (tr_handle t) (cl_world ?c1) = t" by (simp add: transport_at_def)
    have cap: "require_stdin_capable (wired_stream pf io plan http) (tr_handle t) opts ?c1 =
        (Inl (DockerError no_half_close None []),
         ?c1\<lparr>cl_world := wired_close io (tr_handle t) (cl_world ?c1)\<rparr>)"
      using half assms(3) at k
      by (simp add: require_stdin_capable_def wired_stream_def wired_net_def close_and_throw_def
          close_transport_def world_do_def)
    from assms(4) tc Inr at k show ?thesis
      by (simp add: exec_stream_impl_def Let_def andThen_ok [where m = "open_transport (wired_stream pf io plan http)", OF o]
          andThen_err [where m = "require_stdin_capable (wired_stream pf io plan http) (tr_handle t) opts", OF cap] wired_close_def)
  qed
qed

text \<open>Where the input is fed in one piece, the half-close follows only what went out whole.\<close>

lemma feed_stdin_whole:
  assumes "feed_stdin (wired_stream pf io plan http) conn eid opts c = (Inr (), c')" "eo_stdin_data opts = Some bytes"
  shows "\<exists>n w1. write_all_on (methods_of io (transport_at conn (cl_world c))) bytes (wd_world (cl_world c)) =
      ((None, n), w1) \<and>
    wd_world (cl_world c') = mt_shutdown_send (methods_of io (transport_at conn (cl_world c))) w1"
  using assms
  by (cases "write_all_on (methods_of io (transport_at conn (cl_world c))) bytes (wd_world (cl_world c))")
    (auto simp: feed_stdin_def andThen_Inr world_op_def wired_write_all_def on_wire_def close_and_throw_def
      world_do_def wired_shutdown_send_def transport_at_def split: option.splits prod.splits)

end
