(* ===== verification/Download.thy ===== *)
theory Download
  imports Handles
begin

section \<open>Archives on the wire\<close>

text \<open>
  Where libarchive meets the client: the callbacks of \<open>src/docker/Tar.cpp\<close> that carry an exception
  across the C library, the class \<open>ArchiveDownload\<close> of \<open>src/docker/DockerClient.cpp\<close>, and
  \<open>copy_from_container_to\<close>, which unpacks the daemon's archive as it arrives.
\<close>

subsection \<open>The callbacks\<close>

text \<open>
  The exception a callback met is kept for the rethrow after the failed library call; the library sees
  a count, \<open>-1\<close> for a failure.
\<close>

record callback_state =
  cb_error :: "exn option"

definition write_to_sink ::
  "(string \<Rightarrow> ('s, unit) act) \<Rightarrow> string \<Rightarrow> callback_state \<times> 's \<Rightarrow> int \<times> callback_state \<times> 's" where
  "write_to_sink sink block cs =
     (let (st, s) = cs in
      case sink block s of
        (Inr _, s1) \<Rightarrow> (int (length block), st, s1)
      | (Inl e, s1) \<Rightarrow> (- 1, st\<lparr>cb_error := Some e\<rparr>, s1))"

definition read_from_source ::
  "('s, string) act \<Rightarrow> callback_state \<times> 's \<Rightarrow> (int \<times> string) \<times> callback_state \<times> 's" where
  "read_from_source source cs =
     (let (st, s) = cs in
      case source s of
        (Inr block, s1) \<Rightarrow> ((int (length block), block), st, s1)
      | (Inl e, s1) \<Rightarrow> ((- 1, []), st\<lparr>cb_error := Some e\<rparr>, s1))"

definition or_unknown :: "string option \<Rightarrow> string" where
  "or_unknown diagnostic = (case diagnostic of None \<Rightarrow> ''unknown error'' | Some d \<Rightarrow> d)"

definition throw_write_error :: "callback_state \<Rightarrow> string option \<Rightarrow> string \<Rightarrow> string \<Rightarrow> exn" where
  "throw_write_error st diagnostic ctx library_op =
     (case cb_error st of
        Some e \<Rightarrow> e
      | None \<Rightarrow> DockerError (ctx @ '': '' @ library_op @ '' failed: '' @ or_unknown diagnostic) None [])"

definition write_data_or_throw ::
  "int \<Rightarrow> callback_state \<Rightarrow> string option \<Rightarrow> string \<Rightarrow> string \<Rightarrow> unit res" where
  "write_data_or_throw written st diagnostic ctx block =
     (if written < 0 \<or> nat written \<noteq> length block
      then Inl (throw_write_error st diagnostic ctx ''archive_write_data'') else Inr ())"

definition throw_read_error :: "callback_state \<Rightarrow> string option \<Rightarrow> string \<Rightarrow> exn" where
  "throw_read_error st diagnostic library_op =
     (case cb_error st of
        Some e \<Rightarrow> e
      | None \<Rightarrow>
          DockerError (''extract_tar_to_dir: '' @ library_op @ '' failed: '' @ or_unknown diagnostic) None [])"

subsection \<open>What libarchive makes of a source\<close>

text \<open>
  The library pulls blocks through the callback while it parses.  Given the blocks it can pull, and
  whether the pull after them fails, it reports the entries it reads and how it stops, and how
  many pulls it had made by then.
\<close>

datatype library_end =
    EndOfArchive
  | OpenFailed "string option"
  | HeaderFailed "string option"
  | DataFailed raw_entry "string option"

record library_read =
  ly_entries :: "raw_entry list"
  ly_end :: library_end
  ly_pulls :: nat

type_synonym archive_library = "string list \<Rightarrow> bool \<Rightarrow> library_read"

text \<open>The state of the callbacks when the library stops: the error, if a pull met it.\<close>

definition pulled_state :: "string list \<Rightarrow> exn option \<Rightarrow> nat \<Rightarrow> callback_state" where
  "pulled_state blocks failure pulls = \<lparr>cb_error = (if length blocks < pulls then failure else None)\<rparr>"

definition read_through :: "archive_library \<Rightarrow> string list \<Rightarrow> exn option \<Rightarrow> archive_read" where
  "read_through lib blocks failure =
     (let run = lib blocks (failure \<noteq> None);
          st = pulled_state blocks failure (ly_pulls run)
      in case ly_end run of
           OpenFailed d \<Rightarrow> Inl (throw_read_error st d ''archive_read_open'')
         | EndOfArchive \<Rightarrow> Inr (ly_entries run, None)
         | HeaderFailed d \<Rightarrow> Inr (ly_entries run, Some (throw_read_error st d ''archive_read_next_header''))
         | DataFailed r d \<Rightarrow>
             Inr (ly_entries run @
               [r\<lparr>re_data := (fst (re_data r), Some (throw_read_error st d ''archive_read_data''))\<rparr>], None))"

subsection \<open>The download\<close>

text \<open>
  One \<open>read_block\<close>, over the results of the reads to come: a block, the end (no bytes), or the error;
  \<open>None\<close> when the results given leave it reading.  A finished parser is asked no more.
\<close>

fun read_block :: "read_event list \<Rightarrow> (rd_ec \<times> string \<times> read_event list) option" where
  "read_block [] = None"
| "read_block (ev # evs) =
     (if ev_done ev then Some (NoError, [], ev # evs)
      else if ev_ec ev \<noteq> NoError \<and> ev_ec ev \<noteq> NeedBuffer then Some (ev_ec ev, [], evs)
      else if ev_data ev \<noteq> [] then Some (NoError, ev_data ev, evs)
      else read_block evs)"

lemma read_block_shorter:
  "read_block evs = Some (ec, block, evs') \<Longrightarrow> block \<noteq> [] \<Longrightarrow> length evs' < length evs"
  by (induction evs) (auto split: if_splits)

text \<open>The blocks handed out until the end or an error.\<close>

function all_blocks :: "read_event list \<Rightarrow> string list \<times> rd_ec option" where
  "all_blocks evs =
     (case read_block evs of
        None \<Rightarrow> ([], None)
      | Some (ec, block, evs') \<Rightarrow>
          (if block = [] then ([], Some ec)
           else case all_blocks evs' of (blocks, stop) \<Rightarrow> (block # blocks, stop)))"
  by pat_completeness auto

termination
  by (relation "measure length") (auto dest: read_block_shorter)

declare all_blocks.simps [simp del]

definition download_failed :: "string \<Rightarrow> net_ec \<Rightarrow> exn" where
  "download_failed context ec =
     transport_error (context @ '' failed reading the archive stream: '' @ ec_message ec) ec"

text \<open>
  Wire to disk.  The download owns its connection: a failed read closes it, and its destructor does on
  every way out.  \<open>None\<close> while the reads given leave the download going on.
\<close>

definition start_download ::
  "'w stream_io \<Rightarrow> string \<Rightarrow> string \<Rightarrow> string \<Rightarrow> ('w client, nat \<times> read_event list) act" where
  "start_download io context cid container_path =
     andThen (versioned (si_net io) (archive_target cid container_path)) (\<lambda>target.
     andThen (open_download io target context cid) (\<lambda>conn.
     andThen (world_op (si_body io conn None)) (\<lambda>evs. ret (conn, evs))))"

definition download_context :: "string \<Rightarrow> string \<Rightarrow> string" where
  "download_context cid container_path =
     ''copy_from_container_to('' @ cid @ '', '' @ quoted container_path @ '')''"

definition copy_from_container_to ::
  "'w stream_io \<Rightarrow> archive_library \<Rightarrow> disk_rules \<Rightarrow> string \<Rightarrow> string \<Rightarrow> string list \<Rightarrow>
    ('w client \<times> disk, unit option) act" where
  "copy_from_container_to io lib rules cid container_path dest_dir s =
     (let (c, d) = s;
          context = download_context cid container_path
      in case start_download io context cid container_path c of
           (Inl e, c1) \<Rightarrow> (Inl e, (c1, d))
         | (Inr (conn, evs), c1) \<Rightarrow>
             (case all_blocks evs of
                (blocks, None) \<Rightarrow> (Inr None, (c1, d))
              | (blocks, Some ec) \<Rightarrow>
                  (let failure = map_option (download_failed context) (of_rd_ec io ec);
                       (r, d1) = extract_tar_to_dir rules (read_through lib blocks failure) dest_dir d;
                       c2 = snd (close_transport io conn c1)
                   in (try_bind r (\<lambda>_. Inr (Some ())), (c2, d1)))))"

subsection \<open>The two ways to consume a download\<close>

text \<open>The sink overload hands out the same blocks.\<close>

lemma download_loop_blocks:
  "download_loop sink s evs = (snd (all_blocks evs), fold sink (fst (all_blocks evs)) s)"
proof (induction evs arbitrary: s)
  case Nil
  then show ?case by (simp add: all_blocks.simps)
next
  case (Cons ev evs)
  show ?case
  proof (cases "ev_done ev \<or> (ev_ec ev \<noteq> NoError \<and> ev_ec ev \<noteq> NeedBuffer)")
    case True
    then show ?thesis by (auto simp: all_blocks.simps [of "ev # evs"])
  next
    case False
    show ?thesis
    proof (cases "ev_data ev = []")
      case True
      with False have "all_blocks (ev # evs) = all_blocks evs"
        by (auto simp: all_blocks.simps [of "ev # evs"] all_blocks.simps [of evs])
      with False True Cons.IH [of s] show ?thesis by auto
    next
      case data: False
      with False have "all_blocks (ev # evs) = (ev_data ev # fst (all_blocks evs), snd (all_blocks evs))"
        by (auto simp: all_blocks.simps [of "ev # evs"] split: prod.splits)
      with False data Cons.IH [of "sink (ev_data ev) s"] show ?thesis by auto
    qed
  qed
qed

subsection \<open>The callbacks carry the exception\<close>

lemma write_to_sink_error:
  "sink block s = (Inl e, s1) \<Longrightarrow> write_to_sink sink block (st, s) = (- 1, \<lparr>cb_error = Some e\<rparr>, s1)"
  by (cases st) (simp add: write_to_sink_def)

lemma write_error_is_sinks:
  assumes "sink block s = (Inl e, s1)" "write_to_sink sink block (st, s) = (n, st', s')"
  shows "write_data_or_throw n st' diagnostic ctx block = Inl e"
  using assms by (auto simp: write_to_sink_def write_data_or_throw_def throw_write_error_def)

lemma write_to_sink_fine:
  assumes "sink block s = (Inr x, s1)" "write_to_sink sink block (st, s) = (n, st', s')"
  shows "write_data_or_throw n st' diagnostic ctx block = Inr () \<and> st' = st \<and> s' = s1"
  using assms by (auto simp: write_to_sink_def write_data_or_throw_def)

lemma read_from_source_error:
  assumes "source s = (Inl e, s1)" "read_from_source source (st, s) = (r, st', s')"
  shows "fst r = - 1 \<and> throw_read_error st' diagnostic library_op = e"
  using assms by (cases st) (auto simp: read_from_source_def throw_read_error_def)

subsection \<open>A truncated download\<close>

text \<open>
  The library stopped because of the pull that failed: the open, the next header, or the data of a
  regular file that is being written.
\<close>

definition stopped_by_pull :: "string list \<Rightarrow> library_read \<Rightarrow> bool" where
  "stopped_by_pull blocks run \<longleftrightarrow>
     length blocks < ly_pulls run \<and>
     (case ly_end run of
        EndOfArchive \<Rightarrow> False
      | DataFailed r _ \<Rightarrow>
          re_type r = RegularFile \<and>
          (\<exists>p. safe_dest_path (case re_name r of None \<Rightarrow> [] | Some n \<Rightarrow> n) = Inr (Some p))
      | _ \<Rightarrow> True)"

text \<open>The entries the library had reported by then, the last perhaps with a part of its data only.\<close>

definition seen_entries :: "library_read \<Rightarrow> raw_entry list" where
  "seen_entries run =
     ly_entries run @
     (case ly_end run of DataFailed r _ \<Rightarrow> [r\<lparr>re_data := (fst (re_data r), None)\<rparr>] | _ \<Rightarrow> [])"

lemma extract_entries_failure:
  "extract_entries rules dest rs (Some x) d =
     (case extract_entries rules dest rs None d of (Inl e, d1) \<Rightarrow> (Inl e, d1) | (Inr _, d1) \<Rightarrow> (Inl x, d1))"
  by (induction rs arbitrary: d) (auto split: prod.splits sum.splits)

lemma extract_one_broken:
  assumes "re_type r = RegularFile"
    and "safe_dest_path (case re_name r of None \<Rightarrow> [] | Some n \<Rightarrow> n) = Inr (Some p)"
  shows "extract_one rules dest (r\<lparr>re_data := (b, Some x)\<rparr>) d =
    (case extract_one rules dest (r\<lparr>re_data := (b, None)\<rparr>) d of (Inl e, d1) \<Rightarrow> (Inl e, d1) | (Inr _, d1) \<Rightarrow> (Inl x, d1))"
  using assms by (auto simp: extract_one_def Let_def split: prod.splits)

lemma extract_entries_broken:
  assumes "re_type r = RegularFile"
    and "safe_dest_path (case re_name r of None \<Rightarrow> [] | Some n \<Rightarrow> n) = Inr (Some p)"
  shows "extract_entries rules dest (rs @ [r\<lparr>re_data := (b, Some x)\<rparr>]) None d =
    (case extract_entries rules dest (rs @ [r\<lparr>re_data := (b, None)\<rparr>]) None d of
       (Inl e, d1) \<Rightarrow> (Inl e, d1) | (Inr _, d1) \<Rightarrow> (Inl x, d1))"
proof (induction rs arbitrary: d)
  case Nil
  then show ?case using extract_one_broken [OF assms, of rules dest b x d] by (auto split: prod.splits sum.splits)
next
  case (Cons r' rs)
  then show ?case by (auto split: prod.splits sum.splits)
qed

text \<open>Extraction of what arrived, then the error: extraction alone may fail first.\<close>

lemma read_through_fails:
  assumes "stopped_by_pull blocks (lib blocks True)"
  shows "\<exists>e. fst (extract_tar_to_dir rules (read_through lib blocks (Some x)) dest d) = Inl e \<and>
    (e = x \<or> fst (extract_tar_to_dir rules (Inr (seen_entries (lib blocks True), None)) dest d) = Inl e)"
proof -
  let ?run = "lib blocks True"
  have err: "throw_read_error (pulled_state blocks (Some x) (ly_pulls ?run)) diag library_op = x" for diag library_op
    using assms by (simp add: stopped_by_pull_def pulled_state_def throw_read_error_def)
  obtain ok d1 where cd: "create_directories rules d dest = (ok, d1)" by (metis prod.exhaust)
  show ?thesis
  proof (cases "ly_end ?run")
    case EndOfArchive
    with assms show ?thesis by (simp add: stopped_by_pull_def)
  next
    case (OpenFailed dg)
    then show ?thesis by (simp add: read_through_def Let_def err extract_tar_to_dir_def)
  next
    case (HeaderFailed dg)
    then have rt: "read_through lib blocks (Some x) = Inr (ly_entries ?run, Some x)"
      by (simp add: read_through_def Let_def err)
    obtain y d2 where ee: "extract_entries rules dest (ly_entries ?run) None d1 = (y, d2)" by (metis prod.exhaust)
    from HeaderFailed rt cd ee extract_entries_failure [of rules dest "ly_entries ?run" x d1] show ?thesis
      by (cases y) (auto simp: extract_tar_to_dir_def seen_entries_def)
  next
    case (DataFailed r dg)
    with assms obtain p where r: "re_type r = RegularFile"
      "safe_dest_path (case re_name r of None \<Rightarrow> [] | Some n \<Rightarrow> n) = Inr (Some p)"
      by (auto simp: stopped_by_pull_def)
    let ?b = "fst (re_data r)"
    obtain y d2 where ee:
      "extract_entries rules dest (ly_entries ?run @ [r\<lparr>re_data := (?b, None)\<rparr>]) None d1 = (y, d2)"
      by (metis prod.exhaust)
    from DataFailed err have rt:
      "read_through lib blocks (Some x) = Inr (ly_entries ?run @ [r\<lparr>re_data := (?b, Some x)\<rparr>], None)"
      by (simp add: read_through_def Let_def)
    from DataFailed rt cd ee extract_entries_broken [OF r, of rules dest "ly_entries ?run" ?b x d1] show ?thesis
      by (cases y) (auto simp: extract_tar_to_dir_def seen_entries_def)
  qed
qed

lemma copy_to_disk_run:
  assumes "start_download io (download_context cid p) cid p c = (Inr (conn, evs), c1)"
    and "all_blocks evs = (blocks, Some ec)"
  shows "copy_from_container_to io lib rules cid p dest (c, d) =
    (let (r, d1) = extract_tar_to_dir rules
           (read_through lib blocks (map_option (download_failed (download_context cid p)) (of_rd_ec io ec))) dest d
     in (try_bind r (\<lambda>_. Inr (Some ())), (c1\<lparr>cl_world := net_close (si_net io) conn (cl_world c1)\<rparr>, d1)))"
  using assms by (simp add: copy_from_container_to_def close_transport_def world_do_def Let_def)

text \<open>A disk that changed: the daemon had answered, with the archive.\<close>

lemma read_ok_header_200:
  assumes "read_ok_header io conn ctx rid False c = (Inr h, c1)"
  shows "hr_status h = 200"
  using assms
  by (auto simp: read_ok_header_def close_and_throw_def andThen_apply world_op_def
      split: if_splits option.splits prod.splits sum.splits)

lemma copy_to_disk_changes:
  assumes "copy_from_container_to io lib rules cid p dest (c, d) = (r, (c', d'))" "d' \<noteq> d"
  obtains conn evs c1 blocks ec where
    "start_download io (download_context cid p) cid p c = (Inr (conn, evs), c1)"
    "all_blocks evs = (blocks, Some ec)"
    "d' = snd (extract_tar_to_dir rules
       (read_through lib blocks (map_option (download_failed (download_context cid p)) (of_rd_ec io ec))) dest d)"
proof -
  obtain x c1 where sd: "start_download io (download_context cid p) cid p c = (x, c1)" by (metis prod.exhaust)
  show ?thesis
  proof (cases x)
    case (Inl e)
    with sd assms show ?thesis by (simp add: copy_from_container_to_def)
  next
    case (Inr ce)
    obtain conn evs where ce: "ce = (conn, evs)" by (cases ce)
    obtain blocks stop where ab: "all_blocks evs = (blocks, stop)" by (metis prod.exhaust)
    show ?thesis
    proof (cases stop)
      case None
      with sd Inr ce ab assms show ?thesis by (simp add: copy_from_container_to_def)
    next
      case (Some ec)
      have run: "start_download io (download_context cid p) cid p c = (Inr (conn, evs), c1)"
        "all_blocks evs = (blocks, Some ec)" using sd Inr ce ab Some by simp_all
      from assms(1) copy_to_disk_run [OF run, of lib rules dest d] that [OF run] show ?thesis
        by (auto simp: Let_def split: prod.splits)
    qed
  qed
qed

lemma start_download_200:
  assumes "start_download io ctx cid p c = (Inr (conn, evs), c1)"
  shows "\<exists>h c0 c2. read_ok_header io conn ctx cid False c0 = (Inr h, c2) \<and> hr_status h = 200"
proof -
  from assms obtain target c0 c2 where "open_download io target ctx cid c0 = (Inr conn, c2)"
    by (auto simp: start_download_def andThen_Inr)
  then obtain h c3 where "read_ok_header io conn ctx cid False c3 = (Inr h, c2)"
    by (auto simp: open_download_def andThen_Inr)
  with read_ok_header_200 [OF this] show ?thesis by blast
qed

end
