(* ===== verification/Process.thy ===== *)
theory Process
  imports Quoting Client "HOL-Library.List_Lexorder" "HOL-Library.Multiset"
begin

section \<open>Child processes\<close>

text \<open>
  \<open>src/Process.cpp\<close>: \<open>run_process\<close>, the staged standard input, the child's environment and the two
  implementations of \<open>spawn_and_capture\<close>.  The operating system's calls are parameters; the quoting
  of the Windows command line is in \<open>Quoting\<close>.
\<close>

record ProcessResult =
  pr_exit_code :: int
  pr_output :: string

subsection \<open>The child's environment\<close>

text \<open>Replace the first entry of that name, else append.\<close>

fun replace_entry :: "('e \<Rightarrow> bool) \<Rightarrow> 'e \<Rightarrow> 'e list \<Rightarrow> 'e list" where
  "replace_entry named entry [] = [entry]"
| "replace_entry named entry (existing # es) =
     (if named existing then entry # es else existing # replace_entry named entry es)"

text \<open>POSIX: an entry is \<open>NAME=value\<close>.\<close>

definition names_entry :: "string \<Rightarrow> string \<Rightarrow> bool" where
  "names_entry key e \<longleftrightarrow> starts_with (key @ ''='') e"

definition environ_entry :: "string \<Rightarrow> string \<Rightarrow> string" where
  "environ_entry key value = key @ ''='' @ value"

definition merge_environ :: "(string \<times> string) list \<Rightarrow> string list \<Rightarrow> string list" where
  "merge_environ env parent = fold (\<lambda>(k, v). replace_entry (names_entry k) (environ_entry k v)) env parent"

text \<open>
  Windows: UTF-16 entries, names compared after folding each code unit; the separator is looked for
  from position 1, since the hidden per-drive entries start with one.
\<close>

type_synonym wide = "16 word list"

definition wide_eq :: "16 word" where
  "wide_eq = 61"

definition wide_name :: "wide \<Rightarrow> wide" where
  "wide_name e = take 1 e @ takeWhile (\<lambda>c. c \<noteq> wide_eq) (drop 1 e)"

definition names_wide :: "(16 word \<Rightarrow> 16 word) \<Rightarrow> wide \<Rightarrow> wide \<Rightarrow> bool" where
  "names_wide fold_case name e \<longleftrightarrow>
     wide_eq \<in> set (drop 1 e) \<and> length (wide_name e) = length name \<and>
     map fold_case (take (length name) e) = map fold_case name"

definition merge_wide :: "(16 word \<Rightarrow> 16 word) \<Rightarrow> (wide \<times> wide) list \<Rightarrow> wide list \<Rightarrow> wide list" where
  "merge_wide fold_case env parent =
     fold (\<lambda>(k, v). replace_entry (names_wide fold_case k) (k @ wide_eq # v)) env parent"

definition wide_block :: "(16 word \<Rightarrow> 16 word) \<Rightarrow> wide list \<Rightarrow> wide" where
  "wide_block fold_case entries =
     concat (map (\<lambda>e. e @ [0]) (sort_key (\<lambda>e. map fold_case (wide_name e)) entries)) @ [0]"

subsection \<open>Reading the child's output\<close>

datatype read_step = Got string | Again | NoMore

text \<open>The child may run for ever: \<open>None\<close> is a loop that does not end.\<close>

partial_function (option) capture_output ::
  "('w \<Rightarrow> read_step \<times> 'w) \<Rightarrow> string \<Rightarrow> 'w \<Rightarrow> (string \<times> 'w) option" where
  "capture_output step out w =
     (case step w of
        (Got bytes, w1) \<Rightarrow> capture_output step (out @ bytes) w1
      | (Again, w1) \<Rightarrow> capture_output step out w1
      | (NoMore, w1) \<Rightarrow> Some (out, w1))"

subsection \<open>POSIX\<close>

datatype file_action = OpenAt nat string | Dup2 nat nat | Chdir string

datatype wait_status = Exited int | Killed | WaitFailed nat

record 'w posix_io =
  px_linux :: bool
  px_addchdir :: bool
  px_environ :: "'w \<Rightarrow> string list"
  px_pipe :: "'w \<Rightarrow> (nat \<times> nat) option \<times> 'w"
  px_cloexec :: "nat \<Rightarrow> 'w \<Rightarrow> 'w"
  px_spawnp :: "string \<Rightarrow> file_action list \<Rightarrow> string list \<Rightarrow> string list \<Rightarrow> 'w \<Rightarrow> (nat + nat) \<times> 'w"
  px_read :: "nat \<Rightarrow> nat \<Rightarrow> 'w \<Rightarrow> (nat + string) \<times> 'w"
  px_waitpid :: "nat \<Rightarrow> 'w \<Rightarrow> wait_status \<times> 'w"
  px_close :: "nat \<Rightarrow> 'w \<Rightarrow> 'w"

definition EINTR :: nat where
  "EINTR = 4"

definition posix_read :: "'w posix_io \<Rightarrow> nat \<Rightarrow> 'w \<Rightarrow> read_step \<times> 'w" where
  "posix_read io fd w =
     (case px_read io fd 4096 w of
        (Inr bytes, w1) \<Rightarrow> (if bytes \<noteq> [] then Got bytes else NoMore, w1)
      | (Inl errno, w1) \<Rightarrow> (if errno = EINTR then Again else NoMore, w1))"

partial_function (option) await_child :: "'w posix_io \<Rightarrow> nat \<Rightarrow> 'w \<Rightarrow> (wait_status \<times> 'w) option" where
  "await_child io pid w =
     (case px_waitpid io pid w of
        (WaitFailed errno, w1) \<Rightarrow>
          (if errno = EINTR then await_child io pid w1 else Some (WaitFailed errno, w1))
      | (st, w1) \<Rightarrow> Some (st, w1))"

definition posix_pipe :: "'w posix_io \<Rightarrow> ('w, nat \<times> nat) act" where
  "posix_pipe io w =
     (case px_pipe io w of
        (None, w1) \<Rightarrow>
          (Inl (DockerError (if px_linux io then ''run_process: pipe2() failed'' else ''run_process: pipe() failed'')
             None []), w1)
      | (Some (rd, wr), w1) \<Rightarrow>
          (Inr (rd, wr), if px_linux io then w1 else px_cloexec io wr (px_cloexec io rd w1)))"

definition file_actions :: "string option \<Rightarrow> nat \<Rightarrow> string option \<Rightarrow> file_action list" where
  "file_actions stdin_file wr working_dir =
     [OpenAt 0 (case stdin_file of None \<Rightarrow> ''/dev/null'' | Some f \<Rightarrow> f), Dup2 wr 1, Dup2 wr 2] @
     (case working_dir of None \<Rightarrow> [] | Some d \<Rightarrow> [Chdir d])"

definition exit_of :: "wait_status \<Rightarrow> string \<Rightarrow> ProcessResult res" where
  "exit_of st out =
     (case st of
        Exited code \<Rightarrow> Inr \<lparr>pr_exit_code = code, pr_output = out\<rparr>
      | Killed \<Rightarrow> Inr \<lparr>pr_exit_code = - 1, pr_output = out\<rparr>
      | WaitFailed errno \<Rightarrow>
          Inl (DockerError (''run_process: waitpid failed (errno '' @ to_dec errno @
            ''); is SIGCHLD set to SIG_IGN?'') None []))"

definition spawn_posix ::
  "'w posix_io \<Rightarrow> string list \<Rightarrow> string option \<Rightarrow> (string \<times> string) list \<Rightarrow> string option \<Rightarrow>
    ('w, ProcessResult) run" where
  "spawn_posix io argv working_dir env stdin_file w =
     (let merged = merge_environ env (px_environ io w) in
      runThen (runs (posix_pipe io)) (\<lambda>(rd, wr) w1.
        if working_dir \<noteq> None \<and> \<not> px_addchdir io then
          Some (Inl (DockerError ''run_process: working_dir requires posix_spawn addchdir support on this libc'' None []),
                px_close io wr (px_close io rd w1))
        else
          case px_spawnp io (hd argv) (file_actions stdin_file wr working_dir) argv merged w1 of
            (res, w2) \<Rightarrow>
              (let w3 = px_close io wr w2 in
               case res of
                 Inl rc \<Rightarrow>
                   Some (Inl (DockerError (''run_process: posix_spawnp failed for '' @ quoted (hd argv) @
                     '' (errno '' @ to_dec rc @ '')'') None []), w3)
               | Inr pid \<Rightarrow>
                   (case capture_output (posix_read io rd) [] w3 of
                      None \<Rightarrow> None
                    | Some (out, w4) \<Rightarrow>
                        map_option (\<lambda>(st, w5). (exit_of st out, w5)) (await_child io pid (px_close io rd w4))))) w)"

subsection \<open>Windows\<close>

record create_process =
  cp_command_line :: wide
  cp_std_input :: nat
  cp_std_output :: nat
  cp_std_error :: nat
  cp_environment :: wide
  cp_directory :: "wide option"

record 'w win_io =
  wn_widen :: "string \<Rightarrow> wide"
  wn_fold_case :: "16 word \<Rightarrow> 16 word"
  wn_environ :: "'w \<Rightarrow> wide list option"
  wn_pipe :: "'w \<Rightarrow> (nat \<times> nat) option \<times> 'w"
  wn_no_inherit :: "nat \<Rightarrow> 'w \<Rightarrow> 'w"
  wn_open_read :: "wide \<Rightarrow> 'w \<Rightarrow> nat option \<times> 'w"
  wn_attrs_init :: "'w \<Rightarrow> bool \<times> 'w"
  wn_attrs_inherit :: "nat list \<Rightarrow> 'w \<Rightarrow> bool \<times> 'w"
  wn_attrs_delete :: "'w \<Rightarrow> 'w"
  wn_create :: "create_process \<Rightarrow> 'w \<Rightarrow> (nat + nat \<times> nat) \<times> 'w"
  wn_read :: "nat \<Rightarrow> nat \<Rightarrow> 'w \<Rightarrow> string option \<times> 'w"
  wn_wait :: "nat \<Rightarrow> 'w \<Rightarrow> 'w"
  wn_exit_code :: "nat \<Rightarrow> 'w \<Rightarrow> 32 word option \<times> 'w"
  wn_close :: "nat \<Rightarrow> 'w \<Rightarrow> 'w"

definition widen :: "'w win_io \<Rightarrow> string \<Rightarrow> wide" where
  "widen io s = (if s = [] then [] else wn_widen io s)"

definition build_environment_block :: "'w win_io \<Rightarrow> (string \<times> string) list \<Rightarrow> 'w \<Rightarrow> wide res" where
  "build_environment_block io env w =
     (case wn_environ io w of
        None \<Rightarrow> Inl (DockerError ''run_process: GetEnvironmentStringsW failed'' None [])
      | Some entries \<Rightarrow>
          Inr (wide_block (wn_fold_case io)
                 (merge_wide (wn_fold_case io) (map (\<lambda>(k, v). (widen io k, widen io v)) env) entries)))"

definition win_read :: "'w win_io \<Rightarrow> nat \<Rightarrow> 'w \<Rightarrow> read_step \<times> 'w" where
  "win_read io h w =
     (case wn_read io h 4096 w of
        (None, w1) \<Rightarrow> (NoMore, w1)
      | (Some bytes, w1) \<Rightarrow> (if bytes \<noteq> [] then Got bytes else NoMore, w1))"

text \<open>The destructors of the handle guards in scope, the last declared first.\<close>

definition drop_guards :: "'w win_io \<Rightarrow> nat list \<Rightarrow> 'w \<Rightarrow> 'w" where
  "drop_guards io hs w = fold (wn_close io) hs w"

definition process_error :: "string \<Rightarrow> exn" where
  "process_error m = DockerError (''run_process: '' @ m) None []"

text \<open>From the created process on: the output, the wait and the exit code, an \<open>int\<close> of the same bits.\<close>

definition collect_windows :: "'w win_io \<Rightarrow> nat \<Rightarrow> nat \<Rightarrow> ('w, ProcessResult) run" where
  "collect_windows io process rd w =
     map_option (\<lambda>(out, w1).
         case wn_exit_code io process (wn_wait io process w1) of
           (None, w2) \<Rightarrow> (Inl (process_error ''GetExitCodeProcess failed''), drop_guards io [process, rd] w2)
         | (Some code, w2) \<Rightarrow>
             (Inr \<lparr>pr_exit_code = sint code, pr_output = out\<rparr>, drop_guards io [process, rd] w2))
       (capture_output (win_read io rd) [] w)"

definition create_request ::
  "'w win_io \<Rightarrow> string list \<Rightarrow> string option \<Rightarrow> wide \<Rightarrow> nat \<Rightarrow> nat \<Rightarrow> create_process" where
  "create_request io argv working_dir env_block std_in wr =
     (let cwd = (case working_dir of None \<Rightarrow> [] | Some d \<Rightarrow> widen io d)
      in \<lparr>cp_command_line = widen io (build_command_line argv), cp_std_input = std_in, cp_std_output = wr,
          cp_std_error = wr, cp_environment = env_block, cp_directory = (if cwd = [] then None else Some cwd)\<rparr>)"

definition spawn_windows ::
  "'w win_io \<Rightarrow> string list \<Rightarrow> string option \<Rightarrow> (string \<times> string) list \<Rightarrow> string option \<Rightarrow>
    ('w, ProcessResult) run" where
  "spawn_windows io argv working_dir env stdin_file w =
     (case build_environment_block io env w of
        Inl e \<Rightarrow> Some (Inl e, w)
      | Inr env_block \<Rightarrow>
          (case wn_pipe io w of
             (None, w1) \<Rightarrow> Some (Inl (process_error ''CreatePipe failed''), w1)
           | (Some (rd, wr), w1) \<Rightarrow>
               (case wn_open_read io (case stdin_file of None \<Rightarrow> [0x4E, 0x55, 0x4C] | Some f \<Rightarrow> widen io f)
                       (wn_no_inherit io rd w1) of
                  (None, w2) \<Rightarrow>
                    Some (Inl (process_error (''failed to open child stdin ('' @
                      quoted (case stdin_file of None \<Rightarrow> ''NUL'' | Some f \<Rightarrow> f) @ '')'')), drop_guards io [wr, rd] w2)
                | (Some std_in, w2) \<Rightarrow>
                    (case wn_attrs_init io w2 of
                       (False, w3) \<Rightarrow>
                         Some (Inl (process_error ''InitializeProcThreadAttributeList failed''),
                               drop_guards io [std_in, wr, rd] w3)
                     | (True, w3) \<Rightarrow>
                         (case wn_attrs_inherit io [wr, std_in] w3 of
                            (False, w4) \<Rightarrow>
                              Some (Inl (process_error ''UpdateProcThreadAttribute failed''),
                                    drop_guards io [std_in, wr, rd] (wn_attrs_delete io w4))
                          | (True, w4) \<Rightarrow>
                              (case wn_create io (create_request io argv working_dir env_block std_in wr) w4 of
                                 (res, w5) \<Rightarrow>
                                   (let w6 = wn_close io std_in (wn_close io wr (wn_attrs_delete io w5)) in
                                    case res of
                                      Inl err \<Rightarrow>
                                        Some (Inl (process_error (''CreateProcessW failed for '' @
                                          quoted (build_command_line argv) @ '' (error '' @ to_dec err @ '')'')),
                                              drop_guards io [rd] w6)
                                    | Inr (process, thread) \<Rightarrow>
                                        collect_windows io process rd (wn_close io thread w6))))))))"

subsection \<open>Running a process\<close>

record 'w staging =
  sg_temp_dir :: "('w, string) act"
  sg_draw :: "'w \<Rightarrow> nat \<times> 'w"
  sg_write :: "string \<Rightarrow> string \<Rightarrow> 'w \<Rightarrow> 'w"
  sg_remove :: "string \<Rightarrow> 'w \<Rightarrow> 'w"

definition stage_stdin_file :: "'w staging \<Rightarrow> string option \<Rightarrow> ('w, string option) act" where
  "stage_stdin_file sg stdin_data =
     (case stdin_data of
        None \<Rightarrow> ret None
      | Some bytes \<Rightarrow>
          andThen (sg_temp_dir sg) (\<lambda>dir w.
            let (hex, w1) = random_hex (sg_draw sg) 16 w;
                path = path_join dir (''tc-stdin-'' @ hex @ ''.tmp'')
            in (Inr (Some path), sg_write sg path bytes w1)))"

definition remove_quietly :: "'w staging \<Rightarrow> string option \<Rightarrow> 'w \<Rightarrow> 'w" where
  "remove_quietly sg file w = (case file of None \<Rightarrow> w | Some f \<Rightarrow> sg_remove sg f w)"

definition run_process ::
  "'w staging \<Rightarrow> (string list \<Rightarrow> string option \<Rightarrow> (string \<times> string) list \<Rightarrow> string option \<Rightarrow> ('w, ProcessResult) run) \<Rightarrow>
    string list \<Rightarrow> string option \<Rightarrow> (string \<times> string) list \<Rightarrow> string option \<Rightarrow> ('w, ProcessResult) run" where
  "run_process sg spawn_and_capture argv working_dir env stdin_data =
     (if argv = [] then runs (throw (DockerError ''run_process: empty argv'' None []))
      else
        runThen (runs (stage_stdin_file sg stdin_data)) (\<lambda>stdin_file.
          runCatching
            (runThen (spawn_and_capture argv working_dir env stdin_file) (\<lambda>result.
               runs (andThen (modify (remove_quietly sg stdin_file)) (\<lambda>_. ret result))))
            (\<lambda>e. runs (andThen (modify (remove_quietly sg stdin_file)) (\<lambda>_. throw e)))))"

subsection \<open>Looking a variable up in the child\<close>

text \<open>
  Both environments are lists of entries, read by the first entry of a name.  An entry made for one
  key names another exactly when the two are the same key.
\<close>

locale entries =
  fixes ok :: "'k \<Rightarrow> bool"
    and same :: "'k \<Rightarrow> 'k \<Rightarrow> bool"
    and named :: "'k \<Rightarrow> 'e \<Rightarrow> bool"
    and entry :: "'k \<Rightarrow> 'v \<Rightarrow> 'e"
  assumes named_entry: "ok k \<Longrightarrow> ok k' \<Longrightarrow> named k (entry k' v) \<longleftrightarrow> same k k'"
    and same_named: "ok k \<Longrightarrow> ok k' \<Longrightarrow> same k k' \<Longrightarrow> named k' e = named k e"
    and named_apart: "ok k \<Longrightarrow> ok k' \<Longrightarrow> named k e \<Longrightarrow> named k' e \<Longrightarrow> same k k'"
begin

lemma find_replaced:
  assumes "ok k" "ok k'"
  shows "List.find (named k) (replace_entry (named k') (entry k' v) es) =
    (if same k k' then Some (entry k' v) else List.find (named k) es)"
proof (induction es)
  case Nil
  show ?case using named_entry [OF assms] by simp
next
  case (Cons e es)
  show ?case
    using Cons.IH named_entry [OF assms, of v] same_named [OF assms, of e] named_apart [OF assms, of e] by auto
qed

text \<open>The last override of the variable, else the parent's.\<close>

lemma find_merged:
  "ok k \<Longrightarrow> \<forall>(k', v) \<in> set env. ok k' \<Longrightarrow>
     List.find (named k) (fold (\<lambda>(k, v). replace_entry (named k) (entry k v)) env es) =
       (case List.find (\<lambda>(k', v). same k k') (rev env) of
          Some (k', v) \<Rightarrow> Some (entry k' v) | None \<Rightarrow> List.find (named k) es)"
proof (induction env rule: rev_induct)
  case (snoc kv env)
  then show ?case by (cases kv) (simp add: find_replaced)
qed simp

end

lemma names_entry_iff: "names_entry k e \<longleftrightarrow> (\<exists>v. e = environ_entry k v)"
proof
  assume "names_entry k e"
  then have "take (Suc (length k)) e = k @ ''=''" by (simp add: names_entry_def starts_with_def)
  then have "e = environ_entry k (drop (Suc (length k)) e)"
    using append_take_drop_id [of "Suc (length k)" e] by (simp add: environ_entry_def del: append_take_drop_id)
  then show "\<exists>v. e = environ_entry k v" by (rule exI)
qed (auto simp: names_entry_def environ_entry_def starts_with_def)

lemma env_entry_key:
  assumes "CHR ''='' \<notin> set k" "CHR ''='' \<notin> set k'" "environ_entry k v = environ_entry k' v'"
  shows "k = k'"
proof -
  have key: "takeWhile (\<lambda>c. c \<noteq> CHR ''='') (environ_entry x y) = x" if "CHR ''='' \<notin> set x" for x y
    using that by (simp add: environ_entry_def takeWhile_append)
  show ?thesis using key [OF assms(1), of v] key [OF assms(2), of v'] assms(3) by simp
qed

interpretation posix_environ: entries "\<lambda>k. CHR ''='' \<notin> set k" "(=)" names_entry environ_entry
  by unfold_locales (auto simp: names_entry_iff dest: env_entry_key)

lemma wide_name_take: "wide_name e = take (length (wide_name e)) e"
proof -
  have "takeWhile (\<lambda>c. c \<noteq> wide_eq) (drop 1 e) = take (length (takeWhile (\<lambda>c. c \<noteq> wide_eq) (drop 1 e))) (drop 1 e)"
    by (rule takeWhile_eq_take)
  then show ?thesis by (cases e) (simp_all add: wide_name_def)
qed

lemma names_wide_name: "names_wide f k e \<Longrightarrow> map f (wide_name e) = map f k"
  using wide_name_take [of e] by (simp add: names_wide_def)

lemma wide_name_entry:
  assumes "k \<noteq> []" "wide_eq \<notin> set (drop 1 k)"
  shows "wide_name (k @ wide_eq # v) = k"
  using assms by (cases k) (simp_all add: wide_name_def takeWhile_append)

definition wide_key :: "wide \<Rightarrow> bool" where
  "wide_key k \<longleftrightarrow> k \<noteq> [] \<and> wide_eq \<notin> set (drop 1 k)"

lemma names_wide_entry:
  assumes "wide_key k'"
  shows "names_wide f k (k' @ wide_eq # v) \<longleftrightarrow> map f k = map f k'"
proof -
  from assms have k': "k' \<noteq> []" "wide_eq \<notin> set (drop 1 k')" by (simp_all add: wide_key_def)
  then have "wide_eq \<in> set (drop 1 (k' @ wide_eq # v))" by (cases k') simp_all
  then show ?thesis
    using wide_name_entry [OF k', of v] map_eq_imp_length_eq [of f k f k'] by (auto simp: names_wide_def)
qed

interpretation windows_environ: entries wide_key "\<lambda>k k'. map f k = map f k'" "names_wide f" "\<lambda>k v. k @ wide_eq # v"
  for f
proof unfold_locales
  fix k k' :: wide and e
  assume "map f k = map f k'"
  then show "names_wide f k' e = names_wide f k e"
    using map_eq_imp_length_eq [of f k f k'] by (simp add: names_wide_def)
qed (simp add: names_wide_entry, metis names_wide_name)

text \<open>The reader of an environment block: entries up to the empty one.\<close>

function block_entries :: "wide \<Rightarrow> wide list" where
  "block_entries cs =
     (if cs = [] \<or> hd cs = 0 then []
      else takeWhile (\<lambda>c. c \<noteq> 0) cs # block_entries (drop 1 (dropWhile (\<lambda>c. c \<noteq> 0) cs)))"
  by auto

termination
proof (relation "measure length")
  fix cs :: wide
  assume "\<not> (cs = [] \<or> hd cs = 0)"
  then obtain c r where "cs = c # r" "c \<noteq> 0" by (cases cs) auto
  then show "(drop 1 (dropWhile (\<lambda>c. c \<noteq> 0) cs), cs) \<in> measure length"
    using length_dropWhile_le [of "\<lambda>c. c \<noteq> 0" r] by simp
qed simp

declare block_entries.simps [simp del]

lemma block_entries_concat:
  "\<forall>e \<in> set es. e \<noteq> [] \<and> 0 \<notin> set e \<Longrightarrow> block_entries (concat (map (\<lambda>e. e @ [0]) es) @ [0]) = es"
proof (induction es)
  case Nil
  then show ?case by (simp add: block_entries.simps)
next
  case (Cons e es)
  then obtain c r where e: "e = c # r" "c \<noteq> 0" "0 \<notin> set r" by (cases e) auto
  then have "\<forall>x \<in> set r. x \<noteq> 0" by auto
  with Cons e show ?case
    by (subst block_entries.simps) (simp add: takeWhile_append dropWhile_append)
qed

lemma find_sorted: "List.find (names_wide f k) (sort_key (\<lambda>e. map f (wide_name e)) es) = List.find (names_wide f k) es"
proof -
  let ?key = "\<lambda>e. map f (wide_name e)"
  have h: "List.find (names_wide f k) xs = List.find (names_wide f k) (filter (\<lambda>e. ?key e = map f k) xs)" for xs
    by (induction xs) (use names_wide_name in auto)
  show ?thesis using h [of es] h [of "sort_key ?key es"] sort_key_stable [of ?key "map f k" es] by simp
qed

lemma replace_entry_clean:
  "P x \<Longrightarrow> \<forall>e \<in> set es. P e \<Longrightarrow> \<forall>e \<in> set (replace_entry p x es). P e"
  by (induction es) auto

lemma merge_wide_clean:
  assumes "\<forall>e \<in> set parent. e \<noteq> [] \<and> 0 \<notin> set e" "\<And>k v. (k, v) \<in> set env \<Longrightarrow> 0 \<notin> set k \<and> 0 \<notin> set v"
  shows "\<forall>e \<in> set (merge_wide f env parent). e \<noteq> [] \<and> 0 \<notin> set e"
  using assms(2)
proof (induction env rule: rev_induct)
  case (snoc kv env)
  obtain k v where kv: "kv = (k, v)" by (cases kv)
  have "k @ wide_eq # v \<noteq> [] \<and> 0 \<notin> set (k @ wide_eq # v)"
    using snoc.prems [of k v] kv by (simp add: wide_eq_def)
  moreover have "\<forall>e \<in> set (merge_wide f env parent). e \<noteq> [] \<and> 0 \<notin> set e"
    by (rule snoc.IH) (rule snoc.prems, simp)
  ultimately have "\<forall>e \<in> set (replace_entry (names_wide f k) (k @ wide_eq # v) (merge_wide f env parent)).
      e \<noteq> [] \<and> 0 \<notin> set e"
    by (rule replace_entry_clean)
  then show ?case by (simp only: kv merge_wide_def fold_append fold_simps comp_apply id_apply prod.case)
qed (use assms(1) in \<open>simp add: merge_wide_def\<close>)

text \<open>What the child reads for a variable.\<close>

lemma child_variable_posix:
  assumes "CHR ''='' \<notin> set k" "\<forall>(k', v) \<in> set env. CHR ''='' \<notin> set k'"
  shows "List.find (names_entry k) (merge_environ env parent) =
    (case List.find (\<lambda>(k', v). k = k') (rev env) of
       Some (k', v) \<Rightarrow> Some (environ_entry k' v) | None \<Rightarrow> List.find (names_entry k) parent)"
  unfolding merge_environ_def using assms by (rule posix_environ.find_merged)

lemma child_variable_windows:
  assumes "build_environment_block io env w = Inr block" "wn_environ io w = Some parent"
    and "\<forall>e \<in> set parent. e \<noteq> [] \<and> 0 \<notin> set e" "\<forall>(k, v) \<in> set env. wide_key (widen io k) \<and> 0 \<notin> set (widen io k @ widen io v)"
    and "wide_key k"
  shows "List.find (names_wide (wn_fold_case io) k) (block_entries block) =
    (case List.find (\<lambda>(k', v). map (wn_fold_case io) k = map (wn_fold_case io) k')
            (rev (map (\<lambda>(k, v). (widen io k, widen io v)) env)) of
       Some (k', v) \<Rightarrow> Some (k' @ wide_eq # v)
     | None \<Rightarrow> List.find (names_wide (wn_fold_case io) k) parent)"
proof -
  let ?f = "wn_fold_case io" and ?env = "map (\<lambda>(k, v). (widen io k, widen io v)) env"
  have "\<forall>e \<in> set (merge_wide ?f ?env parent). e \<noteq> [] \<and> 0 \<notin> set e"
    by (rule merge_wide_clean [OF assms(3)]) (use assms(4) in auto)
  note clean = this
  have "block = wide_block ?f (merge_wide ?f ?env parent)" using assms(1,2) by (simp add: build_environment_block_def)
  then have "block_entries block = sort_key (\<lambda>e. map ?f (wide_name e)) (merge_wide ?f ?env parent)"
    using clean by (simp add: wide_block_def block_entries_concat)
  moreover have "\<forall>(k', v) \<in> set ?env. wide_key k'" using assms(4) by auto
  ultimately show ?thesis
    using windows_environ.find_merged [OF assms(5), of ?env ?f parent] by (simp add: find_sorted merge_wide_def)
qed

subsection \<open>Descriptors and handles\<close>

text \<open>The calls on descriptors are recorded beside the world.\<close>

datatype handle_event = Gained nat | Spawned | ReadFrom nat | Released nat

type_synonym 'w held_world = "'w \<times> handle_event list"

definition record_calls :: "('a \<Rightarrow> handle_event list) \<Rightarrow> ('w \<Rightarrow> 'a \<times> 'w) \<Rightarrow> 'w held_world \<Rightarrow> 'a \<times> 'w held_world" where
  "record_calls note f s = (case f (fst s) of (x, w) \<Rightarrow> (x, (w, snd s @ note x)))"

definition record_do :: "handle_event list \<Rightarrow> ('w \<Rightarrow> 'w) \<Rightarrow> 'w held_world \<Rightarrow> 'w held_world" where
  "record_do es f s = (f (fst s), snd s @ es)"

definition watched_posix :: "'w posix_io \<Rightarrow> 'w held_world posix_io" where
  "watched_posix io =
     \<lparr>px_linux = px_linux io, px_addchdir = px_addchdir io, px_environ = px_environ io \<circ> fst,
      px_pipe = record_calls (case_option [] (\<lambda>(rd, wr). [Gained rd, Gained wr])) (px_pipe io),
      px_cloexec = (\<lambda>fd. record_do [] (px_cloexec io fd)),
      px_spawnp = (\<lambda>prog acts argv env. record_calls (\<lambda>_. [Spawned]) (px_spawnp io prog acts argv env)),
      px_read = (\<lambda>fd n. record_calls (\<lambda>_. [ReadFrom fd]) (px_read io fd n)),
      px_waitpid = (\<lambda>pid. record_calls (\<lambda>_. []) (px_waitpid io pid)),
      px_close = (\<lambda>fd. record_do [Released fd] (px_close io fd))\<rparr>"

text \<open>What is held after a sequence of calls.\<close>

fun holding :: "handle_event list \<Rightarrow> nat multiset \<Rightarrow> nat multiset" where
  "holding [] held = held"
| "holding (Gained h # es) held = holding es (add_mset h held)"
| "holding (Released h # es) held = holding es (held - {#h#})"
| "holding (_ # es) held = holding es held"

lemma holding_append [simp]: "holding (a @ b) held = holding b (holding a held)"
  by (induction a held rule: holding.induct) simp_all

lemma holding_reads [simp]: "holding (replicate n (ReadFrom h)) held = held"
  by (induction n) simp_all

lemmas capture_run [consumes 1, case_names turn] = capture_output.raw_induct [rotated]
lemmas await_run [consumes 1, case_names turn] = await_child.raw_induct [rotated]

lemma capture_watched:
  assumes "capture_output (posix_read (watched_posix io) rd) out s = Some (res, s')"
  shows "\<exists>n. snd s' = snd s @ replicate n (ReadFrom rd)"
  using assms
proof (induction "posix_read (watched_posix io) rd" out s "(res, s')" rule: capture_run)
  case (turn capture_output' out s)
  obtain x w1 where p: "px_read io rd 4096 (fst s) = (x, w1)" by (cases "px_read io rd 4096 (fst s)")
  obtain st where st: "posix_read (watched_posix io) rd s = (st, (w1, snd s @ [ReadFrom rd]))"
    using p by (cases x) (auto simp: posix_read_def watched_posix_def record_calls_def)
  show ?case
  proof (cases st)
    case NoMore
    with turn.hyps(2) st show ?thesis by (auto intro!: exI [of _ 1])
  next
    case Again
    with turn.hyps(2) st turn.hyps(1) [of out "(w1, snd s @ [ReadFrom rd])"] obtain n where
      "snd s' = (snd s @ [ReadFrom rd]) @ replicate n (ReadFrom rd)" by auto
    then show ?thesis by (auto intro!: exI [of _ "Suc n"])
  next
    case (Got bytes)
    with turn.hyps(2) st turn.hyps(1) [of "out @ bytes" "(w1, snd s @ [ReadFrom rd])"] obtain n where
      "snd s' = (snd s @ [ReadFrom rd]) @ replicate n (ReadFrom rd)" by auto
    then show ?thesis by (auto intro!: exI [of _ "Suc n"])
  qed
qed

lemma await_watched:
  assumes "await_child (watched_posix io) pid s = Some (st, s')"
  shows "snd s' = snd s"
  using assms
proof (induction "watched_posix io" pid s "(st, s')" rule: await_run)
  case (turn await' pid s)
  obtain x w1 where p: "px_waitpid io pid (fst s) = (x, w1)" by (cases "px_waitpid io pid (fst s)")
  then have st: "px_waitpid (watched_posix io) pid s = (x, (w1, snd s))"
    by (simp add: watched_posix_def record_calls_def)
  with turn.hyps(2) turn.hyps(1) [of pid "(w1, snd s)"] show ?case
    by (cases x) (auto split: if_splits)
qed

text \<open>
  POSIX, every path: the write end is closed before the first read, so that the end of the output is
  seen; both ends are closed at the end, except after a failed spawn, which leaves the read end open.
\<close>

lemma spawn_posix_calls:
  assumes "spawn_posix (watched_posix io) argv dir env file (w, []) = Some (r, (w', es))"
  shows "es = [] \<or>
    (\<exists>rd wr. es = [Gained rd, Gained wr, Released rd, Released wr]) \<or>
    (\<exists>rd wr e. r = Inl e \<and> es = [Gained rd, Gained wr, Spawned, Released wr]) \<or>
    (\<exists>rd wr n. es = [Gained rd, Gained wr, Spawned, Released wr] @ replicate n (ReadFrom rd) @ [Released rd])"
proof -
  let ?io = "watched_posix io"
  obtain p w1 where p: "px_pipe io w = (p, w1)" by (cases "px_pipe io w")
  show ?thesis
  proof (cases p)
    case None
    with p assms show ?thesis
      by (auto simp: spawn_posix_def posix_pipe_def watched_posix_def record_calls_def runThen_def)
  next
    case (Some ends)
    obtain rd wr where ends: "ends = (rd, wr)" by (cases ends)
    define w2 where "w2 = (if px_linux io then w1 else px_cloexec io wr (px_cloexec io rd w1))"
    have pp: "posix_pipe ?io (w, []) = (Inr (rd, wr), (w2, [Gained rd, Gained wr]))"
      using p Some ends by (simp add: posix_pipe_def watched_posix_def record_calls_def record_do_def w2_def)
    have close: "px_close ?io fd s = (px_close io fd (fst s), snd s @ [Released fd])" for fd s
      by (simp add: watched_posix_def record_do_def)
    show ?thesis
    proof (cases "dir \<noteq> None \<and> \<not> px_addchdir io")
      case True
      with assms pp close show ?thesis
        by (auto simp: spawn_posix_def runThen_def Let_def watched_posix_def)
    next
      case False
      obtain q w3 where q: "px_spawnp io (hd argv) (file_actions file wr dir) argv (merge_environ env (px_environ io w)) w2 = (q, w3)"
        by (cases "px_spawnp io (hd argv) (file_actions file wr dir) argv (merge_environ env (px_environ io w)) w2")
      have q': "px_spawnp ?io (hd argv) (file_actions file wr dir) argv (merge_environ env (px_environ ?io (w, [])))
          (w2, [Gained rd, Gained wr]) = (q, (w3, [Gained rd, Gained wr, Spawned]))"
        using q by (simp add: watched_posix_def record_calls_def)
      have nf: "\<not> (dir \<noteq> None \<and> \<not> px_addchdir ?io)" using False by (simp add: watched_posix_def)
      show ?thesis
      proof (cases q)
        case (Inl rc)
        with assms pp close q' nf show ?thesis
          by (auto simp: spawn_posix_def runThen_def Let_def)
      next
        case (Inr pid)
        from assms pp close q' nf Inr obtain out s4 st where
          c: "capture_output (posix_read ?io rd) [] (px_close io wr w3, [Gained rd, Gained wr, Spawned, Released wr]) = Some (out, s4)"
          and a: "await_child ?io pid (px_close io rd (fst s4), snd s4 @ [Released rd]) = Some (st, (w', es))"
          by (auto simp: spawn_posix_def runThen_def Let_def split: option.splits)
        from capture_watched [OF c] await_watched [OF a] show ?thesis by auto
      qed
    qed
  qed
qed

lemma spawn_posix_holds:
  assumes "spawn_posix (watched_posix io) argv dir env file (w, []) = Some (Inr result, (w', es))"
  shows "holding es {#} = {#}"
  using spawn_posix_calls [OF assms] by auto

lemma spawn_posix_leaves:
  assumes "px_pipe io w = (Some (rd, wr), w1)" "px_linux io" "dir = None"
    and "px_spawnp io (hd argv) (file_actions file wr dir) argv (merge_environ env (px_environ io w)) w1 = (Inl rc, w2)"
  shows "\<exists>e es. spawn_posix (watched_posix io) argv dir env file (w, []) = Some (Inl e, (px_close io wr w2, es)) \<and>
    holding es {#} = {#rd#}"
  using assms
  by (simp add: spawn_posix_def posix_pipe_def watched_posix_def record_calls_def record_do_def runThen_def Let_def)

definition watched_win :: "'w win_io \<Rightarrow> 'w held_world win_io" where
  "watched_win io =
     \<lparr>wn_widen = wn_widen io, wn_fold_case = wn_fold_case io, wn_environ = wn_environ io \<circ> fst,
      wn_pipe = record_calls (case_option [] (\<lambda>(rd, wr). [Gained rd, Gained wr])) (wn_pipe io),
      wn_no_inherit = (\<lambda>h. record_do [] (wn_no_inherit io h)),
      wn_open_read = (\<lambda>path. record_calls (case_option [] (\<lambda>h. [Gained h])) (wn_open_read io path)),
      wn_attrs_init = record_calls (\<lambda>_. []) (wn_attrs_init io),
      wn_attrs_inherit = (\<lambda>hs. record_calls (\<lambda>_. []) (wn_attrs_inherit io hs)),
      wn_attrs_delete = record_do [] (wn_attrs_delete io),
      wn_create = (\<lambda>req. record_calls (case_sum (\<lambda>_. []) (\<lambda>(pr, th). [Spawned, Gained pr, Gained th])) (wn_create io req)),
      wn_read = (\<lambda>h n. record_calls (\<lambda>_. [ReadFrom h]) (wn_read io h n)),
      wn_wait = (\<lambda>h. record_do [] (wn_wait io h)), wn_exit_code = (\<lambda>h. record_calls (\<lambda>_. []) (wn_exit_code io h)),
      wn_close = (\<lambda>h. record_do [Released h] (wn_close io h))\<rparr>"

lemma watched_win_simps:
  "wn_pipe (watched_win io) = record_calls (case_option [] (\<lambda>(rd, wr). [Gained rd, Gained wr])) (wn_pipe io)"
  "wn_no_inherit (watched_win io) h = record_do [] (wn_no_inherit io h)"
  "wn_open_read (watched_win io) path = record_calls (case_option [] (\<lambda>h. [Gained h])) (wn_open_read io path)"
  "wn_attrs_init (watched_win io) = record_calls (\<lambda>_. []) (wn_attrs_init io)"
  "wn_attrs_inherit (watched_win io) hs = record_calls (\<lambda>_. []) (wn_attrs_inherit io hs)"
  "wn_attrs_delete (watched_win io) = record_do [] (wn_attrs_delete io)"
  "wn_create (watched_win io) req =
     record_calls (case_sum (\<lambda>_. []) (\<lambda>(pr, th). [Spawned, Gained pr, Gained th])) (wn_create io req)"
  "wn_wait (watched_win io) h = record_do [] (wn_wait io h)"
  "wn_exit_code (watched_win io) h = record_calls (\<lambda>_. []) (wn_exit_code io h)"
  "wn_close (watched_win io) h = record_do [Released h] (wn_close io h)"
  by (simp_all add: watched_win_def)

lemma record_calls_apply: "f w = (x, w1) \<Longrightarrow> record_calls note f (w, es) = (x, (w1, es @ note x))"
  by (simp add: record_calls_def)

lemma record_do_apply: "record_do note f (w, es) = (f w, es @ note)"
  by (simp add: record_do_def)

lemma capture_watched_win:
  assumes "capture_output (win_read (watched_win io) rd) out s = Some (res, s')"
  shows "\<exists>n. snd s' = snd s @ replicate n (ReadFrom rd)"
  using assms
proof (induction "win_read (watched_win io) rd" out s "(res, s')" rule: capture_run)
  case (turn capture_output' out s)
  obtain x w1 where p: "wn_read io rd 4096 (fst s) = (x, w1)" by (cases "wn_read io rd 4096 (fst s)")
  obtain st where st: "win_read (watched_win io) rd s = (st, (w1, snd s @ [ReadFrom rd]))"
    using p by (cases x) (auto simp: win_read_def watched_win_def record_calls_def)
  have again: "\<exists>n. snd s' = snd s @ replicate n (ReadFrom rd)"
    if "capture_output' (win_read (watched_win io) rd) o' (w1, snd s @ [ReadFrom rd]) = Some (res, s')" for o'
  proof -
    from turn.hyps(1) [OF that] obtain n where "snd s' = (snd s @ [ReadFrom rd]) @ replicate n (ReadFrom rd)" by auto
    then show ?thesis by (auto intro!: exI [of _ "Suc n"])
  qed
  show ?case
  proof (cases st)
    case NoMore
    with turn.hyps(2) st show ?thesis by (auto intro!: exI [of _ 1])
  qed (use turn.hyps(2) st again in auto)
qed

text \<open>Windows: whatever fails, every handle gained is released exactly once.\<close>

lemma collect_windows_holds:
  assumes "collect_windows (watched_win io) process rd (w, es) = Some (r, (w', es'))"
  shows "holding es' {#} = holding es {#} - {#process#} - {#rd#}"
proof -
  let ?io = "watched_win io"
  from assms obtain out s1 where c: "capture_output (win_read ?io rd) [] (w, es) = Some (out, s1)"
    by (auto simp: collect_windows_def)
  from capture_watched_win [OF c] have h: "holding (snd s1) {#} = holding es {#}" by auto
  obtain x w2 where "wn_exit_code io process (wn_wait io process (fst s1)) = (x, w2)"
    by (cases "wn_exit_code io process (wn_wait io process (fst s1))")
  with assms c h show ?thesis
    by (cases x) (auto simp: collect_windows_def watched_win_def record_calls_def record_do_def drop_guards_def)
qed

text \<open>The standard input could not be opened, or it was and the child is created or not.\<close>

lemma spawn_windows_opened:
  assumes "spawn_windows (watched_win io) argv dir env file (w, []) = Some (r, (w', es))"
    and "build_environment_block (watched_win io) env (w, []) = Inr block" "wn_pipe io w = (Some (rd, wr), w1)"
    and "wn_open_read io (case file of None \<Rightarrow> [0x4E, 0x55, 0x4C] | Some f \<Rightarrow> widen (watched_win io) f)
      (wn_no_inherit io rd w1) = (Some std_in, w2)"
  shows "holding es {#} = {#}"
proof -
  let ?io = "watched_win io"
  note sim = watched_win_simps record_calls_apply record_do_apply drop_guards_def Let_def
  obtain a w3 where a: "wn_attrs_init io w2 = (a, w3)" by (cases "wn_attrs_init io w2")
  obtain b w4 where b: "wn_attrs_inherit io [wr, std_in] w3 = (b, w4)"
    by (cases "wn_attrs_inherit io [wr, std_in] w3")
  obtain q w5 where q: "wn_create io (create_request ?io argv dir block std_in wr) w4 = (q, w5)"
    by (cases "wn_create io (create_request ?io argv dir block std_in wr) w4")
  note run = a b q assms
  show ?thesis
  proof (cases "a \<and> b")
    case False
    with run show ?thesis by (cases a; cases b) (auto simp: spawn_windows_def sim)
  next
    case True
    show ?thesis
    proof (cases q)
      case (Inl err)
      with True run show ?thesis by (auto simp: spawn_windows_def sim)
    next
      case (Inr ids)
      obtain process thread where ids: "q = Inr (process, thread)" using Inr by (cases ids) simp
      with True run have
        "collect_windows ?io process rd
           (wn_close io thread (wn_close io std_in (wn_close io wr (wn_attrs_delete io w5))),
            [Gained rd, Gained wr, Gained std_in, Spawned, Gained process, Gained thread, Released wr,
             Released std_in, Released thread]) = Some (r, (w', es))"
        by (simp add: spawn_windows_def sim)
      from collect_windows_holds [OF this] show ?thesis by (simp add: add_mset_commute)
    qed
  qed
qed

lemma spawn_windows_holds:
  assumes "spawn_windows (watched_win io) argv dir env file (w, []) = Some (r, (w', es))"
  shows "holding es {#} = {#}"
proof -
  let ?io = "watched_win io"
  note sim = watched_win_simps record_calls_apply record_do_apply drop_guards_def Let_def
  show ?thesis
  proof (cases "build_environment_block ?io env (w, [])")
    case (Inl e)
    with assms show ?thesis by (simp add: spawn_windows_def)
  next
    case eb: (Inr block)
    obtain p w1 where p: "wn_pipe io w = (p, w1)" by (cases "wn_pipe io w")
    show ?thesis
    proof (cases p)
      case None
      with p eb assms show ?thesis by (auto simp: spawn_windows_def sim)
    next
      case (Some ends)
      obtain rd wr where ends: "p = Some (rd, wr)" using Some by (cases ends) simp
      let ?path = "case file of None \<Rightarrow> [0x4E, 0x55, 0x4C] | Some f \<Rightarrow> widen ?io f"
      obtain i w2 where i: "wn_open_read io ?path (wn_no_inherit io rd w1) = (i, w2)"
        by (cases "wn_open_read io ?path (wn_no_inherit io rd w1)")
      show ?thesis
      proof (cases i)
        case None
        with p ends i eb assms show ?thesis by (auto simp: spawn_windows_def sim)
      next
        case (Some std_in)
        with p ends i show ?thesis by (auto intro: spawn_windows_opened [OF assms eb])
      qed
    qed
  qed
qed

subsection \<open>The staged input is removed\<close>

text \<open>Whether the child's run succeeds or throws, removing the staged file is the last thing done.\<close>

lemma run_process_staged:
  assumes "argv \<noteq> []" "stage_stdin_file sg stdin_data w = (Inr file, w0)"
  shows "run_process sg spawn argv dir env stdin_data w =
    map_option (\<lambda>(r, w1). (r, remove_quietly sg file w1)) (spawn argv dir env file w0)"
proof (cases "spawn argv dir env file w0")
  case None
  with assms show ?thesis by (simp add: run_process_def runThen_def runCatching_def)
next
  case (Some o1)
  obtain r w1 where "o1 = (r, w1)" by (cases o1)
  with Some assms show ?thesis
    by (cases r) (simp_all add: run_process_def runThen_def runCatching_def modify_def andThen_def ret_def throw_def)
qed

lemma staged_input:
  assumes "stage_stdin_file sg (Some bytes) w = (Inr file, w0)"
  shows "\<exists>path w1. file = Some path \<and> w0 = sg_write sg path bytes w1"
  using assms unfolding stage_stdin_file_def Let_def split_def by (auto simp: andThen_Inr)

lemma run_process_no_input:
  "argv \<noteq> [] \<Longrightarrow> run_process sg spawn argv dir env None w = spawn argv dir env None w"
  using run_process_staged [of argv sg None w None w spawn dir env]
  by (simp add: stage_stdin_file_def ret_def remove_quietly_def option.map_ident split_def)

end
