(* ===== verification/Spawned.thy ===== *)
theory Spawned
  imports Process Compose
begin

section \<open>Callers of a child process\<close>

text \<open>
  \<open>run_process\<close> of \<open>src/Process.cpp\<close> under its two callers: the credential helpers of
  \<open>src/docker/Auth.cpp\<close> and the local compose client of \<open>src/compose/ComposeClients.cpp\<close>, which take it as
  a parameter in \<open>Registry\<close> and \<open>Compose\<close>.
\<close>

subsection \<open>The calls\<close>

type_synonym 'w spawn =
  "string list \<Rightarrow> string option \<Rightarrow> (string \<times> string) list \<Rightarrow> string option \<Rightarrow> ('w, ProcessResult) run"

definition process_result :: "ProcessResult res \<Rightarrow> (int \<times> string) res" where
  "process_result r = try_bind r (\<lambda>p. Inr (pr_exit_code p, pr_output p))"

text \<open>
  The call as its callers see it once it has come back.  A child that never ends keeps them for ever; what
  is given here for that case is never used, since the statements below are about calls that come back.
\<close>

definition finished_call :: "('w, ProcessResult) run \<Rightarrow> 'w \<Rightarrow> (int \<times> string) res \<times> 'w" where
  "finished_call m w =
     (case m w of
        None \<Rightarrow> (Inl (Foreign ''still running''), w)
      | Some (r, w1) \<Rightarrow> (process_result r, w1))"

definition helper_call :: "'w staging \<Rightarrow> 'w spawn \<Rightarrow> 'w helper_process" where
  "helper_call sg spawn argv server_url = finished_call (run_process sg spawn argv None [] (Some server_url))"

definition compose_call ::
  "'w staging \<Rightarrow> 'w spawn \<Rightarrow> string list \<Rightarrow> (string \<times> string) list \<Rightarrow> 'w \<Rightarrow> (int \<times> string) res \<times> 'w" where
  "compose_call sg spawn argv env = finished_call (run_process sg spawn argv None env None)"

definition compose_on :: "'w staging \<Rightarrow> 'w spawn \<Rightarrow> 'w compose_io \<Rightarrow> 'w compose_io" where
  "compose_on sg spawn io = io\<lparr>co_process := compose_call sg spawn\<rparr>"

subsection \<open>run\_process step by step\<close>

lemma run_process_unstaged:
  assumes "argv \<noteq> []" "spawn argv dir env None w = Some (r, w1)"
  shows "run_process sg spawn argv dir env None w = Some (r, w1)"
  using assms
  by (cases r) (simp_all add: run_process_def stage_stdin_file_def runThen_def runCatching_def remove_quietly_def)

lemma run_process_with_input:
  assumes "argv \<noteq> []" "sg_temp_dir sg w = (Inr tmp, w1)" "random_hex (sg_draw sg) 16 w1 = (hex, w2)"
    and "path = path_join tmp (''tc-stdin-'' @ hex @ ''.tmp'')"
    and "spawn argv dir env (Some path) (sg_write sg path bytes w2) = Some (r, w3)"
  shows "run_process sg spawn argv dir env (Some bytes) w = Some (r, sg_remove sg path w3)"
proof -
  have "stage_stdin_file sg (Some bytes) w = (Inr (Some path), sg_write sg path bytes w2)"
    using assms(2,3) by (simp add: stage_stdin_file_def Let_def assms(4))
  from run_process_staged [OF assms(1) this, of spawn dir env] assms(5) show ?thesis
    by (simp add: remove_quietly_def)
qed

lemma run_process_unstageable:
  assumes "argv \<noteq> []" "sg_temp_dir sg w = (Inl e, w1)"
  shows "run_process sg spawn argv dir env (Some bytes) w = Some (Inl e, w1)"
  using assms by (simp add: run_process_def stage_stdin_file_def runThen_def)

subsection \<open>Credential helpers\<close>

text \<open>
  The helper reads the server's URL from a file that exists only while it runs; whatever goes wrong is no
  credentials, never an exception.
\<close>

lemma helper_credentials:
  assumes "sg_temp_dir sg w = (Inr tmp, w1)" "random_hex (sg_draw sg) 16 w1 = (hex, w2)"
    and "path = path_join tmp (''tc-stdin-'' @ hex @ ''.tmp'')"
    and "spawn [''docker-credential-'' @ helper, ''get''] None [] (Some path)
       (sg_write sg path (if registry = kDockerHub then kDockerHubAuthKey else registry) w2) = Some (r, w3)"
  shows "auth_from_credential_helper L (helper_call sg spawn) helper registry w =
    ((case r of
        Inl e \<Rightarrow> None
      | Inr p \<Rightarrow> if pr_exit_code p \<noteq> 0 then None else parse_credential_helper_output L (pr_output p) registry),
     sg_remove sg path w3)"
  using run_process_with_input [where spawn = spawn and argv = "[''docker-credential-'' @ helper, ''get'']", OF _ assms]
  by (simp add: auth_from_credential_helper_def helper_call_def finished_call_def process_result_def Let_def
      split: sum.splits)

subsection \<open>docker compose on the host\<close>

lemma local_compose_on:
  assumes "argv \<noteq> []" "spawn argv None env None w = Some (r, w1)"
  shows "local_compose (compose_on sg spawn io) verb argv env w =
    ((case r of
        Inl e \<Rightarrow> Inl e
      | Inr p \<Rightarrow> if pr_exit_code p \<noteq> 0 then Inl (compose_failed verb (pr_exit_code p) (pr_output p)) else Inr ()), w1)"
  using run_process_unstaged [where spawn = spawn, OF assms]
  by (simp add: local_compose_def compose_on_def compose_call_def finished_call_def process_result_def split: sum.splits)

lemma spawn_posix_step:
  assumes "px_pipe px w = (Some (rd, wr), w1)" "px_linux px"
    and "px_spawnp px (hd argv) (file_actions stdin_file wr None) argv (merge_environ env (px_environ px w)) w1 =
      (Inr pid, w2)"
    and "capture_output (posix_read px rd) [] (px_close px wr w2) = Some (out, w3)"
    and "await_child px pid (px_close px rd w3) = Some (st, w4)"
  shows "spawn_posix px argv None env stdin_file w = Some (exit_of st out, w4)"
  using assms by (simp add: spawn_posix_def posix_pipe_def runThen_def Let_def)

text \<open>
  \<open>compose up\<close> end to end on POSIX: the vector and the environment the child gets, and what becomes of its
  exit status and output.
\<close>

lemma compose_up_spawned:
  assumes "px_pipe px w = (Some (rd, wr), w1)" "px_linux px"
    and "px_spawnp px ''docker'' (file_actions None wr None)
        (docker_compose_prefix @ [''--project-directory'', dir] @ build_compose_up_args (command\<lparr>uc_files := files\<rparr>))
        (merge_environ (uc_env command) (px_environ px w)) w1 = (Inr pid, w2)"
    and "capture_output (posix_read px rd) [] (px_close px wr w2) = Some (out, w3)"
    and "await_child px pid (px_close px rd w3) = Some (Exited code, w4)"
  shows "local_up (compose_on sg (spawn_posix px) io) files dir command w =
    ((if code = 0 then Inr () else Inl (compose_failed ''up'' code out)), w4)"
proof -
  let ?argv = "docker_compose_prefix @ [''--project-directory'', dir] @ build_compose_up_args (command\<lparr>uc_files := files\<rparr>)"
  have hd: "hd ?argv = ''docker''" and ne: "?argv \<noteq> []" by (simp_all add: docker_compose_prefix_def)
  have "spawn_posix px ?argv None (uc_env command) None w = Some (exit_of (Exited code) out, w4)"
    by (rule spawn_posix_step [OF assms(1,2) _ assms(4,5)]) (unfold hd, rule assms(3))
  from local_compose_on [where spawn = "spawn_posix px", OF ne this] show ?thesis
    by (simp add: local_up_def exit_of_def)
qed

text \<open>Availability is the exit status of \<open>docker compose version\<close>; a child that cannot start is an absence.\<close>

lemma availability_spawned:
  assumes "spawn [''docker'', ''compose'', ''version''] None [] None w = Some (r, w1)"
  shows "host_docker_compose_available (compose_on sg spawn io) w =
    ((case r of Inl e \<Rightarrow> False | Inr p \<Rightarrow> pr_exit_code p = 0), w1)"
  using run_process_unstaged [where spawn = spawn, OF _ assms]
  by (simp add: host_docker_compose_available_def compose_on_def compose_call_def finished_call_def
      process_result_def split: sum.splits)

end
