(* ===== verification/Version.thy ===== *)
theory Version
  imports TC_Prelude
begin

section \<open>Versions\<close>

text \<open>
  \<open>src/version.cpp\<close>: the report of the library's and its dependencies' versions.  The version macros
  of the build are the record \<open>build_versions\<close>; the OpenSSL line is there when the build links it.
\<close>

record build_versions =
  bv_library :: string
  bv_boost :: nat
  bv_beast :: nat
  bv_json :: "nat \<times> nat \<times> nat"
  bv_openssl :: "string option"
  bv_libarchive :: string

definition version :: "build_versions \<Rightarrow> string" where
  "version b = bv_library b"

definition dotted :: "nat \<Rightarrow> nat \<Rightarrow> nat \<Rightarrow> string" where
  "dotted major minor patch = to_dec major @ ''.'' @ to_dec minor @ ''.'' @ to_dec patch"

text \<open>\<open>BOOST_VERSION\<close> holds the three numbers in decimal.\<close>

definition boost_dotted :: "nat \<Rightarrow> string" where
  "boost_dotted n = dotted (n div 100000) (n div 100 mod 1000) (n mod 100)"

definition dependency_report :: "build_versions \<Rightarrow> string" where
  "dependency_report b =
     (let line = (\<lambda>name text. name @ text @ [CHR 0x0A]); (major, minor, patch) = bv_json b in
      line ''testcontainers-cpp '' (version b) @
      line ''  Boost      '' (boost_dotted (bv_boost b)) @
      line ''  Beast      '' (to_dec (bv_beast b)) @
      line ''  nlohmann   '' (dotted major minor patch) @
      (case bv_openssl b of None \<Rightarrow> [] | Some text \<Rightarrow> line ''  OpenSSL    '' text) @
      line ''  libarchive '' (bv_libarchive b))"

text \<open>The decoding of Boost's number is exact as long as the parts keep to their digits.\<close>

lemma boost_dotted_parts:
  assumes "minor < 1000" "patch < 100"
  shows "boost_dotted (major * 100000 + minor * 100 + patch) = dotted major minor patch"
proof -
  have "(major * 100000 + minor * 100 + patch) div 100 = major * 1000 + minor" using assms by simp
  moreover have "(major * 100000 + minor * 100 + patch) div 100000 = major" using assms by simp
  moreover have "(major * 100000 + minor * 100 + patch) mod 100 = patch"
  proof -
    have "major * 100000 + minor * 100 + patch = patch + 100 * (major * 1000 + minor)" by simp
    then show ?thesis using assms(2) by (simp only: mod_mult_self2 mod_less)
  qed
  ultimately show ?thesis using assms by (simp add: boost_dotted_def)
qed

end
