(* ===== verification/Scripted.thy ===== *)
theory Scripted
  imports Images
begin

section \<open>A scripted daemon\<close>

text \<open>
  A concrete world for the examples: a clock in milliseconds that only sleeps move, the requests
  sent so far, and a script that answers a method and a target with a status and a body.  Every
  socket operation succeeds; a connection is the number 7.
\<close>

record script =
  sc_now :: int
  sc_sent :: "(string \<times> string) list"

definition quiet :: script where
  "quiet = \<lparr>sc_now = 0, sc_sent = []\<rparr>"

type_synonym answers = "string \<Rightarrow> string \<Rightarrow> int \<times> string"

text \<open>A JSON library that knows a few documents.\<close>

definition script_json :: jsonlib where
  "script_json =
     \<lparr>jl_parse = (\<lambda>s. if s = ''{id}'' then Inr (JObj [(''Id'', JStr ''c1'')])
                      else if s = ''{linux}'' then Inr (JObj [(''Os'', JStr ''linux'')])
                      else if s = ''{port}'' then
                        Inr (JObj [(''NetworkSettings'', JObj [(''Ports'', JObj [(''8080/tcp'',
                          JArr [JObj [(''HostIp'', JStr ''0.0.0.0''), (''HostPort'', JStr ''49153'')]])])])])
                      else if s = ''{nets}'' then
                        Inr (JArr [JObj [(''Id'', JStr ''n1''), (''Name'', JStr ''net'')]])
                      else if s = ''{done}'' then
                        Inr (JObj [(''State'', JObj [(''ExitCode'', JInt 0),
                          (''Health'', JObj [(''Status'', JStr ''healthy'')]),
                          (''Running'', JBool False), (''Status'', JStr ''exited'')])])
                      else Inr (JObj [])),
      jl_dump = (\<lambda>j. ''{}''), jl_error = (\<lambda>n. ''json'')\<rparr>"

definition script_net :: "answers \<Rightarrow> script net" where
  "script_net answers =
     \<lparr>net_connect = (\<lambda>h t w. (Inr 7, w)),
      net_exchange = (\<lambda>n rq cap hd w.
        (case answers (rq_method rq) (rq_target rq) of (status, body) \<Rightarrow>
           \<lparr>wr_write_ec = None, wr_read_ec = None, wr_done = True,
            wr_response = \<lparr>rs_status_code = status, rs_reason = [], rs_body = body, rs_headers = []\<rparr>,
            wr_keep_alive = True, wr_need_eof = False\<rparr>,
         w\<lparr>sc_sent := sc_sent w @ [(rq_method rq, rq_target rq)]\<rparr>)),
      net_set_io_timeout = (\<lambda>n t w. w), net_close = (\<lambda>n w. w),
      net_sleep = (\<lambda>ms w. w\<lparr>sc_now := sc_now w + ms\<rparr>), net_auth = (\<lambda>img w. (None, w)),
      net_json = script_json, net_version = ''0''\<rparr>"

definition script_clock :: clock where
  "script_clock = \<lparr>ticks_per_ms = 1, time_max = 2 ^ 62\<rparr>"

definition script_stream :: "answers \<Rightarrow> script stream_io" where
  "script_stream answers =
     \<lparr>si_net = script_net answers, si_clock = script_clock, si_now = sc_now,
      si_write = (\<lambda>n rq w. (None, w\<lparr>sc_sent := sc_sent w @ [(rq_method rq, rq_target rq)]\<rparr>)),
      si_write_block = (\<lambda>n b w. (None, w)), si_write_all = (\<lambda>n b w. (None, w)),
      si_shutdown_send = (\<lambda>n w. w), si_supports_half_close = (\<lambda>n w. False),
      si_read_header = (\<lambda>n w. (\<lparr>hr_ec = None, hr_done = True, hr_status = 200, hr_leftover = []\<rparr>, w)),
      si_read_full = (\<lambda>n cap w. (\<lparr>fu_ec = None, fu_done = True, fu_header_done = True, fu_status = 200,
                                  fu_body = []\<rparr>, w)),
      si_body = (\<lambda>n dl w. ([], w)), si_raw = (\<lambda>n dl w. ([], w)),
      si_exchange = (\<lambda>n s b dl w. (([], OtherError), w)), si_ec_message = (\<lambda>ec. ''ec'')\<rparr>"

definition script_wait :: "answers \<Rightarrow> script wait_io" where
  "script_wait answers =
     \<lparr>wi_stream = script_stream answers, wi_ticks = (\<lambda>w n. sc_now w),
      wi_sleep_until = (\<lambda>t w. w\<lparr>sc_now := max t (sc_now w)\<rparr>),
      wi_tcp = (\<lambda>h p b w. (\<lparr>px_threw = False, px_resolve_ec = None, px_connect_ec = None,
        px_write_ec = None, px_read_ec = None, px_received = 0, px_status = 200\<rparr>, w)),
      wi_http = (\<lambda>h p rq b w. (\<lparr>px_threw = False, px_resolve_ec = None, px_connect_ec = None,
        px_write_ec = None, px_read_ec = None, px_received = 1, px_status = 200\<rparr>, w)),
      wi_env = (\<lambda>name. None), wi_files = (\<lambda>path. []), wi_exists = (\<lambda>path. False), wi_cache = Some Map.empty\<rparr>"

definition no_files :: host_fs where
  "no_files =
     \<lparr>hf_size = (\<lambda>p. Inl (Foreign ''no such file'')), hf_mtime = (\<lambda>p. None), hf_is_dir = (\<lambda>p. False),
      hf_walk = (\<lambda>p. ([], None)), hf_read = (\<lambda>p. None)\<rparr>"

definition script_run :: "answers \<Rightarrow> script run_io" where
  "script_run answers =
     \<lparr>ro_wait = script_wait answers, ro_fuel = 5, ro_fs = no_files,
      ro_format = (\<lambda>t. map ti_body (fst t)), ro_wire = (\<lambda>spec ports. ret spec),
      ro_system_seconds = sc_now, ro_session_id = ''abc''\<rparr>"

text \<open>The same with every switch of the environment on: no reaper, reuse enabled.\<close>

definition switched_run :: "answers \<Rightarrow> script run_io" where
  "switched_run answers =
     (script_run answers)\<lparr>ro_wait := (script_wait answers)\<lparr>wi_env := (\<lambda>name. Some ''true'')\<rparr>\<rparr>"

definition script_reap :: "answers \<Rightarrow> script reap_io" where
  "script_reap answers =
     \<lparr>rp_run = script_run answers, rp_resolve = (\<lambda>h p w. (None, w)),
      rp_connect = (\<lambda>h p b w. ((None, 9), w)), rp_write = (\<lambda>n l b w. (None, w)),
      rp_read_line = (\<lambda>n b w. ((None, ''ACK''), w)), rp_close = (\<lambda>n w. w), rp_no_error = ''Success''\<rparr>"

definition script_handles :: "answers \<Rightarrow> script handle_io" where
  "script_handles answers =
     \<lparr>ho_run = script_run answers, ho_reaper = ret (), ho_release = (\<lambda>name. ret ()),
      ho_random_name = (\<lambda>w. (''tc-1'', w))\<rparr>"

text \<open>A client whose version is pinned, on a Unix socket.\<close>

definition script_client :: "script client" where
  "script_client =
     (new_client (docker_host Unix ''unix:///s'' ''/s'' [] 0) Map.empty quiet)\<lparr>cl_api_prefix := Some ''/v1''\<rparr>"

definition answer :: "(string \<times> string \<times> int \<times> string) list \<Rightarrow> answers" where
  "answer table method target =
     (case List.find (\<lambda>(m, t, _). m = method \<and> t = target) table of
        Some (_, _, r) \<Rightarrow> r | None \<Rightarrow> (500, ''boom''))"

text \<open>What an example shows of an outcome: a view of the value, and the requests sent.\<close>

definition shown :: "('a \<Rightarrow> 'b) \<Rightarrow> 'a res \<times> script client \<Rightarrow> 'b res \<times> (string \<times> string) list" where
  "shown f out =
     ((case fst out of Inl e \<Rightarrow> Inl e | Inr x \<Rightarrow> Inr (f x)), sc_sent (cl_world (snd out)))"

lemma shown_Inl: "shown f out = (Inl e, sent) \<longleftrightarrow> (\<exists>c. out = (Inl e, c) \<and> sc_sent (cl_world c) = sent)"
  by (cases out) (auto simp: shown_def split: sum.splits)

lemma shown_Inr:
  "shown f out = (Inr y, sent) \<longleftrightarrow> (\<exists>x c. out = (Inr x, c) \<and> f x = y \<and> sc_sent (cl_world c) = sent)"
  by (cases out) (auto simp: shown_def split: sum.splits)

definition start_fails :: answers where
  "start_fails = answer [(''POST'', ''/v1/containers/create'', 201, ''{id}''),
     (''DELETE'', ''/v1/containers/c1?force=true&v=true'', 204, [])]"

definition all_well :: answers where
  "all_well = answer [(''POST'', ''/v1/containers/create'', 201, ''{id}''),
     (''POST'', ''/v1/containers/c1/start'', 204, []),
     (''DELETE'', ''/v1/containers/c1?force=true&v=true'', 204, []),
     (''GET'', ''/v1/version'', 200, ''{linux}'')]"

lemmas script_defs = script_net_def script_stream_def script_wait_def script_run_def script_reap_def
  script_handles_def script_json_def script_clock_def quiet_def no_files_def script_client_def answer_def

lemma script_time_runs: "time_runs (script_wait answers)"
  by (simp add: time_runs_def script_defs Let_def split_def)

lemma script_reaper_time_runs: "reaper_time_runs (script_reap answers)"
  using script_time_runs [of answers] by (simp add: reaper_time_runs_def script_defs Let_def)

subsection \<open>What the scripted daemon answers\<close>

definition sent :: "string \<Rightarrow> string \<Rightarrow> script client \<Rightarrow> script client" where
  "sent method target c =
     c\<lparr>cl_world := (cl_world c)\<lparr>sc_sent := sc_sent (cl_world c) @ [(method, target)]\<rparr>\<rparr>"

definition reply :: "int \<times> string \<Rightarrow> Response" where
  "reply a = \<lparr>rs_status_code = fst a, rs_reason = [], rs_body = snd a, rs_headers = []\<rparr>"

lemma reply_simps [simp]: "rs_status_code (reply a) = fst a" "rs_body (reply a) = snd a" "rs_headers (reply a) = []"
  by (simp_all add: reply_def)

lemma sent_simps [simp]:
  "cl_api_prefix (sent m t c) = cl_api_prefix c" "cl_session_enabled (sent m t c) = cl_session_enabled c"
  "cl_os_cache (sent m t c) = cl_os_cache c" "cl_host (sent m t c) = cl_host c"
  "cl_timeouts (sent m t c) = cl_timeouts c" "cl_session_transport (sent m t c) = cl_session_transport c"
  "sc_now (cl_world (sent m t c)) = sc_now (cl_world c)"
  "sc_sent (cl_world (sent m t c)) = sc_sent (cl_world c) @ [(m, t)]"
  by (simp_all add: sent_def)

text \<open>Outside a session a request is answered as the script says.\<close>

lemma script_request:
  assumes "\<not> (cl_session_enabled c \<and> m = ''GET'')"
  shows "request (script_net answers) m t b h c = (Inr (reply (answers m t)), sent m t c)"
proof -
  have "request_with_io_timeout (script_net answers) m t b h io c =
      (Inr (reply (answers m t)), sent m t c)" for io
    unfolding request_not_reused [OF assms]
    by (cases "answers m t")
      (simp add: fresh_request_def andThen_apply world_res_def world_do_def perform_def perform_result_def
        make_request_def script_net_def sent_def reply_def Let_def)
  then show ?thesis by (simp add: request_def)
qed

lemma script_create:
  assumes "cl_api_prefix c = Some p" "cs_create_body_patch spec = []"
    and "answers ''POST'' (p @ ''/containers/create'' @ build_create_query url_encode spec) = (201, ''{id}'')"
  shows "create_container (script_net answers) spec auth c =
    (Inr ''c1'', sent ''POST'' (p @ ''/containers/create'' @ build_create_query url_encode spec) c)"
proof -
  have "net_json (script_net answers) = script_json" by (simp add: script_net_def)
  moreover have "expect_string_field script_json ''{id}'' ''Id'' ctx = Inr ''c1''" for ctx
    by (simp add: expect_string_field_def json_parse_def json_at_def get_string_def script_json_def jfind_def)
  ultimately show ?thesis
    using assms
    by (simp add: create_container_def build_create_body_def versioned_pinned script_request Let_def
        andThen_apply)
qed

lemma script_start:
  assumes "cl_api_prefix c = Some p"
  shows "start_container (script_net answers) cid c =
    (if fst (answers ''POST'' (p @ ''/containers/'' @ cid @ ''/start'')) \<in> {204, 304} then Inr ()
     else Inl (response_error (''start_container('' @ cid @ '')'')
                 (reply (answers ''POST'' (p @ ''/containers/'' @ cid @ ''/start''))) cid),
     sent ''POST'' (p @ ''/containers/'' @ cid @ ''/start'') c)"
  using assms
  by (simp add: start_container_def versioned_pinned expect_status_cases script_request andThen_apply)

text \<open>A run of a plain request against a daemon that answers well.\<close>

definition plain_spec :: "CreateContainerSpec \<Rightarrow> bool" where
  "plain_spec spec \<longleftrightarrow> cs_create_body_patch spec = [] \<and> cs_name spec = None \<and> cs_platform spec = None"

lemma plain_specs [simp]:
  "plain_spec empty_create_spec" "plain_spec (add_labels ls spec) = plain_spec spec"
  "plain_spec (spec\<lparr>cs_image := img\<rparr>) = plain_spec spec" "plain_spec (ryuk_spec wio b)"
  by (simp_all add: plain_spec_def empty_create_spec_def add_labels_def ryuk_spec_def)

lemma script_create_plain:
  assumes "plain_spec spec" "cl_api_prefix c = Some ''/v1''"
    and "answers ''POST'' ''/v1/containers/create'' = (201, ''{id}'')"
  shows "create_container (script_net answers) spec auth c =
    (Inr ''c1'', sent ''POST'' ''/v1/containers/create'' c)"
proof -
  have "build_create_query url_encode spec = []" using assms(1) by (simp add: build_create_query_def plain_spec_def)
  with assms script_create [of c "''/v1''" spec answers auth] show ?thesis by (simp add: plain_spec_def)
qed

lemma script_client_simps [simp]:
  "cl_api_prefix script_client = Some ''/v1''" "\<not> cl_session_enabled script_client"
  "cl_session_transport script_client = None" "cl_os_cache script_client = Map.empty"
  "sc_sent (cl_world script_client) = []" "dh_url (cl_host script_client) = ''unix:///s''"
  "sc_now (cl_world script_client) = 0"
  by (simp_all add: script_client_def new_client_def quiet_def docker_host_def)

lemma script_nets [simp]:
  "si_net (script_stream answers) = script_net answers"
  "wi_stream (script_wait answers) = script_stream answers" "ro_wait (script_run answers) = script_wait answers"
  "rp_run (script_reap answers) = script_run answers" "ho_run (script_handles answers) = script_run answers"
  "net_json (script_net answers) = script_json"
  by (simp_all add: script_net_def script_stream_def script_wait_def script_run_def script_reap_def
      script_handles_def)

lemma empty_request_simps [simp]:
  "cr_spec empty_request = empty_create_spec" "cr_registry_auth empty_request = None"
  "cr_copy_to_sources empty_request = []" "cr_waits empty_request = []" "cr_created_hooks empty_request = []"
  "cr_starting_hooks empty_request = []" "cr_started_hooks empty_request = []"
  "cr_stopping_hooks empty_request = []" "cr_exposed_ports empty_request = []" "\<not> cr_reuse empty_request"
  "cr_host_access_ports empty_request = []" "pull_first rio empty_request = ret ()"
  "attempts_left empty_request = 0"
  by (simp_all add: empty_request_def pull_first_def attempts_left_def)

lemma script_bring_up:
  assumes "cl_api_prefix c = Some ''/v1''" "\<not> cl_session_enabled c" "cl_session_transport c = None"
    and "fst (answers ''POST'' ''/v1/containers/c1/start'') = 204"
  shows "bring_up (script_run answers) empty_request s ''c1'' c =
    Some (Inr (), sent ''POST'' ''/v1/containers/c1/start'' c)"
  using assms
  by (simp add: bring_up_def runThen_def copy_to_container_def andThen_apply script_start
      wait_until_ready_def with_session_run_def session_begin_def session_finish_def end_session_def
      Let_def sent_def)

lemma script_run_ok:
  assumes "answers ''POST'' ''/v1/containers/create'' = (201, ''{id}'')"
    and "fst (answers ''POST'' ''/v1/containers/c1/start'') = 204"
  shows "runner_run (script_run answers) empty_request script_client =
    Some (Inr (new_handle ''c1'' True False [] []),
      sent ''POST'' ''/v1/containers/c1/start'' (sent ''POST'' ''/v1/containers/create'' script_client))"
proof -
  have "cs_tty (add_labels ls empty_create_spec) = False" for ls
    by (simp add: add_labels_def empty_create_spec_def)
  with assms show ?thesis
    by (simp add: runner_run_def runThen_def runCatching_def create_start_wait_def script_create_plain
        script_bring_up)
qed

text \<open>A daemon on which Ryuk comes up, and a client that knows its operating system.\<close>

definition ryuk_up :: answers where
  "ryuk_up = answer [(''POST'', ''/v1/containers/create'', 201, ''{id}''),
     (''POST'', ''/v1/containers/c1/start'', 204, []), (''GET'', ''/v1/version'', 200, ''{linux}''),
     (''GET'', ''/v1/containers/c1/json'', 200, ''{port}'')]"

definition known_linux :: "script client" where
  "known_linux = script_client\<lparr>cl_os_cache := [''unix:///s'' \<mapsto> ''linux'']\<rparr>"

lemma known_linux_simps [simp]:
  "cl_api_prefix known_linux = Some ''/v1''" "\<not> cl_session_enabled known_linux"
  "cl_os_cache known_linux ''unix:///s'' = Some ''linux''" "dh_url (cl_host known_linux) = ''unix:///s''"
  "sc_now (cl_world known_linux) = 0"
  by (simp_all add: known_linux_def)

lemma script_port:
  "\<exists>i. parse_inspect script_json ''{port}'' = Inr i \<and> select_host_port (ci_ports i) kRyukPort Any = Some 49153"
proof -
  have d: "parse_dec 65535 ''49153'' = Some 49153"
    by (simp add: parse_dec_def from_chars_dec_def is_digit_iff dec_value_def Let_def)
  have i: "is_ipv6_host_ip ''0.0.0.0'' = False" by code_simp
  have p: "jl_parse script_json ''{port}'' = Inr (JObj [(''NetworkSettings'', JObj [(''Ports'',
      JObj [(''8080/tcp'', JArr [JObj [(''HostIp'', JStr ''0.0.0.0''), (''HostPort'', JStr ''49153'')]])])])])"
    by (simp add: script_json_def)
  have ps: "parse_ports script_json (JObj [(''NetworkSettings'', JObj [(''Ports'',
      JObj [(''8080/tcp'', JArr [JObj [(''HostIp'', JStr ''0.0.0.0''), (''HostPort'', JStr ''49153'')]])])])])
      = Inr [(''8080/tcp'', [\<lparr>pb_host_ip = ''0.0.0.0'', pb_host_port = 49153\<rparr>])]"
    by (simp add: parse_ports_def jfind_obj_def jfind_def parse_bindings_def parse_binding_def json_value_def get_string_def
        jfind_str_def d List.map_filter_def)
  show ?thesis
    by (simp add: parse_inspect_def parse_inspect_unguarded_def json_parse_def p ps json_value_def get_string_def
        jfind_obj_def jfind_def parse_state_def parse_host_config_def guard_parse_def select_host_port_def
        kRyukPort_def i)
qed

lemma script_inspect:
  assumes "cl_api_prefix c = Some p" "\<not> cl_session_enabled c"
    and "answers ''GET'' (p @ ''/containers/'' @ cid @ ''/json'') = (200, body)"
  shows "inspect_container (script_net answers) cid c =
    (parse_inspect script_json body, sent ''GET'' (p @ ''/containers/'' @ cid @ ''/json'') c)"
  using assms
  by (simp add: inspect_container_def inspect_container_raw_def versioned_pinned expect_status_cases
      script_request andThen_apply lift_res_def split: sum.splits)

lemma script_ryuk_up:
  "\<exists>c' d. boot_daemon 1 (script_reap ryuk_up) known_linux = Some (Inr (Some d), c')"
proof -
  let ?r = "script_reap ryuk_up"
  have up: "ryuk_up ''POST'' ''/v1/containers/create'' = (201, ''{id}'')"
    "fst (ryuk_up ''POST'' ''/v1/containers/c1/start'') = 204"
    "ryuk_up ''GET'' ''/v1/containers/c1/json'' = (200, ''{port}'')"
    by code_simp+
  obtain i where i: "parse_inspect script_json ''{port}'' = Inr i"
      "select_host_port (ci_ports i) kRyukPort Any = Some 49153"
    using script_port by auto
  have lin: "find_str ''windows'' (to_lower ''linux'') = None" by code_simp
  have start: "\<exists>ep c1. start_ryuk ?r True known_linux = (Inr ep, c1) \<and> sc_now (cl_world c1) = 0"
    using up i
    by (simp add: start_ryuk_def andThen_apply script_create_plain script_start
        script_inspect [of _ "''/v1''"])
  then obtain ep c1 where ep: "start_ryuk ?r True known_linux = (Inr ep, c1)" "sc_now (cl_world c1) = 0" by blast
  have "\<exists>c2 d. greet 1 ?r ep c1 = Some (Inr (Some d), c2)"
    using ep(2)
    by (simp add: greet_def runThen_def handshake.simps past_def now_of_def script_reap_def script_run_def
        script_wait_def script_stream_def script_clock_def handshake_turn_def send_filter_line_def
        world_op_def andThen_apply is_ack_def starts_with_def Let_def)
  with ep(1) lin show ?thesis
    by (simp add: boot_daemon_def is_windows_engine_def server_os_def runThen_def andThen_apply)
qed

lemma script_reaper_booted:
  "\<exists>d. (reaper_step (script_reap ryuk_up))\<^sup>*\<^sup>* Map.empty [''unix:///s'' \<mapsto> Some d]"
proof -
  let ?r = "script_reap ryuk_up"
  obtain c' d where b: "boot_daemon 1 ?r known_linux = Some (Inr (Some d), c')"
    using script_ryuk_up by blast
  have "\<not> ryuk_disabled (rp_run ?r)" by code_simp
  with b have "ensure_started 1 ?r (known_linux, Map.empty) =
      Some (Inr (), (c', [''unix:///s'' \<mapsto> Some d]))"
    by (simp add: ensure_started_def daemon_locked_def runThen_def)
  then have "(reaper_step ?r)\<^sup>*\<^sup>* Map.empty [''unix:///s'' \<mapsto> Some d]"
    by (intro r_into_rtranclp) (rule reaper_step.intros)
  then show ?thesis ..
qed

lemma script_clock_wakes: "clock_wakes (script_wait answers)"
  by (simp add: clock_wakes_def script_wait_def script_stream_def)

text \<open>A world in which every connection to a published port is refused.\<close>

definition refusing :: "script wait_io" where
  "refusing = (script_wait ryuk_up)\<lparr>wi_tcp := \<lambda>h p b w. (\<lparr>px_threw = False, px_resolve_ec = None,
     px_connect_ec = Some (EcOther ''refused''), px_write_ec = None, px_read_ec = None, px_received = 0,
     px_status = 0\<rparr>, w)\<rparr>"

lemma refusing_simps [simp]:
  "wi_stream refusing = script_stream ryuk_up"
  "wi_tcp refusing h p b w = (\<lparr>px_threw = False, px_resolve_ec = None, px_connect_ec = Some (EcOther ''refused''),
     px_write_ec = None, px_read_ec = None, px_received = 0, px_status = 0\<rparr>, w)"
  by (simp_all add: refusing_def script_wait_def)

text \<open>A container that has ended well.\<close>

lemma script_done:
  "\<exists>i. parse_inspect script_json ''{done}'' = Inr i \<and> \<not> ci_running i \<and> ci_exit_code i = Some 0 \<and>
     ci_health_status i = Some ''healthy''"
proof -
  have p: "jl_parse script_json ''{done}'' = Inr (JObj [(''State'', JObj [(''ExitCode'', JInt 0),
      (''Health'', JObj [(''Status'', JStr ''healthy'')]), (''Running'', JBool False),
      (''Status'', JStr ''exited'')])])"
    by (simp add: script_json_def)
  show ?thesis
    by (simp add: parse_inspect_def parse_inspect_unguarded_def json_parse_def p json_value_def get_string_def
        get_bool_def jfind_obj_def jfind_str_def jfind_int_def jfind_def parse_state_def parse_ports_def
        parse_host_config_def guard_parse_def)
qed

definition ended :: answers where
  "ended method target = (200, ''{done}'')"

text \<open>A connection kept from before, the number 3, on which every exchange fails.\<close>

definition stale_net :: "answers \<Rightarrow> script net" where
  "stale_net answers = (script_net answers)\<lparr>net_exchange := \<lambda>n rq cap hd w.
     if n = 3 then
       (\<lparr>wr_write_ec = Some (EcOther ''broken pipe''), wr_read_ec = None, wr_done = False,
         wr_response = reply (0, []), wr_keep_alive = False, wr_need_eof = False\<rparr>, w)
     else net_exchange (script_net answers) n rq cap hd w\<rparr>"

definition kept_client :: "script client" where
  "kept_client = script_client\<lparr>cl_session_enabled := True, cl_session_transport := Some 3\<rparr>"

end
