(* ===== verification/Samples.thy ===== *)
theory Samples
  imports Scripted Forwarder Connected Download Process Compose SqlModules
begin

section \<open>Concrete peers\<close>

text \<open>
  Small concrete environments for the examples of the root theory: a tunnel, an exchange, the
  operating system behind a child process, an I/O library whose connections are refused, and what a
  compose project runs on.
\<close>

subsection \<open>A tunnel\<close>

text \<open>
  The channel has \<open>pending\<close> bytes to read, then ends; the local socket has ended; everything written
  is taken.
\<close>

definition script_tunnel :: "('w \<Rightarrow> string) \<Rightarrow> ('w \<Rightarrow> 'w) \<Rightarrow> 'w tunnel_io" where
  "script_tunnel pending taken =
     \<lparr>tn_now = (\<lambda>w. 0), tn_clock = script_clock, tn_last_errno = (\<lambda>w. SshAgain), tn_last_error = (\<lambda>w. ([], 0)),
      tn_init = id, tn_exit = id, tn_connect_ssh = (\<lambda>h p w. (None, w)), tn_session_init = (\<lambda>w. (True, w)),
      tn_set_blocking = (\<lambda>b. id), tn_handshake = (\<lambda>w. (True, w)), tn_userauth = (\<lambda>u p w. (True, w)),
      tn_keepalive_config = (\<lambda>r n. id), tn_keepalive_send = id, tn_disconnect = (\<lambda>m. id), tn_session_free = id,
      tn_close_ssh = id, tn_listen = (\<lambda>p w. (Some 1, w)), tn_cancel = (\<lambda>l. id), tn_accept = (\<lambda>l w. (None, w)),
      tn_channel_read = (\<lambda>ch w. (Inr (pending w), taken w)), tn_channel_eof = (\<lambda>ch w. pending w = []),
      tn_channel_write = (\<lambda>ch bytes w. (Inr (length bytes), w)), tn_send_eof = (\<lambda>ch w. (True, w)),
      tn_channel_free = (\<lambda>ch w. (True, w)), tn_sock_connect = (\<lambda>p w. ((True, 5), w)),
      tn_sock_nonblocking = (\<lambda>k. id), tn_sock_open = (\<lambda>k w. True), tn_sock_read = (\<lambda>k w. (Inl SockEof, w)),
      tn_sock_write = (\<lambda>k bytes w. (Inr (length bytes), w)), tn_sock_shutdown = (\<lambda>k. id),
      tn_sock_close = (\<lambda>k. id), tn_select_ssh = (\<lambda>ms. id), tn_select = (\<lambda>fds ms. id)\<rparr>"

lemma script_tunnel_ending: "ending (script_tunnel (\<lambda>_. []) taken) c"
  by (simp add: ending_def script_tunnel_def)

lemma script_tunnel_relays:
  "\<exists>c w. pump_conn (recording (script_tunnel id (\<lambda>_. []))) [] (new_conn 1 2) (''hi'', []) =
     Some (Pumped, c, (w, [ChRead ''hi'', ChRead [], SkWrote ''hi'', SkShut, ChEofSent])) \<and> cn_done c"
  by (simp add: pump_conn_def onward_def fill_to_sock.simps drain_to_sock.simps fill_to_ch.simps
      drain_to_ch.simps shut_sock_def send_ch_eof_def settle_conn_def noting_def silently_def script_tunnel_def
      new_conn_def kConnBufferCap_def recording_def)

text \<open>A registry with one live tunnel, on which port 8080 is forwarded.\<close>

definition script_forward :: "script forward_io" where
  "script_forward =
     \<lparr>fw_run = script_run all_well, fw_tunnel = script_tunnel (\<lambda>_. []) id, fw_draw = (\<lambda>w. (0, w))\<rparr>"

definition live_registry :: "script forwarders" where
  "live_registry = Map.empty(''unix:///s'' \<mapsto> Some
     \<lparr>fs_sidecar = (known_linux, new_handle ''sc'' True False [] []),
      fs_tunnel = new_tunnel\<lparr>tl_listeners := [\<lparr>ln_handle = 1, ln_port = 8080\<rparr>]\<rparr>, fs_sidecar_id = ''sc'',
      fs_bridge_ip = ''172.17.0.2'', fs_forwarded = {8080}, fs_networks = {}\<rparr>)"

lemma live_registry_ok: "forwarders_ok live_registry"
  by (simp add: forwarders_ok_def live_registry_def state_ok_def new_handle_def new_tunnel_def)

subsection \<open>An exchange\<close>

definition script_exchange :: "string list duplex_env" where
  "script_exchange =
     \<lparr>de_clock = script_clock, de_io_timeout = None, de_input = ''ab'', de_on_chunk = (\<lambda>bytes c. (True, c @ [bytes])),
      de_deadline = None\<rparr>"

definition script_turns :: "turn list" where
  "script_turns =
     map (\<lambda>did. \<lparr>tu_now = 0, tu_ran = Some did\<rparr>)
       [ReadDone None ''x'', WriteDone None 2, ReadDone None ''y'', ReadDone (Some AsioEof) []]"

lemma script_exchange_input [simp]: "de_input script_exchange = ''ab''"
  by (simp add: script_exchange_def)

lemmas script_exchange_eval = script_exchange_def script_turns_def duplex_start_def start_read_def start_write_def
  kWriteChunk_def duplex_loop.simps turn_wait_def settle_eof_def on_read_def on_write_def Let_def

lemma script_exchange_runs:
  "\<exists>st. duplex_exchange script_exchange True script_turns [] [] = Some (Some AsioEof, st) \<and>
     EofSent \<in> set (dx_calls st) \<and> dx_consumer st = [''x'', ''y'']"
  by (simp add: duplex_exchange_def duplex_drain_def duplex_outcome_def script_exchange_eval)

lemma script_exchange_ok: "turns_ok script_exchange script_turns (duplex_start script_exchange True [])"
  by (simp add: completion_ok_def script_exchange_eval)

subsection \<open>Operating systems\<close>

definition script_posix :: "unit posix_io" where
  "script_posix =
     \<lparr>px_linux = True, px_addchdir = True, px_environ = (\<lambda>w. [''A=1'', ''B=x'']), px_pipe = (\<lambda>w. (Some (3, 4), w)),
      px_cloexec = (\<lambda>fd w. w), px_spawnp = (\<lambda>prog acts argv env w. (Inr 9, w)), px_read = (\<lambda>fd n w. (Inr [], w)),
      px_waitpid = (\<lambda>pid w. (Exited 0, w)), px_close = (\<lambda>fd w. w)\<rparr>"

definition script_win :: "unit win_io" where
  "script_win =
     \<lparr>wn_widen = map (\<lambda>c. of_nat (of_char c)), wn_fold_case = id, wn_environ = (\<lambda>w. Some [[65, 61, 49]]),
      wn_pipe = (\<lambda>w. (Some (3, 4), w)), wn_no_inherit = (\<lambda>h w. w), wn_open_read = (\<lambda>p w. (Some 5, w)),
      wn_attrs_init = (\<lambda>w. (True, w)), wn_attrs_inherit = (\<lambda>hs w. (True, w)), wn_attrs_delete = (\<lambda>w. w),
      wn_create = (\<lambda>req w. (Inr (6, 7), w)), wn_read = (\<lambda>h n w. (Some [], w)), wn_wait = (\<lambda>h w. w),
      wn_exit_code = (\<lambda>h w. (Some 0, w)), wn_close = (\<lambda>h w. w)\<rparr>"

lemma script_posix_runs:
  "\<exists>r. spawn_posix (watched_posix script_posix) [''true''] None [] None ((), []) =
     Some (r, ((), [Gained 3, Gained 4, Spawned, Released 4, ReadFrom 3, Released 3]))"
  by (simp add: spawn_posix_def posix_pipe_def runThen_def watched_posix_def record_calls_def record_do_def
      script_posix_def Let_def capture_output.simps posix_read_def await_child.simps)

lemma script_win_runs:
  "\<exists>r es. spawn_windows (watched_win script_win) [''true''] None [] None ((), []) = Some (r, ((), es)) \<and>
     Gained 6 \<in> set es"
  by (simp add: spawn_windows_def collect_windows_def build_environment_block_def watched_win_def record_calls_def
      record_do_def script_win_def Let_def capture_output.simps win_read_def drop_guards_def)

subsection \<open>Refused connections\<close>

text \<open>Every connection attempt is refused at once; the world is the list of the sockets closed so far.\<close>

definition done_op :: "asio_ec option \<Rightarrow> 'a \<Rightarrow> ('w, 'a) pending_op" where
  "done_op ec x = \<lparr>po_run = (\<lambda>t w. (Some (ec, x), w)), po_drain = (\<lambda>w. (None, w))\<rparr>"

definition script_asio :: "nat list asio_io" where
  "script_asio =
     \<lparr>as_clock = script_clock, as_now = (\<lambda>w. 0), as_message = (\<lambda>ec. ''refused''), as_literal = (\<lambda>h. True),
      as_resolve = (\<lambda>h p. done_op None []), as_cancel_resolve = id, as_socket = (\<lambda>w. (1, w)),
      as_connect = (\<lambda>k es p. done_op (Some (AsioOther ''refused'')) ()),
      as_local_connect = (\<lambda>k p. done_op (Some (AsioOther ''refused'')) ()),
      as_read = (\<lambda>k n. done_op (Some AsioEof) []), as_write = (\<lambda>k b. done_op None (length b)), as_cancel = (\<lambda>k. id),
      as_shutdown_send = (\<lambda>k. id), as_shutdown_both = (\<lambda>k. id), as_close = (\<lambda>k w. k # w),
      as_file_exists = (\<lambda>p w. False), as_load_ca = (\<lambda>p w. (None, w)), as_use_client = (\<lambda>c k w. (None, w)),
      as_set_verify = (\<lambda>v. id), as_verify_host = (\<lambda>k h. id), as_set_sni = (\<lambda>k h w. (True, w)),
      as_handshake = (\<lambda>k. done_op None ()), as_tls_shutdown = (\<lambda>k. done_op None ()),
      as_open_pipe = (\<lambda>p w. (Inl 2, w)), as_wait_pipe = (\<lambda>p ms. id), as_assign = (\<lambda>h w. (None, w)),
      as_message_type = (\<lambda>h w. True), as_flush = (\<lambda>h. id), as_zero_write = (\<lambda>h w. (Inr (done_op None ()), w)),
      as_system_error = (\<lambda>n. AsioOther ''system'')\<rparr>"

lemma script_asio_refuses:
  "\<exists>e. connect_transport 1 \<lparr>pf_local_sockets = True, pf_windows = False, pf_tls = True\<rparr> script_asio
     (\<lambda>m. \<lparr>tp_ca_cert = [], tp_client_cert = [], tp_client_key = [], tp_verify = False\<rparr>)
     (docker_host Tcp ''tcp://10.0.0.1:2375'' [] ''10.0.0.1'' 2375) \<lparr>tt_connect = 100, tt_io = None\<rparr> [] =
     Some (Inl e, [1])"
  by (simp add: connect_transport_def tcp_connect_def dial_def resolve_endpoints_def run_pending_def done_op_def
      closing_on_error_def catching_def andThen_apply script_asio_def docker_host_def Let_def)

subsection \<open>A compose project whose reaper does not come up\<close>

definition script_compose :: "script compose_io" where
  "script_compose =
     \<lparr>co_run = script_run all_well, co_docker = (\<lambda>w. (Inl (Foreign ''no daemon''), w)),
      co_process = (\<lambda>argv env w. (Inr (0, []), w\<lparr>sc_sent := sc_sent w @ [(''run'', last argv)]\<rparr>)),
      co_absolute = (\<lambda>p. Some p), co_register = (\<lambda>k v w. Some (Inl (Foreign ''no reaper''), w)),
      co_hex = (\<lambda>n w. ([], w)), co_temp_dir = ''/tmp'', co_write_file = (\<lambda>p b w. (True, w)), co_remove_file = (\<lambda>p w. w)\<rparr>"

lemma script_compose_fails:
  "\<exists>h' w'. compose_start 1 script_compose (with_client Local (bare_compose script_compose [''c.yml''] ''p'' []), quiet) =
     Some (Inl (Foreign ''no reaper''), (h', w')) \<and> cm_active h' = None \<and> sc_sent w' \<noteq> []"
  by (simp add: compose_start_def reset_active_def with_client_def bare_compose_def make_compose_client_def
      bring_stack_up_def runThen_def stack_world_def script_compose_def teardown_def drop_ambassador_def
      new_stack_def empty_stack_def local_client_def client_down_def on_client_of_def local_down_def attempted_def
      local_compose_def on_docker_def client_release_def quiet_def Let_def)

subsection \<open>Downloads\<close>

text \<open>A daemon that sends two blocks and then hangs up, and a library that reads one entry of them.\<close>

definition cut_off :: "read_event list" where
  "cut_off =
     [\<lparr>ev_done = False, ev_now = 0, ev_data = ''he'', ev_ec = NoError\<rparr>,
      \<lparr>ev_done = False, ev_now = 0, ev_data = ''llo'', ev_ec = NoError\<rparr>,
      \<lparr>ev_done = False, ev_now = 0, ev_data = [], ev_ec = OtherError\<rparr>]"

definition script_download :: "script stream_io" where
  "script_download = (script_stream all_well)\<lparr>si_body := (\<lambda>n dl w. (cut_off, w))\<rparr>"

definition script_library :: archive_library where
  "script_library blocks failing =
     \<lparr>ly_entries = [\<lparr>re_name = Some ''a/b'', re_type = RegularFile, re_perm = 420, re_data = (concat blocks, None)\<rparr>],
      ly_end = (if failing then HeaderFailed None else EndOfArchive),
      ly_pulls = length blocks + (if failing then 1 else 0)\<rparr>"

definition any_disk :: disk_rules where
  "any_disk = \<lparr>dr_may_dir = \<lambda>d p. True, dr_may_file = \<lambda>d p. True, dr_why = []\<rparr>"

lemma script_download_starts:
  "\<exists>c. start_download script_download (download_context ''c1'' ''/a'') ''c1'' ''/a'' script_client = (Inr (7, cut_off), c)"
  by (simp add: start_download_def open_download_def andThen_apply versioned_def api_prefix_def open_transport_def
      world_res_def send_on_def world_op_def read_ok_header_def script_download_def script_stream_def script_net_def
      script_client_def Let_def)

lemma cut_off_blocks: "all_blocks cut_off = ([''he'', ''llo''], Some OtherError)"
  by (simp add: cut_off_def all_blocks.simps)

lemma script_extracts:
  "snd (extract_tar_to_dir any_disk (read_through script_library [''he'', ''llo''] (Some x)) [''out''] Map.empty)
     [''out'', ''a'', ''b''] = Some (File ''hello'')"
proof -
  have "safe_dest_path ''a/b'' = Inr (Some [''a'', ''b''])" by code_simp
  then show ?thesis
    by (simp add: read_through_def script_library_def extract_tar_to_dir_def extract_one_def create_directories_def
        any_disk_def Let_def)
qed

subsection \<open>A daemon behind a transport\<close>

text \<open>Connections over TCP and TLS are established; what is closed is noted; every answer is a 404.\<close>

definition asio_up :: "nat list asio_io" where
  "asio_up = script_asio\<lparr>as_connect := (\<lambda>k es p. done_op None ())\<rparr>"

definition not_found :: "nat list wired net" where
  "not_found =
     \<lparr>net_connect = (\<lambda>h t s. (Inr 0, s)),
      net_exchange = (\<lambda>n rq cap hd s.
        (\<lparr>wr_write_ec = None, wr_read_ec = None, wr_done = True,
          wr_response = \<lparr>rs_status_code = 404, rs_reason = [], rs_body = [], rs_headers = []\<rparr>,
          wr_keep_alive = False, wr_need_eof = False\<rparr>, s)),
      net_set_io_timeout = (\<lambda>n t s. s), net_close = (\<lambda>n s. s), net_sleep = (\<lambda>ms s. s),
      net_auth = (\<lambda>img s. (None, s)), net_json = script_json, net_version = ''0''\<rparr>"

definition posix_build :: platform where
  "posix_build = \<lparr>pf_local_sockets = True, pf_windows = False, pf_tls = True\<rparr>"

definition no_materials :: "TlsMaterials option \<Rightarrow> TlsPlan" where
  "no_materials m = \<lparr>tp_ca_cert = [], tp_client_cert = [], tp_client_key = [], tp_verify = False\<rparr>"

definition remote_client :: "DockerScheme \<Rightarrow> nat list wired client" where
  "remote_client scheme =
     new_client (docker_host scheme ''tcp://10.0.0.1:2375'' [] ''10.0.0.1'' 2375) Map.empty
       \<lparr>wd_world = [], wd_open = Map.empty\<rparr>"

lemmas asio_up_eval = asio_up_def script_asio_def done_op_def run_pending_def closing_on_error_def catching_def
  dial_def resolve_endpoints_def

lemma asio_up_answers:
  "\<exists>res c. request (wired_net posix_build asio_up no_materials not_found) ''GET'' ''/v1/x'' [] [] (remote_client Tcp) =
     (Inr res, c) \<and> rs_status_code res = 404"
  by (simp add: request_def request_with_io_timeout_def fresh_request_def andThen_apply world_res_def world_do_def
      wired_connect_def connect_transport_def tcp_connect_def runs_def perform_def perform_result_def remote_client_def
      new_client_def docker_host_def not_found_def wired_net_def asio_up_eval Let_def)

definition fed_options :: ExecOptions where
  "fed_options = plain_exec\<lparr>eo_stdin_data := Some ''hi''\<rparr>"

definition wired_base :: "nat list wired stream_io" where
  "wired_base =
     \<lparr>si_net = not_found, si_clock = script_clock, si_now = (\<lambda>w. 0), si_write = (\<lambda>n rq w. (None, w)),
      si_write_block = (\<lambda>n b w. (None, w)), si_write_all = (\<lambda>n b w. (None, w)), si_shutdown_send = (\<lambda>n w. w),
      si_supports_half_close = (\<lambda>n w. True),
      si_read_header = (\<lambda>n w. (\<lparr>hr_ec = None, hr_done = True, hr_status = 200, hr_leftover = []\<rparr>, w)),
      si_read_full = (\<lambda>n cap w. (\<lparr>fu_ec = None, fu_done = True, fu_header_done = True, fu_status = 200,
                                  fu_body = []\<rparr>, w)),
      si_body = (\<lambda>n dl w. ([], w)), si_raw = (\<lambda>n dl w. ([], w)),
      si_exchange = (\<lambda>n s b dl w. (([], OtherError), w)), si_ec_message = (\<lambda>ec. ''ec'')\<rparr>"

lemma asio_up_tls:
  "tls_connect asio_up ''10.0.0.1'' 2375 (cl_timeouts (remote_client Https)) (no_materials None) [] =
     (Inr \<lparr>tr_kind = TlsKind, tr_handle = 1, tr_io_timeout = Some 60000\<rparr>, [])"
  by (simp add: tls_connect_def make_context_def andThen_apply tls_handshake_def no_materials_def remote_client_def
      new_client_def asio_up_eval Let_def)

lemma asio_up_closes: "mt_close (tls_methods asio_up \<lparr>tr_kind = k, tr_handle = 1, tr_io_timeout = x\<rparr>) [] = [1]"
  by (simp add: tls_methods_def asio_up_eval)

lemma remote_client_simps:
  "dh_scheme (cl_host (remote_client s)) = s" "dh_hostname (cl_host (remote_client s)) = ''10.0.0.1''"
  "dh_port (cl_host (remote_client s)) = 2375" "no_materials m = no_materials None"
  "wd_world (cl_world (remote_client s)) = []" "pf_tls posix_build" "eo_stdin_data fed_options \<noteq> None"
  "\<not> eo_detach fed_options"
  by (simp_all add: remote_client_def new_client_def docker_host_def posix_build_def fed_options_def plain_exec_def
      no_materials_def)

end
