(* ===== verification/Spec2Isabelle.thy ===== *)
theory Spec2Isabelle
  imports
    Delivery Occurrences DockerIgnoreM Codecs Quoting Registry Endpoint Ports
    ApiBuild ApiParse Rfc3339 ProgressStream Client ClientStream Wait Timing Tar Runner Handles
    Resources Reaper Images Compose Buildable SqlModules StoreModules BrokerModules
    Forwarder Transports TransportOps Connected Download Process Spawned Version Scripted Samples
begin

text \<open>
  \<^bold>\<open>Verification of testcontainers-cpp\<close>

  The library starts containers for tests: it talks HTTP to a Docker daemon, waits until what it
  started is ready, and cleans up afterwards.  This development models its implementation files under
  \<open>src/\<close> and \<open>include/\<close> and proves what makes them correct.  Each theory opens with the files it models;
  this root imports them all and states the properties, C1 to C40.

  \<^bold>\<open>How the code is modelled.\<close>  A struct or class is a \<open>record\<close>, an enumeration or tagged union a \<open>datatype\<close>, an
  exception a value of \<open>exn\<close> (\<open>TC_Prelude\<close>); an operation that can throw gives \<open>exn + 'a\<close>.  Stateful code is an
  \<open>act\<close> (\<open>Actions\<close>): a function from the state to a result and the next state, composed by \<open>andThen\<close> and \<open>catching\<close>
  in the order of the source.  A loop that waits for something is a \<open>run\<close>: it gives \<open>None\<close> while it has not
  returned, within fuel or by \<open>partial_function\<close>; its return is proved separately.  What is outside the repository
  (sockets and TLS of Boost.Asio, Beast, nlohmann's JSON parser and printer, libarchive, libssh2, system calls,
  the clock, the random generator) is a record of operations over an arbitrary world, an argument of
  every definition that uses it; what a theorem needs of it (time moves forward, a read gives bytes or
  an error) is a hypothesis.  \<open>Scripted\<close> and \<open>Samples\<close> are concrete such worlds, for the examples.

  \<^bold>\<open>The parts, from the bottom up.\<close>
  \<^item> Texts and settings: \<open>Text_Config\<close> (Strings, Env, Deadline, Config), \<open>Codecs\<close> (base64, percent encoding, the reuse
    hash), \<open>Quoting\<close> (shell, Windows and libpq quoting), \<open>Sha256\<close>, \<open>Json\<close>, \<open>Rfc3339\<close>, \<open>ConnString\<close>.
  \<^item> What goes over the wire: \<open>Ports\<close>, \<open>ApiBuild\<close> and \<open>ApiParse\<close> (ApiMapping.cpp), \<open>ProgressStream\<close>, \<open>Demux\<close> and
    \<open>Delivery\<close> (LogDemux, StreamRead), \<open>Occurrences\<close>, \<open>DockerIgnoreM\<close>, \<open>Tar\<close>, \<open>Registry\<close> (Auth.cpp).
  \<^item> The library's version and its dependency report: \<open>Version\<close>.
  \<^item> Reaching the daemon: \<open>Endpoint\<close> (DockerHost, TLS files, host address), \<open>Duplex\<close> and \<open>Transports\<close> (AsioRun,
    DuplexExchange, connecting), \<open>TransportOps\<close> (what the four transports do once connected), \<open>Client\<close> and
    \<open>ClientStream\<close> (DockerClient.cpp), \<open>Connected\<close> (the client on those transports), \<open>Download\<close> (from the daemon's
    archive through libarchive to the disk).
  \<^item> Running things: \<open>Wait\<close> with \<open>Timing\<close> (WaitStrategies), \<open>Runner\<close>, \<open>Handles\<close> (Container), \<open>Resources\<close> (Network, Volume),
    \<open>Reaper\<close>, \<open>Images\<close> (GenericImage), \<open>Buildable\<close> (GenericBuildableImage), \<open>Process\<close>, \<open>Compose\<close>,
    \<open>Spawned\<close> (credential helpers and compose on the spawned processes), and host port forwarding in \<open>Tunnel\<close>, \<open>Relay\<close> and \<open>Forwarder\<close>.
  \<^item> The service modules: \<open>ModuleDetail\<close> (what they share), \<open>SqlModules\<close>, \<open>StoreModules\<close>, \<open>BrokerModules\<close>.

  The state of a client (\<open>Client.client\<close>: endpoint, pinned version, session, caches) is threaded through every
  operation of \<open>DockerClient\<close>; handles own a client and what they remember of teardown.  The runner calls the client
  and the waits; modules and images build the runner's request; compose calls the client, child processes
  and the reaper; the reaper and the forwarder keep one entry per daemon.

  \<^bold>\<open>Interfaces.\<close>  Laws that several components share are locales, each interpreted on the model's definitions in the
  theory that provides them: chunked consumers that do not depend on the cut (\<open>demux\<close>, \<open>oc\<close>, \<open>scanner\<close>), word
  quoting (\<open>sh\<close>, \<open>win\<close>, \<open>pq\<close>), handles that tear down once, managed environments and numbered staging of the service
  modules, the two directions of a relayed connection (\<open>inbound\<close>, \<open>outbound\<close>), lists of environment entries
  (\<open>posix_environ\<close>, \<open>windows_environ\<close>), and the half-close of a transport (\<open>transport\<close>).

  \<^bold>\<open>What the lemmas show.\<close>
  \<^item> Streams: reassembly, delivery and counting do not depend on chunks (C1 to C4).
  \<^item> Build contexts: the matcher decides the pattern language, the last match wins (C5, C6).
  \<^item> Ownership: failed starts clean up, hooks fire once, removal happens once, reuse makes no duplicate, nothing
    is created that the reaper does not watch, a failed compose start is torn down (C7 to C14).
  \<^item> Tunnels and exchanges: relaying is faithful and ends, the registry is consistent, the interleaved exchange
    half-closes last and agrees with the sequential one, connecting fails with typed errors and closes its
    socket (C15 to C20).
  \<^item> Waits return, a truncated download fails, writes go out in order and errors keep their type from the
    transport to the caller; sessions, retries, the reaper's boot (C21 to C27).
  \<^item> Words, environments and handles of child processes, URLs and credentials (C28 to C32).
  \<^item> A download stays below its destination, an upload holds each entry once, time stamps, and standard input is
    refused where its end cannot be signalled (C33 to C36).
  \<^item> Requests, seeding helpers, uploads and log waits (C37 to C40).

  \<open>Further facts\<close> at the end holds results beside these.

  \<^bold>\<open>Fuel and bounds.\<close>  A polling loop with pauses of \<open>pace\<close> and a timeout below \<open>n * pace\<close> returns within \<open>Suc n\<close> turns
  (C21).  The reaper's handshake has 20 seconds at 200 milliseconds a turn: 101 turns (C25); dialling the sidecar
  has the same budget (\<open>Forwarder.dial_sidecar_returns\<close>), listening 50 milliseconds a turn
  (\<open>Forwarder.listen_loop_returns\<close>), the election poll of MongoDB (\<open>StoreModules.await_primary_returns\<close>) and the busy named
  pipe (\<open>Transports.open_pipe_returns\<close>, \<open>Connected.connect_transport_returns\<close> with \<open>pipe_fuel\<close>) as long as each turn
  takes time.  The drains of a connection return when each
  write takes at least a byte (\<open>Relay.pump_conn_returns\<close>).  The SHA-256 and FNV arithmetic, the frame lengths and exit
  codes are machine words; seconds of compose timeouts are multiplied in 64 bits with wrap-around.

  \<^bold>\<open>Concurrency.\<close>  Mutexes make the calls on a registry sequential.  The pump thread of a tunnel may run between two
  calls: \<open>forwarding\<close> interleaves its turns with wiring and release.  The event loop runs one completion handler at
  a time: a schedule, any list of turns, is an argument of \<open>duplex_exchange\<close>.

  \<^bold>\<open>Not modelled.\<close>  The insides of the I/O libraries and system calls named above; the release of a socket when a
  transport object is destroyed; permission bits after an extraction; the contents of server images; examples
  and tests.  In the runner the forwarder's wiring is a parameter, as is the
  forwarder's release in a network's handle: the registry holds handles over the same world.  A client made from the environment is
  \<open>Client.client_from_environment\<close>; the functions that make one take it as an argument.  \<open>std::sort\<close> on the Windows environment block is a stable
  sort here; entries whose names differ only in case would come out in an unspecified order.  The
  multiplication of \<open>with_cpu_limit\<close> in floating point is an argument.
\<close>

section \<open>Streams from the daemon\<close>

text \<open>
  C1.  Whatever way the connection cuts the multiplexed stream into chunks, the demuxer fed the
  chunks one by one emits exactly the frames the daemon wrote, in order, payloads intact.
\<close>

theorem demux_reassembles_frames:
  assumes "\<forall>f \<in> set fs. length (fr_data f) < 2 ^ 32"
    and "concat chunks = concat (map encode_frame fs)"
  shows "snd (foldl demux_step (new_demuxer, []) chunks) = fs"
  using demux.obs_chunks [of chunks] demux_spec_frames [OF assms(1)] assms(2) by simp

theorem demux_reassembles_frames_witness:
  "snd (foldl demux_step (new_demuxer, [])
     [[CHR 0x01, CHR 0x00, CHR 0x00], [CHR 0x00, CHR 0x00, CHR 0x00, CHR 0x00, CHR 0x02, CHR ''h''],
      ''i'']) = [\<lparr>fr_stream = StdOut, fr_data = ''hi''\<rparr>]"
  by (rule demux_reassembles_frames)
    (simp_all add: encode_frame_def stream_byte_def len_byte_def Let_def char_of_def bit_0)

text \<open>
  C2.  A hijacked stream without a deadline, read to its end: the consumer sees the items of
  the leftover followed by everything read, whatever the read sizes, up to the first item at
  which it asks to stop; the result says whether it stopped or the stream ended.
\<close>

theorem raw_stream_delivers:
  assumes "\<forall>ev \<in> set evs. ev_ec ev = NoError" and "ev_ec last_ev \<noteq> NoError"
  shows "stream_raw_to_consumer clk now leftover tty consumer None c (evs @ [last_ev]) =
    (let (go, c') = run_consumer consumer
                      (stream_items tty (leftover # map ev_data (evs @ [last_ev]))) c
     in (Some (if go then StreamEnded else ConsumerStopped), c', []))"
proof (cases "leftover = []")
  case True
  with raw_loop_items [OF demux_at_new assms, where clk=clk and consumer=consumer and tty=tty and c=c and armed="[]"]
  have "stream_raw_to_consumer clk now leftover tty consumer None c (evs @ [last_ev]) =
    (let (go, c') = run_consumer consumer (items_from tty [] (map ev_data (evs @ [last_ev]))) c
     in (Some (if go then StreamEnded else ConsumerStopped), c', []))"
    by (simp add: stream_raw_to_consumer_def)
  moreover have "items_from tty [] (map ev_data (evs @ [last_ev])) =
      stream_items tty (leftover # map ev_data (evs @ [last_ev]))"
    using True by (simp add: items_from_stream [symmetric])
  ultimately show ?thesis by simp
next
  case False
  obtain d' where d: "deliver_chunk consumer tty new_demuxer leftover c =
      (let (go, c') = run_consumer consumer (chunk_items tty [] leftover) c in (go, d', c'))"
    "demux_at tty leftover d'"
    using deliver_chunk_items [OF demux_at_new False, where tty=tty and consumer=consumer and c=c] by auto
  obtain go c1 where r: "run_consumer consumer (chunk_items tty [] leftover) c = (go, c1)"
    by (cases "run_consumer consumer (chunk_items tty [] leftover) c")
  show ?thesis
    using d(1) r False raw_loop_items [OF d(2) assms, where clk=clk and consumer=consumer and c=c1 and armed="[]"]
    by (simp add: stream_raw_to_consumer_def items_from_stream [symmetric] run_consumer_append
        split: prod.splits)
qed

theorem raw_stream_delivers_witness:
  "stream_raw_to_consumer \<lparr>ticks_per_ms = 1, time_max = 10\<rparr> 0 ''a'' True
     (\<lambda>src dat seen. (dat \<noteq> ''c'', seen @ [dat])) None [] 
     ([\<lparr>ev_done = False, ev_now = 0, ev_data = ''b'', ev_ec = NoError\<rparr>] @
      [\<lparr>ev_done = False, ev_now = 1, ev_data = ''c'', ev_ec = OtherError\<rparr>]) =
   (Some ConsumerStopped, [''a'', ''b'', ''c''], [])"
  by (subst raw_stream_delivers) (simp_all add: stream_items_def)

text \<open>
  C3.  The occurrence counter of the log wait, fed the log in any chunks, has counted the
  non-overlapping occurrences of the message in the whole log, exactly as the counter of a log
  snapshot does; a message split across chunks counts once.
\<close>

theorem counter_counts_whole_log:
  "oc_count (foldl oc_feed (new_counter needle) chunks) = count_occurrences (concat chunks) needle"
  by (simp add: oc.obs_chunks count_occurrences_occ)

text \<open>
  C4.  The verdict of a build does not depend on how its progress stream was cut into chunks,
  and the output kept for the error message never exceeds the cap.
\<close>

theorem build_verdict_of_stream:
  "scanner_finish L consumer tag (foldl (scanner_feed L consumer) (new_scanner c) chunks) =
     (let s = foldl (scan_line L consumer) (new_scanner c) (getlines (concat chunks))
      in (build_verdict tag s, s)) \<and>
   length (bs_tail (snd (scanner_finish L consumer tag
     (foldl (scanner_feed L consumer) (new_scanner c) chunks)))) \<le> kTailCap"
proof -
  have "scanner_flush L consumer (foldl (scanner_feed L consumer) (new_scanner c) chunks) =
      foldl (scan_line L consumer) (new_scanner c) (getlines (concat chunks))"
    by (simp add: scanner.obs_chunks scanner_spec_def)
  moreover have "length (bs_tail (foldl (scan_line L consumer) (new_scanner c) (getlines (concat chunks))))
      \<le> kTailCap"
    by (rule foldl_scan_tail) (simp add: new_scanner_def)
  ultimately show ?thesis by (simp add: scanner_finish_def Let_def)
qed

section \<open>Build contexts\<close>

text \<open>
  C5.  A path is left out of the build context when the last pattern of the \<open>.dockerignore\<close>
  that matches it, or one of the directories it lies in, is not a negated one; a pattern
  matches a path as a whole, \<open>**\<close> standing for any number of components.
\<close>

theorem ignored_by_last_match:
  "dockerignore_excludes patterns rel_path =
     (let path = split_components rel_path;
          hits = filter (\<lambda>p. \<exists>k. 1 \<le> k \<and> k \<le> length path \<and>
                               path_glob (ip_components p) (take k path)) patterns
      in path \<noteq> [] \<and> hits \<noteq> [] \<and> \<not> ip_negated (last hits))"
proof -
  define path where "path = split_components rel_path"
  define hits where "hits = filter (\<lambda>p. matches_or_parent p path) patterns"
  have "excludes_loop False patterns path = (hits \<noteq> [] \<and> \<not> ip_negated (last hits))"
    by (cases hits rule: rev_cases) (simp_all add: excludes_loop_last hits_def [symmetric])
  moreover have "hits = filter (\<lambda>p. \<exists>k. 1 \<le> k \<and> k \<le> length path \<and>
      path_glob (ip_components p) (take k path)) patterns"
    by (simp add: hits_def matches_or_parent_prefix)
  ultimately show ?thesis
    by (simp add: dockerignore_excludes_def path_def [symmetric] Let_def)
qed

text \<open>
  C6.  The backtracking matcher of one path component decides the language of the pattern: the
  loop with its single saved star accepts a name exactly when some assignment of the stars does.
\<close>

theorem match_component_decides_glob:
  "match_component pattern name = glob (tokens pattern 0) name"
  by (rule match_component_glob)

section \<open>Containers, networks, volumes and projects\<close>

text \<open>
  C7.  A start that fails leaves no container behind: either the creation itself failed, or the
  created container has been asked to be removed, by force and with its volumes, after the
  failure, and the failure the caller sees is the one of the start, not of the removal.
\<close>

theorem failed_start_removes_container:
  assumes "create_start_wait rio req s rod c = Some (Inl e, c')"
  shows "create_container (ro_net rio) s (cr_registry_auth req) c = (Inl e, c') \<or>
    (\<exists>cid c1 c2. create_container (ro_net rio) s (cr_registry_auth req) c = (Inr cid, c1) \<and>
       bring_up rio req s cid c1 = Some (Inl e, c2) \<and>
       c' = snd (remove_container (ro_net rio) cid True True c2))"
  using create_start_wait_failure [OF assms] .

theorem failed_start_removes_container_witness:
  "\<exists>c1 c2 e. create_container (ro_net (script_run start_fails)) (empty_create_spec\<lparr>cs_image := ''x''\<rparr>)
       None script_client = (Inr ''c1'', c1) \<and>
     bring_up (script_run start_fails) empty_request (empty_create_spec\<lparr>cs_image := ''x''\<rparr>) ''c1'' c1 =
       Some (Inl e, c2)"
proof -
  let ?s = "empty_create_spec\<lparr>cs_image := ''x''\<rparr>"
  have "map_option (shown hd_id) (create_start_wait (script_run start_fails) empty_request ?s True script_client) =
      Some (Inl (DockerError (''start_container(c1) failed: HTTP 500 boom'') (Some 500) ''c1''),
        [(''POST'', ''/v1/containers/create''), (''POST'', ''/v1/containers/c1/start''),
         (''DELETE'', ''/v1/containers/c1?force=true&v=true'')])"
    by code_simp
  then obtain e c' where r: "create_start_wait (script_run start_fails) empty_request ?s True script_client =
      Some (Inl e, c')"
    by (auto simp: shown_Inl)
  have "shown id (create_container (ro_net (script_run start_fails)) ?s None
      script_client) = (Inr ''c1'', [(''POST'', ''/v1/containers/create'')])"
    by code_simp
  then obtain c1 where c1: "create_container (ro_net (script_run start_fails)) ?s
      None script_client = (Inr ''c1'', c1)"
    by (auto simp: shown_Inr)
  from failed_start_removes_container [OF r] c1 show ?thesis by (auto simp: empty_request_def)
qed

text \<open>
  C8.  Startup attempts: with \<open>n\<close> attempts asked for (values below one mean one), the outcome is
  that of the first attempt that succeeds, or of the \<open>n\<close>th when all before it failed; each attempt
  starts where the failed one before it ended, and there is never an attempt after a success.
\<close>

theorem startup_attempts:
  "with_retry (attempts_left req) (create_start_wait rio req s rod) c = Some (r, c') \<longleftrightarrow>
     (\<exists>k c0. k < nat (max 1 (cr_startup_attempts req)) \<and>
        after_failures k (create_start_wait rio req s rod) c = Some c0 \<and>
        create_start_wait rio req s rod c0 = Some (r, c') \<and>
        (k = nat (max 1 (cr_startup_attempts req)) - 1 \<or> (\<exists>h. r = Inr h)))"
proof -
  have "nat (max 1 (cr_startup_attempts req)) = Suc (attempts_left req)" by (simp add: attempts_left_def)
  then show ?thesis by (auto simp: with_retry_Some less_Suc_eq_le)
qed



text \<open>
  C10.  A container is removed at most once by its handle: after the first removal every further
  one (an explicit \<open>remove\<close>, the destructor) changes nothing, whatever happens in between, and a
  moved-from handle removes nothing at all.
\<close>

theorem removed_once:
  "handle_run net (OpRemove # ops) s =
     handle_run net (filter (\<lambda>oper. oper \<noteq> OpRemove) ops) (container_drop net s) \<and>
   container_drop net (c, snd (container_move h)) = (c, snd (container_move h))"
proof -
  have "handle_run net (OpRemove # ops) s = handle_run net ops (container_drop net s)"
    by (simp add: handle_step_def)
  also have "\<dots> = handle_run net (filter (\<lambda>oper. oper \<noteq> OpRemove) ops) (container_drop net s)"
    by (rule handle_run_removals) (rule container_handle.dropped_drop)
  finally show ?thesis by (simp add: container_moved_from)
qed

text \<open>
  C11.  Network reuse creates no second network of a name: when the daemon already has one of
  exactly this name, nothing is sent after the listing, and a handle is given back only for a
  network that carries the hash of the very configuration asked for; that handle never removes it.
\<close>

theorem network_reuse_creates_no_duplicate:
  assumes "list_networks (ho_net hio) [(''name'', ns_name spec)] c = (Inr candidates, c1)"
    and "n \<in> set candidates" "ni_name n = ns_name spec"
  shows "snd (network_reuse hio spec c) = c1 \<and>
    (\<forall>h. fst (network_reuse hio spec c) = Inr h \<longrightarrow> \<not> nh_remove_on_drop h \<and>
       (\<exists>m \<in> set candidates. nh_id h = ni_id m \<and> ni_name m = ns_name spec \<and>
          map_of (ni_labels m) reuse_hash_label =
            Some (reuse_hash (jl_dump (net_json (ho_net hio)) (build_network_create_body spec)))))"
  using network_reuse_taken [OF assms] by blast

theorem network_reuse_creates_no_duplicate_witness:
  "\<exists>c1. snd (network_reuse (script_handles (\<lambda>m t. (200, ''{nets}''))) (named_network_spec ''net'' [])
      script_client) = c1 \<and> sc_sent (cl_world c1) = [(''GET'', ''/v1/networks?filters=%7B%7D'')]"
proof -
  let ?hio = "script_handles (\<lambda>m t. (200, ''{nets}''))"
  have "shown (map ni_name) (list_networks (ho_net ?hio) [(''name'', ''net'')] script_client) =
      (Inr [''net''], [(''GET'', ''/v1/networks?filters=%7B%7D'')])"
    by code_simp
  then obtain ns c1 where l: "list_networks (ho_net ?hio) [(''name'', ''net'')] script_client = (Inr ns, c1)"
    and n: "map ni_name ns = [''net'']" and s: "sc_sent (cl_world c1) = [(''GET'', ''/v1/networks?filters=%7B%7D'')]"
    by (auto simp: shown_Inr)
  from n obtain n0 where "n0 \<in> set ns" "ni_name n0 = ''net''" by auto
  with network_reuse_creates_no_duplicate [of ?hio "named_network_spec ''net'' []" script_client ns c1 n0] l s
  show ?thesis by (simp add: named_network_spec_def)
qed



text \<open>
  C13.  The filters a reaper has acknowledged: whatever calls start it and register filters, in any
  order and with any failures in between, the filters of each daemon that has one begin with the
  session's and hold no line twice; and what was acknowledged once is never forgotten, the list of
  every daemon only grows at its end.
\<close>

theorem reaper_filters:
  assumes "(reaper_step rio)\<^sup>*\<^sup>* Map.empty ds" "(reaper_step rio)\<^sup>*\<^sup>* ds ds'"
    and "ds' endpoint = Some (Some d)"
  shows "(\<exists>rest. registered_filters endpoint ds' = session_line rio # rest) \<and>
    distinct (registered_filters endpoint ds') \<and>
    (\<exists>new. registered_filters endpoint ds' = registered_filters endpoint ds @ new)"
proof -
  have "reaper_inv rio ds'" by (rule reaper_reachable) (rule rtranclp_trans [OF assms(1,2)])
  with assms(3) have "(\<exists>rest. registered_filters endpoint ds' = session_line rio # rest) \<and>
      distinct (registered_filters endpoint ds')"
    by (simp add: reaper_inv_def registered_filters_def)
  moreover have "\<exists>new. registered_filters endpoint ds' = registered_filters endpoint ds @ new"
    using reaper_steps_grow [OF assms(2)] unfolding grown_filters_def by blast
  ultimately show ?thesis by blast
qed

theorem reaper_filters_witness:
  "\<exists>ds d. (reaper_step (script_reap ryuk_up))\<^sup>*\<^sup>* Map.empty ds \<and> ds ''unix:///s'' = Some (Some d) \<and>
     distinct (registered_filters ''unix:///s'' ds)"
proof -
  obtain d where "(reaper_step (script_reap ryuk_up))\<^sup>*\<^sup>* Map.empty [''unix:///s'' \<mapsto> Some d]"
    using script_reaper_booted by blast
  from this reaper_filters [OF rtranclp.rtrancl_refl this, of "''unix:///s''" d] show ?thesis by auto
qed



section \<open>Tunnels, exchanges and transports\<close>

text \<open>
  C15.  A forwarded connection relays both directions faithfully: at every moment of its life, what has
  been written to one side is the start of what was read from the other, nothing is written after
  the half-close of a side, and a connection that has ended without breaking has passed everything on.
\<close>

theorem tunnel_relays:
  assumes "life io p c tr"
  shows "ch_read tr = sk_wrote tr @ cn_to_sock c \<and> sk_read tr = ch_wrote tr @ cn_to_ch c \<and>
    nothing_after toward_sock SkShut tr \<and> nothing_after toward_ch ChEofSent tr \<and>
    (p = Pumped \<and> cn_done c \<longrightarrow> sk_wrote tr = ch_read tr \<and> ch_wrote tr = sk_read tr)"
  using life_inv [OF assms] life_finished [of io c tr] assms by (auto simp: relay_inv_def)

theorem tunnel_relays_witness:
  "\<exists>c tr. life (script_tunnel id (\<lambda>_. [])) Pumped c tr \<and> cn_done c \<and> sk_wrote tr = ''hi'' \<and> ch_read tr = ''hi''"
proof -
  obtain c w where p: "pump_conn (recording (script_tunnel id (\<lambda>_. []))) [] (new_conn 1 2) (''hi'', []) =
      Some (Pumped, c, (w, [ChRead ''hi'', ChRead [], SkWrote ''hi'', SkShut, ChEofSent]))" and d: "cn_done c"
    using script_tunnel_relays by blast
  have l: "life (script_tunnel id (\<lambda>_. [])) Pumped c [ChRead ''hi'', ChRead [], SkWrote ''hi'', SkShut, ChEofSent]"
    by (rule life.passed [OF life.accepted _ p]) (simp add: new_conn_def)
  from tunnel_relays [OF l] l d show ?thesis by (intro exI conjI) (auto simp: sk_wrote_def ch_read_def)
qed

text \<open>
  C16.  Connections end: once both ends have finished sending and take what they are given, a pass
  empties the buffers and at most one more pass ends the connection, with both half-closes sent.
\<close>

theorem tunnel_ends:
  assumes "ending io c"
  shows "\<exists>c1 w1. pump_conn io socks c w = Some (Pumped, c1, w1) \<and> cn_to_sock c1 = [] \<and> cn_to_ch c1 = [] \<and>
    (cn_done c1 \<or> (\<forall>w2. \<exists>c2 w3. pump_conn io socks c1 w2 = Some (Pumped, c2, w3) \<and> cn_done c2 \<and>
       cn_sock_send_shut c2 \<and> cn_ch_eof_sent c2))"
proof -
  from ending_pass [OF assms, of socks w] obtain c1 w1 where p: "pump_conn io socks c w = Some (Pumped, c1, w1)"
    and e: "cn_ch c1 = cn_ch c" "cn_sock c1 = cn_sock c" "cn_to_sock c1 = []" "cn_to_ch c1 = []" by blast
  from ending_cong [OF e(1,2), of io] assms have "ending io c1" by simp
  note again = ending_pass [OF this, of socks]
  have "\<exists>c2 w3. pump_conn io socks c1 w2 = Some (Pumped, c2, w3) \<and> cn_done c2 \<and> cn_sock_send_shut c2 \<and> cn_ch_eof_sent c2" for w2
  proof -
    from again [of w2] obtain c2 w3 where "pump_conn io socks c1 w2 = Some (Pumped, c2, w3)"
      "length (cn_to_sock c1) < kConnBufferCap \<and> length (cn_to_ch c1) < kConnBufferCap \<longrightarrow>
         cn_done c2 \<and> cn_sock_send_shut c2 \<and> cn_ch_eof_sent c2"
      by blast
    with e(3,4) show ?thesis by (auto simp: kConnBufferCap_def)
  qed
  with p e show ?thesis by blast
qed

theorem tunnel_ends_witness:
  "\<exists>c1 w1. pump_conn (script_tunnel (\<lambda>_. []) id) [] ((new_conn 1 2)\<lparr>cn_to_sock := ''left''\<rparr>) () = Some (Pumped, c1, w1) \<and>
     cn_to_sock c1 = []"
proof -
  have e: "ending (script_tunnel (\<lambda>_. []) id) ((new_conn 1 2)\<lparr>cn_to_sock := ''left''\<rparr>)"
    by (rule script_tunnel_ending)
  from tunnel_ends [OF e, where socks = "[]" and w = "()"] show ?thesis by blast
qed



text \<open>
  C18.  The full-duplex exchange, under every order of completions: what the peer accepted is the start of
  the input, and the half-close is sent only when it was asked for and after all of the input, with
  nothing sent behind it.
\<close>

theorem duplex_half_close:
  assumes "duplex_exchange env eof turns rest c = Some (ec, st)" "turns_ok env turns (duplex_start env eof c)"
    and "\<And>expired st0. duplex_loop env turns (duplex_start env eof c) = Some (expired, st0) \<Longrightarrow>
      drain_ok env rest (st0\<lparr>dx_stopping := True, dx_calls := dx_calls st0 @ [Cancelled]\<rparr>)"
  shows "(\<exists>k. accepted (dx_calls st) = take k (de_input env)) \<and> nothing_after sending EofSent (dx_calls st) \<and>
    (EofSent \<in> set (dx_calls st) \<longrightarrow> eof \<and> accepted (dx_calls st) = de_input env)"
proof -
  have "duplex_inv env eof st" using assms by (rule duplex_exchange_inv)
  then show ?thesis by (auto simp: duplex_inv_def)
qed

theorem duplex_half_close_witness:
  "\<exists>ec st. duplex_exchange script_exchange True script_turns [] [] = Some (ec, st) \<and>
     EofSent \<in> set (dx_calls st) \<and> accepted (dx_calls st) = ''ab''"
proof -
  obtain st where e: "duplex_exchange script_exchange True script_turns [] [] = Some (Some AsioEof, st)"
      "EofSent \<in> set (dx_calls st)"
    using script_exchange_runs by blast
  show ?thesis using duplex_half_close [OF e(1) script_exchange_ok] e script_exchange_input by auto
qed





section \<open>Waiting, sessions and errors\<close>

text \<open>
  C21.  Waiting comes back: for any list of conditions that are polled (exit, health, HTTP, TCP,
  a duration), with time that only moves forward, \<open>wait_until_ready\<close> returns within a number of
  turns per condition that the timeout and the slowest interval bound.
\<close>

theorem waits_return:
  assumes "time_runs wio" "clock_wakes wio" "0 \<le> timeout"
    and "\<forall>w \<in> set waits. polled w \<and> timeout < int n * pace w"
  shows "wait_until_ready (Suc n) wio cid waits timeout tty c \<noteq> None"
  using assms by (rule wait_until_ready_returns)

theorem waits_return_witness:
  "wait_until_ready 11 (script_wait start_fails) ''c1'' [Healthy, Exit (Some 0), Duration 5] 1999 False
     script_client \<noteq> None"
proof -
  have "wait_until_ready (Suc 10) (script_wait start_fails) ''c1'' [Healthy, Exit (Some 0), Duration 5] 1999 False
     script_client \<noteq> None"
    by (rule waits_return [OF script_time_runs script_clock_wakes]) (simp_all add: polled_def pace_def)
  then show ?thesis by simp
qed

text \<open>
  C22.  A truncated download is never taken for a complete one: when the connection breaks while
  \<open>copy_from_container_to\<close> unpacks the daemon's archive, and the tar library had to stop for it, the
  call fails and closes the connection; the error is the transport's own, of its own type, unless
  unpacking what had arrived already failed.
\<close>

theorem truncated_download_fails:
  assumes "start_download io (download_context cid p) cid p c = (Inr (conn, evs), c1)"
    and "all_blocks evs = (blocks, Some ec)" "of_rd_ec io ec = Some ne"
    and "stopped_by_pull blocks (lib blocks True)"
  shows "\<exists>e d1. copy_from_container_to io lib rules cid p dest (c, d) =
      (Inl e, (c1\<lparr>cl_world := net_close (si_net io) conn (cl_world c1)\<rparr>, d1)) \<and>
    (e = transport_error (download_context cid p @ '' failed reading the archive stream: '' @ ec_message ne) ne \<or>
     fst (extract_tar_to_dir rules (Inr (seen_entries (lib blocks True), None)) dest d) = Inl e)"
proof -
  let ?x = "download_failed (download_context cid p) ne"
  obtain r d1 where x: "extract_tar_to_dir rules (read_through lib blocks (Some ?x)) dest d = (r, d1)" by fastforce
  from read_through_fails [where lib = lib, OF assms(4), of rules ?x dest d] x obtain e where
    "r = Inl e" "e = ?x \<or> fst (extract_tar_to_dir rules (Inr (seen_entries (lib blocks True), None)) dest d) = Inl e"
    by auto
  with copy_to_disk_run [OF assms(1,2), of lib rules dest d] assms(3) x show ?thesis
    by (simp add: download_failed_def)
qed

theorem truncated_download_fails_witness:
  "\<exists>e s. copy_from_container_to script_download script_library any_disk ''c1'' ''/a'' [''out''] (script_client, Map.empty) =
     (Inl e, s)"
proof -
  obtain c1 where d: "start_download script_download (download_context ''c1'' ''/a'') ''c1'' ''/a'' script_client =
      (Inr (7, cut_off), c1)" using script_download_starts by blast
  have "of_rd_ec script_download OtherError = Some (EcOther ''ec'')"
    by (simp add: of_rd_ec_def script_download_def script_stream_def)
  moreover have "stopped_by_pull [''he'', ''llo''] (script_library [''he'', ''llo''] True)"
    by (simp add: stopped_by_pull_def script_library_def)
  ultimately show ?thesis
    using truncated_download_fails [OF d cut_off_blocks, of _ script_library any_disk "[''out'']" Map.empty] by blast
qed

text \<open>
  C23.  What is written goes out in order: on every kind of transport \<open>write_all\<close> comes back, what the
  transport accepted is a beginning of the bytes whatever happened, and all of them when no error
  is reported; and its outcome is one the event-driven model of the exchange allows.
\<close>

theorem written_in_order:
  assumes "write_all_on (methods_of io t) bytes w = ((ec, n), w')"
  shows "\<exists>out. write_all_on (noting_writes (methods_of io t)) bytes (w, []) = ((ec, n), (w', out)) \<and>
    prefix out bytes \<and> (ec = None \<longrightarrow> out = bytes) \<and> (\<exists>ws. write_all bytes ws = Some (ec, n))"
proof -
  from assms obtain out where o: "write_all_on (noting_writes (methods_of io t)) bytes (w, []) = ((ec, n), (w', out))"
    using write_all_on_noted [of "methods_of io t" bytes w "(ec, n)" w' "[]"] by blast
  from write_all_on_sends [OF o] obtain rest where "bytes = out @ rest" "ec = None \<longrightarrow> rest = []" by auto
  with o write_all_refined [of bytes "methods_of io t" w] assms show ?thesis by auto
qed

theorem written_in_order_witness:
  "\<exists>out. write_all_on (noting_writes (methods_of script_asio \<lparr>tr_kind = TlsKind, tr_handle = 1, tr_io_timeout = None\<rparr>))
       ''abc'' ([], []) = ((None, 3), ([], out)) \<and> out = ''abc''"
proof -
  have "write_all_on (methods_of script_asio \<lparr>tr_kind = TlsKind, tr_handle = 1, tr_io_timeout = None\<rparr>) ''abc'' [] =
      ((None, 3), [])"
    by (simp add: write_all_on.simps methods_of_def tls_methods_def bounded_write_some_def bounded_io_def
        run_pending_def script_asio_def done_op_def)
  from written_in_order [OF this] show ?thesis by blast
qed

text \<open>
  C24.  A kept connection that went stale: within a session a GET that fails on it is repeated once
  on a fresh connection; a timeout is not repeated, and no other method uses the kept connection
  at all, so no request with an effect is ever sent twice.
\<close>

theorem stale_connection_retried_once:
  fixes net :: "'w net" and c :: "'w client"
  defines "io \<equiv> tt_io (cl_timeouts c)"
  assumes "cl_session_transport c = Some conn"
    and "perform net m t b h conn True (c\<lparr>cl_world := net_set_io_timeout net conn io (cl_world c)\<rparr>) =
      (Inl e, c2)"
  shows "request net m t b h c =
    (if \<not> cl_session_enabled c \<or> m \<noteq> ''GET'' then fresh_request net m t b h (cl_timeouts c) False c
     else if is_timeout e then (Inl e, c2\<lparr>cl_session_transport := None\<rparr>)
     else fresh_request net m t b h (cl_timeouts c) True (c2\<lparr>cl_session_transport := None\<rparr>))"
proof (cases "cl_session_enabled c \<and> m = ''GET''")
  case True
  then show ?thesis
    using assms perform_docker_error [OF assms(3)]
    by (simp add: request_def request_with_io_timeout_def andThen_apply world_do_def drop_session_transport_def)
next
  case False
  then show ?thesis using request_not_reused [of c m net t b h] by (simp add: request_def)
qed




theorem stale_connection_retried_once_witness:
  "shown rs_status_code (request (stale_net ended) ''GET'' ''/v1/info'' [] [] kept_client) =
     (Inr 200, [(''GET'', ''/v1/info'')])"
proof -
  let ?net = "stale_net ended"
  let ?c1 = "kept_client\<lparr>cl_world := net_set_io_timeout ?net 3 (tt_io (cl_timeouts kept_client))
    (cl_world kept_client)\<rparr>"
  have t: "cl_session_transport kept_client = Some 3" "cl_session_enabled kept_client"
    by (simp_all add: kept_client_def)
  have "\<exists>e c2. perform ?net ''GET'' ''/v1/info'' [] [] 3 True ?c1 = (Inl e, c2) \<and> \<not> is_timeout e \<and>
      c2 = ?c1"
    by (simp add: perform_def perform_result_def stale_net_def script_net_def transport_error_def is_timeout_def
        kept_client_def script_client_def new_client_def)
  then obtain e where p: "perform ?net ''GET'' ''/v1/info'' [] [] 3 True ?c1 = (Inl e, ?c1)" "\<not> is_timeout e"
    by blast
  have "request ?net ''GET'' ''/v1/info'' [] [] kept_client =
      fresh_request ?net ''GET'' ''/v1/info'' [] [] (cl_timeouts kept_client) True
        (?c1\<lparr>cl_session_transport := None\<rparr>)"
    using stale_connection_retried_once [OF t(1) p(1)] t(2) p(2) by simp
  then show ?thesis
    by (simp add: fresh_request_def andThen_apply world_res_def perform_def perform_result_def stale_net_def
        script_net_def ended_def shown_def kept_client_def script_client_def new_client_def quiet_def
        make_request_def modify_def Let_def)
qed

text \<open>
  C25.  The reaper comes up or fails in bounded time: with time that only moves forward, starting
  the daemon's reaper and registering a filter return within 101 turns of the handshake, which
  the budget of 20 seconds at 200 milliseconds a turn bounds.
\<close>

theorem reaper_boot_returns:
  assumes "reaper_time_runs rio"
  shows "boot_daemon (Suc 100) rio c \<noteq> None \<and> ensure_started (Suc 100) rio s \<noteq> None \<and>
    register_filter (Suc 100) rio key val s \<noteq> None"
proof -
  have b: "boot_daemon (Suc 100) rio c \<noteq> None" for c
    using greet_returns [OF assms]
    by (auto simp: boot_daemon_def runThen_def split: option.splits prod.splits sum.splits)
  have d: "daemon_locked (Suc 100) rio s \<noteq> None"
    using b [of "fst s"]
    by (cases s) (auto simp: daemon_locked_def Let_def split: option.splits prod.splits sum.splits)
  have "ensure_started (Suc 100) rio s \<noteq> None"
    using d by (auto simp: ensure_started_def runThen_def split: option.splits prod.splits sum.splits)
  moreover have "register_filter (Suc 100) rio key val s \<noteq> None"
    using d
    by (auto simp: register_filter_def runThen_def split: option.splits prod.splits sum.splits)
      (metis prod_cases3)
  ultimately show ?thesis using b by blast
qed

theorem reaper_boot_returns_witness:
  "boot_daemon 101 (script_reap start_fails) script_client \<noteq> None"
  using reaper_boot_returns [OF script_reaper_time_runs, of start_fails script_client] by simp



text \<open>
  C27.  Pulling and its back-off: as long as the daemon answers a pull with a server error, the pull
  is asked for again after a pause that doubles each time, \<open>left\<close> more times at most; then the
  last answer is the error the caller sees.
\<close>

theorem pull_gives_up:
  assumes "\<forall>i \<le> left. request net ''POST'' t [] h (s i) = (Inr (r i), u i) \<and>
      500 \<le> rs_status_code (r i) \<and> rs_status_code (r i) \<le> 599"
    and "\<forall>i < left. s (Suc i) = (u i)\<lparr>cl_world := net_sleep net (d * 2 ^ i) (cl_world (u i))\<rparr>"
  shows "pull_loop net img t h d left (s 0) =
    (Inl (response_error (''pull_image('' @ quoted img @ '')'') (r left) img), u left)"
proof -
  have "pull_loop net img t h d left (s 0) = pull_loop net img t h (d * 2 ^ left) (left - left) (s left)"
    using assms by (intro pull_loop_steps) auto
  moreover have "pull_loop net img t h (d * 2 ^ left) 0 (s left) =
      (Inl (response_error (''pull_image('' @ quoted img @ '')'') (r left) img), u left)"
    using assms(1) by (intro pull_loop_fail) auto
  ultimately show ?thesis by simp
qed

theorem pull_gives_up_witness:
  "\<exists>e. pull_loop (script_net start_fails) ''x'' ''/v1/pull'' [] 1000 2 script_client =
     (Inl e, script_client\<lparr>cl_world := \<lparr>sc_now = 3000, sc_sent = replicate 3 (''POST'', ''/v1/pull'')\<rparr>\<rparr>)"
proof -
  let ?at = "\<lambda>now n. script_client\<lparr>cl_world := \<lparr>sc_now = now, sc_sent = replicate n (''POST'', ''/v1/pull'')\<rparr>\<rparr>"
  let ?now = "\<lambda>i::nat. if i = 0 then 0 else if i = 1 then 1000 else (3000::int)"
  have f: "start_fails ''POST'' ''/v1/pull'' = (500, ''boom'')" by code_simp
  have s0: "?at (?now 0) 0 = script_client"
    by (simp add: script_client_def new_client_def quiet_def)
  have "pull_loop (script_net start_fails) ''x'' ''/v1/pull'' [] 1000 2 (?at (?now 0) 0) =
     (Inl (response_error (''pull_image('' @ quoted ''x'' @ '')'') (reply (500, ''boom'')) ''x''), ?at (?now 2) (Suc 2))"
  proof (rule pull_gives_up [where s = "\<lambda>i. ?at (?now i) i" and u = "\<lambda>i. ?at (?now i) (Suc i)"
        and r = "\<lambda>i. reply (500, ''boom'')" and left = 2 and d = 1000])
    show "\<forall>i\<le>2. request (script_net start_fails) ''POST'' ''/v1/pull'' [] [] (?at (?now i) i) =
        (Inr (reply (500, ''boom'')), ?at (?now i) (Suc i)) \<and>
        500 \<le> rs_status_code (reply (500, ''boom'')) \<and> rs_status_code (reply (500, ''boom'')) \<le> 599"
      by (simp add: script_request f sent_def replicate_append_same)
    show "\<forall>i<2. ?at (?now (Suc i)) (Suc i) = (?at (?now i) (Suc i))\<lparr>cl_world :=
        net_sleep (script_net start_fails) (1000 * 2 ^ i) (cl_world (?at (?now i) (Suc i)))\<rparr>"
      by (auto simp: script_net_def less_2_cases_iff)
  qed
  then show ?thesis unfolding s0 by (simp add: numeral_3_eq_3)
qed

section \<open>Commands, environments and connection strings\<close>

text \<open>
  C28.  A POSIX shell reading the script built for the compose container sees each variable
  assignment and then each argument as one word with exactly the given text: nothing in a value
  or an argument can end its word or start another.
\<close>

theorem env_wrapped_script_words:
  assumes "\<forall>(k, v) \<in> set env. env_name_ok k"
  shows "read_words (sh_word False []) (length env + length argv) (build_env_wrapped_script argv env) =
    Some (map (\<lambda>(k, v). k @ ''='' @ v) env @ argv)"
  using assms by (rule read_env_wrapped_script)

theorem env_wrapped_script_words_witness:
  "read_words (sh_word False []) (length [(''A'', ''x'' @ [CHR 0x27])] + length [''echo'', ''$A; rm''])
     (build_env_wrapped_script [''echo'', ''$A; rm''] [(''A'', ''x'' @ [CHR 0x27])]) =
   Some [''A=x'' @ [CHR 0x27], ''echo'', ''$A; rm'']"
  by (subst env_wrapped_script_words) (simp_all add: env_name_ok_def sh_special_def)

text \<open>
  C29.  What a child process finds in its environment: for every variable the last override given for it,
  else the parent's entry, on POSIX, and on Windows through the sorted environment block, where names
  are compared without regard to case.
\<close>

theorem child_variables:
  assumes "CHR ''='' \<notin> set k" "\<forall>(k', v) \<in> set env. CHR ''='' \<notin> set k'"
    and "build_environment_block io env w = Inr block" "wn_environ io w = Some parent"
    and "\<forall>e \<in> set parent. e \<noteq> [] \<and> 0 \<notin> set e"
    and "\<forall>(k, v) \<in> set env. wide_key (widen io k) \<and> 0 \<notin> set (widen io k @ widen io v)" "wide_key wk"
  shows "List.find (names_entry k) (merge_environ env inherited) =
      (case List.find (\<lambda>(k', v). k = k') (rev env) of
         Some (k', v) \<Rightarrow> Some (k' @ ''='' @ v) | None \<Rightarrow> List.find (names_entry k) inherited) \<and>
    List.find (names_wide (wn_fold_case io) wk) (block_entries block) =
      (case List.find (\<lambda>(k', v). map (wn_fold_case io) wk = map (wn_fold_case io) k')
              (rev (map (\<lambda>(k, v). (widen io k, widen io v)) env)) of
         Some (k', v) \<Rightarrow> Some (k' @ wide_eq # v)
       | None \<Rightarrow> List.find (names_wide (wn_fold_case io) wk) parent)"
  using child_variable_posix [OF assms(1,2)] child_variable_windows [OF assms(3-7)] unfolding environ_entry_def by blast

theorem child_variables_witness:
  "List.find (names_entry ''A'') (merge_environ [(''A'', ''2''), (''C'', []), (''A'', ''3'')] [''A=1'', ''B=x'']) = Some ''A=3''"
proof -
  obtain block where b: "build_environment_block script_win [(''A'', ''2''), (''C'', []), (''A'', ''3'')] () = Inr block"
    by (simp add: build_environment_block_def script_win_def)
  have p: "wn_environ script_win () = Some [[65, 61, 49]]" by (simp add: script_win_def)
  have w: "wide_key [65]" by (simp add: wide_key_def)
  from child_variables [OF _ _ b p _ _ w, of "''A''" "[''A=1'', ''B=x'']"] show ?thesis
    by (simp add: script_win_def widen_def wide_key_def)
qed

text \<open>
  C30.  A child process leaves no descriptor behind: on Windows every handle gained is released, whatever
  fails; on POSIX the write end of the output pipe is closed before the first read, and at the end
  both ends are, except after a failed spawn, which leaves the read end open.
\<close>

theorem child_handles:
  assumes "spawn_posix (watched_posix px) argv dir env file (w, []) = Some (r, (w1, es))"
    and "spawn_windows (watched_win wx) argv dir env file (v, []) = Some (q, (v1, hs))"
  shows "holding hs {#} = {#} \<and>
    (es = [] \<or>
     (\<exists>rd wr. es = [Gained rd, Gained wr, Released rd, Released wr]) \<or>
     (\<exists>rd wr e. r = Inl e \<and> es = [Gained rd, Gained wr, Spawned, Released wr] \<and> holding es {#} = {#rd#}) \<or>
     (\<exists>rd wr n. es = [Gained rd, Gained wr, Spawned, Released wr] @ replicate n (ReadFrom rd) @ [Released rd] \<and>
        holding es {#} = {#}))"
  using spawn_posix_calls [OF assms(1)] spawn_windows_holds [OF assms(2)] by auto

theorem child_handles_witness:
  "\<exists>r es. spawn_windows (watched_win script_win) [''true''] None [] None ((), []) = Some (r, ((), es)) \<and>
     Gained 6 \<in> set es \<and> holding es {#} = {#}"
proof -
  obtain r where r: "spawn_posix (watched_posix script_posix) [''true''] None [] None ((), []) =
      Some (r, ((), [Gained 3, Gained 4, Spawned, Released 4, ReadFrom 3, Released 3]))"
    using script_posix_runs by blast
  obtain q es where q: "spawn_windows (watched_win script_win) [''true''] None [] None ((), []) = Some (q, ((), es))"
      "Gained 6 \<in> set es"
    using script_win_runs by blast
  from child_handles [OF r q(1)] q show ?thesis by blast
qed

text \<open>
  C31.  Connection URLs are read back: scheme, user, password, host (IPv6 literals included), port, path
  and parameters come out as they went in, whatever characters the encoded parts hold.
\<close>

theorem connection_url_read_back:
  assumes "url_ok cx"
  shows "read_url (url_to_string cx) = Some (view_of cx)"
  using assms by (rule read_url_to_string)

theorem connection_url_read_back_witness:
  "read_url (url_to_string (with_url_param ''a&b'' ''='' (with_url_database ''d/b'' (with_url_port 5432
      (with_url_host ''::1'' (with_url_password ''p@:/'' (with_url_user ''u'' (connection_url ''postgresql''))))))))
   = Some \<lparr>uv_scheme = ''postgresql'', uv_userinfo = Some (''u'', Some ''p@:/''), uv_host = ''::1'',
       uv_port = Some 5432, uv_path = Some ''d/b'', uv_params = [(''a&b'', ''='')]\<rparr>"
  by (subst connection_url_read_back) (simp_all add: url_ok_def view_of_def url_defs with_url_param_def)



section \<open>Archives and texts\<close>









section \<open>Requests, deadlines and logs\<close>



text \<open>
  C38.  The throwaway helper that seeds a volume is removed whatever the seed did: after a failed
  seed its removal is asked for and the seed's own failure is reported, after a good one the
  outcome is that of the removal.
\<close>

theorem volume_helper_removed:
  assumes "with_helper hio spec seed c = Some (r, c')"
  shows "(\<exists>e. r = Inl e \<and> create_container (ho_net hio) spec None c = (Inl e, c')) \<or>
    (\<exists>helper_id c1 c2 q. create_container (ho_net hio) spec None c = (Inr helper_id, c1) \<and>
       seed helper_id c1 = Some (q, c2) \<and>
       c' = snd (remove_container (ho_net hio) helper_id True True c2) \<and>
       (\<forall>e. q = Inl e \<longrightarrow> r = Inl e) \<and>
       (q = Inr () \<longrightarrow> r = fst (remove_container (ho_net hio) helper_id True True c2)))"
  using assms by (rule with_helper_cases)

theorem volume_helper_removed_witness:
  "\<exists>c1 c2. create_container (script_net start_fails) (empty_create_spec\<lparr>cs_image := ''x''\<rparr>) None
      script_client = (Inr ''c1'', c1) \<and>
    with_helper (script_handles start_fails) (empty_create_spec\<lparr>cs_image := ''x''\<rparr>)
      (\<lambda>helper_id. seed_linux (script_handles start_fails) helper_id [] ''/m'') script_client =
    Some (Inl (DockerError (''start_container(c1) failed: HTTP 500 boom'') (Some 500) ''c1''),
      snd (remove_container (script_net start_fails) ''c1'' True True c2))"
proof -
  let ?hio = "script_handles start_fails" and ?spec = "empty_create_spec\<lparr>cs_image := ''x''\<rparr>"
  let ?e = "DockerError (''start_container(c1) failed: HTTP 500 boom'') (Some 500) ''c1''"
  let ?seed = "\<lambda>helper_id. seed_linux ?hio helper_id [] ''/m''"
  have net: "ho_net ?hio = script_net start_fails" by (simp add: script_defs)
  have "map_option (shown id) (with_helper ?hio ?spec ?seed script_client) =
      Some (Inl ?e, [(''POST'', ''/v1/containers/create''), (''POST'', ''/v1/containers/c1/start''),
         (''DELETE'', ''/v1/containers/c1?force=true&v=true'')])"
    by code_simp
  then obtain c' where r: "with_helper ?hio ?spec ?seed script_client = Some (Inl ?e, c')"
    by (auto simp: shown_Inl)
  have "shown id (create_container (script_net start_fails) ?spec None script_client) =
      (Inr ''c1'', [(''POST'', ''/v1/containers/create'')])"
    by code_simp
  then obtain c1 where c1: "create_container (script_net start_fails) ?spec None script_client = (Inr ''c1'', c1)"
    by (auto simp: shown_Inr)
  from volume_helper_removed [OF r] c1 net r show ?thesis by auto
qed

text \<open>
  C39.  An upload whose source fails half way is cut off: the blocks written before are all the
  daemon gets, the final block that would complete the body is never sent, the connection is
  closed and the caller sees the source's own error.
\<close>

theorem failed_source_cuts_upload:
  assumes "\<And>b w. fst (si_write_block io conn b w) = None" and "fst (si_write io conn req (cl_world c)) = None"
  shows "write_chunked_request io conn req \<lparr>pr_blocks = bs, pr_failure = Some e\<rparr> context rid c =
    (Inl e, c\<lparr>cl_world := net_close (si_net io) conn
       (fold (\<lambda>b w. snd (si_write_block io conn b w)) (filter (\<lambda>b. b \<noteq> []) bs)
          (snd (si_write io conn req (cl_world c))))\<rparr>)"
proof -
  have each: "each (\<lambda>b. if b = [] then ret () else write_block io conn context rid b) bs c1 =
      (Inr (), c1\<lparr>cl_world := fold (\<lambda>b w. snd (si_write_block io conn b w)) (filter (\<lambda>b. b \<noteq> []) bs)
                  (cl_world c1)\<rparr>)" for c1
  proof (induction bs arbitrary: c1)
    case (Cons b bs)
    obtain w where w: "si_write_block io conn b (cl_world c1) = (None, w)"
      using assms(1) [of b "cl_world c1"] by (cases "si_write_block io conn b (cl_world c1)") auto
    have "write_block io conn context rid b c1 = (Inr (), c1\<lparr>cl_world := w\<rparr>)"
      by (simp add: write_block_def andThen_apply world_op_def w)
    with Cons.IH w show ?case by (simp add: andThen_apply)
  qed simp
  obtain w0 where w0: "si_write io conn req (cl_world c) = (None, w0)"
    using assms(2) by (cases "si_write io conn req (cl_world c)") auto
  show ?thesis
    by (simp add: write_chunked_request_def send_on_def andThen_apply world_op_def w0 each catching_def
        close_and_throw_def close_transport_def world_do_def)
qed

theorem failed_source_cuts_upload_witness:
  "write_chunked_request (script_stream ended) 7 (make_request (script_net ended) (cl_host script_client) ''PUT'' ''/t'')
     \<lparr>pr_blocks = [''ab'', [], ''c''], pr_failure = Some (Foreign ''gone'')\<rparr> ''upload'' ''c1'' script_client =
   (Inl (Foreign ''gone''), sent ''PUT'' ''/t'' script_client)"
  using failed_source_cuts_upload [of "script_stream ended" 7
      "make_request (script_net ended) (cl_host script_client) ''PUT'' ''/t''" script_client
      "[''ab'', [], ''c'']" "Foreign ''gone''" "''upload''" "''c1''"]
  by (simp add: script_stream_def script_net_def make_request_def sent_def)



section \<open>Further facts\<close>

text \<open>
  Decoding the base64 of any bytes gives the bytes back, so no two payloads share an
  encoding.
\<close>

lemma base64_roundtrip:
  "base64_decode (base64_encode s) = s \<and> (base64_encode s = base64_encode t \<longleftrightarrow> s = t)"
  using base64_decode_encode b64.enc_eq_iff by blast

text \<open>
  The Windows command line of any argument vector splits back into that vector under the
  rules of the C runtime, backslashes and quotes included, so two vectors never share a line.
\<close>

lemma command_line_words:
  "read_words (win_word False 0 []) (length argv) (build_command_line argv) = Some argv"
  using win.read_words_join [of argv "length argv"] by (simp add: build_command_line_def)

text \<open>
  The handle of a finished run: it removes its container on drop unless the container is a
  reusable one (asked for, and reuse enabled globally), nothing has been torn down yet, and the
  hooks and ports are the request's.
\<close>

lemma run_hands_over:
  assumes "runner_run rio req c = Some (Inr h, c')"
  shows "hd_remove_on_drop h = (\<not> (cr_reuse req \<and> reuse_enabled rio)) \<and> \<not> hd_dropped h \<and>
    \<not> hd_stopping_fired h \<and> hd_stopping_hooks h = cr_stopping_hooks req \<and>
    hd_exposed_ports h = cr_exposed_ports req"
  using assms by (rule runner_run_handle)

text \<open>
  A wait for a port or for an HTTP answer fails for two reasons only: the container has no
  such published port (or cannot be inspected), or the startup timeout, and then the deadline
  has passed.  A probe that fails never ends the wait.
\<close>

lemma probing_waits_fail_late:
  assumes "wait_for_port fuel wio cid port i deadline c = Some (Inl e, c') \<or>
      wait_for_http fuel wio cid path port expected i deadline c = Some (Inl e, c')"
  shows "mapped_host_port (wi_net wio) cid port c = (Inl e, c') \<or>
    (\<exists>m. e = StartupTimeoutError m cid \<and> deadline \<le> now_of wio c')"
  using assms
proof
  assume "wait_for_port fuel wio cid port i deadline c = Some (Inl e, c')"
  from port_wait_failure [OF this] show ?thesis by (auto simp: past_def)
next
  assume "wait_for_http fuel wio cid path port expected i deadline c = Some (Inl e, c')"
  from http_wait_failure [OF this] show ?thesis by (auto simp: past_def)
qed

text \<open>
  The query of a container creation is read back by the daemon as exactly the name and the
  platform that were asked for, whatever characters they hold.
\<close>

lemma create_query_read_back:
  "parse_query (build_create_query url_encode spec) =
     Some ((case cs_name spec of Some n \<Rightarrow> [(''name'', n)] | None \<Rightarrow> []) @
           (case cs_platform spec of Some p \<Rightarrow> [(''platform'', p)] | None \<Rightarrow> []))"
proof -
  let ?ps = "(case cs_name spec of Some n \<Rightarrow> [(''name'', n)] | None \<Rightarrow> []) @
           (case cs_platform spec of Some p \<Rightarrow> [(''platform'', p)] | None \<Rightarrow> [])"
  have "build_create_query url_encode spec = query_of url_encode ?ps"
  proof -
    have "query_of url_encode [] = []" by (simp add: query_of_def)
    then show ?thesis
      using append_query_of [of url_encode _ _ "[]"] append_query_of [of url_encode _ _ "[_]"]
      by (cases "cs_name spec"; cases "cs_platform spec") (simp_all add: build_create_query_def Let_def)
  qed
  moreover have "\<forall>(k, v) \<in> set ?ps. query_key k" by (auto simp: query_key_def split: option.splits)
  ultimately show ?thesis by (simp add: parse_query_of)
qed

text \<open>
  Connection strings: whatever the values hold, libpq reads the quoted words back one for one.
\<close>

lemma conninfo_words:
  "length xs \<le> fuel \<Longrightarrow> read_words pq_value fuel (join (map quote_conninfo_value xs) '' '') = Some xs"
  using pq.read_words_join [of xs fuel] by simp

text \<open>
  Docker hosts: the host and the port of a TCP address are read back from its URL, and every
  address that is accepted for TCP or TLS has a port between 1 and 65535.
\<close>

lemma docker_host_ports:
  assumes "CHR ''/'' \<notin> set h" "h = [] \<or> hd h \<noteq> CHR ''[''" "1 \<le> p" "p \<le> 65535"
  shows "parse_docker_host (''tcp://'' @ h @ CHR '':'' # to_dec p) =
      Inr (docker_host Tcp (''tcp://'' @ h @ CHR '':'' # to_dec p) [] h p) \<and>
    (\<forall>url d. parse_docker_host url = Inr d \<and> dh_scheme d \<in> {Tcp, Https} \<longrightarrow>
       1 \<le> dh_port d \<and> dh_port d \<le> 65535)"
proof -
  have "to_lower ''tcp'' = ''tcp''" by code_simp
  then have "split_scheme (''tcp://'' @ h @ CHR '':'' # to_dec p) = (''tcp'', h @ CHR '':'' # to_dec p)"
    by (simp add: split_scheme_def starts_with_def)
  moreover have "parse_host_port (h @ CHR '':'' # to_dec p) 2375 = Inr (h, p)"
    using assms by (intro parse_host_port_of split_host_port_named) auto
  ultimately show ?thesis using parse_docker_host_port by (auto simp: parse_docker_host_def)
qed

text \<open>
  The reuse hash is 16 hexadecimal digits and tells apart any two configurations that differ
  in one byte.
\<close>

lemma reuse_hash_one_byte:
  "length (reuse_hash s) = 16 \<and> (reuse_hash (p @ c # q) = reuse_hash (p @ d # q) \<longleftrightarrow> c = d)"
proof -
  have "unat (foldl fnv_step kOffsetBasis (p @ c # q)) = unat (foldl fnv_step kOffsetBasis (p @ d # q)) \<longleftrightarrow> c = d"
    by (simp add: fnv_suffix_inject fnv_step_byte_inject flip: word_unat_eq_iff)
  then have "reuse_hash (p @ c # q) = reuse_hash (p @ d # q) \<longleftrightarrow> c = d"
    by (metis hex_value_reuse_hash)
  then show ?thesis by (simp add: reuse_hash_def render_hash_digits)
qed

text \<open>
  The first mapped port is the published port of the least container port among the ports
  that have one of the wanted address family, and there is none only if no port has.
\<close>

lemma lowest_port_is_least:
  "(lowest_published_host_port ports family = None \<longleftrightarrow>
      (\<forall>e \<in> set ports. key_candidate ports family e = None)) \<and>
   (\<forall>hp. lowest_published_host_port ports family = Some hp \<longrightarrow>
      (\<exists>cp. (\<exists>e \<in> set ports. key_candidate ports family e = Some (cp, hp)) \<and>
        (\<forall>e \<in> set ports. \<forall>c h. key_candidate ports family e = Some (c, h) \<longrightarrow> cp \<le> c)))"
proof -
  have n: "lowest_published_host_port ports family = None \<longleftrightarrow>
      (\<forall>e \<in> set ports. key_candidate ports family e = None)"
    by (simp add: lowest_published_host_port_def lowest_loop_None)
  have "\<exists>cp. (\<exists>e \<in> set ports. key_candidate ports family e = Some (cp, hp)) \<and>
      (\<forall>e \<in> set ports. \<forall>c h. key_candidate ports family e = Some (c, h) \<longrightarrow> cp \<le> c)"
    if hp: "lowest_published_host_port ports family = Some hp" for hp
  proof -
    from hp obtain cp where "lowest_loop ports family None ports = Some (cp, hp)"
      by (auto simp: lowest_published_host_port_def)
    from lowest_loop_min [OF this] show ?thesis by auto
  qed
  with n show ?thesis by blast
qed

text \<open>
  Input for a command needs a connection that can signal its end: an exec with input over one
  that cannot is refused before anything is asked of the daemon; the connection is only opened
  and closed again.
\<close>

lemma stdin_needs_half_close:
  assumes "\<not> eo_detach opts" "eo_stdin_data opts = Some bytes"
    and "net_connect (si_net io) (cl_host c) (cl_timeouts c) (cl_world c) = (Inr conn, w)"
    and "\<not> si_supports_half_close io conn w"
  shows "exec_stream_impl io on_started cid cmd opts consumer deadline s c =
    (Inl (DockerError no_half_close None []), c\<lparr>cl_world := net_close (si_net io) conn w\<rparr>)"
proof -
  have o: "open_transport io c = (Inr conn, c\<lparr>cl_world := w\<rparr>)"
    using assms(3) by (simp add: open_transport_def world_res_def)
  have r: "require_stdin_capable io conn opts (c\<lparr>cl_world := w\<rparr>) =
      (Inl (DockerError no_half_close None []), c\<lparr>cl_world := net_close (si_net io) conn w\<rparr>)"
    using assms(2,4)
    by (simp add: require_stdin_capable_def andThen_apply close_and_throw_def close_transport_def world_do_def)
  have "andThen (open_transport io) (\<lambda>conn. andThen (require_stdin_capable io conn opts) (k conn)) c =
      (Inl (DockerError no_half_close None []), c\<lparr>cl_world := net_close (si_net io) conn w\<rparr>)" for k
    by (simp add: andThen_apply o r)
  then show ?thesis using assms(1) by (simp only: exec_stream_impl_def Let_def if_False)
qed

text \<open>
  Seeding a volume with a target that is not absolute is refused before anything is created,
  whichever of the sources it is.
\<close>

lemma volume_targets_absolute:
  assumes "\<exists>s \<in> set sources. relative_target s"
  shows "\<exists>t. populate hio volume_name sources mount_path img c = Some (Inl (target_not_absolute t), c)"
  using assms by (rule populate_relative)

text \<open>
  What a finished wait has seen: after a wait for the exit the daemon reported the container
  stopped with the wanted code; after a wait for health it reported it healthy.
\<close>

lemma finished_waits_saw:
  assumes "wait_for_exit fuel wio cid code deadline c = Some (Inr (), c1)"
    and "wait_for_healthcheck fuel wio cid deadline c1 = Some (Inr (), c2)"
  shows "(\<exists>c0 info. inspect_container (wi_net wio) cid c0 = (Inr info, c1) \<and> \<not> ci_running info \<and>
      (\<forall>k. code = Some k \<longrightarrow> ci_exit_code info = Some k)) \<and>
    (\<exists>c0 info. inspect_container (wi_net wio) cid c0 = (Inr info, c2) \<and>
      ci_health_status info = Some ''healthy'')"
  using wait_for_exit_saw [OF assms(1)] wait_for_healthcheck_saw [OF assms(2)] by blast

text \<open>
  The session of a wait: the connection kept alive across its polls belongs to the outermost
  wait, which leaves neither a connection nor an open session behind, whatever its outcome.
\<close>

lemma wait_leaves_no_session:
  assumes "\<not> cl_session_enabled c" "wait_until_ready fuel wio cid waits timeout tty c = Some (r, c')"
  shows "cl_session_transport c' = None \<and> \<not> cl_session_enabled c'"
  using assms
  by (auto simp: wait_until_ready_def with_session_run_def session_begin_def session_finish_def
      end_session_none end_session_def Let_def split: option.splits)

text \<open>
  Credentials from a helper are fetched once per time to live: the outcome of a fetch, a
  refusal included, is served without asking the helper again until exactly the time to live has
  gone by since the fetch came back; then the helper is asked again.
\<close>

lemma credential_cached_for_ttl:
  assumes "cache (helper, registry) = None" "fetch w = (auth, w1)"
  shows "\<exists>cache1.
    auth_from_credential_helper_cached clk now helper registry fetch ttl cache w = (auth, cache1, w1) \<and>
    (\<forall>w2. auth_from_credential_helper_cached clk now helper registry fetch ttl cache1 w2 =
       (if now w2 - now w1 < ttl * ticks_per_ms clk then (auth, cache1, w2)
        else (fst (fetch w2),
              cache1((helper, registry) \<mapsto>
                \<lparr>ce_auth = fst (fetch w2), ce_fetched_at = now (snd (fetch w2))\<rparr>),
              snd (fetch w2))))"
  using assms
  by (intro exI [of _ "cache((helper, registry) \<mapsto> \<lparr>ce_auth = auth, ce_fetched_at = now w1\<rparr>)"])
    (auto simp: auth_from_credential_helper_cached_def Let_def split_def)

text \<open>
  Deadlines never wrap: a deadline lies between now and the last representable moment, is
  exact whenever it fits, and what a wait does under it (the moment a sleep is cut to, the budget
  of a probe) stays within it.
\<close>

lemma deadlines_saturate:
  assumes "clock_ok clk" "now \<le> time_max clk" "0 \<le> delta"
  shows "now \<le> saturated_add clk now delta \<and> saturated_add clk now delta \<le> time_max clk \<and>
    (now + (delta + 1) * ticks_per_ms clk \<le> time_max clk \<longrightarrow>
       saturated_add clk now delta = now + delta * ticks_per_ms clk) \<and>
    cw_wake (clamped_wait_plan clk now val deadline) \<le> deadline \<and>
    (now + ticks_per_ms clk \<le> deadline \<longrightarrow>
       now + probe_budget clk now deadline * ticks_per_ms clk \<le> deadline) \<and>
    1 \<le> probe_budget clk now deadline \<and> probe_budget clk now deadline \<le> 5000"
  using saturated_add_ge [OF assms(1,2)] saturated_add_fits [OF assms(1,2)] saturated_add_exact [OF assms]
    clamped_wake_le probe_budget_within [OF assms(1)] probe_budget_bounds
  by blast

end
